(* ===== verification/Rack_Prelude.thy ===== *)
theory Rack_Prelude
  imports Main "HOL-Library.Word" "HOL-Library.List_Lexorder" "HOL-Library.Char_ord" "HOL-Library.Multiset"
begin

text \<open>
  What every component shares: the Go scalar types, the error values with their wrapping
  chains (\<open>errors.Is\<close>), the request context, effectful operations (a state transformer that
  returns an error or a value) with a weakest-precondition calculus, readers, and a few list
  lemmas.

  A Go \<open>string\<close> is a \<^typ>\<open>string\<close> (its bytes), a \<open>[]byte\<close> a list of 8-bit words,
  \<open>uint32\<close>/\<open>uint64\<close>/\<open>int64\<close> words of that width. Strings are ordered byte-wise and
  lexicographically, as Go orders them. The text of an error is kept as the literal part of
  its format; interpolated values are left out, since no code branches on them.
\<close>

section \<open>Scalar types\<close>

type_synonym bytes = "8 word list"
type_synonym uint32 = "32 word"
type_synonym uint64 = "64 word"
type_synonym int64 = "64 word"

definition str_bytes :: "string \<Rightarrow> bytes" where
  "str_bytes s = map (\<lambda>c. word_of_nat (of_char c)) s"

section \<open>Errors\<close>

text \<open>The sentinel errors of each package, one datatype per package.\<close>

datatype pg_err =
  ErrTenantNotFound | ErrRepositoryNotFound | ErrWorkspaceNotFound | ErrWorkspaceNameConflict
| ErrBranchNotFound | ErrBranchAlreadyExists | ErrDefaultBranchProtected | ErrDefaultBranchNotSet
| PgNonFastForward | ErrCommitNotFound | ErrImmutableMetadataMismatch | ErrNoCommonAncestor
| ErrCommitHistoryIncomplete | ErrCommitHistoryTooDeep | ErrMissingTenantContext
| ErrTenantNameConflict | ErrMergeLeaseHeld | ErrMergeLeaseNotFound | ErrMergeLeaseOwnership
| ErrMergeLeaseExpired | ErrMergeLeaseMismatch | ErrInvalidMergeLease | ErrNativeObjectNotFound
| ErrActiveTransactionNotFound | ErrInvalidNativePushPublication
| ErrNativePushIdempotencyConflict | ErrQuotaExceeded | ErrAssetNotFound | ErrNilContext
| ErrDestructiveMigrationNotMarked | ErrRetirementNotConfirmed | ErrMigrationChecksumMismatch

datatype cas_err = ErrInvalidScope | ErrInvalidHash | ErrHashMismatch | ErrCorruptObject | ErrNotFound

datatype sync_err =
  ErrInvalidFrame | ErrInvalidCanonicalFrame | ErrNonFastForward | ErrMissingAsset
| ErrUnsupportedContractVersion | ErrPullDiverged | ErrUpToDate | ErrInvalidPullEnvelope

datatype review_err =
  ErrInvalidPreviewRequest | ErrPreviewUnavailable | ErrInvalidSnapshot
| ErrUnsupportedSnapshotVersion | ErrInvalidSnapshotRoot | ErrInvalidCanonicalCBOR
| ErrInvalidMergeRequest | ErrMergeUnavailable

datatype native_err =
  ErrInvalidPack | ErrObjectNotFound | ErrInvalidNativePullFrame | ErrInvalidNativePush
| ErrDisconnectedPush

datatype misc_err =
  ErrRetentionNotInitialized | ErrMissingHash | ErrAssetBlobNotFound
| ErrMissingCredential | ErrMalformedCredential | ErrInvalidToken

text \<open>
  An error value. \<open>Wrapf\<close> is \<open>fmt.Errorf\<close> with one \<open>%w\<close>, \<open>Wrap2f\<close> with two; \<open>Errorf\<close> has none.
  The three struct errors unwrap to their sentinel. \<open>Ext\<close> is an error returned by code outside
  the repository (the contract library, CBOR, JSON), \<open>Fault\<close> an infrastructure failure (an
  operating system call or an SQL statement that failed for a reason the model does not
  compute), \<open>UniqueViolation\<close>, \<open>ForeignKeyViolation\<close> and \<open>CheckViolation\<close> the PostgreSQL error
  classes 23505, 23503 and 23514, and \<open>RowSecurityViolation\<close> 42501.
\<close>

datatype goerr =
  Pg pg_err
| Cas cas_err
| Sync sync_err
| Review review_err
| Native native_err
| Misc misc_err
| Errorf string
| Wrapf string goerr
| Wrap2f string goerr goerr
| NonFastForwardError string string
| PullDivergedError string
| NonFastForwardHeadError string
| Ext string
| Fault string
| UniqueViolation
| ForeignKeyViolation
| CheckViolation
| RowSecurityViolation

text \<open>\<open>errors.Is\<close>: the error itself or anything it wraps equals the target.\<close>

fun err_is :: "goerr \<Rightarrow> goerr \<Rightarrow> bool" where
  "err_is (Wrapf s e) t = (Wrapf s e = t \<or> err_is e t)"
| "err_is (Wrap2f s e f) t = (Wrap2f s e f = t \<or> err_is e t \<or> err_is f t)"
| "err_is (NonFastForwardError h g) t = (NonFastForwardError h g = t \<or> t = Sync ErrNonFastForward)"
| "err_is (PullDivergedError h) t = (PullDivergedError h = t \<or> t = Sync ErrPullDiverged)"
| "err_is (NonFastForwardHeadError h) t = (NonFastForwardHeadError h = t \<or> t = Pg PgNonFastForward)"
| "err_is e t = (e = t)"

text \<open>\<open>errors.As\<close> for the two struct errors callers look for.\<close>

fun as_nff_head :: "goerr \<Rightarrow> string option" where
  "as_nff_head (NonFastForwardHeadError h) = Some h"
| "as_nff_head (Wrapf _ e) = as_nff_head e"
| "as_nff_head (Wrap2f _ e f) = (case as_nff_head e of Some h \<Rightarrow> Some h | None \<Rightarrow> as_nff_head f)"
| "as_nff_head _ = None"

fun as_nff :: "goerr \<Rightarrow> (string \<times> string) option" where
  "as_nff (NonFastForwardError h g) = Some (h, g)"
| "as_nff (Wrapf _ e) = as_nff e"
| "as_nff (Wrap2f _ e f) = (case as_nff e of Some h \<Rightarrow> Some h | None \<Rightarrow> as_nff f)"
| "as_nff _ = None"

text \<open>\<open>errors.As\<close> for a \<open>*pgconn.PgError\<close> with a given code.\<close>

definition isUniqueViolation :: "goerr \<Rightarrow> bool" where
  "isUniqueViolation e = err_is e UniqueViolation"

definition isForeignKeyViolation :: "goerr \<Rightarrow> bool" where
  "isForeignKeyViolation e = err_is e ForeignKeyViolation"

section \<open>The request context\<close>

text \<open>
  What the code reads from a \<open>context.Context\<close>: whether it is done (\<open>ctx.Err()\<close>) and the tenant
  identifier attached by \<open>SetTenantContext\<close>.
\<close>

record ctx =
  ctx_err :: "goerr option"
  ctx_tenant :: "string option"

section \<open>Effects\<close>

type_synonym ('w, 'a) eff = "'w \<Rightarrow> (goerr + 'a) \<times> 'w"

definition eret :: "'a \<Rightarrow> ('w, 'a) eff" where
  "eret x w = (Inr x, w)"

definition efail :: "goerr \<Rightarrow> ('w, 'a) eff" where
  "efail e w = (Inl e, w)"

definition ebind :: "('w, 'a) eff \<Rightarrow> ('a \<Rightarrow> ('w, 'b) eff) \<Rightarrow> ('w, 'b) eff" where
  "ebind m f w = (case m w of (Inl e, w') \<Rightarrow> (Inl e, w') | (Inr x, w') \<Rightarrow> f x w')"

text \<open>\<open>if err != nil { return h(err) }\<close> in general: the handler may itself recover.\<close>

definition ecatch :: "('w, 'a) eff \<Rightarrow> (goerr \<Rightarrow> ('w, 'a) eff) \<Rightarrow> ('w, 'a) eff" where
  "ecatch m h w = (case m w of (Inl e, w') \<Rightarrow> h e w' | (Inr x, w') \<Rightarrow> (Inr x, w'))"

text \<open>The result and error together, as Go returns them.\<close>

definition etry :: "('w, 'a) eff \<Rightarrow> ('w, goerr + 'a) eff" where
  "etry m w = (case m w of (r, w') \<Rightarrow> (Inr r, w'))"

definition ewrap :: "string \<Rightarrow> ('w, 'a) eff \<Rightarrow> ('w, 'a) eff" where
  "ewrap s m = ecatch m (\<lambda>e. efail (Wrapf s e))"

text \<open>A pure fallible computation.\<close>

definition elift :: "goerr + 'a \<Rightarrow> ('w, 'a) eff" where
  "elift r w = (r, w)"

text \<open>\<open>defer\<close>: the clean-up runs on every exit and its own error is dropped.\<close>

definition edefer :: "('w, 'a) eff \<Rightarrow> ('w, unit) eff \<Rightarrow> ('w, 'a) eff" where
  "edefer m fin w = (case m w of (r, w') \<Rightarrow> (r, snd (fin w')))"

definition eassert :: "bool \<Rightarrow> goerr \<Rightarrow> ('w, unit) eff" where
  "eassert b e = (if b then eret () else efail e)"

fun efor :: "'x list \<Rightarrow> ('x \<Rightarrow> ('w, unit) eff) \<Rightarrow> ('w, unit) eff" where
  "efor [] f = eret ()"
| "efor (x # xs) f = ebind (f x) (\<lambda>_. efor xs f)"

text \<open>A loop that threads an accumulator.\<close>

fun efold :: "'x list \<Rightarrow> 'a \<Rightarrow> ('x \<Rightarrow> 'a \<Rightarrow> ('w, 'a) eff) \<Rightarrow> ('w, 'a) eff" where
  "efold [] a f = eret a"
| "efold (x # xs) a f = ebind (f x a) (\<lambda>a'. efold xs a' f)"

subsection \<open>The same for pure results\<close>

fun rbind :: "goerr + 'a \<Rightarrow> ('a \<Rightarrow> goerr + 'b) \<Rightarrow> goerr + 'b" where
  "rbind (Inl e) f = Inl e"
| "rbind (Inr x) f = f x"

definition rwrap :: "(goerr \<Rightarrow> goerr) \<Rightarrow> goerr + 'a \<Rightarrow> goerr + 'a" where
  "rwrap g r = (case r of Inl e \<Rightarrow> Inl (g e) | Inr x \<Rightarrow> Inr x)"

definition rassert :: "bool \<Rightarrow> goerr \<Rightarrow> goerr + unit" where
  "rassert b e = (if b then Inr () else Inl e)"

fun rfor :: "'x list \<Rightarrow> ('x \<Rightarrow> goerr + unit) \<Rightarrow> goerr + unit" where
  "rfor [] f = Inr ()"
| "rfor (x # xs) f = rbind (f x) (\<lambda>_. rfor xs f)"

fun rfold :: "'x list \<Rightarrow> 'a \<Rightarrow> ('x \<Rightarrow> 'a \<Rightarrow> goerr + 'a) \<Rightarrow> goerr + 'a" where
  "rfold [] a f = Inr a"
| "rfold (x # xs) a f = rbind (f x a) (\<lambda>a'. rfold xs a' f)"

fun rmap :: "('x \<Rightarrow> goerr + 'y) \<Rightarrow> 'x list \<Rightarrow> goerr + 'y list" where
  "rmap f [] = Inr []"
| "rmap f (x # xs) = rbind (f x) (\<lambda>y. rbind (rmap f xs) (\<lambda>ys. Inr (y # ys)))"

lemma rbind_Inr_iff [simp]: "rbind m f = Inr y \<longleftrightarrow> (\<exists>x. m = Inr x \<and> f x = Inr y)"
  by (cases m) auto

lemma rwrap_Inr_iff [simp]: "rwrap g r = Inr x \<longleftrightarrow> r = Inr x"
  by (auto simp: rwrap_def split: sum.splits)

lemma rwrap_simps [simp]: "rwrap g (Inl e) = Inl (g e)" "rwrap g (Inr x) = Inr x"
  by (auto simp: rwrap_def)

lemma rassert_Inr_iff [simp]: "rassert b e = Inr u \<longleftrightarrow> b"
  by (simp add: rassert_def)

lemma rassert_simps [simp]: "rassert True e = Inr ()" "rassert False e = Inl e"
  by (auto simp: rassert_def)

lemma rfor_Inr_iff: "rfor xs f = Inr u \<longleftrightarrow> (\<forall>x \<in> set xs. f x = Inr ())"
  by (induction xs) auto

lemma rmap_Inr_iff: "rmap f xs = Inr ys \<longleftrightarrow> list_all2 (\<lambda>x y. f x = Inr y) xs ys"
  by (induction xs arbitrary: ys) (auto simp: list_all2_Cons1)

lemma rmap_length: "rmap f xs = Inr ys \<Longrightarrow> length ys = length xs"
  by (auto simp: rmap_Inr_iff dest: list_all2_lengthD)

subsection \<open>Weakest preconditions\<close>

text \<open>
  \<open>wp m Q E w\<close>: run from \<open>w\<close>, \<open>m\<close> either returns a value with \<open>Q\<close> or an error with \<open>E\<close>. The rules
  below are simplification rules, so a property of a handler becomes a formula over the
  states its calls leave.
\<close>

definition wp :: "('w, 'a) eff \<Rightarrow> ('a \<Rightarrow> 'w \<Rightarrow> bool) \<Rightarrow> (goerr \<Rightarrow> 'w \<Rightarrow> bool) \<Rightarrow> 'w \<Rightarrow> bool" where
  "wp m Q E w = (case m w of (Inl e, w') \<Rightarrow> E e w' | (Inr x, w') \<Rightarrow> Q x w')"

named_theorems wp_rule "weakest-precondition rules of the effect combinators"

lemma wp_eret [wp_rule]: "wp (eret x) Q E w = Q x w"
  by (simp add: wp_def eret_def)

lemma wp_efail [wp_rule]: "wp (efail e) Q E w = E e w"
  by (simp add: wp_def efail_def)

lemma wp_ebind [wp_rule]: "wp (ebind m f) Q E w = wp m (\<lambda>x. wp (f x) Q E) E w"
  by (auto simp: wp_def ebind_def split: prod.splits sum.splits)

lemma wp_ecatch [wp_rule]: "wp (ecatch m h) Q E w = wp m Q (\<lambda>e. wp (h e) Q E) w"
  by (auto simp: wp_def ecatch_def split: prod.splits sum.splits)

lemma wp_etry [wp_rule]: "wp (etry m) Q E w = wp m (\<lambda>x. Q (Inr x)) (\<lambda>e. Q (Inl e)) w"
  by (auto simp: wp_def etry_def split: prod.splits sum.splits)

lemma wp_ewrap [wp_rule]: "wp (ewrap s m) Q E w = wp m Q (\<lambda>e. E (Wrapf s e)) w"
  by (auto simp: wp_def ewrap_def ecatch_def efail_def split: prod.splits sum.splits)

lemma wp_edefer [wp_rule]:
  "wp (edefer m fin) Q E w =
     wp m (\<lambda>x w'. wp fin (\<lambda>_. Q x) (\<lambda>_. Q x) w') (\<lambda>e w'. wp fin (\<lambda>_. E e) (\<lambda>_. E e) w') w"
  by (auto simp: wp_def edefer_def case_prod_unfold split: sum.splits)

lemma wp_elift [wp_rule]:
  "wp (elift r) Q E w = (case r of Inl e \<Rightarrow> E e w | Inr x \<Rightarrow> Q x w)"
  by (auto simp: wp_def elift_def split: sum.splits)

lemma wp_eassert [wp_rule]: "wp (eassert b e) Q E w = (if b then Q () w else E e w)"
  by (simp add: eassert_def wp_eret wp_efail)

lemma wp_if [wp_rule]: "wp (if b then m else n) Q E w = (if b then wp m Q E w else wp n Q E w)"
  by simp

lemma wp_mono:
  "wp m Q E w \<Longrightarrow> (\<And>x w'. Q x w' \<Longrightarrow> Q' x w') \<Longrightarrow> (\<And>e w'. E e w' \<Longrightarrow> E' e w') \<Longrightarrow> wp m Q' E' w"
  by (auto simp: wp_def split: prod.splits sum.splits)

lemma wp_conj: "wp m Q E w \<Longrightarrow> wp m Q' E' w \<Longrightarrow> wp m (\<lambda>x w'. Q x w' \<and> Q' x w') (\<lambda>e w'. E e w' \<and> E' e w') w"
  by (auto simp: wp_def split: prod.splits sum.splits)

lemma wp_Inr: "wp m Q E w \<Longrightarrow> m w = (Inr x, w') \<Longrightarrow> Q x w'"
  by (simp add: wp_def)

lemma wp_Inl: "wp m Q E w \<Longrightarrow> m w = (Inl e, w') \<Longrightarrow> E e w'"
  by (simp add: wp_def)

lemma wp_I: "(\<And>x w'. m w = (Inr x, w') \<Longrightarrow> Q x w') \<Longrightarrow> (\<And>e w'. m w = (Inl e, w') \<Longrightarrow> E e w') \<Longrightarrow> wp m Q E w"
  by (auto simp: wp_def split: prod.splits sum.splits)

lemma wp_efor:
  assumes "P w" and "\<And>x w. x \<in> set xs \<Longrightarrow> P w \<Longrightarrow> wp (f x) (\<lambda>_. P) E w"
  shows "wp (efor xs f) (\<lambda>_. P) E w"
  using assms
proof (induction xs arbitrary: w)
  case Nil
  then show ?case by (simp add: wp_rule)
next
  case (Cons x xs)
  have "wp (f x) (\<lambda>_ w. wp (efor xs f) (\<lambda>_. P) E w) E w"
    by (rule wp_mono [where Q = "\<lambda>_. P" and E = E]) (use Cons in auto)
  then show ?case by (simp add: wp_rule)
qed

lemma wp_efold:
  assumes "P a w" and "\<And>x a w. x \<in> set xs \<Longrightarrow> P a w \<Longrightarrow> wp (f x a) P E w"
  shows "wp (efold xs a f) P E w"
  using assms
proof (induction xs arbitrary: a w)
  case Nil
  then show ?case by (simp add: wp_rule)
next
  case (Cons x xs)
  have "wp (f x a) (\<lambda>a' w. wp (efold xs a' f) P E w) E w"
    by (rule wp_mono [where Q = P and E = E]) (use Cons in auto)
  then show ?case by (simp add: wp_rule)
qed

subsection \<open>Inversion of successful runs\<close>

lemma ebind_Inr_iff:
  "ebind m f w = (Inr y, w'') \<longleftrightarrow> (\<exists>x w'. m w = (Inr x, w') \<and> f x w' = (Inr y, w''))"
  by (auto simp: ebind_def split: prod.splits sum.splits)

lemma ebind_Inl_iff:
  "ebind m f w = (Inl e, w'') \<longleftrightarrow>
     m w = (Inl e, w'') \<or> (\<exists>x w'. m w = (Inr x, w') \<and> f x w' = (Inl e, w''))"
  by (auto simp: ebind_def split: prod.splits sum.splits)

lemma eret_iff [simp]: "eret x w = (r, w') \<longleftrightarrow> r = Inr x \<and> w' = w"
  by (auto simp: eret_def)

lemma efail_iff [simp]: "efail e w = (r, w') \<longleftrightarrow> r = Inl e \<and> w' = w"
  by (auto simp: efail_def)

lemma elift_iff [simp]: "elift q w = (r, w') \<longleftrightarrow> r = q \<and> w' = w"
  by (auto simp: elift_def)

lemma eassert_Inr_iff: "eassert b e w = (Inr u, w') \<longleftrightarrow> b \<and> w' = w"
  by (auto simp: eassert_def)

lemma eassert_Inl_iff: "eassert b e w = (Inl e', w') \<longleftrightarrow> \<not> b \<and> e' = e \<and> w' = w"
  by (auto simp: eassert_def)

lemma ewrap_Inr_iff: "ewrap s m w = (Inr x, w') \<longleftrightarrow> m w = (Inr x, w')"
  by (auto simp: ewrap_def ecatch_def efail_def split: prod.splits sum.splits)

lemma ewrap_Inl_iff: "ewrap s m w = (Inl e, w') \<longleftrightarrow> (\<exists>e'. m w = (Inl e', w') \<and> e = Wrapf s e')"
  by (auto simp: ewrap_def ecatch_def efail_def split: prod.splits sum.splits)

lemma etry_iff: "etry m w = (r, w') \<longleftrightarrow> (\<exists>q. m w = (q, w') \<and> r = Inr q)"
  by (auto simp: etry_def split: prod.splits)

lemmas eff_inv = ebind_Inr_iff ewrap_Inr_iff eassert_Inr_iff etry_iff

text \<open>For evaluation: the combinators applied to a state.\<close>

lemmas eff_run = eret_def efail_def ebind_def ecatch_def etry_def ewrap_def elift_def eassert_def edefer_def

section \<open>Readers\<close>

text \<open>An \<open>io.Reader\<close>: the bytes it delivers, then end of file or an error.\<close>

record reader =
  rd_data :: bytes
  rd_err :: "goerr option"

text \<open>\<open>io.ReadAll(io.LimitReader(r, n))\<close>: an error behind the limit is never seen.\<close>

definition read_limited :: "nat \<Rightarrow> reader \<Rightarrow> goerr + bytes" where
  "read_limited n r =
     (if n \<le> length (rd_data r) then Inr (take n (rd_data r))
      else case rd_err r of None \<Rightarrow> Inr (rd_data r) | Some e \<Rightarrow> Inl e)"

lemma read_limited_within:
  "read_limited n r = Inr d \<Longrightarrow> length d < n \<Longrightarrow> d = rd_data r \<and> rd_err r = None"
  by (auto simp: read_limited_def split: if_splits option.splits)

section \<open>Lists\<close>

lemma find_eq_None [simp]: "find P xs = None \<longleftrightarrow> (\<forall>x \<in> set xs. \<not> P x)"
  by (induction xs) auto

lemma find_False [simp]: "find (\<lambda>_. False) xs = None"
  by (induction xs) auto

lemma find_SomeD: "find P xs = Some x \<Longrightarrow> x \<in> set xs \<and> P x"
  by (induction xs) (auto split: if_splits)

lemma find_append: "find P (xs @ ys) = (case find P xs of None \<Rightarrow> find P ys | Some x \<Rightarrow> Some x)"
  by (induction xs) auto

lemma find_map_upd:
  assumes "\<And>x. P (f x) \<longleftrightarrow> P x"
  shows "find P (map f xs) = map_option f (find P xs)"
  using assms by (induction xs) auto

lemma find_cong_set: "(\<And>x. x \<in> set xs \<Longrightarrow> P x = Q x) \<Longrightarrow> find P xs = find Q xs"
  by (induction xs) auto

text \<open>\<open>xs\<close> has at most one element with each key.\<close>

definition keys_unique :: "('a \<Rightarrow> 'k) \<Rightarrow> 'a list \<Rightarrow> bool" where
  "keys_unique k xs = distinct (map k xs)"

lemma keys_uniqueD: "keys_unique k xs \<Longrightarrow> x \<in> set xs \<Longrightarrow> y \<in> set xs \<Longrightarrow> k x = k y \<Longrightarrow> x = y"
  by (simp add: keys_unique_def distinct_map inj_on_def)

lemma keys_unique_snoc: "keys_unique k (xs @ [x]) \<longleftrightarrow> keys_unique k xs \<and> k x \<notin> k ` set xs"
  by (auto simp: keys_unique_def)

lemma keys_unique_map_upd:
  assumes "\<And>x. k (f x) = k x"
  shows "keys_unique k (map f xs) \<longleftrightarrow> keys_unique k xs"
  using assms by (simp add: keys_unique_def comp_def)

lemma keys_unique_filter: "keys_unique k xs \<Longrightarrow> keys_unique k (filter P xs)"
  by (induction xs) (auto simp: keys_unique_def)

lemma find_unique:
  assumes "keys_unique k xs" and "x \<in> set xs" and "\<And>y. P y \<longleftrightarrow> k y = k x"
  shows "find P xs = Some x"
proof (cases "find P xs")
  case None
  with assms show ?thesis by auto
next
  case (Some y)
  then have "y \<in> set xs" and "P y" by (auto dest: find_SomeD)
  with assms have "y = x" by (auto dest: keys_uniqueD)
  with Some show ?thesis by simp
qed

end
