(* ===== verification/Hex.thy ===== *)
theory Hex
  imports Rack_Prelude
begin

text \<open>
  Hexadecimal encoding of digests (Go's \<open>encoding/hex\<close>): lower-case encoding, and a decoder
  that accepts both cases, as the library does.
\<close>

definition hex_digits :: string where
  "hex_digits = ''0123456789abcdef''"

definition hexchar :: "nat \<Rightarrow> char" where
  "hexchar n = hex_digits ! n"

definition nibble :: "char \<Rightarrow> nat option" where
  "nibble c =
     (if CHR ''0'' \<le> c \<and> c \<le> CHR ''9'' then Some (of_char c - 48)
      else if CHR ''a'' \<le> c \<and> c \<le> CHR ''f'' then Some (of_char c - 87)
      else if CHR ''A'' \<le> c \<and> c \<le> CHR ''F'' then Some (of_char c - 55)
      else None)"

fun hex_encode :: "bytes \<Rightarrow> string" where
  "hex_encode [] = []"
| "hex_encode (b # bs) = hexchar (unat b div 16) # hexchar (unat b mod 16) # hex_encode bs"

text \<open>\<open>hex.DecodeString\<close>: an odd length or a foreign character is an error.\<close>

fun hex_decode :: "string \<Rightarrow> bytes option" where
  "hex_decode [] = Some []"
| "hex_decode [_] = None"
| "hex_decode (c # d # s) =
     (case (nibble c, nibble d, hex_decode s) of
        (Some h, Some l, Some bs) \<Rightarrow> Some (word_of_nat (16 * h + l) # bs)
      | _ \<Rightarrow> None)"

definition is_lower_hex :: "char \<Rightarrow> bool" where
  "is_lower_hex c \<longleftrightarrow> (CHR ''0'' \<le> c \<and> c \<le> CHR ''9'') \<or> (CHR ''a'' \<le> c \<and> c \<le> CHR ''f'')"

lemma hexchar_cases:
  assumes "n < 16"
  shows "nibble (hexchar n) = Some n \<and> is_lower_hex (hexchar n)"
proof -
  have "n \<in> {0, 1, 2, 3, 4, 5, 6, 7, 8, 9, 10, 11, 12, 13, 14, 15}"
    using assms by (auto simp: eval_nat_numeral less_Suc_eq)
  then show ?thesis
    by (elim insertE emptyE; simp add: hexchar_def hex_digits_def nibble_def is_lower_hex_def less_eq_char_def)
qed

lemma nibble_hexchar [simp]: "n < 16 \<Longrightarrow> nibble (hexchar n) = Some n"
  by (simp add: hexchar_cases)

lemma is_lower_hex_hexchar [simp]: "n < 16 \<Longrightarrow> is_lower_hex (hexchar n)"
  by (simp add: hexchar_cases)

lemma byte_unat_less: "unat (b :: 8 word) < 256"
proof -
  have "unat b < 2 ^ LENGTH(8)" by (rule unsigned_less)
  then show ?thesis by simp
qed

lemma hex_decode_encode [simp]: "hex_decode (hex_encode bs) = Some bs"
proof (induction bs)
  case (Cons b bs)
  have "unat b div 16 < 16" using byte_unat_less [of b] by simp
  with Cons show ?case by (simp add: mult_div_mod_eq)
qed simp

lemma length_hex_encode [simp]: "length (hex_encode bs) = 2 * length bs"
  by (induction bs) auto

lemma hex_encode_lower: "c \<in> set (hex_encode bs) \<Longrightarrow> is_lower_hex c"
proof (induction bs)
  case (Cons b bs)
  have "unat b div 16 < 16" using byte_unat_less [of b] by simp
  with Cons show ?case by auto
qed simp

lemma hex_encode_inject [simp]: "hex_encode a = hex_encode b \<longleftrightarrow> a = b"
  by (metis hex_decode_encode option.inject)

lemma hex_decode_length: "hex_decode s = Some bs \<Longrightarrow> length s = 2 * length bs"
  by (induction s arbitrary: bs rule: hex_decode.induct) (auto split: option.splits)

text \<open>Re-encoding a decoded lower-case string gives the string back.\<close>

lemma nibble_lower:
  assumes "is_lower_hex c"
  shows "\<exists>n. nibble c = Some n \<and> n < 16 \<and> hexchar n = c"
proof -
  have "(of_char c :: nat) \<in> {48..57} \<or> (of_char c :: nat) \<in> {97..102}"
    using assms by (auto simp: is_lower_hex_def less_eq_char_def)
  then have "(of_char c :: nat) \<in> {48, 49, 50, 51, 52, 53, 54, 55, 56, 57, 97, 98, 99, 100, 101, 102}"
    by (auto simp: atLeastAtMost_iff) presburger+
  then have "char_of (of_char c :: nat) \<in> char_of ` {48, 49, 50, 51, 52, 53, 54, 55, 56, 57, 97, 98, 99, 100, 101, 102 :: nat}"
    by (rule imageI)
  also have "\<dots> = set hex_digits"
    by code_simp
  finally have "c \<in> set hex_digits" by simp
  then obtain n where "n < length hex_digits" and "hex_digits ! n = c"
    by (auto simp: in_set_conv_nth)
  then have "n < 16" and "hexchar n = c" by (simp_all add: hexchar_def hex_digits_def)
  then show ?thesis by auto
qed

lemma hex_encode_decode:
  assumes "\<forall>c \<in> set s. is_lower_hex c" and "even (length s)"
  shows "\<exists>bs. hex_decode s = Some bs \<and> hex_encode bs = s"
  using assms
proof (induction s rule: hex_decode.induct)
  case (3 c d s)
  then obtain bs where bs: "hex_decode s = Some bs" "hex_encode bs = s" by auto
  from 3 obtain h l where hl: "nibble c = Some h" "h < 16" "hexchar h = c"
    "nibble d = Some l" "l < 16" "hexchar l = d"
    by (meson list.set_intros nibble_lower)
  then have "16 * h + l < 256" by simp
  then have "unat (word_of_nat (16 * h + l) :: 8 word) = 16 * h + l"
    by (simp only: unat_of_nat) simp
  then show ?case using bs hl by simp
qed auto

end
