(* ===== verification/Cas_Path.thy ===== *)
theory Cas_Path
  imports Hex
begin

text \<open>
  Scopes, hashes and storage paths of the content-addressed store
  (\<open>internal/server/storage/cas\<close>): \<open>NewScope\<close>, \<open>validateHash\<close>, \<open>canonicalHashString\<close>,
  \<open>safeJoin\<close> and the path of each kind of object. A Go path is the pair of its absoluteness
  and its \<open>/\<close>-separated elements; \<open>filepath.Join\<close>, \<open>Clean\<close> and \<open>Rel\<close> are written out on
  elements. BLAKE3 is a parameter \<open>H\<close> of the definitions that hash.
\<close>

section \<open>Scopes\<close>

record scope =
  sc_tenant :: string
  sc_repo :: string

definition is_alnum :: "char \<Rightarrow> bool" where
  "is_alnum c \<longleftrightarrow> (CHR ''A'' \<le> c \<and> c \<le> CHR ''Z'') \<or> (CHR ''a'' \<le> c \<and> c \<le> CHR ''z'')
     \<or> (CHR ''0'' \<le> c \<and> c \<le> CHR ''9'')"

definition scopeSegmentPattern :: "string \<Rightarrow> bool" where
  "scopeSegmentPattern s =
     (case s of [] \<Rightarrow> False
      | c # cs \<Rightarrow> is_alnum c \<and> length cs \<le> 127 \<and> list_all (\<lambda>d. is_alnum d \<or> d \<in> set ''._-'') cs)"

definition validateScopeSegment :: "string \<Rightarrow> goerr + unit" where
  "validateScopeSegment seg =
     (if seg = '''' then Inl (Errorf ''must not be empty'')
      else if seg = ''.'' \<or> seg = ''..'' then Inl (Errorf ''must not be a relative path segment'')
      else if \<not> scopeSegmentPattern seg then Inl (Errorf ''must match ^[A-Za-z0-9][A-Za-z0-9._-]{0,127}$'')
      else Inr ())"

definition NewScope :: "string \<Rightarrow> string \<Rightarrow> goerr + scope" where
  "NewScope tenantID repoID =
     rbind (rwrap (\<lambda>_. Wrapf ''tenant ID'' (Cas ErrInvalidScope)) (validateScopeSegment tenantID)) (\<lambda>_.
     rbind (rwrap (\<lambda>_. Wrapf ''repo ID'' (Cas ErrInvalidScope)) (validateScopeSegment repoID)) (\<lambda>_.
     Inr \<lparr>sc_tenant = tenantID, sc_repo = repoID\<rparr>))"

section \<open>Hashes\<close>

definition hashSize :: nat where "hashSize = 32"
definition hashHexLen :: nat where "hashHexLen = hashSize * 2"

definition canonicalHashString :: "string \<Rightarrow> goerr + string" where
  "canonicalHashString hash =
     (case hex_decode hash of
        None \<Rightarrow> Inl (Ext ''encoding/hex'')
      | Some decoded \<Rightarrow>
          if length decoded \<noteq> hashSize then Inl (Errorf ''decoded hash must be 32 bytes'')
          else Inr (hex_encode decoded))"

definition validateHash :: "string \<Rightarrow> goerr + unit" where
  "validateHash hash =
     (if length hash \<noteq> hashHexLen then Inl (Wrapf ''expected 64 hex characters'' (Cas ErrInvalidHash))
      else rbind (rwrap (\<lambda>_. Wrapf '''' (Cas ErrInvalidHash)) (canonicalHashString hash)) (\<lambda>_. Inr ()))"

definition scopeStorageKey :: "(bytes \<Rightarrow> bytes) \<Rightarrow> string \<Rightarrow> string" where
  "scopeStorageKey H scopeID = hex_encode (H (str_bytes scopeID))"

section \<open>Paths\<close>

datatype path = Path (p_abs: bool) (p_segs: "string list")

fun split_slash :: "string \<Rightarrow> string list" where
  "split_slash [] = [[]]"
| "split_slash (c # s) =
     (if c = CHR ''/'' then [] # split_slash s
      else (case split_slash s of [] \<Rightarrow> [[c]] | x # xs \<Rightarrow> (c # x) # xs))"

text \<open>\<open>filepath.Clean\<close>, with the elements already emitted on the stack \<open>out\<close>.\<close>

fun clean_segs :: "bool \<Rightarrow> string list \<Rightarrow> string list \<Rightarrow> string list" where
  "clean_segs ab out [] = rev out"
| "clean_segs ab out (s # ss) =
     (if s = '''' \<or> s = ''.'' then clean_segs ab out ss
      else if s = ''..'' then
        (case out of
           [] \<Rightarrow> if ab then clean_segs ab [] ss else clean_segs ab [''..''] ss
         | t # ts \<Rightarrow> if t = ''..'' then clean_segs ab (''..'' # out) ss else clean_segs ab ts ss)
      else clean_segs ab (s # out) ss)"

definition go_clean :: "path \<Rightarrow> path" where
  "go_clean p = (Path (p_abs p) (clean_segs (p_abs p) [] (p_segs p)))"

text \<open>\<open>filepath.Join(append([]string{root}, elems...)...)\<close>: an empty root is skipped.\<close>

definition go_join :: "path \<Rightarrow> string list \<Rightarrow> path" where
  "go_join root elems =
     (let ab = p_abs root \<or> (p_segs root = [] \<and>
                 (case dropWhile (\<lambda>e. e = '''') elems of (c # _) # _ \<Rightarrow> c = CHR ''/'' | _ \<Rightarrow> False))
      in go_clean (Path ab (p_segs root @ concat (map split_slash elems))))"

fun strip_common :: "string list \<Rightarrow> string list \<Rightarrow> string list \<times> string list" where
  "strip_common (b # bs) (t # ts) = (if b = t then strip_common bs ts else (b # bs, t # ts))"
| "strip_common bs ts = (bs, ts)"

text \<open>\<open>filepath.Rel\<close>: the elements of the relative path.\<close>

definition go_rel :: "path \<Rightarrow> path \<Rightarrow> string list option" where
  "go_rel base targ =
     (let b = go_clean base; t = go_clean targ in
      if p_abs b \<noteq> p_abs t then None
      else (case strip_common (p_segs b) (p_segs t) of
              ([], t') \<Rightarrow> Some t'
            | (x # b', t') \<Rightarrow> if x = ''..'' then None else Some (replicate (Suc (length b')) ''..'' @ t')))"

definition safeJoin :: "path \<Rightarrow> string list \<Rightarrow> goerr + path" where
  "safeJoin root elems =
     (let joined = go_join root elems in
      case go_rel root joined of
        None \<Rightarrow> Inl (Wrapf ''cannot resolve path relative to root'' (Cas ErrInvalidScope))
      | Some rel \<Rightarrow>
          if rel \<noteq> [] \<and> hd rel = ''..'' then Inl (Wrapf ''path escapes storage root'' (Cas ErrInvalidScope))
          else Inr joined)"

definition scopeRoot :: "(bytes \<Rightarrow> bytes) \<Rightarrow> path \<Rightarrow> scope \<Rightarrow> goerr + path" where
  "scopeRoot H root sc =
     (let tenantKey = scopeStorageKey H (sc_tenant sc); repoKey = scopeStorageKey H (sc_repo sc)
      in safeJoin root [''tenants'', tenantKey, ''repos'', repoKey])"

definition objectPath :: "(bytes \<Rightarrow> bytes) \<Rightarrow> path \<Rightarrow> scope \<Rightarrow> string \<Rightarrow> goerr + path" where
  "objectPath H d sc hash =
     rbind (scopeRoot H d sc) (\<lambda>root.
     rbind (canonicalHashString hash) (\<lambda>canonicalHash.
     safeJoin root [''objects'', take 2 canonicalHash, drop 2 canonicalHash]))"

definition packPath :: "(bytes \<Rightarrow> bytes) \<Rightarrow> path \<Rightarrow> scope \<Rightarrow> string \<Rightarrow> goerr + path" where
  "packPath H d sc packHash =
     rbind (scopeRoot H d sc) (\<lambda>root.
     rbind (canonicalHashString packHash) (\<lambda>canonicalHash.
     safeJoin root [''packs'', canonicalHash @ ''.spack'']))"

definition assetPath :: "(bytes \<Rightarrow> bytes) \<Rightarrow> path \<Rightarrow> scope \<Rightarrow> string \<Rightarrow> goerr + path" where
  "assetPath H d sc hash =
     rbind (scopeRoot H d sc) (\<lambda>root.
     rbind (canonicalHashString hash) (\<lambda>canonicalHash.
     safeJoin root [''assets'', take 2 canonicalHash, drop 2 canonicalHash]))"

section \<open>Cleaned paths\<close>

fun dotdots_first :: "string list \<Rightarrow> bool" where
  "dotdots_first [] = True"
| "dotdots_first (x # xs) = (if x = ''..'' then dotdots_first xs else ''..'' \<notin> set xs)"

definition clean_form :: "bool \<Rightarrow> string list \<Rightarrow> bool" where
  "clean_form ab xs \<longleftrightarrow> '''' \<notin> set xs \<and> ''.'' \<notin> set xs \<and> dotdots_first xs \<and> (ab \<longrightarrow> ''..'' \<notin> set xs)"

lemma dotdots_first_append:
  "dotdots_first (xs @ ys) \<longleftrightarrow> (set xs \<subseteq> {''..''} \<and> dotdots_first ys) \<or> (dotdots_first xs \<and> ''..'' \<notin> set ys)"
proof (induction xs)
  case Nil
  then show ?case by (induction ys) auto
next
  case (Cons x xs)
  then show ?case by auto
qed

lemma dotdots_first_all: "set xs \<subseteq> {''..''} \<Longrightarrow> dotdots_first xs"
  by (induction xs) auto

lemma dotdots_first_free: "''..'' \<notin> set xs \<Longrightarrow> dotdots_first xs"
  by (induction xs) auto

lemma clean_form_append:
  "clean_form ab (xs @ ys) \<longleftrightarrow> clean_form ab xs \<and> clean_form ab ys \<and>
     (set xs \<subseteq> {''..''} \<or> ''..'' \<notin> set ys)"
  by (auto simp: clean_form_def dotdots_first_append dotdots_first_all dotdots_first_free)

lemma clean_form_Nil [simp]: "clean_form ab []"
  by (simp add: clean_form_def)

lemma clean_form_single:
  "clean_form ab [s] \<longleftrightarrow> s \<noteq> '''' \<and> s \<noteq> ''.'' \<and> (ab \<longrightarrow> s \<noteq> ''..'')"
  by (auto simp: clean_form_def)

lemma clean_segs_form: "clean_form ab (rev out) \<Longrightarrow> clean_form ab (clean_segs ab out ss)"
proof (induction ab out ss rule: clean_segs.induct)
  case (2 ab out s ss)
  have pop: "clean_form ab (rev ts)" if "out = t # ts" for t ts
    using "2.prems" that by (simp add: clean_form_append)
  have dd: "clean_form ab (rev (''..'' # ''..'' # ts))" if "out = ''..'' # ts" for ts
    using "2.prems" that
    by (auto simp: clean_form_append clean_form_single) (simp add: clean_form_def)
  have pushed: "clean_form ab (rev (s # out))" if "s \<noteq> ''..''" "s \<noteq> ''''" "s \<noteq> ''.''"
    using "2.prems" that by (auto simp: clean_form_append clean_form_single)
  consider (skip) "s = '''' \<or> s = ''.''" | (up) "s = ''..''" | (push) "s \<noteq> ''''" "s \<noteq> ''.''" "s \<noteq> ''..''"
    by blast
  then show ?case
  proof cases
    case skip
    then show ?thesis using 2 by auto
  next
    case up
    show ?thesis
    proof (cases out)
      case Nil
      have "\<not> ab \<Longrightarrow> clean_form ab [''..'']" by (simp add: clean_form_single)
      with Nil up show ?thesis using "2.IH"(2,3) by simp
    next
      case (Cons t ts)
      with up show ?thesis using "2.IH"(4,5) pop dd by simp
    qed
  next
    case push
    then show ?thesis using "2.IH"(6) pushed by simp
  qed
qed simp

lemma clean_segs_id: "clean_form ab (rev out @ ss) \<Longrightarrow> clean_segs ab out ss = rev out @ ss"
proof (induction ab out ss rule: clean_segs.induct)
  case (2 ab out s ss)
  have c: "clean_form ab [s]" and o: "s = ''..'' \<longrightarrow> set out \<subseteq> {''..''}"
    using "2.prems" clean_form_append [of ab "rev out" "s # ss"] clean_form_append [of ab "[s]" ss]
    by auto
  show ?case
  proof (cases "s = ''..''")
    case True
    then show ?thesis
      using c o "2.IH"(3,4) "2.prems" by (cases out) (auto simp: clean_form_single)
  next
    case False
    then show ?thesis using c "2.IH"(6) "2.prems" by (auto simp: clean_form_single)
  qed
qed simp

lemma go_clean_form: "clean_form (p_abs p) (p_segs (go_clean p))"
  by (simp add: go_clean_def clean_segs_form)

lemma go_clean_id: "clean_form (p_abs p) (p_segs p) \<Longrightarrow> go_clean p = p"
  by (cases p) (simp add: go_clean_def clean_segs_id)

lemma fst_go_clean [simp]: "p_abs (go_clean p) = p_abs p"
  by (simp add: go_clean_def)

lemma go_clean_idem [simp]: "go_clean (go_clean p) = go_clean p"
  by (rule go_clean_id) (simp add: go_clean_form)

lemma go_clean_join [simp]: "go_clean (go_join root elems) = go_join root elems"
  by (simp add: go_join_def Let_def)

lemma strip_common_Nil: "strip_common bs ts = ([], t') \<Longrightarrow> ts = bs @ t'"
  by (induction bs ts rule: strip_common.induct) (auto split: if_splits)

lemma strip_common_prefix [simp]: "strip_common bs (bs @ ts) = ([], ts)"
  by (induction bs) (cases ts; auto)+

lemma safeJoin_contained_aux:
  assumes "safeJoin root elems = Inr p"
  shows "\<exists>rest. p = (Path (p_abs root) (p_segs (go_clean root) @ rest)) \<and> ''..'' \<notin> set rest"
proof -
  define b where "b = go_clean root"
  define t where "t = go_join root elems"
  from assms obtain rel where rel: "go_rel root t = Some rel" and ok: "rel = [] \<or> hd rel \<noteq> ''..''" and p: "p = t"
    by (auto simp: safeJoin_def Let_def t_def split: option.splits if_splits)
  from rel have ab: "p_abs b = p_abs t"
    by (auto simp: go_rel_def Let_def b_def t_def split: if_splits)
  from rel ok obtain rest where "strip_common (p_segs b) (p_segs t) = ([], rest)" and "rest = rel"
    by (auto simp: go_rel_def Let_def b_def t_def split: if_splits prod.splits list.splits)
  then have t: "p_segs t = p_segs b @ rel" by (auto dest: strip_common_Nil)
  have "clean_form (p_abs t) (p_segs b @ rel)"
    using go_clean_form [of t] t by (simp add: t_def)
  then have "clean_form (p_abs t) rel" by (simp add: clean_form_append)
  then have "dotdots_first rel" by (simp add: clean_form_def)
  with ok have "''..'' \<notin> set rel" by (cases rel) auto
  then show ?thesis using t ab p by (intro exI [of _ rel]) (auto simp: b_def path.expand)
qed

text \<open>An element that is itself a clean path component.\<close>

definition plain :: "string \<Rightarrow> bool" where
  "plain s \<longleftrightarrow> s \<noteq> '''' \<and> s \<noteq> ''.'' \<and> s \<noteq> ''..'' \<and> CHR ''/'' \<notin> set s"

abbreviation plain0 :: "string \<Rightarrow> bool" where
  "plain0 s \<equiv> s = '''' \<or> plain s"

abbreviation nonempty :: "string list \<Rightarrow> string list" where
  "nonempty \<equiv> filter (\<lambda>s. s \<noteq> '''')"

lemma split_slash_plain: "CHR ''/'' \<notin> set s \<Longrightarrow> split_slash s = [s]"
  by (induction s) auto

lemma concat_split_plain: "list_all plain0 es \<Longrightarrow> concat (map split_slash es) = es"
  by (induction es) (auto simp: plain_def split_slash_plain)

lemma clean_segs_append_plain:
  "list_all plain0 es \<Longrightarrow> clean_segs ab out (xs @ es) = clean_segs ab out xs @ nonempty es"
proof (induction ab out xs rule: clean_segs.induct)
  case (1 ab out)
  then show ?case by (induction es arbitrary: out) (auto simp: plain_def)
next
  case (2 ab out s ss)
  then show ?case by (auto split: list.splits)
qed

lemma plain0_head:
  assumes "list_all plain0 es"
  shows "\<not> (case dropWhile (\<lambda>e. e = '''') es of (c # _) # _ \<Rightarrow> c = CHR ''/'' | _ \<Rightarrow> False)"
  using assms by (induction es) (auto simp: plain_def split: list.splits)

lemma safeJoin_plain:
  assumes "list_all plain0 es"
  shows "safeJoin root es = Inr (Path (p_abs root) (p_segs (go_clean root) @ nonempty es))"
proof -
  have j: "go_join root es = (Path (p_abs root) (p_segs (go_clean root) @ nonempty es))"
    using assms plain0_head [OF assms]
    by (simp add: go_join_def Let_def concat_split_plain go_clean_def clean_segs_append_plain)
  have "go_rel root (go_join root es) = Some (nonempty es)"
    by (simp add: go_rel_def Let_def) (simp add: j)
  moreover have "\<not> (nonempty es \<noteq> [] \<and> hd (nonempty es) = ''..'')"
    using assms by (induction es) (auto simp: plain_def)
  ultimately show ?thesis unfolding safeJoin_def Let_def j by (simp only: option.case if_False)
qed

lemma plain_hex: "s \<noteq> '''' \<Longrightarrow> \<forall>c \<in> set s. is_lower_hex c \<Longrightarrow> plain (s @ t)" if "CHR ''/'' \<notin> set t"
  using that
  by (cases s) (auto simp: plain_def is_lower_hex_def less_eq_char_def split: if_splits)

lemma plain_hex_simple: "s \<noteq> '''' \<Longrightarrow> \<forall>c \<in> set s. is_lower_hex c \<Longrightarrow> plain s"
  using plain_hex [of "[]" s] by simp

section \<open>The paths of a scope\<close>

lemma canonicalHashString_Inr:
  "canonicalHashString h = Inr c \<longleftrightarrow> (\<exists>bs. hex_decode h = Some bs \<and> length bs = 32 \<and> c = hex_encode bs)"
  by (auto simp: canonicalHashString_def hashSize_def split: option.splits)

lemma validateHash_Inr:
  "validateHash h = Inr u \<longleftrightarrow> length h = 64 \<and> (\<exists>bs. hex_decode h = Some bs \<and> length bs = 32)"
  by (auto simp: validateHash_def hashHexLen_def hashSize_def canonicalHashString_Inr)

lemma validateHash_canonical:
  "validateHash h = Inr u \<Longrightarrow> \<exists>c. canonicalHashString h = Inr c"
  by (auto simp: validateHash_Inr canonicalHashString_Inr)

lemma validateHash_encode: "length bs = 32 \<Longrightarrow> validateHash (hex_encode bs) = Inr ()"
  by (simp add: validateHash_Inr)

lemma canonicalHashString_encode: "length bs = 32 \<Longrightarrow> canonicalHashString (hex_encode bs) = Inr (hex_encode bs)"
  by (simp add: canonicalHashString_Inr)

text \<open>The directory of a scope, as \<open>scopeRoot\<close> computes it.\<close>

definition scope_dir :: "(bytes \<Rightarrow> bytes) \<Rightarrow> path \<Rightarrow> scope \<Rightarrow> string list" where
  "scope_dir H root sc = p_segs (go_clean root) @ nonempty
     [''tenants'', scopeStorageKey H (sc_tenant sc), ''repos'', scopeStorageKey H (sc_repo sc)]"

lemma plain_key: "plain0 (scopeStorageKey H s)"
  unfolding scopeStorageKey_def
  using plain_hex_simple [of "hex_encode (H (str_bytes s))"] by (auto simp: hex_encode_lower)

lemma scopeRoot_eq: "scopeRoot H root sc = Inr (Path (p_abs root) (scope_dir H root sc))"
  unfolding scopeRoot_def Let_def scope_dir_def
  by (rule safeJoin_plain) (simp add: plain_key, simp add: plain_def)

lemma scope_dir_clean: "go_clean (Path (p_abs root) (scope_dir H root sc)) = (Path (p_abs root) (scope_dir H root sc))"
proof -
  have "go_join root [''tenants'', scopeStorageKey H (sc_tenant sc), ''repos'', scopeStorageKey H (sc_repo sc)]
      = (Path (p_abs root) (scope_dir H root sc))"
    using scopeRoot_eq [of H root sc]
    by (simp add: scopeRoot_def Let_def safeJoin_def split: option.splits if_splits)
  then show ?thesis by (metis go_clean_join)
qed

lemma safeJoin_scope:
  "list_all plain es \<Longrightarrow> safeJoin (Path (p_abs root) (scope_dir H root sc)) es = Inr (Path (p_abs root) (scope_dir H root sc @ es))"
proof -
  assume p: "list_all plain es"
  then have "nonempty es = es" by (induction es) (auto simp: plain_def)
  moreover have "list_all plain0 es" using p by (simp add: list_all_iff)
  ultimately show ?thesis
    using safeJoin_plain [of es "(Path (p_abs root) (scope_dir H root sc))"] scope_dir_clean [of root H sc] by simp
qed

lemma plain_take_drop:
  assumes "length bs = 32"
  shows "plain (take 2 (hex_encode bs)) \<and> plain (drop 2 (hex_encode bs))"
  using assms
  by (auto intro!: plain_hex_simple dest: in_set_takeD in_set_dropD hex_encode_lower arg_cong [of _ _ length])

lemma objectPath_eq:
  assumes "canonicalHashString h = Inr c"
  shows "objectPath H d sc h = Inr (Path (p_abs d) (scope_dir H d sc @ [''objects'', take 2 c, drop 2 c]))"
  using assms plain_take_drop
  by (auto simp: objectPath_def scopeRoot_eq canonicalHashString_Inr intro!: safeJoin_scope) (simp_all add: plain_def)

lemma assetPath_eq:
  assumes "canonicalHashString h = Inr c"
  shows "assetPath H d sc h = Inr (Path (p_abs d) (scope_dir H d sc @ [''assets'', take 2 c, drop 2 c]))"
  using assms plain_take_drop
  by (auto simp: assetPath_def scopeRoot_eq canonicalHashString_Inr intro!: safeJoin_scope) (simp_all add: plain_def)

lemma packPath_eq:
  assumes "canonicalHashString h = Inr c"
  shows "packPath H d sc h = Inr (Path (p_abs d) (scope_dir H d sc @ [''packs'', c @ ''.spack'']))"
proof -
  obtain bs where c: "c = hex_encode bs" "length bs = 32"
    using assms by (auto simp: canonicalHashString_Inr)
  have "plain (c @ ''.spack'')"
    using c by (auto intro!: plain_hex simp: hex_encode_lower dest: arg_cong [of _ _ length])
  moreover have "plain ''packs''" by (simp add: plain_def)
  ultimately show ?thesis
    using assms safeJoin_scope [of "[''packs'', c @ ''.spack'']"] by (simp add: packPath_def scopeRoot_eq)
qed

text \<open>The documented digest size of BLAKE3-256.\<close>

definition digest32 :: "(bytes \<Rightarrow> bytes) \<Rightarrow> bool" where
  "digest32 H \<longleftrightarrow> (\<forall>x. length (H x) = 32)"

text \<open>Scopes with different keys have disjoint directories.\<close>

lemma scope_dir_disjoint:
  assumes "digest32 H" and "scope_dir H root sc @ xs = scope_dir H root sc' @ ys"
  shows "scopeStorageKey H (sc_tenant sc) = scopeStorageKey H (sc_tenant sc') \<and>
         scopeStorageKey H (sc_repo sc) = scopeStorageKey H (sc_repo sc')"
proof -
  have "scopeStorageKey H s \<noteq> ''''" for s
    using assms(1) by (auto simp: scopeStorageKey_def digest32_def dest: arg_cong [of _ _ length])
  then show ?thesis using assms(2) by (simp add: scope_dir_def)
qed

end
