(* ===== verification/Cas_Local.thy ===== *)
theory Cas_Local
  imports Cas_Path
begin

text \<open>
  The filesystem-backed driver \<open>LocalDriver\<close> (\<open>internal/server/storage/cas/local.go\<close>) over a
  model of the filesystem in which every operating-system call may fail.

  A filesystem maps paths to contents. Directories, permissions and open descriptors have no
  contents of their own: \<open>MkdirAll\<close>, \<open>Chmod\<close>, \<open>Sync\<close> and \<open>Close\<close> are calls that succeed or fail.
  The \<open>n\<close>-th call fails when \<open>fs_fault n\<close> holds; a failing write leaves the first \<open>fs_torn n\<close>
  bytes. A schedule that fails every call from some point on leaves the files as a crash at that
  point does.
\<close>

section \<open>The filesystem\<close>

record fs =
  fs_files :: "path \<Rightarrow> bytes option"
  fs_calls :: nat
  fs_fault :: "nat \<Rightarrow> bool"
  fs_torn :: "nat \<Rightarrow> nat"
  fs_tmpname :: "nat \<Rightarrow> string"

definition os_not_exist :: goerr where
  "os_not_exist = Ext ''os: file does not exist''"

text \<open>\<open>os_call s g f\<close>: one system call; \<open>g\<close> is what a failing call leaves behind.\<close>

definition os_call :: "string \<Rightarrow> (fs \<Rightarrow> fs) \<Rightarrow> (fs \<Rightarrow> (goerr + 'a) \<times> fs) \<Rightarrow> (fs, 'a) eff" where
  "os_call s g f w =
     (let w' = w\<lparr>fs_calls := Suc (fs_calls w)\<rparr> in
      if fs_fault w (fs_calls w) then (Inl (Fault s), g w') else f w')"

definition os_noop :: "string \<Rightarrow> (fs, unit) eff" where
  "os_noop s = os_call s (\<lambda>w. w) (\<lambda>w. (Inr (), w))"

definition os_stat :: "path \<Rightarrow> (fs, nat) eff" where
  "os_stat p = os_call ''stat'' (\<lambda>w. w)
     (\<lambda>w. (case fs_files w p of None \<Rightarrow> Inl os_not_exist | Some d \<Rightarrow> Inr (length d), w))"

definition os_read_file :: "path \<Rightarrow> (fs, bytes) eff" where
  "os_read_file p = os_call ''read'' (\<lambda>w. w)
     (\<lambda>w. (case fs_files w p of None \<Rightarrow> Inl os_not_exist | Some d \<Rightarrow> Inr d, w))"

definition os_remove :: "path \<Rightarrow> (fs, unit) eff" where
  "os_remove p = os_call ''remove'' (\<lambda>w. w)
     (\<lambda>w. (case fs_files w p of None \<Rightarrow> (Inl os_not_exist, w)
           | Some _ \<Rightarrow> (Inr (), w\<lparr>fs_files := (fs_files w)(p := None)\<rparr>)))"

definition child :: "path \<Rightarrow> string \<Rightarrow> path" where
  "child dir n = Path (p_abs dir) (p_segs dir @ [n])"

text \<open>\<open>os.CreateTemp\<close> creates a file of a name not in use.\<close>

definition os_create_temp :: "path \<Rightarrow> (fs, path) eff" where
  "os_create_temp dir = os_call ''create temp'' (\<lambda>w. w)
     (\<lambda>w. let p = (child dir (fs_tmpname w (fs_calls w))) in
          if fs_files w p = None then (Inr p, w\<lparr>fs_files := (fs_files w)(p \<mapsto> [])\<rparr>)
          else (Inl (Fault ''create temp''), w))"

definition os_write :: "path \<Rightarrow> bytes \<Rightarrow> (fs, unit) eff" where
  "os_write p data = os_call ''write''
     (\<lambda>w. w\<lparr>fs_files := (fs_files w)(p \<mapsto> (case fs_files w p of None \<Rightarrow> [] | Some d \<Rightarrow> d) @
                              take (fs_torn w (fs_calls w)) data)\<rparr>)
     (\<lambda>w. (Inr (), w\<lparr>fs_files := (fs_files w)(p \<mapsto> (case fs_files w p of None \<Rightarrow> [] | Some d \<Rightarrow> d) @ data)\<rparr>))"

definition os_rename :: "path \<Rightarrow> path \<Rightarrow> (fs, unit) eff" where
  "os_rename p q = os_call ''rename'' (\<lambda>w. w)
     (\<lambda>w. (case fs_files w p of None \<Rightarrow> (Inl os_not_exist, w)
           | Some d \<Rightarrow> (Inr (), w\<lparr>fs_files := (fs_files w)(p := None, q := Some d)\<rparr>)))"

text \<open>\<open>io.Copy\<close> from a reader: the bytes before a read error are still written.\<close>

definition copy_to :: "path \<Rightarrow> reader \<Rightarrow> (fs, nat) eff" where
  "copy_to p r = ebind (os_write p (rd_data r)) (\<lambda>_.
     case rd_err r of None \<Rightarrow> eret (length (rd_data r)) | Some e \<Rightarrow> efail e)"

definition drain :: "reader \<Rightarrow> (fs, unit) eff" where
  "drain r = (case rd_err r of None \<Rightarrow> eret () | Some e \<Rightarrow> efail e)"

section \<open>Crash-consistent writes\<close>

definition syncDir :: "path \<Rightarrow> (fs, unit) eff" where
  "syncDir p =
     ebind (ewrap ''open directory'' (os_noop ''open'')) (\<lambda>_.
     edefer (ewrap ''fsync directory'' (os_noop ''fsync'')) (os_noop ''close''))"

definition parent :: "path \<Rightarrow> path" where
  "parent p = (Path (p_abs p) (butlast (p_segs p)))"

definition writeFileAtomic :: "path \<Rightarrow> path \<Rightarrow> (path \<Rightarrow> (fs, 'a) eff) \<Rightarrow> (fs, 'a) eff" where
  "writeFileAtomic tmpd dest write =
     ebind (ewrap ''create destination directory'' (os_noop ''mkdir'')) (\<lambda>_.
     ebind (ewrap ''create temp file'' (os_create_temp tmpd)) (\<lambda>tmpPath.
     edefer
       (ebind (ecatch (write tmpPath)
                 (\<lambda>e. ebind (etry (os_noop ''close'')) (\<lambda>_. efail (Wrapf ''write temp file'' e)))) (\<lambda>x.
        ebind (ecatch (os_noop ''fsync'')
                 (\<lambda>e. ebind (etry (os_noop ''close'')) (\<lambda>_. efail (Wrapf ''sync temp file'' e)))) (\<lambda>_.
        ebind (ewrap ''close temp file'' (os_noop ''close'')) (\<lambda>_.
        ebind (ewrap ''chmod temp file'' (os_noop ''chmod'')) (\<lambda>_.
        ebind (ewrap ''rename into place'' (os_rename tmpPath dest)) (\<lambda>_.
        ebind (ewrap ''sync destination directory'' (syncDir (parent dest))) (\<lambda>_.
        eret x)))))))
       (os_remove tmpPath)))"

section \<open>The driver\<close>

text \<open>
  The code outside the repository the driver calls: BLAKE3, and zstd's encoder and decoder
  (the decoder is a stream, so it delivers a prefix before it reports an error).
\<close>

record cas_ext =
  blake3 :: "bytes \<Rightarrow> bytes"
  zstd_encode :: "bytes \<Rightarrow> bytes"
  zstd_decode :: "bytes \<Rightarrow> reader"

definition ctx_check :: "ctx \<Rightarrow> ('w, unit) eff" where
  "ctx_check c = (case ctx_err c of None \<Rightarrow> eret () | Some e \<Rightarrow> efail e)"

definition scopeTmpDir :: "cas_ext \<Rightarrow> path \<Rightarrow> scope \<Rightarrow> (fs, path) eff" where
  "scopeTmpDir x d sc =
     ebind (elift (scopeRoot (blake3 x) d sc)) (\<lambda>root.
     ebind (elift (safeJoin root [''tmp''])) (\<lambda>dir.
     ebind (ewrap ''cas: create scope tmp directory'' (os_noop ''mkdir'')) (\<lambda>_.
     eret dir)))"

text \<open>\<open>os.Stat\<close> with the three outcomes the callers distinguish.\<close>

definition stat_case :: "string \<Rightarrow> path \<Rightarrow> (nat \<Rightarrow> (fs, 'a) eff) \<Rightarrow> (fs, 'a) eff \<Rightarrow> (fs, 'a) eff" where
  "stat_case msg p present absent =
     ebind (etry (os_stat p)) (\<lambda>r. case r of
       Inr n \<Rightarrow> present n
     | Inl e \<Rightarrow> if e = os_not_exist then absent else efail (Wrapf msg e))"

definition Put :: "cas_ext \<Rightarrow> path \<Rightarrow> ctx \<Rightarrow> scope \<Rightarrow> string \<Rightarrow> bytes \<Rightarrow> (fs, unit) eff" where
  "Put x d ctx sc hash data =
     ebind (ctx_check ctx) (\<lambda>_.
     ebind (elift (validateHash hash)) (\<lambda>_.
     ebind (eassert (hex_encode (blake3 x data) = hash) (Wrapf ''object'' (Cas ErrHashMismatch))) (\<lambda>_.
     ebind (elift (objectPath (blake3 x) d sc hash)) (\<lambda>dest.
     ebind (scopeTmpDir x d sc) (\<lambda>tmp.
     stat_case ''cas: stat object'' dest
       (\<lambda>_. eret ())
       (ewrap ''cas: put object'' (writeFileAtomic tmp dest (\<lambda>p. os_write p data))))))))"

definition Get :: "cas_ext \<Rightarrow> path \<Rightarrow> ctx \<Rightarrow> scope \<Rightarrow> string \<Rightarrow> (fs, bytes) eff" where
  "Get x d ctx sc hash =
     ebind (ctx_check ctx) (\<lambda>_.
     ebind (elift (validateHash hash)) (\<lambda>_.
     ebind (elift (objectPath (blake3 x) d sc hash)) (\<lambda>path.
     ebind (ecatch (os_read_file path) (\<lambda>e.
       if e = os_not_exist then efail (Wrapf ''object'' (Cas ErrNotFound))
       else efail (Wrapf ''cas: read object'' e))) (\<lambda>data.
     ebind (eassert (hex_encode (blake3 x data) = hash) (Wrapf ''object'' (Cas ErrCorruptObject))) (\<lambda>_.
     eret data)))))"

definition Exists :: "cas_ext \<Rightarrow> path \<Rightarrow> ctx \<Rightarrow> scope \<Rightarrow> string \<Rightarrow> (fs, bool) eff" where
  "Exists x d ctx sc hash =
     ebind (ctx_check ctx) (\<lambda>_.
     ebind (elift (validateHash hash)) (\<lambda>_.
     ebind (elift (objectPath (blake3 x) d sc hash)) (\<lambda>path.
     stat_case ''cas: stat object'' path (\<lambda>_. eret True) (eret False))))"

definition OpenPack :: "cas_ext \<Rightarrow> path \<Rightarrow> ctx \<Rightarrow> scope \<Rightarrow> string \<Rightarrow> (fs, reader) eff" where
  "OpenPack x d ctx sc packHash =
     ebind (ctx_check ctx) (\<lambda>_.
     ebind (elift (validateHash packHash)) (\<lambda>_.
     ebind (elift (packPath (blake3 x) d sc packHash)) (\<lambda>path.
     ebind (ecatch (os_read_file path) (\<lambda>e.
       if e = os_not_exist then efail (Wrapf ''pack'' (Cas ErrNotFound))
       else efail (Wrapf ''cas: open pack'' e))) (\<lambda>f.
     ebind (ecatch (os_noop ''zstd'') (\<lambda>e.
       ebind (etry (os_noop ''close'')) (\<lambda>_. efail (Wrapf ''cas: open pack decoder'' e)))) (\<lambda>_.
     eret (zstd_decode x f))))))"

definition WritePack :: "cas_ext \<Rightarrow> path \<Rightarrow> ctx \<Rightarrow> scope \<Rightarrow> string \<Rightarrow> reader \<Rightarrow> (fs, unit) eff" where
  "WritePack x d ctx sc packHash r =
     ebind (ctx_check ctx) (\<lambda>_.
     ebind (elift (validateHash packHash)) (\<lambda>_.
     ebind (elift (packPath (blake3 x) d sc packHash)) (\<lambda>dest.
     ebind (scopeTmpDir x d sc) (\<lambda>tmp.
     stat_case ''cas: stat pack'' dest
       (\<lambda>_. ewrap ''cas: drain existing pack'' (drain r))
       (ebind (ewrap ''cas: write pack'' (writeFileAtomic tmp dest (\<lambda>p.
          ebind (ewrap ''create zstd encoder'' (os_noop ''zstd'')) (\<lambda>_.
          case rd_err r of
            Some e \<Rightarrow> ebind (etry (os_write p (zstd_encode x (rd_data r)))) (\<lambda>_.
                      efail (Wrapf ''compress pack stream'' e))
          | None \<Rightarrow> os_write p (zstd_encode x (rd_data r)))))) (\<lambda>_.
        if hex_encode (blake3 x (rd_data r)) \<noteq> packHash then
          ebind (etry (os_remove dest)) (\<lambda>rmErr.
          efail (Wrapf (if rmErr = Inr () \<or> rmErr = Inl os_not_exist then ''pack''
                        else ''pack (also failed to remove invalid pack)'') (Cas ErrHashMismatch)))
        else eret ()))))))"

definition WriteAsset :: "cas_ext \<Rightarrow> path \<Rightarrow> ctx \<Rightarrow> scope \<Rightarrow> string \<Rightarrow> reader \<Rightarrow> (fs, int64) eff" where
  "WriteAsset x d ctx sc hash r =
     ebind (ctx_check ctx) (\<lambda>_.
     ebind (elift (validateHash hash)) (\<lambda>_.
     ebind (elift (assetPath (blake3 x) d sc hash)) (\<lambda>dest.
     ebind (scopeTmpDir x d sc) (\<lambda>tmp.
     stat_case ''cas: stat asset'' dest
       (\<lambda>n. ebind (ewrap ''cas: drain existing asset'' (drain r)) (\<lambda>_. eret (word_of_nat n)))
       (ebind (ewrap ''cas: write asset'' (writeFileAtomic tmp dest (\<lambda>p. copy_to p r))) (\<lambda>written.
        if hex_encode (blake3 x (rd_data r)) \<noteq> hash then
          ebind (etry (os_remove dest)) (\<lambda>rmErr.
          efail (Wrapf (if rmErr = Inr () \<or> rmErr = Inl os_not_exist then ''asset''
                        else ''asset (also failed to remove invalid asset)'') (Cas ErrHashMismatch)))
        else eret (word_of_nat written)))))))"

definition OpenAsset :: "cas_ext \<Rightarrow> path \<Rightarrow> ctx \<Rightarrow> scope \<Rightarrow> string \<Rightarrow> (fs, reader \<times> int64) eff" where
  "OpenAsset x d ctx sc hash =
     ebind (ctx_check ctx) (\<lambda>_.
     ebind (elift (validateHash hash)) (\<lambda>_.
     ebind (elift (assetPath (blake3 x) d sc hash)) (\<lambda>path.
     ebind (ecatch (os_read_file path) (\<lambda>e.
       if e = os_not_exist then efail (Cas ErrNotFound)
       else efail (Wrapf ''cas: open asset'' e))) (\<lambda>f.
     ebind (ecatch (os_noop ''fstat'') (\<lambda>e.
       ebind (etry (os_noop ''close'')) (\<lambda>_. efail (Wrapf ''cas: stat asset'' e)))) (\<lambda>_.
     eret (\<lparr>rd_data = f, rd_err = None\<rparr>, word_of_nat (length f)))))))"

definition AssetExists :: "cas_ext \<Rightarrow> path \<Rightarrow> ctx \<Rightarrow> scope \<Rightarrow> string \<Rightarrow> (fs, bool) eff" where
  "AssetExists x d ctx sc hash =
     ebind (ctx_check ctx) (\<lambda>_.
     ebind (elift (validateHash hash)) (\<lambda>_.
     ebind (elift (assetPath (blake3 x) d sc hash)) (\<lambda>path.
     stat_case ''cas: stat asset'' path (\<lambda>_. eret True) (eret False))))"

definition DeletePack :: "cas_ext \<Rightarrow> path \<Rightarrow> ctx \<Rightarrow> scope \<Rightarrow> string \<Rightarrow> (fs, unit) eff" where
  "DeletePack x d ctx sc packHash =
     ebind (ctx_check ctx) (\<lambda>_.
     ebind (elift (validateHash packHash)) (\<lambda>_.
     ebind (elift (packPath (blake3 x) d sc packHash)) (\<lambda>path.
     ebind (etry (os_remove path)) (\<lambda>r. case r of
       Inr _ \<Rightarrow> eret ()
     | Inl e \<Rightarrow> if e = os_not_exist then eret () else efail (Wrapf ''cas: delete pack'' e)))))"

definition NewLocalDriver :: "path \<Rightarrow> (fs, path) eff" where
  "NewLocalDriver root =
     ebind (ewrap ''cas: create root directory'' (os_noop ''mkdir'')) (\<lambda>_. eret root)"

section \<open>Reasoning over every fault schedule\<close>

text \<open>
  \<open>fwp m Q E F\<close>: from files \<open>F\<close> and whatever calls fail, \<open>m\<close> returns a value and files with \<open>Q\<close>,
  or an error and files with \<open>E\<close>.
\<close>

type_synonym files = "path \<Rightarrow> bytes option"

definition fwp :: "(fs, 'a) eff \<Rightarrow> ('a \<Rightarrow> files \<Rightarrow> bool) \<Rightarrow> (goerr \<Rightarrow> files \<Rightarrow> bool) \<Rightarrow> files \<Rightarrow> bool" where
  "fwp m Q E F \<longleftrightarrow> (\<forall>w. fs_files w = F \<longrightarrow> wp m (\<lambda>x w'. Q x (fs_files w')) (\<lambda>e w'. E e (fs_files w')) w)"

named_theorems fwp_intro "introduction rules for fwp"

lemma fwp_eret [fwp_intro]: "Q x F \<Longrightarrow> fwp (eret x) Q E F"
  by (simp add: fwp_def wp_rule)

lemma fwp_efail [fwp_intro]: "E e F \<Longrightarrow> fwp (efail e) Q E F"
  by (simp add: fwp_def wp_rule)

lemma fwp_elift: "(\<And>e. r = Inl e \<Longrightarrow> E e F) \<Longrightarrow> (\<And>x. r = Inr x \<Longrightarrow> Q x F) \<Longrightarrow> fwp (elift r) Q E F"
  by (auto simp: fwp_def wp_rule split: sum.splits)

lemma fwp_eassert [fwp_intro]: "(b \<Longrightarrow> Q () F) \<Longrightarrow> (\<not> b \<Longrightarrow> E e F) \<Longrightarrow> fwp (eassert b e) Q E F"
  by (auto simp: fwp_def wp_rule)

lemma fwp_ebind [fwp_intro]: "fwp m (\<lambda>x F'. fwp (f x) Q E F') E F \<Longrightarrow> fwp (ebind m f) Q E F"
  by (auto simp: fwp_def wp_rule elim!: wp_mono)

lemma fwp_ecatch [fwp_intro]: "fwp m Q (\<lambda>e F'. fwp (h e) Q E F') F \<Longrightarrow> fwp (ecatch m h) Q E F"
  by (auto simp: fwp_def wp_rule elim!: wp_mono)

lemma fwp_etry [fwp_intro]: "fwp m (\<lambda>x. Q (Inr x)) (\<lambda>e. Q (Inl e)) F \<Longrightarrow> fwp (etry m) Q E F"
  by (simp add: fwp_def wp_rule)

lemma fwp_ewrap [fwp_intro]: "fwp m Q (\<lambda>e. E (Wrapf s e)) F \<Longrightarrow> fwp (ewrap s m) Q E F"
  by (simp add: fwp_def wp_rule)

lemma fwp_edefer [fwp_intro]:
  "fwp m (\<lambda>x F'. fwp fin (\<lambda>_. Q x) (\<lambda>_. Q x) F') (\<lambda>e F'. fwp fin (\<lambda>_. E e) (\<lambda>_. E e) F') F
   \<Longrightarrow> fwp (edefer m fin) Q E F"
  by (auto simp: fwp_def wp_rule elim!: wp_mono)

lemma fwp_mono:
  "fwp m Q E F \<Longrightarrow> (\<And>x F'. Q x F' \<Longrightarrow> Q' x F') \<Longrightarrow> (\<And>e F'. E e F' \<Longrightarrow> E' e F') \<Longrightarrow> fwp m Q' E' F"
  by (auto simp: fwp_def elim!: wp_mono)

lemma fwp_conj:
  "fwp m Q E F \<Longrightarrow> fwp m Q' E' F \<Longrightarrow> fwp m (\<lambda>x F'. Q x F' \<and> Q' x F') (\<lambda>e F'. E e F' \<and> E' e F') F"
  by (auto simp: fwp_def dest: wp_conj)

lemma fwp_call:
  assumes "\<And>w. fs_files w = F \<Longrightarrow> E (Fault s) (fs_files (g w))"
    and "\<And>w. fs_files w = F \<Longrightarrow> (case f w of (Inl e, w') \<Rightarrow> E e (fs_files w') | (Inr x, w') \<Rightarrow> Q x (fs_files w'))"
  shows "fwp (os_call s g f) Q E F"
  using assms by (auto simp: fwp_def wp_def os_call_def Let_def)

lemma fwp_noop [fwp_intro]: "Q () F \<Longrightarrow> E (Fault s) F \<Longrightarrow> fwp (os_noop s) Q E F"
  unfolding os_noop_def by (rule fwp_call) auto

lemma fwp_stat:
  "(\<And>d. F p = Some d \<Longrightarrow> Q (length d) F) \<Longrightarrow> (F p = None \<Longrightarrow> E os_not_exist F) \<Longrightarrow> E (Fault ''stat'') F
   \<Longrightarrow> fwp (os_stat p) Q E F"
  unfolding os_stat_def by (rule fwp_call) (auto split: option.splits)

lemma fwp_read_file:
  "(\<And>d. F p = Some d \<Longrightarrow> Q d F) \<Longrightarrow> (F p = None \<Longrightarrow> E os_not_exist F) \<Longrightarrow> E (Fault ''read'') F
   \<Longrightarrow> fwp (os_read_file p) Q E F"
  unfolding os_read_file_def by (rule fwp_call) (auto split: option.splits)

lemma fwp_remove:
  "(F p \<noteq> None \<Longrightarrow> Q () (F(p := None))) \<Longrightarrow> (F p = None \<Longrightarrow> E os_not_exist F) \<Longrightarrow> E (Fault ''remove'') F
   \<Longrightarrow> fwp (os_remove p) Q E F"
  unfolding os_remove_def by (rule fwp_call) (auto split: option.splits)

lemma fwp_create_temp:
  "(\<And>n. F (child dir n) = None \<Longrightarrow> Q (child dir n) (F((child dir n) \<mapsto> [])))
   \<Longrightarrow> E (Fault ''create temp'') F \<Longrightarrow> fwp (os_create_temp dir) Q E F"
  unfolding os_create_temp_def by (rule fwp_call) (auto simp: Let_def)

lemma fwp_write:
  "F p = Some d \<Longrightarrow> Q () (F(p \<mapsto> d @ data)) \<Longrightarrow> (\<And>n. E (Fault ''write'') (F(p \<mapsto> d @ take n data)))
   \<Longrightarrow> fwp (os_write p data) Q E F"
  unfolding os_write_def by (rule fwp_call) auto

lemma fwp_rename:
  "F p = Some d \<Longrightarrow> Q () (F(p := None, q := Some d)) \<Longrightarrow> E (Fault ''rename'') F
   \<Longrightarrow> fwp (os_rename p q) Q E F"
  unfolding os_rename_def by (rule fwp_call) auto

lemma fwp_syncDir: "Q () F \<Longrightarrow> (\<And>e. E e F) \<Longrightarrow> fwp (syncDir p) Q E F"
  unfolding syncDir_def by (intro fwp_intro) auto

lemma fwp_drain: "Q () F \<Longrightarrow> (\<And>e. E e F) \<Longrightarrow> fwp (drain r) Q E F"
  unfolding drain_def by (cases "rd_err r") (auto intro: fwp_intro)

lemma fwp_ctx_check: "Q () F \<Longrightarrow> (\<And>e. E e F) \<Longrightarrow> fwp (ctx_check c) Q E F"
  unfolding ctx_check_def by (cases "ctx_err c") (auto intro: fwp_intro)

lemma fwp_stat_case:
  assumes "\<And>d. F p = Some d \<Longrightarrow> fwp (present (length d)) Q E F" and "F p = None \<Longrightarrow> fwp absent Q E F"
    and "\<And>e. E e F"
  shows "fwp (stat_case msg p present absent) Q E F"
  unfolding stat_case_def
  by (intro fwp_intro fwp_stat) (use assms in \<open>auto simp: os_not_exist_def intro: fwp_intro\<close>)

section \<open>Atomicity of a write\<close>

text \<open>What a failed write may leave: the destination as it was or complete, and stray temporary files.\<close>

definition left_by :: "path \<Rightarrow> path \<Rightarrow> bytes \<Rightarrow> files \<Rightarrow> files \<Rightarrow> bool" where
  "left_by t dest C F F' \<longleftrightarrow>
     (F' dest = F dest \<or> F' dest = Some C) \<and>
     (\<forall>q. q \<noteq> dest \<longrightarrow> F' q = F q \<or> (F q = None \<and> (\<exists>n. q = (child t n))))"

lemma left_by_refl [simp]: "left_by t dest C F F"
  by (simp add: left_by_def)

lemma left_by_tmp:
  "F (child t n) = None \<Longrightarrow> (child t n) \<noteq> dest \<Longrightarrow> left_by t dest C F (F((child t n) := c))"
  by (auto simp: left_by_def)

lemma left_by_dest: "left_by t dest C F (F(dest \<mapsto> C))"
  by (simp add: left_by_def)

lemma writeFileAtomic_fwp:
  assumes fresh: "\<And>n. (child t n) \<noteq> dest"
    and wr: "\<And>p F. F p = Some [] \<Longrightarrow>
        fwp (write p) (\<lambda>x F'. F' = F(p \<mapsto> C) \<and> R x) (\<lambda>e F'. \<exists>c. F' = F(p \<mapsto> c)) F"
  shows "fwp (writeFileAtomic t dest write) (\<lambda>x F'. F' = F(dest \<mapsto> C) \<and> R x) (\<lambda>e F'. left_by t dest C F F') F"
proof -
  have body: "fwp (edefer
       (ebind (ecatch (write p)
                 (\<lambda>e. ebind (etry (os_noop ''close'')) (\<lambda>_. efail (Wrapf ''write temp file'' e)))) (\<lambda>x.
        ebind (ecatch (os_noop ''fsync'')
                 (\<lambda>e. ebind (etry (os_noop ''close'')) (\<lambda>_. efail (Wrapf ''sync temp file'' e)))) (\<lambda>_.
        ebind (ewrap ''close temp file'' (os_noop ''close'')) (\<lambda>_.
        ebind (ewrap ''chmod temp file'' (os_noop ''chmod'')) (\<lambda>_.
        ebind (ewrap ''rename into place'' (os_rename p dest)) (\<lambda>_.
        ebind (ewrap ''sync destination directory'' (syncDir (parent dest))) (\<lambda>_.
        eret x)))))))
       (os_remove p)) (\<lambda>x F'. F' = F(dest \<mapsto> C) \<and> R x) (\<lambda>e F'. left_by t dest C F F') (F(p \<mapsto> []))"
    if p: "p = (child t n)" and none: "F p = None" for p n
  proof -
    have ne: "p \<noteq> dest" using fresh p by simp
    have undo: "fwp (os_remove p) (\<lambda>_. left_by t dest C F) (\<lambda>_. left_by t dest C F) (F(p := c))" for c
      by (rule fwp_remove) (use none ne left_by_tmp [of F t n dest] in \<open>auto simp: p fun_upd_idem\<close>)
    have late: "fwp (os_remove p) Q Q' (F(p := None, dest := Some C))"
      if "\<And>e. Q' e (F(dest \<mapsto> C))" for Q Q'
    proof -
      have "F(p := None, dest := Some C) = F(dest \<mapsto> C)" using none by (auto simp: fun_upd_def)
      with that ne none show ?thesis by (auto intro!: fwp_remove)
    qed
    show ?thesis
      by (intro fwp_edefer fwp_ebind fwp_ecatch, rule fwp_mono [OF wr])
         (use none in \<open>auto intro!: fwp_intro fwp_rename fwp_syncDir undo late simp: left_by_dest\<close>)
  qed
  show ?thesis
    unfolding writeFileAtomic_def
    by (intro fwp_intro fwp_create_temp body) (auto simp: left_by_def)
qed

section \<open>What each operation does to the files\<close>

definition in_scope :: "cas_ext \<Rightarrow> path \<Rightarrow> scope \<Rightarrow> string list \<Rightarrow> path" where
  "in_scope x d sc es = (Path (p_abs d) (scope_dir (blake3 x) d sc @ es))"

definition object_file :: "cas_ext \<Rightarrow> path \<Rightarrow> scope \<Rightarrow> string \<Rightarrow> path" where
  "object_file x d sc h = in_scope x d sc [''objects'', take 2 h, drop 2 h]"

definition asset_file :: "cas_ext \<Rightarrow> path \<Rightarrow> scope \<Rightarrow> string \<Rightarrow> path" where
  "asset_file x d sc h = in_scope x d sc [''assets'', take 2 h, drop 2 h]"

definition pack_file :: "cas_ext \<Rightarrow> path \<Rightarrow> scope \<Rightarrow> string \<Rightarrow> path" where
  "pack_file x d sc h = in_scope x d sc [''packs'', h @ ''.spack'']"

definition tmp_dir :: "cas_ext \<Rightarrow> path \<Rightarrow> scope \<Rightarrow> path" where
  "tmp_dir x d sc = in_scope x d sc [''tmp'']"

lemmas file_defs = child_def object_file_def asset_file_def pack_file_def tmp_dir_def in_scope_def

lemma validateHash_paths:
  assumes "validateHash h = Inr u"
  shows "\<exists>c. canonicalHashString h = Inr c \<and>
     objectPath (blake3 x) d sc h = Inr (object_file x d sc c) \<and>
     assetPath (blake3 x) d sc h = Inr (asset_file x d sc c) \<and>
     packPath (blake3 x) d sc h = Inr (pack_file x d sc c)"
  using validateHash_canonical [OF assms]
  by (auto simp: objectPath_eq assetPath_eq packPath_eq file_defs)

lemma fwp_scopeTmpDir:
  assumes "Q (tmp_dir x d sc) F" and "\<And>e. E e F"
  shows "fwp (scopeTmpDir x d sc) Q E F"
proof -
  have "plain ''tmp''" by (simp add: plain_def)
  then have eq: "safeJoin (Path (p_abs d) (scope_dir (blake3 x) d sc)) [''tmp''] = Inr (tmp_dir x d sc)"
    using safeJoin_scope [of "[''tmp'']"] by (simp add: file_defs)
  show ?thesis
    unfolding scopeTmpDir_def scopeRoot_eq
    by (intro fwp_intro fwp_elift) (use assms eq in \<open>auto intro!: fwp_intro fwp_elift\<close>)
qed

lemma fwp_ebind_lift:
  "(\<And>e. r = Inl e \<Longrightarrow> E e F) \<Longrightarrow> (\<And>y. r = Inr y \<Longrightarrow> fwp (f y) Q E F) \<Longrightarrow> fwp (ebind (elift r) f) Q E F"
  by (intro fwp_ebind fwp_elift)

lemma write_data_ok:
  "F p = Some [] \<Longrightarrow> fwp (os_write p data) (\<lambda>_ F'. F' = F(p \<mapsto> data) \<and> True) (\<lambda>e F'. \<exists>c. F' = F(p \<mapsto> c)) F"
  by (rule fwp_write [where d = "[]"]) auto

lemma tmp_fresh:
  "(child (tmp_dir x d sc) n) \<noteq> object_file x d sc c"
  "(child (tmp_dir x d sc) n) \<noteq> asset_file x d sc c"
  "(child (tmp_dir x d sc) n) \<noteq> pack_file x d sc c"
  by (auto simp: file_defs)

lemma atomic_write:
  assumes "\<And>n. (child t n) \<noteq> dest"
    and "\<And>p F. F p = Some [] \<Longrightarrow> fwp (m p) (\<lambda>_ F'. F' = F(p \<mapsto> C)) (\<lambda>e F'. \<exists>c. F' = F(p \<mapsto> c)) F"
    and "\<And>v. Q v (F(dest \<mapsto> C))" and "\<And>e F'. left_by t dest C F F' \<Longrightarrow> E e F'"
  shows "fwp (writeFileAtomic t dest m) Q E F"
  by (rule fwp_mono [OF writeFileAtomic_fwp [where R = "\<lambda>_. True" and C = C]]) (use assms in simp_all)

lemma object_path_of_hash:
  assumes "validateHash h = Inr u" and "hex_encode (blake3 x data) = h"
  shows "objectPath (blake3 x) d sc h = Inr (object_file x d sc h)"
    and "assetPath (blake3 x) d sc h = Inr (asset_file x d sc h)"
    and "packPath (blake3 x) d sc h = Inr (pack_file x d sc h)"
  using assms canonicalHashString_encode [of "blake3 x data"]
  by (auto simp: validateHash_Inr file_defs objectPath_eq assetPath_eq packPath_eq)

lemma Put_fwp:
  shows "fwp (Put x d ctx sc h data)
     (\<lambda>_ F'. h = hex_encode (blake3 x data) \<and>
        F' = (if F (object_file x d sc h) = None then F(object_file x d sc h \<mapsto> data) else F))
     (\<lambda>e F'. F' = F \<or> (h = hex_encode (blake3 x data) \<and> F (object_file x d sc h) = None \<and>
        left_by (tmp_dir x d sc) (object_file x d sc h) data F F')) F"
  unfolding Put_def
proof (intro fwp_ebind fwp_ctx_check fwp_elift fwp_eassert fwp_scopeTmpDir fwp_stat_case fwp_eret fwp_ewrap)
  fix u dest
  assume v: "validateHash h = Inr u" and h: "hex_encode (blake3 x data) = h" and dest: "objectPath (blake3 x) d sc h = Inr dest"
    and none: "F dest = None"
  have eq: "dest = object_file x d sc h" using object_path_of_hash(1) [OF v h, of d sc] dest by simp
  show "fwp (writeFileAtomic (tmp_dir x d sc) dest (\<lambda>p. os_write p data))
     (\<lambda>_ F'. h = hex_encode (blake3 x data) \<and>
        F' = (if F (object_file x d sc h) = None then F(object_file x d sc h \<mapsto> data) else F))
     (\<lambda>e F'. F' = F \<or> (h = hex_encode (blake3 x data) \<and> F (object_file x d sc h) = None \<and>
        left_by (tmp_dir x d sc) (object_file x d sc h) data F F')) F"
    unfolding eq by (rule atomic_write) (use h none eq tmp_fresh(1) write_data_ok in auto)
qed (auto simp: object_path_of_hash(1))

lemma Get_fwp:
  shows "fwp (Get x d ctx sc h)
     (\<lambda>data F'. F' = F \<and> h = hex_encode (blake3 x data) \<and> F (object_file x d sc h) = Some data)
     (\<lambda>e F'. F' = F) F"
  unfolding Get_def
  by (intro fwp_ebind fwp_ctx_check fwp_elift fwp_ecatch fwp_read_file fwp_eassert fwp_eret)
     (auto simp: os_not_exist_def object_path_of_hash(1) intro!: fwp_intro)

lemma hash_mismatch_cleanup:
  assumes "left_by t p C F (F0(p \<mapsto> C))" and "F p = None" and "F0 = F"
  shows "fwp (ebind (etry (os_remove p)) (\<lambda>r. efail (g r))) Q (\<lambda>e F'. left_by t p C F F') (F0(p \<mapsto> C))"
  using assms by (intro fwp_intro fwp_remove) (auto simp: left_by_def)

lemma WritePack_fwp:
  assumes c: "canonicalHashString h = Inr c"
  shows "fwp (WritePack x d ctx sc h r)
     (\<lambda>_ F'. if F (pack_file x d sc c) = None
        then h = hex_encode (blake3 x (rd_data r)) \<and> F' = F(pack_file x d sc c \<mapsto> zstd_encode x (rd_data r))
        else F' = F)
     (\<lambda>e F'. left_by (tmp_dir x d sc) (pack_file x d sc c) (zstd_encode x (rd_data r)) F F') F"
proof -
  have ok: "packPath (blake3 x) d sc h = Inr (pack_file x d sc c)"
    using packPath_eq [OF c] by (simp add: file_defs)
  have wr: "fwp (ebind (ewrap ''create zstd encoder'' (os_noop ''zstd'')) (\<lambda>_.
          case rd_err r of
            None \<Rightarrow> os_write p (zstd_encode x (rd_data r))
          | Some e \<Rightarrow> ebind (etry (os_write p (zstd_encode x (rd_data r)))) (\<lambda>_.
                      efail (Wrapf ''compress pack stream'' e))))
     (\<lambda>_ F'. F' = F(p \<mapsto> zstd_encode x (rd_data r))) (\<lambda>e F'. \<exists>c. F' = F(p \<mapsto> c)) F"
    if "F p = Some []" for F p
  proof -
    have "\<exists>c. F = F(p \<mapsto> c)" using that by (metis fun_upd_triv)
    with that show ?thesis
      by (cases "rd_err r") (auto intro!: fwp_intro fwp_write [where d = "[]"])
  qed
  show ?thesis
    unfolding WritePack_def ok
  proof (intro fwp_ebind_lift fwp_ebind [of "ctx_check ctx"] fwp_ebind [of "scopeTmpDir x d sc"]
      fwp_ctx_check fwp_scopeTmpDir fwp_stat_case fwp_ewrap fwp_drain)
    fix p :: path assume "Inr (pack_file x d sc c) = Inr p"
    then show "\<And>e. left_by (tmp_dir x d sc) (pack_file x d sc c) (zstd_encode x (rd_data r)) F F" by simp
  next
    fix p :: path assume "Inr (pack_file x d sc c) = (Inr p :: goerr + path)" and none: "F p = None"
    then have p: "p = pack_file x d sc c" by simp
    show "fwp (ebind (ewrap ''cas: write pack'' (writeFileAtomic (tmp_dir x d sc) p (\<lambda>p.
          ebind (ewrap ''create zstd encoder'' (os_noop ''zstd'')) (\<lambda>_.
          case rd_err r of
            None \<Rightarrow> os_write p (zstd_encode x (rd_data r))
          | Some e \<Rightarrow> ebind (etry (os_write p (zstd_encode x (rd_data r)))) (\<lambda>_.
                      efail (Wrapf ''compress pack stream'' e)))))) (\<lambda>_.
        if hex_encode (blake3 x (rd_data r)) \<noteq> h then
          ebind (etry (os_remove p)) (\<lambda>rmErr.
          efail (Wrapf (if rmErr = Inr () \<or> rmErr = Inl os_not_exist then ''pack''
                        else ''pack (also failed to remove invalid pack)'') (Cas ErrHashMismatch)))
        else eret ()))
     (\<lambda>_ F'. if F (pack_file x d sc c) = None
        then h = hex_encode (blake3 x (rd_data r)) \<and> F' = F(pack_file x d sc c \<mapsto> zstd_encode x (rd_data r))
        else F' = F)
     (\<lambda>e F'. left_by (tmp_dir x d sc) (pack_file x d sc c) (zstd_encode x (rd_data r)) F F') F"
      unfolding p
      by (intro fwp_ebind [of "ewrap _ _"] fwp_ewrap, rule atomic_write [where C = "zstd_encode x (rd_data r)"])
         (use none p in \<open>auto intro!: tmp_fresh wr hash_mismatch_cleanup fwp_eret simp: left_by_dest\<close>)
  qed auto
qed

lemma copy_to_fwp:
  assumes "F p = Some []"
  shows "fwp (copy_to p r) (\<lambda>n F'. F' = F(p \<mapsto> rd_data r) \<and> n = length (rd_data r)) (\<lambda>e F'. \<exists>c. F' = F(p \<mapsto> c)) F"
  unfolding copy_to_def
  using assms by (cases "rd_err r") (auto intro!: fwp_intro fwp_write [where d = "[]"])

lemma WriteAsset_fwp:
  assumes c: "canonicalHashString h = Inr c"
  shows "fwp (WriteAsset x d ctx sc h r)
     (\<lambda>n F'. if F (asset_file x d sc c) = None
        then h = hex_encode (blake3 x (rd_data r)) \<and> F' = F(asset_file x d sc c \<mapsto> rd_data r) \<and>
             n = word_of_nat (length (rd_data r))
        else F' = F)
     (\<lambda>e F'. left_by (tmp_dir x d sc) (asset_file x d sc c) (rd_data r) F F') F"
proof -
  have ok: "assetPath (blake3 x) d sc h = Inr (asset_file x d sc c)"
    using assetPath_eq [OF c] by (simp add: file_defs)
  have main: "fwp (ebind (ewrap ''cas: write asset'' (writeFileAtomic (tmp_dir x d sc) (asset_file x d sc c) (\<lambda>p. copy_to p r))) (\<lambda>written.
        if hex_encode (blake3 x (rd_data r)) \<noteq> h then
          ebind (etry (os_remove (asset_file x d sc c))) (\<lambda>rmErr.
          efail (Wrapf (if rmErr = Inr () \<or> rmErr = Inl os_not_exist then ''asset''
                        else ''asset (also failed to remove invalid asset)'') (Cas ErrHashMismatch)))
        else eret (word_of_nat written)))
     (\<lambda>n F'. h = hex_encode (blake3 x (rd_data r)) \<and> F' = F(asset_file x d sc c \<mapsto> rd_data r) \<and>
             n = word_of_nat (length (rd_data r)))
     (\<lambda>e F'. left_by (tmp_dir x d sc) (asset_file x d sc c) (rd_data r) F F') F"
    if none: "F (asset_file x d sc c) = None"
    by (intro fwp_ebind [of "ewrap _ _"] fwp_ewrap,
        rule fwp_mono [OF writeFileAtomic_fwp [where R = "\<lambda>n. n = length (rd_data r)" and C = "rd_data r"]])
       (use none in \<open>auto intro!: tmp_fresh copy_to_fwp hash_mismatch_cleanup fwp_eret simp: left_by_dest\<close>)
  show ?thesis
    unfolding WriteAsset_def ok
  proof (intro fwp_ebind_lift fwp_ebind [of "ctx_check ctx"] fwp_ebind [of "scopeTmpDir x d sc"]
      fwp_ctx_check fwp_scopeTmpDir fwp_stat_case)
    fix p :: path assume "Inr (asset_file x d sc c) = (Inr p :: goerr + path)" and none: "F p = None"
    then have p: "p = asset_file x d sc c" by simp
    show "fwp (ebind (ewrap ''cas: write asset'' (writeFileAtomic (tmp_dir x d sc) p (\<lambda>p. copy_to p r))) (\<lambda>written.
        if hex_encode (blake3 x (rd_data r)) \<noteq> h then
          ebind (etry (os_remove p)) (\<lambda>rmErr.
          efail (Wrapf (if rmErr = Inr () \<or> rmErr = Inl os_not_exist then ''asset''
                        else ''asset (also failed to remove invalid asset)'') (Cas ErrHashMismatch)))
        else eret (word_of_nat written)))
     (\<lambda>n F'. if F (asset_file x d sc c) = None
        then h = hex_encode (blake3 x (rd_data r)) \<and> F' = F(asset_file x d sc c \<mapsto> rd_data r) \<and>
             n = word_of_nat (length (rd_data r))
        else F' = F)
     (\<lambda>e F'. left_by (tmp_dir x d sc) (asset_file x d sc c) (rd_data r) F F') F"
      unfolding p by (rule fwp_mono [OF main]) (use none p in auto)
  qed (auto intro!: fwp_intro fwp_drain)
qed

lemma OpenPack_fwp:
  assumes c: "canonicalHashString h = Inr c"
  shows "fwp (OpenPack x d ctx sc h)
     (\<lambda>rd F'. F' = F \<and> (\<exists>f. F (pack_file x d sc c) = Some f \<and> rd = zstd_decode x f)) (\<lambda>e F'. F' = F) F"
  unfolding OpenPack_def packPath_eq [OF c]
  by (intro fwp_ebind fwp_ctx_check fwp_elift fwp_ecatch fwp_read_file)
     (auto simp: os_not_exist_def file_defs intro!: fwp_intro)

lemma DeletePack_fwp:
  assumes c: "canonicalHashString h = Inr c"
  shows "fwp (DeletePack x d ctx sc h)
     (\<lambda>_ F'. F' = F(pack_file x d sc c := None)) (\<lambda>e F'. F' = F) F"
  unfolding DeletePack_def packPath_eq [OF c]
  by (intro fwp_ebind fwp_ctx_check fwp_elift fwp_etry fwp_remove)
     (auto simp: os_not_exist_def file_defs fun_upd_idem intro!: fwp_intro)

text \<open>A hash the driver rejects leaves every file as it was.\<close>

lemma bad_hash_fwp:
  assumes "validateHash h = Inl e"
  shows "fwp (Put x d ctx sc h data) (\<lambda>_ _. False) (\<lambda>_ F'. F' = F) F"
    and "fwp (WritePack x d ctx sc h r) (\<lambda>_ _. False) (\<lambda>_ F'. F' = F) F"
    and "fwp (WriteAsset x d ctx sc h r) (\<lambda>_ _. False) (\<lambda>_ F'. F' = F) F"
    and "fwp (DeletePack x d ctx sc h) (\<lambda>_ _. False) (\<lambda>_ F'. F' = F) F"
    and "fwp (OpenPack x d ctx sc h) (\<lambda>_ _. False) (\<lambda>_ F'. F' = F) F"
  unfolding Put_def WritePack_def WriteAsset_def DeletePack_def OpenPack_def assms
  by (intro fwp_ebind fwp_ctx_check fwp_elift; simp)+

lemma fwp_run: "fwp m Q E (fs_files w) \<Longrightarrow> m w = (Inr v, w') \<Longrightarrow> Q v (fs_files w')"
  by (auto simp: fwp_def wp_def split: prod.splits sum.splits)

lemma fwp_run_err: "fwp m Q E (fs_files w) \<Longrightarrow> m w = (Inl e, w') \<Longrightarrow> E e (fs_files w')"
  by (auto simp: fwp_def wp_def split: prod.splits sum.splits)

lemma fwp_any: "fwp m Q E (fs_files w) \<Longrightarrow> (case m w of (Inr v, w') \<Rightarrow> Q v (fs_files w') | (Inl e, w') \<Rightarrow> E e (fs_files w'))"
  by (auto simp: fwp_def wp_def split: prod.splits sum.splits)

end
