(* ===== verification/Cas_Store.thy ===== *)
theory Cas_Store
  imports Cas_Local
begin

text \<open>
  The \<open>Driver\<close> interface of \<open>cas.go\<close> as a record of operations, the contract its clients (push,
  pull, retention, native transfer) rely on as the locale \<open>pack_store\<close>, the local driver as an
  instance of it, and the properties of the content-addressed store.
\<close>

section \<open>The interface\<close>

record 'w cas_driver =
  drv_Put :: "ctx \<Rightarrow> scope \<Rightarrow> string \<Rightarrow> bytes \<Rightarrow> ('w, unit) eff"
  drv_Get :: "ctx \<Rightarrow> scope \<Rightarrow> string \<Rightarrow> ('w, bytes) eff"
  drv_Exists :: "ctx \<Rightarrow> scope \<Rightarrow> string \<Rightarrow> ('w, bool) eff"
  drv_OpenPack :: "ctx \<Rightarrow> scope \<Rightarrow> string \<Rightarrow> ('w, reader) eff"
  drv_WritePack :: "ctx \<Rightarrow> scope \<Rightarrow> string \<Rightarrow> reader \<Rightarrow> ('w, unit) eff"
  drv_WriteAsset :: "ctx \<Rightarrow> scope \<Rightarrow> string \<Rightarrow> reader \<Rightarrow> ('w, int64) eff"
  drv_OpenAsset :: "ctx \<Rightarrow> scope \<Rightarrow> string \<Rightarrow> ('w, reader \<times> int64) eff"
  drv_AssetExists :: "ctx \<Rightarrow> scope \<Rightarrow> string \<Rightarrow> ('w, bool) eff"
  drv_DeletePack :: "(ctx \<Rightarrow> scope \<Rightarrow> string \<Rightarrow> ('w, unit) eff) option"

definition local_driver :: "cas_ext \<Rightarrow> path \<Rightarrow> fs cas_driver" where
  "local_driver x d = \<lparr>
     drv_Put = Put x d, drv_Get = Get x d, drv_Exists = Exists x d, drv_OpenPack = OpenPack x d,
     drv_WritePack = WritePack x d, drv_WriteAsset = WriteAsset x d, drv_OpenAsset = OpenAsset x d,
     drv_AssetExists = AssetExists x d, drv_DeletePack = Some (DeletePack x d)\<rparr>"

text \<open>
  What a client may rely on. \<open>pk w sc h\<close> is the stream stored as pack \<open>h\<close> of scope \<open>sc\<close>, \<open>H\<close> the
  digest in hexadecimal, \<open>enc\<close> the stored form of a stream and \<open>dec\<close> what reading it delivers.
\<close>

locale pack_store =
  fixes drv :: "'w cas_driver"
    and pk :: "'w \<Rightarrow> scope \<Rightarrow> string \<Rightarrow> bytes option"
    and H :: "bytes \<Rightarrow> string" and enc :: "bytes \<Rightarrow> bytes" and dec :: "bytes \<Rightarrow> reader"
  assumes write_ok: "drv_WritePack drv c sc h r w = (Inr u, w') \<Longrightarrow>
      (if pk w sc h = None then h = H (rd_data r) \<and> pk w' sc h = Some (enc (rd_data r)) else pk w' sc h = pk w sc h)"
    and write_keeps: "pk w sc' h' = Some f \<Longrightarrow> pk (snd (drv_WritePack drv c sc h r w)) sc' h' = Some f"
    and open_ok: "drv_OpenPack drv c sc h w = (Inr rd, w') \<Longrightarrow>
      (\<exists>f. pk w sc h = Some f \<and> rd = dec f)"
    and open_keeps: "pk (snd (drv_OpenPack drv c sc h w)) = pk w"
    and delete_ok: "drv_DeletePack drv = Some del \<Longrightarrow> del c sc h w = (Inr u, w') \<Longrightarrow> pk w' sc h = None"
    and delete_err: "drv_DeletePack drv = Some del \<Longrightarrow> del c sc h w = (Inl e, w') \<Longrightarrow> pk w' = pk w"
begin

text \<open>A pack that was written reads back as the stream that was written, whatever is written in between.\<close>

lemma write_then_open:
  assumes "drv_WritePack drv c sc h r w = (Inr u, w1)" and "pk w sc h = None"
    and "pk w2 sc h = pk w1 sc h" and "drv_OpenPack drv c' sc h w2 = (Inr rd, w3)"
  shows "h = H (rd_data r) \<and> rd = dec (enc (rd_data r))"
  using write_ok [OF assms(1)] open_ok [OF assms(4)] assms(2,3) by auto

lemma write_present:
  "drv_WritePack drv c sc h r w = (Inr u, w') \<Longrightarrow> pk w' sc h \<noteq> None"
  using write_ok [of c sc h r w u w'] by (auto split: if_splits)

lemma writes_keep:
  "pk w sc h = Some f \<Longrightarrow> pk (fold (\<lambda>(c, s, g, r) w. snd (drv_WritePack drv c s g r w)) ps w) sc h = Some f"
  by (induction ps arbitrary: w) (auto simp: write_keeps)

end

text \<open>The pack files of the local driver.\<close>

definition local_pack :: "cas_ext \<Rightarrow> path \<Rightarrow> fs \<Rightarrow> scope \<Rightarrow> string \<Rightarrow> bytes option" where
  "local_pack x d w sc h = (case canonicalHashString h of
       Inl _ \<Rightarrow> None | Inr c \<Rightarrow> fs_files w (pack_file x d sc c))"

lemma validate_needed:
  assumes "canonicalHashString h = Inl e"
  shows "\<exists>e'. validateHash h = Inl e'"
  using assms by (cases "validateHash h") (auto dest: validateHash_canonical)

lemma Write_present_fwp:
  assumes c: "canonicalHashString h = Inr c"
  shows "F (pack_file x d sc c) \<noteq> None \<Longrightarrow> fwp (WritePack x d ctx sc h r) (\<lambda>_ F'. F' = F) (\<lambda>_ F'. F' = F) F"
    and "F (asset_file x d sc c) \<noteq> None \<Longrightarrow> fwp (WriteAsset x d ctx sc h r) (\<lambda>_ F'. F' = F) (\<lambda>_ F'. F' = F) F"
proof -
  have ok: "packPath (blake3 x) d sc h = Inr (pack_file x d sc c)" "assetPath (blake3 x) d sc h = Inr (asset_file x d sc c)"
    using packPath_eq [OF c] assetPath_eq [OF c] by (simp_all add: file_defs)
  show "fwp (WritePack x d ctx sc h r) (\<lambda>_ F'. F' = F) (\<lambda>_ F'. F' = F) F" if "F (pack_file x d sc c) \<noteq> None"
    unfolding WritePack_def ok
    by (intro fwp_ebind_lift fwp_ebind [of "ctx_check ctx"] fwp_ebind [of "scopeTmpDir x d sc"]
      fwp_ctx_check fwp_scopeTmpDir fwp_stat_case) (use that in \<open>auto intro!: fwp_intro fwp_drain\<close>)
  show "fwp (WriteAsset x d ctx sc h r) (\<lambda>_ F'. F' = F) (\<lambda>_ F'. F' = F) F" if "F (asset_file x d sc c) \<noteq> None"
    unfolding WriteAsset_def ok
    by (intro fwp_ebind_lift fwp_ebind [of "ctx_check ctx"] fwp_ebind [of "scopeTmpDir x d sc"]
      fwp_ctx_check fwp_scopeTmpDir fwp_stat_case) (use that in \<open>auto intro!: fwp_intro fwp_drain\<close>)
qed

lemma run_snd:
  assumes "fwp m Q E (fs_files w)" and "\<And>v. Q v (fs_files (snd (m w))) \<Longrightarrow> P" and "\<And>e. E e (fs_files (snd (m w))) \<Longrightarrow> P"
  shows P
  using fwp_any [OF assms(1)] assms(2,3) by (auto split: prod.splits sum.splits)

lemma fwp_fail:
  "fwp m (\<lambda>_ _. False) (\<lambda>_ F'. F' = F) F \<Longrightarrow> fs_files w = F \<Longrightarrow>
   (\<exists>e. m w = (Inl e, snd (m w))) \<and> fs_files (snd (m w)) = fs_files w"
  using fwp_any [of m "\<lambda>_ _. False" "\<lambda>_ F'. F' = F" w] by (auto split: prod.splits sum.splits)

lemma left_by_keeps: "left_by t dest C F F' \<Longrightarrow> F dest = None \<Longrightarrow> F q = Some f \<Longrightarrow> F' q = Some f"
  unfolding left_by_def by (metis option.distinct(1))

lemma WritePack_keeps:
  assumes "fs_files w q = Some f"
  shows "fs_files (snd (WritePack x d ctx sc h r w)) q = Some f"
proof (cases "canonicalHashString h")
  case (Inl e)
  then obtain e' where v: "validateHash h = Inl e'" using validate_needed by blast
  have "fs_files (snd (WritePack x d ctx sc h r w)) = fs_files w"
    by (simp only: fwp_fail [OF bad_hash_fwp(2) [OF v] refl])
  then show ?thesis using assms by simp
next
  case (Inr c)
  show ?thesis
  proof (cases "fs_files w (pack_file x d sc c) = None")
    case True
    show ?thesis
      using fwp_any [OF WritePack_fwp [OF Inr, of x d ctx sc r "fs_files w"]] True assms
      by (auto dest: left_by_keeps split: prod.splits sum.splits)
  next
    case False
    then show ?thesis
      using fwp_any [OF Write_present_fwp(1) [OF Inr, of "fs_files w" x d sc ctx r]] assms
      by (auto split: prod.splits sum.splits)
  qed
qed

lemma Inl_hash_run:
  assumes "canonicalHashString h = Inl e"
  shows "\<exists>e'. WritePack x d c sc h r w = (Inl e', snd (WritePack x d c sc h r w))"
    and "fs_files (snd (WritePack x d c sc h r w)) = fs_files w"
    and "\<exists>e'. OpenPack x d c sc h w = (Inl e', snd (OpenPack x d c sc h w))"
    and "fs_files (snd (OpenPack x d c sc h w)) = fs_files w"
    and "\<exists>e'. DeletePack x d c sc h w = (Inl e', snd (DeletePack x d c sc h w))"
    and "fs_files (snd (DeletePack x d c sc h w)) = fs_files w"
proof -
  obtain e' where v: "validateHash h = Inl e'" using validate_needed [OF assms] by blast
  show "\<exists>e'. WritePack x d c sc h r w = (Inl e', snd (WritePack x d c sc h r w))"
    "fs_files (snd (WritePack x d c sc h r w)) = fs_files w"
    by (simp_all only: fwp_fail [OF bad_hash_fwp(2) [OF v] refl])
  show "\<exists>e'. OpenPack x d c sc h w = (Inl e', snd (OpenPack x d c sc h w))"
    "fs_files (snd (OpenPack x d c sc h w)) = fs_files w"
    by (simp_all only: fwp_fail [OF bad_hash_fwp(5) [OF v] refl])
  show "\<exists>e'. DeletePack x d c sc h w = (Inl e', snd (DeletePack x d c sc h w))"
    "fs_files (snd (DeletePack x d c sc h w)) = fs_files w"
    by (simp_all only: fwp_fail [OF bad_hash_fwp(4) [OF v] refl])
qed

interpretation local: pack_store "local_driver x d" "local_pack x d" "\<lambda>b. hex_encode (blake3 x b)"
    "zstd_encode x" "zstd_decode x"
  for x d
proof
  fix c sc h r w u w'
  assume run: "drv_WritePack (local_driver x d) c sc h r w = (Inr u, w')"
  then have run': "WritePack x d c sc h r w = (Inr u, w')" by (simp add: local_driver_def)
  then obtain k where k: "canonicalHashString h = Inr k"
    using Inl_hash_run(1) [of h _ x d c sc r w] by (cases "canonicalHashString h") force+
  show "if local_pack x d w sc h = None then h = hex_encode (blake3 x (rd_data r)) \<and>
          local_pack x d w' sc h = Some (zstd_encode x (rd_data r))
        else local_pack x d w' sc h = local_pack x d w sc h"
    unfolding local_pack_def k using fwp_run [OF WritePack_fwp [OF k] run'] by (auto split: if_splits)
next
  fix w sc' h' f c sc h r
  assume "local_pack x d w sc' h' = Some f"
  then show "local_pack x d (snd (drv_WritePack (local_driver x d) c sc h r w)) sc' h' = Some f"
    by (auto simp: local_pack_def local_driver_def split: sum.splits intro!: WritePack_keeps)
next
  fix c sc h w rd w'
  assume run: "drv_OpenPack (local_driver x d) c sc h w = (Inr rd, w')"
  then have run': "OpenPack x d c sc h w = (Inr rd, w')" by (simp add: local_driver_def)
  then obtain k where k: "canonicalHashString h = Inr k"
    using Inl_hash_run(3) [of h _ x d c sc w] by (cases "canonicalHashString h") force+
  show "\<exists>f. local_pack x d w sc h = Some f \<and> rd = zstd_decode x f"
    using fwp_run [OF OpenPack_fwp [OF k] run'] by (auto simp: local_pack_def k)
next
  fix c sc h w
  have "fs_files (snd (OpenPack x d c sc h w)) = fs_files w"
  proof (cases "canonicalHashString h")
    case (Inr k)
    then show ?thesis using fwp_any [OF OpenPack_fwp [OF Inr, of x d c sc "fs_files w"]]
      by (auto split: prod.splits sum.splits)
  qed (simp add: Inl_hash_run(4))
  then show "local_pack x d (snd (drv_OpenPack (local_driver x d) c sc h w)) = local_pack x d w"
    by (intro ext) (simp add: local_pack_def local_driver_def split: sum.split)
next
  fix del c sc h w u w'
  assume "drv_DeletePack (local_driver x d) = Some del" and run: "del c sc h w = (Inr u, w')"
  then have run': "DeletePack x d c sc h w = (Inr u, w')" by (auto simp: local_driver_def)
  then obtain k where k: "canonicalHashString h = Inr k"
    using Inl_hash_run(5) [of h _ x d c sc w] by (cases "canonicalHashString h") force+
  show "local_pack x d w' sc h = None"
    using fwp_run [OF DeletePack_fwp [OF k] run'] by (simp add: local_pack_def k)
next
  fix del c sc h w e w'
  assume "drv_DeletePack (local_driver x d) = Some del" and run: "del c sc h w = (Inl e, w')"
  then have run': "DeletePack x d c sc h w = (Inl e, w')" by (auto simp: local_driver_def)
  have "fs_files w' = fs_files w"
  proof (cases "canonicalHashString h")
    case (Inl a)
    then show ?thesis using Inl_hash_run(6) [of h a x d c sc w] run' by simp
  next
    case (Inr k)
    then show ?thesis using fwp_run_err [OF DeletePack_fwp [OF Inr] run'] by simp
  qed
  then show "local_pack x d w' = local_pack x d w"
    by (intro ext) (simp add: local_pack_def split: sum.split)
qed

section \<open>Sequences of operations\<close>

text \<open>A request to the store, and the files after any sequence of them under any fault schedule.\<close>

datatype cas_op =
  OpPut ctx scope string bytes
| OpGet ctx scope string
| OpWritePack ctx scope string reader
| OpOpenPack ctx scope string
| OpWriteAsset ctx scope string reader
| OpDeletePack ctx scope string

fun op_scope :: "cas_op \<Rightarrow> scope" where
  "op_scope (OpPut _ s _ _) = s"
| "op_scope (OpGet _ s _) = s"
| "op_scope (OpWritePack _ s _ _) = s"
| "op_scope (OpOpenPack _ s _) = s"
| "op_scope (OpWriteAsset _ s _ _) = s"
| "op_scope (OpDeletePack _ s _) = s"

fun run_op :: "cas_ext \<Rightarrow> path \<Rightarrow> cas_op \<Rightarrow> fs \<Rightarrow> fs" where
  "run_op x d (OpPut c s h b) w = snd (Put x d c s h b w)"
| "run_op x d (OpGet c s h) w = snd (Get x d c s h w)"
| "run_op x d (OpWritePack c s h r) w = snd (WritePack x d c s h r w)"
| "run_op x d (OpOpenPack c s h) w = snd (OpenPack x d c s h w)"
| "run_op x d (OpWriteAsset c s h r) w = snd (WriteAsset x d c s h r w)"
| "run_op x d (OpDeletePack c s h) w = snd (DeletePack x d c s h w)"

text \<open>What one operation may change: temporary files of its scope, and the file its hash names.\<close>

fun op_file :: "cas_ext \<Rightarrow> path \<Rightarrow> cas_op \<Rightarrow> path set" where
  "op_file x d (OpPut _ s h _) = {object_file x d s h}"
| "op_file x d (OpWritePack _ s h _) = {pack_file x d s k |k. canonicalHashString h = Inr k}"
| "op_file x d (OpWriteAsset _ s h _) = {asset_file x d s k |k. canonicalHashString h = Inr k}"
| "op_file x d (OpDeletePack _ s h) = {pack_file x d s k |k. canonicalHashString h = Inr k}"
| "op_file x d _ = {}"

definition op_target :: "cas_ext \<Rightarrow> path \<Rightarrow> cas_op \<Rightarrow> path set" where
  "op_target x d p = op_file x d p \<union> {child (tmp_dir x d (op_scope p)) n |n. True}"

definition unchanged :: "path set \<Rightarrow> files \<Rightarrow> files \<Rightarrow> bool" where
  "unchanged T F F' \<longleftrightarrow> (\<forall>q. q \<notin> T \<longrightarrow> F' q = F q)"

lemma unchanged_refl [simp]: "unchanged T F F"
  by (simp add: unchanged_def)

lemma unchanged_upd [simp]: "p \<in> T \<Longrightarrow> unchanged T F (F(p := v))"
  by (auto simp: unchanged_def)

lemma unchanged_left_by:
  "left_by t dest C F F' \<Longrightarrow> dest \<in> T \<Longrightarrow> (\<And>n. child t n \<in> T) \<Longrightarrow> unchanged T F F'"
  unfolding left_by_def unchanged_def by metis

lemma fwp_frame:
  assumes "fwp m Q E (fs_files w)"
    and "\<And>v F'. Q v F' \<Longrightarrow> unchanged T (fs_files w) F'" and "\<And>e F'. E e F' \<Longrightarrow> unchanged T (fs_files w) F'"
  shows "unchanged T (fs_files w) (fs_files (snd (m w)))"
  using fwp_any [OF assms(1)] assms(2,3) by (auto split: prod.splits sum.splits)

lemma op_target_intros [simp]:
  "child (tmp_dir x d (op_scope p)) n \<in> op_target x d p"
  "q \<in> op_file x d p \<Longrightarrow> q \<in> op_target x d p"
  by (auto simp: op_target_def)

lemma run_op_unchanged: "unchanged (op_target x d p) (fs_files w) (fs_files (run_op x d p w))"
proof -
  note tgt = op_target_intros(1) [of x d p] op_target_intros(2) [of _ x d p] unchanged_left_by [where T = "op_target x d p"]
  show ?thesis
  proof (cases p)
    case (OpPut c s h b)
    show ?thesis
      using tgt by (simp only: OpPut run_op.simps)
        (rule fwp_frame [OF Put_fwp]; auto split: if_splits)
  next
    case (OpGet c s h)
    show ?thesis by (simp only: OpGet run_op.simps) (rule fwp_frame [OF Get_fwp]; auto)
  next
    case (OpWritePack c s h r)
    show ?thesis
    proof (cases "canonicalHashString h")
      case (Inr k)
      have "pack_file x d s k \<in> op_target x d p" by (simp add: op_target_def OpWritePack Inr)
      with tgt show ?thesis
         by (simp only: OpWritePack run_op.simps)
          (rule fwp_frame [OF WritePack_fwp [OF Inr]]; auto split: if_splits)
    qed (simp add: OpWritePack Inl_hash_run)
  next
    case (OpOpenPack c s h)
    show ?thesis
    proof (cases "canonicalHashString h")
      case (Inr k)
      show ?thesis by (simp only: OpOpenPack run_op.simps) (rule fwp_frame [OF OpenPack_fwp [OF Inr]]; auto)
    qed (simp add: OpOpenPack Inl_hash_run)
  next
    case (OpWriteAsset c s h r)
    show ?thesis
    proof (cases "canonicalHashString h")
      case (Inl e)
      then obtain e' where v: "validateHash h = Inl e'" using validate_needed by blast
      show ?thesis using OpWriteAsset by (simp add: fwp_fail [OF bad_hash_fwp(3) [OF v] refl])
    next
      case (Inr k)
      have "asset_file x d s k \<in> op_target x d p" by (simp add: op_target_def OpWriteAsset Inr)
      with tgt show ?thesis
         by (simp only: OpWriteAsset run_op.simps)
          (rule fwp_frame [OF WriteAsset_fwp [OF Inr]]; auto split: if_splits)
    qed
  next
    case (OpDeletePack c s h)
    show ?thesis
    proof (cases "canonicalHashString h")
      case (Inr k)
      have "pack_file x d s k \<in> op_target x d p" by (simp add: op_target_def OpDeletePack Inr)
      with tgt show ?thesis
         by (simp only: OpDeletePack run_op.simps) (rule fwp_frame [OF DeletePack_fwp [OF Inr]]; auto)
    qed (simp add: OpDeletePack Inl_hash_run)
  qed
qed

text \<open>An object, once stored, stays as it is under every later operation.\<close>

lemma files_distinct:
  assumes "digest32 (blake3 x)"
  shows "object_file x d s h \<noteq> pack_file x d s' k" and "object_file x d s h \<noteq> asset_file x d s' k"
    and "object_file x d s h \<noteq> child (tmp_dir x d s') n"
  using assms
  by (auto simp: file_defs scope_dir_def digest32_def scopeStorageKey_def dest: arg_cong [of _ _ length])

lemma object_file_inj:
  assumes "digest32 (blake3 x)" and "object_file x d s h = object_file x d s' h'"
  shows "h = h'"
proof -
  have "take 2 h = take 2 h'" and "drop 2 h = drop 2 h'"
    using assms
    by (auto simp: file_defs scope_dir_def digest32_def scopeStorageKey_def dest: arg_cong [of _ _ length])
  then show ?thesis by (metis append_take_drop_id)
qed

lemma run_op_object:
  assumes dg: "digest32 (blake3 x)"
  shows "fs_files (run_op x d p w) (object_file x d s h) = fs_files w (object_file x d s h) \<or>
    (fs_files w (object_file x d s h) = None \<and>
     (\<exists>b. h = hex_encode (blake3 x b) \<and> fs_files (run_op x d p w) (object_file x d s h) = Some b))"
proof (cases "object_file x d s h \<in> op_target x d p")
  case False
  then show ?thesis using run_op_unchanged [of x d p w] by (simp add: unchanged_def)
next
  case True
  then obtain c s' h' b where p: "p = OpPut c s' h' b" and eq: "object_file x d s h = object_file x d s' h'"
    by (cases p) (auto simp: op_target_def files_distinct [OF dg])
  have "h' = h" using object_file_inj [OF dg] eq by metis
  then show ?thesis
    using fwp_any [OF Put_fwp [of x d c s' h' b "fs_files w"]] eq
    by (auto simp: p left_by_def split: prod.splits sum.splits if_splits)
qed

lemma run_op_keeps_object:
  assumes "digest32 (blake3 x)" and "fs_files w (object_file x d s h) = Some b"
  shows "fs_files (run_op x d p w) (object_file x d s h) = Some b"
  using run_op_object [OF assms(1), of d p w s h] assms(2) by auto

lemma run_ops_keep_object:
  "digest32 (blake3 x) \<Longrightarrow> fs_files w (object_file x d s h) = Some b \<Longrightarrow>
   fs_files (fold (run_op x d) ps w) (object_file x d s h) = Some b"
  by (induction ps arbitrary: w) (auto simp: run_op_keeps_object)

text \<open>Every stored object has the content its name says.\<close>

definition objects_ok :: "cas_ext \<Rightarrow> path \<Rightarrow> fs \<Rightarrow> bool" where
  "objects_ok x d w \<longleftrightarrow> (\<forall>s h b. fs_files w (object_file x d s h) = Some b \<longrightarrow> hex_encode (blake3 x b) = h)"

lemma run_op_objects_ok: "digest32 (blake3 x) \<Longrightarrow> objects_ok x d w \<Longrightarrow> objects_ok x d (run_op x d p w)"
  using run_op_object [of x d p w] unfolding objects_ok_def by (metis option.inject)

lemma fs_run_Get:
  assumes "ctx_err c = None" and "\<not> fs_fault w (fs_calls w)" and "h = hex_encode (blake3 x b)"
    and "length (blake3 x b) = 32" and "fs_files w (object_file x d s h) = Some b"
  shows "fst (Get x d c s h w) = Inr b"
proof -
  have v: "validateHash h = Inr ()" using assms by (simp add: validateHash_encode)
  show ?thesis
    using assms v object_path_of_hash(1) [OF v assms(3) [symmetric], of d s]
    by (simp add: Get_def ctx_check_def os_read_file_def os_call_def Let_def eff_run)
qed

section \<open>Properties\<close>

text \<open>\<open>safeJoin\<close> never leaves its root: a joined path is the cleaned root followed by elements
  none of which is \<open>..\<close>, whatever the elements were.\<close>

theorem safeJoin_contained:
  assumes "safeJoin root elems = Inr p"
  shows "\<exists>rest. p = Path (p_abs root) (p_segs (go_clean root) @ rest) \<and> ''..'' \<notin> set rest"
  using assms by (rule safeJoin_contained_aux)

theorem safeJoin_contained_witness:
  "\<exists>rest. Path True [''srv'', ''x''] = Path True ([''srv''] @ rest) \<and> ''..'' \<notin> set rest"
  using safeJoin_contained [of "Path True [''srv'', ''.'']" "[''a/..'', ''x'']" "Path True [''srv'', ''x'']"]
  by (simp add: safeJoin_def go_join_def go_rel_def go_clean_def Let_def)

text \<open>C14: Tenants and repositories are fenced from each other. Whatever operations run in one scope,
  and whatever system calls fail, no file below the directory of a scope with another storage key
  changes.\<close>

theorem cas_scope_isolation:
  assumes "digest32 (blake3 x)" and "\<forall>p \<in> set ps. op_scope p = s"
    and "scopeStorageKey (blake3 x) (sc_tenant s) \<noteq> scopeStorageKey (blake3 x) (sc_tenant s') \<or>
         scopeStorageKey (blake3 x) (sc_repo s) \<noteq> scopeStorageKey (blake3 x) (sc_repo s')"
  shows "fs_files (fold (run_op x d) ps w) (in_scope x d s' es) = fs_files w (in_scope x d s' es)"
  using assms(2)
proof (induction ps arbitrary: w)
  case (Cons p ps)
  have "in_scope x d s' es \<notin> op_target x d p"
    using scope_dir_disjoint [OF assms(1), of d s _ s' es] assms(3) Cons.prems
    by (cases p) (auto simp: op_target_def file_defs)
  then show ?case using Cons run_op_unchanged [of x d p w] by (simp add: unchanged_def)
qed simp

definition wit_scope :: "string \<Rightarrow> scope" where
  "wit_scope t = \<lparr>sc_tenant = t, sc_repo = ''r''\<rparr>"

definition wit_fs :: "(nat \<Rightarrow> bool) \<Rightarrow> fs" where
  "wit_fs f = \<lparr>fs_files = (\<lambda>_. None), fs_calls = 0, fs_fault = f, fs_torn = (\<lambda>_. 0), fs_tmpname = (\<lambda>_. ''cas-1.tmp'')\<rparr>"

definition wit_ctx :: ctx where
  "wit_ctx = \<lparr>ctx_err = None, ctx_tenant = None\<rparr>"

text \<open>A digest of 32 bytes for the witnesses, collision-free at \<open>[7]\<close>.\<close>

definition wit_digest :: "bytes \<Rightarrow> bytes" where
  "wit_digest b = replicate 32 (if b = [7] then 1 else if b = str_bytes ''a'' then 2 else 0)"

definition wit_lib :: cas_ext where
  "wit_lib = \<lparr>blake3 = wit_digest, zstd_encode = (\<lambda>b. b), zstd_decode = (\<lambda>b. \<lparr>rd_data = b, rd_err = None\<rparr>)\<rparr>"

lemma wit_digest32: "digest32 (blake3 wit_lib)"
  by (simp add: digest32_def wit_lib_def wit_digest_def)

lemma wit_keys: "scopeStorageKey (blake3 wit_lib) ''a'' \<noteq> scopeStorageKey (blake3 wit_lib) ''b''"
  by (simp add: scopeStorageKey_def wit_lib_def wit_digest_def str_bytes_def)

theorem cas_scope_isolation_witness:
  "fs_files (fold (run_op wit_lib (Path True [''srv'']))
      [OpPut wit_ctx (wit_scope ''a'') (hex_encode (wit_digest [7])) [7]] (wit_fs (\<lambda>_. False)))
      (in_scope wit_lib (Path True [''srv'']) (wit_scope ''b'') [''objects'', ''00'', ''11''])
   = fs_files (wit_fs (\<lambda>_. False)) (in_scope wit_lib (Path True [''srv'']) (wit_scope ''b'') [''objects'', ''00'', ''11''])"
  by (rule cas_scope_isolation [OF wit_digest32, where s = "wit_scope ''a''"])
     (use wit_keys in \<open>simp_all add: wit_scope_def\<close>)

text \<open>C13: Stored objects are never altered and never lie: from a state in which every object has the
  content its name says, any sequence of operations under any schedule of failing system calls
  (a crash included) leads to such a state.\<close>

theorem cas_object_integrity:
  assumes "digest32 (blake3 x)" and "objects_ok x d w"
  shows "objects_ok x d (fold (run_op x d) ps w)"
  using assms(2) by (induction ps arbitrary: w) (auto simp: run_op_objects_ok [OF assms(1)])

theorem cas_object_integrity_witness:
  "objects_ok wit_lib (Path True [''srv'']) (fold (run_op wit_lib (Path True [''srv'']))
      [OpPut wit_ctx (wit_scope ''a'') (hex_encode (wit_digest [7])) [7]] (wit_fs (\<lambda>n. n = 3)))"
  by (rule cas_object_integrity [OF wit_digest32]) (simp add: objects_ok_def wit_fs_def)

text \<open>C35: An acknowledged \<open>Put\<close> is never lost. After it, whatever operations follow and whatever of
  their system calls fail, a \<open>Get\<close> of the hash whose read does not fail returns exactly the bytes that
  were put. Collision-freeness is assumed of the put content only.\<close>

theorem cas_put_get:
  assumes dg: "digest32 (blake3 x)" and ok: "objects_ok x d w"
    and coll: "\<forall>b. blake3 x b = blake3 x data \<longrightarrow> b = data"
    and put: "Put x d c s h data w = (Inr u, w1)"
    and ctx: "ctx_err c' = None" and w2: "w2 = fold (run_op x d) ps w1" and nf: "\<not> fs_fault w2 (fs_calls w2)"
  shows "fst (Get x d c' s h w2) = Inr data"
proof -
  have h: "h = hex_encode (blake3 x data)" using fwp_run [OF Put_fwp put] by simp
  have "fs_files w1 (object_file x d s h) = Some data"
    using fwp_run [OF Put_fwp put] ok coll by (auto simp: objects_ok_def split: if_splits) (metis hex_encode_inject)
  then have "fs_files w2 (object_file x d s h) = Some data"
    by (simp add: w2 run_ops_keep_object [OF dg])
  then show ?thesis using ctx nf h dg by (intro fs_run_Get) (auto simp: digest32_def)
qed

lemma wit_put:
  "fst (Put wit_lib (Path True [''srv'']) wit_ctx (wit_scope ''a'') (hex_encode (wit_digest [7])) [7] (wit_fs (\<lambda>_. False))) = Inr () \<and>
   fs_fault (snd (Put wit_lib (Path True [''srv'']) wit_ctx (wit_scope ''a'') (hex_encode (wit_digest [7])) [7] (wit_fs (\<lambda>_. False)))) = (\<lambda>_. False)"
proof -
  have v: "validateHash (hex_encode (wit_digest [7])) = Inr ()"
    by (rule validateHash_encode) (simp add: wit_digest_def)
  have o: "objectPath (blake3 wit_lib) (Path True [''srv'']) (wit_scope ''a'') (hex_encode (wit_digest [7]))
      = Inr (object_file wit_lib (Path True [''srv'']) (wit_scope ''a'') (hex_encode (wit_digest [7])))"
    by (rule object_path_of_hash(1) [OF v, of _ "[7]"]) (simp add: wit_lib_def)
  obtain t where t: "safeJoin (Path True (scope_dir (blake3 wit_lib) (Path True [''srv'']) (wit_scope ''a''))) [''tmp''] = Inr t"
    using safeJoin_scope [of "[''tmp'']" "Path True [''srv'']" "blake3 wit_lib" "wit_scope ''a''"] by (simp add: plain_def)
  show ?thesis
    using v o t
    by (simp add: Put_def ctx_check_def wit_ctx_def scopeTmpDir_def scopeRoot_eq stat_case_def os_stat_def os_call_def
        Let_def eff_run wit_fs_def writeFileAtomic_def os_noop_def os_create_temp_def os_write_def os_rename_def
        syncDir_def os_remove_def) (simp add: wit_lib_def)
qed

theorem cas_put_get_witness:
  "fst (Get wit_lib (Path True [''srv'']) wit_ctx (wit_scope ''a'') (hex_encode (wit_digest [7]))
     (snd (Put wit_lib (Path True [''srv'']) wit_ctx (wit_scope ''a'') (hex_encode (wit_digest [7])) [7] (wit_fs (\<lambda>_. False)))))
   = Inr [7]"
proof (rule cas_put_get [OF wit_digest32, where ps = "[]"])
  show "objects_ok wit_lib (Path True [''srv'']) (wit_fs (\<lambda>_. False))" by (simp add: objects_ok_def wit_fs_def)
  show "\<forall>b. blake3 wit_lib b = blake3 wit_lib [7] \<longrightarrow> b = [7]"
    by (simp add: wit_lib_def wit_digest_def eval_nat_numeral)
  show "Put wit_lib (Path True [''srv'']) wit_ctx (wit_scope ''a'') (hex_encode (wit_digest [7])) [7] (wit_fs (\<lambda>_. False))
      = (Inr (), snd (Put wit_lib (Path True [''srv'']) wit_ctx (wit_scope ''a'') (hex_encode (wit_digest [7])) [7] (wit_fs (\<lambda>_. False))))"
    using wit_put by (simp add: prod_eq_iff)
qed (simp_all add: wit_put, simp add: wit_ctx_def)

text \<open>A pack reads back as it was written. If \<open>WritePack\<close> acknowledges a stream for an absent
  pack, then after any further pack writes (of any scope, succeeding or failing) \<open>OpenPack\<close>
  delivers exactly that stream without an error, and the pack's name is the stream's digest. The
  compression library is assumed to decode what it encoded.\<close>

theorem cas_pack_roundtrip:
  assumes zstd: "\<forall>b. zstd_decode x (zstd_encode x b) = \<lparr>rd_data = b, rd_err = None\<rparr>"
    and "local_pack x d w s h = None"
    and "WritePack x d c s h r w = (Inr u, w1)"
    and "w2 = fold (\<lambda>(c, s, g, r) w. snd (WritePack x d c s g r w)) ps w1"
    and "OpenPack x d c' s h w2 = (Inr rd, w3)"
  shows "h = hex_encode (blake3 x (rd_data r)) \<and> rd = \<lparr>rd_data = rd_data r, rd_err = None\<rparr>"
proof -
  have run: "drv_WritePack (local_driver x d) = WritePack x d" "drv_OpenPack (local_driver x d) = OpenPack x d"
    by (simp_all add: local_driver_def)
  obtain f where f: "local_pack x d w1 s h = Some f"
    using local.write_present [of x d c s h r w u w1] assms(3) by (auto simp: run)
  have "local_pack x d w2 s h = Some f"
    using local.writes_keep [OF f, of ps] assms(4) by (simp add: run)
  then show ?thesis
    using local.write_then_open [of x d c s h r w u w1 w2 c' rd w3] assms f by (simp add: run)
qed

definition wit_pack_w :: fs where
  "wit_pack_w = snd (WritePack wit_lib (Path True [''srv'']) wit_ctx (wit_scope ''a'') (hex_encode (wit_digest [7]))
     \<lparr>rd_data = [7], rd_err = None\<rparr> (wit_fs (\<lambda>_. False)))"

lemma wit_canonical: "canonicalHashString (hex_encode (wit_digest b)) = Inr (hex_encode (wit_digest b))"
  by (rule canonicalHashString_encode) (simp add: wit_digest_def)

lemma wit_valid: "validateHash (hex_encode (wit_digest b)) = Inr ()"
  by (rule validateHash_encode) (simp add: wit_digest_def)

lemma wit_pack_path:
  "packPath (blake3 wit_lib) d s (hex_encode (wit_digest b)) = Inr (pack_file wit_lib d s (hex_encode (wit_digest b)))"
  by (simp add: packPath_eq [OF wit_canonical] file_defs)

lemma scopeTmpDir_eq:
  "scopeTmpDir x d sc = ebind (ewrap ''cas: create scope tmp directory'' (os_noop ''mkdir'')) (\<lambda>_. eret (tmp_dir x d sc))"
  using safeJoin_scope [of "[''tmp'']" d "blake3 x" sc]
  by (intro ext) (simp add: scopeTmpDir_def scopeRoot_eq ebind_def elift_def file_defs plain_def)

lemmas os_run = stat_case_def os_stat_def os_call_def Let_def eff_run writeFileAtomic_def os_noop_def
  os_create_temp_def os_write_def os_rename_def syncDir_def os_remove_def os_read_file_def drain_def

lemma wit_pack:
  "WritePack wit_lib (Path True [''srv'']) wit_ctx (wit_scope ''a'') (hex_encode (wit_digest [7]))
     \<lparr>rd_data = [7], rd_err = None\<rparr> (wit_fs (\<lambda>_. False)) = (Inr (), wit_pack_w) \<and>
   fs_fault wit_pack_w = (\<lambda>_. False) \<and>
   fs_files wit_pack_w (pack_file wit_lib (Path True [''srv'']) (wit_scope ''a'') (hex_encode (wit_digest [7]))) = Some [7]"
  using tmp_fresh(3) [of wit_lib "Path True [''srv'']" "wit_scope ''a''" "''cas-1.tmp''" "hex_encode (wit_digest [7])"]
  unfolding wit_pack_w_def
  by (simp add: WritePack_def ctx_check_def wit_ctx_def wit_valid wit_pack_path scopeTmpDir_eq os_run wit_fs_def)
     (simp add: wit_lib_def)

theorem cas_pack_roundtrip_witness:
  "fst (OpenPack wit_lib (Path True [''srv'']) wit_ctx (wit_scope ''a'') (hex_encode (wit_digest [7])) wit_pack_w)
   = Inr \<lparr>rd_data = [7], rd_err = None\<rparr>"
proof -
  obtain rd w3 where o: "OpenPack wit_lib (Path True [''srv'']) wit_ctx (wit_scope ''a'') (hex_encode (wit_digest [7])) wit_pack_w
      = (Inr rd, w3)"
    using wit_pack by (simp add: OpenPack_def ctx_check_def wit_ctx_def wit_valid wit_pack_path os_run)
  have "rd = \<lparr>rd_data = rd_data \<lparr>rd_data = [7], rd_err = None\<rparr>, rd_err = None\<rparr>"
    by (rule conjunct2 [OF cas_pack_roundtrip [OF _ _ conjunct1 [OF wit_pack] _ o, where ps = "[]"]])
       (simp_all add: wit_lib_def local_pack_def wit_fs_def split: sum.split)
  then show ?thesis using o by simp
qed

text \<open>Verification happens after the pack is already visible. When the stream does not have the
  digest it was announced under and the removal of the renamed file fails, \<open>WritePack\<close> reports
  \<open>ErrHashMismatch\<close> and the wrong stream stays stored as that pack.\<close>

theorem WritePack_mismatch_stays:
  assumes "ctx_err c = None" and v: "validateHash h = Inr ()" and k: "canonicalHashString h = Inr k"
    and mismatch: "hex_encode (blake3 x (rd_data r)) \<noteq> h" and "rd_err r = None"
    and absent: "fs_files w (pack_file x d s k) = None"
    and fresh: "\<forall>n. fs_files w (child (tmp_dir x d s) n) = None"
    and late: "fs_fault w = (\<lambda>n. n = fs_calls w + 14)"
  shows "fst (WritePack x d c s h r w) = Inl (Wrapf ''pack (also failed to remove invalid pack)'' (Cas ErrHashMismatch)) \<and>
         local_pack x d (snd (WritePack x d c s h r w)) s h = Some (zstd_encode x (rd_data r))"
proof -
  have p: "packPath (blake3 x) d s h = Inr (pack_file x d s k)"
    by (simp add: packPath_eq [OF k] file_defs)
  have ne: "child (tmp_dir x d s) n \<noteq> pack_file x d s k" for n by (rule tmp_fresh)
  show ?thesis
    using assms p ne ne [symmetric]
    by (simp add: WritePack_def ctx_check_def scopeTmpDir_eq os_run local_pack_def os_not_exist_def)
qed

theorem WritePack_mismatch_stays_witness:
  "local_pack wit_lib (Path True [''srv'']) (snd (WritePack wit_lib (Path True [''srv'']) wit_ctx (wit_scope ''a'')
      (hex_encode (wit_digest [7])) \<lparr>rd_data = [8], rd_err = None\<rparr> (wit_fs (\<lambda>n. n = 14)))) (wit_scope ''a'')
      (hex_encode (wit_digest [7])) = Some (zstd_encode wit_lib (rd_data \<lparr>rd_data = [8], rd_err = None\<rparr>))"
  by (rule conjunct2 [OF WritePack_mismatch_stays [OF _ wit_valid wit_canonical]])
     (simp_all add: wit_ctx_def wit_fs_def wit_lib_def wit_digest_def str_bytes_def)

text \<open>A hash in upper case is accepted, although the comment of \<open>validateHash\<close> says lower case only,
  and then the two readers disagree: \<open>Exists\<close> finds the intact object and \<open>Get\<close> calls it corrupt.\<close>

theorem upper_case_hash_disagrees:
  assumes "ctx_err c = None" and "length h' = 64" and canon: "canonicalHashString h' = Inr h" and "h' \<noteq> h"
    and stored: "fs_files w (object_file x d s h) = Some b" and "hex_encode (blake3 x b) = h"
    and "\<not> fs_fault w (fs_calls w)"
  shows "fst (Exists x d c s h' w) = Inr True \<and> fst (Get x d c s h' w) = Inl (Wrapf ''object'' (Cas ErrCorruptObject))"
proof -
  have v: "validateHash h' = Inr ()" using assms by (auto simp: validateHash_Inr canonicalHashString_Inr)
  have p: "objectPath (blake3 x) d s h' = Inr (object_file x d s h)"
    by (simp add: objectPath_eq [OF canon] file_defs)
  show ?thesis
    using assms v p by (auto simp: Exists_def Get_def ctx_check_def os_run)
qed

theorem upper_case_hash_disagrees_witness:
  "fst (Get (wit_lib\<lparr>blake3 := \<lambda>_. replicate 32 171\<rparr>) (Path True [''srv'']) wit_ctx (wit_scope ''a'')
     (concat (replicate 32 ''AB''))
     ((wit_fs (\<lambda>_. False))\<lparr>fs_files := \<lambda>_. Some []\<rparr>)) = Inl (Wrapf ''object'' (Cas ErrCorruptObject))"
proof -
  have d: "hex_decode (concat (replicate n ''AB'')) = Some (replicate n 171)" for n
    by (induction n) (simp_all add: nibble_def less_eq_char_def)
  have c: "canonicalHashString (concat (replicate 32 ''AB'')) = Inr (hex_encode (replicate 32 171))"
    using d [of 32] by (simp add: canonicalHashString_Inr)
  have n: "concat (replicate 32 ''AB'') \<noteq> hex_encode (replicate 32 171)"
  proof
    assume eq: "concat (replicate 32 ''AB'') = hex_encode (replicate 32 171)"
    have "CHR ''A'' \<in> set (concat (replicate 32 ''AB''))" by (simp add: set_replicate_conv_if)
    then have "is_lower_hex CHR ''A''" using hex_encode_lower eq by metis
    then show False by (simp add: is_lower_hex_def less_eq_char_def)
  qed
  show ?thesis
    by (rule conjunct2 [OF upper_case_hash_disagrees [OF _ _ c n]])
       (simp_all add: wit_ctx_def wit_fs_def length_concat sum_list_replicate)
qed

end
