(* ===== verification/Pg_Db.thy ===== *)
theory Pg_Db
  imports Hex
begin

text \<open>
  The PostgreSQL control plane as the store sees it
  (\<open>internal/server/storage/postgres/migrations\<close>): the tables as lists of rows, row-level
  security, the constraints of every insert, and transactions
  (\<open>withConfiguredTenantTx\<close> of \<open>store.go\<close>).

  A statement may fail for any reason: the \<open>n\<close>-th one does when \<open>env_fault n\<close> holds. A failed
  \<open>COMMIT\<close> may have taken effect (\<open>env_applied n\<close>). Transactions run one at a time; concurrency is
  the interleaving of whole transactions. Identifiers of type \<open>uuid\<close> are taken in canonical form;
  an argument PostgreSQL cannot parse fails its statement, which the fault schedule covers.
\<close>

section \<open>Rows\<close>

record tenant_row =
  t_id :: string  t_name :: string  t_created :: int  t_quota :: int64  t_used :: int64

record repo_row =
  r_id :: string  r_tenant :: string  r_name :: string  r_created :: int  r_default :: "string option"

record commit_row =
  c_id :: string  c_tenant :: string  c_repo :: string  c_root :: string  c_format :: uint32
  c_author :: string  c_message :: string  c_time :: int

record parent_row =
  cp_tenant :: string  cp_repo :: string  cp_commit :: string  cp_pos :: nat  cp_parent :: string

record range_row =
  pr_tenant :: string  pr_repo :: string  pr_hash :: string  pr_format :: uint32
  pr_base :: "string option"  pr_target :: string

record branch_row =
  b_tenant :: string  b_repo :: string  b_name :: string  b_head :: string  b_updated :: int
  b_deleted :: "int option"

record lease_row =
  l_tenant :: string  l_repo :: string  l_branch :: string  l_subject :: string  l_token :: string
  l_source :: string  l_target :: string  l_base :: string  l_expires :: int  l_created :: int

record npack_row =
  n_tenant :: string  n_repo :: string  n_pack :: string  n_cas :: string  n_commit :: "string option"
  n_count :: nat

record nobj_row =
  o_tenant :: string  o_repo :: string  o_pack :: string  o_object :: string
  o_offset :: int  o_csize :: int  o_usize :: int  o_crc :: int

record txn_row =
  x_tenant :: string  x_repo :: string  x_id :: string  x_commit :: "string option"
  x_object :: "string option"

record audit_row =
  a_id :: string  a_tenant :: string  a_repo :: string  a_event :: string  a_subject :: string
  a_commit :: "string option"  a_object :: "string option"  a_created :: int

record push_row =
  p_tenant :: string  p_repo :: string  p_key :: string  p_branch :: string  p_base :: string
  p_target :: string  p_status :: string

record asset_row =
  s_tenant :: string  s_repo :: string  s_hash :: string  s_size :: int64  s_mime :: string
  s_created :: int

record tables =
  tenants :: "tenant_row list"
  repositories :: "repo_row list"
  commits :: "commit_row list"
  commit_parents :: "parent_row list"
  pack_ranges :: "range_row list"
  branches :: "branch_row list"
  merge_leases :: "lease_row list"
  native_packs :: "npack_row list"
  native_objects :: "nobj_row list"
  active_txns :: "txn_row list"
  audit_records :: "audit_row list"
  push_txns :: "push_row list"
  assets :: "asset_row list"

text \<open>
  What the run depends on: whether the connecting role is subject to row-level security, the
  clocks of the database and of the server process, the random source, and the fault schedules.
\<close>

record env =
  env_rls :: bool
  env_fault :: "nat \<Rightarrow> bool"
  env_applied :: "nat \<Rightarrow> bool"
  env_dbclock :: "nat \<Rightarrow> int"
  env_goclock :: "nat \<Rightarrow> int"
  env_rand :: "nat \<Rightarrow> nat \<Rightarrow> bytes option"

record db =
  tabs :: tables
  guc :: "string option"
  txnow :: int
  calls :: nat
  env :: env

section \<open>Statements\<close>

text \<open>The row is visible to, and may be written by, the current session.\<close>

definition vis :: "db \<Rightarrow> string \<Rightarrow> bool" where
  "vis w tid \<longleftrightarrow> \<not> env_rls (env w) \<or> guc w = Some tid"

definition no_rows :: goerr where
  "no_rows = Ext ''no rows in result set''"

definition tick :: "db \<Rightarrow> db" where
  "tick w = w\<lparr>calls := Suc (calls w)\<rparr>"

text \<open>One statement: it fails as scheduled, otherwise computes from the session and the tables.\<close>

definition sql :: "string \<Rightarrow> (db \<Rightarrow> goerr + 'a \<times> tables) \<Rightarrow> (db, 'a) eff" where
  "sql s f w =
     (if env_fault (env w) (calls w) then (Inl (Fault s), tick w)
      else case f w of Inl e \<Rightarrow> (Inl e, tick w) | Inr (x, t) \<Rightarrow> (Inr x, (tick w)\<lparr>tabs := t\<rparr>))"

definition sql_select :: "string \<Rightarrow> (db \<Rightarrow> 'a) \<Rightarrow> (db, 'a) eff" where
  "sql_select s q = sql s (\<lambda>w. Inr (q w, tabs w))"

definition sql_row :: "string \<Rightarrow> (db \<Rightarrow> 'a option) \<Rightarrow> (db, 'a) eff" where
  "sql_row s q = sql s (\<lambda>w. case q w of None \<Rightarrow> Inl no_rows | Some x \<Rightarrow> Inr (x, tabs w))"

text \<open>\<open>if errors.Is(err, pgx.ErrNoRows) { return a }; if err != nil { return fmt.Errorf(msg, err) }\<close>\<close>

definition no_rows_or :: "goerr \<Rightarrow> string \<Rightarrow> (db, 'a) eff \<Rightarrow> (db, 'a) eff" where
  "no_rows_or a msg m = ecatch m (\<lambda>e. if err_is e no_rows then efail a else efail (Wrapf msg e))"

text \<open>The constraint checks of an insert, in PostgreSQL's order.\<close>

definition checked :: "bool \<Rightarrow> bool \<Rightarrow> bool \<Rightarrow> bool \<Rightarrow> 'a \<Rightarrow> goerr + 'a" where
  "checked rls chk uniq fk x =
     (if \<not> rls then Inl RowSecurityViolation else if \<not> chk then Inl CheckViolation
      else if \<not> uniq then Inl UniqueViolation else if \<not> fk then Inl ForeignKeyViolation else Inr x)"

lemma checked_Inr [simp]: "checked a b c d x = Inr y \<longleftrightarrow> a \<and> b \<and> c \<and> d \<and> y = x"
  by (auto simp: checked_def)

definition has_tenant :: "tables \<Rightarrow> string \<Rightarrow> bool" where
  "has_tenant t tid \<longleftrightarrow> list_ex (\<lambda>r. t_id r = tid) (tenants t)"

definition has_repo :: "tables \<Rightarrow> string \<Rightarrow> string \<Rightarrow> bool" where
  "has_repo t tid rid \<longleftrightarrow> list_ex (\<lambda>r. r_tenant r = tid \<and> r_id r = rid) (repositories t)"

definition has_commit :: "tables \<Rightarrow> string \<Rightarrow> string \<Rightarrow> string \<Rightarrow> bool" where
  "has_commit t tid rid c \<longleftrightarrow> list_ex (\<lambda>r. c_tenant r = tid \<and> c_repo r = rid \<and> c_id r = c) (commits t)"

definition has_branch :: "tables \<Rightarrow> string \<Rightarrow> string \<Rightarrow> string \<Rightarrow> bool" where
  "has_branch t tid rid n \<longleftrightarrow> list_ex (\<lambda>r. b_tenant r = tid \<and> b_repo r = rid \<and> b_name r = n) (branches t)"

definition has_npack :: "tables \<Rightarrow> string \<Rightarrow> string \<Rightarrow> string \<Rightarrow> bool" where
  "has_npack t tid rid p \<longleftrightarrow> list_ex (\<lambda>r. n_tenant r = tid \<and> n_repo r = rid \<and> n_pack r = p) (native_packs t)"

section \<open>Transactions\<close>

definition tx_step :: "string \<Rightarrow> (db, unit) eff" where
  "tx_step s w = (if env_fault (env w) (calls w) then (Inl (Fault s), tick w) else (Inr (), tick w))"

text \<open>\<open>now()\<close> is the time at which the transaction began.\<close>

definition begin_tx :: "(db, unit) eff" where
  "begin_tx = ebind (tx_step ''begin'') (\<lambda>_ w. (Inr (), w\<lparr>guc := None, txnow := env_dbclock (env w) (calls w)\<rparr>))"

definition setTenantLocal :: "string \<Rightarrow> (db, unit) eff" where
  "setTenantLocal tenantID = ewrap ''postgres: set tenant context''
     (ebind (tx_step ''set_config'') (\<lambda>_ w. (Inr (), w\<lparr>guc := Some tenantID\<rparr>)))"

text \<open>Everything but the call counter goes back to where the transaction began.\<close>

definition rollback :: "db \<Rightarrow> db \<Rightarrow> db" where
  "rollback w0 w = w0\<lparr>calls := calls w, guc := None\<rparr>"

definition commit_tx :: "db \<Rightarrow> 'a \<Rightarrow> (db, 'a) eff" where
  "commit_tx w0 x w =
     (if env_fault (env w) (calls w)
      then (Inl (Wrapf ''postgres: commit tx'' (Fault ''commit'')),
            if env_applied (env w) (calls w) then (tick w)\<lparr>guc := None\<rparr> else rollback w0 (tick w))
      else (Inr x, (tick w)\<lparr>guc := None\<rparr>))"

definition withConfiguredTenantTx :: "string \<Rightarrow> (db, 'a) eff \<Rightarrow> (db, 'a) eff" where
  "withConfiguredTenantTx tenantID fn w0 =
     (case ewrap ''postgres: begin tx'' begin_tx w0 of
        (Inl e, w) \<Rightarrow> (Inl e, rollback w0 w)
      | (Inr _, w) \<Rightarrow>
          (case ebind (if tenantID \<noteq> '''' then setTenantLocal tenantID else eret ()) (\<lambda>_. fn) w of
             (Inl e, w1) \<Rightarrow> (Inl e, rollback w0 w1)
           | (Inr x, w1) \<Rightarrow> commit_tx w0 x w1))"

definition tenantIDFromContext :: "ctx \<Rightarrow> string option" where
  "tenantIDFromContext c = (case ctx_tenant c of None \<Rightarrow> None | Some t \<Rightarrow> if t = '''' then None else Some t)"

definition requireTenantID :: "ctx \<Rightarrow> goerr + string" where
  "requireTenantID c = (case tenantIDFromContext c of
      None \<Rightarrow> Inl (Wrapf ''postgres: tenant context'' (Pg ErrMissingTenantContext)) | Some t \<Rightarrow> Inr t)"

definition withTenantTx :: "ctx \<Rightarrow> (db, 'a) eff \<Rightarrow> (db, 'a) eff" where
  "withTenantTx c fn =
     withConfiguredTenantTx (case tenantIDFromContext c of None \<Rightarrow> '''' | Some t \<Rightarrow> t) fn"

text \<open>\<open>requireTenantID\<close> at the head of an operation, its error wrapped with the operation's message.\<close>

definition with_tenant :: "ctx \<Rightarrow> string \<Rightarrow> (string \<Rightarrow> (db, 'a) eff) \<Rightarrow> (db, 'a) eff" where
  "with_tenant c msg f = ebind (elift (rwrap (Wrapf msg) (requireTenantID c))) f"

definition nullableText :: "string \<Rightarrow> string option" where
  "nullableText s = (if s = '''' then None else Some s)"

definition textOrEmpty :: "string option \<Rightarrow> string" where
  "textOrEmpty t = (case t of None \<Rightarrow> '''' | Some s \<Rightarrow> s)"

lemma nullableText_inverse [simp]: "textOrEmpty (nullableText s) = s"
  by (simp add: nullableText_def textOrEmpty_def)

text \<open>\<open>timestamptz\<close> holds microseconds; times of the model are nanoseconds.\<close>

definition pg_time :: "int \<Rightarrow> int" where
  "pg_time t = (t div 1000) * 1000"

definition read_rand :: "nat \<Rightarrow> (db, bytes) eff" where
  "read_rand n w = (case env_rand (env w) (calls w) n of
      None \<Rightarrow> (Inl (Fault ''crypto/rand''), tick w) | Some b \<Rightarrow> (Inr b, tick w))"

text \<open>\<open>now()\<close> and the default of a \<open>created_at\<close> column, for use in a statement's arguments.\<close>

definition pg_now :: "(db, int) eff" where
  "pg_now w = (Inr (txnow w), w)"

definition go_now :: "(db, int) eff" where
  "go_now w = (Inr (env_goclock (env w) (calls w)), tick w)"

end
