(* ===== verification/Pg_Stmt.thy ===== *)
theory Pg_Stmt
  imports Pg_Db
begin

text \<open>
  The statements of \<open>store.go\<close> that change rows, one definition per SQL text, with the unique keys,
  foreign keys and check constraints of the migrations. A statement that fails changes nothing.
  Updates and deletes reach only rows the session sees; uniqueness and foreign keys are checked
  against every row, as PostgreSQL does under row-level security.
\<close>

section \<open>Inserts\<close>

definition insert_tenant :: "tenant_row \<Rightarrow> (db, unit) eff" where
  "insert_tenant r = sql ''insert tenant'' (\<lambda>w. let t = tabs w in
     checked (vis w (t_id r)) True
       (\<not> list_ex (\<lambda>q. t_id q = t_id r \<or> t_name q = t_name r) (tenants t)) True
       ((), t\<lparr>tenants := tenants t @ [r]\<rparr>))"

definition insert_repository :: "repo_row \<Rightarrow> (db, unit) eff" where
  "insert_repository r = sql ''insert repository'' (\<lambda>w. let t = tabs w in
     checked (vis w (r_tenant r)) True
       (\<not> list_ex (\<lambda>q. r_id q = r_id r \<or> (r_tenant q = r_tenant r \<and> r_name q = r_name r)) (repositories t))
       (has_tenant t (r_tenant r))
       ((), t\<lparr>repositories := repositories t @ [r]\<rparr>))"

definition insert_branch :: "branch_row \<Rightarrow> (db, unit) eff" where
  "insert_branch r = sql ''insert branch'' (\<lambda>w. let t = tabs w in
     checked (vis w (b_tenant r)) True
       (\<not> list_ex (\<lambda>q. b_repo q = b_repo r \<and> b_name q = b_name r) (branches t))
       (has_repo t (b_tenant r) (b_repo r) \<and> has_commit t (b_tenant r) (b_repo r) (b_head r))
       ((), t\<lparr>branches := branches t @ [r]\<rparr>))"

definition commit_key :: "commit_row \<Rightarrow> commit_row \<Rightarrow> bool" where
  "commit_key q r \<longleftrightarrow> c_tenant q = c_tenant r \<and> c_repo q = c_repo r \<and> c_id q = c_id r"

definition commit_checks :: "tables \<Rightarrow> commit_row \<Rightarrow> bool" where
  "commit_checks t r \<longleftrightarrow> c_format r \<in> {1, 2, 3}"

definition insert_commit :: "commit_row \<Rightarrow> (db, unit) eff" where
  "insert_commit r = sql ''insert commit'' (\<lambda>w. let t = tabs w in
     checked (vis w (c_tenant r)) (commit_checks t r)
       (\<not> list_ex (\<lambda>q. commit_key q r) (commits t)) (has_repo t (c_tenant r) (c_repo r))
       ((), t\<lparr>commits := commits t @ [r]\<rparr>))"

text \<open>With \<open>ON CONFLICT ... DO NOTHING\<close>; the result is \<open>RowsAffected\<close>.\<close>

definition insert_commit_nothing :: "commit_row \<Rightarrow> (db, nat) eff" where
  "insert_commit_nothing r = sql ''insert commit'' (\<lambda>w. let t = tabs w in
     if vis w (c_tenant r) \<and> commit_checks t r \<and> list_ex (\<lambda>q. commit_key q r) (commits t) then Inr (0, t)
     else checked (vis w (c_tenant r)) (commit_checks t r) True (has_repo t (c_tenant r) (c_repo r))
       (1, t\<lparr>commits := commits t @ [r]\<rparr>))"

text \<open>All rows of one commit at once: positions count from 1.\<close>

definition parent_rows :: "string \<Rightarrow> string \<Rightarrow> string \<Rightarrow> string list \<Rightarrow> parent_row list" where
  "parent_rows tid rid c ps = map (\<lambda>(i, p). \<lparr>cp_tenant = tid, cp_repo = rid, cp_commit = c, cp_pos = i, cp_parent = p\<rparr>)
     (zip [1..<Suc (length ps)] ps)"

definition insert_parents :: "string \<Rightarrow> string \<Rightarrow> string \<Rightarrow> string list \<Rightarrow> (db, unit) eff" where
  "insert_parents tid rid c ps = sql ''insert commit parents'' (\<lambda>w. let t = tabs w in
     checked (ps = [] \<or> vis w tid) True
       (\<not> list_ex (\<lambda>q. cp_tenant q = tid \<and> cp_repo q = rid \<and> cp_commit q = c \<and>
             1 \<le> cp_pos q \<and> cp_pos q \<le> length ps) (commit_parents t))
       (ps = [] \<or> (has_repo t tid rid \<and> has_commit t tid rid c \<and> list_all (has_commit t tid rid) ps))
       ((), t\<lparr>commit_parents := commit_parents t @ parent_rows tid rid c ps\<rparr>))"

definition range_fk :: "tables \<Rightarrow> range_row \<Rightarrow> bool" where
  "range_fk t r \<longleftrightarrow> has_repo t (pr_tenant r) (pr_repo r) \<and> has_commit t (pr_tenant r) (pr_repo r) (pr_target r) \<and>
     (case pr_base r of None \<Rightarrow> True | Some b \<Rightarrow> has_commit t (pr_tenant r) (pr_repo r) b)"

definition range_scope :: "range_row \<Rightarrow> range_row \<Rightarrow> bool" where
  "range_scope q r \<longleftrightarrow> pr_tenant q = pr_tenant r \<and> pr_repo q = pr_repo r"

definition insert_range :: "range_row \<Rightarrow> (db, unit) eff" where
  "insert_range r = sql ''insert pack range'' (\<lambda>w. let t = tabs w in
     checked (vis w (pr_tenant r)) (pr_format r \<in> {1, 2, 3})
       (\<not> list_ex (\<lambda>q. range_scope q r \<and> (pr_hash q = pr_hash r \<or> pr_target q = pr_target r)) (pack_ranges t))
       (range_fk t r)
       ((), t\<lparr>pack_ranges := pack_ranges t @ [r]\<rparr>))"

definition insert_range_nothing :: "range_row \<Rightarrow> (db, nat) eff" where
  "insert_range_nothing r = sql ''insert pack range'' (\<lambda>w. let t = tabs w in
     if vis w (pr_tenant r) \<and> pr_format r \<in> {1, 2, 3} \<and>
        list_ex (\<lambda>q. range_scope q r \<and> pr_hash q = pr_hash r) (pack_ranges t) then Inr (0, t)
     else checked (vis w (pr_tenant r)) (pr_format r \<in> {1, 2, 3})
       (\<not> list_ex (\<lambda>q. range_scope q r \<and> pr_target q = pr_target r) (pack_ranges t))
       (range_fk t r)
       (1, t\<lparr>pack_ranges := pack_ranges t @ [r]\<rparr>))"

definition lease_key :: "lease_row \<Rightarrow> lease_row \<Rightarrow> bool" where
  "lease_key q r \<longleftrightarrow> l_tenant q = l_tenant r \<and> l_repo q = l_repo r \<and> l_branch q = l_branch r"

definition lease_fk :: "tables \<Rightarrow> lease_row \<Rightarrow> bool" where
  "lease_fk t r \<longleftrightarrow> has_repo t (l_tenant r) (l_repo r) \<and> has_branch t (l_tenant r) (l_repo r) (l_branch r) \<and>
     list_all (has_commit t (l_tenant r) (l_repo r)) [l_source r, l_target r, l_base r]"

text \<open>
  \<open>INSERT ... ON CONFLICT DO UPDATE ... WHERE expires_at <= now() RETURNING expires_at\<close>: an
  unexpired row of the key yields no row.
\<close>

definition upsert_lease :: "lease_row \<Rightarrow> (db, int) eff" where
  "upsert_lease r = sql ''insert lease'' (\<lambda>w. let t = tabs w in
     if list_ex (\<lambda>q. lease_key q r) (merge_leases t) \<and> vis w (l_tenant r) then
       (if list_ex (\<lambda>q. lease_key q r \<and> \<not> l_expires q \<le> txnow w) (merge_leases t) then Inl no_rows
        else checked True True (\<not> list_ex (\<lambda>q. l_token q = l_token r \<and> \<not> lease_key q r) (merge_leases t)) (lease_fk t r)
            (l_expires r, t\<lparr>merge_leases := map (\<lambda>q. if lease_key q r then r else q) (merge_leases t)\<rparr>))
     else checked (vis w (l_tenant r)) True (\<not> list_ex (\<lambda>q. l_token q = l_token r) (merge_leases t)) (lease_fk t r)
       (l_expires r, t\<lparr>merge_leases := merge_leases t @ [r]\<rparr>))"

definition npack_key :: "npack_row \<Rightarrow> npack_row \<Rightarrow> bool" where
  "npack_key q r \<longleftrightarrow> n_tenant q = n_tenant r \<and> n_repo q = n_repo r \<and> n_pack q = n_pack r"

definition insert_npack_nothing :: "npack_row \<Rightarrow> (db, nat) eff" where
  "insert_npack_nothing r = sql ''insert native pack'' (\<lambda>w. let t = tabs w in
     if vis w (n_tenant r) \<and> list_ex (\<lambda>q. npack_key q r) (native_packs t) then Inr (0, t)
     else checked (vis w (n_tenant r)) True True
       (has_repo t (n_tenant r) (n_repo r) \<and>
        (case n_commit r of None \<Rightarrow> True | Some c \<Rightarrow> has_commit t (n_tenant r) (n_repo r) c))
       (1, t\<lparr>native_packs := native_packs t @ [r]\<rparr>))"

definition nobj_checks :: "nobj_row \<Rightarrow> bool" where
  "nobj_checks r \<longleftrightarrow> 0 \<le> o_offset r \<and> 0 < o_csize r \<and> 0 < o_usize r \<and> 0 \<le> o_crc r \<and> o_crc r \<le> 4294967295"

definition insert_nobj_nothing :: "nobj_row \<Rightarrow> (db, nat) eff" where
  "insert_nobj_nothing r = sql ''insert native pack object'' (\<lambda>w. let t = tabs w in
     if vis w (o_tenant r) \<and> nobj_checks r \<and>
        list_ex (\<lambda>q. o_tenant q = o_tenant r \<and> o_repo q = o_repo r \<and> o_object q = o_object r) (native_objects t)
     then Inr (0, t)
     else checked (vis w (o_tenant r)) (nobj_checks r) True (has_npack t (o_tenant r) (o_repo r) (o_pack r))
       (1, t\<lparr>native_objects := native_objects t @ [r]\<rparr>))"

definition txn_key :: "txn_row \<Rightarrow> txn_row \<Rightarrow> bool" where
  "txn_key q r \<longleftrightarrow> x_tenant q = x_tenant r \<and> x_repo q = x_repo r \<and> x_id q = x_id r"

definition upsert_txn :: "txn_row \<Rightarrow> (db, unit) eff" where
  "upsert_txn r = sql ''insert active transaction'' (\<lambda>w. let t = tabs w in
     if list_ex (\<lambda>q. txn_key q r) (active_txns t) \<and> vis w (x_tenant r) then
       checked True (x_commit r \<noteq> None \<or> x_object r \<noteq> None) True True
         ((), t\<lparr>active_txns := map (\<lambda>q. if txn_key q r then r else q) (active_txns t)\<rparr>)
     else checked (vis w (x_tenant r)) (x_commit r \<noteq> None \<or> x_object r \<noteq> None) True
         (has_repo t (x_tenant r) (x_repo r))
         ((), t\<lparr>active_txns := active_txns t @ [r]\<rparr>))"

definition insert_audit :: "audit_row \<Rightarrow> (db, unit) eff" where
  "insert_audit r = sql ''insert audit record'' (\<lambda>w. let t = tabs w in
     checked (vis w (a_tenant r)) True (\<not> list_ex (\<lambda>q. a_id q = a_id r) (audit_records t))
       (has_repo t (a_tenant r) (a_repo r))
       ((), t\<lparr>audit_records := audit_records t @ [r]\<rparr>))"

definition push_key :: "push_row \<Rightarrow> push_row \<Rightarrow> bool" where
  "push_key q r \<longleftrightarrow> p_tenant q = p_tenant r \<and> p_repo q = p_repo r \<and> p_key q = p_key r"

definition insert_push_nothing :: "push_row \<Rightarrow> (db, nat) eff" where
  "insert_push_nothing r = sql ''claim idempotency key'' (\<lambda>w. let t = tabs w in
     if vis w (p_tenant r) \<and> list_ex (\<lambda>q. push_key q r) (push_txns t) then Inr (0, t)
     else checked (vis w (p_tenant r)) (p_status r \<in> {''pending'', ''committed''}) True (has_repo t (p_tenant r) (p_repo r))
       (1, t\<lparr>push_txns := push_txns t @ [r]\<rparr>))"

definition insert_asset_nothing :: "asset_row \<Rightarrow> (db, nat) eff" where
  "insert_asset_nothing r = sql ''insert asset'' (\<lambda>w. let t = tabs w in
     if vis w (s_tenant r) \<and> 0 \<le> sint (s_size r) \<and>
        list_ex (\<lambda>q. s_tenant q = s_tenant r \<and> s_repo q = s_repo r \<and> s_hash q = s_hash r) (assets t)
     then Inr (0, t)
     else checked (vis w (s_tenant r)) (0 \<le> sint (s_size r)) True (has_repo t (s_tenant r) (s_repo r))
       (1, t\<lparr>assets := assets t @ [r]\<rparr>))"

section \<open>Updates and deletes\<close>

text \<open>\<open>UPDATE branches SET head_commit_id = .. WHERE repo_id = .. AND name = .. AND head_commit_id = ..\<close>\<close>

definition update_branch_head :: "string \<Rightarrow> string \<Rightarrow> string \<Rightarrow> string \<Rightarrow> (db, nat) eff" where
  "update_branch_head newc rid name expected = sql ''update branch ref'' (\<lambda>w. let t = tabs w;
       hit = (\<lambda>b. vis w (b_tenant b) \<and> b_repo b = rid \<and> b_name b = name \<and> b_head b = expected) in
     checked True True True (list_all (\<lambda>b. hit b \<longrightarrow> has_commit t (b_tenant b) rid newc) (branches t))
       (length (filter hit (branches t)),
        t\<lparr>branches := map (\<lambda>b. if hit b then b\<lparr>b_head := newc, b_updated := txnow w\<rparr> else b) (branches t)\<rparr>))"

definition mark_branch_deleted :: "string \<Rightarrow> string \<Rightarrow> (db, nat) eff" where
  "mark_branch_deleted rid name = sql ''delete branch'' (\<lambda>w. let t = tabs w;
       hit = (\<lambda>b. vis w (b_tenant b) \<and> b_repo b = rid \<and> b_name b = name \<and> b_deleted b = None) in
     Inr (length (filter hit (branches t)),
       t\<lparr>branches := map (\<lambda>b. if hit b then b\<lparr>b_deleted := Some (txnow w)\<rparr> else b) (branches t)\<rparr>))"

definition set_default_branch :: "string \<Rightarrow> string \<Rightarrow> string \<Rightarrow> (db, unit) eff" where
  "set_default_branch name rid tid = sql ''set default branch'' (\<lambda>w. let t = tabs w;
       hit = (\<lambda>r. vis w (r_tenant r) \<and> r_id r = rid \<and> r_tenant r = tid) in
     Inr ((), t\<lparr>repositories := map (\<lambda>r. if hit r then r\<lparr>r_default := Some name\<rparr> else r) (repositories t)\<rparr>))"

definition delete_leases :: "(lease_row \<Rightarrow> bool) \<Rightarrow> (db, nat) eff" where
  "delete_leases p = sql ''delete lease'' (\<lambda>w. let t = tabs w; hit = (\<lambda>l. vis w (l_tenant l) \<and> p l) in
     Inr (length (filter hit (merge_leases t)),
       t\<lparr>merge_leases := filter (\<lambda>l. \<not> hit l) (merge_leases t)\<rparr>))"

definition complete_push :: "string \<Rightarrow> string \<Rightarrow> string \<Rightarrow> (db, unit) eff" where
  "complete_push tid rid key = sql ''record native push transaction'' (\<lambda>w. let t = tabs w;
       hit = (\<lambda>p. vis w (p_tenant p) \<and> p_tenant p = tid \<and> p_repo p = rid \<and> p_key p = key) in
     Inr ((), t\<lparr>push_txns := map (\<lambda>p. if hit p then p\<lparr>p_status := ''committed''\<rparr> else p) (push_txns t)\<rparr>))"

definition delete_txn :: "string \<Rightarrow> string \<Rightarrow> (db, nat) eff" where
  "delete_txn rid xid = sql ''delete active transaction'' (\<lambda>w. let t = tabs w;
       hit = (\<lambda>x. vis w (x_tenant x) \<and> x_repo x = rid \<and> x_id x = xid) in
     Inr (length (filter hit (active_txns t)), t\<lparr>active_txns := filter (\<lambda>x. \<not> hit x) (active_txns t)\<rparr>))"

definition delete_nobjs :: "string \<Rightarrow> string \<Rightarrow> (db, unit) eff" where
  "delete_nobjs rid pack = sql ''delete objects'' (\<lambda>w. let t = tabs w;
       hit = (\<lambda>x. vis w (o_tenant x) \<and> o_repo x = rid \<and> o_pack x = pack) in
     Inr ((), t\<lparr>native_objects := filter (\<lambda>x. \<not> hit x) (native_objects t)\<rparr>))"

definition delete_npacks :: "string \<Rightarrow> string \<Rightarrow> (db, unit) eff" where
  "delete_npacks rid pack = sql ''delete pack'' (\<lambda>w. let t = tabs w;
       hit = (\<lambda>x. vis w (n_tenant x) \<and> n_repo x = rid \<and> n_pack x = pack) in
     checked True True True
       (list_all (\<lambda>q. \<not> list_ex (\<lambda>x. hit x \<and> o_tenant q = n_tenant x \<and> o_repo q = n_repo x \<and> o_pack q = n_pack x)
            (native_packs t)) (native_objects t))
       ((), t\<lparr>native_packs := filter (\<lambda>x. \<not> hit x) (native_packs t)\<rparr>))"

text \<open>\<open>bigint\<close> addition out of range is an error.\<close>

definition add_used :: "int64 \<Rightarrow> string \<Rightarrow> (db, unit) eff" where
  "add_used n tid = sql ''update tenant used bytes'' (\<lambda>w. let t = tabs w;
       hit = (\<lambda>r. vis w (t_id r) \<and> t_id r = tid) in
     if list_ex (\<lambda>r. hit r \<and> sint (t_used r) + sint n \<notin> {- (2 ^ 63) ..< 2 ^ 63}) (tenants t)
     then Inl (Fault ''bigint out of range'')
     else Inr ((), t\<lparr>tenants := map (\<lambda>r. if hit r then r\<lparr>t_used := t_used r + n\<rparr> else r) (tenants t)\<rparr>))"

definition set_quota :: "int64 \<Rightarrow> string \<Rightarrow> (db, nat) eff" where
  "set_quota q tid = sql ''update storage quota'' (\<lambda>w. let t = tabs w;
       hit = (\<lambda>r. vis w (t_id r) \<and> t_id r = tid) in
     Inr (length (filter hit (tenants t)),
       t\<lparr>tenants := map (\<lambda>r. if hit r then r\<lparr>t_quota := q\<rparr> else r) (tenants t)\<rparr>))"

end
