(* ===== verification/Pg_Store.thy ===== *)
theory Pg_Store
  imports Pg_Stmt
begin

text \<open>
  Tenants, workspaces, branches, commits and pack ranges of \<open>PGStore\<close>
  (\<open>internal/server/storage/postgres/store.go\<close>), each operation as the code has it: the tenant
  guard, the transaction, its statements in order, and the mapping of every error. The contract
  library's \<open>Commit.Normalize\<close> is the parameter \<open>nrm\<close>.
\<close>

section \<open>Types\<close>

record commit =
  cm_Snapshot :: string
  cm_Parents :: "string list"
  cm_Author :: string
  cm_Message :: string
  cm_Time :: int

record TenantSummary =
  ts_ID :: string  ts_Name :: string  ts_CreatedAt :: int

record WorkspaceSummary =
  ws_ID :: string  ws_TenantID :: string  ws_Name :: string  ws_CreatedAt :: int

record BranchRef =
  br_Name :: string  br_HeadCommitID :: string  br_Deleted :: bool

record PackRange =
  rg_PackHash :: string  rg_BaseCommitID :: string  rg_TargetCommitID :: string  rg_Format :: uint32

record CommitMetadata =
  md_ID :: string  md_SnapshotRoot :: string  md_Format :: uint32

section \<open>Identifiers\<close>

definition lower_hex_digit :: "char \<Rightarrow> bool" where
  "lower_hex_digit c \<longleftrightarrow> nibble c \<noteq> None"

text \<open>\<open>uuidV4Pattern\<close>: 8-4-4-4-12 hexadecimal digits of either case, version 1 to 5, variant 8 to b.\<close>

definition uuidV4Pattern :: "string \<Rightarrow> bool" where
  "uuidV4Pattern s \<longleftrightarrow> length s = 36 \<and>
     (\<forall>i < 36. if i \<in> {8, 13, 18, 23} then s ! i = CHR ''-'' else lower_hex_digit (s ! i)) \<and>
     s ! 14 \<in> set ''12345'' \<and> s ! 19 \<in> set ''89abAB''"

definition SetTenantContext :: "ctx \<Rightarrow> string \<Rightarrow> goerr + ctx" where
  "SetTenantContext c tenantID =
     (if \<not> uuidV4Pattern tenantID then Inl (Errorf ''postgres: invalid tenant id'')
      else Inr (c\<lparr>ctx_tenant := Some tenantID\<rparr>))"

definition format_uuid :: "bytes \<Rightarrow> string" where
  "format_uuid raw =
     (let r = raw[6 := or (and (raw ! 6) 0x0f) 0x40, 8 := or (and (raw ! 8) 0x3f) 0x80] in
      hex_encode (take 4 r) @ ''-'' @ hex_encode (take 2 (drop 4 r)) @ ''-'' @
      hex_encode (take 2 (drop 6 r)) @ ''-'' @ hex_encode (take 2 (drop 8 r)) @ ''-'' @
      hex_encode (take 6 (drop 10 r)))"

definition newUUIDv4 :: "(db, string) eff" where
  "newUUIDv4 = ebind (ewrap ''generate uuid'' (read_rand 16)) (\<lambda>raw. eret (format_uuid raw))"

definition newOpaqueToken :: "(db, string) eff" where
  "newOpaqueToken = ebind (ewrap ''generate lease token'' (read_rand 32)) (\<lambda>raw. eret (hex_encode raw))"

section \<open>Tenants and workspaces\<close>

definition CreateTenant :: "string \<Rightarrow> (db, string) eff" where
  "CreateTenant name =
     ebind (ewrap ''postgres: create tenant'' newUUIDv4) (\<lambda>tenantID.
     ebind (withConfiguredTenantTx tenantID
       (ebind pg_now (\<lambda>now. ecatch (insert_tenant \<lparr>t_id = tenantID, t_name = name, t_created = now,
              t_quota = 10737418240, t_used = 0\<rparr>)
          (\<lambda>e. if isUniqueViolation e then efail (Wrapf ''postgres: create tenant'' (Pg ErrTenantNameConflict))
               else efail (Wrapf ''postgres: create tenant: insert tenant'' e))))) (\<lambda>_.
     eret tenantID))"

definition CreateRepository :: "ctx \<Rightarrow> string \<Rightarrow> (db, string) eff" where
  "CreateRepository c name =
     with_tenant c ''postgres: create repository'' (\<lambda>tenantID.
     ebind (ewrap ''postgres: create repository'' newUUIDv4) (\<lambda>repoID.
     ebind (withTenantTx c
       (ebind pg_now (\<lambda>now. ecatch (insert_repository \<lparr>r_id = repoID, r_tenant = tenantID, r_name = name,
              r_created = now, r_default = None\<rparr>)
          (\<lambda>e. if isUniqueViolation e then efail (Wrapf ''postgres: create repository'' (Pg ErrWorkspaceNameConflict))
               else efail (Wrapf ''postgres: create repository: insert repository'' e))))) (\<lambda>_.
     eret repoID)))"

text \<open>A query outside any transaction: the session has no tenant setting.\<close>

definition tenant_summary :: "tenant_row \<Rightarrow> TenantSummary" where
  "tenant_summary r = \<lparr>ts_ID = t_id r, ts_Name = t_name r, ts_CreatedAt = t_created r\<rparr>"

definition ListTenants :: "(db, TenantSummary list) eff" where
  "ListTenants = ewrap ''postgres: list tenants''
     (sql_select ''list tenants'' (\<lambda>w. map tenant_summary (sort_key t_created
        (filter (\<lambda>r. vis w (t_id r)) (tenants (tabs w))))))"

definition GetTenant :: "string \<Rightarrow> (db, TenantSummary) eff" where
  "GetTenant idOrName = no_rows_or (Pg ErrTenantNotFound) ''postgres: get tenant''
     (sql_row ''get tenant'' (\<lambda>w. map_option tenant_summary
        (find (\<lambda>r. vis w (t_id r) \<and> (t_id r = idOrName \<or> t_name r = idOrName)) (tenants (tabs w)))))"

definition CreateWorkspace :: "ctx \<Rightarrow> string \<Rightarrow> (db, string) eff" where
  "CreateWorkspace c name = CreateRepository c name"

definition workspace_summary :: "repo_row \<Rightarrow> WorkspaceSummary" where
  "workspace_summary r = \<lparr>ws_ID = r_id r, ws_TenantID = r_tenant r, ws_Name = r_name r, ws_CreatedAt = r_created r\<rparr>"

definition ListWorkspaces :: "ctx \<Rightarrow> (db, WorkspaceSummary list) eff" where
  "ListWorkspaces c =
     with_tenant c ''postgres: list workspaces'' (\<lambda>tenantID.
     ewrap ''postgres: list workspaces'' (withTenantTx c
       (ewrap ''query workspaces'' (sql_select ''list workspaces'' (\<lambda>w. map workspace_summary (sort_key r_created
          (filter (\<lambda>r. vis w (r_tenant r) \<and> r_tenant r = tenantID) (repositories (tabs w)))))))))"

definition GetWorkspace :: "ctx \<Rightarrow> string \<Rightarrow> (db, WorkspaceSummary) eff" where
  "GetWorkspace c idOrName =
     with_tenant c ''postgres: get workspace'' (\<lambda>tenantID.
     ecatch (withTenantTx c
       (no_rows_or (Pg ErrWorkspaceNotFound) ''query workspace''
          (sql_row ''get workspace'' (\<lambda>w. map_option workspace_summary
             (find (\<lambda>r. vis w (r_tenant r) \<and> r_tenant r = tenantID \<and> (r_id r = idOrName \<or> r_name r = idOrName))
                (repositories (tabs w)))))))
       (\<lambda>e. if err_is e (Pg ErrWorkspaceNotFound) then efail (Pg ErrWorkspaceNotFound)
            else efail (Wrapf ''postgres: get workspace'' e)))"

section \<open>Branches\<close>

definition query_default_branch :: "string \<Rightarrow> string \<Rightarrow> (db, string option) eff" where
  "query_default_branch rid tid = sql_row ''query repository'' (\<lambda>w. map_option r_default
     (find (\<lambda>r. vis w (r_tenant r) \<and> r_id r = rid \<and> r_tenant r = tid) (repositories (tabs w))))"

definition CreateBranch :: "ctx \<Rightarrow> string \<Rightarrow> string \<Rightarrow> string \<Rightarrow> (db, unit) eff" where
  "CreateBranch c repoID name headCommitID =
     with_tenant c ''postgres: create branch'' (\<lambda>tenantID.
     withTenantTx c
       (ebind (no_rows_or (Wrapf ''postgres: create branch'' (Pg ErrRepositoryNotFound))
          ''postgres: create branch: lock repository'' (query_default_branch repoID tenantID)) (\<lambda>defaultBranch.
        ebind (ebind pg_now (\<lambda>now. ecatch (insert_branch \<lparr>b_tenant = tenantID, b_repo = repoID, b_name = name,
              b_head = headCommitID, b_updated = now, b_deleted = None\<rparr>)
           (\<lambda>e. if isUniqueViolation e then efail (Wrapf ''postgres: create branch'' (Pg ErrBranchAlreadyExists))
                else if isForeignKeyViolation e then efail (Wrapf ''postgres: create branch'' (Pg ErrCommitNotFound))
                else efail (Wrapf ''postgres: create branch: insert branch'' e)))) (\<lambda>_.
        if defaultBranch = None
        then ewrap ''postgres: create branch: set default branch'' (set_default_branch name repoID tenantID)
        else eret ()))))"

definition find_branch :: "db \<Rightarrow> string \<Rightarrow> string \<Rightarrow> branch_row option" where
  "find_branch w rid name = find (\<lambda>b. vis w (b_tenant b) \<and> b_repo b = rid \<and> b_name b = name) (branches (tabs w))"

definition branchHeadForUpdate :: "string \<Rightarrow> string \<Rightarrow> (db, string) eff" where
  "branchHeadForUpdate repoID branch = no_rows_or (Pg ErrBranchNotFound) ''lock branch''
     (sql_row ''lock branch'' (\<lambda>w. map_option b_head (find_branch w repoID branch)))"

definition GetBranchRef :: "ctx \<Rightarrow> string \<Rightarrow> string \<Rightarrow> (db, string) eff" where
  "GetBranchRef c repoID branch =
     with_tenant c ''postgres: get branch ref'' (\<lambda>_.
     withTenantTx c (no_rows_or (Wrapf ''postgres: get branch ref'' (Pg ErrBranchNotFound))
       ''postgres: get branch ref: query branch ref''
       (sql_row ''query branch ref'' (\<lambda>w. map_option b_head (find_branch w repoID branch)))))"

definition DeleteBranch :: "ctx \<Rightarrow> string \<Rightarrow> string \<Rightarrow> (db, unit) eff" where
  "DeleteBranch c repoID name =
     with_tenant c ''postgres: delete branch'' (\<lambda>tenantID.
     withTenantTx c
       (ebind (no_rows_or (Wrapf ''postgres: delete branch'' (Pg ErrRepositoryNotFound))
          ''postgres: delete branch: query repository'' (query_default_branch repoID tenantID)) (\<lambda>defaultBranch.
        ebind (eassert (defaultBranch \<noteq> Some name) (Wrapf ''postgres: delete branch'' (Pg ErrDefaultBranchProtected))) (\<lambda>_.
        ebind (ewrap ''postgres: delete branch'' (mark_branch_deleted repoID name)) (\<lambda>affected.
        if affected = 0 then efail (Pg ErrBranchNotFound) else eret ())))))"

definition branch_ref :: "branch_row \<Rightarrow> BranchRef" where
  "branch_ref b = \<lparr>br_Name = b_name b, br_HeadCommitID = b_head b, br_Deleted = (b_deleted b \<noteq> None)\<rparr>"

definition ListBranchRefs :: "ctx \<Rightarrow> string \<Rightarrow> (db, BranchRef list) eff" where
  "ListBranchRefs c repoID =
     with_tenant c ''postgres: list branch refs'' (\<lambda>_.
     withTenantTx c (ewrap ''postgres: list branch refs: query branches''
       (sql_select ''list branches'' (\<lambda>w. map branch_ref (sort_key b_name
          (filter (\<lambda>b. vis w (b_tenant b) \<and> b_repo b = repoID) (branches (tabs w))))))))"

definition GetDefaultBranch :: "ctx \<Rightarrow> string \<Rightarrow> (db, BranchRef) eff" where
  "GetDefaultBranch c repoID =
     with_tenant c ''postgres: get default branch'' (\<lambda>tenantID.
     withTenantTx c
       (ebind (no_rows_or (Wrapf ''postgres: get default branch'' (Pg ErrRepositoryNotFound))
          ''postgres: get default branch: query repository'' (query_default_branch repoID tenantID)) (\<lambda>defaultBranch.
        case defaultBranch of
          None \<Rightarrow> efail (Wrapf ''postgres: get default branch'' (Pg ErrDefaultBranchNotSet))
        | Some name \<Rightarrow>
            no_rows_or (Wrapf ''postgres: get default branch'' (Pg ErrBranchNotFound))
              ''postgres: get default branch: query branch''
              (sql_row ''query branch'' (\<lambda>w. map_option (\<lambda>b. (branch_ref b)\<lparr>br_Name := name\<rparr>) (find_branch w repoID name))))))"

end
