(* ===== verification/Pg_Commits.thy ===== *)
theory Pg_Commits
  imports Pg_Store
begin

text \<open>
  Commits and pack ranges of \<open>PGStore\<close>: registration of immutable metadata (\<open>putCommitTx\<close>,
  \<open>putPackRange\<close>), the lookups, and the searches of the commit graph: \<open>IsAncestor\<close>,
  \<open>FindLowestCommonAncestor\<close>, \<open>CommitAncestryIDs\<close> and \<open>GetPackRanges\<close>.
\<close>

section \<open>Formats\<close>

definition validObjectFormat :: "uint32 \<Rightarrow> bool" where
  "validObjectFormat f \<longleftrightarrow> f = 0 \<or> f = 1 \<or> f = 2 \<or> f = 3"

definition normalizeObjectFormat :: "uint32 \<Rightarrow> uint32" where
  "normalizeObjectFormat f = (if f = 0 then 1 else f)"

section \<open>Registration of commits\<close>

text \<open>\<open>ORDER BY parent_position\<close>\<close>

definition parents_of :: "db \<Rightarrow> string \<Rightarrow> string \<Rightarrow> string list" where
  "parents_of w rid c = map cp_parent (sort_key cp_pos
     (filter (\<lambda>p. vis w (cp_tenant p) \<and> cp_repo p = rid \<and> cp_commit p = c) (commit_parents (tabs w))))"

definition commitParentIDs :: "string \<Rightarrow> string \<Rightarrow> (db, string list) eff" where
  "commitParentIDs repoID commitID =
     ewrap ''query commit parents'' (sql_select ''query commit parents'' (\<lambda>w. parents_of w repoID commitID))"

definition find_commit :: "db \<Rightarrow> string \<Rightarrow> string \<Rightarrow> commit_row option" where
  "find_commit w rid c = find (\<lambda>r. vis w (c_tenant r) \<and> c_repo r = rid \<and> c_id r = c) (commits (tabs w))"

definition commit_row_of :: "string \<Rightarrow> string \<Rightarrow> string \<Rightarrow> commit \<Rightarrow> uint32 \<Rightarrow> commit_row" where
  "commit_row_of tenantID repoID commitID n format =
     \<lparr>c_id = commitID, c_tenant = tenantID, c_repo = repoID, c_root = cm_Snapshot n, c_format = format,
      c_author = cm_Author n, c_message = cm_Message n, c_time = pg_time (cm_Time n)\<rparr>"

definition same_commit :: "commit_row \<Rightarrow> commit \<Rightarrow> uint32 \<Rightarrow> bool" where
  "same_commit e n format \<longleftrightarrow> c_root e = cm_Snapshot n \<and> c_format e = format \<and> c_author e = cm_Author n \<and>
     c_message e = cm_Message n \<and> c_time e = cm_Time n"

definition putCommitTx :: "(commit \<Rightarrow> goerr + commit) \<Rightarrow> string \<Rightarrow> string \<Rightarrow> string \<Rightarrow> commit \<Rightarrow> uint32 \<Rightarrow> (db, unit) eff" where
  "putCommitTx nrm tenantID repoID commitID cm format =
     ebind (elift (rwrap (Wrapf ''canonical commit'') (nrm cm))) (\<lambda>n.
     ebind (ewrap ''insert commit'' (insert_commit_nothing (commit_row_of tenantID repoID commitID n format))) (\<lambda>affected.
     ebind (if affected = 0 then
              ebind (ewrap ''read existing commit'' (sql_row ''read existing commit''
                (\<lambda>w. find (\<lambda>r. vis w (c_tenant r) \<and> c_tenant r = tenantID \<and> c_repo r = repoID \<and> c_id r = commitID)
                   (commits (tabs w))))) (\<lambda>existing.
              eassert (same_commit existing n format) (Pg ErrImmutableMetadataMismatch))
            else eret ()) (\<lambda>_.
     ebind (ewrap ''read existing parents'' (commitParentIDs repoID commitID)) (\<lambda>existingParents.
     if affected = 0 then eassert (existingParents = cm_Parents n) (Pg ErrImmutableMetadataMismatch)
     else if cm_Parents n = [] then eret ()
     else ewrap ''insert commit parents'' (insert_parents tenantID repoID commitID (cm_Parents n))))))"

definition putCommit :: "(commit \<Rightarrow> goerr + commit) \<Rightarrow> ctx \<Rightarrow> string \<Rightarrow> string \<Rightarrow> commit \<Rightarrow> uint32 \<Rightarrow> (db, unit) eff" where
  "putCommit nrm c repoID commitID cm format =
     with_tenant c ''postgres: put commit'' (\<lambda>tenantID.
     ewrap ''postgres: put commit'' (withTenantTx c (putCommitTx nrm tenantID repoID commitID cm format)))"

definition PutCommit :: "(commit \<Rightarrow> goerr + commit) \<Rightarrow> ctx \<Rightarrow> string \<Rightarrow> string \<Rightarrow> commit \<Rightarrow> (db, unit) eff" where
  "PutCommit nrm c repoID commitID cm = putCommit nrm c repoID commitID cm 1"

definition PutCommitWithFormat :: "(commit \<Rightarrow> goerr + commit) \<Rightarrow> ctx \<Rightarrow> string \<Rightarrow> string \<Rightarrow> commit \<Rightarrow> uint32 \<Rightarrow> (db, unit) eff" where
  "PutCommitWithFormat nrm c repoID commitID cm format =
     (if \<not> validObjectFormat format then efail (Errorf ''postgres: put commit: unsupported object format'')
      else putCommit nrm c repoID commitID cm (normalizeObjectFormat format))"

section \<open>Pack ranges\<close>

definition putPackRange :: "ctx \<Rightarrow> string \<Rightarrow> string \<Rightarrow> string \<Rightarrow> string \<Rightarrow> uint32 \<Rightarrow> (db, unit) eff" where
  "putPackRange c repoID packHash baseCommitID targetCommitID format =
     with_tenant c ''postgres: put pack range'' (\<lambda>tenantID.
     withTenantTx c
       (ebind (ewrap ''postgres: put pack range: insert pack range''
          (insert_range_nothing \<lparr>pr_tenant = tenantID, pr_repo = repoID, pr_hash = packHash, pr_format = format,
             pr_base = nullableText baseCommitID, pr_target = targetCommitID\<rparr>)) (\<lambda>affected.
        if affected = 0 then
          ebind (ewrap ''postgres: put pack range: read existing pack range'' (sql_row ''read existing pack range''
            (\<lambda>w. find (\<lambda>r. vis w (pr_tenant r) \<and> pr_tenant r = tenantID \<and> pr_repo r = repoID \<and> pr_hash r = packHash)
               (pack_ranges (tabs w))))) (\<lambda>existing.
          eassert (textOrEmpty (pr_base existing) = baseCommitID \<and> pr_target existing = targetCommitID \<and>
              pr_format existing = format) (Pg ErrImmutableMetadataMismatch))
        else eret ())))"

definition PutPackRange :: "ctx \<Rightarrow> string \<Rightarrow> string \<Rightarrow> string \<Rightarrow> string \<Rightarrow> (db, unit) eff" where
  "PutPackRange c repoID packHash baseCommitID targetCommitID =
     putPackRange c repoID packHash baseCommitID targetCommitID 1"

definition PutPackRangeWithFormat :: "ctx \<Rightarrow> string \<Rightarrow> string \<Rightarrow> string \<Rightarrow> string \<Rightarrow> uint32 \<Rightarrow> (db, unit) eff" where
  "PutPackRangeWithFormat c repoID packHash baseCommitID targetCommitID format =
     (if \<not> validObjectFormat format then efail (Errorf ''postgres: put pack range: unsupported object format'')
      else putPackRange c repoID packHash baseCommitID targetCommitID (normalizeObjectFormat format))"

section \<open>Lookups\<close>

definition GetCommitSnapshotRoot :: "ctx \<Rightarrow> string \<Rightarrow> string \<Rightarrow> (db, string) eff" where
  "GetCommitSnapshotRoot c repoID commitID =
     with_tenant c ''postgres: get commit snapshot root'' (\<lambda>_.
     withTenantTx c (no_rows_or (Wrapf ''postgres: get commit snapshot root'' (Pg ErrCommitNotFound))
       ''postgres: get commit snapshot root: query commit''
       (sql_row ''query commit'' (\<lambda>w. map_option c_root (find_commit w repoID commitID)))))"

definition GetCommitMetadata :: "ctx \<Rightarrow> string \<Rightarrow> string \<Rightarrow> (db, CommitMetadata) eff" where
  "GetCommitMetadata c repoID commitID =
     with_tenant c ''postgres: get commit metadata'' (\<lambda>_.
     withTenantTx c (no_rows_or (Wrapf ''postgres: get commit metadata'' (Pg ErrCommitNotFound))
       ''postgres: get commit metadata: query commit''
       (sql_row ''query commit'' (\<lambda>w. map_option
          (\<lambda>r. \<lparr>md_ID = commitID, md_SnapshotRoot = c_root r, md_Format = c_format r\<rparr>)
          (find_commit w repoID commitID)))))"

section \<open>Ancestry\<close>

text \<open>
  The recursive query of \<open>IsAncestor\<close>: its rows are the walks along parent links that never meet a
  commit twice. \<open>n\<close> bounds the number of links; the number of commit rows is enough, since a walk
  has distinct commits.
\<close>

definition commit_ids :: "db \<Rightarrow> string \<Rightarrow> string list" where
  "commit_ids w rid = map c_id (filter (\<lambda>r. vis w (c_tenant r) \<and> c_repo r = rid) (commits (tabs w)))"

definition links :: "db \<Rightarrow> string \<Rightarrow> (string \<times> string) list" where
  "links w rid = map (\<lambda>p. (cp_commit p, cp_parent p))
     (filter (\<lambda>p. vis w (cp_tenant p) \<and> cp_repo p = rid) (commit_parents (tabs w)))"

text \<open>One recursion step on one row of \<open>ancestry\<close>: the row's path, newest commit first.\<close>

definition extend_row :: "db \<Rightarrow> string \<Rightarrow> string list \<Rightarrow> string list list" where
  "extend_row w rid path =
     [p # path. (c, p) \<leftarrow> links w rid, c = hd path, d \<leftarrow> commit_ids w rid, d = p, p \<notin> set path]"

fun ancestry_rows :: "db \<Rightarrow> string \<Rightarrow> nat \<Rightarrow> string list list \<Rightarrow> string list list" where
  "ancestry_rows w rid 0 rows = rows"
| "ancestry_rows w rid (Suc n) rows =
     (if rows = [] then [] else rows @ ancestry_rows w rid n (concat (map (extend_row w rid) rows)))"

definition ancestry_query :: "db \<Rightarrow> string \<Rightarrow> string \<Rightarrow> string \<Rightarrow> bool" where
  "ancestry_query w rid commit ancestor =
     list_ex (\<lambda>path. hd path = ancestor)
       (ancestry_rows w rid (length (commit_ids w rid)) (map (\<lambda>c. [c]) (filter (\<lambda>c. c = commit) (commit_ids w rid))))"

definition IsAncestor :: "ctx \<Rightarrow> string \<Rightarrow> string \<Rightarrow> string \<Rightarrow> (db, bool) eff" where
  "IsAncestor c repoID ancestorCommit cm =
     with_tenant c ''postgres: is ancestor'' (\<lambda>_.
     withTenantTx c (ewrap ''postgres: is ancestor: query ancestry''
       (sql_select ''query ancestry'' (\<lambda>w. ancestry_query w repoID cm ancestorCommit))))"

text \<open>
  The breadth-first searches. \<open>history\<close> lists the visited commits with their depth, oldest visit
  first; \<open>check_first\<close> is whether the limit is tested before the commit is looked up, as
  \<open>collectMergeAncestry\<close> does and \<open>CommitAncestryIDs\<close> does not.
\<close>

definition maxMergeAncestryCommits :: nat where "maxMergeAncestryCommits = 100"
definition maxRetentionAncestryCommits :: nat where "maxRetentionAncestryCommits = 200000"

definition commit_exists :: "string \<Rightarrow> string \<Rightarrow> (db, bool) eff" where
  "commit_exists repoID commitID =
     ewrap ''query ancestry commit'' (sql_select ''query commit'' (\<lambda>w. find_commit w repoID commitID \<noteq> None))"

function bfs :: "nat \<Rightarrow> bool \<Rightarrow> string \<Rightarrow> (string \<times> nat) list \<Rightarrow> (string \<times> nat) list \<Rightarrow> (db, (string \<times> nat) list) eff" where
  "bfs lim check_first repoID [] history = eret history"
| "bfs lim check_first repoID ((cid, depth) # queue) history =
     (if cid \<in> fst ` set history then bfs lim check_first repoID queue history
      else if check_first \<and> lim \<le> length history then efail (Pg ErrCommitHistoryTooDeep)
      else ebind (commit_exists repoID cid) (\<lambda>found.
        if \<not> found then efail (Pg (if history = [] then ErrCommitNotFound else ErrCommitHistoryIncomplete))
        else if lim \<le> length history then efail (Pg ErrCommitHistoryTooDeep)
        else ebind (commitParentIDs repoID cid) (\<lambda>parents.
          bfs lim check_first repoID
            (queue @ map (\<lambda>p. (p, Suc depth)) (filter (\<lambda>p. p \<notin> fst ` set (history @ [(cid, depth)])) parents))
            (history @ [(cid, depth)]))))"
  by pat_completeness auto
termination
  by (relation "measures [\<lambda>(lim, b, r, q, h). lim - length h, \<lambda>(lim, b, r, q, h). length q]") auto

definition collectMergeAncestry :: "string \<Rightarrow> string \<Rightarrow> (db, (string \<times> nat) list) eff" where
  "collectMergeAncestry repoID commitID = bfs maxMergeAncestryCommits True repoID [(commitID, 0)] []"

text \<open>
  The choice among the shared ancestors, as the loop over \<open>sourceHistory\<close> makes it in whatever
  order the map is iterated.
\<close>

definition better :: "nat \<times> nat \<times> string \<Rightarrow> (nat \<times> nat \<times> string) option \<Rightarrow> bool" where
  "better x best = (case best of None \<Rightarrow> True | Some b \<Rightarrow>
     fst x < fst b \<or> (fst x = fst b \<and> fst (snd x) < fst (snd b)) \<or>
     (fst x = fst b \<and> fst (snd x) = fst (snd b) \<and> snd (snd x) < snd (snd b)))"

fun pick_ancestor :: "(string \<times> nat) list \<Rightarrow> (string \<times> nat) list \<Rightarrow> (nat \<times> nat \<times> string) option \<Rightarrow> (nat \<times> nat \<times> string) option" where
  "pick_ancestor [] target best = best"
| "pick_ancestor ((cid, sourceDepth) # rest) target best =
     (case map_of target cid of
        None \<Rightarrow> pick_ancestor rest target best
      | Some targetDepth \<Rightarrow>
          (let x = (sourceDepth + targetDepth, max sourceDepth targetDepth, cid)
           in pick_ancestor rest target (if better x best then Some x else best)))"

definition FindLowestCommonAncestor :: "ctx \<Rightarrow> string \<Rightarrow> string \<Rightarrow> string \<Rightarrow> (db, string) eff" where
  "FindLowestCommonAncestor c repoID sourceCommitID targetCommitID =
     with_tenant c ''postgres: find lowest common ancestor'' (\<lambda>_.
     withTenantTx c
       (ebind (ewrap ''postgres: find lowest common ancestor: source history'' (collectMergeAncestry repoID sourceCommitID)) (\<lambda>sourceHistory.
        ebind (ewrap ''postgres: find lowest common ancestor: target history'' (collectMergeAncestry repoID targetCommitID)) (\<lambda>targetHistory.
        case pick_ancestor sourceHistory targetHistory None of
          None \<Rightarrow> efail (Pg ErrNoCommonAncestor)
        | Some (_, _, ancestor) \<Rightarrow> if ancestor = '''' then efail (Pg ErrNoCommonAncestor) else eret ancestor))))"

definition CommitAncestryIDs :: "ctx \<Rightarrow> string \<Rightarrow> string \<Rightarrow> (db, string list) eff" where
  "CommitAncestryIDs c repoID commitID =
     with_tenant c ''postgres: commit ancestry'' (\<lambda>_.
     withTenantTx c
       (ebind (bfs maxRetentionAncestryCommits False repoID [(commitID, 0)] []) (\<lambda>visited.
        eret (sort (map fst visited)))))"

text \<open>
  The recursive query of \<open>GetPackRanges\<close> does not remember what it visited: on a cycle of ranges it
  would not end. \<open>fuel\<close> bounds its levels, and running out is None.
\<close>

fun range_levels :: "db \<Rightarrow> string \<Rightarrow> string \<Rightarrow> nat \<Rightarrow> range_row list \<Rightarrow> range_row list option" where
  "range_levels w rid known fuel [] = Some []"
| "range_levels w rid known 0 (r # rs) = None"
| "range_levels w rid known (Suc n) (r # rs) =
     map_option (\<lambda>more. (r # rs) @ more) (range_levels w rid known n
       [p. c \<leftarrow> r # rs, p \<leftarrow> pack_ranges (tabs w), vis w (pr_tenant p), pr_repo p = rid,
           pr_base c = Some (pr_target p), pr_base c \<noteq> Some known])"

definition pack_range :: "range_row \<Rightarrow> PackRange" where
  "pack_range r = \<lparr>rg_PackHash = pr_hash r, rg_BaseCommitID = textOrEmpty (pr_base r),
     rg_TargetCommitID = pr_target r, rg_Format = pr_format r\<rparr>"

definition pack_chain :: "db \<Rightarrow> string \<Rightarrow> string \<Rightarrow> string \<Rightarrow> nat \<Rightarrow> PackRange list option" where
  "pack_chain w rid head known fuel = map_option (map pack_range) (range_levels w rid known fuel
     (filter (\<lambda>r. vis w (pr_tenant r) \<and> pr_repo r = rid \<and> pr_target r = head) (pack_ranges (tabs w))))"

definition GetPackRanges :: "ctx \<Rightarrow> string \<Rightarrow> string \<Rightarrow> string \<Rightarrow> (db, PackRange list) eff" where
  "GetPackRanges c repoID headCommitID knownCommitID =
     with_tenant c ''postgres: get pack ranges'' (\<lambda>_.
     withTenantTx c (ewrap ''postgres: get pack ranges: query pack chain''
       (sql ''query pack chain'' (\<lambda>w.
          case pack_chain w repoID headCommitID knownCommitID (Suc (length (pack_ranges (tabs w)))) of
            None \<Rightarrow> Inl (Fault ''statement did not finish'') | Some rs \<Rightarrow> Inr (rs, tabs w)))))"

end
