(* ===== verification/Pg_Merge.thy ===== *)
theory Pg_Merge
  imports Pg_Commits
begin

text \<open>
  The operations of \<open>PGStore\<close> that move a branch: merge leases, \<open>ApplyMerge\<close>,
  \<open>CompareAndSwapBranchRef\<close> and the idempotent \<open>PublishNativePush\<close>. Durations and times are
  nanoseconds; \<open>now()\<close> is the database's clock at the start of the transaction and \<open>time.Now()\<close> the
  server's.
\<close>

record MergeLeaseRequest =
  lq_RepoID :: string  lq_TargetBranch :: string  lq_Subject :: string  lq_SourceCommitID :: string
  lq_TargetCommitID :: string  lq_BaseCommitID :: string  lq_Duration :: int

record MergeLease =
  ml_RepoID :: string  ml_TargetBranch :: string  ml_Subject :: string  ml_Token :: string
  ml_SourceCommitID :: string  ml_TargetCommitID :: string  ml_BaseCommitID :: string  ml_ExpiresAt :: int

record ApplyMergeRequest =
  am_RepoID :: string  am_TargetBranch :: string  am_Subject :: string  am_LeaseToken :: string
  am_SourceCommitID :: string  am_TargetCommitID :: string  am_BaseCommitID :: string
  am_ResultCommitID :: string  am_SnapshotRoot :: string  am_Author :: string  am_Message :: string
  am_PackHash :: string  am_CommitFormat :: uint32  am_PackFormat :: uint32  am_CommitTime :: int

record NativePushCommit =
  pc_ID :: string  pc_Commit :: commit  pc_Format :: uint32

record NativePushPublication =
  np_RepoID :: string  np_Branch :: string  np_IdempotencyKey :: string  np_BaseCommit :: string
  np_TargetCommit :: string  np_Commits :: "NativePushCommit list"

record NativePushResult =
  nr_AlreadyApplied :: bool  nr_Head :: string

section \<open>Merge leases\<close>

definition find_lease :: "db \<Rightarrow> string \<Rightarrow> string \<Rightarrow> lease_row option" where
  "find_lease w rid branch = find (\<lambda>l. vis w (l_tenant l) \<and> l_repo l = rid \<and> l_branch l = branch) (merge_leases (tabs w))"

definition valid_lease_request :: "MergeLeaseRequest \<Rightarrow> bool" where
  "valid_lease_request q \<longleftrightarrow> lq_RepoID q \<noteq> '''' \<and> lq_TargetBranch q \<noteq> '''' \<and> lq_Subject q \<noteq> '''' \<and>
     lq_SourceCommitID q \<noteq> '''' \<and> lq_TargetCommitID q \<noteq> '''' \<and> lq_BaseCommitID q \<noteq> '''' \<and> 0 < lq_Duration q"

definition lease_of :: "string \<Rightarrow> string \<Rightarrow> lease_row \<Rightarrow> MergeLease" where
  "lease_of rid branch l = \<lparr>ml_RepoID = rid, ml_TargetBranch = branch, ml_Subject = l_subject l, ml_Token = l_token l,
     ml_SourceCommitID = l_source l, ml_TargetCommitID = l_target l, ml_BaseCommitID = l_base l,
     ml_ExpiresAt = l_expires l\<rparr>"

definition acquire_body :: "string \<Rightarrow> MergeLeaseRequest \<Rightarrow> string \<Rightarrow> (db, MergeLease) eff" where
  "acquire_body tenantID q token =
     ebind (branchHeadForUpdate (lq_RepoID q) (lq_TargetBranch q)) (\<lambda>head.
     ebind (eassert (head = lq_TargetCommitID q) (Pg PgNonFastForward)) (\<lambda>_.
     ebind pg_now (\<lambda>now.
       let r = \<lparr>l_tenant = tenantID, l_repo = lq_RepoID q, l_branch = lq_TargetBranch q, l_subject = lq_Subject q,
            l_token = token, l_source = lq_SourceCommitID q, l_target = lq_TargetCommitID q, l_base = lq_BaseCommitID q,
            l_expires = now + pg_time (lq_Duration q), l_created = now\<rparr>
       in ebind (no_rows_or (Pg ErrMergeLeaseHeld) ''insert lease'' (upsert_lease r)) (\<lambda>expires.
          eret ((lease_of (lq_RepoID q) (lq_TargetBranch q) r)\<lparr>ml_ExpiresAt := expires\<rparr>)))))"

definition AcquireMergeLease :: "ctx \<Rightarrow> MergeLeaseRequest \<Rightarrow> (db, MergeLease) eff" where
  "AcquireMergeLease c q =
     with_tenant c ''postgres: acquire merge lease'' (\<lambda>tenantID.
     ebind (eassert (valid_lease_request q) (Wrapf ''postgres: acquire merge lease'' (Pg ErrInvalidMergeLease))) (\<lambda>_.
     ebind (ewrap ''postgres: acquire merge lease'' newOpaqueToken) (\<lambda>token.
     ewrap ''postgres: acquire merge lease'' (withTenantTx c (acquire_body tenantID q token)))))"

definition ValidateMergeLease :: "ctx \<Rightarrow> string \<Rightarrow> string \<Rightarrow> string \<Rightarrow> string \<Rightarrow> (db, MergeLease) eff" where
  "ValidateMergeLease c repoID targetBranch subject token =
     with_tenant c ''postgres: validate merge lease'' (\<lambda>_.
     ewrap ''postgres: validate merge lease'' (withTenantTx c
       (ebind (no_rows_or (Pg ErrMergeLeaseNotFound) ''query lease''
          (sql_row ''query lease'' (\<lambda>w. find_lease w repoID targetBranch))) (\<lambda>lease.
        ebind (eassert (l_subject lease = subject \<and> l_token lease = token) (Pg ErrMergeLeaseOwnership)) (\<lambda>_.
        ebind go_now (\<lambda>now.
        ebind (eassert (now < l_expires lease) (Pg ErrMergeLeaseExpired)) (\<lambda>_.
        eret (lease_of repoID targetBranch lease))))))))"

definition ReleaseMergeLease :: "ctx \<Rightarrow> string \<Rightarrow> string \<Rightarrow> string \<Rightarrow> string \<Rightarrow> (db, unit) eff" where
  "ReleaseMergeLease c repoID targetBranch subject token =
     with_tenant c ''postgres: release merge lease'' (\<lambda>_.
     ewrap ''postgres: release merge lease'' (withTenantTx c
       (ebind (no_rows_or (Pg ErrMergeLeaseNotFound) ''lock lease''
          (sql_row ''lock lease'' (\<lambda>w. find_lease w repoID targetBranch))) (\<lambda>lease.
        ebind (eassert (l_subject lease = subject \<and> l_token lease = token) (Pg ErrMergeLeaseOwnership)) (\<lambda>_.
        ebind (ewrap ''delete lease'' (delete_leases (\<lambda>l. l_repo l = repoID \<and> l_branch l = targetBranch \<and>
            l_subject l = subject \<and> l_token l = token))) (\<lambda>affected.
        if affected \<noteq> 1 then efail (Pg ErrMergeLeaseNotFound) else eret ()))))))"

section \<open>Applying a merge\<close>

definition valid_apply_request :: "ApplyMergeRequest \<Rightarrow> bool" where
  "valid_apply_request q \<longleftrightarrow> am_RepoID q \<noteq> '''' \<and> am_TargetBranch q \<noteq> '''' \<and> am_Subject q \<noteq> '''' \<and>
     am_LeaseToken q \<noteq> '''' \<and> am_SourceCommitID q \<noteq> '''' \<and> am_TargetCommitID q \<noteq> '''' \<and>
     am_BaseCommitID q \<noteq> '''' \<and> am_ResultCommitID q \<noteq> '''' \<and> am_SnapshotRoot q \<noteq> '''' \<and>
     am_Author q \<noteq> '''' \<and> am_Message q \<noteq> '''' \<and> am_PackHash q \<noteq> '''' \<and>
     validObjectFormat (am_CommitFormat q) \<and> validObjectFormat (am_PackFormat q)"

text \<open>\<open>Truncate(time.Second)\<close>\<close>

definition truncate_second :: "int \<Rightarrow> int" where
  "truncate_second t = (t div 1000000000) * 1000000000"

text \<open>The body of the transaction: the checks under the row locks, the registration of the merge commit,
  and the move of the branch with the lease consumed.\<close>

definition apply_checks :: "ApplyMergeRequest \<Rightarrow> (db, unit) eff" where
  "apply_checks q =
     ebind (branchHeadForUpdate (am_RepoID q) (am_TargetBranch q)) (\<lambda>head.
     ebind (eassert (head = am_TargetCommitID q) (Pg PgNonFastForward)) (\<lambda>_.
     ebind (no_rows_or (Pg ErrMergeLeaseNotFound) ''lock lease''
        (sql_row ''lock lease'' (\<lambda>w. find_lease w (am_RepoID q) (am_TargetBranch q)))) (\<lambda>lease.
     ebind (eassert (l_subject lease = am_Subject q \<and> l_token lease = am_LeaseToken q) (Pg ErrMergeLeaseOwnership)) (\<lambda>_.
     ebind go_now (\<lambda>now.
     ebind (eassert (now < l_expires lease) (Pg ErrMergeLeaseExpired)) (\<lambda>_.
     eassert (l_source lease = am_SourceCommitID q \<and> l_target lease = am_TargetCommitID q \<and>
        l_base lease = am_BaseCommitID q) (Pg ErrMergeLeaseMismatch)))))))"

definition apply_register :: "string \<Rightarrow> ApplyMergeRequest \<Rightarrow> (db, unit) eff" where
  "apply_register tenantID q =
     ebind (ewrap ''insert merge commit'' (insert_commit
        \<lparr>c_id = am_ResultCommitID q, c_tenant = tenantID, c_repo = am_RepoID q, c_root = am_SnapshotRoot q,
         c_format = normalizeObjectFormat (am_CommitFormat q), c_author = am_Author q, c_message = am_Message q,
         c_time = truncate_second (am_CommitTime q)\<rparr>)) (\<lambda>_.
     ebind (ewrap ''insert merge parents''
        (insert_parents tenantID (am_RepoID q) (am_ResultCommitID q) [am_TargetCommitID q, am_SourceCommitID q])) (\<lambda>_.
     ewrap ''insert merge pack range'' (insert_range
        \<lparr>pr_tenant = tenantID, pr_repo = am_RepoID q, pr_hash = am_PackHash q,
         pr_format = normalizeObjectFormat (am_PackFormat q), pr_base = Some (am_TargetCommitID q),
         pr_target = am_ResultCommitID q\<rparr>)))"

definition apply_advance :: "ApplyMergeRequest \<Rightarrow> (db, unit) eff" where
  "apply_advance q =
     ebind (ewrap ''cas target branch'' (update_branch_head (am_ResultCommitID q) (am_RepoID q) (am_TargetBranch q)
        (am_TargetCommitID q))) (\<lambda>moved.
     ebind (eassert (moved = 1) (Pg PgNonFastForward)) (\<lambda>_.
     ebind (ewrap ''consume lease'' (delete_leases (\<lambda>l. l_repo l = am_RepoID q \<and> l_branch l = am_TargetBranch q \<and>
        l_subject l = am_Subject q \<and> l_token l = am_LeaseToken q \<and> l_source l = am_SourceCommitID q \<and>
        l_target l = am_TargetCommitID q \<and> l_base l = am_BaseCommitID q))) (\<lambda>consumed.
     eassert (consumed = 1) (Pg ErrMergeLeaseMismatch))))"

definition apply_body :: "string \<Rightarrow> ApplyMergeRequest \<Rightarrow> (db, unit) eff" where
  "apply_body tenantID q =
     ebind (apply_checks q) (\<lambda>_. ebind (apply_register tenantID q) (\<lambda>_. apply_advance q))"

definition ApplyMerge :: "ctx \<Rightarrow> ApplyMergeRequest \<Rightarrow> (db, unit) eff" where
  "ApplyMerge c q =
     with_tenant c ''postgres: apply merge'' (\<lambda>tenantID.
     ebind (eassert (valid_apply_request q) (Wrapf ''postgres: apply merge'' (Pg ErrInvalidMergeLease))) (\<lambda>_.
     ewrap ''postgres: apply merge'' (withTenantTx c (apply_body tenantID q))))"

section \<open>Compare and swap\<close>

definition cas_body :: "string \<Rightarrow> string \<Rightarrow> string \<Rightarrow> string \<Rightarrow> (db, unit) eff" where
  "cas_body repoID branch expectedCommit newCommit =
     ebind (branchHeadForUpdate repoID branch) (\<lambda>head.
     ebind (eassert (head = expectedCommit) (Pg PgNonFastForward)) (\<lambda>_.
     ebind (ewrap ''postgres: cas branch ref: check merge lease'' (sql_select ''check merge lease''
        (\<lambda>w. list_ex (\<lambda>l. vis w (l_tenant l) \<and> l_repo l = repoID \<and> l_branch l = branch \<and> txnow w < l_expires l)
           (merge_leases (tabs w))))) (\<lambda>leaseHeld.
     ebind (eassert (\<not> leaseHeld) (Pg ErrMergeLeaseHeld)) (\<lambda>_.
     ebind (ewrap ''postgres: cas branch ref: update branch ref''
        (update_branch_head newCommit repoID branch expectedCommit)) (\<lambda>moved.
     if moved = 1 then eret () else efail (Pg PgNonFastForward))))))"

definition CompareAndSwapBranchRef :: "ctx \<Rightarrow> string \<Rightarrow> string \<Rightarrow> string \<Rightarrow> string \<Rightarrow> (db, unit) eff" where
  "CompareAndSwapBranchRef c repoID branch expectedCommit newCommit =
     with_tenant c ''postgres: cas branch ref'' (\<lambda>_.
     withTenantTx c (cas_body repoID branch expectedCommit newCommit))"

section \<open>Publishing a native push\<close>

definition valid_publication :: "NativePushPublication \<Rightarrow> bool" where
  "valid_publication p \<longleftrightarrow> np_RepoID p \<noteq> '''' \<and> np_Branch p \<noteq> '''' \<and> np_IdempotencyKey p \<noteq> '''' \<and>
     np_BaseCommit p \<noteq> '''' \<and> np_TargetCommit p \<noteq> '''' \<and> np_Commits p \<noteq> []"

text \<open>The transaction claims the idempotency key; if it was claimed before, the stored result is returned,
  otherwise the push is published.\<close>

definition publish_existing :: "string \<Rightarrow> NativePushPublication \<Rightarrow> (db, NativePushResult) eff" where
  "publish_existing tenantID p =
       ebind (ewrap ''read existing native push transaction'' (sql_row ''read existing native push transaction''
          (\<lambda>w. find (\<lambda>r. vis w (p_tenant r) \<and> p_tenant r = tenantID \<and> p_repo r = np_RepoID p \<and>
             p_key r = np_IdempotencyKey p) (push_txns (tabs w))))) (\<lambda>existing.
       ebind (eassert (p_branch existing = np_Branch p \<and> p_base existing = np_BaseCommit p \<and>
          p_target existing = np_TargetCommit p) (Pg ErrNativePushIdempotencyConflict)) (\<lambda>_.
       ebind (eassert (p_status existing = ''committed'') (Errorf ''native push transaction has unexpected status'')) (\<lambda>_.
       eret \<lparr>nr_AlreadyApplied = True, nr_Head = p_target existing\<rparr>)))"

definition publish_new :: "(commit \<Rightarrow> goerr + commit) \<Rightarrow> string \<Rightarrow> NativePushPublication \<Rightarrow> (db, NativePushResult) eff" where
  "publish_new nrm tenantID p =
       ebind (branchHeadForUpdate (np_RepoID p) (np_Branch p)) (\<lambda>head.
       ebind (eassert (head = np_BaseCommit p) (NonFastForwardHeadError head)) (\<lambda>_.
       ebind (efor (np_Commits p) (\<lambda>r. ewrap ''register commit''
          (putCommitTx nrm tenantID (np_RepoID p) (pc_ID r) (pc_Commit r) (pc_Format r)))) (\<lambda>_.
       ebind (ewrap ''advance branch ref'' (update_branch_head (np_TargetCommit p) (np_RepoID p) (np_Branch p)
          (np_BaseCommit p))) (\<lambda>updated.
       ebind (eassert (updated = 1) (NonFastForwardHeadError head)) (\<lambda>_.
       ebind (ewrap ''record native push transaction'' (complete_push tenantID (np_RepoID p) (np_IdempotencyKey p))) (\<lambda>_.
       eret \<lparr>nr_AlreadyApplied = False, nr_Head = np_TargetCommit p\<rparr>))))))"

definition publish_body :: "(commit \<Rightarrow> goerr + commit) \<Rightarrow> string \<Rightarrow> NativePushPublication \<Rightarrow> (db, NativePushResult) eff" where
  "publish_body nrm tenantID p =
     ebind (ewrap ''claim idempotency key'' (insert_push_nothing
        \<lparr>p_tenant = tenantID, p_repo = np_RepoID p, p_key = np_IdempotencyKey p, p_branch = np_Branch p,
         p_base = np_BaseCommit p, p_target = np_TargetCommit p, p_status = ''pending''\<rparr>)) (\<lambda>claimed.
     if claimed = 0 then publish_existing tenantID p else publish_new nrm tenantID p)"

definition PublishNativePush :: "(commit \<Rightarrow> goerr + commit) \<Rightarrow> ctx \<Rightarrow> NativePushPublication \<Rightarrow> (db, NativePushResult) eff" where
  "PublishNativePush nrm c p =
     with_tenant c ''postgres: publish native push'' (\<lambda>tenantID.
     ebind (eassert (valid_publication p) (Wrapf ''postgres: publish native push'' (Pg ErrInvalidNativePushPublication))) (\<lambda>_.
     ewrap ''postgres: publish native push'' (withTenantTx c (publish_body nrm tenantID p))))"

end
