(* ===== verification/Pg_Native.thy ===== *)
theory Pg_Native
  imports Pg_Merge "HOL-Library.AList"
begin

text \<open>
  Native packs, the retention tables and the audit trail of \<open>PGStore\<close>, and the assets with the
  tenant's storage quota.
\<close>

record pack_index_entry =
  pe_Object :: string  pe_Offset :: uint64  pe_CompressedSize :: uint64  pe_UncompressedSize :: uint64  pe_CRC32 :: uint32

record NativeObjectLocation =
  no_PackID :: string  no_CASPackHash :: string  no_Offset :: uint64  no_CompressedSize :: uint64
  no_UncompressedSize :: uint64  no_CRC32 :: uint32

record ActiveTransaction =
  at_TransactionID :: string  at_CommitID :: string  at_ObjectID :: string

record AuditRecord =
  ar_ID :: string  ar_EventType :: string  ar_Subject :: string  ar_CommitID :: string  ar_ObjectID :: string

record NativePackSummary =
  ps_PackID :: string  ps_CASPackHash :: string  ps_CommitID :: string

record AssetRecord =
  as_TenantID :: string  as_RepoID :: string  as_Hash :: string  as_SizeBytes :: int64  as_MIMEType :: string
  as_CreatedAt :: int

section \<open>Native packs\<close>

text \<open>\<open>int64(x)\<close> of a \<open>uint64\<close> keeps the bits; of a \<open>uint32\<close> the value.\<close>

definition nobj_of_entry :: "string \<Rightarrow> string \<Rightarrow> string \<Rightarrow> pack_index_entry \<Rightarrow> nobj_row" where
  "nobj_of_entry tid rid pack e = \<lparr>o_tenant = tid, o_repo = rid, o_pack = pack, o_object = pe_Object e,
     o_offset = sint (pe_Offset e), o_csize = sint (pe_CompressedSize e), o_usize = sint (pe_UncompressedSize e),
     o_crc = uint (pe_CRC32 e)\<rparr>"

definition PutNativePack :: "ctx \<Rightarrow> string \<Rightarrow> string \<Rightarrow> string \<Rightarrow> string \<Rightarrow> pack_index_entry list \<Rightarrow> (db, unit) eff" where
  "PutNativePack c repoID packID casPackHash commitID entries =
     with_tenant c ''postgres: put native pack'' (\<lambda>tenantID.
     ebind (eassert (packID \<noteq> '''' \<and> casPackHash \<noteq> '''')
        (Errorf ''postgres: put native pack: pack ID and CAS pack hash are required'')) (\<lambda>_.
     withTenantTx c
       (ebind (ewrap ''postgres: put native pack: insert native pack'' (insert_npack_nothing
          \<lparr>n_tenant = tenantID, n_repo = repoID, n_pack = packID, n_cas = casPackHash,
           n_commit = nullableText commitID, n_count = length entries\<rparr>)) (\<lambda>affected.
        ebind (if affected = 0 then
            ebind (ewrap ''postgres: put native pack: read existing native pack'' (sql_row ''read existing native pack''
              (\<lambda>w. find (\<lambda>r. vis w (n_tenant r) \<and> n_tenant r = tenantID \<and> n_repo r = repoID \<and> n_pack r = packID)
                 (native_packs (tabs w))))) (\<lambda>existing.
            eassert (n_cas existing = casPackHash \<and> textOrEmpty (n_commit existing) = commitID \<and>
               n_count existing = length entries) (Pg ErrImmutableMetadataMismatch))
          else eret ()) (\<lambda>_.
        efor entries (\<lambda>e. ebind (ewrap ''postgres: put native pack: insert native pack object''
            (insert_nobj_nothing (nobj_of_entry tenantID repoID packID e))) (\<lambda>_. eret ())))))))"

definition find_location :: "db \<Rightarrow> string \<Rightarrow> string \<Rightarrow> (nobj_row \<times> npack_row) option" where
  "find_location w rid oid = find (\<lambda>(o', p). vis w (o_tenant o') \<and> vis w (n_tenant p) \<and> n_tenant p = o_tenant o' \<and>
       n_repo p = o_repo o' \<and> n_pack p = o_pack o' \<and> o_repo o' = rid \<and> o_object o' = oid)
     (List.product (native_objects (tabs w)) (native_packs (tabs w)))"

definition location_of :: "nobj_row \<times> npack_row \<Rightarrow> NativeObjectLocation" where
  "location_of = (\<lambda>(o', p). \<lparr>no_PackID = o_pack o', no_CASPackHash = n_cas p, no_Offset = word_of_int (o_offset o'),
     no_CompressedSize = word_of_int (o_csize o'), no_UncompressedSize = word_of_int (o_usize o'),
     no_CRC32 = word_of_int (o_crc o')\<rparr>)"

definition GetNativeObjectLocation :: "ctx \<Rightarrow> string \<Rightarrow> string \<Rightarrow> (db, NativeObjectLocation) eff" where
  "GetNativeObjectLocation c repoID objectID =
     with_tenant c ''postgres: get native object location'' (\<lambda>_.
     withTenantTx c (no_rows_or (Pg ErrNativeObjectNotFound) ''postgres: get native object location: query object''
       (sql_row ''query object'' (\<lambda>w. map_option location_of (find_location w repoID objectID)))))"

definition pack_summary :: "npack_row \<Rightarrow> NativePackSummary" where
  "pack_summary r = \<lparr>ps_PackID = n_pack r, ps_CASPackHash = n_cas r, ps_CommitID = textOrEmpty (n_commit r)\<rparr>"

definition ListNativePacks :: "ctx \<Rightarrow> string \<Rightarrow> (db, NativePackSummary list) eff" where
  "ListNativePacks c repoID =
     with_tenant c ''postgres: list native packs'' (\<lambda>_.
     withTenantTx c (ewrap ''postgres: list native packs: query'' (sql_select ''list native packs''
       (\<lambda>w. map pack_summary (sort_key n_pack
          (filter (\<lambda>r. vis w (n_tenant r) \<and> n_repo r = repoID) (native_packs (tabs w))))))))"

text \<open>A Go map filled row by row: a later row of the same object replaces an earlier one.\<close>

definition ListNativePackObjectIDs :: "ctx \<Rightarrow> string \<Rightarrow> (db, (string \<times> string) list) eff" where
  "ListNativePackObjectIDs c repoID =
     with_tenant c ''postgres: list native pack object IDs'' (\<lambda>_.
     withTenantTx c (ewrap ''postgres: list native pack object IDs: query'' (sql_select ''list native objects''
       (\<lambda>w. fold (\<lambda>r m. AList.update (o_object r) (o_pack r) m)
          (filter (\<lambda>r. vis w (o_tenant r) \<and> o_repo r = repoID) (native_objects (tabs w))) []))))"

definition DeleteNativePack :: "ctx \<Rightarrow> string \<Rightarrow> string \<Rightarrow> (db, unit) eff" where
  "DeleteNativePack c repoID packID =
     with_tenant c ''postgres: delete native pack'' (\<lambda>_.
     withTenantTx c
       (ebind (ewrap ''postgres: delete native pack: delete objects'' (delete_nobjs repoID packID)) (\<lambda>_.
        ewrap ''postgres: delete native pack: delete pack'' (delete_npacks repoID packID))))"

section \<open>Active transactions and the audit trail\<close>

definition PutActiveTransaction :: "ctx \<Rightarrow> string \<Rightarrow> string \<Rightarrow> string \<Rightarrow> string \<Rightarrow> (db, unit) eff" where
  "PutActiveTransaction c repoID transactionID commitID objectID =
     with_tenant c ''postgres: put active transaction'' (\<lambda>tenantID.
     ebind (eassert (transactionID \<noteq> '''') (Errorf ''postgres: put active transaction: transaction ID is required'')) (\<lambda>_.
     ebind (eassert (\<not> (commitID = '''' \<and> objectID = ''''))
        (Errorf ''postgres: put active transaction: commit ID or object ID is required'')) (\<lambda>_.
     withTenantTx c (ewrap ''postgres: put active transaction: insert active transaction''
       (upsert_txn \<lparr>x_tenant = tenantID, x_repo = repoID, x_id = transactionID,
          x_commit = nullableText commitID, x_object = nullableText objectID\<rparr>)))))"

definition active_txn :: "txn_row \<Rightarrow> ActiveTransaction" where
  "active_txn r = \<lparr>at_TransactionID = x_id r, at_CommitID = textOrEmpty (x_commit r), at_ObjectID = textOrEmpty (x_object r)\<rparr>"

definition ListActiveTransactions :: "ctx \<Rightarrow> string \<Rightarrow> (db, ActiveTransaction list) eff" where
  "ListActiveTransactions c repoID =
     with_tenant c ''postgres: list active transactions'' (\<lambda>_.
     withTenantTx c (ewrap ''postgres: list active transactions: query'' (sql_select ''list active transactions''
       (\<lambda>w. map active_txn (sort_key x_id
          (filter (\<lambda>r. vis w (x_tenant r) \<and> x_repo r = repoID) (active_txns (tabs w))))))))"

definition DeleteActiveTransaction :: "ctx \<Rightarrow> string \<Rightarrow> string \<Rightarrow> (db, unit) eff" where
  "DeleteActiveTransaction c repoID transactionID =
     with_tenant c ''postgres: delete active transaction'' (\<lambda>_.
     withTenantTx c
       (ebind (ewrap ''postgres: delete active transaction'' (delete_txn repoID transactionID)) (\<lambda>affected.
        if affected = 0 then efail (Pg ErrActiveTransactionNotFound) else eret ())))"

text \<open>The row's id is \<open>gen_random_uuid()\<close>, drawn inside the statement.\<close>

definition PutAuditRecord :: "ctx \<Rightarrow> string \<Rightarrow> string \<Rightarrow> string \<Rightarrow> string \<Rightarrow> string \<Rightarrow> (db, unit) eff" where
  "PutAuditRecord c repoID eventType subject commitID objectID =
     with_tenant c ''postgres: put audit record'' (\<lambda>tenantID.
     ebind (eassert (\<not> (eventType = '''' \<or> subject = ''''))
        (Errorf ''postgres: put audit record: event type and subject are required'')) (\<lambda>_.
     withTenantTx c (ewrap ''postgres: put audit record: insert audit record''
       (ebind (read_rand 16) (\<lambda>raw. ebind pg_now (\<lambda>now. insert_audit
          \<lparr>a_id = format_uuid raw, a_tenant = tenantID, a_repo = repoID, a_event = eventType, a_subject = subject,
           a_commit = nullableText commitID, a_object = nullableText objectID, a_created = now\<rparr>))))))"

definition audit_record :: "audit_row \<Rightarrow> AuditRecord" where
  "audit_record r = \<lparr>ar_ID = a_id r, ar_EventType = a_event r, ar_Subject = a_subject r,
     ar_CommitID = textOrEmpty (a_commit r), ar_ObjectID = textOrEmpty (a_object r)\<rparr>"

definition ListAuditRecords :: "ctx \<Rightarrow> string \<Rightarrow> (db, AuditRecord list) eff" where
  "ListAuditRecords c repoID =
     with_tenant c ''postgres: list audit records'' (\<lambda>_.
     withTenantTx c (ewrap ''postgres: list audit records: query'' (sql_select ''list audit records''
       (\<lambda>w. map audit_record (sort_key a_created
          (filter (\<lambda>r. vis w (a_tenant r) \<and> a_repo r = repoID) (audit_records (tabs w))))))))"

section \<open>Assets and quotas\<close>

definition resolveRepoUUID :: "string \<Rightarrow> string \<Rightarrow> (db, string) eff" where
  "resolveRepoUUID tenantID repoIDOrName =
     (if uuidV4Pattern repoIDOrName then eret repoIDOrName
      else ecatch (sql_row ''resolve repository'' (\<lambda>w. map_option r_id
         (find (\<lambda>r. vis w (r_tenant r) \<and> r_tenant r = tenantID \<and> r_name r = repoIDOrName) (repositories (tabs w)))))
       (\<lambda>e. if err_is e no_rows then efail (Pg ErrRepositoryNotFound) else efail e))"

definition asset_registered :: "string \<Rightarrow> string \<Rightarrow> string \<Rightarrow> (db, bool) eff" where
  "asset_registered tid rid hash = ewrap ''check asset exists'' (sql_select ''check asset exists''
     (\<lambda>w. list_ex (\<lambda>a. vis w (s_tenant a) \<and> s_tenant a = tid \<and> s_repo a = rid \<and> s_hash a = hash) (assets (tabs w))))"

definition tenant_quota :: "string \<Rightarrow> string \<Rightarrow> (db, int64 \<times> int64) eff" where
  "tenant_quota msg tid = no_rows_or (Pg ErrTenantNotFound) msg (sql_row ''lock tenant''
     (\<lambda>w. map_option (\<lambda>r. (t_quota r, t_used r)) (find (\<lambda>r. vis w (t_id r) \<and> t_id r = tid) (tenants (tabs w)))))"

text \<open>\<open>quota > 0 && (used+sizeBytes) > quota\<close> on \<open>int64\<close>: the addition wraps.\<close>

definition over_quota :: "int64 \<Rightarrow> int64 \<Rightarrow> int64 \<Rightarrow> bool" where
  "over_quota quota used sizeBytes \<longleftrightarrow> 0 <s quota \<and> quota <s used + sizeBytes"

definition AdmitAssetUpload :: "ctx \<Rightarrow> string \<Rightarrow> string \<Rightarrow> int64 \<Rightarrow> (db, unit) eff" where
  "AdmitAssetUpload c repoID hash sizeBytes =
     with_tenant c ''postgres: admit asset upload'' (\<lambda>tenantID.
     withTenantTx c
       (ebind (resolveRepoUUID tenantID repoID) (\<lambda>actualRepoID.
        ebind (asset_registered tenantID actualRepoID hash) (\<lambda>found.
        if found then eret ()
        else ebind (tenant_quota ''lock tenant for quota check'' tenantID) (\<lambda>(quota, used).
             eassert (\<not> over_quota quota used sizeBytes) (Pg ErrQuotaExceeded))))))"

definition RegisterAsset :: "ctx \<Rightarrow> string \<Rightarrow> string \<Rightarrow> int64 \<Rightarrow> string \<Rightarrow> (db, unit) eff" where
  "RegisterAsset c repoID hash sizeBytes mimeType =
     with_tenant c ''postgres: register asset'' (\<lambda>tenantID.
     withTenantTx c
       (ebind (resolveRepoUUID tenantID repoID) (\<lambda>actualRepoID.
        ebind (asset_registered tenantID actualRepoID hash) (\<lambda>found.
        if found then eret ()
        else ebind (tenant_quota ''lock tenant for quota update'' tenantID) (\<lambda>(quota, used).
             ebind (eassert (\<not> over_quota quota used sizeBytes) (Pg ErrQuotaExceeded)) (\<lambda>_.
             ebind (ebind pg_now (\<lambda>now. ewrap ''insert asset'' (insert_asset_nothing \<lparr>s_tenant = tenantID, s_repo = actualRepoID,
                s_hash = hash, s_size = sizeBytes, s_mime = mimeType, s_created = now\<rparr>))) (\<lambda>_.
             ewrap ''update tenant used bytes'' (add_used sizeBytes tenantID))))))))"

definition GetAssetMetadata :: "ctx \<Rightarrow> string \<Rightarrow> string \<Rightarrow> (db, AssetRecord) eff" where
  "GetAssetMetadata c repoID hash =
     with_tenant c ''postgres: get asset metadata'' (\<lambda>tenantID.
     withTenantTx c
       (ebind (resolveRepoUUID tenantID repoID) (\<lambda>actualRepoID.
        no_rows_or (Pg ErrAssetNotFound) ''query asset'' (sql_row ''query asset'' (\<lambda>w. map_option
          (\<lambda>a. \<lparr>as_TenantID = s_tenant a, as_RepoID = s_repo a, as_Hash = s_hash a, as_SizeBytes = s_size a,
                as_MIMEType = s_mime a, as_CreatedAt = s_created a\<rparr>)
          (find (\<lambda>a. vis w (s_tenant a) \<and> s_tenant a = tenantID \<and> s_repo a = actualRepoID \<and> s_hash a = hash)
             (assets (tabs w))))))))"

definition ListMissingAssets :: "ctx \<Rightarrow> string \<Rightarrow> string list \<Rightarrow> (db, string list) eff" where
  "ListMissingAssets c repoID candidateHashes =
     with_tenant c ''postgres: list missing assets'' (\<lambda>tenantID.
     if candidateHashes = [] then eret []
     else withTenantTx c
       (ebind (resolveRepoUUID tenantID repoID) (\<lambda>actualRepoID.
        ebind (ewrap ''query existing assets'' (sql_select ''query existing assets'' (\<lambda>w. map s_hash
          (filter (\<lambda>a. vis w (s_tenant a) \<and> s_tenant a = tenantID \<and> s_repo a = actualRepoID \<and>
             s_hash a \<in> set candidateHashes) (assets (tabs w)))))) (\<lambda>existing.
        eret (filter (\<lambda>h. h \<notin> set existing) candidateHashes)))))"

definition SetTenantStorageQuota :: "string \<Rightarrow> int64 \<Rightarrow> (db, unit) eff" where
  "SetTenantStorageQuota tenantID quotaBytes =
     (if \<not> uuidV4Pattern tenantID then efail (Wrapf ''postgres: set tenant storage quota'' (Pg ErrTenantNotFound))
      else withConfiguredTenantTx tenantID
        (ebind (ewrap ''update storage quota'' (set_quota quotaBytes tenantID)) (\<lambda>affected.
         if affected = 0 then efail (Pg ErrTenantNotFound) else eret ())))"

end
