(* ===== verification/Pg_Session.thy ===== *)
theory Pg_Session
  imports Pg_Native
begin

text \<open>
  Properties every statement keeps, and so every transaction and every operation of the store. The
  locale \<open>session\<close> takes an invariant \<open>I\<close> of the tables, a condition \<open>S\<close> on the environment and the
  session's tenant setting, and a preorder \<open>R\<close> between the tables before and after; inside it the
  combinators of the effect language and the transaction wrapper are shown to keep them.
\<close>

section \<open>The contract between statements and transactions\<close>

locale session =
  fixes I :: "tables \<Rightarrow> bool" and S :: "env \<Rightarrow> string option \<Rightarrow> bool" and R :: "tables \<Rightarrow> tables \<Rightarrow> bool"
  assumes R_refl: "R t t" and R_trans: "R t u \<Longrightarrow> R u v \<Longrightarrow> R t v"
begin

definition kept :: "db \<Rightarrow> db \<Rightarrow> bool" where
  "kept w w' \<longleftrightarrow> I (tabs w') \<and> R (tabs w) (tabs w') \<and> env w' = env w"

definition ok :: "(db, 'a) eff \<Rightarrow> bool" where
  "ok m \<longleftrightarrow> (\<forall>w. I (tabs w) \<longrightarrow> S (env w) (guc w) \<longrightarrow>
     kept w (snd (m w)) \<and> guc (snd (m w)) = guc w \<and> txnow (snd (m w)) = txnow w)"

lemma okI:
  "(\<And>w. I (tabs w) \<Longrightarrow> S (env w) (guc w) \<Longrightarrow>
     kept w (snd (m w)) \<and> guc (snd (m w)) = guc w \<and> txnow (snd (m w)) = txnow w) \<Longrightarrow> ok m"
  by (simp add: ok_def)

lemma kept_refl: "I (tabs w) \<Longrightarrow> kept w w"
  by (simp add: kept_def R_refl)

lemma kept_trans: "kept w w' \<Longrightarrow> kept w' w'' \<Longrightarrow> kept w w''"
  by (auto simp: kept_def intro: R_trans)

lemma ok_pure: "(\<And>w. tabs (snd (m w)) = tabs w \<and> env (snd (m w)) = env w \<and> guc (snd (m w)) = guc w \<and> txnow (snd (m w)) = txnow w) \<Longrightarrow> ok m"
  by (simp add: ok_def kept_def R_refl)

lemma ok_eret: "ok (eret x)" and ok_efail: "ok (efail e)" and ok_elift: "ok (elift r)" and ok_eassert: "ok (eassert b e)"
  by (rule ok_pure, simp add: eff_run)+

lemma ok_pg_now: "ok pg_now" and ok_go_now: "ok go_now" and ok_read_rand: "ok (read_rand n)"
  by (rule ok_pure, simp add: pg_now_def go_now_def read_rand_def tick_def split: option.splits)+

lemma ok_ebind: "ok m \<Longrightarrow> (\<And>x. ok (f x)) \<Longrightarrow> ok (ebind m f)"
proof (rule okI)
  fix w :: db
  assume m: "ok m" and f: "\<And>x. ok (f x)" and I: "I (tabs w)" and S: "S (env w) (guc w)"
  obtain r w1 where w1: "m w = (r, w1)" by (cases "m w")
  with m I S have k: "kept w w1" "guc w1 = guc w" "txnow w1 = txnow w" unfolding ok_def by (metis snd_conv)+
  show "kept w (snd (ebind m f w)) \<and> guc (snd (ebind m f w)) = guc w \<and> txnow (snd (ebind m f w)) = txnow w"
  proof (cases r)
    case (Inl e)
    then show ?thesis using w1 k by (simp add: ebind_def)
  next
    case (Inr x)
    have "I (tabs w1)" "S (env w1) (guc w1)" using k S by (simp_all add: kept_def)
    with f [of x] k show ?thesis using w1 Inr by (auto simp: ebind_def ok_def intro: kept_trans)
  qed
qed

lemma ok_ecatch: "ok m \<Longrightarrow> (\<And>e. ok (h e)) \<Longrightarrow> ok (ecatch m h)"
proof (rule okI)
  fix w :: db
  assume m: "ok m" and f: "\<And>x. ok (h x)" and I: "I (tabs w)" and S: "S (env w) (guc w)"
  obtain r w1 where w1: "m w = (r, w1)" by (cases "m w")
  with m I S have k: "kept w w1" "guc w1 = guc w" "txnow w1 = txnow w" unfolding ok_def by (metis snd_conv)+
  show "kept w (snd (ecatch m h w)) \<and> guc (snd (ecatch m h w)) = guc w \<and> txnow (snd (ecatch m h w)) = txnow w"
  proof (cases r)
    case (Inr e)
    then show ?thesis using w1 k by (simp add: ecatch_def)
  next
    case (Inl x)
    have "I (tabs w1)" "S (env w1) (guc w1)" using k S by (simp_all add: kept_def)
    with f [of x] k show ?thesis using w1 Inl by (auto simp: ecatch_def ok_def intro: kept_trans)
  qed
qed

lemma ok_ewrap: "ok m \<Longrightarrow> ok (ewrap s m)"
  unfolding ewrap_def by (intro ok_ecatch ok_efail)

lemma ok_no_rows_or: "ok m \<Longrightarrow> ok (no_rows_or a s m)"
  unfolding no_rows_or_def by (intro ok_ecatch) (auto intro: ok_efail)

lemma ok_efor: "(\<And>x. ok (f x)) \<Longrightarrow> ok (efor xs f)"
  by (induction xs) (auto intro: ok_eret ok_ebind)

lemma ok_sql:
  assumes "\<And>w x t. I (tabs w) \<Longrightarrow> S (env w) (guc w) \<Longrightarrow> f w = Inr (x, t) \<Longrightarrow> I t \<and> R (tabs w) t"
  shows "ok (sql s f)"
  using assms by (intro okI) (auto simp: sql_def kept_def tick_def R_refl split: sum.splits)

lemma ok_sql_select: "ok (sql_select s q)"
  unfolding sql_select_def by (rule ok_sql) (auto simp: R_refl)

lemma ok_sql_row: "ok (sql_row s q)"
  unfolding sql_row_def by (rule ok_sql) (auto simp: R_refl split: option.splits)

lemma ok_if: "(b \<Longrightarrow> ok m) \<Longrightarrow> (\<not> b \<Longrightarrow> ok n) \<Longrightarrow> ok (if b then m else n)"
  by simp

lemma ok_case_option: "(x = None \<Longrightarrow> ok m) \<Longrightarrow> (\<And>y. x = Some y \<Longrightarrow> ok (f y)) \<Longrightarrow> ok (case x of None \<Rightarrow> m | Some y \<Rightarrow> f y)"
  by (cases x) auto

lemma ok_case_prod: "(\<And>a b. ok (f a b)) \<Longrightarrow> ok (case x of (a, b) \<Rightarrow> f a b)"
  by (cases x) auto

lemma ok_Let: "(\<And>y. y = x \<Longrightarrow> ok (f y)) \<Longrightarrow> ok (let y = x in f y)"
  by simp

lemma ok_bfs: "ok (bfs lim b rid q h)"
proof (induction lim b rid q h rule: bfs.induct)
  case (1 lim b rid h)
  show ?case by (simp add: ok_eret)
next
  case (2 lim b rid cid depth q h)
  show ?case
    unfolding bfs.simps commit_exists_def commitParentIDs_def
    by (intro ok_if ok_ebind ok_efail ok_ewrap ok_sql_select) (use 2 in auto)
qed

lemmas ok_intros = ok_eret ok_efail ok_elift ok_eassert ok_pg_now ok_go_now ok_read_rand ok_ebind ok_ecatch
  ok_ewrap ok_no_rows_or ok_efor ok_sql_select ok_sql_row ok_if ok_case_option ok_case_prod ok_Let ok_bfs

section \<open>Transactions and operations\<close>

definition op_ok :: "string \<Rightarrow> (db, 'a) eff \<Rightarrow> bool" where
  "op_ok T m \<longleftrightarrow> (\<forall>w. I (tabs w) \<longrightarrow> S (env w) (Some T) \<longrightarrow> kept w (snd (m w)))"

lemma rollback_kept: "I (tabs w) \<Longrightarrow> kept w (rollback w w1)"
  by (simp add: kept_def rollback_def R_refl)

lemma op_tx_configured:
  assumes "ok m" and "T \<noteq> ''''"
  shows "op_ok T (withConfiguredTenantTx T m)"
  unfolding op_ok_def
proof (intro allI impI)
  fix w0 :: db
  assume I: "I (tabs w0)" and S: "S (env w0) (Some T)"
  define body where "body = ebind (if T \<noteq> '''' then setTenantLocal T else eret ()) (\<lambda>_. m)"
  obtain r w1 where w1: "ewrap ''postgres: begin tx'' begin_tx w0 = (r, w1)" by (cases "ewrap ''postgres: begin tx'' begin_tx w0")
  then have e1: "tabs w1 = tabs w0" "env w1 = env w0"
    by (auto simp: ewrap_def ecatch_def begin_tx_def ebind_def tx_step_def tick_def efail_def split: if_splits)
  show "kept w0 (snd (withConfiguredTenantTx T m w0))"
  proof (cases r)
    case (Inl e)
    then show ?thesis using w1 I by (simp add: withConfiguredTenantTx_def rollback_kept)
  next
    case (Inr u)
    obtain r2 w2 where w2: "body w1 = (r2, w2)" by (cases "body w1")
    have k2: "r2 = Inr x \<Longrightarrow> kept w0 w2" for x
    proof -
      assume "r2 = Inr x"
      then have "m (w1\<lparr>calls := Suc (calls w1), guc := Some T\<rparr>) = (Inr x, w2)"
        using w2 assms(2)
        by (auto simp: body_def ebind_def setTenantLocal_def ewrap_def ecatch_def tx_step_def tick_def efail_def split: if_splits)
      then show "kept w0 w2"
        using assms(1) I S e1 unfolding ok_def kept_def
        by (metis (no_types, lifting) db.select_convs(1,2,5) db.surjective db.update_convs(2,4) snd_conv)
    qed
    show ?thesis
    proof (cases r2)
      case (Inl e)
      then show ?thesis using w1 w2 Inr I by (simp add: withConfiguredTenantTx_def body_def [symmetric] rollback_kept)
    next
      case (Inr x)
      have "kept w0 (snd (commit_tx w0 x w2))"
        using k2 [OF Inr] I by (auto simp: commit_tx_def kept_def tick_def rollback_def R_refl)
      then show ?thesis using w1 w2 Inr \<open>r = Inr u\<close> by (simp add: withConfiguredTenantTx_def body_def [symmetric])
    qed
  qed
qed

lemma op_tx: "tenantIDFromContext c = Some T \<Longrightarrow> ok m \<Longrightarrow> op_ok T (withTenantTx c m)"
  using op_tx_configured [of m T] by (auto simp: withTenantTx_def tenantIDFromContext_def split: option.splits if_splits)

lemma op_pure: "(\<And>w. tabs (snd (m w)) = tabs w \<and> env (snd (m w)) = env w) \<Longrightarrow> op_ok T m"
  by (simp add: op_ok_def kept_def R_refl)

lemma op_eret: "op_ok T (eret x)" and op_efail: "op_ok T (efail e)" and op_elift: "op_ok T (elift r)" and op_eassert: "op_ok T (eassert b e)"
  by (rule op_pure, simp add: eff_run)+

lemma op_read_rand: "op_ok T (read_rand n)"
  by (rule op_pure) (simp add: read_rand_def tick_def split: option.splits)

lemma op_ebind:
  assumes m: "op_ok T m" and f: "\<And>x. op_ok T (f x)"
  shows "op_ok T (ebind m f)"
  unfolding op_ok_def
proof (intro allI impI)
  fix w :: db
  assume I: "I (tabs w)" and S: "S (env w) (Some T)"
  obtain r w1 where w1: "m w = (r, w1)" by (cases "m w")
  with m I S have k: "kept w w1" unfolding op_ok_def by (metis snd_conv)
  show "kept w (snd (ebind m f w))"
  proof (cases r)
    case (Inl e)
    then show ?thesis using w1 k by (simp add: ebind_def)
  next
    case (Inr x)
    have "I (tabs w1)" "S (env w1) (Some T)" using k S by (simp_all add: kept_def)
    with f [of x] have "kept w1 (snd (f x w1))" by (simp add: op_ok_def)
    with k show ?thesis using w1 Inr by (simp add: ebind_def kept_trans [OF k])
  qed
qed

lemma op_ecatch:
  assumes m: "op_ok T m" and f: "\<And>x. op_ok T (h x)"
  shows "op_ok T (ecatch m h)"
  unfolding op_ok_def
proof (intro allI impI)
  fix w :: db
  assume I: "I (tabs w)" and S: "S (env w) (Some T)"
  obtain r w1 where w1: "m w = (r, w1)" by (cases "m w")
  with m I S have k: "kept w w1" unfolding op_ok_def by (metis snd_conv)
  show "kept w (snd (ecatch m h w))"
  proof (cases r)
    case (Inr e)
    then show ?thesis using w1 k by (simp add: ecatch_def)
  next
    case (Inl x)
    have "I (tabs w1)" "S (env w1) (Some T)" using k S by (simp_all add: kept_def)
    with f [of x] have "kept w1 (snd (h x w1))" by (simp add: op_ok_def)
    with k show ?thesis using w1 Inl by (simp add: ecatch_def kept_trans [OF k])
  qed
qed

lemma op_ewrap: "op_ok T m \<Longrightarrow> op_ok T (ewrap s m)"
  unfolding ewrap_def by (intro op_ecatch op_efail)

lemma op_with_tenant:
  "(\<And>T. tenantIDFromContext c = Some T \<Longrightarrow> op_ok T (f T)) \<Longrightarrow> (\<And>T. tenantIDFromContext c = Some T \<Longrightarrow> T = U) \<Longrightarrow>
   op_ok U (with_tenant c s f)"
  by (cases "tenantIDFromContext c")
     (auto simp: with_tenant_def requireTenantID_def op_ok_def ebind_def elift_def rwrap_def kept_refl)

lemma op_if: "(b \<Longrightarrow> op_ok T m) \<Longrightarrow> (\<not> b \<Longrightarrow> op_ok T n) \<Longrightarrow> op_ok T (if b then m else n)"
  by simp

lemma op_select: "op_ok T (sql_select s q)" and op_row: "op_ok T (sql_row s q')"
  by (rule op_pure, simp add: sql_select_def sql_row_def sql_def tick_def split: option.splits sum.splits)+

lemmas op_intros = op_eret op_efail op_elift op_eassert op_read_rand op_ebind op_ecatch op_ewrap op_if op_select op_row

end

end
