(* ===== verification/Pg_Laws.thy ===== *)
theory Pg_Laws
  imports Pg_Session
begin

text \<open>
  The operations of the store that change rows, each shown to keep whatever its statements keep
  (the locale \<open>session_stmts\<close> extends \<open>session\<close> by one law per statement), and two instances of it:
  tenant isolation and the immutability of history.
\<close>

section \<open>From statements to operations\<close>

locale session_stmts = session +
  assumes insert_tenant_ok: "ok (insert_tenant r1)"
    and insert_repository_ok: "ok (insert_repository r2)"
    and insert_branch_ok: "ok (insert_branch r3)"
    and insert_commit_ok: "ok (insert_commit r4)"
    and insert_commit_nothing_ok: "ok (insert_commit_nothing r4)"
    and insert_parents_ok: "ok (insert_parents tid rid cid ps)"
    and insert_range_ok: "ok (insert_range r5)"
    and insert_range_nothing_ok: "ok (insert_range_nothing r5)"
    and upsert_lease_ok: "ok (upsert_lease r6)"
    and insert_npack_nothing_ok: "ok (insert_npack_nothing r7)"
    and insert_nobj_nothing_ok: "ok (insert_nobj_nothing r8)"
    and upsert_txn_ok: "ok (upsert_txn r9)"
    and insert_audit_ok: "ok (insert_audit r10)"
    and insert_push_nothing_ok: "ok (insert_push_nothing r11)"
    and insert_asset_nothing_ok: "ok (insert_asset_nothing r12)"
    and update_branch_head_ok: "ok (update_branch_head newc rid name expected)"
    and mark_branch_deleted_ok: "ok (mark_branch_deleted rid name)"
    and set_default_branch_ok: "ok (set_default_branch name rid tid)"
    and delete_leases_ok: "ok (delete_leases p)"
    and complete_push_ok: "ok (complete_push tid rid key)"
    and delete_txn_ok: "ok (delete_txn rid xid)"
    and delete_nobjs_ok: "ok (delete_nobjs rid pack)"
    and delete_npacks_ok: "ok (delete_npacks rid pack)"
    and add_used_ok: "ok (add_used n tid)"
    and set_quota_ok: "ok (set_quota n tid)"
begin

lemmas stmts_ok = insert_tenant_ok insert_repository_ok insert_branch_ok insert_commit_ok
  insert_commit_nothing_ok insert_parents_ok insert_range_ok insert_range_nothing_ok upsert_lease_ok
  insert_npack_nothing_ok insert_nobj_nothing_ok upsert_txn_ok insert_audit_ok insert_push_nothing_ok
  insert_asset_nothing_ok update_branch_head_ok mark_branch_deleted_ok set_default_branch_ok
  delete_leases_ok complete_push_ok delete_txn_ok delete_nobjs_ok delete_npacks_ok add_used_ok set_quota_ok

lemmas all_ok = ok_intros stmts_ok

lemma putCommitTx_ok: "ok (putCommitTx nrm T rid cid cm f)"
  unfolding putCommitTx_def commitParentIDs_def by (intro all_ok)

lemma branchHeadForUpdate_ok: "ok (branchHeadForUpdate rid b)"
  unfolding branchHeadForUpdate_def by (intro all_ok)

lemma acquire_body_ok: "ok (acquire_body T q token)"
  unfolding acquire_body_def by (intro all_ok branchHeadForUpdate_ok)

lemma apply_body_ok: "ok (apply_body T q)"
  unfolding apply_body_def apply_checks_def apply_register_def apply_advance_def by (intro all_ok branchHeadForUpdate_ok)

lemma cas_body_ok: "ok (cas_body rid b e n)"
  unfolding cas_body_def by (intro all_ok branchHeadForUpdate_ok)

lemma publish_body_ok: "ok (publish_body nrm T p)"
  unfolding publish_body_def publish_existing_def publish_new_def by (intro all_ok branchHeadForUpdate_ok putCommitTx_ok)

lemma query_default_branch_ok: "ok (query_default_branch rid T)"
  unfolding query_default_branch_def by (intro all_ok)

lemma resolveRepoUUID_ok: "ok (resolveRepoUUID T rid)"
  unfolding resolveRepoUUID_def by (intro all_ok)

lemma asset_registered_ok: "ok (asset_registered T rid h)"
  unfolding asset_registered_def by (intro all_ok)

lemma tenant_quota_ok: "ok (tenant_quota s T)"
  unfolding tenant_quota_def by (intro all_ok)

lemmas bodies_ok = all_ok putCommitTx_ok branchHeadForUpdate_ok acquire_body_ok apply_body_ok cas_body_ok
  publish_body_ok query_default_branch_ok resolveRepoUUID_ok asset_registered_ok tenant_quota_ok

lemma CreateRepository_ok: "tenantIDFromContext c = Some T \<Longrightarrow> op_ok T (CreateRepository c name)"
  unfolding CreateRepository_def newUUIDv4_def
  by (intro op_with_tenant op_intros; (erule op_tx)?; (intro bodies_ok)?) simp_all

lemma CreateBranch_ok: "tenantIDFromContext c = Some T \<Longrightarrow> op_ok T (CreateBranch c rid name h)"
  unfolding CreateBranch_def
  by (intro op_with_tenant op_intros; (erule op_tx)?; (intro bodies_ok)?) simp_all

lemma putCommit_ok: "tenantIDFromContext c = Some T \<Longrightarrow> op_ok T (putCommit nrm c rid cid cm f)"
  unfolding putCommit_def
  by (intro op_with_tenant op_intros; (erule op_tx)?; (intro bodies_ok)?) simp_all

lemma PutCommit_ok: "tenantIDFromContext c = Some T \<Longrightarrow> op_ok T (PutCommit nrm c rid cid cm)"
  unfolding PutCommit_def by (auto intro!: op_if op_efail putCommit_ok)

lemma PutCommitWithFormat_ok: "tenantIDFromContext c = Some T \<Longrightarrow> op_ok T (PutCommitWithFormat nrm c rid cid cm f)"
  unfolding PutCommitWithFormat_def by (auto intro!: op_if op_efail putCommit_ok)

lemma putPackRange_ok: "tenantIDFromContext c = Some T \<Longrightarrow> op_ok T (putPackRange c rid h b t f)"
  unfolding putPackRange_def
  by (intro op_with_tenant op_intros; (erule op_tx)?; (intro bodies_ok)?) simp_all

lemma PutPackRange_ok: "tenantIDFromContext c = Some T \<Longrightarrow> op_ok T (PutPackRange c rid h b t)"
  unfolding PutPackRange_def by (auto intro!: op_if op_efail putPackRange_ok)

lemma PutPackRangeWithFormat_ok: "tenantIDFromContext c = Some T \<Longrightarrow> op_ok T (PutPackRangeWithFormat c rid h b t f)"
  unfolding PutPackRangeWithFormat_def by (auto intro!: op_if op_efail putPackRange_ok)

lemma AcquireMergeLease_ok: "tenantIDFromContext c = Some T \<Longrightarrow> op_ok T (AcquireMergeLease c q)"
  unfolding AcquireMergeLease_def newOpaqueToken_def
  by (intro op_with_tenant op_intros; (erule op_tx)?; (intro bodies_ok)?) simp_all

lemma ReleaseMergeLease_ok: "tenantIDFromContext c = Some T \<Longrightarrow> op_ok T (ReleaseMergeLease c rid b s t)"
  unfolding ReleaseMergeLease_def
  by (intro op_with_tenant op_intros; (erule op_tx)?; (intro bodies_ok)?) simp_all

lemma ApplyMerge_ok: "tenantIDFromContext c = Some T \<Longrightarrow> op_ok T (ApplyMerge c q)"
  unfolding ApplyMerge_def
  by (intro op_with_tenant op_intros; (erule op_tx)?; (intro bodies_ok)?) simp_all

lemma CompareAndSwapBranchRef_ok: "tenantIDFromContext c = Some T \<Longrightarrow> op_ok T (CompareAndSwapBranchRef c rid b e n)"
  unfolding CompareAndSwapBranchRef_def
  by (intro op_with_tenant op_intros; (erule op_tx)?; (intro bodies_ok)?) simp_all

lemma PublishNativePush_ok: "tenantIDFromContext c = Some T \<Longrightarrow> op_ok T (PublishNativePush nrm c p)"
  unfolding PublishNativePush_def
  by (intro op_with_tenant op_intros; (erule op_tx)?; (intro bodies_ok)?) simp_all

lemma PutNativePack_ok: "tenantIDFromContext c = Some T \<Longrightarrow> op_ok T (PutNativePack c rid pk h cid es)"
  unfolding PutNativePack_def
  by (intro op_with_tenant op_intros; (erule op_tx)?; (intro bodies_ok)?) simp_all

lemma DeleteNativePack_ok: "tenantIDFromContext c = Some T \<Longrightarrow> op_ok T (DeleteNativePack c rid pk)"
  unfolding DeleteNativePack_def
  by (intro op_with_tenant op_intros; (erule op_tx)?; (intro bodies_ok)?) simp_all

lemma DeleteBranch_ok: "tenantIDFromContext c = Some T \<Longrightarrow> op_ok T (DeleteBranch c rid name)"
  unfolding DeleteBranch_def
  by (intro op_with_tenant op_intros; (erule op_tx)?; (intro bodies_ok)?) simp_all

lemma PutActiveTransaction_ok: "tenantIDFromContext c = Some T \<Longrightarrow> op_ok T (PutActiveTransaction c rid x cid oid)"
  unfolding PutActiveTransaction_def
  by (intro op_with_tenant op_intros; (erule op_tx)?; (intro bodies_ok)?) simp_all

lemma DeleteActiveTransaction_ok: "tenantIDFromContext c = Some T \<Longrightarrow> op_ok T (DeleteActiveTransaction c rid x)"
  unfolding DeleteActiveTransaction_def
  by (intro op_with_tenant op_intros; (erule op_tx)?; (intro bodies_ok)?) simp_all

lemma PutAuditRecord_ok: "tenantIDFromContext c = Some T \<Longrightarrow> op_ok T (PutAuditRecord c rid ev s cid oid)"
  unfolding PutAuditRecord_def
  by (intro op_with_tenant op_intros; (erule op_tx)?; (intro bodies_ok)?) simp_all

lemma RegisterAsset_ok: "tenantIDFromContext c = Some T \<Longrightarrow> op_ok T (RegisterAsset c rid h n m)"
  unfolding RegisterAsset_def
  by (intro op_with_tenant op_intros; (erule op_tx)?; (intro bodies_ok)?) simp_all

lemma CreateTenant_tx_ok: "T \<noteq> [] \<Longrightarrow> op_ok T (withConfiguredTenantTx T
       (ebind pg_now (\<lambda>now. ecatch (insert_tenant (row now)) h)))" if "\<And>e. ok (h e)"
  using that by (intro op_tx_configured bodies_ok) auto

lemma SetTenantStorageQuota_ok: "op_ok T (SetTenantStorageQuota T n)"
proof (cases "T = []")
  case True
  then show ?thesis by (simp add: SetTenantStorageQuota_def uuidV4Pattern_def op_efail)
next
  case False
  show ?thesis
    unfolding SetTenantStorageQuota_def
    by (intro op_if op_efail op_tx_configured bodies_ok) (use False in auto)
qed

end

section \<open>The operations as requests\<close>

datatype pg_op =
  DoCreateTenant string
| DoCreateRepository ctx string
| DoCreateBranch ctx string string string
| DoPutCommit ctx string string commit uint32
| DoPutPackRange ctx string string string string uint32
| DoAcquireMergeLease ctx MergeLeaseRequest
| DoReleaseMergeLease ctx string string string string
| DoApplyMerge ctx ApplyMergeRequest
| DoCompareAndSwap ctx string string string string
| DoPublishNativePush ctx NativePushPublication
| DoPutNativePack ctx string string string string "pack_index_entry list"
| DoDeleteNativePack ctx string string
| DoDeleteBranch ctx string string
| DoPutActiveTransaction ctx string string string string
| DoDeleteActiveTransaction ctx string string
| DoPutAuditRecord ctx string string string string string
| DoRegisterAsset ctx string string int64 string
| DoSetTenantStorageQuota string int64

fun run_pg :: "(commit \<Rightarrow> goerr + commit) \<Rightarrow> pg_op \<Rightarrow> db \<Rightarrow> db" where
  "run_pg nrm (DoCreateTenant n) w = snd (CreateTenant n w)"
| "run_pg nrm (DoCreateRepository c n) w = snd (CreateRepository c n w)"
| "run_pg nrm (DoCreateBranch c r n h) w = snd (CreateBranch c r n h w)"
| "run_pg nrm (DoPutCommit c r i m f) w = snd (PutCommitWithFormat nrm c r i m f w)"
| "run_pg nrm (DoPutPackRange c r h b t f) w = snd (PutPackRangeWithFormat c r h b t f w)"
| "run_pg nrm (DoAcquireMergeLease c q) w = snd (AcquireMergeLease c q w)"
| "run_pg nrm (DoReleaseMergeLease c r b s t) w = snd (ReleaseMergeLease c r b s t w)"
| "run_pg nrm (DoApplyMerge c q) w = snd (ApplyMerge c q w)"
| "run_pg nrm (DoCompareAndSwap c r b e n) w = snd (CompareAndSwapBranchRef c r b e n w)"
| "run_pg nrm (DoPublishNativePush c p) w = snd (PublishNativePush nrm c p w)"
| "run_pg nrm (DoPutNativePack c r p h i es) w = snd (PutNativePack c r p h i es w)"
| "run_pg nrm (DoDeleteNativePack c r p) w = snd (DeleteNativePack c r p w)"
| "run_pg nrm (DoDeleteBranch c r n) w = snd (DeleteBranch c r n w)"
| "run_pg nrm (DoPutActiveTransaction c r x i j) w = snd (PutActiveTransaction c r x i j w)"
| "run_pg nrm (DoDeleteActiveTransaction c r x) w = snd (DeleteActiveTransaction c r x w)"
| "run_pg nrm (DoPutAuditRecord c r e s i j) w = snd (PutAuditRecord c r e s i j w)"
| "run_pg nrm (DoRegisterAsset c r h n m) w = snd (RegisterAsset c r h n m w)"
| "run_pg nrm (DoSetTenantStorageQuota t n) w = snd (SetTenantStorageQuota t n w)"

text \<open>The tenant a request acts as: the context's, or the one created or named.\<close>

fun acts_as :: "pg_op \<Rightarrow> db \<Rightarrow> string option" where
  "acts_as (DoCreateTenant n) w = map_option format_uuid (env_rand (env w) (calls w) 16)"
| "acts_as (DoCreateRepository c _) w = tenantIDFromContext c"
| "acts_as (DoCreateBranch c _ _ _) w = tenantIDFromContext c"
| "acts_as (DoPutCommit c _ _ _ _) w = tenantIDFromContext c"
| "acts_as (DoPutPackRange c _ _ _ _ _) w = tenantIDFromContext c"
| "acts_as (DoAcquireMergeLease c _) w = tenantIDFromContext c"
| "acts_as (DoReleaseMergeLease c _ _ _ _) w = tenantIDFromContext c"
| "acts_as (DoApplyMerge c _) w = tenantIDFromContext c"
| "acts_as (DoCompareAndSwap c _ _ _ _) w = tenantIDFromContext c"
| "acts_as (DoPublishNativePush c _) w = tenantIDFromContext c"
| "acts_as (DoPutNativePack c _ _ _ _ _) w = tenantIDFromContext c"
| "acts_as (DoDeleteNativePack c _ _) w = tenantIDFromContext c"
| "acts_as (DoDeleteBranch c _ _) w = tenantIDFromContext c"
| "acts_as (DoPutActiveTransaction c _ _ _ _) w = tenantIDFromContext c"
| "acts_as (DoDeleteActiveTransaction c _ _) w = tenantIDFromContext c"
| "acts_as (DoPutAuditRecord c _ _ _ _ _) w = tenantIDFromContext c"
| "acts_as (DoRegisterAsset c _ _ _ _) w = tenantIDFromContext c"
| "acts_as (DoSetTenantStorageQuota t _) w = Some t"

lemma no_tenant_unchanged: "tenantIDFromContext c = None \<Longrightarrow> with_tenant c s f w = (Inl (Wrapf s (Wrapf ''postgres: tenant context'' (Pg ErrMissingTenantContext))), w)"
  by (simp add: with_tenant_def requireTenantID_def ebind_def elift_def)

lemma format_uuid_nonempty: "format_uuid raw \<noteq> []"
  by (simp add: format_uuid_def Let_def)

context session_stmts begin

lemma CreateTenant_kept:
  assumes "I (tabs w)" and "\<And>T. env_rand (env w) (calls w) 16 = Some raw \<Longrightarrow> T = format_uuid raw \<Longrightarrow> S (env w) (Some T)"
    and "env_rand (env w) (calls w) 16 = Some raw"
  shows "kept w (snd (CreateTenant n w))"
proof -
  define T where "T = format_uuid raw"
  let ?tx = "withConfiguredTenantTx T (ebind pg_now (\<lambda>now. ecatch (insert_tenant \<lparr>t_id = T, t_name = n,
      t_created = now, t_quota = 10737418240, t_used = 0\<rparr>)
    (\<lambda>e. if isUniqueViolation e then efail (Wrapf ''postgres: create tenant'' (Pg ErrTenantNameConflict))
               else efail (Wrapf ''postgres: create tenant: insert tenant'' e))))"
  have "op_ok T ?tx"
    by (rule CreateTenant_tx_ok) (auto intro: bodies_ok simp: T_def format_uuid_nonempty)
  then have "kept (tick w) (snd (?tx (tick w)))"
    using assms unfolding op_ok_def by (auto simp: tick_def T_def)
  then have "kept w (snd (?tx (tick w)))"
    by (auto simp: kept_def tick_def)
  then show ?thesis
    using assms(3)
    by (auto simp: CreateTenant_def newUUIDv4_def ebind_def ewrap_def ecatch_def read_rand_def eret_def efail_def
        T_def [symmetric] split: prod.splits sum.splits)
qed

lemma CreateTenant_none:
  "I (tabs w) \<Longrightarrow> env_rand (env w) (calls w) 16 = None \<Longrightarrow> kept w (snd (CreateTenant n w))"
  by (simp add: CreateTenant_def newUUIDv4_def eff_run read_rand_def kept_def tick_def R_refl)

lemma run_pg_kept:
  assumes I: "I (tabs w)" and S: "\<And>T. acts_as p w = Some T \<Longrightarrow> S (env w) (Some T)"
  shows "kept w (run_pg nrm p w)"
proof (cases "acts_as p w")
  case None
  then show ?thesis
    using I
    by (cases p) (auto simp: CreateTenant_none kept_refl CreateRepository_def CreateBranch_def PutCommitWithFormat_def
        putCommit_def PutPackRangeWithFormat_def putPackRange_def AcquireMergeLease_def ReleaseMergeLease_def
        ApplyMerge_def CompareAndSwapBranchRef_def PublishNativePush_def PutNativePack_def DeleteNativePack_def
        DeleteBranch_def PutActiveTransaction_def DeleteActiveTransaction_def PutAuditRecord_def RegisterAsset_def
        no_tenant_unchanged efail_def)
next
  case (Some T)
  have run: "kept w (snd (m w))" if "op_ok T m" for m :: "(db, 'x) eff"
    using that I S [OF Some] by (simp add: op_ok_def)
  show ?thesis
  proof (cases p)
    case (DoCreateTenant n)
    then show ?thesis using CreateTenant_kept [OF I] S Some by auto
  qed (use Some in \<open>auto intro!: run CreateRepository_ok CreateBranch_ok PutCommitWithFormat_ok
      PutPackRangeWithFormat_ok AcquireMergeLease_ok ReleaseMergeLease_ok ApplyMerge_ok CompareAndSwapBranchRef_ok
      PublishNativePush_ok PutNativePack_ok DeleteNativePack_ok DeleteBranch_ok PutActiveTransaction_ok
      DeleteActiveTransaction_ok PutAuditRecord_ok RegisterAsset_ok SetTenantStorageQuota_ok\<close>)
qed

end

end
