(* ===== verification/Pg_Isolation.thy ===== *)
theory Pg_Isolation
  imports Pg_Laws
begin

text \<open>
  Tenant isolation under row-level security, the immutability of history, and the atomicity of
  every transaction of the store.
\<close>

section \<open>Tenant isolation\<close>

text \<open>The rows of one tenant.\<close>

definition rows_of :: "string \<Rightarrow> tables \<Rightarrow> tables" where
  "rows_of T t = \<lparr>
     tenants = filter (\<lambda>r. t_id r = T) (tenants t),
     repositories = filter (\<lambda>r. r_tenant r = T) (repositories t),
     commits = filter (\<lambda>r. c_tenant r = T) (commits t),
     commit_parents = filter (\<lambda>r. cp_tenant r = T) (commit_parents t),
     pack_ranges = filter (\<lambda>r. pr_tenant r = T) (pack_ranges t),
     branches = filter (\<lambda>r. b_tenant r = T) (branches t),
     merge_leases = filter (\<lambda>r. l_tenant r = T) (merge_leases t),
     native_packs = filter (\<lambda>r. n_tenant r = T) (native_packs t),
     native_objects = filter (\<lambda>r. o_tenant r = T) (native_objects t),
     active_txns = filter (\<lambda>r. x_tenant r = T) (active_txns t),
     audit_records = filter (\<lambda>r. a_tenant r = T) (audit_records t),
     push_txns = filter (\<lambda>r. p_tenant r = T) (push_txns t),
     assets = filter (\<lambda>r. s_tenant r = T) (assets t)\<rparr>"

lemma filter_map_other:
  "(\<And>x. hit x \<Longrightarrow> \<not> P x \<and> \<not> P (f x)) \<Longrightarrow> filter P (map (\<lambda>x. if hit x then f x else x) xs) = filter P xs"
  by (induction xs) auto

lemma filter_filter_other: "(\<And>x. hit x \<Longrightarrow> \<not> P x) \<Longrightarrow> filter P (filter (\<lambda>x. \<not> hit x) xs) = filter P xs"
  by (induction xs) auto

lemma parent_rows_tenant: "r \<in> set (parent_rows T rid c ps) \<Longrightarrow> cp_tenant r = T"
  by (auto simp: parent_rows_def)

lemma filter_parent_rows: "T \<noteq> U \<Longrightarrow> filter (\<lambda>r. cp_tenant r = U) (parent_rows T rid c ps) = []"
  by (auto simp: filter_empty_conv dest: parent_rows_tenant)

lemma parent_rows_Nil [simp]: "parent_rows T rid c [] = []"
  by (simp add: parent_rows_def)

lemmas stmt_defs = insert_tenant_def insert_repository_def insert_branch_def insert_commit_def
  insert_commit_nothing_def insert_parents_def insert_range_def insert_range_nothing_def upsert_lease_def
  insert_npack_nothing_def insert_nobj_nothing_def upsert_txn_def insert_audit_def insert_push_nothing_def
  insert_asset_nothing_def update_branch_head_def mark_branch_deleted_def set_default_branch_def
  delete_leases_def complete_push_def delete_txn_def delete_nobjs_def delete_npacks_def add_used_def set_quota_def

lemmas key_defs = commit_key_def range_scope_def lease_key_def npack_key_def txn_key_def push_key_def

interpretation iso: session "\<lambda>_. True" "\<lambda>e g. env_rls e \<and> g \<noteq> None \<and> g \<noteq> Some U"
    "\<lambda>t t'. rows_of U t' = rows_of U t" for U
  by unfold_locales auto

lemma vis_other: "env_rls (env w) \<Longrightarrow> guc w \<noteq> Some U \<Longrightarrow> vis w T \<Longrightarrow> T \<noteq> U"
  by (auto simp: vis_def)

interpretation iso: session_stmts "\<lambda>_. True" "\<lambda>e g. env_rls e \<and> g \<noteq> None \<and> g \<noteq> Some U"
    "\<lambda>t t'. rows_of U t' = rows_of U t" for U
  by (unfold_locales; simp only: stmt_defs;
     rule iso.ok_sql;
     auto simp: Let_def rows_of_def key_defs filter_parent_rows vis_def
       intro!: filter_map_other filter_cong [OF refl] split: if_splits)

section \<open>History is append-only\<close>

text \<open>Commits, parent links, pack ranges, audit records and branch names are never lost.\<close>

definition history_grows :: "tables \<Rightarrow> tables \<Rightarrow> bool" where
  "history_grows t t' \<longleftrightarrow>
     set (commits t) \<subseteq> set (commits t') \<and> set (commit_parents t) \<subseteq> set (commit_parents t') \<and>
     set (pack_ranges t) \<subseteq> set (pack_ranges t') \<and> set (audit_records t) \<subseteq> set (audit_records t') \<and>
     (\<lambda>b. (b_tenant b, b_repo b, b_name b)) ` set (branches t) \<subseteq> (\<lambda>b. (b_tenant b, b_repo b, b_name b)) ` set (branches t')"

lemma image_map_upd: "(\<And>x. k (f x) = k x) \<Longrightarrow> k ` set (map (\<lambda>x. if hit x then f x else x) xs) = k ` set xs"
  by (induction xs) auto

interpretation hist: session "\<lambda>_. True" "\<lambda>_ _. True" history_grows
proof
  show "history_grows t t" for t by (simp add: history_grows_def)
  show "history_grows t u \<Longrightarrow> history_grows u v \<Longrightarrow> history_grows t v" for t u v
    unfolding history_grows_def by (elim conjE, intro conjI; (erule (1) subset_trans))
qed

interpretation hist: session_stmts "\<lambda>_. True" "\<lambda>_ _. True" history_grows
  by (unfold_locales; simp only: stmt_defs; rule hist.ok_sql;
      force simp: Let_def history_grows_def image_map_upd simp del: set_map split: if_splits)

section \<open>Referential integrity\<close>

text \<open>Every reference of the control plane leads to a row of the same tenant and repository.\<close>

definition refs_ok :: "tables \<Rightarrow> bool" where
  "refs_ok t \<longleftrightarrow>
     (\<forall>r \<in> set (commits t). has_repo t (c_tenant r) (c_repo r)) \<and>
     (\<forall>r \<in> set (commit_parents t). has_commit t (cp_tenant r) (cp_repo r) (cp_commit r) \<and>
         has_commit t (cp_tenant r) (cp_repo r) (cp_parent r)) \<and>
     (\<forall>r \<in> set (pack_ranges t). range_fk t r) \<and>
     (\<forall>r \<in> set (branches t). has_repo t (b_tenant r) (b_repo r) \<and> has_commit t (b_tenant r) (b_repo r) (b_head r)) \<and>
     (\<forall>r \<in> set (merge_leases t). lease_fk t r) \<and>
     (\<forall>r \<in> set (native_packs t). case n_commit r of None \<Rightarrow> True | Some c \<Rightarrow> has_commit t (n_tenant r) (n_repo r) c) \<and>
     (\<forall>r \<in> set (native_objects t). has_npack t (o_tenant r) (o_repo r) (o_pack r))"

text \<open>What the references look at only grows.\<close>

definition targets_grow :: "tables \<Rightarrow> tables \<Rightarrow> bool" where
  "targets_grow t t' \<longleftrightarrow> (\<forall>T r. has_repo t T r \<longrightarrow> has_repo t' T r) \<and> (\<forall>T r c. has_commit t T r c \<longrightarrow> has_commit t' T r c) \<and>
     (\<forall>T r n. has_branch t T r n \<longrightarrow> has_branch t' T r n)"

lemma range_fk_grow: "targets_grow t t' \<Longrightarrow> range_fk t r \<Longrightarrow> range_fk t' r"
  by (auto simp: range_fk_def targets_grow_def split: option.splits)

lemma lease_fk_grow: "targets_grow t t' \<Longrightarrow> lease_fk t r \<Longrightarrow> lease_fk t' r"
  by (auto simp: lease_fk_def targets_grow_def)

lemma refs_ok_grow:
  assumes "refs_ok t" and g: "targets_grow t t'"
    and "\<forall>r \<in> set (commits t'). r \<in> set (commits t) \<or> has_repo t' (c_tenant r) (c_repo r)"
    and "\<forall>r \<in> set (commit_parents t'). r \<in> set (commit_parents t) \<or>
        has_commit t' (cp_tenant r) (cp_repo r) (cp_commit r) \<and> has_commit t' (cp_tenant r) (cp_repo r) (cp_parent r)"
    and "\<forall>r \<in> set (pack_ranges t'). r \<in> set (pack_ranges t) \<or> range_fk t' r"
    and "\<forall>r \<in> set (branches t'). has_repo t' (b_tenant r) (b_repo r) \<and> has_commit t' (b_tenant r) (b_repo r) (b_head r)"
    and "\<forall>r \<in> set (merge_leases t'). r \<in> set (merge_leases t) \<or> lease_fk t' r"
    and "\<forall>r \<in> set (native_packs t'). r \<in> set (native_packs t) \<or>
        (case n_commit r of None \<Rightarrow> True | Some c \<Rightarrow> has_commit t' (n_tenant r) (n_repo r) c)"
    and "\<forall>r \<in> set (native_objects t'). has_npack t' (o_tenant r) (o_repo r) (o_pack r)"
  shows "refs_ok t'"
  unfolding refs_ok_def
proof (intro conjI ballI)
  from assms(1) have o1: "\<And>r. r \<in> set (commits t) \<Longrightarrow> has_repo t (c_tenant r) (c_repo r)"
    and o2: "\<And>r. r \<in> set (commit_parents t) \<Longrightarrow> has_commit t (cp_tenant r) (cp_repo r) (cp_commit r)"
    and o3: "\<And>r. r \<in> set (commit_parents t) \<Longrightarrow> has_commit t (cp_tenant r) (cp_repo r) (cp_parent r)"
    and o4: "\<And>r. r \<in> set (pack_ranges t) \<Longrightarrow> range_fk t r"
    and o5: "\<And>r. r \<in> set (merge_leases t) \<Longrightarrow> lease_fk t r"
    and o6: "\<And>r. r \<in> set (native_packs t) \<Longrightarrow> case n_commit r of None \<Rightarrow> True | Some c \<Rightarrow> has_commit t (n_tenant r) (n_repo r) c"
    by (simp_all add: refs_ok_def)
  from g have g1: "\<And>T r. has_repo t T r \<Longrightarrow> has_repo t' T r" and g2: "\<And>T r c. has_commit t T r c \<Longrightarrow> has_commit t' T r c"
    by (simp_all add: targets_grow_def)
  show "has_repo t' (c_tenant r) (c_repo r)" if "r \<in> set (commits t')" for r
    using that assms(3) o1 g1 by auto
  show "has_commit t' (cp_tenant r) (cp_repo r) (cp_commit r)" if "r \<in> set (commit_parents t')" for r
    using that assms(4) o2 g2 by auto
  show "has_commit t' (cp_tenant r) (cp_repo r) (cp_parent r)" if "r \<in> set (commit_parents t')" for r
    using that assms(4) o3 g2 by auto
  show "range_fk t' r" if "r \<in> set (pack_ranges t')" for r
    using that assms(5) o4 range_fk_grow [OF g] by auto
  show "lease_fk t' r" if "r \<in> set (merge_leases t')" for r
    using that assms(7) o5 lease_fk_grow [OF g] by auto
  show "case n_commit r of None \<Rightarrow> True | Some c \<Rightarrow> has_commit t' (n_tenant r) (n_repo r) c" if "r \<in> set (native_packs t')" for r
    using that assms(8) o6 [of r] g2 by (cases "n_commit r") fastforce+
qed (use assms(6,9) in auto)

interpretation refs: session refs_ok "\<lambda>_ _. True" targets_grow
proof
  show "targets_grow t t" for t by (simp add: targets_grow_def)
  show "targets_grow t u \<Longrightarrow> targets_grow u v \<Longrightarrow> targets_grow t v" for t u v
    by (simp add: targets_grow_def)
qed

lemmas has_defs = has_repo_def has_commit_def has_branch_def has_npack_def list_ex_iff list_all_iff

lemma refs_step:
  assumes "refs_ok t" and "targets_grow t t'"
    and "\<And>r. r \<in> set (commits t') \<Longrightarrow> r \<notin> set (commits t) \<Longrightarrow> has_repo t' (c_tenant r) (c_repo r)"
    and "\<And>r. r \<in> set (commit_parents t') \<Longrightarrow> r \<notin> set (commit_parents t) \<Longrightarrow>
        has_commit t' (cp_tenant r) (cp_repo r) (cp_commit r) \<and> has_commit t' (cp_tenant r) (cp_repo r) (cp_parent r)"
    and "\<And>r. r \<in> set (pack_ranges t') \<Longrightarrow> r \<notin> set (pack_ranges t) \<Longrightarrow> range_fk t' r"
    and "\<And>r. r \<in> set (branches t') \<Longrightarrow> has_repo t' (b_tenant r) (b_repo r) \<and> has_commit t' (b_tenant r) (b_repo r) (b_head r)"
    and "\<And>r. r \<in> set (merge_leases t') \<Longrightarrow> r \<notin> set (merge_leases t) \<Longrightarrow> lease_fk t' r"
    and "\<And>r. r \<in> set (native_packs t') \<Longrightarrow> r \<notin> set (native_packs t) \<Longrightarrow>
        (case n_commit r of None \<Rightarrow> True | Some c \<Rightarrow> has_commit t' (n_tenant r) (n_repo r) c)"
    and "\<And>r. r \<in> set (native_objects t') \<Longrightarrow> has_npack t' (o_tenant r) (o_repo r) (o_pack r)"
  shows "refs_ok t' \<and> targets_grow t t'"
  by (intro conjI refs_ok_grow [OF assms(1,2)]) (use assms in blast)+

lemma refs_branches: "refs_ok t \<Longrightarrow> r \<in> set (branches t) \<Longrightarrow> has_repo t (b_tenant r) (b_repo r) \<and> has_commit t (b_tenant r) (b_repo r) (b_head r)"
  by (simp add: refs_ok_def)

lemma refs_objects: "refs_ok t \<Longrightarrow> r \<in> set (native_objects t) \<Longrightarrow> has_npack t (o_tenant r) (o_repo r) (o_pack r)"
  by (simp add: refs_ok_def)

lemma parent_rows_fields:
  "r \<in> set (parent_rows T rid c ps) \<Longrightarrow> cp_tenant r = T \<and> cp_repo r = rid \<and> cp_commit r = c \<and> cp_parent r \<in> set ps"
  by (auto simp: parent_rows_def dest: set_zip_rightD)

text \<open>The \<open>has\<close> predicates under the updates the statements make.\<close>

lemma has_upd [simp]:
  "has_repo (t\<lparr>tenants := a\<rparr>) = has_repo t" "has_repo (t\<lparr>commits := b\<rparr>) = has_repo t"
  "has_repo (t\<lparr>commit_parents := c\<rparr>) = has_repo t" "has_repo (t\<lparr>pack_ranges := d\<rparr>) = has_repo t"
  "has_repo (t\<lparr>branches := e\<rparr>) = has_repo t" "has_repo (t\<lparr>merge_leases := f\<rparr>) = has_repo t"
  "has_repo (t\<lparr>native_packs := g\<rparr>) = has_repo t" "has_repo (t\<lparr>native_objects := h\<rparr>) = has_repo t"
  "has_commit (t\<lparr>tenants := a\<rparr>) = has_commit t" "has_commit (t\<lparr>repositories := i\<rparr>) = has_commit t"
  "has_commit (t\<lparr>commit_parents := c\<rparr>) = has_commit t" "has_commit (t\<lparr>pack_ranges := d\<rparr>) = has_commit t"
  "has_commit (t\<lparr>branches := e\<rparr>) = has_commit t" "has_commit (t\<lparr>merge_leases := f\<rparr>) = has_commit t"
  "has_commit (t\<lparr>native_packs := g\<rparr>) = has_commit t" "has_commit (t\<lparr>native_objects := h\<rparr>) = has_commit t"
  "has_branch (t\<lparr>tenants := a\<rparr>) = has_branch t" "has_branch (t\<lparr>repositories := i\<rparr>) = has_branch t"
  "has_branch (t\<lparr>commits := b\<rparr>) = has_branch t"
  "has_branch (t\<lparr>commit_parents := c\<rparr>) = has_branch t" "has_branch (t\<lparr>pack_ranges := d\<rparr>) = has_branch t"
  "has_branch (t\<lparr>merge_leases := f\<rparr>) = has_branch t"
  "has_branch (t\<lparr>native_packs := g\<rparr>) = has_branch t" "has_branch (t\<lparr>native_objects := h\<rparr>) = has_branch t"
  "has_npack (t\<lparr>tenants := a\<rparr>) = has_npack t" "has_npack (t\<lparr>repositories := i\<rparr>) = has_npack t"
  "has_npack (t\<lparr>commits := b\<rparr>) = has_npack t" "has_npack (t\<lparr>commit_parents := c\<rparr>) = has_npack t"
  "has_npack (t\<lparr>pack_ranges := d\<rparr>) = has_npack t" "has_npack (t\<lparr>branches := e\<rparr>) = has_npack t"
  "has_npack (t\<lparr>merge_leases := f\<rparr>) = has_npack t" "has_npack (t\<lparr>native_objects := h\<rparr>) = has_npack t"
  by (intro ext; simp add: has_defs)+

lemma has_upd2 [simp]:
  "has_repo (t\<lparr>active_txns := u\<rparr>) = has_repo t" "has_commit (t\<lparr>active_txns := u\<rparr>) = has_commit t"
  "has_branch (t\<lparr>active_txns := u\<rparr>) = has_branch t" "has_npack (t\<lparr>active_txns := u\<rparr>) = has_npack t"
  "has_repo (t\<lparr>audit_records := v\<rparr>) = has_repo t" "has_commit (t\<lparr>audit_records := v\<rparr>) = has_commit t"
  "has_branch (t\<lparr>audit_records := v\<rparr>) = has_branch t" "has_npack (t\<lparr>audit_records := v\<rparr>) = has_npack t"
  "has_repo (t\<lparr>push_txns := x\<rparr>) = has_repo t" "has_commit (t\<lparr>push_txns := x\<rparr>) = has_commit t"
  "has_branch (t\<lparr>push_txns := x\<rparr>) = has_branch t" "has_npack (t\<lparr>push_txns := x\<rparr>) = has_npack t"
  "has_repo (t\<lparr>assets := y\<rparr>) = has_repo t" "has_commit (t\<lparr>assets := y\<rparr>) = has_commit t"
  "has_branch (t\<lparr>assets := y\<rparr>) = has_branch t" "has_npack (t\<lparr>assets := y\<rparr>) = has_npack t"
  by (intro ext; simp add: has_defs)+

lemma has_append [simp]:
  "has_repo (t\<lparr>repositories := xs @ [r]\<rparr>) T q \<longleftrightarrow> has_repo (t\<lparr>repositories := xs\<rparr>) T q \<or> (r_tenant r = T \<and> r_id r = q)"
  "has_commit (t\<lparr>commits := ys @ [k]\<rparr>) T q i \<longleftrightarrow> has_commit (t\<lparr>commits := ys\<rparr>) T q i \<or> (c_tenant k = T \<and> c_repo k = q \<and> c_id k = i)"
  "has_branch (t\<lparr>branches := bs @ [b]\<rparr>) T q n \<longleftrightarrow> has_branch (t\<lparr>branches := bs\<rparr>) T q n \<or> (b_tenant b = T \<and> b_repo b = q \<and> b_name b = n)"
  "has_npack (t\<lparr>native_packs := ps @ [p]\<rparr>) T q n \<longleftrightarrow> has_npack (t\<lparr>native_packs := ps\<rparr>) T q n \<or> (n_tenant p = T \<and> n_repo p = q \<and> n_pack p = n)"
  by (auto simp: has_defs)

lemma has_same [simp]:
  "has_repo (t\<lparr>repositories := repositories t\<rparr>) = has_repo t" "has_commit (t\<lparr>commits := commits t\<rparr>) = has_commit t"
  "has_branch (t\<lparr>branches := branches t\<rparr>) = has_branch t" "has_npack (t\<lparr>native_packs := native_packs t\<rparr>) = has_npack t"
  by (intro ext; simp add: has_defs)+

lemma has_mapped:
  "(\<And>b. b_tenant (f b) = b_tenant b \<and> b_repo (f b) = b_repo b \<and> b_name (f b) = b_name b) \<Longrightarrow>
     has_branch (t\<lparr>branches := map (\<lambda>b. if hit b then f b else b) (branches t)\<rparr>) = has_branch t"
  "(\<And>r. r_tenant (g r) = r_tenant r \<and> r_id (g r) = r_id r) \<Longrightarrow>
     has_repo (t\<lparr>repositories := map (\<lambda>r. if hit' r then g r else r) (repositories t)\<rparr>) = has_repo t"
  by (intro ext; auto simp: has_defs)+

interpretation refs: session_stmts refs_ok "\<lambda>_ _. True" targets_grow
  by (unfold_locales; simp only: stmt_defs; rule refs.ok_sql;
      clarsimp simp: Let_def has_mapped list_all_iff split: if_splits;
      (rule refs_step)?;
      (auto simp: targets_grow_def range_fk_def lease_fk_def has_mapped
        dest: refs_branches refs_objects parent_rows_fields split: option.splits if_splits)?;
      (frule (1) refs_objects, force simp: has_npack_def list_ex_iff)?)

end
