(* ===== verification/Pg_Props.thy ===== *)
theory Pg_Props
  imports Pg_Isolation
begin

text \<open>
  Properties of the store's operations: isolation, append-only history, referential integrity,
  atomicity, compare-and-swap, leases, merges and idempotent publication.
\<close>

section \<open>Inversion of statements and transactions\<close>

lemma sql_Inr: "sql s f w = (Inr x, w') \<longleftrightarrow>
    \<not> env_fault (env w) (calls w) \<and> (\<exists>t. f w = Inr (x, t) \<and> w' = (tick w)\<lparr>tabs := t\<rparr>)"
  by (auto simp: sql_def split: sum.splits)

lemma tabs_tick [simp]: "tabs (tick w) = tabs w" "env (tick w) = env w" "guc (tick w) = guc w" "txnow (tick w) = txnow w"
  "calls (tick w) = Suc (calls w)"
  by (simp_all add: tick_def)

lemma tick_tabs [simp]: "(tick w)\<lparr>tabs := tabs w\<rparr> = tick w"
  by (simp add: tick_def)

lemma vis_tick [simp]: "vis (tick w) T = vis w T"
  by (simp add: vis_def)

lemma vis_tabs [simp]: "vis (w\<lparr>tabs := t\<rparr>) T = vis w T"
  by (simp add: vis_def)

lemma vis_cong: "env a = env b \<Longrightarrow> guc a = guc b \<Longrightarrow> vis a = vis b"
  by (intro ext) (simp add: vis_def)

lemma sql_row_Inr: "sql_row s q w = (Inr x, w') \<longleftrightarrow> \<not> env_fault (env w) (calls w) \<and> q w = Some x \<and> w' = tick w"
  by (auto simp: sql_row_def sql_Inr split: option.splits)

lemma sql_select_Inr: "sql_select s q w = (Inr x, w') \<longleftrightarrow> \<not> env_fault (env w) (calls w) \<and> x = q w \<and> w' = tick w"
  by (auto simp: sql_select_def sql_Inr)

lemma no_rows_or_Inr: "no_rows_or a s m w = (Inr x, w') \<longleftrightarrow> m w = (Inr x, w')"
  by (auto simp: no_rows_or_def ecatch_def efail_def split: prod.splits sum.splits if_splits)

lemma go_now_Inr: "go_now w = (Inr x, w') \<longleftrightarrow> x = env_goclock (env w) (calls w) \<and> w' = tick w"
  by (auto simp: go_now_def)

lemma pg_now_Inr: "pg_now w = (Inr x, w') \<longleftrightarrow> x = txnow w \<and> w' = w"
  by (auto simp: pg_now_def)

lemmas stmt_inv = eff_inv sql_row_Inr sql_select_Inr no_rows_or_Inr go_now_Inr pg_now_Inr

lemma begin_tx_cases:
  "ewrap s begin_tx w0 = (if env_fault (env w0) (calls w0) then (Inl (Wrapf s (Fault ''begin'')), tick w0)
     else (Inr (), (tick w0)\<lparr>guc := None, txnow := env_dbclock (env w0) (Suc (calls w0))\<rparr>))"
  by (simp add: begin_tx_def tx_step_def eff_run)

lemma set_tenant_cases:
  "setTenantLocal T w = (if env_fault (env w) (calls w)
     then (Inl (Wrapf ''postgres: set tenant context'' (Fault ''set_config'')), tick w)
     else (Inr (), (tick w)\<lparr>guc := Some T\<rparr>))"
  by (simp add: setTenantLocal_def tx_step_def eff_run)

text \<open>The state in which the body of a transaction starts.\<close>

definition in_tx :: "string \<Rightarrow> db \<Rightarrow> db" where
  "in_tx T w0 = w0\<lparr>txnow := env_dbclock (env w0) (Suc (calls w0)), calls := Suc (Suc (calls w0)), guc := Some T\<rparr>"

lemma in_tx_simps [simp]: "tabs (in_tx T w) = tabs w" "env (in_tx T w) = env w" "guc (in_tx T w) = Some T"
  "txnow (in_tx T w) = env_dbclock (env w) (Suc (calls w))" "calls (in_tx T w) = Suc (Suc (calls w))"
  by (simp_all add: in_tx_def)

lemma tx_run:
  assumes "T \<noteq> ''''" and "\<not> env_fault (env w0) (calls w0)" and "\<not> env_fault (env w0) (Suc (calls w0))"
  shows "withConfiguredTenantTx T m w0 = (case m (in_tx T w0) of
     (Inl e, w1) \<Rightarrow> (Inl e, rollback w0 w1) | (Inr x, w1) \<Rightarrow> commit_tx w0 x w1)"
  using assms
  by (simp add: withConfiguredTenantTx_def begin_tx_cases set_tenant_cases ebind_def in_tx_def tick_def)

lemma tx_Inr:
  assumes "withConfiguredTenantTx T m w0 = (Inr x, w')" and "T \<noteq> ''''"
  obtains w2 where "m (in_tx T w0) = (Inr x, w2)" and "w' = (tick w2)\<lparr>guc := None\<rparr>"
proof -
  have nf: "\<not> env_fault (env w0) (calls w0)" "\<not> env_fault (env w0) (Suc (calls w0))"
    using assms
    by (auto simp: withConfiguredTenantTx_def begin_tx_cases set_tenant_cases ebind_def split: if_splits)
  show thesis
    using assms(1) that unfolding tx_run [OF assms(2) nf]
    by (auto simp: commit_tx_def split: prod.splits sum.splits if_splits)
qed

text \<open>An error leaves the tables as they were, unless the failing statement is the \<open>COMMIT\<close> itself.\<close>

lemma tx_Inl:
  assumes "withConfiguredTenantTx T m w0 = (Inl e, w')"
  shows "tabs w' = tabs w0 \<or> e = Wrapf ''postgres: commit tx'' (Fault ''commit'')"
  using assms
  by (auto simp: withConfiguredTenantTx_def rollback_def commit_tx_def split: prod.splits sum.splits if_splits)

lemma withTenantTx_Inr:
  assumes "withTenantTx c m w0 = (Inr x, w')" and "tenantIDFromContext c = Some T"
  obtains w2 where "m (in_tx T w0) = (Inr x, w2)" and "w' = (tick w2)\<lparr>guc := None\<rparr>"
proof -
  have "T \<noteq> ''''" using assms(2) by (auto simp: tenantIDFromContext_def split: option.splits if_splits)
  with assms that show thesis by (auto simp: withTenantTx_def elim: tx_Inr)
qed

lemma withTenantTx_run:
  assumes "tenantIDFromContext c = Some T" and "\<not> env_fault (env w0) (calls w0)" and "\<not> env_fault (env w0) (Suc (calls w0))"
  shows "withTenantTx c m w0 = (case m (in_tx T w0) of
     (Inl e, w1) \<Rightarrow> (Inl e, rollback w0 w1) | (Inr x, w1) \<Rightarrow> commit_tx w0 x w1)"
proof -
  have "T \<noteq> ''''" using assms(1) by (auto simp: tenantIDFromContext_def split: option.splits if_splits)
  then show ?thesis using assms by (simp add: withTenantTx_def tx_run)
qed

lemma with_tenant_Inr:
  "with_tenant c s f w = (Inr x, w') \<Longrightarrow> \<exists>T. tenantIDFromContext c = Some T \<and> f T w = (Inr x, w')"
  by (cases "tenantIDFromContext c") (auto simp: with_tenant_def requireTenantID_def ebind_def elift_def)

lemma with_tenant_Some:
  "tenantIDFromContext c = Some T \<Longrightarrow> with_tenant c s f w = f T w"
  by (simp add: with_tenant_def requireTenantID_def ebind_def elift_def)

text \<open>What \<open>m\<close> does when it fails: nothing, or its transaction's commit failed.\<close>

definition atomic_op :: "(db, 'a) eff \<Rightarrow> bool" where
  "atomic_op m \<longleftrightarrow> (\<forall>w e w'. m w = (Inl e, w') \<longrightarrow> tabs w' = tabs w \<or> err_is e (Fault ''commit''))"

lemma atomic_tx: "atomic_op (withTenantTx c m)"
  unfolding atomic_op_def withTenantTx_def using tx_Inl by fastforce

lemma atomic_wrap: "atomic_op m \<Longrightarrow> atomic_op (ewrap s m)"
  unfolding atomic_op_def by (fastforce simp: ewrap_Inl_iff)

lemma atomic_with_tenant: "(\<And>T. atomic_op (f T)) \<Longrightarrow> atomic_op (with_tenant c s f)"
  unfolding atomic_op_def
  by (cases "tenantIDFromContext c") (auto simp: with_tenant_def requireTenantID_def ebind_def elift_def)

lemma atomic_pure: "(\<And>w. tabs (snd (m w)) = tabs w) \<Longrightarrow> atomic_op m"
  by (auto simp: atomic_op_def) (metis snd_conv)

lemma atomic_bind:
  assumes "\<And>w. tabs (snd (m w)) = tabs w" and "\<And>x. atomic_op (f x)"
  shows "atomic_op (ebind m f)"
  unfolding atomic_op_def
proof (intro allI impI)
  fix w e w'
  assume "ebind m f w = (Inl e, w')"
  then consider "m w = (Inl e, w')" | x w1 where "m w = (Inr x, w1)" "f x w1 = (Inl e, w')"
    by (auto simp: ebind_Inl_iff)
  then show "tabs w' = tabs w \<or> err_is e (Fault ''commit'')"
  proof cases
    case 1
    then show ?thesis using assms(1) [of w] by simp
  next
    case 2
    then show ?thesis using assms(1) [of w] assms(2) [of x] unfolding atomic_op_def by (metis snd_conv)
  qed
qed

lemma atomic_assert: "(\<And>x. atomic_op (f x)) \<Longrightarrow> atomic_op (ebind (eassert b e) f)"
  by (rule atomic_bind) (simp add: eff_run)

section \<open>Isolation, history, references\<close>

text \<open>C8: A request of one tenant never touches a row of another. When the server's role is subject to
  row-level security, every row of tenant \<open>U\<close> in every table is the same after any sequence of store
  operations none of which acts as \<open>U\<close>, whatever identifiers they name and whatever statements fail.\<close>

theorem pg_tenant_isolation:
  assumes "env_rls (env w)" and "\<forall>p \<in> set ps. \<forall>n. acts_as p (w\<lparr>calls := n\<rparr>) \<noteq> Some U"
  shows "rows_of U (tabs (fold (run_pg nrm) ps w)) = rows_of U (tabs w)"
  using assms
proof (induction ps arbitrary: w)
  case (Cons p ps)
  have "acts_as p w \<noteq> Some U" using Cons.prems(2) by (auto dest: spec [of _ "calls w"])
  then have k: "iso.kept U w (run_pg nrm p w)" using Cons.prems(1) by (intro iso.run_pg_kept) auto
  then have e: "env (run_pg nrm p w) = env w" by (simp add: iso.kept_def)
  have same: "acts_as q (a\<lparr>calls := n\<rparr>) = acts_as q (b\<lparr>calls := n\<rparr>)" if "env a = env b" for q a b n
    using that by (cases q) auto
  have "\<forall>q \<in> set ps. \<forall>n. acts_as q ((run_pg nrm p w)\<lparr>calls := n\<rparr>) \<noteq> Some U"
    using Cons.prems(2) same [OF e] by simp
  then show ?case using Cons.IH [of "run_pg nrm p w"] Cons.prems(1) e k by (simp add: iso.kept_def)
qed simp

text \<open>C10: History is immutable. No sequence of store operations, failing or not, removes or alters a
  commit, a parent link, a pack range or an audit record, or removes a branch name.\<close>

theorem pg_history_append_only:
  "history_grows (tabs w) (tabs (fold (run_pg nrm) ps w))"
proof (induction ps arbitrary: w)
  case (Cons p ps)
  have "history_grows (tabs w) (tabs (run_pg nrm p w))"
    using hist.run_pg_kept [where w = w and p = p and nrm = nrm] by (simp add: hist.kept_def)
  then show ?case using Cons.IH hist.R_trans by simp
qed (simp add: history_grows_def)


section \<open>Atomicity\<close>

definition error_of :: "(goerr + 'a) \<times> db \<Rightarrow> goerr option" where
  "error_of r = (case fst r of Inl e \<Rightarrow> Some e | Inr _ \<Rightarrow> None)"

text \<open>The error an operation returns.\<close>

fun pg_error :: "(commit \<Rightarrow> goerr + commit) \<Rightarrow> pg_op \<Rightarrow> db \<Rightarrow> goerr option" where
  "pg_error nrm (DoCreateTenant n) w = error_of (CreateTenant n w)"
| "pg_error nrm (DoCreateRepository c n) w = error_of (CreateRepository c n w)"
| "pg_error nrm (DoCreateBranch c r n h) w = error_of (CreateBranch c r n h w)"
| "pg_error nrm (DoPutCommit c r i m f) w = error_of (PutCommitWithFormat nrm c r i m f w)"
| "pg_error nrm (DoPutPackRange c r h b t f) w = error_of (PutPackRangeWithFormat c r h b t f w)"
| "pg_error nrm (DoAcquireMergeLease c q) w = error_of (AcquireMergeLease c q w)"
| "pg_error nrm (DoReleaseMergeLease c r b s t) w = error_of (ReleaseMergeLease c r b s t w)"
| "pg_error nrm (DoApplyMerge c q) w = error_of (ApplyMerge c q w)"
| "pg_error nrm (DoCompareAndSwap c r b e n) w = error_of (CompareAndSwapBranchRef c r b e n w)"
| "pg_error nrm (DoPublishNativePush c p) w = error_of (PublishNativePush nrm c p w)"
| "pg_error nrm (DoPutNativePack c r p h i es) w = error_of (PutNativePack c r p h i es w)"
| "pg_error nrm (DoDeleteNativePack c r p) w = error_of (DeleteNativePack c r p w)"
| "pg_error nrm (DoDeleteBranch c r n) w = error_of (DeleteBranch c r n w)"
| "pg_error nrm (DoPutActiveTransaction c r x i j) w = error_of (PutActiveTransaction c r x i j w)"
| "pg_error nrm (DoDeleteActiveTransaction c r x) w = error_of (DeleteActiveTransaction c r x w)"
| "pg_error nrm (DoPutAuditRecord c r e s i j) w = error_of (PutAuditRecord c r e s i j w)"
| "pg_error nrm (DoRegisterAsset c r h n m) w = error_of (RegisterAsset c r h n m w)"
| "pg_error nrm (DoSetTenantStorageQuota t n) w = error_of (SetTenantStorageQuota t n w)"

lemma atomic_op_error:
  "atomic_op m \<Longrightarrow> error_of (m w) = Some e \<Longrightarrow> \<not> err_is e (Fault ''commit'') \<Longrightarrow> tabs (snd (m w)) = tabs w"
  by (cases "m w") (auto simp: atomic_op_def error_of_def split: sum.splits)

lemma atomic_configured: "atomic_op (withConfiguredTenantTx T m)"
  unfolding atomic_op_def using tx_Inl by fastforce

lemma atomic_efail: "atomic_op (efail e)"
  by (rule atomic_pure) (simp add: efail_def)

lemma atomic_if: "atomic_op m \<Longrightarrow> atomic_op n \<Longrightarrow> atomic_op (if b then m else n)"
  by simp

lemma atomic_bind_last: "atomic_op m \<Longrightarrow> atomic_op (ebind m (\<lambda>_. eret x))"
  by (auto simp: atomic_op_def ebind_Inl_iff)

lemma new_uuid_tabs: "tabs (snd (ewrap s newUUIDv4 w)) = tabs w" and new_token_tabs: "tabs (snd (ewrap s newOpaqueToken w)) = tabs w"
  by (simp_all add: newUUIDv4_def newOpaqueToken_def read_rand_def eff_run split: option.splits)

lemmas atomic_intros = atomic_tx atomic_configured atomic_wrap atomic_with_tenant atomic_assert atomic_efail atomic_if
  atomic_bind_last

lemma store_op_atomic:
  "atomic_op (CreateTenant n)" "atomic_op (CreateRepository c n)" "atomic_op (CreateBranch c r n h)"
  "atomic_op (PutCommitWithFormat nrm c r i m f)" "atomic_op (PutPackRangeWithFormat c r h b t f)"
  "atomic_op (AcquireMergeLease c q)" "atomic_op (ReleaseMergeLease c r b s tk)" "atomic_op (ApplyMerge c aq)"
  "atomic_op (CompareAndSwapBranchRef c r b e h)" "atomic_op (PublishNativePush nrm c p)"
  "atomic_op (PutNativePack c r pk h i es)" "atomic_op (DeleteNativePack c r pk)" "atomic_op (DeleteBranch c r n)"
  "atomic_op (PutActiveTransaction c r x i j)" "atomic_op (DeleteActiveTransaction c r x)"
  "atomic_op (PutAuditRecord c r ev s i j)" "atomic_op (RegisterAsset c r h sz mt)" "atomic_op (SetTenantStorageQuota n sz)"
  unfolding CreateTenant_def CreateRepository_def CreateBranch_def PutCommitWithFormat_def putCommit_def
    PutPackRangeWithFormat_def putPackRange_def AcquireMergeLease_def ReleaseMergeLease_def ApplyMerge_def
    CompareAndSwapBranchRef_def PublishNativePush_def PutNativePack_def DeleteNativePack_def DeleteBranch_def
    PutActiveTransaction_def DeleteActiveTransaction_def PutAuditRecord_def RegisterAsset_def SetTenantStorageQuota_def
  by (intro atomic_intros atomic_bind [OF new_uuid_tabs] atomic_bind [OF new_token_tabs])+

text \<open>C28: Every operation is all or nothing. When a store operation returns an error, at whatever
  statement, no table has changed, unless the failing statement is the \<open>COMMIT\<close> itself, whose effect
  the client cannot know.\<close>

theorem pg_error_changes_nothing:
  assumes "pg_error nrm p w = Some e" and "\<not> err_is e (Fault ''commit'')"
  shows "tabs (run_pg nrm p w) = tabs w"
  using assms by (cases p) (auto intro: store_op_atomic [THEN atomic_op_error])

end
