(* ===== verification/Pg_Refs.thy ===== *)
theory Pg_Refs
  imports Pg_Props
begin

text \<open>
  What moves a branch: compare-and-swap, merge leases, \<open>ApplyMerge\<close> and the idempotent publication
  of a native push.
\<close>

section \<open>Heads\<close>

text \<open>The head a client of tenant \<open>T\<close> sees, as \<open>GetBranchRef\<close> reads it.\<close>

definition head_of :: "db \<Rightarrow> string \<Rightarrow> string \<Rightarrow> string \<Rightarrow> string option" where
  "head_of w T rid name = map_option b_head (find_branch (w\<lparr>guc := Some T\<rparr>) rid name)"

lemma find_map_same:
  "(\<And>x. P (f x) = P x) \<Longrightarrow> find P (map (\<lambda>x. if hit x then f x else x) xs) =
     map_option (\<lambda>x. if hit x then f x else x) (find P xs)"
  by (induction xs) auto

definition moved_to :: "string \<Rightarrow> int \<Rightarrow> branch_row \<Rightarrow> branch_row" where
  "moved_to newc now b = b\<lparr>b_head := newc, b_updated := now\<rparr>"

lemma update_branch_head_Inr:
  "update_branch_head newc rid name expected w = (Inr n, w') \<longleftrightarrow>
     \<not> env_fault (env w) (calls w) \<and>
     (\<forall>b \<in> set (branches (tabs w)). vis w (b_tenant b) \<and> b_repo b = rid \<and> b_name b = name \<and> b_head b = expected \<longrightarrow>
        has_commit (tabs w) (b_tenant b) rid newc) \<and>
     n = length (filter (\<lambda>b. vis w (b_tenant b) \<and> b_repo b = rid \<and> b_name b = name \<and> b_head b = expected) (branches (tabs w))) \<and>
     w' = (tick w)\<lparr>tabs := (tabs w)\<lparr>branches := map (\<lambda>b. if vis w (b_tenant b) \<and> b_repo b = rid \<and> b_name b = name \<and> b_head b = expected
        then moved_to newc (txnow w) b else b) (branches (tabs w))\<rparr>\<rparr>"
  by (auto simp: update_branch_head_def sql_Inr Let_def list_all_iff moved_to_def)

lemma head_after_move:
  assumes "find_branch w rid name = Some b" and "b_head b = expected"
    and "branches t = map (\<lambda>b. if vis w (b_tenant b) \<and> b_repo b = rid \<and> b_name b = name \<and> b_head b = expected
        then moved_to newc now b else b) (branches (tabs w))"
    and "vis w' = vis w" and "tabs w' = t"
  shows "map_option b_head (find_branch w' rid' name') =
    (if rid' = rid \<and> name' = name then Some newc else map_option b_head (find_branch w rid' name'))"
proof -
  let ?P = "\<lambda>b. vis w (b_tenant b) \<and> b_repo b = rid' \<and> b_name b = name'"
  have "find_branch w' rid' name' = map_option (\<lambda>b. if vis w (b_tenant b) \<and> b_repo b = rid \<and> b_name b = name \<and> b_head b = expected
        then moved_to newc now b else b) (find ?P (branches (tabs w)))"
    unfolding find_branch_def assms(3-5)
    by (rule find_map_same) (simp add: moved_to_def)
  then show ?thesis
    using assms(1,2) by (auto simp: find_branch_def moved_to_def option.map_comp comp_def dest!: find_SomeD
        intro!: option.map_cong)
qed

text \<open>An unexpired lease of the tenant on the branch, by the database's clock.\<close>

definition lease_live :: "db \<Rightarrow> string \<Rightarrow> string \<Rightarrow> string \<Rightarrow> int \<Rightarrow> bool" where
  "lease_live w T rid name now \<longleftrightarrow> (\<exists>l \<in> set (merge_leases (tabs w)). l_tenant l = T \<and>
     l_repo l = rid \<and> l_branch l = name \<and> now < l_expires l)"

text \<open>\<open>now()\<close> of the transaction that begins at a state.\<close>

definition tx_time :: "db \<Rightarrow> int" where
  "tx_time w = env_dbclock (env w) (Suc (calls w))"

lemma head_of_in_tx: "map_option b_head (find_branch (in_tx T w) rid name) = head_of w T rid name"
  by (simp add: head_of_def find_branch_def vis_def)

lemma cas_success:
  assumes "CompareAndSwapBranchRef c rid name old new w = (Inr u, w')" and T: "tenantIDFromContext c = Some T"
  shows "head_of w T rid name = Some old \<and> \<not> lease_live w T rid name (tx_time w) \<and>
    (\<forall>rid' name'. head_of w' T rid' name' = (if rid' = rid \<and> name' = name then Some new else head_of w T rid' name'))"
proof -
  obtain w2 where body: "cas_body rid name old new (in_tx T w) = (Inr u, w2)" and w': "w' = (tick w2)\<lparr>guc := None\<rparr>"
    using assms by (auto simp: CompareAndSwapBranchRef_def with_tenant_Some [OF T] elim: withTenantTx_Inr)
  obtain b where b: "find_branch (in_tx T w) rid name = Some b" "b_head b = old"
    and nl: "\<not> list_ex (\<lambda>l. vis (in_tx T w) (l_tenant l) \<and> l_repo l = rid \<and> l_branch l = name \<and>
        txnow (in_tx T w) < l_expires l) (merge_leases (tabs w))"
    and w2: "branches (tabs w2) = map (\<lambda>b. if vis (in_tx T w) (b_tenant b) \<and> b_repo b = rid \<and> b_name b = name \<and> b_head b = old
        then moved_to new (txnow (in_tx T w)) b else b) (branches (tabs (in_tx T w)))" and e2: "env w2 = env w"
    using body
    by (auto simp: cas_body_def stmt_inv branchHeadForUpdate_def update_branch_head_Inr find_branch_def split: if_splits)
  have v: "vis (w'\<lparr>guc := Some T\<rparr>) = vis (in_tx T w)" by (rule vis_cong) (simp_all add: w' e2)
  have t: "tabs (w'\<lparr>guc := Some T\<rparr>) = tabs w2" by (simp add: w')
  have after: "head_of w' T rid' name' = (if rid' = rid \<and> name' = name then Some new else head_of w T rid' name')" for rid' name'
    using head_after_move [OF b w2 v t, of rid' name'] by (simp add: head_of_def [of w'] head_of_in_tx)
  have before: "head_of w T rid name = Some old"
    using b by (simp flip: head_of_in_tx)
  have "\<not> lease_live w T rid name (tx_time w)"
    using nl by (auto simp: lease_live_def list_ex_iff vis_def tx_time_def)
  with before after show ?thesis by blast
qed

text \<open>A compare-and-swap that succeeds did exactly that: the branch stood at the expected commit and no
  live merge lease held it; afterwards it stands at the new commit, and every other branch of the
  tenant stands where it stood.\<close>

theorem cas_moves_only_expected:
  assumes "CompareAndSwapBranchRef c rid name old new w = (Inr u, w')" and "tenantIDFromContext c = Some T"
  shows "head_of w T rid name = Some old \<and> \<not> lease_live w T rid name (tx_time w) \<and>
    (\<forall>rid' name'. head_of w' T rid' name' = (if rid' = rid \<and> name' = name then Some new else head_of w T rid' name'))"
  using assms by (rule cas_success)

lemma upsert_lease_Inr:
  "upsert_lease r w = (Inr e, w') \<Longrightarrow> vis w (l_tenant r) \<Longrightarrow>
   \<forall>q \<in> set (merge_leases (tabs w)). lease_key q r \<longrightarrow> l_expires q \<le> txnow w"
  by (auto simp: upsert_lease_def sql_Inr Let_def list_ex_iff simp del: split_paired_Ex split: if_splits)

text \<open>C18: A live merge lease is exclusive. While a branch has an unexpired lease, no compare-and-swap of that
  branch succeeds and nobody acquires another lease on it.\<close>

theorem live_lease_is_exclusive:
  assumes T: "tenantIDFromContext c = Some T"
  shows "(lease_live w T rid name (tx_time w) \<longrightarrow> CompareAndSwapBranchRef c rid name old new w \<noteq> (Inr u, w')) \<and>
    (lease_live w T (lq_RepoID q) (lq_TargetBranch q) (tx_time (tick w)) \<longrightarrow> AcquireMergeLease c q w \<noteq> (Inr l, w'))"
proof (intro conjI impI notI)
  assume "lease_live w T rid name (tx_time w)" and "CompareAndSwapBranchRef c rid name old new w = (Inr u, w')"
  then show False using cas_success [OF _ T] by blast
next
  assume live: "lease_live w T (lq_RepoID q) (lq_TargetBranch q) (tx_time (tick w))"
    and run: "AcquireMergeLease c q w = (Inr l, w')"
  obtain tok w1 w2 where tok: "newOpaqueToken w = (Inr tok, w1)" and tx: "withTenantTx c (acquire_body T q tok) w1 = (Inr l, w2)"
    using run by (auto simp: AcquireMergeLease_def with_tenant_Some [OF T] stmt_inv)
  have w1: "w1 = tick w"
    using tok by (auto simp: newOpaqueToken_def stmt_inv read_rand_def split: option.splits)
  obtain w3 where body: "acquire_body T q tok (in_tx T w1) = (Inr l, w3)"
    using tx by (rule withTenantTx_Inr [OF _ T])
  obtain r w4 w5 e where up: "upsert_lease r w4 = (Inr e, w5)"
    and r: "l_tenant r = T" "l_repo r = lq_RepoID q" "l_branch r = lq_TargetBranch q"
    and w4: "tabs w4 = tabs w" "txnow w4 = tx_time (tick w)" "guc w4 = Some T" "env w4 = env w"
  proof (rule that)
    let ?r = "\<lparr>l_tenant = T, l_repo = lq_RepoID q, l_branch = lq_TargetBranch q, l_subject = lq_Subject q,
            l_token = tok, l_source = lq_SourceCommitID q, l_target = lq_TargetCommitID q, l_base = lq_BaseCommitID q,
            l_expires = tx_time (tick w) + pg_time (lq_Duration q), l_created = tx_time (tick w)\<rparr>"
    show "upsert_lease ?r (tick (in_tx T w1)) = (Inr (ml_ExpiresAt l), w3)"
      using body by (auto simp: acquire_body_def stmt_inv branchHeadForUpdate_def Let_def w1 tx_time_def)
  qed (simp_all add: w1 tx_time_def)
  have "vis w4 T" by (simp add: vis_def w4)
  then have none: "\<forall>q \<in> set (merge_leases (tabs w4)). lease_key q r \<longrightarrow> l_expires q \<le> txnow w4"
    using up r(1) by (intro upsert_lease_Inr) simp_all
  obtain q' where "q' \<in> set (merge_leases (tabs w))" "l_tenant q' = T" "l_repo q' = lq_RepoID q"
    "l_branch q' = lq_TargetBranch q" "tx_time (tick w) < l_expires q'"
    using live unfolding lease_live_def by blast
  with none r w4 show False by (fastforce simp: lease_key_def)
qed

section \<open>Applying a merge\<close>

lemma insert_commit_Inr:
  "insert_commit r w = (Inr u, w') \<longleftrightarrow> \<not> env_fault (env w) (calls w) \<and> vis w (c_tenant r) \<and> c_format r \<in> {1, 2, 3} \<and>
     \<not> has_commit (tabs w) (c_tenant r) (c_repo r) (c_id r) \<and> has_repo (tabs w) (c_tenant r) (c_repo r) \<and>
     w' = (tick w)\<lparr>tabs := (tabs w)\<lparr>commits := commits (tabs w) @ [r]\<rparr>\<rparr>"
  by (auto simp: insert_commit_def sql_Inr Let_def commit_checks_def has_commit_def commit_key_def)

lemma insert_parents_Inr:
  "insert_parents T rid c ps w = (Inr u, w') \<longleftrightarrow> \<not> env_fault (env w) (calls w) \<and> (ps = [] \<or> vis w T) \<and>
     \<not> list_ex (\<lambda>q. cp_tenant q = T \<and> cp_repo q = rid \<and> cp_commit q = c \<and> 1 \<le> cp_pos q \<and> cp_pos q \<le> length ps)
        (commit_parents (tabs w)) \<and>
     (ps = [] \<or> (has_repo (tabs w) T rid \<and> has_commit (tabs w) T rid c \<and> list_all (has_commit (tabs w) T rid) ps)) \<and>
     w' = (tick w)\<lparr>tabs := (tabs w)\<lparr>commit_parents := commit_parents (tabs w) @ parent_rows T rid c ps\<rparr>\<rparr>"
  by (auto simp: insert_parents_def sql_Inr Let_def)

lemma insert_range_Inr:
  "insert_range r w = (Inr u, w') \<Longrightarrow> w' = (tick w)\<lparr>tabs := (tabs w)\<lparr>pack_ranges := pack_ranges (tabs w) @ [r]\<rparr>\<rparr>"
  by (auto simp: insert_range_def sql_Inr Let_def)

lemma delete_leases_Inr:
  "delete_leases p w = (Inr n, w') \<longleftrightarrow> \<not> env_fault (env w) (calls w) \<and>
     n = length (filter (\<lambda>l. vis w (l_tenant l) \<and> p l) (merge_leases (tabs w))) \<and>
     w' = (tick w)\<lparr>tabs := (tabs w)\<lparr>merge_leases := filter (\<lambda>l. \<not> (vis w (l_tenant l) \<and> p l)) (merge_leases (tabs w))\<rparr>\<rparr>"
  by (auto simp: delete_leases_def sql_Inr Let_def)

definition merge_commit_row :: "string \<Rightarrow> ApplyMergeRequest \<Rightarrow> commit_row" where
  "merge_commit_row T q = \<lparr>c_id = am_ResultCommitID q, c_tenant = T, c_repo = am_RepoID q, c_root = am_SnapshotRoot q,
     c_format = normalizeObjectFormat (am_CommitFormat q), c_author = am_Author q, c_message = am_Message q,
     c_time = truncate_second (am_CommitTime q)\<rparr>"

definition lease_matches :: "ApplyMergeRequest \<Rightarrow> lease_row \<Rightarrow> bool" where
  "lease_matches q l \<longleftrightarrow> l_repo l = am_RepoID q \<and> l_branch l = am_TargetBranch q \<and> l_subject l = am_Subject q \<and>
     l_token l = am_LeaseToken q \<and> l_source l = am_SourceCommitID q \<and> l_target l = am_TargetCommitID q \<and>
     l_base l = am_BaseCommitID q"

lemma apply_checks_Inr:
  assumes "apply_checks q w = (Inr u, w')"
  shows "\<exists>b l. find_branch w (am_RepoID q) (am_TargetBranch q) = Some b \<and> b_head b = am_TargetCommitID q \<and>
    find_lease w (am_RepoID q) (am_TargetBranch q) = Some l \<and> lease_matches q l \<and>
    env_goclock (env w) (Suc (Suc (calls w))) < l_expires l \<and> w' = w\<lparr>calls := calls w + 3\<rparr>"
proof -
  have fl: "find_lease (tick w) = find_lease w" by (intro ext) (simp add: find_lease_def)
  show ?thesis
    using assms
    by (auto simp: apply_checks_def stmt_inv branchHeadForUpdate_def lease_matches_def tick_def [symmetric] fl
      find_lease_def dest: find_SomeD)
qed

lemma apply_register_Inr:
  assumes "apply_register T q w = (Inr u, w')"
  shows "\<not> has_commit (tabs w) T (am_RepoID q) (am_ResultCommitID q) \<and>
    commits (tabs w') = commits (tabs w) @ [merge_commit_row T q] \<and>
    commit_parents (tabs w') = commit_parents (tabs w) @
      parent_rows T (am_RepoID q) (am_ResultCommitID q) [am_TargetCommitID q, am_SourceCommitID q] \<and>
    branches (tabs w') = branches (tabs w) \<and> merge_leases (tabs w') = merge_leases (tabs w) \<and>
    env w' = env w \<and> guc w' = guc w \<and> txnow w' = txnow w"
  using assms
  by (auto simp: apply_register_def stmt_inv insert_commit_Inr insert_parents_Inr merge_commit_row_def
    dest!: insert_range_Inr)

lemma apply_advance_Inr:
  assumes "apply_advance q w = (Inr u, w')"
  shows "commits (tabs w') = commits (tabs w) \<and> commit_parents (tabs w') = commit_parents (tabs w) \<and>
    branches (tabs w') = map (\<lambda>b. if vis w (b_tenant b) \<and> b_repo b = am_RepoID q \<and> b_name b = am_TargetBranch q \<and>
        b_head b = am_TargetCommitID q then moved_to (am_ResultCommitID q) (txnow w) b else b) (branches (tabs w)) \<and>
    merge_leases (tabs w') = filter (\<lambda>l. \<not> (vis w (l_tenant l) \<and> lease_matches q l)) (merge_leases (tabs w)) \<and>
    env w' = env w \<and> guc w' = guc w"
  using assms
  by (auto simp: apply_advance_def stmt_inv update_branch_head_Inr delete_leases_Inr lease_matches_def)


lemma apply_body_Inr:
  assumes "apply_body T q w = (Inr u, w')"
  shows "\<exists>b l. find_branch w (am_RepoID q) (am_TargetBranch q) = Some b \<and> b_head b = am_TargetCommitID q \<and>
    find_lease w (am_RepoID q) (am_TargetBranch q) = Some l \<and> lease_matches q l \<and>
    env_goclock (env w) (Suc (Suc (calls w))) < l_expires l \<and>
    \<not> has_commit (tabs w) T (am_RepoID q) (am_ResultCommitID q) \<and> env w' = env w \<and>
    commits (tabs w') = commits (tabs w) @ [merge_commit_row T q] \<and>
    commit_parents (tabs w') = commit_parents (tabs w) @
      parent_rows T (am_RepoID q) (am_ResultCommitID q) [am_TargetCommitID q, am_SourceCommitID q] \<and>
    branches (tabs w') = map (\<lambda>b. if vis w (b_tenant b) \<and> b_repo b = am_RepoID q \<and> b_name b = am_TargetBranch q \<and>
        b_head b = am_TargetCommitID q then moved_to (am_ResultCommitID q) (txnow w) b else b) (branches (tabs w)) \<and>
    merge_leases (tabs w') = filter (\<lambda>l. \<not> (vis w (l_tenant l) \<and> lease_matches q l)) (merge_leases (tabs w))"
proof -
  obtain w1 w2 u1 u2 where c: "apply_checks q w = (Inr u1, w1)" and r: "apply_register T q w1 = (Inr u2, w2)"
    and a: "apply_advance q w2 = (Inr u, w')"
    using assms by (auto simp: apply_body_def stmt_inv)
  from apply_checks_Inr [OF c] obtain b l where b: "find_branch w (am_RepoID q) (am_TargetBranch q) = Some b"
    "b_head b = am_TargetCommitID q" "find_lease w (am_RepoID q) (am_TargetBranch q) = Some l" "lease_matches q l"
    "env_goclock (env w) (Suc (Suc (calls w))) < l_expires l" and w1: "w1 = w\<lparr>calls := calls w + 3\<rparr>" by blast
  have v: "vis w2 = vis w" using apply_register_Inr [OF r] by (intro vis_cong) (simp_all add: w1)
  show ?thesis
    using b apply_register_Inr [OF r] apply_advance_Inr [OF a] by (simp add: v w1)
qed

lemma parents_of_new:
  assumes "commit_parents (tabs w') = commit_parents (tabs w) @ parent_rows T rid c ps"
    and "refs_ok (tabs w)" and "\<not> has_commit (tabs w) T rid c" and "env_rls (env w')" and "guc w' = Some T"
  shows "parents_of w' rid c = ps"
proof -
  have old: "filter (\<lambda>p. vis w' (cp_tenant p) \<and> cp_repo p = rid \<and> cp_commit p = c) (commit_parents (tabs w)) = []"
    using assms(2-) by (auto simp: filter_empty_conv refs_ok_def vis_def)
  have new: "filter (\<lambda>p. vis w' (cp_tenant p) \<and> cp_repo p = rid \<and> cp_commit p = c) (parent_rows T rid c ps) = parent_rows T rid c ps"
    using assms(4,5) by (auto simp: filter_id_conv parent_rows_def vis_def)
  have pos: "map cp_pos (parent_rows T rid c ps) = [1..<Suc (length ps)]"
    by (simp add: parent_rows_def comp_def case_prod_unfold)
  have "map cp_parent (parent_rows T rid c ps) = ps"
    by (simp add: parent_rows_def comp_def case_prod_unfold del: upt_Suc)
  moreover have "sort_key cp_pos (parent_rows T rid c ps) = parent_rows T rid c ps"
    using pos by (intro sort_key_id_if_sorted) (simp del: upt_Suc)
  ultimately show ?thesis by (simp add: parents_of_def assms(1) old new)
qed

lemma apply_merge_effect:
  assumes run: "ApplyMerge c q w = (Inr u, w')" and T: "tenantIDFromContext c = Some T"
    and rls: "env_rls (env w)" and refs: "refs_ok (tabs w)"
  shows "head_of w T (am_RepoID q) (am_TargetBranch q) = Some (am_TargetCommitID q) \<and>
    (\<exists>l \<in> set (merge_leases (tabs w)). l_tenant l = T \<and> lease_matches q l \<and>
        env_goclock (env w) (calls w + 4) < l_expires l) \<and>
    \<not> has_commit (tabs w) T (am_RepoID q) (am_ResultCommitID q) \<and>
    (\<forall>rid name. head_of w' T rid name = (if rid = am_RepoID q \<and> name = am_TargetBranch q then Some (am_ResultCommitID q)
        else head_of w T rid name)) \<and>
    has_commit (tabs w') T (am_RepoID q) (am_ResultCommitID q) \<and>
    parents_of (w'\<lparr>guc := Some T\<rparr>) (am_RepoID q) (am_ResultCommitID q) = [am_TargetCommitID q, am_SourceCommitID q] \<and>
    \<not> (\<exists>l \<in> set (merge_leases (tabs w')). l_tenant l = T \<and> lease_matches q l)"
proof -
  obtain w2 where body: "apply_body T q (in_tx T w) = (Inr u, w2)" and w': "w' = (tick w2)\<lparr>guc := None\<rparr>"
    using run by (auto simp: ApplyMerge_def with_tenant_Some [OF T] stmt_inv elim: withTenantTx_Inr [OF _ T])
  note eff = apply_body_Inr [OF body]
  from eff obtain b l where b: "find_branch (in_tx T w) (am_RepoID q) (am_TargetBranch q) = Some b" "b_head b = am_TargetCommitID q"
    and l: "find_lease (in_tx T w) (am_RepoID q) (am_TargetBranch q) = Some l" "lease_matches q l"
      "env_goclock (env w) (calls w + 4) < l_expires l" by (auto simp: numeral_eq_Suc)
  have e: "env w2 = env w" and new: "\<not> has_commit (tabs w) T (am_RepoID q) (am_ResultCommitID q)"
    and cs: "commits (tabs w2) = commits (tabs w) @ [merge_commit_row T q]"
    and cps: "commit_parents (tabs w2) = commit_parents (tabs w) @
      parent_rows T (am_RepoID q) (am_ResultCommitID q) [am_TargetCommitID q, am_SourceCommitID q]"
    and gone: "merge_leases (tabs w2) = filter (\<lambda>l. \<not> (vis (in_tx T w) (l_tenant l) \<and> lease_matches q l)) (merge_leases (tabs w))"
    using eff by auto
  have vT: "vis (in_tx T w) x \<longleftrightarrow> x = T" for x using rls by (auto simp: vis_def)
  have lT: "l \<in> set (merge_leases (tabs w)) \<and> l_tenant l = T"
    using l(1) by (auto simp: find_lease_def vT dest: find_SomeD)
  have bw: "branches (tabs w2) = map (\<lambda>b. if vis (in_tx T w) (b_tenant b) \<and> b_repo b = am_RepoID q \<and>
      b_name b = am_TargetBranch q \<and> b_head b = am_TargetCommitID q
      then moved_to (am_ResultCommitID q) (txnow (in_tx T w)) b else b) (branches (tabs (in_tx T w)))" using eff by blast
  have v: "vis (w'\<lparr>guc := Some T\<rparr>) = vis (in_tx T w)" by (rule vis_cong) (simp_all add: w' e)
  have t: "tabs (w'\<lparr>guc := Some T\<rparr>) = tabs w2" by (simp add: w')
  have heads: "head_of w' T rid name = (if rid = am_RepoID q \<and> name = am_TargetBranch q then Some (am_ResultCommitID q)
        else head_of w T rid name)" for rid name
    using head_after_move [OF b bw v t, of rid name] by (simp add: head_of_def [of w'] head_of_in_tx)
  have ps: "parents_of (w'\<lparr>guc := Some T\<rparr>) (am_RepoID q) (am_ResultCommitID q) = [am_TargetCommitID q, am_SourceCommitID q]"
    proof (rule parents_of_new [where w = w and T = T])
    show "env_rls (env (w'\<lparr>guc := Some T\<rparr>))" using rls e by (simp add: w')
  qed (use new cps refs t in auto)
  have "head_of w T (am_RepoID q) (am_TargetBranch q) = Some (am_TargetCommitID q)"
    using b by (simp flip: head_of_in_tx)
  moreover have "has_commit (tabs w') T (am_RepoID q) (am_ResultCommitID q)"
    using cs by (simp add: w' has_commit_def merge_commit_row_def)
  moreover have "\<not> (\<exists>l \<in> set (merge_leases (tabs w')). l_tenant l = T \<and> lease_matches q l)"
    using gone by (auto simp: w' vT)
  ultimately show ?thesis using heads new ps lT l by blast
qed

text \<open>C7: A merge that is applied was authorised and is applied whole. Under row-level security and intact
  references, a successful \<open>ApplyMerge\<close> means: the branch stood at the leased target commit; the
  tenant held a lease on it for exactly these commits, subject and token, unexpired by the server's
  clock; the result commit was new. Afterwards the branch stands at the result, whose parents are
  the target and then the source, every other branch stands where it stood, and the lease is gone,
  so that it cannot be used twice.\<close>

theorem apply_merge_authorised_and_whole:
  assumes run: "ApplyMerge c q w = (Inr u, w')" and T: "tenantIDFromContext c = Some T"
    and rls: "env_rls (env w)" and refs: "refs_ok (tabs w)"
  shows "head_of w T (am_RepoID q) (am_TargetBranch q) = Some (am_TargetCommitID q) \<and>
    (\<exists>l \<in> set (merge_leases (tabs w)). l_tenant l = T \<and> lease_matches q l \<and>
        env_goclock (env w) (calls w + 4) < l_expires l) \<and>
    \<not> has_commit (tabs w) T (am_RepoID q) (am_ResultCommitID q) \<and>
    (\<forall>rid name. head_of w' T rid name = (if rid = am_RepoID q \<and> name = am_TargetBranch q then Some (am_ResultCommitID q)
        else head_of w T rid name)) \<and>
    has_commit (tabs w') T (am_RepoID q) (am_ResultCommitID q) \<and>
    parents_of (w'\<lparr>guc := Some T\<rparr>) (am_RepoID q) (am_ResultCommitID q) = [am_TargetCommitID q, am_SourceCommitID q] \<and>
    \<not> (\<exists>l \<in> set (merge_leases (tabs w')). l_tenant l = T \<and> lease_matches q l)"
  using assms by (rule apply_merge_effect)

end
