(* ===== verification/Pg_Push.thy ===== *)
theory Pg_Push
  imports Pg_Refs
begin

text \<open>
  The publication of a native push: what one does when it succeeds, and why a retry under the same
  idempotency key is harmless however much later it arrives.
\<close>

section \<open>The idempotency records\<close>

text \<open>Keys are unique, and a committed record is never lost or changed.\<close>

definition push_id :: "push_row \<Rightarrow> string \<times> string \<times> string" where
  "push_id r = (p_tenant r, p_repo r, p_key r)"

definition push_keys :: "tables \<Rightarrow> bool" where
  "push_keys t \<longleftrightarrow> keys_unique push_id (push_txns t)"

definition committed_grow :: "tables \<Rightarrow> tables \<Rightarrow> bool" where
  "committed_grow t t' \<longleftrightarrow> (\<forall>r \<in> set (push_txns t). p_status r = ''committed'' \<longrightarrow> r \<in> set (push_txns t'))"

lemma committed_grow_refl: "push_txns t' = push_txns t \<Longrightarrow> committed_grow t t'"
  by (simp add: committed_grow_def)

lemma push_keys_same: "push_keys t \<Longrightarrow> push_txns t' = push_txns t \<Longrightarrow> push_keys t'"
  by (simp add: push_keys_def)

lemma push_keys_snoc: "push_keys t \<Longrightarrow> \<not> list_ex (\<lambda>q. push_key q r) (push_txns t) \<Longrightarrow> push_keys (t\<lparr>push_txns := push_txns t @ [r]\<rparr>)"
  by (auto simp: push_keys_def keys_unique_snoc push_id_def push_key_def list_ex_iff)

lemma push_keys_complete:
  "push_keys (t\<lparr>push_txns := map (\<lambda>p. if hit p then p\<lparr>p_status := s\<rparr> else p) (push_txns t)\<rparr>) = push_keys t"
  by (simp add: push_keys_def keys_unique_map_upd push_id_def)

lemma committed_complete:
  "committed_grow t (t\<lparr>push_txns := map (\<lambda>p. if hit p then p\<lparr>p_status := ''committed''\<rparr> else p) (push_txns t)\<rparr>)"
proof -
  have "r \<in> (\<lambda>p. if hit p then p\<lparr>p_status := ''committed''\<rparr> else p) ` set (push_txns t)"
    if "r \<in> set (push_txns t)" and "p_status r = ''committed''" for r
    using that by (intro image_eqI [of _ _ r]) (cases r; simp)+
  then show ?thesis by (simp add: committed_grow_def)
qed

lemma committed_snoc: "committed_grow t (t\<lparr>push_txns := push_txns t @ [r]\<rparr>)"
  by (simp add: committed_grow_def)

interpretation pushes: session push_keys "\<lambda>_ _. True" committed_grow
  by unfold_locales (auto simp: committed_grow_def)

interpretation pushes: session_stmts push_keys "\<lambda>_ _. True" committed_grow
  by (unfold_locales; simp only: stmt_defs; rule pushes.ok_sql;
      clarsimp simp: Let_def push_keys_complete committed_complete split: if_splits;
      (intro conjI push_keys_snoc committed_snoc)?;
      (assumption | rule committed_grow_refl, simp | erule push_keys_same, simp | simp add: committed_grow_def)?)


section \<open>What a publication does\<close>

definition push_record :: "string \<Rightarrow> NativePushPublication \<Rightarrow> push_row" where
  "push_record T p = \<lparr>p_tenant = T, p_repo = np_RepoID p, p_key = np_IdempotencyKey p, p_branch = np_Branch p,
     p_base = np_BaseCommit p, p_target = np_TargetCommit p, p_status = ''committed''\<rparr>"

text \<open>Registering commits touches neither branches nor the idempotency records, and loses no commit.\<close>

definition frame :: "tables \<Rightarrow> tables \<Rightarrow> bool" where
  "frame t t' \<longleftrightarrow> branches t' = branches t \<and> push_txns t' = push_txns t \<and> merge_leases t' = merge_leases t \<and>
     (\<forall>T r c. has_commit t T r c \<longrightarrow> has_commit t' T r c)"

interpretation register: session "\<lambda>_. True" "\<lambda>_ _. True" frame
  by unfold_locales (auto simp: frame_def)

lemma register_stmts:
  "register.ok (insert_commit_nothing r)" "register.ok (insert_parents T rid cid ps)"
  unfolding insert_commit_nothing_def insert_parents_def
  by (rule register.ok_sql, auto simp: Let_def frame_def split: if_splits)+

lemma putCommitTx_frame: "register.ok (putCommitTx nrm T rid cid cm f)"
  unfolding putCommitTx_def commitParentIDs_def by (intro register.ok_intros register_stmts)

lemma register_all_frame:
  assumes "efor xs (\<lambda>r. ewrap s (putCommitTx nrm T rid (pc_ID r) (pc_Commit r) (pc_Format r))) w = (Inr u, w')"
  shows "frame (tabs w) (tabs w') \<and> env w' = env w \<and> guc w' = guc w \<and> txnow w' = txnow w"
proof -
  have "register.ok (efor xs (\<lambda>r. ewrap s (putCommitTx nrm T rid (pc_ID r) (pc_Commit r) (pc_Format r))))"
    by (intro register.ok_intros putCommitTx_frame)
  then show ?thesis using assms unfolding register.ok_def register.kept_def by (auto dest: spec [of _ w])
qed

lemma putCommitTx_registers:
  assumes "putCommitTx nrm T rid cid cm f w = (Inr u, w')" and "guc w = Some T"
  shows "has_commit (tabs w') T rid cid"
  using assms
  by (auto simp: putCommitTx_def commitParentIDs_def stmt_inv elift_def insert_commit_nothing_def sql_Inr
      Let_def insert_parents_Inr has_commit_def list_ex_iff commit_key_def commit_row_of_def split: if_splits dest!: find_SomeD)


lemma register_all:
  assumes "efor xs (\<lambda>r. ewrap s (putCommitTx nrm T rid (pc_ID r) (pc_Commit r) (pc_Format r))) w = (Inr u, w')"
    and "guc w = Some T"
  shows "\<forall>r \<in> set xs. has_commit (tabs w') T rid (pc_ID r)"
  using assms
proof (induction xs arbitrary: w)
  case (Cons r xs)
  then obtain u1 w1 where one: "putCommitTx nrm T rid (pc_ID r) (pc_Commit r) (pc_Format r) w = (Inr u1, w1)"
    and rest: "efor xs (\<lambda>r. ewrap s (putCommitTx nrm T rid (pc_ID r) (pc_Commit r) (pc_Format r))) w1 = (Inr u, w')"
    by (auto simp: stmt_inv)
  have "guc w1 = Some T"
    using register_all_frame [of "[r]" s nrm T rid w] one Cons.prems(2) by (simp add: stmt_inv ebind_def ewrap_def ecatch_def eret_def)
  with Cons.IH [OF rest] register_all_frame [OF rest] putCommitTx_registers [OF one Cons.prems(2)] show ?case
    by (auto simp: frame_def)
qed simp

lemma insert_push_nothing_Inr:
  "insert_push_nothing r w = (Inr n, w') \<longleftrightarrow> \<not> env_fault (env w) (calls w) \<and>
     (if vis w (p_tenant r) \<and> list_ex (\<lambda>q. push_key q r) (push_txns (tabs w)) then n = 0 \<and> w' = tick w
      else vis w (p_tenant r) \<and> p_status r \<in> {''pending'', ''committed''} \<and> has_repo (tabs w) (p_tenant r) (p_repo r) \<and>
        n = 1 \<and> w' = (tick w)\<lparr>tabs := (tabs w)\<lparr>push_txns := push_txns (tabs w) @ [r]\<rparr>\<rparr>)"
  by (auto simp: insert_push_nothing_def sql_Inr Let_def)

lemma complete_push_Inr:
  "complete_push T rid key w = (Inr u, w') \<longleftrightarrow> \<not> env_fault (env w) (calls w) \<and>
     w' = (tick w)\<lparr>tabs := (tabs w)\<lparr>push_txns := map (\<lambda>p. if vis w (p_tenant p) \<and> p_tenant p = T \<and> p_repo p = rid \<and>
       p_key p = key then p\<lparr>p_status := ''committed''\<rparr> else p) (push_txns (tabs w))\<rparr>\<rparr>"
  by (auto simp: complete_push_def sql_Inr Let_def)

text \<open>The two outcomes of the body: the publication was there already, or is made now.\<close>

lemma publish_body_again:
  assumes "publish_body nrm T p w = (Inr res, w')" and "nr_AlreadyApplied res"
  shows "push_record T p \<in> set (push_txns (tabs w)) \<and> nr_Head res = np_TargetCommit p \<and>
    w' = w\<lparr>calls := calls w + 2\<rparr>"
proof -
  obtain e where e: "find (\<lambda>r. vis w (p_tenant r) \<and> p_tenant r = T \<and> p_repo r = np_RepoID p \<and>
      p_key r = np_IdempotencyKey p) (push_txns (tabs w)) = Some e"
    "p_branch e = np_Branch p" "p_base e = np_BaseCommit p" "p_target e = np_TargetCommit p" "p_status e = ''committed''"
    "res = \<lparr>nr_AlreadyApplied = True, nr_Head = p_target e\<rparr>" "w' = tick (tick w)"
    using assms
    by (auto simp: publish_body_def publish_existing_def publish_new_def stmt_inv insert_push_nothing_Inr split: if_splits)
  then have "e = push_record T p" by (auto simp: push_record_def dest: find_SomeD)
  with e show ?thesis by (auto simp: tick_def dest: find_SomeD)
qed

lemma publish_new_Inr:
  assumes "publish_new nrm T p w = (Inr res, w')" and "guc w = Some T"
  shows "\<exists>b. find_branch w (np_RepoID p) (np_Branch p) = Some b \<and> b_head b = np_BaseCommit p \<and>
    res = \<lparr>nr_AlreadyApplied = False, nr_Head = np_TargetCommit p\<rparr> \<and>
    push_txns (tabs w') = map (\<lambda>r. if push_id r = (T, np_RepoID p, np_IdempotencyKey p)
        then r\<lparr>p_status := ''committed''\<rparr> else r) (push_txns (tabs w)) \<and>
    branches (tabs w') = map (\<lambda>b. if vis w (b_tenant b) \<and> b_repo b = np_RepoID p \<and> b_name b = np_Branch p \<and>
        b_head b = np_BaseCommit p then moved_to (np_TargetCommit p) (txnow w) b else b) (branches (tabs w)) \<and>
    env w' = env w \<and> (\<forall>r \<in> set (np_Commits p). has_commit (tabs w') T (np_RepoID p) (pc_ID r))"
proof -
  let ?reg = "efor (np_Commits p) (\<lambda>r. ewrap ''register commit''
          (putCommitTx nrm T (np_RepoID p) (pc_ID r) (pc_Commit r) (pc_Format r)))"
  obtain b u w2 w3 u3 n where b: "find_branch w (np_RepoID p) (np_Branch p) = Some b" "b_head b = np_BaseCommit p"
    and reg: "?reg (tick w) = (Inr u, w2)"
    and upd: "update_branch_head (np_TargetCommit p) (np_RepoID p) (np_Branch p) (np_BaseCommit p) w2 = (Inr n, w3)"
    and fin: "complete_push T (np_RepoID p) (np_IdempotencyKey p) w3 = (Inr u3, w')"
    and res: "res = \<lparr>nr_AlreadyApplied = False, nr_Head = np_TargetCommit p\<rparr>"
    using assms(1) by (auto simp: publish_new_def stmt_inv branchHeadForUpdate_def)
  have w2: "frame (tabs w) (tabs w2)" "env w2 = env w" "guc w2 = guc w" "txnow w2 = txnow w"
    using register_all_frame [OF reg] by simp_all
  have cs: "\<forall>r \<in> set (np_Commits p). has_commit (tabs w2) T (np_RepoID p) (pc_ID r)"
    using register_all [OF reg] assms(2) by simp
  have v: "vis w2 = vis w" by (rule vis_cong) (simp_all add: w2)
  have vT: "vis w T" using assms(2) by (simp add: vis_def)
  have hit: "vis w (p_tenant r) \<and> p_tenant r = T \<and> p_repo r = np_RepoID p \<and> p_key r = np_IdempotencyKey p \<longleftrightarrow>
      push_id r = (T, np_RepoID p, np_IdempotencyKey p)" for r
    using vT by (auto simp: push_id_def)
  have "commits (tabs w') = commits (tabs w2)" using upd fin by (auto simp: update_branch_head_Inr complete_push_Inr)
  then have "\<forall>r \<in> set (np_Commits p). has_commit (tabs w') T (np_RepoID p) (pc_ID r)" using cs by (simp add: has_commit_def)
  with upd fin b res w2 show ?thesis
    by (auto simp: update_branch_head_Inr complete_push_Inr frame_def v hit)
qed

lemma publish_body_first:
  assumes "publish_body nrm T p w = (Inr res, w')" and "\<not> nr_AlreadyApplied res" and "guc w = Some T"
  shows "\<exists>b. find_branch w (np_RepoID p) (np_Branch p) = Some b \<and> b_head b = np_BaseCommit p \<and>
    nr_Head res = np_TargetCommit p \<and> push_record T p \<in> set (push_txns (tabs w')) \<and>
    branches (tabs w') = map (\<lambda>b. if vis w (b_tenant b) \<and> b_repo b = np_RepoID p \<and> b_name b = np_Branch p \<and>
        b_head b = np_BaseCommit p then moved_to (np_TargetCommit p) (txnow w) b else b) (branches (tabs w)) \<and>
    env w' = env w \<and> (\<forall>r \<in> set (np_Commits p). has_commit (tabs w') T (np_RepoID p) (pc_ID r))"
proof -
  let ?row = "\<lparr>p_tenant = T, p_repo = np_RepoID p, p_key = np_IdempotencyKey p, p_branch = np_Branch p,
         p_base = np_BaseCommit p, p_target = np_TargetCommit p, p_status = ''pending''\<rparr>"
  define w1 where "w1 = (tick w)\<lparr>tabs := (tabs w)\<lparr>push_txns := push_txns (tabs w) @ [?row]\<rparr>\<rparr>"
  have new: "publish_new nrm T p w1 = (Inr res, w')"
    using assms(1,2)
    by (auto simp: publish_body_def publish_existing_def stmt_inv insert_push_nothing_Inr w1_def split: if_splits)
  have v: "vis w1 = vis w" by (rule vis_cong) (simp_all add: w1_def)
  have w1: "branches (tabs w1) = branches (tabs w)" "txnow w1 = txnow w" "env w1 = env w"
    "push_txns (tabs w1) = push_txns (tabs w) @ [?row]" by (simp_all add: w1_def)
  have g: "guc w1 = Some T" using assms(3) by (simp add: w1_def)
  have "push_record T p = ?row\<lparr>p_status := ''committed''\<rparr>" by (simp add: push_record_def)
  moreover have "push_id ?row = (T, np_RepoID p, np_IdempotencyKey p)" by (simp add: push_id_def)
  ultimately show ?thesis
    using publish_new_Inr [OF new g] by (auto simp: w1 v find_branch_def)
qed

text \<open>C26: A native push that is published advanced exactly its branch, from exactly its base. Every commit
  it carries is registered, and its idempotency record is committed. When the store reports that it
  was applied before, it was, with this branch, base and target, and no table changes.\<close>

theorem publish_advances_from_base:
  assumes run: "PublishNativePush nrm c p w = (Inr res, w')" and T: "tenantIDFromContext c = Some T"
  shows "nr_Head res = np_TargetCommit p \<and> push_record T p \<in> set (push_txns (tabs w')) \<and>
    (if nr_AlreadyApplied res then push_record T p \<in> set (push_txns (tabs w)) \<and> tabs w' = tabs w
     else head_of w T (np_RepoID p) (np_Branch p) = Some (np_BaseCommit p) \<and>
       (\<forall>rid name. head_of w' T rid name = (if rid = np_RepoID p \<and> name = np_Branch p then Some (np_TargetCommit p)
          else head_of w T rid name)) \<and>
       (\<forall>r \<in> set (np_Commits p). has_commit (tabs w') T (np_RepoID p) (pc_ID r)))"
proof -
  obtain w2 where body: "publish_body nrm T p (in_tx T w) = (Inr res, w2)" and w': "w' = (tick w2)\<lparr>guc := None\<rparr>"
    using run by (auto simp: PublishNativePush_def with_tenant_Some [OF T] stmt_inv elim: withTenantTx_Inr [OF _ T])
  show ?thesis
  proof (cases "nr_AlreadyApplied res")
    case True
    then show ?thesis using publish_body_again [OF body] by (simp add: w')
  next
    case False
    from publish_body_first [OF body False] obtain b where b: "find_branch (in_tx T w) (np_RepoID p) (np_Branch p) = Some b" "b_head b = np_BaseCommit p"
      and res: "nr_Head res = np_TargetCommit p" "push_record T p \<in> set (push_txns (tabs w2))"
      and bw: "branches (tabs w2) = map (\<lambda>b. if vis (in_tx T w) (b_tenant b) \<and> b_repo b = np_RepoID p \<and> b_name b = np_Branch p \<and>
        b_head b = np_BaseCommit p then moved_to (np_TargetCommit p) (txnow (in_tx T w)) b else b) (branches (tabs (in_tx T w)))"
      and e: "env w2 = env w" and cs: "\<forall>r \<in> set (np_Commits p). has_commit (tabs w2) T (np_RepoID p) (pc_ID r)"
      by auto
    have v: "vis (w'\<lparr>guc := Some T\<rparr>) = vis (in_tx T w)" by (rule vis_cong) (simp_all add: w' e)
    have t: "tabs (w'\<lparr>guc := Some T\<rparr>) = tabs w2" by (simp add: w')
    have "head_of w' T rid name = (if rid = np_RepoID p \<and> name = np_Branch p then Some (np_TargetCommit p)
          else head_of w T rid name)" for rid name
      using head_after_move [OF b bw v t, of rid name] by (simp add: head_of_def [of w'] head_of_in_tx)
    moreover have "head_of w T (np_RepoID p) (np_Branch p) = Some (np_BaseCommit p)"
      using b by (simp flip: head_of_in_tx)
    ultimately show ?thesis using res cs False by (simp add: w')
  qed
qed


section \<open>Retries\<close>

lemma fold_pushes:
  assumes "push_keys (tabs w)"
  shows "push_keys (tabs (fold (run_pg nrm) ps w)) \<and> committed_grow (tabs w) (tabs (fold (run_pg nrm) ps w))"
  using assms
proof (induction ps arbitrary: w)
  case Nil
  then show ?case by (simp add: committed_grow_refl)
next
  case (Cons p ps)
  have "push_keys (tabs (run_pg nrm p w))" "committed_grow (tabs w) (tabs (run_pg nrm p w))"
    using pushes.run_pg_kept [where w = w and p = p and nrm = nrm] Cons.prems by (simp_all add: pushes.kept_def)
  then show ?case using Cons.IH [of "run_pg nrm p w"] pushes.R_trans by (simp add: committed_grow_def)
qed

definition same_claim :: "NativePushPublication \<Rightarrow> NativePushPublication \<Rightarrow> bool" where
  "same_claim p q \<longleftrightarrow> np_Branch q = np_Branch p \<and> np_BaseCommit q = np_BaseCommit p \<and> np_TargetCommit q = np_TargetCommit p"

lemma publish_body_claimed:
  assumes rec: "push_record T p \<in> set (push_txns (tabs w))" and keys: "push_keys (tabs w)" and g: "guc w = Some T"
    and q: "np_RepoID q = np_RepoID p" "np_IdempotencyKey q = np_IdempotencyKey p"
    and nf: "\<not> env_fault (env w) (calls w)" "\<not> env_fault (env w) (Suc (calls w))"
  shows "publish_body nrm T q w =
    (if same_claim p q then Inr \<lparr>nr_AlreadyApplied = True, nr_Head = np_TargetCommit p\<rparr>
     else Inl (Pg ErrNativePushIdempotencyConflict), tick (tick w))"
proof -
  let ?row = "\<lparr>p_tenant = T, p_repo = np_RepoID q, p_key = np_IdempotencyKey q, p_branch = np_Branch q,
         p_base = np_BaseCommit q, p_target = np_TargetCommit q, p_status = ''pending''\<rparr>"
  have vT: "vis w T" using g by (simp add: vis_def)
  have "list_ex (\<lambda>r. push_key r ?row) (push_txns (tabs w))"
    unfolding list_ex_iff by (rule bexI [OF _ rec]) (simp add: push_key_def push_record_def q)
  then have claim: "insert_push_nothing ?row w = (Inr 0, tick w)"
    using vT nf(1) by (simp add: insert_push_nothing_Inr)
  have "find (\<lambda>r. vis w (p_tenant r) \<and> p_tenant r = T \<and> p_repo r = np_RepoID q \<and> p_key r = np_IdempotencyKey q)
      (push_txns (tabs w)) = Some (push_record T p)"
    using keys [unfolded push_keys_def] rec vT q by (intro find_unique) (auto simp: push_id_def push_record_def)
  then have row: "sql_row s (\<lambda>w. find (\<lambda>r. vis w (p_tenant r) \<and> p_tenant r = T \<and> p_repo r = np_RepoID q \<and>
      p_key r = np_IdempotencyKey q) (push_txns (tabs w))) (tick w) = (Inr (push_record T p), tick (tick w))" for s
    using nf(2) by (simp add: sql_row_Inr)
  show ?thesis
    by (simp add: publish_body_def publish_existing_def claim row ebind_def ewrap_def ecatch_def eassert_def eret_def efail_def
        push_record_def same_claim_def)
qed

lemma publish_recorded:
  assumes "PublishNativePush nrm c p w = (Inr res, w')" and T: "tenantIDFromContext c = Some T"
  shows "push_record T p \<in> set (push_txns (tabs w'))"
proof -
  obtain w2 where body: "publish_body nrm T p (in_tx T w) = (Inr res, w2)" and w': "w' = (tick w2)\<lparr>guc := None\<rparr>"
    using assms(1) by (auto simp: PublishNativePush_def with_tenant_Some [OF T] stmt_inv elim: withTenantTx_Inr [OF _ T])
  have "push_record T p \<in> set (push_txns (tabs w2))"
    using publish_body_again [OF body] publish_body_first [OF body] by (cases "nr_AlreadyApplied res") auto
  then show ?thesis by (simp add: w')
qed

text \<open>C27: Retrying a published push is harmless. Once a publication has succeeded, then after any sequence
  of store operations a request under the same key and repository changes no table; it reports the
  published target as already applied when branch, base and target agree, and is refused as an
  idempotency conflict when they do not. No retry is taken for a non-fast-forward.\<close>

theorem publish_retry_is_harmless:
  assumes run: "PublishNativePush nrm c p w = (Inr res, w1)" and T: "tenantIDFromContext c = Some T"
    and keys: "push_keys (tabs w)" and w2: "w2 = fold (run_pg nrm) ps w1"
    and q: "np_RepoID q = np_RepoID p" "np_IdempotencyKey q = np_IdempotencyKey p" "valid_publication q"
    and quiet: "\<forall>i < 5. \<not> env_fault (env w2) (calls w2 + i)"
  shows "fst (PublishNativePush nrm c q w2) =
      (if same_claim p q then Inr \<lparr>nr_AlreadyApplied = True, nr_Head = np_TargetCommit p\<rparr>
       else Inl (Wrapf ''postgres: publish native push'' (Pg ErrNativePushIdempotencyConflict))) \<and>
    tabs (snd (PublishNativePush nrm c q w2)) = tabs w2"
proof -
  have w1: "w1 = run_pg nrm (DoPublishNativePush c p) w" using run by simp
  have "push_keys (tabs w1)"
    unfolding w1 using pushes.run_pg_kept [where w = w and nrm = nrm and p = "DoPublishNativePush c p"] keys
    by (simp add: pushes.kept_def)
  from fold_pushes [OF this, of nrm ps] publish_recorded [OF run T]
  have rec: "push_record T p \<in> set (push_txns (tabs w2))" and k2: "push_keys (tabs w2)"
    unfolding w2 by (auto simp: committed_grow_def push_record_def)
  have nf: "\<not> env_fault (env w2) (calls w2)" "\<not> env_fault (env w2) (Suc (calls w2))" "\<not> env_fault (env w2) (Suc (Suc (calls w2)))"
    "\<not> env_fault (env w2) (Suc (Suc (Suc (calls w2))))" "\<not> env_fault (env w2) (Suc (Suc (Suc (Suc (calls w2)))))"
    using quiet [rule_format, of 0] quiet [rule_format, of 1] quiet [rule_format, of 2] quiet [rule_format, of 3]
      quiet [rule_format, of 4] by (simp_all add: numeral_eq_Suc)
  have body: "publish_body nrm T q (in_tx T w2) =
    (if same_claim p q then Inr \<lparr>nr_AlreadyApplied = True, nr_Head = np_TargetCommit p\<rparr>
     else Inl (Pg ErrNativePushIdempotencyConflict), tick (tick (in_tx T w2)))"
    using rec k2 q nf by (intro publish_body_claimed) simp_all
  show ?thesis
    by (simp add: PublishNativePush_def with_tenant_Some [OF T] q(3) eassert_def ebind_def eret_def ewrap_def ecatch_def
      efail_def withTenantTx_run [OF T nf(1,2)] body commit_tx_def nf rollback_def)
qed

end
