(* ===== verification/Pg_Graph.thy ===== *)
theory Pg_Graph
  imports Pg_Props
begin

text \<open>
  The searches of the commit graph against their specifications: reachability along parent links,
  shortest distances, and the order in which a merge base is chosen.
\<close>

section \<open>The commit graph\<close>

text \<open>Parent links of the visible repository, and those that lead to an existing commit.\<close>

definition parent_links :: "db \<Rightarrow> string \<Rightarrow> (string \<times> string) set" where
  "parent_links w rid = set (links w rid)"

definition known_links :: "db \<Rightarrow> string \<Rightarrow> (string \<times> string) set" where
  "known_links w rid = {(c, p) \<in> parent_links w rid. p \<in> set (commit_ids w rid)}"

text \<open>The reference definition of ancestry.\<close>

definition is_ancestor_of :: "db \<Rightarrow> string \<Rightarrow> string \<Rightarrow> string \<Rightarrow> bool" where
  "is_ancestor_of w rid a c \<longleftrightarrow> c \<in> set (commit_ids w rid) \<and> (c, a) \<in> (known_links w rid)\<^sup>*"

section \<open>The recursive query of IsAncestor\<close>

text \<open>The rows of the query: walks from \<open>c\<close> that never meet a commit twice, newest commit last.\<close>

inductive walk :: "(string \<times> string) set \<Rightarrow> string \<Rightarrow> string list \<Rightarrow> bool" for E c where
  start: "walk E c [c]"
| more: "walk E c path \<Longrightarrow> (hd path, p) \<in> E \<Longrightarrow> p \<notin> set path \<Longrightarrow> walk E c (p # path)"

inductive_cases walk_Cons: "walk E c (p # path)"

lemma walk_nonempty: "walk E c path \<Longrightarrow> path \<noteq> []"
  by (induction rule: walk.induct) auto

lemma walk_single [simp]: "walk E c [x] \<longleftrightarrow> x = c"
  by (auto intro: walk.start elim: walk_Cons dest: walk_nonempty)

lemma walk_step: "path \<noteq> [] \<Longrightarrow> walk E c (p # path) \<longleftrightarrow> walk E c path \<and> (hd path, p) \<in> E \<and> p \<notin> set path"
  by (auto intro: walk.more elim: walk_Cons)

lemma walk_distinct: "walk E c path \<Longrightarrow> distinct path"
  by (induction rule: walk.induct) auto

lemma walk_within: "walk E c path \<Longrightarrow> c \<in> V \<Longrightarrow> (\<And>x y. (x, y) \<in> E \<Longrightarrow> y \<in> V) \<Longrightarrow> set path \<subseteq> V"
  by (induction rule: walk.induct) auto

lemma walk_reaches: "walk E c path \<Longrightarrow> (c, hd path) \<in> E\<^sup>*"
  by (induction rule: walk.induct) (auto intro: rtrancl_into_rtrancl)

lemma walk_cut: "walk E c path \<Longrightarrow> a \<in> set path \<Longrightarrow> \<exists>q. walk E c q \<and> hd q = a"
proof (induction rule: walk.induct)
  case start
  then show ?case by (auto intro!: exI [of _ "[c]"])
next
  case (more path p)
  then show ?case by (cases "a = p") (auto intro!: exI [of _ "p # path"] walk.more)
qed

lemma reach_walk: "(c, a) \<in> E\<^sup>* \<Longrightarrow> \<exists>path. walk E c path \<and> hd path = a"
proof (induction rule: rtrancl_induct)
  case base
  then show ?case by (auto intro!: exI [of _ "[c]"])
next
  case (step b a)
  then obtain path where path: "walk E c path" "hd path = b" by blast
  show ?case
  proof (cases "a \<in> set path")
    case True
    with path show ?thesis by (blast dest: walk_cut)
  next
    case False
    with path step.hyps(2) show ?thesis by (intro exI [of _ "a # path"]) (auto intro: walk.more)
  qed
qed

definition extend_all :: "db \<Rightarrow> string \<Rightarrow> string list list \<Rightarrow> string list list" where
  "extend_all w rid rows = concat (map (extend_row w rid) rows)"

lemma set_extend:
  "set (extend_row w rid path) = {p # path | p. (hd path, p) \<in> known_links w rid \<and> p \<notin> set path}"
  by (auto simp: extend_row_def known_links_def parent_links_def)

lemma ancestry_rows_levels:
  "path \<in> set (ancestry_rows w rid n rows) \<longleftrightarrow> (\<exists>k \<le> n. path \<in> set ((extend_all w rid ^^ k) rows))"
proof (induction n arbitrary: rows)
  case (Suc n)
  have none: "(extend_all w rid ^^ k) [] = []" for k
    by (induction k) (simp_all add: extend_all_def)
  have split: "(\<exists>k \<le> Suc n. path \<in> set ((extend_all w rid ^^ k) rows)) \<longleftrightarrow>
      path \<in> set rows \<or> (\<exists>k \<le> n. path \<in> set ((extend_all w rid ^^ k) (extend_all w rid rows)))"
  proof (intro iffI; elim exE conjE disjE)
    fix k assume "k \<le> Suc n" and "path \<in> set ((extend_all w rid ^^ k) rows)"
    then show "path \<in> set rows \<or> (\<exists>k \<le> n. path \<in> set ((extend_all w rid ^^ k) (extend_all w rid rows)))"
      by (cases k) (auto simp: funpow_swap1)
  next
    assume "path \<in> set rows"
    then show "\<exists>k \<le> Suc n. path \<in> set ((extend_all w rid ^^ k) rows)" by (intro exI [of _ 0]) simp
  next
    fix k assume "k \<le> n" and "path \<in> set ((extend_all w rid ^^ k) (extend_all w rid rows))"
    then show "\<exists>k \<le> Suc n. path \<in> set ((extend_all w rid ^^ k) rows)"
      by (intro exI [of _ "Suc k"]) (simp add: funpow_swap1)
  qed
  show ?case
    using Suc.IH [of "extend_all w rid rows"] none none [of 1] by (simp add: split extend_all_def [symmetric])
qed simp

lemma level_walks:
  "path \<in> set ((extend_all w rid ^^ k) [[c]]) \<longleftrightarrow> walk (known_links w rid) c path \<and> length path = Suc k"
proof (induction k arbitrary: path)
  case 0
  then show ?case by (auto simp: length_Suc_conv)
next
  case (Suc k)
  have "path \<in> set ((extend_all w rid ^^ Suc k) [[c]]) \<longleftrightarrow>
      (\<exists>q p. path = p # q \<and> walk (known_links w rid) c q \<and> length q = Suc k \<and> (hd q, p) \<in> known_links w rid \<and> p \<notin> set q)"
    by (auto simp: extend_all_def [where rows = "(extend_all w rid ^^ k) [[c]]"] set_extend Suc.IH)
  also have "\<dots> \<longleftrightarrow> walk (known_links w rid) c path \<and> length path = Suc (Suc k)"
  proof (cases path)
    case (Cons p q)
    then show ?thesis using walk_step [of q "known_links w rid" c p] by (cases q) auto
  qed simp
  finally show ?case .
qed


lemma known_links_in: "(x, y) \<in> known_links w rid \<Longrightarrow> y \<in> set (commit_ids w rid)"
  by (simp add: known_links_def)

text \<open>The number of commits bounds the levels: a walk has distinct commits.\<close>

lemma ancestry_query_reach: "ancestry_query w rid c a \<longleftrightarrow> is_ancestor_of w rid a c"
proof (cases "c \<in> set (commit_ids w rid)")
  case False
  then have "filter (\<lambda>x. x = c) (commit_ids w rid) = []" by (auto simp: filter_empty_conv)
  moreover have "ancestry_rows w rid n [] = []" for n by (cases n) simp_all
  ultimately show ?thesis using False by (simp add: ancestry_query_def is_ancestor_of_def)
next
  case True
  let ?rows = "map (\<lambda>c. [c]) (filter (\<lambda>x. x = c) (commit_ids w rid))" and ?n = "length (commit_ids w rid)"
  have rows: "set ?rows = {[c]}" using True by auto
  have same: "set ((extend_all w rid ^^ k) ?rows) = set ((extend_all w rid ^^ k) [[c]])" for k
    using rows by (induction k) (auto simp: extend_all_def)
  have "ancestry_query w rid c a \<longleftrightarrow> (\<exists>k \<le> ?n. \<exists>path. walk (known_links w rid) c path \<and> length path = Suc k \<and> hd path = a)"
    unfolding ancestry_query_def list_ex_iff Bex_def ancestry_rows_levels same level_walks by blast
  also have "\<dots> \<longleftrightarrow> (\<exists>path. walk (known_links w rid) c path \<and> hd path = a)"
  proof (intro iffI; elim exE conjE)
    fix path assume path: "walk (known_links w rid) c path" "hd path = a"
    have "length path = card (set path)" using walk_distinct [OF path(1)] by (simp add: distinct_card)
    also have "\<dots> \<le> card (set (commit_ids w rid))"
      by (rule card_mono) (use walk_within [OF path(1) True known_links_in] in auto)
    also have "\<dots> \<le> ?n" by (rule card_length)
    finally show "\<exists>k \<le> ?n. \<exists>path. walk (known_links w rid) c path \<and> length path = Suc k \<and> hd path = a"
      using path walk_nonempty [OF path(1)] by (intro exI [of _ "length path - 1"]) auto
  qed blast
  also have "\<dots> \<longleftrightarrow> (c, a) \<in> (known_links w rid)\<^sup>*"
    using walk_reaches reach_walk by blast
  finally show ?thesis using True by (simp add: is_ancestor_of_def)
qed


section \<open>Breadth-first search\<close>

text \<open>A search only reads: the states it passes differ in the statement counter.\<close>

definition same_view :: "db \<Rightarrow> db \<Rightarrow> bool" where
  "same_view w w' \<longleftrightarrow> tabs w' = tabs w \<and> env w' = env w \<and> guc w' = guc w"

lemma same_view_graph:
  assumes "same_view w w'"
  shows "parent_links w' = parent_links w" "commit_ids w' = commit_ids w" "parents_of w' = parents_of w" "find_commit w' = find_commit w"
proof -
  have v: "vis w' = vis w" using assms by (intro vis_cong) (simp_all add: same_view_def)
  show "parent_links w' = parent_links w" "commit_ids w' = commit_ids w" "parents_of w' = parents_of w" "find_commit w' = find_commit w"
    using assms by (auto simp: parent_links_def links_def commit_ids_def parents_of_def find_commit_def v same_view_def intro!: ext)
qed

lemma same_view_tick: "same_view w (tick w')" if "same_view w w'"
  using that by (simp add: same_view_def)

lemma same_view_refl: "same_view w w"
  by (simp add: same_view_def)

lemma parents_links: "p \<in> set (parents_of w rid c) \<longleftrightarrow> (c, p) \<in> parent_links w rid"
  by (auto simp: parents_of_def parent_links_def links_def)

lemma find_commit_ids: "find_commit w rid c \<noteq> None \<longleftrightarrow> c \<in> set (commit_ids w rid)"
  by (auto simp: find_commit_def commit_ids_def)

text \<open>
  The loop invariant: what was visited or waits was reached by a walk of its depth; every visited
  commit exists and was visited once; its parents were visited or wait, no deeper than one more; and
  the queue is sorted by depth, spans at most two depths, and is nowhere shallower than the visited.
\<close>

definition found_by_walks :: "(string \<times> string) set \<Rightarrow> string \<Rightarrow> (string \<times> nat) set \<Rightarrow> bool" where
  "found_by_walks E root S \<longleftrightarrow> (\<forall>(c, d) \<in> S. (root, c) \<in> E ^^ d) \<and> (root, 0) \<in> S"

definition parents_found :: "(string \<times> string) set \<Rightarrow> (string \<times> nat) set \<Rightarrow> (string \<times> nat) set \<Rightarrow> bool" where
  "parents_found E H S \<longleftrightarrow> (\<forall>(c, d) \<in> H. \<forall>p. (c, p) \<in> E \<longrightarrow> (\<exists>e \<le> Suc d. (p, e) \<in> S))"

definition queue_in_order :: "(string \<times> nat) list \<Rightarrow> (string \<times> nat) list \<Rightarrow> bool" where
  "queue_in_order queue history \<longleftrightarrow> sorted (map snd queue) \<and> (\<forall>x \<in> set queue. \<forall>y \<in> set queue. snd x \<le> Suc (snd y)) \<and>
     (\<forall>x \<in> set history. \<forall>y \<in> set queue. snd x \<le> snd y)"

definition bfs_inv :: "db \<Rightarrow> string \<Rightarrow> string \<Rightarrow> (string \<times> nat) list \<Rightarrow> (string \<times> nat) list \<Rightarrow> bool" where
  "bfs_inv w rid root queue history \<longleftrightarrow>
     found_by_walks (parent_links w rid) root (set history \<union> set queue) \<and>
     parents_found (parent_links w rid) (set history) (set history \<union> set queue) \<and>
     distinct (map fst history) \<and> fst ` set history \<subseteq> set (commit_ids w rid) \<and> queue_in_order queue history"

lemma bfs_inv_start: "bfs_inv w rid root [(root, 0)] []"
  by (simp add: bfs_inv_def found_by_walks_def parents_found_def queue_in_order_def)

text \<open>A commit found again may be forgotten when it was found no deeper before.\<close>

lemma parents_found_forget:
  assumes "parents_found E H (insert (c, d) S)" and "(c, d0) \<in> S" and "d0 \<le> d"
  shows "parents_found E H S"
proof -
  have "\<exists>e \<le> Suc d'. (p, e) \<in> S" if link: "(c', d') \<in> H" "(c', p) \<in> E" for c' d' p
  proof -
    obtain e where e: "e \<le> Suc d'" "(p, e) = (c, d) \<or> (p, e) \<in> S"
      using assms(1) link unfolding parents_found_def by blast
    then show ?thesis using assms(2,3) by (auto intro: exI [of _ d0])
  qed
  then show ?thesis unfolding parents_found_def by blast
qed

lemma bfs_inv_skip:
  assumes inv: "bfs_inv w rid root ((c, d) # queue) history" and c: "c \<in> fst ` set history"
  shows "bfs_inv w rid root queue history"
proof -
  obtain d0 where d0: "(c, d0) \<in> set history" using c by auto
  have le: "d0 \<le> d" using inv d0 by (force simp: bfs_inv_def queue_in_order_def)
  have "parents_found (parent_links w rid) (set history) (set history \<union> set queue)"
    by (rule parents_found_forget [OF _ _ le]) (use inv d0 in \<open>auto simp: bfs_inv_def\<close>)
  moreover have "found_by_walks (parent_links w rid) root (set history \<union> set queue)"
    using inv d0 le by (auto simp: bfs_inv_def found_by_walks_def)
  ultimately show ?thesis
    using inv by (auto simp: bfs_inv_def queue_in_order_def)
qed

lemma bfs_inv_visit:
  assumes inv: "bfs_inv w rid root ((c, d) # queue) history" and c: "c \<notin> fst ` set history" "c \<in> set (commit_ids w rid)"
    and ps: "set ps = {p. (c, p) \<in> parent_links w rid} - fst ` set (history @ [(c, d)])"
  shows "bfs_inv w rid root (queue @ map (\<lambda>p. (p, Suc d)) ps) (history @ [(c, d)])"
proof -
  let ?E = "parent_links w rid" and ?q = "queue @ map (\<lambda>p. (p, Suc d)) ps" and ?h = "history @ [(c, d)]"
  have old: "set ?h \<union> set ?q = set history \<union> set ((c, d) # queue) \<union> (\<lambda>p. (p, Suc d)) ` set ps" by auto
  have step: "(root, p) \<in> ?E ^^ Suc d" if "p \<in> set ps" for p
    using that ps inv by (auto simp: bfs_inv_def found_by_walks_def)
  have "found_by_walks ?E root (set ?h \<union> set ?q)"
    using inv step unfolding old by (auto simp: bfs_inv_def found_by_walks_def)
  moreover have "parents_found ?E (set ?h) (set ?h \<union> set ?q)"
  proof -
    have "\<exists>e \<le> Suc d. (p, e) \<in> set ?h \<union> set ?q" if "(c, p) \<in> ?E" for p
    proof (cases "p \<in> fst ` set ?h")
      case True
      then obtain e where e: "(p, e) \<in> set ?h" by force
      have "e \<le> d" using e inv by (force simp: bfs_inv_def queue_in_order_def)
      with e show ?thesis by (intro exI [of _ e]) auto
    next
      case False
      with that ps have "p \<in> set ps" by auto
      then show ?thesis by auto
    qed
    moreover have "parents_found ?E (set history) (set ?h \<union> set ?q)"
      using inv unfolding old parents_found_def bfs_inv_def by blast
    ultimately show ?thesis by (auto simp: parents_found_def)
  qed
  moreover have "queue_in_order ?q ?h"
  proof -
    from inv have q: "sorted (d # map snd queue)" "\<forall>x \<in> set queue. snd x \<le> Suc d" "\<forall>x \<in> set history. snd x \<le> d"
      by (auto simp: bfs_inv_def queue_in_order_def)
    then show ?thesis
      by (auto simp: queue_in_order_def sorted_append comp_def map_replicate_const intro: le_trans le_SucI)
        (use le_trans not_less_eq_eq in \<open>fastforce+\<close>)?
  qed
  ultimately show ?thesis using inv c by (auto simp: bfs_inv_def)
qed


lemma commit_exists_Inr:
  "commit_exists rid c w = (Inr b, w') \<longleftrightarrow> \<not> env_fault (env w) (calls w) \<and> b = (find_commit w rid c \<noteq> None) \<and> w' = tick w"
  by (auto simp: commit_exists_def stmt_inv)

lemma commitParentIDs_Inr:
  "commitParentIDs rid c w = (Inr ps, w') \<longleftrightarrow> \<not> env_fault (env w) (calls w) \<and> ps = parents_of w rid c \<and> w' = tick w"
  by (auto simp: commitParentIDs_def stmt_inv)

text \<open>A search that returns has kept the invariant until its queue was empty, within its limit.\<close>

lemma bfs_Inr:
  assumes "bfs lim b rid queue history w = (Inr visited, w')" and "bfs_inv w0 rid root queue history"
    and "same_view w0 w" and "length history \<le> lim"
  shows "bfs_inv w0 rid root [] visited \<and> same_view w0 w' \<and> length visited \<le> lim"
  using assms
proof (induction lim b rid queue history arbitrary: w rule: bfs.induct)
  case (1 lim b rid history)
  then show ?case by simp
next
  case (2 lim b rid c d queue history)
  show ?case
  proof (cases "c \<in> fst ` set history")
    case True
    then show ?thesis using "2.IH"(1) "2.prems" bfs_inv_skip [OF "2.prems"(2)] by simp
  next
    case False
    let ?h = "history @ [(c, d)]"
    let ?ps = "filter (\<lambda>p. p \<notin> fst ` set ?h) (parents_of w0 rid c)"
    note g = same_view_graph [OF "2.prems"(3)]
    have found: "find_commit w0 rid c \<noteq> None" and room: "\<not> lim \<le> length history" and limit: "\<not> (b \<and> lim \<le> length history)"
      and run: "bfs lim b rid (queue @ map (\<lambda>p. (p, Suc d)) ?ps) ?h (tick (tick w)) = (Inr visited, w')"
      using "2.prems"(1) False g
      by (auto simp: eff_inv commit_exists_Inr commitParentIDs_Inr same_view_graph [OF same_view_tick [OF "2.prems"(3)]]
          split: if_splits)
    have "c \<in> set (commit_ids w0 rid)" using found by (simp only: find_commit_ids)
    then have inv: "bfs_inv w0 rid root (queue @ map (\<lambda>p. (p, Suc d)) ?ps) ?h"
      using "2.prems"(2) False by (intro bfs_inv_visit) (auto simp: parents_links)
    show ?thesis
      using "2.IH"(2) [OF False limit _ room run, of True] inv "2.prems"(3) room same_view_tick by auto
  qed
qed


section \<open>What a search finds\<close>

text \<open>The length of a shortest chain of parent links.\<close>

definition distance :: "db \<Rightarrow> string \<Rightarrow> string \<Rightarrow> string \<Rightarrow> nat \<Rightarrow> bool" where
  "distance w rid root c d \<longleftrightarrow> (root, c) \<in> parent_links w rid ^^ d \<and>
     (\<forall>k. (root, c) \<in> parent_links w rid ^^ k \<longrightarrow> d \<le> k)"

lemma distance_unique: "distance w rid root c d \<Longrightarrow> distance w rid root c e \<Longrightarrow> d = e"
  by (auto simp: distance_def intro: le_antisym)

lemma bfs_reaches:
  assumes inv: "bfs_inv w rid root [] visited" and "(root, c) \<in> parent_links w rid ^^ k"
  shows "\<exists>d \<le> k. (c, d) \<in> set visited"
  using assms(2)
proof (induction k arbitrary: c)
  case 0
  then show ?case using inv by (auto simp: bfs_inv_def found_by_walks_def)
next
  case (Suc k)
  then obtain b where "(root, b) \<in> parent_links w rid ^^ k" and link: "(b, c) \<in> parent_links w rid" by auto
  with Suc.IH obtain d where "d \<le> k" and "(b, d) \<in> set visited" by blast
  moreover have "parents_found (parent_links w rid) (set visited) (set visited)" using inv by (simp add: bfs_inv_def)
  ultimately obtain e where "e \<le> Suc d" and "(c, e) \<in> set visited"
    using link unfolding parents_found_def by blast
  with \<open>d \<le> k\<close> show ?case by (intro exI [of _ e]) auto
qed

lemma bfs_visited:
  assumes inv: "bfs_inv w rid root [] visited"
  shows "(c, d) \<in> set visited \<longleftrightarrow> distance w rid root c d"
proof
  assume cd: "(c, d) \<in> set visited"
  have "d \<le> k" if path: "(root, c) \<in> parent_links w rid ^^ k" for k
  proof -
    obtain e where "e \<le> k" "(c, e) \<in> set visited" using bfs_reaches [OF inv path] by blast
    moreover have "e = d" using inv cd calculation(2) by (auto simp: bfs_inv_def dest: eq_key_imp_eq_value)
    ultimately show ?thesis by simp
  qed
  with inv cd show "distance w rid root c d" by (auto simp: distance_def bfs_inv_def found_by_walks_def)
next
  assume dist: "distance w rid root c d"
  then have path: "(root, c) \<in> parent_links w rid ^^ d" by (simp add: distance_def)
  obtain e where "e \<le> d" "(c, e) \<in> set visited" using bfs_reaches [OF inv path] by blast
  moreover have "(root, c) \<in> parent_links w rid ^^ e"
    using inv calculation(2) by (auto simp: bfs_inv_def found_by_walks_def)
  with dist have "d \<le> e" by (auto simp: distance_def)
  ultimately show "(c, d) \<in> set visited" by simp
qed

lemma bfs_visited_reachable:
  assumes inv: "bfs_inv w rid root [] visited"
  shows "fst ` set visited = {c. (root, c) \<in> (parent_links w rid)\<^sup>*}"
proof -
  have "c \<in> fst ` set visited" if "(root, c) \<in> (parent_links w rid)\<^sup>*" for c
    using that bfs_reaches [OF inv] by (force simp: rtrancl_power)
  moreover have "(root, c) \<in> (parent_links w rid)\<^sup>*" if "(c, d) \<in> set visited" for c d
    using that inv by (auto simp: bfs_inv_def found_by_walks_def rtrancl_power)
  ultimately show ?thesis by force
qed

text \<open>The graph as tenant \<open>T\<close> sees it.\<close>

definition tenant_view :: "string \<Rightarrow> db \<Rightarrow> db" where
  "tenant_view T w = w\<lparr>guc := Some T\<rparr>"

lemma view_in_tx: "same_view (tenant_view T w) (in_tx T w)"
  by (simp add: same_view_def tenant_view_def in_tx_def)

lemma distance_same_view: "same_view w w' \<Longrightarrow> distance w' = distance w"
  by (intro ext) (simp add: distance_def same_view_graph)

lemma IsAncestor_reach:
  assumes "IsAncestor c rid a cm w = (Inr b, w')" and T: "tenantIDFromContext c = Some T"
  shows "b \<longleftrightarrow> is_ancestor_of (tenant_view T w) rid a cm"
proof -
  have "b = ancestry_query (in_tx T w) rid cm a"
    using assms(1) by (auto simp: IsAncestor_def with_tenant_Some [OF T] stmt_inv elim!: withTenantTx_Inr [OF _ T])
  also have "\<dots> \<longleftrightarrow> is_ancestor_of (in_tx T w) rid a cm" by (rule ancestry_query_reach)
  finally show ?thesis
    by (simp add: is_ancestor_of_def known_links_def same_view_graph [OF view_in_tx])
qed

text \<open>C32: \<open>IsAncestor\<close> answers exactly reachability: whether the commit exists and the ancestor is reached from it
  by any number of parent links to existing commits. The recursive query follows only walks that
  meet no commit twice, so it ends on every table, cyclic ones included.\<close>

theorem is_ancestor_is_reachability:
  assumes "IsAncestor c rid a cm w = (Inr b, w')" and "tenantIDFromContext c = Some T"
  shows "b \<longleftrightarrow> is_ancestor_of (tenant_view T w) rid a cm"
  using assms by (rule IsAncestor_reach)

lemma CommitAncestryIDs_reach:
  assumes "CommitAncestryIDs c rid tip w = (Inr ids, w')" and T: "tenantIDFromContext c = Some T"
  shows "set ids = {x. (tip, x) \<in> (parent_links (tenant_view T w) rid)\<^sup>*} \<and> sorted ids \<and> distinct ids \<and>
    set ids \<subseteq> set (commit_ids (tenant_view T w) rid) \<and> length ids \<le> maxRetentionAncestryCommits"
proof -
  obtain visited w2 where run: "bfs maxRetentionAncestryCommits False rid [(tip, 0)] [] (in_tx T w) = (Inr visited, w2)"
    and ids: "ids = sort (map fst visited)"
    using assms(1) by (auto simp: CommitAncestryIDs_def with_tenant_Some [OF T] stmt_inv elim!: withTenantTx_Inr [OF _ T])
  have inv: "bfs_inv (tenant_view T w) rid tip [] visited" and len: "length visited \<le> maxRetentionAncestryCommits"
    using bfs_Inr [OF run bfs_inv_start view_in_tx] by simp_all
  then show ?thesis
    using bfs_visited_reachable [OF inv] by (auto simp: ids bfs_inv_def)
qed

text \<open>\<open>CommitAncestryIDs\<close> returns every commit reachable from the tip exactly once, in order, all of them
  existing, and at most the traversal limit.\<close>

theorem commit_ancestry_is_complete:
  assumes "CommitAncestryIDs c rid tip w = (Inr ids, w')" and "tenantIDFromContext c = Some T"
  shows "set ids = {x. (tip, x) \<in> (parent_links (tenant_view T w) rid)\<^sup>*} \<and> sorted ids \<and> distinct ids \<and>
    set ids \<subseteq> set (commit_ids (tenant_view T w) rid) \<and> length ids \<le> maxRetentionAncestryCommits"
  using assms by (rule CommitAncestryIDs_reach)

section \<open>The merge base\<close>

text \<open>What the choice compares, and the commits both histories share.\<close>

definition base_key :: "db \<Rightarrow> string \<Rightarrow> string \<Rightarrow> string \<Rightarrow> nat \<times> nat \<times> string \<Rightarrow> bool" where
  "base_key w rid source target k \<longleftrightarrow> (\<exists>ds dt c. distance w rid source c ds \<and> distance w rid target c dt \<and>
     k = (ds + dt, max ds dt, c))"

lemma better_total: "better x (Some y) \<or> x = y \<or> better y (Some x)"
  by (cases x; cases y) (auto simp: better_def)

lemma better_trans: "better x (Some y) \<Longrightarrow> better y (Some z) \<Longrightarrow> better x (Some z)"
  by (auto simp: better_def)

lemma better_irrefl: "\<not> better x (Some x)"
  by (simp add: better_def)

text \<open>The keys a list of source commits offers, and the least of them under \<open>better\<close>.\<close>

definition offered :: "(string \<times> nat) list \<Rightarrow> (string \<times> nat) list \<Rightarrow> (nat \<times> nat \<times> string) set" where
  "offered source target = {(ds + dt, max ds dt, c) | c ds dt. (c, ds) \<in> set source \<and> map_of target c = Some dt}"

lemma offered_Cons: "offered ((c, ds) # source) target =
    (case map_of target c of None \<Rightarrow> {} | Some dt \<Rightarrow> {(ds + dt, max ds dt, c)}) \<union> offered source target"
  by (auto simp: offered_def split: option.splits)

lemma offered_Nil [simp]: "offered [] target = {}"
  by (simp add: offered_def)

lemma pick_least:
  "pick_ancestor source target best = Some k \<Longrightarrow>
     k \<in> offered source target \<union> set_option best \<and> (\<forall>x \<in> offered source target \<union> set_option best. \<not> better x (Some k))"
proof (induction source target best rule: pick_ancestor.induct)
  case (1 target best)
  then show ?case by (simp add: better_irrefl)
next
  case (2 c ds rest target best)
  show ?case
  proof (cases "map_of target c")
    case None
    then show ?thesis using 2 by (simp add: offered_Cons)
  next
    case (Some dt)
    let ?x = "(ds + dt, max ds dt, c)" and ?best = "if better (ds + dt, max ds dt, c) best then Some (ds + dt, max ds dt, c) else best"
    have IH: "k \<in> offered rest target \<union> set_option ?best" "\<forall>y \<in> offered rest target \<union> set_option ?best. \<not> better y (Some k)"
      using "2.IH"(2) [OF Some refl] "2.prems" Some by (simp_all add: Let_def split del: if_split)
    have "\<not> better ?x (Some k) \<and> (\<forall>y \<in> set_option best. \<not> better y (Some k))"
    proof (cases "better ?x best")
      case True
      then show ?thesis using IH(2) better_trans [of ?x _ k] by (cases best) auto
    next
      case False
      then obtain b where b: "best = Some b" by (cases best) (auto simp: better_def)
      with False IH(2) have "\<not> better b (Some k)" by simp
      moreover have "?x = b \<or> better b (Some ?x)" using False b better_total [of ?x b] by simp
      ultimately show ?thesis using b better_trans [of b ?x k] by auto
    qed
    then show ?thesis using IH Some by (auto simp: offered_Cons split: if_splits)
  qed
qed

lemma pick_none: "pick_ancestor source target best = None \<Longrightarrow> offered source target = {} \<and> best = None"
proof (induction source target best rule: pick_ancestor.induct)
  case (2 c ds rest target best)
  show ?case
  proof (cases "map_of target c")
    case None
    then show ?thesis using 2 by (simp add: offered_Cons)
  next
    case (Some dt)
    let ?x = "(ds + dt, max ds dt, c)"
    have "(if better ?x best then Some ?x else best) = None"
      using "2.IH"(2) [OF Some refl] "2.prems" Some by (simp add: Let_def split del: if_split)
    then show ?thesis by (cases best) (auto simp: better_def split: if_splits)
  qed
qed simp

lemma offered_keys:
  assumes "bfs_inv w rid source [] sh" and t: "bfs_inv w rid target [] th"
  shows "offered sh th = Collect (base_key w rid source target)"
proof -
  have "map_of th c = Some dt \<longleftrightarrow> distance w rid target c dt" for c dt
    using t by (simp add: bfs_visited [OF t, symmetric] bfs_inv_def)
  then show ?thesis unfolding offered_def base_key_def bfs_visited [OF assms(1)] by blast
qed

lemma common_ancestor_run:
  assumes run: "FindLowestCommonAncestor c rid source target w = (Inr a, w')" and T: "tenantIDFromContext c = Some T"
  obtains sh th k where "bfs_inv (tenant_view T w) rid source [] sh" and "bfs_inv (tenant_view T w) rid target [] th"
    and "pick_ancestor sh th None = Some k" and "a = snd (snd k)"
proof -
  obtain sh w2 th w3 w4 where s: "bfs maxMergeAncestryCommits True rid [(source, 0)] [] (in_tx T w) = (Inr sh, w2)"
    and t: "bfs maxMergeAncestryCommits True rid [(target, 0)] [] w2 = (Inr th, w3)"
    and choice: "(case pick_ancestor sh th None of None \<Rightarrow> efail (Pg ErrNoCommonAncestor)
        | Some (_, _, x) \<Rightarrow> if x = '''' then efail (Pg ErrNoCommonAncestor) else eret x) w3 = (Inr a, w4)"
    using run unfolding FindLowestCommonAncestor_def with_tenant_Some [OF T] collectMergeAncestry_def
    by (elim withTenantTx_Inr [OF _ T]) (simp only: ebind_Inr_iff ewrap_Inr_iff, blast)
  obtain k where k: "pick_ancestor sh th None = Some k" "a = snd (snd k)"
    using choice by (cases "pick_ancestor sh th None") (auto split: if_splits)
  have si: "bfs_inv (tenant_view T w) rid source [] sh" "same_view (tenant_view T w) w2"
    using bfs_Inr [OF s bfs_inv_start view_in_tx] by simp_all
  have "bfs_inv (tenant_view T w) rid target [] th"
    using bfs_Inr [OF t bfs_inv_start si(2)] by simp
  with si k that show thesis by blast
qed

text \<open>C31: The merge base is a nearest common ancestor. The commit \<open>FindLowestCommonAncestor\<close> returns has the least
  sum of shortest distances to the two heads among all common ancestors; among those, the least
  larger distance; among those, it is first in byte order. The choice does not depend on the order
  in which the map of visited commits is iterated.\<close>

theorem merge_base_is_nearest:
  assumes "FindLowestCommonAncestor c rid source target w = (Inr a, w')" and T: "tenantIDFromContext c = Some T"
  shows "\<exists>ds dt. distance (tenant_view T w) rid source a ds \<and> distance (tenant_view T w) rid target a dt \<and>
    (\<forall>k. base_key (tenant_view T w) rid source target k \<longrightarrow> \<not> better k (Some (ds + dt, max ds dt, a)))"
proof -
  obtain sh th k where inv: "bfs_inv (tenant_view T w) rid source [] sh" "bfs_inv (tenant_view T w) rid target [] th"
    and k: "pick_ancestor sh th None = Some k" "a = snd (snd k)"
    using common_ancestor_run [OF assms] by blast
  from pick_least [OF k(1)] have key: "base_key (tenant_view T w) rid source target k"
    and least: "\<forall>x. base_key (tenant_view T w) rid source target x \<longrightarrow> \<not> better x (Some k)"
    by (simp_all add: offered_keys [OF inv])
  obtain ds dt x where "distance (tenant_view T w) rid source x ds" "distance (tenant_view T w) rid target x dt"
    and kx: "k = (ds + dt, max ds dt, x)" using key unfolding base_key_def by blast
  moreover have "x = a" using kx k(2) by simp
  ultimately show ?thesis using least by (intro exI [of _ ds] exI [of _ dt]) simp
qed

section \<open>The chain of pack ranges\<close>

text \<open>The step from a range's target to its base, for the ranges of one repository a tenant sees.\<close>

definition range_links :: "db \<Rightarrow> string \<Rightarrow> (string \<times> string) set" where
  "range_links w rid = {(pr_target r, b) | r b. r \<in> set (pack_ranges (tabs w)) \<and> vis w (pr_tenant r) \<and> pr_repo r = rid \<and> pr_base r = Some b}"

definition seen_range :: "db \<Rightarrow> string \<Rightarrow> range_row \<Rightarrow> bool" where
  "seen_range w rid r \<longleftrightarrow> r \<in> set (pack_ranges (tabs w)) \<and> vis w (pr_tenant r) \<and> pr_repo r = rid"

text \<open>Running out of fuel takes a chain of ranges longer than the fuel, each based on the next one's target.\<close>

inductive range_chain :: "db \<Rightarrow> string \<Rightarrow> range_row list \<Rightarrow> bool" for w rid where
  last_range: "seen_range w rid r \<Longrightarrow> range_chain w rid [r]"
| next_range: "range_chain w rid (p # rs) \<Longrightarrow> seen_range w rid r \<Longrightarrow> pr_base r = Some (pr_target p) \<Longrightarrow> range_chain w rid (r # p # rs)"

lemma range_chain_seen: "range_chain w rid rs \<Longrightarrow> \<forall>r \<in> set rs. seen_range w rid r"
  by (induction rule: range_chain.induct) auto

lemma range_levels_None:
  assumes "range_levels w rid known n rows = None" and "\<forall>r \<in> set rows. seen_range w rid r"
  shows "\<exists>rs. range_chain w rid rs \<and> length rs = Suc n \<and> hd rs \<in> set rows"
  using assms
proof (induction w rid known n rows rule: range_levels.induct)
  case (2 w rid known r rs)
  then show ?case by (intro exI [of _ "[r]"]) (auto intro: last_range)
next
  case (3 w rid known n r rs)
  let ?next = "[p. c \<leftarrow> r # rs, p \<leftarrow> pack_ranges (tabs w), vis w (pr_tenant p), pr_repo p = rid,
           pr_base c = Some (pr_target p), pr_base c \<noteq> Some known]"
  have "range_levels w rid known n ?next = None" using 3(2) by simp
  moreover have "\<forall>p \<in> set ?next. seen_range w rid p" by (auto simp: seen_range_def)
  ultimately obtain ps where ps: "range_chain w rid ps" "length ps = Suc n" "hd ps \<in> set ?next"
    using "3.IH" by blast
  then obtain p qs c where p: "ps = p # qs" and c: "c \<in> set (r # rs)" "pr_base c = Some (pr_target p)"
    by (cases ps) auto
  have "range_chain w rid (c # p # qs)" using ps(1) p c "3.prems"(2) by (auto intro: next_range)
  with ps(2) p c(1) show ?case by (intro exI [of _ "c # p # qs"]) auto
qed simp

lemma range_chain_targets:
  "range_chain w rid (r # rs) \<Longrightarrow> \<forall>p \<in> set rs. (pr_target r, pr_target p) \<in> (range_links w rid)\<^sup>+"
proof (induction "r # rs" arbitrary: r rs rule: range_chain.induct)
  case (next_range p rs r)
  have step: "(pr_target r, pr_target p) \<in> range_links w rid"
    using next_range.hyps(3,4) by (auto simp: range_links_def seen_range_def)
  with next_range.hyps(2) show ?case by (auto intro: trancl_into_trancl2)
qed simp

lemma range_chain_distinct:
  "range_chain w rid rs \<Longrightarrow> acyclic (range_links w rid) \<Longrightarrow> distinct (map pr_target rs)"
proof (induction rule: range_chain.induct)
  case (next_range p rs r)
  have "range_chain w rid (r # p # rs)" using next_range.hyps by (rule range_chain.next_range)
  from range_chain_targets [OF this] next_range show ?case by (auto simp: acyclic_def)
qed simp

lemma range_levels_acyclic:
  assumes "acyclic (range_links w rid)" and "\<forall>r \<in> set rows. seen_range w rid r" and "length (pack_ranges (tabs w)) \<le> n"
  shows "range_levels w rid known n rows \<noteq> None"
proof
  assume "range_levels w rid known n rows = None"
  then obtain rs where rs: "range_chain w rid rs" "length rs = Suc n" using range_levels_None assms(2) by blast
  have "length rs = card (set (map pr_target rs))"
    using range_chain_distinct [OF rs(1) assms(1)] by (simp only: distinct_card length_map)
  also have "\<dots> \<le> card (set (map pr_target (pack_ranges (tabs w))))"
    using range_chain_seen [OF rs(1)] by (intro card_mono) (auto simp: seen_range_def)
  also have "\<dots> \<le> length (pack_ranges (tabs w))" using card_length [of "map pr_target (pack_ranges (tabs w))"] by simp
  finally show False using rs(2) assms(3) by simp
qed

text \<open>What the query collects: the ranges reached from those that end at the head, not going below a known commit.\<close>

definition range_next :: "db \<Rightarrow> string \<Rightarrow> string \<Rightarrow> (range_row \<times> range_row) set" where
  "range_next w rid known = {(c, p). seen_range w rid p \<and> pr_base c = Some (pr_target p) \<and> pr_target p \<noteq> known}"

lemma reach_step: "S \<union> {x. \<exists>p \<in> {p. \<exists>c \<in> S. (c, p) \<in> R}. (p, x) \<in> R\<^sup>*} = {x. \<exists>c \<in> S. (c, x) \<in> R\<^sup>*}"
proof -
  have step: "(c, x) \<in> R\<^sup>* \<longleftrightarrow> c = x \<or> (\<exists>p. (c, p) \<in> R \<and> (p, x) \<in> R\<^sup>*)" for c x
    by (metis converse_rtranclE converse_rtrancl_into_rtrancl rtrancl.rtrancl_refl)
  have "{x. \<exists>c \<in> S. (c, x) \<in> R\<^sup>*} = {x. \<exists>c \<in> S. c = x \<or> (\<exists>p. (c, p) \<in> R \<and> (p, x) \<in> R\<^sup>*)}"
    by (intro Collect_cong bex_cong refl) (rule step)
  also have "\<dots> = S \<union> {x. \<exists>p \<in> {p. \<exists>c \<in> S. (c, p) \<in> R}. (p, x) \<in> R\<^sup>*}" by blast
  finally show ?thesis by (rule sym)
qed

lemma range_levels_collects:
  "range_levels w rid known n rows = Some out \<Longrightarrow> set out = {r. \<exists>c \<in> set rows. (c, r) \<in> (range_next w rid known)\<^sup>*}"
proof (induction w rid known n rows arbitrary: out rule: range_levels.induct)
  case (3 w rid known n r rs)
  let ?next = "[p. c \<leftarrow> r # rs, p \<leftarrow> pack_ranges (tabs w), vis w (pr_tenant p), pr_repo p = rid,
           pr_base c = Some (pr_target p), pr_base c \<noteq> Some known]"
  obtain more where more: "range_levels w rid known n ?next = Some more" "out = (r # rs) @ more"
    using 3(2) by (cases "range_levels w rid known n ?next") simp_all
  have nxt: "set ?next = {p. \<exists>c \<in> set (r # rs). (c, p) \<in> range_next w rid known}"
    by (auto simp: range_next_def seen_range_def)
  have "set out = set (r # rs) \<union> {x. \<exists>p \<in> set ?next. (p, x) \<in> (range_next w rid known)\<^sup>*}"
    using more "3.IH" by simp
  also have "\<dots> = {x. \<exists>c \<in> set (r # rs). (c, x) \<in> (range_next w rid known)\<^sup>*}"
    unfolding nxt by (rule reach_step)
  finally show ?case .
qed simp_all

definition head_ranges :: "db \<Rightarrow> string \<Rightarrow> string \<Rightarrow> range_row list" where
  "head_ranges w rid head = filter (\<lambda>r. vis w (pr_tenant r) \<and> pr_repo r = rid \<and> pr_target r = head) (pack_ranges (tabs w))"

lemma pack_chain_head: "pack_chain w rid head known fuel = map_option (map pack_range) (range_levels w rid known fuel (head_ranges w rid head))"
  by (simp add: pack_chain_def head_ranges_def)

lemma head_ranges_seen: "r \<in> set (head_ranges w rid head) \<longleftrightarrow> seen_range w rid r \<and> pr_target r = head"
  by (auto simp: head_ranges_def seen_range_def)

lemma seen_range_view: "same_view w w' \<Longrightarrow> seen_range w' = seen_range w"
  using vis_cong [of w' w] by (intro ext) (simp add: seen_range_def same_view_def)

lemma range_links_view: "same_view w w' \<Longrightarrow> range_links w' = range_links w"
  using vis_cong [of w' w] by (intro ext) (simp add: range_links_def same_view_def)

text \<open>C33: When no chain of pack ranges runs in a circle and no statement fails, \<open>GetPackRanges\<close> returns, and what it
  returns is every range on the chains that end at the head, down to the known commit and no further.\<close>

theorem pack_ranges_are_returned:
  assumes T: "tenantIDFromContext c = Some T" and acyc: "acyclic (range_links (tenant_view T w) rid)"
    and quiet: "\<forall>i < 4. \<not> env_fault (env w) (calls w + i)"
  shows "\<exists>rs. fst (GetPackRanges c rid head known w) = Inr rs \<and>
    set rs = pack_range ` {r. \<exists>h. seen_range (tenant_view T w) rid h \<and> pr_target h = head \<and>
      (h, r) \<in> (range_next (tenant_view T w) rid known)\<^sup>*}"
proof -
  let ?v = "in_tx T w" and ?n = "Suc (length (pack_ranges (tabs w)))"
  note same = seen_range_view [OF view_in_tx [of T w]] range_links_view [OF view_in_tx [of T w]]
  have "range_levels ?v rid known ?n (head_ranges ?v rid head) \<noteq> None"
    using acyc by (intro range_levels_acyclic) (simp_all add: same head_ranges_seen)
  then obtain out where out: "range_levels ?v rid known ?n (head_ranges ?v rid head) = Some out" by blast
  have nf: "\<not> env_fault (env w) (calls w)" "\<not> env_fault (env w) (Suc (calls w))" "\<not> env_fault (env w) (Suc (Suc (calls w)))"
    "\<not> env_fault (env w) (Suc (Suc (Suc (calls w))))"
    using quiet [rule_format, of 0] quiet [rule_format, of 1] quiet [rule_format, of 2] quiet [rule_format, of 3]
    by (simp_all add: numeral_eq_Suc)
  have "fst (GetPackRanges c rid head known w) = Inr (map pack_range out)"
    by (simp add: GetPackRanges_def with_tenant_Some [OF T] withTenantTx_run [OF T nf(1,2)] sql_def nf pack_chain_head out
      ewrap_def ecatch_def commit_tx_def del: range_levels.simps)
  moreover have "range_next ?v rid known = range_next (tenant_view T w) rid known"
    by (simp add: range_next_def same)
  moreover have "set out = {r. \<exists>h. seen_range (tenant_view T w) rid h \<and> pr_target h = head \<and>
      (h, r) \<in> (range_next ?v rid known)\<^sup>*}"
    unfolding range_levels_collects [OF out] Bex_def head_ranges_seen same by (simp only: conj_assoc)
  ultimately show ?thesis by simp
qed

lemma self_range_loops:
  assumes "seen_range w rid r" and "pr_base r = Some (pr_target r)" and "pr_target r \<noteq> known" and "r \<in> set rows"
  shows "range_levels w rid known n rows = None"
  using assms(4)
proof (induction n arbitrary: rows)
  case 0
  then show ?case by (cases rows) auto
next
  case (Suc n)
  obtain x xs where rows: "rows = x # xs" using Suc.prems by (cases rows) auto
  have "range_levels w rid known n [p. c \<leftarrow> x # xs, p \<leftarrow> pack_ranges (tabs w), vis w (pr_tenant p), pr_repo p = rid,
           pr_base c = Some (pr_target p), pr_base c \<noteq> Some known] = None"
    using Suc.prems assms(1-3) by (intro Suc.IH) (auto simp: rows seen_range_def)
  then show ?case by (simp add: rows)
qed

end
