(* ===== verification/Pg_Facts.thy ===== *)
theory Pg_Facts
  imports Pg_Refs Pg_Graph
begin

text \<open>
  Registration of commits, protection of the default branch, storage quotas, and where the store's
  answers depart from its documentation.
\<close>

section \<open>Registered commits\<close>

text \<open>What a tenant reads of a commit: its row and its ordered parents.\<close>

definition commit_view :: "string \<Rightarrow> db \<Rightarrow> string \<Rightarrow> string \<Rightarrow> (commit_row \<times> string list) option" where
  "commit_view T w rid c = map_option (\<lambda>r. (r, parents_of (tenant_view T w) rid c)) (find_commit (tenant_view T w) rid c)"

lemma parents_of_none:
  assumes "refs_ok (tabs w)" and "\<not> has_commit (tabs w) T rid c" and "env_rls (env w)" and "guc w = Some T"
  shows "parents_of w rid c = []"
proof -
  have "filter (\<lambda>p. vis w (cp_tenant p) \<and> cp_repo p = rid \<and> cp_commit p = c) (commit_parents (tabs w)) = []"
    using assms by (auto simp: filter_empty_conv refs_ok_def vis_def)
  then show ?thesis by (simp add: parents_of_def)
qed

lemma insert_commit_nothing_Inr:
  "insert_commit_nothing r w = (Inr n, w') \<longleftrightarrow> \<not> env_fault (env w) (calls w) \<and> vis w (c_tenant r) \<and> c_format r \<in> {1, 2, 3} \<and>
     (if has_commit (tabs w) (c_tenant r) (c_repo r) (c_id r) then n = 0 \<and> w' = tick w
      else has_repo (tabs w) (c_tenant r) (c_repo r) \<and> n = 1 \<and> w' = (tick w)\<lparr>tabs := (tabs w)\<lparr>commits := commits (tabs w) @ [r]\<rparr>\<rparr>)"
  by (auto simp: insert_commit_nothing_def sql_Inr Let_def commit_checks_def has_commit_def commit_key_def list_ex_iff)

text \<open>The two ways registration succeeds: the commit is new, or it is there with the same content.\<close>

lemma putCommitTx_new:
  assumes "putCommitTx nrm T rid cid cm f w = (Inr u, w')" and "\<not> has_commit (tabs w) T rid cid"
    and "guc w = Some T" and "env_rls (env w)" and "refs_ok (tabs w)"
  shows "\<exists>n. nrm cm = Inr n \<and> find_commit w' rid cid = Some (commit_row_of T rid cid n f) \<and> parents_of w' rid cid = cm_Parents n"
proof -
  let ?w1 = "\<lambda>n. (tick w)\<lparr>tabs := (tabs w)\<lparr>commits := commits (tabs w) @ [commit_row_of T rid cid n f]\<rparr>\<rparr>"
  have vT: "vis w x \<longleftrightarrow> x = T" for x using assms(3,4) by (auto simp: vis_def)
  obtain n where n: "nrm cm = Inr n" and w': "if cm_Parents n = [] then w' = tick (?w1 n)
      else insert_parents T rid cid (cm_Parents n) (tick (?w1 n)) = (Inr (), w')"
    using assms(1,2)
    by (auto simp: putCommitTx_def stmt_inv elift_def insert_commit_nothing_Inr commitParentIDs_Inr commit_row_of_def split: if_splits)
  have env: "env w' = env w" "guc w' = guc w" using w' by (auto simp: insert_parents_Inr split: if_splits)
  have cps: "commit_parents (tabs w') = commit_parents (tabs w) @ parent_rows T rid cid (cm_Parents n)"
    using w' by (auto simp: insert_parents_Inr parent_rows_def split: if_splits)
  have cs: "commits (tabs w') = commits (tabs w) @ [commit_row_of T rid cid n f]"
    using w' by (auto simp: insert_parents_Inr split: if_splits)
  have "find_commit w' rid cid = Some (commit_row_of T rid cid n f)"
  proof -
    have "vis w' = vis w" by (rule vis_cong) (simp_all add: env)
    moreover have "find (\<lambda>r. vis w (c_tenant r) \<and> c_repo r = rid \<and> c_id r = cid) (commits (tabs w)) = None"
      using assms(2) by (auto simp: vT has_commit_def list_ex_iff)
    ultimately show ?thesis
      unfolding find_commit_def cs find_append by (simp only: option.case) (simp add: commit_row_of_def vT)
  qed
  moreover have "parents_of w' rid cid = cm_Parents n"
    by (rule parents_of_new [OF cps assms(5,2)]) (simp_all add: env assms)
  ultimately show ?thesis using n by blast
qed

lemma putCommitTx_again:
  assumes "putCommitTx nrm T rid cid cm f w = (Inr u, w')" and "has_commit (tabs w) T rid cid"
    and "guc w = Some T" and "env_rls (env w)"
  shows "\<exists>n r. nrm cm = Inr n \<and> find_commit w rid cid = Some r \<and> same_commit r n f \<and> parents_of w rid cid = cm_Parents n \<and> tabs w' = tabs w"
proof -
  have vT: "vis w x \<longleftrightarrow> x = T" for x using assms(3,4) by (auto simp: vis_def)
  have same: "(\<lambda>r. vis w (c_tenant r) \<and> c_tenant r = T \<and> c_repo r = rid \<and> c_id r = cid) =
      (\<lambda>r. vis w (c_tenant r) \<and> c_repo r = rid \<and> c_id r = cid)" by (auto simp: vT)
  have p: "parents_of (tick (tick w)) = parents_of w"
    by (rule same_view_graph) (simp add: same_view_def)
  show ?thesis
    using assms(1,2)
    by (auto simp: putCommitTx_def stmt_inv elift_def insert_commit_nothing_Inr commitParentIDs_Inr find_commit_def same p
      commit_row_of_def split: if_splits)
qed

lemma put_commit_view:
  assumes run: "PutCommitWithFormat nrm c rid cid cm f w = (Inr u, w')" and T: "tenantIDFromContext c = Some T"
    and rls: "env_rls (env w)" and refs: "refs_ok (tabs w)"
  shows "\<exists>n r. nrm cm = Inr n \<and> commit_view T w' rid cid = Some (r, cm_Parents n) \<and> c_root r = cm_Snapshot n \<and>
    c_author r = cm_Author n \<and> c_message r = cm_Message n \<and> c_format r = normalizeObjectFormat f \<and>
    (has_commit (tabs w) T rid cid \<longrightarrow> tabs w' = tabs w)"
proof -
  obtain w2 where body: "putCommitTx nrm T rid cid cm (normalizeObjectFormat f) (in_tx T w) = (Inr u, w2)"
    and w': "w' = (tick w2)\<lparr>guc := None\<rparr>"
    using run by (auto simp: PutCommitWithFormat_def putCommit_def with_tenant_Some [OF T] stmt_inv efail_def
        split: if_splits elim!: withTenantTx_Inr [OF _ T])
  have kept: "env w2 = env w \<and> guc w2 = Some T"
  proof -
    have "hist.ok (putCommitTx nrm T rid cid cm (normalizeObjectFormat f))" by (rule hist.putCommitTx_ok)
    then show ?thesis using body unfolding hist.ok_def hist.kept_def by (metis in_tx_simps(2,3) snd_conv)
  qed
  have view: "same_view w2 (tenant_view T w')" using kept by (simp add: same_view_def tenant_view_def w')
  note g = same_view_graph [OF view]
  show ?thesis
  proof (cases "has_commit (tabs w) T rid cid")
    case False
    with putCommitTx_new [OF body] rls refs obtain n where "nrm cm = Inr n"
      "find_commit w2 rid cid = Some (commit_row_of T rid cid n (normalizeObjectFormat f))" "parents_of w2 rid cid = cm_Parents n" by auto
    then show ?thesis using False by (auto simp: commit_view_def g commit_row_of_def)
  next
    case True
    with putCommitTx_again [OF body] rls obtain n r where n: "nrm cm = Inr n" "find_commit (in_tx T w) rid cid = Some r"
      "same_commit r n (normalizeObjectFormat f)" "parents_of (in_tx T w) rid cid = cm_Parents n" "tabs w2 = tabs w" by auto
    have "same_view (in_tx T w) (tenant_view T w')" using kept n(5) by (simp add: same_view_def tenant_view_def w')
    then show ?thesis using n by (auto simp: commit_view_def same_view_graph same_commit_def w')
  qed
qed

text \<open>A registered commit says what was pushed. When \<open>PutCommitWithFormat\<close> succeeds, the tenant reads back
  the normalised commit: its snapshot, author, message and format, and its parents in order. If the
  commit was there before, nothing has changed: a second registration cannot alter the first.\<close>

theorem put_commit_reads_back:
  assumes "PutCommitWithFormat nrm c rid cid cm f w = (Inr u, w')" and "tenantIDFromContext c = Some T"
    and "env_rls (env w)" and "refs_ok (tabs w)"
  shows "\<exists>n r. nrm cm = Inr n \<and> commit_view T w' rid cid = Some (r, cm_Parents n) \<and> c_root r = cm_Snapshot n \<and>
    c_author r = cm_Author n \<and> c_message r = cm_Message n \<and> c_format r = normalizeObjectFormat f \<and>
    (has_commit (tabs w) T rid cid \<longrightarrow> tabs w' = tabs w)"
  using assms by (rule put_commit_view)

section \<open>The default branch\<close>

lemma default_branch_run:
  "query_default_branch rid T w = (Inr d, w') \<Longrightarrow> \<exists>r. find (\<lambda>r. vis w (r_tenant r) \<and> r_id r = rid \<and> r_tenant r = T) (repositories (tabs w)) = Some r \<and> d = r_default r \<and> w' = tick w"
  by (auto simp: query_default_branch_def sql_row_Inr)

definition default_of :: "db \<Rightarrow> string \<Rightarrow> string \<Rightarrow> string option" where
  "default_of w T rid = (case find (\<lambda>r. r_id r = rid \<and> r_tenant r = T) (repositories (tabs w)) of None \<Rightarrow> None | Some r \<Rightarrow> r_default r)"

text \<open>The default branch cannot be deleted, and deleting a branch loses nothing: a successful
  \<open>DeleteBranch\<close> named another branch than the default, leaves every head where it was, and leaves
  every commit and parent link as it was.\<close>

theorem delete_branch_keeps_history:
  assumes run: "DeleteBranch c rid name w = (Inr u, w')" and T: "tenantIDFromContext c = Some T"
  shows "default_of w T rid \<noteq> Some name \<and> (\<forall>rid' name'. head_of w' T rid' name' = head_of w T rid' name') \<and>
    commits (tabs w') = commits (tabs w) \<and> commit_parents (tabs w') = commit_parents (tabs w)"
proof -
  have vT: "vis (in_tx T w) T" by (simp add: vis_def)
  obtain d w1 w2 n where q: "query_default_branch rid T (in_tx T w) = (Inr d, w1)" and d: "d \<noteq> Some name"
    and del: "mark_branch_deleted rid name w1 = (Inr n, w2)" and w': "w' = (tick w2)\<lparr>guc := None\<rparr>"
    using run by (auto simp: DeleteBranch_def with_tenant_Some [OF T] stmt_inv efail_def split: if_splits elim!: withTenantTx_Inr [OF _ T])
  have w1: "w1 = tick (in_tx T w)" using default_branch_run [OF q] by blast
  let ?hit = "\<lambda>b. vis (in_tx T w) (b_tenant b) \<and> b_repo b = rid \<and> b_name b = name \<and> b_deleted b = None"
  have w2: "tabs w2 = (tabs w)\<lparr>branches := map (\<lambda>b. if ?hit b then b\<lparr>b_deleted := Some (txnow (in_tx T w))\<rparr> else b) (branches (tabs w))\<rparr>"
    "env w2 = env w" using del by (auto simp: w1 mark_branch_deleted_def sql_Inr Let_def)
  have v: "vis (w'\<lparr>guc := Some T\<rparr>) = vis (in_tx T w)" by (rule vis_cong) (simp_all add: w' w2)
  have moved: "find_branch (w'\<lparr>guc := Some T\<rparr>) rid' name' = map_option (\<lambda>b. if ?hit b then b\<lparr>b_deleted := Some (txnow (in_tx T w))\<rparr> else b)
      (find_branch (in_tx T w) rid' name')" for rid' name'
    unfolding find_branch_def v by (simp add: w' w2) (rule find_map_same, simp)
  have "head_of w' T rid' name' = head_of w T rid' name'" for rid' name'
    unfolding head_of_def [of w'] head_of_in_tx [symmetric, of w] moved
    by (cases "find_branch (in_tx T w) rid' name'") auto
  moreover have "default_of w T rid = d"
  proof -
    have eq: "(\<lambda>r. vis (in_tx T w) (r_tenant r) \<and> r_id r = rid \<and> r_tenant r = T) = (\<lambda>r. r_id r = rid \<and> r_tenant r = T)"
      using vT by auto
    show ?thesis using default_branch_run [OF q, unfolded eq] by (auto simp: default_of_def)
  qed
  ultimately show ?thesis using d by (simp add: w' w2)
qed

section \<open>Quotas\<close>

text \<open>The quota test as mathematics has it, and where \<open>int64\<close> departs from it.\<close>

definition exceeds :: "int64 \<Rightarrow> int64 \<Rightarrow> int64 \<Rightarrow> bool" where
  "exceeds quota used n \<longleftrightarrow> 0 < sint quota \<and> sint quota < sint used + sint n"

lemma over_quota_exact:
  assumes "- (2 ^ 63) \<le> sint used + sint n" and "sint used + sint n < 2 ^ 63"
  shows "over_quota quota used n \<longleftrightarrow> exceeds quota used n"
proof -
  have "sint (used + n) = sint used + sint n"
    using assms by (simp add: sint_word_ariths signed_take_bit_int_eq_self_iff)
  then show ?thesis by (simp add: over_quota_def exceeds_def word_sless_alt)
qed

lemma over_quota_wraps:
  assumes "2 ^ 63 \<le> sint used + sint n" and "0 < sint quota"
  shows "\<not> over_quota quota used n"
proof -
  have b: "sint used < 2 ^ 63" "sint n < 2 ^ 63" using sint_lt [of used] sint_lt [of n] by simp_all
  have "sint (used + n) \<le> sint used + sint n - 2 ^ 64"
    using assms signed_take_bit_int_less_eq [of 63 "sint used + sint n"] by (simp add: sint_word_ariths)
  then show ?thesis using assms b by (simp add: over_quota_def word_sless_alt)
qed

definition tenant_row_of :: "db \<Rightarrow> string \<Rightarrow> tenant_row option" where
  "tenant_row_of w T = find (\<lambda>r. vis (tenant_view T w) (t_id r) \<and> t_id r = T) (tenants (tabs w))"

text \<open>C36: The admission test is the documented one exactly as long as the sum fits in \<open>int64\<close>: when no
  statement fails, an asset the repository does not have is refused for its size just when usage plus
  size exceeds a positive quota. When the sum reaches \<open>2 ^ 63\<close> it wraps and the upload is admitted, however
  full the tenant is.\<close>

theorem admission_is_exact_until_overflow:
  assumes T: "tenantIDFromContext c = Some T" and quiet: "\<forall>i < 5. \<not> env_fault (env w) (calls w + i)"
    and rid: "uuidV4Pattern rid" and row: "tenant_row_of w T = Some r"
    and new: "\<not> list_ex (\<lambda>a. s_tenant a = T \<and> s_repo a = rid \<and> s_hash a = h) (assets (tabs w))"
  shows "(0 \<le> sint n \<and> 0 \<le> sint (t_used r) \<and> sint (t_used r) + sint n < 2 ^ 63 \<longrightarrow>
      fst (AdmitAssetUpload c rid h n w) = (if exceeds (t_quota r) (t_used r) n then Inl (Pg ErrQuotaExceeded) else Inr ())) \<and>
    (0 < sint (t_quota r) \<and> 2 ^ 63 \<le> sint (t_used r) + sint n \<longrightarrow> fst (AdmitAssetUpload c rid h n w) = Inr ())"
proof -
  have nf: "\<not> env_fault (env w) (calls w)" "\<not> env_fault (env w) (Suc (calls w))" "\<not> env_fault (env w) (Suc (Suc (calls w)))"
    "\<not> env_fault (env w) (Suc (Suc (Suc (calls w))))" "\<not> env_fault (env w) (Suc (Suc (Suc (Suc (calls w)))))"
    using quiet [rule_format, of 0] quiet [rule_format, of 1] quiet [rule_format, of 2] quiet [rule_format, of 3]
      quiet [rule_format, of 4] by (simp_all add: numeral_eq_Suc)
  have v: "vis (tick w') = vis w'" for w' by (intro ext) simp
  have "vis (in_tx T w) = vis (tenant_view T w)" by (rule vis_cong) (simp_all add: tenant_view_def)
  then have row': "find (\<lambda>r. vis (in_tx T w) (t_id r) \<and> t_id r = T) (tenants (tabs w)) = Some r"
    using row by (simp add: tenant_row_of_def)
  have new': "\<not> list_ex (\<lambda>a. vis (in_tx T w) (s_tenant a) \<and> s_tenant a = T \<and> s_repo a = rid \<and> s_hash a = h) (assets (tabs w))"
    using new by (auto simp: list_ex_iff)
  have "fst (AdmitAssetUpload c rid h n w) = (if over_quota (t_quota r) (t_used r) n then Inl (Pg ErrQuotaExceeded) else Inr ())"
    by (simp add: AdmitAssetUpload_def with_tenant_Some [OF T] withTenantTx_run [OF T nf(1,2)] resolveRepoUUID_def rid
      asset_registered_def tenant_quota_def sql_select_def sql_row_def no_rows_or_def sql_def nf row' new' v eff_run commit_tx_def)
  then show ?thesis using over_quota_exact over_quota_wraps by auto
qed

section \<open>Departures\<close>

text \<open>Under row-level security the tenant directory is empty. \<open>ListTenants\<close> and \<open>GetTenant\<close> query without a
  tenant setting, so whatever tenants exist, a listing that returns is empty and no tenant is found.\<close>

theorem tenant_directory_is_blind:
  assumes "env_rls (env w)" and "guc w = None"
  shows "fst (ListTenants w) \<in> {Inr [], Inl (Wrapf ''postgres: list tenants'' (Fault ''list tenants''))} \<and>
    fst (GetTenant x w) \<in> {Inl (Pg ErrTenantNotFound), Inl (Wrapf ''postgres: get tenant'' (Fault ''get tenant''))}"
proof -
  have "\<not> vis w T" for T using assms by (simp add: vis_def)
  moreover from this have "find (\<lambda>r. vis w (t_id r) \<and> (t_id r = x \<or> t_name r = x)) (tenants (tabs w)) = None" by simp
  ultimately show ?thesis
    by (simp add: ListTenants_def GetTenant_def sql_select_def sql_row_def no_rows_or_def sql_def no_rows_def eff_run)
qed

text \<open>A native pack can be indexed only under a commit that is registered. Naming a commit the repository does
  not have makes \<open>PutNativePack\<close> fail, whatever else is right, because of the foreign key from packs
  to commits.\<close>

theorem native_pack_needs_its_commit:
  assumes T: "tenantIDFromContext c = Some T" and "env_rls (env w)" and "cid \<noteq> ''''"
    and "\<not> has_commit (tabs w) T rid cid" and refs: "refs_ok (tabs w)"
  shows "\<exists>e. fst (PutNativePack c rid pk h cid es w) = Inl e \<and>
    (tabs (snd (PutNativePack c rid pk h cid es w)) = tabs w \<or> err_is e (Fault ''commit''))"
proof -
  let ?row = "\<lparr>n_tenant = T, n_repo = rid, n_pack = pk, n_cas = h, n_commit = nullableText cid, n_count = length es\<rparr>"
  have no: "fst (PutNativePack c rid pk h cid es w) \<noteq> Inr u" for u
  proof
    assume "fst (PutNativePack c rid pk h cid es w) = Inr u"
    then obtain w' where "PutNativePack c rid pk h cid es w = (Inr u, w')" by (metis prod.collapse)
    then obtain n w1 where ins: "insert_npack_nothing ?row (in_tx T w) = (Inr n, w1)"
      and chk: "n = 0 \<Longrightarrow> \<exists>e w2. sql_row ''read existing native pack'' (\<lambda>w. find (\<lambda>r. vis w (n_tenant r) \<and> n_tenant r = T \<and>
          n_repo r = rid \<and> n_pack r = pk) (native_packs (tabs w))) w1 = (Inr e, w2) \<and> textOrEmpty (n_commit e) = cid"
      by (auto simp: PutNativePack_def with_tenant_Some [OF T] stmt_inv split: if_splits elim!: withTenantTx_Inr [OF _ T])
    show False
    proof (cases "n = 0")
      case True
      with chk obtain e where "e \<in> set (native_packs (tabs w1))" "n_tenant e = T" "n_repo e = rid" "textOrEmpty (n_commit e) = cid"
        by (auto simp: sql_row_Inr dest: find_SomeD)
      moreover have "tabs w1 = tabs w" using ins True by (auto simp: insert_npack_nothing_def sql_Inr Let_def split: if_splits)
      ultimately show False
        using refs assms(3,4) by (auto simp: refs_ok_def textOrEmpty_def split: option.splits)
    next
      case False
      with ins assms(3,4) show False
        by (auto simp: insert_npack_nothing_def sql_Inr Let_def nullableText_def split: if_splits)
    qed
  qed
  obtain e where e: "fst (PutNativePack c rid pk h cid es w) = Inl e" using no by (cases "fst (PutNativePack c rid pk h cid es w)") auto
  then have "tabs (snd (PutNativePack c rid pk h cid es w)) = tabs w \<or> err_is e (Fault ''commit'')"
    using store_op_atomic(11) [of c rid pk h cid es] unfolding atomic_op_def by (metis prod.collapse)
  with e show ?thesis by blast
qed

end
