(* ===== verification/Pg_Samples.thy ===== *)
theory Pg_Samples
  imports Pg_Push Pg_Facts
begin

text \<open>
  A concrete database, and the store's properties applied to runs on it: tenant \<open>t\<close> with repository
  \<open>r\<close>, commits \<open>c1\<close> and \<open>c2\<close> (whose parent is \<open>c1\<close>), branch \<open>main\<close> at \<open>c1\<close> and branch \<open>dev\<close> at
  \<open>c2\<close>, and a second tenant \<open>u\<close> with a repository of its own.
\<close>

section \<open>The sample\<close>

definition sample_env :: env where
  "sample_env = \<lparr>env_rls = True, env_fault = (\<lambda>_. False), env_applied = (\<lambda>_. False),
     env_dbclock = (\<lambda>_. 5000000000), env_goclock = (\<lambda>_. 5000000000), env_rand = (\<lambda>_ n. Some (replicate n 171))\<rparr>"

definition sample_commit :: "string \<Rightarrow> commit_row" where
  "sample_commit i = \<lparr>c_id = i, c_tenant = ''t'', c_repo = ''r'', c_root = ''s'', c_format = 1, c_author = ''a'',
     c_message = ''m'', c_time = 0\<rparr>"

definition sample_tabs :: tables where
  "sample_tabs = \<lparr>
     tenants = [\<lparr>t_id = ''t'', t_name = ''t'', t_created = 0, t_quota = 1000, t_used = 0\<rparr>,
                \<lparr>t_id = ''u'', t_name = ''u'', t_created = 0, t_quota = 1000, t_used = 0\<rparr>],
     repositories = [\<lparr>r_id = ''r'', r_tenant = ''t'', r_name = ''r'', r_created = 0, r_default = Some ''main''\<rparr>,
                     \<lparr>r_id = ''q'', r_tenant = ''u'', r_name = ''q'', r_created = 0, r_default = None\<rparr>],
     commits = [sample_commit ''c1'', sample_commit ''c2''],
     commit_parents = [\<lparr>cp_tenant = ''t'', cp_repo = ''r'', cp_commit = ''c2'', cp_pos = 1, cp_parent = ''c1''\<rparr>],
     pack_ranges = [],
     branches = [\<lparr>b_tenant = ''t'', b_repo = ''r'', b_name = ''main'', b_head = ''c1'', b_updated = 0, b_deleted = None\<rparr>,
                 \<lparr>b_tenant = ''t'', b_repo = ''r'', b_name = ''dev'', b_head = ''c2'', b_updated = 0, b_deleted = None\<rparr>],
     merge_leases = [],
     native_packs = [],
     native_objects = [],
     active_txns = [],
     audit_records = [],
     push_txns = [],
     assets = []\<rparr>"

definition sample_db :: db where
  "sample_db = \<lparr>tabs = sample_tabs, guc = None, txnow = 0, calls = 0, env = sample_env\<rparr>"

definition sample_ctx :: ctx where
  "sample_ctx = \<lparr>ctx_err = None, ctx_tenant = Some ''t''\<rparr>"

lemma sample_tenant: "tenantIDFromContext sample_ctx = Some ''t''"
  by code_simp

lemma sample_rls: "env_rls (env sample_db)"
  by code_simp

lemma run_Inr: "fst r = Inr x \<Longrightarrow> r = (Inr x, snd r)"
  by (simp add: prod_eq_iff)

section \<open>Runs\<close>

definition sample_ops :: "pg_op list" where
  "sample_ops = [DoCompareAndSwap sample_ctx ''r'' ''main'' ''c1'' ''c2'', DoDeleteBranch sample_ctx ''r'' ''dev'',
     DoCreateBranch sample_ctx ''q'' ''x'' ''c1'']"

lemma sample_refs: "refs_ok (tabs sample_db)"
  by code_simp

lemma sample_cas: "fst (CompareAndSwapBranchRef sample_ctx ''r'' ''main'' ''c1'' ''c2'' sample_db) = Inr ()"
  by code_simp

theorem pg_tenant_isolation_witness:
  "rows_of ''u'' (tabs (fold (run_pg Inr) sample_ops sample_db)) = rows_of ''u'' (tabs sample_db)"
  by (rule pg_tenant_isolation) (simp add: sample_rls, simp add: sample_ops_def sample_tenant)


theorem pg_error_changes_nothing_witness:
  "tabs (run_pg Inr (DoCompareAndSwap sample_ctx ''r'' ''main'' ''c2'' ''c1'') sample_db) = tabs sample_db"
  by (rule pg_error_changes_nothing [where e = "Pg PgNonFastForward"]; code_simp)

theorem cas_moves_only_expected_witness:
  "head_of sample_db ''t'' ''r'' ''main'' = Some ''c1'' \<and>
   head_of (snd (CompareAndSwapBranchRef sample_ctx ''r'' ''main'' ''c1'' ''c2'' sample_db)) ''t'' ''r'' ''main'' = Some ''c2''"
  using cas_moves_only_expected [OF run_Inr [OF sample_cas] sample_tenant] by simp

text \<open>The merge of \<open>c2\<close> into \<open>main\<close>: a lease, then the merge.\<close>

definition sample_lease_request :: MergeLeaseRequest where
  "sample_lease_request = \<lparr>lq_RepoID = ''r'', lq_TargetBranch = ''main'', lq_Subject = ''sub'', lq_SourceCommitID = ''c2'',
     lq_TargetCommitID = ''c1'', lq_BaseCommitID = ''c1'', lq_Duration = 60000000000\<rparr>"

definition leased_db :: db where
  "leased_db = snd (AcquireMergeLease sample_ctx sample_lease_request sample_db)"

definition sample_token :: string where
  "sample_token = (case fst (AcquireMergeLease sample_ctx sample_lease_request sample_db) of Inl _ \<Rightarrow> '''' | Inr l \<Rightarrow> ml_Token l)"

definition sample_merge :: ApplyMergeRequest where
  "sample_merge = \<lparr>am_RepoID = ''r'', am_TargetBranch = ''main'', am_Subject = ''sub'', am_LeaseToken = sample_token,
     am_SourceCommitID = ''c2'', am_TargetCommitID = ''c1'', am_BaseCommitID = ''c1'', am_ResultCommitID = ''c3'',
     am_SnapshotRoot = ''s3'', am_Author = ''a'', am_Message = ''m'', am_PackHash = ''p3'', am_CommitFormat = 1,
     am_PackFormat = 1, am_CommitTime = 0\<rparr>"

lemma leased: "lease_live leased_db ''t'' ''r'' ''main'' (tx_time leased_db)"
  "lease_live leased_db ''t'' ''r'' ''main'' (tx_time (tick leased_db))"
  by code_simp+

lemma leased_rls: "env_rls (env leased_db)" and leased_refs: "refs_ok (tabs leased_db)"
  by code_simp+

lemma sample_apply: "fst (ApplyMerge sample_ctx sample_merge leased_db) = Inr ()"
  by code_simp

theorem live_lease_is_exclusive_witness:
  "\<forall>w' l. CompareAndSwapBranchRef sample_ctx ''r'' ''main'' ''c1'' ''c2'' leased_db \<noteq> (Inr (), w') \<and>
   AcquireMergeLease sample_ctx sample_lease_request leased_db \<noteq> (Inr l, w')"
  using live_lease_is_exclusive [OF sample_tenant, of leased_db "''r''" "''main''" "''c1''" "''c2''" "()" _ sample_lease_request]
    leased by (simp add: sample_lease_request_def)

theorem apply_merge_authorised_and_whole_witness:
  "head_of (snd (ApplyMerge sample_ctx sample_merge leased_db)) ''t'' ''r'' ''main'' = Some ''c3''"
  using apply_merge_authorised_and_whole [OF run_Inr [OF sample_apply] sample_tenant leased_rls leased_refs]
  by (simp add: sample_merge_def)

section \<open>Pushes\<close>

definition sample_push :: NativePushPublication where
  "sample_push = \<lparr>np_RepoID = ''r'', np_Branch = ''main'', np_IdempotencyKey = ''k'', np_BaseCommit = ''c1'',
     np_TargetCommit = ''c4'', np_Commits = [\<lparr>pc_ID = ''c4'', pc_Commit = \<lparr>cm_Snapshot = ''s4'', cm_Parents = [''c1''],
       cm_Author = ''a'', cm_Message = ''m'', cm_Time = 0\<rparr>, pc_Format = 1\<rparr>]\<rparr>"

lemma sample_publish: "fst (PublishNativePush Inr sample_ctx sample_push sample_db) =
    Inr \<lparr>nr_AlreadyApplied = False, nr_Head = ''c4''\<rparr>"
  by code_simp

definition pushed_db :: db where
  "pushed_db = snd (PublishNativePush Inr sample_ctx sample_push sample_db)"

theorem publish_advances_from_base_witness:
  "head_of sample_db ''t'' ''r'' ''main'' = Some ''c1'' \<and> head_of pushed_db ''t'' ''r'' ''main'' = Some ''c4''"
  unfolding pushed_db_def
  using publish_advances_from_base [OF run_Inr [OF sample_publish] sample_tenant] by (simp add: sample_push_def)

lemma run_env: "env (run_pg nrm p w) = env w"
  using hist.run_pg_kept [where w = w and p = p and nrm = nrm] by (simp add: hist.kept_def)

lemma quiet_after: "env_fault (env (fold (run_pg nrm) ps w)) n = env_fault (env w) n"
  by (induction ps arbitrary: w) (simp_all add: run_env)

lemma pushed_db_run: "env_fault (env pushed_db) n = False"
proof -
  have "pushed_db = run_pg Inr (DoPublishNativePush sample_ctx sample_push) sample_db" by (simp add: pushed_db_def)
  then have "env pushed_db = env sample_db" using run_env [of Inr "DoPublishNativePush sample_ctx sample_push" sample_db] by simp
  then show ?thesis by (simp add: sample_db_def sample_env_def)
qed

theorem publish_retry_is_harmless_witness:
  "fst (PublishNativePush Inr sample_ctx sample_push (fold (run_pg Inr) sample_ops pushed_db)) =
     Inr \<lparr>nr_AlreadyApplied = True, nr_Head = ''c4''\<rparr>"
proof -
  have keys: "push_keys (tabs sample_db)" and valid: "valid_publication sample_push" by code_simp+
  have quiet: "\<forall>i<5. \<not> env_fault (env (fold (run_pg Inr) sample_ops pushed_db)) (calls (fold (run_pg Inr) sample_ops pushed_db) + i)"
    by (simp add: quiet_after pushed_db_run)
  show ?thesis
    using publish_retry_is_harmless [OF run_Inr [OF sample_publish, folded pushed_db_def] sample_tenant keys refl refl refl valid quiet]
    by (simp add: same_claim_def) (simp add: sample_push_def)
qed

text \<open>A native push ignores merge leases. While a live lease holds the branch, a publication advances it, so
  that the holder's merge then fails: \<open>ApplyMerge\<close> is not the only operation that moves a leased branch.\<close>

theorem publish_overrides_a_lease:
  "lease_live leased_db ''t'' ''r'' ''main'' (tx_time leased_db) \<and>
   fst (PublishNativePush Inr sample_ctx sample_push leased_db) = Inr \<lparr>nr_AlreadyApplied = False, nr_Head = ''c4''\<rparr> \<and>
   head_of (snd (PublishNativePush Inr sample_ctx sample_push leased_db)) ''t'' ''r'' ''main'' = Some ''c4'' \<and>
   fst (ApplyMerge sample_ctx sample_merge (snd (PublishNativePush Inr sample_ctx sample_push leased_db))) =
     Inl (Wrapf ''postgres: apply merge'' (Pg PgNonFastForward))"
  using leased(1) by (intro conjI; (assumption | code_simp))

section \<open>The commit graph\<close>

lemma sample_ancestor: "fst (IsAncestor sample_ctx ''r'' ''c1'' ''c2'' sample_db) = Inr True"
  by code_simp

theorem is_ancestor_is_reachability_witness: "is_ancestor_of (tenant_view ''t'' sample_db) ''r'' ''c1'' ''c2''"
  using is_ancestor_is_reachability [OF run_Inr [OF sample_ancestor] sample_tenant] by simp

lemma sample_reads: "commit_exists ''r'' c w = (Inr (c \<in> {''c1'', ''c2''}), tick w)"
  "commitParentIDs ''r'' c w = (Inr (if c = ''c2'' then [''c1''] else []), tick w)"
  if "tabs w = sample_tabs" "env w = sample_env" "guc w = Some ''t''"
  using that
  by (auto simp: commit_exists_def commitParentIDs_def sql_select_def sql_def eff_run find_commit_def parents_of_def vis_def
      sample_tabs_def sample_env_def sample_commit_def)

lemma sample_ancestry: "fst (CommitAncestryIDs sample_ctx ''r'' ''c2'' sample_db) = Inr [''c1'', ''c2'']"
proof -
  have f: "\<not> env_fault sample_env n" for n by (simp add: sample_env_def)
  have q: "\<not> env_fault (env sample_db) n" for n by (simp add: sample_db_def f)
  have s: "tabs sample_db = sample_tabs" "env sample_db = sample_env" by (simp_all add: sample_db_def)
  show ?thesis
    by (simp add: CommitAncestryIDs_def with_tenant_Some [OF sample_tenant] withTenantTx_run [OF sample_tenant q q] sample_reads
        ebind_def eret_def commit_tx_def maxRetentionAncestryCommits_def s f)
qed

theorem commit_ancestry_is_complete_witness:
  "{x. (''c2'', x) \<in> (parent_links (tenant_view ''t'' sample_db) ''r'')\<^sup>*} = {''c1'', ''c2''}"
  using commit_ancestry_is_complete [OF run_Inr [OF sample_ancestry] sample_tenant] by auto

lemma sample_base: "fst (FindLowestCommonAncestor sample_ctx ''r'' ''c2'' ''c1'' sample_db) = Inr ''c1''"
  by code_simp

theorem merge_base_is_nearest_witness:
  "\<exists>ds dt. distance (tenant_view ''t'' sample_db) ''r'' ''c2'' ''c1'' ds \<and> distance (tenant_view ''t'' sample_db) ''r'' ''c1'' ''c1'' dt"
  using merge_base_is_nearest [OF run_Inr [OF sample_base] sample_tenant] by blast

definition ranged_db :: db where
  "ranged_db = sample_db\<lparr>tabs := sample_tabs\<lparr>pack_ranges :=
     [\<lparr>pr_tenant = ''t'', pr_repo = ''r'', pr_hash = ''p1'', pr_format = 2, pr_base = None, pr_target = ''c1''\<rparr>,
      \<lparr>pr_tenant = ''t'', pr_repo = ''r'', pr_hash = ''p2'', pr_format = 2, pr_base = Some ''c1'', pr_target = ''c2''\<rparr>]\<rparr>\<rparr>"

theorem pack_ranges_are_returned_witness:
  "\<exists>rs. fst (GetPackRanges sample_ctx ''r'' ''c2'' '''' ranged_db) = Inr rs"
proof -
  have "range_links (tenant_view ''t'' ranged_db) ''r'' = {(''c2'', ''c1'')}"
    by (auto simp: range_links_def tenant_view_def ranged_db_def vis_def
        intro!: exI [of _ "\<lparr>pr_tenant = ''t'', pr_repo = ''r'', pr_hash = ''p2'', pr_format = 2, pr_base = Some ''c1'', pr_target = ''c2''\<rparr>"])
  then have "acyclic (range_links (tenant_view ''t'' ranged_db) ''r'')"
    by (auto simp: acyclic_def trancl_insert)
  moreover have "\<forall>i<4. \<not> env_fault (env ranged_db) (calls ranged_db + i)"
    by (simp add: ranged_db_def sample_db_def sample_env_def)
  ultimately show ?thesis using pack_ranges_are_returned [OF sample_tenant] by blast
qed

text \<open>\<open>PutPackRange\<close> accepts a range whose base is its target, and \<open>GetPackRanges\<close> then never ends for that head:
  its recursive query does not remember what it has visited, and no number of levels is enough.\<close>

theorem self_based_range_never_ends:
  "fst (PutPackRange sample_ctx ''r'' ''p'' ''c1'' ''c1'' sample_db) = Inr () \<and>
   (\<forall>fuel. pack_chain (tenant_view ''t'' (snd (PutPackRange sample_ctx ''r'' ''p'' ''c1'' ''c1'' sample_db))) ''r'' ''c1'' '''' fuel = None)"
proof
  let ?w = "tenant_view ''t'' (snd (PutPackRange sample_ctx ''r'' ''p'' ''c1'' ''c1'' sample_db))"
  let ?r = "\<lparr>pr_tenant = ''t'', pr_repo = ''r'', pr_hash = ''p'', pr_format = 1, pr_base = Some ''c1'', pr_target = ''c1''\<rparr>"
  show "fst (PutPackRange sample_ctx ''r'' ''p'' ''c1'' ''c1'' sample_db) = Inr ()" by code_simp
  have "pack_ranges (tabs (snd (PutPackRange sample_ctx ''r'' ''p'' ''c1'' ''c1'' sample_db))) = [?r]" by code_simp
  then have "seen_range ?w ''r'' ?r" by (simp add: seen_range_def tenant_view_def vis_def)
  then show "\<forall>fuel. pack_chain ?w ''r'' ''c1'' '''' fuel = None"
    using self_range_loops [of ?w "''r''" ?r "''''"] by (simp add: pack_chain_head head_ranges_seen)
qed

section \<open>Registration, deletion, quotas\<close>

definition sample_commit_node :: commit where
  "sample_commit_node = \<lparr>cm_Snapshot = ''s4'', cm_Parents = [''c1''], cm_Author = ''a'', cm_Message = ''m'', cm_Time = 0\<rparr>"

lemma sample_put: "fst (PutCommitWithFormat Inr sample_ctx ''r'' ''c4'' sample_commit_node 2 sample_db) = Inr ()"
  by code_simp

theorem put_commit_reads_back_witness:
  "\<exists>r. commit_view ''t'' (snd (PutCommitWithFormat Inr sample_ctx ''r'' ''c4'' sample_commit_node 2 sample_db)) ''r'' ''c4'' =
    Some (r, [''c1''])"
  using put_commit_reads_back [OF run_Inr [OF sample_put] sample_tenant sample_rls sample_refs]
  by (auto simp: sample_commit_node_def)

lemma sample_delete: "fst (DeleteBranch sample_ctx ''r'' ''dev'' sample_db) = Inr ()"
  by code_simp

theorem delete_branch_keeps_history_witness:
  "head_of (snd (DeleteBranch sample_ctx ''r'' ''dev'' sample_db)) ''t'' ''r'' ''dev'' = head_of sample_db ''t'' ''r'' ''dev''"
  using delete_branch_keeps_history [OF run_Inr [OF sample_delete] sample_tenant] by simp

definition sample_repo_id :: string where
  "sample_repo_id = ''00000000-0000-4000-8000-000000000000''"

theorem admission_is_exact_until_overflow_witness:
  "fst (AdmitAssetUpload sample_ctx sample_repo_id ''h'' 1001 sample_db) = Inl (Pg ErrQuotaExceeded) \<and>
   fst (AdmitAssetUpload sample_ctx sample_repo_id ''h'' 9223372036854775807
     (sample_db\<lparr>tabs := sample_tabs\<lparr>tenants := [\<lparr>t_id = ''t'', t_name = ''t'', t_created = 0, t_quota = 1000, t_used = 1\<rparr>]\<rparr>\<rparr>)) = Inr ()"
proof -
  let ?w = "sample_db\<lparr>tabs := sample_tabs\<lparr>tenants := [\<lparr>t_id = ''t'', t_name = ''t'', t_created = 0, t_quota = 1000, t_used = 1\<rparr>]\<rparr>\<rparr>"
  have q: "\<forall>i<5. \<not> env_fault (env sample_db) (calls sample_db + i)" "\<forall>i<5. \<not> env_fault (env ?w) (calls ?w + i)"
    by (simp_all add: sample_db_def sample_env_def)
  have u: "uuidV4Pattern sample_repo_id" by code_simp
  have r: "tenant_row_of sample_db ''t'' = Some \<lparr>t_id = ''t'', t_name = ''t'', t_created = 0, t_quota = 1000, t_used = 0\<rparr>"
    "tenant_row_of ?w ''t'' = Some \<lparr>t_id = ''t'', t_name = ''t'', t_created = 0, t_quota = 1000, t_used = 1\<rparr>"
    by code_simp+
  have n: "\<not> list_ex (\<lambda>a. s_tenant a = ''t'' \<and> s_repo a = sample_repo_id \<and> s_hash a = ''h'') (assets (tabs sample_db))"
    "\<not> list_ex (\<lambda>a. s_tenant a = ''t'' \<and> s_repo a = sample_repo_id \<and> s_hash a = ''h'') (assets (tabs ?w))" by code_simp+
  show ?thesis
    using admission_is_exact_until_overflow [OF sample_tenant q(1) u r(1) n(1), of 1001]
      admission_is_exact_until_overflow [OF sample_tenant q(2) u r(2) n(2), of 9223372036854775807]
    by (simp add: exceeds_def)
qed

theorem tenant_directory_is_blind_witness:
  "fst (ListTenants sample_db) \<in> {Inr [], Inl (Wrapf ''postgres: list tenants'' (Fault ''list tenants''))}"
  using tenant_directory_is_blind [OF sample_rls] by (simp add: sample_db_def)

theorem native_pack_needs_its_commit_witness:
  "\<exists>e. fst (PutNativePack sample_ctx ''r'' ''p'' ''h'' ''c9'' [] sample_db) = Inl e"
proof -
  have "\<not> has_commit (tabs sample_db) ''t'' ''r'' ''c9''" by code_simp
  with native_pack_needs_its_commit [OF sample_tenant sample_rls _ _ sample_refs, of "''c9''" "''r''" "''p''" "''h''" "[]"]
  show ?thesis by auto
qed

end
