(* ===== verification/Cas_Content.thy ===== *)
theory Cas_Content
  imports Cas_Store
begin

text \<open>
  The content-addressed store as its clients see it, packs, objects and assets together: the contract
  \<open>content_store\<close> and its interpretation on the local driver.
\<close>

locale content_store = pack_store drv pk H enc dec
  for drv :: "'w cas_driver" and pk :: "'w \<Rightarrow> scope \<Rightarrow> string \<Rightarrow> bytes option"
    and H :: "bytes \<Rightarrow> string" and enc :: "bytes \<Rightarrow> bytes" and dec :: "bytes \<Rightarrow> reader" +
  fixes ob :: "'w \<Rightarrow> scope \<Rightarrow> string \<Rightarrow> bytes option" and at :: "'w \<Rightarrow> scope \<Rightarrow> string \<Rightarrow> bytes option"
  assumes put_ok: "drv_Put drv c sc h b w = (Inr u, w') \<Longrightarrow> h = H b \<and> (ob w sc h = None \<longrightarrow> ob w' sc h = Some b) \<and> ob w' sc h \<noteq> None"
    and put_keeps: "ob w sc' h' = Some b' \<Longrightarrow> ob (snd (drv_Put drv c sc h b w)) sc' h' = Some b'"
      "at w sc' h' = Some b' \<Longrightarrow> at (snd (drv_Put drv c sc h b w)) sc' h' = Some b'"
    and get_ok: "drv_Get drv c sc h w = (Inr b, w') \<Longrightarrow> ob w sc h = Some b \<and> h = H b"
    and get_keeps: "ob (snd (drv_Get drv c sc h w)) = ob w" "at (snd (drv_Get drv c sc h w)) = at w"
    and exists_ok: "drv_AssetExists drv c sc h w = (Inr True, w') \<Longrightarrow> at w sc h \<noteq> None"
    and exists_keeps: "ob (snd (drv_AssetExists drv c sc h w)) = ob w" "at (snd (drv_AssetExists drv c sc h w)) = at w"
    and pack_keeps: "ob w sc' h' = Some b' \<Longrightarrow> ob (snd (drv_WritePack drv c sc h r w)) sc' h' = Some b'"
      "at w sc' h' = Some b' \<Longrightarrow> at (snd (drv_WritePack drv c sc h r w)) sc' h' = Some b'"

definition local_object :: "cas_ext \<Rightarrow> path \<Rightarrow> fs \<Rightarrow> scope \<Rightarrow> string \<Rightarrow> bytes option" where
  "local_object x d w sc h = fs_files w (object_file x d sc h)"

definition local_asset :: "cas_ext \<Rightarrow> path \<Rightarrow> fs \<Rightarrow> scope \<Rightarrow> string \<Rightarrow> bytes option" where
  "local_asset x d w sc h = (case canonicalHashString h of
       Inl _ \<Rightarrow> None | Inr c \<Rightarrow> fs_files w (asset_file x d sc c))"

lemma Put_keeps:
  assumes "fs_files w q = Some f"
  shows "fs_files (snd (Put x d ctx sc h b w)) q = Some f"
  using fwp_any [OF Put_fwp [of x d ctx sc h b "fs_files w"]] assms
  by (auto dest: left_by_keeps split: prod.splits sum.splits if_splits)

lemma Get_files: "fs_files (snd (Get x d ctx sc h w)) = fs_files w"
  using fwp_any [OF Get_fwp [of x d ctx sc h "fs_files w"]] by (auto split: prod.splits sum.splits)

lemma AssetExists_fwp:
  "fwp (AssetExists x d ctx sc h)
     (\<lambda>b F'. F' = F \<and> (b \<longrightarrow> (\<exists>c. canonicalHashString h = Inr c \<and> F (asset_file x d sc c) \<noteq> None))) (\<lambda>e F'. F' = F) F"
proof (cases "validateHash h")
  case (Inl e)
  then show ?thesis unfolding AssetExists_def
    by (intro fwp_ebind [of "ctx_check ctx"] fwp_ctx_check fwp_ebind_lift) auto
next
  case (Inr u)
  obtain c where c: "canonicalHashString h = Inr c" "assetPath (blake3 x) d sc h = Inr (asset_file x d sc c)"
    using validateHash_paths [OF Inr [unfolded unit_all_eq1], of x d sc] by auto
  show ?thesis unfolding AssetExists_def c(2)
    by (intro fwp_ebind [of "ctx_check ctx"] fwp_ctx_check fwp_ebind_lift fwp_stat_case) (auto intro!: fwp_intro simp: c)
qed

lemma AssetExists_files: "fs_files (snd (AssetExists x d ctx sc h w)) = fs_files w"
  using fwp_any [OF AssetExists_fwp [of x d ctx sc h "fs_files w"]] by (auto split: prod.splits sum.splits)

lemmas local_views = local_object_def local_asset_def local_driver_def

interpretation local: content_store "local_driver x d" "local_pack x d" "\<lambda>b. hex_encode (blake3 x b)"
    "zstd_encode x" "zstd_decode x" "local_object x d" "local_asset x d"
  for x d
proof
  show "h = hex_encode (blake3 x b) \<and> (local_object x d w sc h = None \<longrightarrow> local_object x d w' sc h = Some b) \<and> local_object x d w' sc h \<noteq> None"
    if "drv_Put (local_driver x d) c sc h b w = (Inr u, w')" for c sc h b w u w'
  proof -
    have run: "Put x d c sc h b w = (Inr u, w')" using that by (simp add: local_driver_def)
    show ?thesis using fwp_run [OF Put_fwp run] by (auto simp: local_object_def)
  qed
  show "local_object x d w sc h = Some b \<and> h = hex_encode (blake3 x b)"
    if "drv_Get (local_driver x d) c sc h w = (Inr b, w')" for c sc h w b w'
  proof -
    have run: "Get x d c sc h w = (Inr b, w')" using that by (simp add: local_driver_def)
    show ?thesis using fwp_run [OF Get_fwp run] by (auto simp: local_object_def)
  qed
  show "local_asset x d w sc h \<noteq> None" if "drv_AssetExists (local_driver x d) c sc h w = (Inr True, w')" for c sc h w w'
  proof -
    have run: "AssetExists x d c sc h w = (Inr True, w')" using that by (simp add: local_driver_def)
    show ?thesis using fwp_run [OF AssetExists_fwp run] by (auto simp: local_asset_def)
  qed
qed (auto simp: local_views Put_keeps Get_files AssetExists_files WritePack_keeps split: sum.splits intro!: ext)

end
