(* ===== verification/Go_Text.thy ===== *)
theory Go_Text
  imports Rack_Prelude
begin

text \<open>
  The functions of Go's \<open>strings\<close> and \<open>bytes\<close> packages the code uses on identifiers and text:
  \<open>TrimSpace\<close>, \<open>TrimPrefix\<close>, \<open>ToLower\<close>, \<open>HasPrefix\<close>, \<open>Contains\<close> and \<open>Join\<close>.
\<close>

section \<open>White space\<close>

text \<open>The encodings of the code points \<open>unicode.IsSpace\<close> accepts, as the bytes of a UTF-8 string.\<close>

definition go_spaces :: "string list" where
  "go_spaces = map (map char_of)
     ([[9], [10], [11], [12], [13], [32], [0xC2, 0x85], [0xC2, 0xA0], [0xE1, 0x9A, 0x80]] @
      map (\<lambda>n. [0xE2, 0x80, n]) [0x80, 0x81, 0x82, 0x83, 0x84, 0x85, 0x86, 0x87, 0x88, 0x89, 0x8A, 0xA8, 0xA9, 0xAF] @
      [[0xE2, 0x81, 0x9F], [0xE3, 0x80, 0x80 :: nat]])"

text \<open>Drop leading elements of \<open>sp\<close> as long as there is one.\<close>

function trim_left :: "string list \<Rightarrow> string \<Rightarrow> string" where
  "trim_left sp s =
     (case find (\<lambda>p. p \<noteq> [] \<and> take (length p) s = p) sp of
        None \<Rightarrow> s
      | Some p \<Rightarrow> trim_left sp (drop (length p) s))"
  by pat_completeness auto

termination
proof (relation "measure (\<lambda>(sp, s). length s)", goal_cases)
  case (2 sp s p)
  then have "p \<noteq> []" and "take (length p) s = p" by (auto dest: find_SomeD)
  then have "s \<noteq> []" by auto
  with \<open>p \<noteq> []\<close> show ?case by simp
qed simp

declare trim_left.simps [simp del]

lemma trim_left_None: "find (\<lambda>p. p \<noteq> [] \<and> take (length p) s = p) sp = None \<Longrightarrow> trim_left sp s = s"
  by (simp add: trim_left.simps del: find_eq_None)

lemma trim_left_Some:
  "find (\<lambda>p. p \<noteq> [] \<and> take (length p) s = p) sp = Some p \<Longrightarrow> trim_left sp s = trim_left sp (drop (length p) s)"
  by (subst trim_left.simps) (simp del: find_eq_None)

definition TrimSpace :: "string \<Rightarrow> string" where
  "TrimSpace s = rev (trim_left (map rev go_spaces) (rev (trim_left go_spaces s)))"

lemma trim_left_suffix: "\<exists>p. s = p @ trim_left sp s"
proof (induction sp s rule: trim_left.induct)
  case (1 sp s)
  show ?case
  proof (cases "find (\<lambda>p. p \<noteq> [] \<and> take (length p) s = p) sp")
    case None
    then show ?thesis by (simp add: trim_left_None del: find_eq_None)
  next
    case (Some p)
    with 1 obtain q where "drop (length p) s = q @ trim_left sp (drop (length p) s)" by auto
    then have "s = (take (length p) s @ q) @ trim_left sp (drop (length p) s)"
      by (metis append.assoc append_take_drop_id)
    then show ?thesis unfolding trim_left_Some [OF Some] by (rule exI)
  qed
qed

text \<open>Nothing is left to trim, so trimming again changes nothing.\<close>

lemma trim_left_done: "find (\<lambda>p. p \<noteq> [] \<and> take (length p) (trim_left sp s) = p) sp = None"
proof (induction sp s rule: trim_left.induct)
  case (1 sp s)
  show ?case
  proof (cases "find (\<lambda>p. p \<noteq> [] \<and> take (length p) s = p) sp")
    case None
    then show ?thesis by (simp only: trim_left_None)
  next
    case (Some p)
    then show ?thesis using 1 by (simp only: trim_left_Some)
  qed
qed

lemma trim_left_idem: "trim_left sp (trim_left sp s) = trim_left sp s"
  by (rule trim_left_None [OF trim_left_done])

section \<open>Prefixes, case, substrings\<close>

definition HasPrefix :: "string \<Rightarrow> string \<Rightarrow> bool" where
  "HasPrefix s p \<longleftrightarrow> take (length p) s = p"

definition TrimPrefix :: "string \<Rightarrow> string \<Rightarrow> string" where
  "TrimPrefix s p = (if HasPrefix s p then drop (length p) s else s)"

text \<open>Letters outside ASCII are left as they are; what the code lowers is a hexadecimal name, and no letter
  outside ASCII has a hexadecimal digit for its lower case.\<close>

definition lower_char :: "char \<Rightarrow> char" where
  "lower_char c = (if CHR ''A'' \<le> c \<and> c \<le> CHR ''Z'' then char_of (of_char c + 32 :: nat) else c)"

definition ToLower :: "string \<Rightarrow> string" where
  "ToLower = map lower_char"

fun Contains :: "string \<Rightarrow> string \<Rightarrow> bool" where
  "Contains [] p = (p = [])"
| "Contains (c # s) p = (HasPrefix (c # s) p \<or> Contains s p)"

fun Join :: "string list \<Rightarrow> string \<Rightarrow> string" where
  "Join [] sep = []"
| "Join [s] sep = s"
| "Join (s # t # ss) sep = s @ sep @ Join (t # ss) sep"

end
