(* ===== verification/Graph_Types.thy ===== *)
theory Graph_Types
  imports Go_Text "HOL-Library.Finite_Map"
begin

text \<open>
  The graph values of the contract library as the server sees them. Only the fields the server
  reads are named; the rest of a value is the opaque field \<open>..._rest\<close>, which takes part in
  \<open>reflect.DeepEqual\<close> (equality here) and in nothing else. A Go map or slice that may be nil is an
  option: \<open>nil\<close> and an empty map read alike but are not deeply equal.
\<close>

datatype PropertyKind = PropertyString | PropertyOther nat

record PropertyValue =
  pv_Kind :: PropertyKind  pv_String :: string  pv_rest :: string

type_synonym 'a go_map = "(string, 'a) fmap option"

type_synonym properties = "PropertyValue go_map"

record Node =
  nd_ID :: string  nd_Title :: string  nd_Labels :: "string list option"  nd_Properties :: properties
  nd_rest :: string

record Edge =
  ed_ID :: string  ed_Source :: string  ed_Target :: string  ed_Type :: string  ed_Properties :: properties
  ed_rest :: string

record SchemaSnapshot =
  ss_data :: string

record SchemaViolation =
  sv_Code :: string  sv_rest :: string

text \<open>Reading a map: \<open>nil\<close> has no keys.\<close>

definition entries :: "'a go_map \<Rightarrow> (string, 'a) fmap" where
  "entries m = (case m of None \<Rightarrow> fmempty | Some f \<Rightarrow> f)"

definition lookup :: "'a go_map \<Rightarrow> string \<Rightarrow> 'a option" where
  "lookup m k = fmlookup (entries m) k"

lemma entries_simps [simp]: "entries None = fmempty" "entries (Some f) = f"
  by (simp_all add: entries_def)

lemma lookup_simps [simp]: "lookup None k = None" "lookup (Some f) k = fmlookup f k"
  by (simp_all add: lookup_def)

text \<open>The keys of several maps, each once, in order.\<close>

definition sorted_keys :: "(string, 'a) fmap list \<Rightarrow> string list" where
  "sorted_keys ms = sorted_list_of_set (\<Union>m \<in> set ms. fset (fmdom m))"

lemma sorted_keys_set [simp]: "set (sorted_keys ms) = (\<Union>m \<in> set ms. fset (fmdom m))"
  by (simp add: sorted_keys_def)

lemma sorted_keys_distinct [simp]: "distinct (sorted_keys ms)"
  by (simp add: sorted_keys_def)

end
