(* ===== verification/Sync_Frame.thy ===== *)
theory Sync_Frame
  imports Cas_Store Pg_Store Graph_Types
begin

text \<open>
  The pack frames of push and pull (\<open>internal/server/sync/framing.go\<close>): commit identities, commit
  frames, and the validation of version 2 frames (a chain of first parents from base to target) and
  version 3 frames (a set of commits). The contract library, canonical CBOR and BLAKE3 are the
  parameter \<open>x\<close>; what \<open>%v\<close> prints of an inner error is left out, what \<open>%w\<close> wraps is kept.
\<close>

section \<open>Types\<close>

record CommitIdentity =
  ci_Format :: uint32  ci_ID :: string

record CommitFrameV2 =
  cf_Version :: uint32  cf_Parents :: "CommitIdentity list"  cf_SnapshotRoot :: string
  cf_Author :: string  cf_Message :: string  cf_Time :: int

record PackObjectV2 =
  po_ID :: string  po_Data :: bytes

text \<open>\<open>PackFrameV2\<close> and \<open>PackFrameV3\<close> have the same fields, and the code converts one to the other.\<close>

record PackFrame =
  pf_Version :: uint32  pf_Base :: CommitIdentity  pf_Target :: CommitIdentity
  pf_Commits :: "CommitFrameV2 list"  pf_Objects :: "PackObjectV2 list"

text \<open>
  The libraries: \<open>graphcontract.NewCommit\<close>, \<open>MarshalCommit\<close> and \<open>Commit.Equal\<close>, BLAKE3, canonical CBOR of a
  frame, and the nodes CBOR finds in a snapshot, in the order the runtime enumerates them.
\<close>

record contract_lib =
  gc_NewCommit :: "string \<Rightarrow> string list \<Rightarrow> string \<Rightarrow> string \<Rightarrow> int \<Rightarrow> goerr + commit"
  gc_MarshalCommit :: "commit \<Rightarrow> goerr + bytes"
  gc_Equal :: "commit \<Rightarrow> commit \<Rightarrow> bool"
  blake3_sum :: "bytes \<Rightarrow> bytes"
  cbor_enc_pack :: "PackFrame \<Rightarrow> goerr + bytes"
  cbor_dec_pack :: "bytes \<Rightarrow> goerr + PackFrame"
  cbor_nodes :: "bytes \<Rightarrow> Node list option"

definition MaxV2PackBytes :: nat where "MaxV2PackBytes = 67108864"
definition CommitFormatLegacy :: uint32 where "CommitFormatLegacy = 1"
definition CommitFormatV2 :: uint32 where "CommitFormatV2 = 2"
definition PackFormatV2 :: uint32 where "PackFormatV2 = 2"
definition PackFormatV3 :: uint32 where "PackFormatV3 = 3"

section \<open>Identities\<close>

definition LegacyCommitIdentity :: "string \<Rightarrow> CommitIdentity" where
  "LegacyCommitIdentity i = \<lparr>ci_Format = CommitFormatLegacy, ci_ID = i\<rparr>"

definition V2CommitIdentity :: "string \<Rightarrow> CommitIdentity" where
  "V2CommitIdentity i = \<lparr>ci_Format = CommitFormatV2, ci_ID = i\<rparr>"

text \<open>The lower-case BLAKE3-256 digest.\<close>

definition ContentID :: "contract_lib \<Rightarrow> bytes \<Rightarrow> string" where
  "ContentID x data = hex_encode (blake3_sum x data)"

definition validContentID :: "string \<Rightarrow> bool" where
  "validContentID i \<longleftrightarrow> length i = 64 \<and> (case hex_decode i of None \<Rightarrow> False | Some d \<Rightarrow> hex_encode d = i)"

definition invalid_frame :: "string \<Rightarrow> goerr" where
  "invalid_frame msg = Wrapf msg (Sync ErrInvalidFrame)"

text \<open>\<open>fmt.Errorf("%w: ...: %v", ErrInvalidFrame, err)\<close>\<close>

definition as_invalid :: "string \<Rightarrow> goerr + 'a \<Rightarrow> goerr + 'a" where
  "as_invalid msg = rwrap (\<lambda>_. invalid_frame msg)"

definition identity_Validate :: "CommitIdentity \<Rightarrow> goerr + unit" where
  "identity_Validate i =
     (if ci_ID i = '''' then Inl (invalid_frame ''commit ID is required'')
      else if ci_Format i \<noteq> CommitFormatLegacy \<and> ci_Format i \<noteq> CommitFormatV2 then Inl (invalid_frame ''unsupported commit format'')
      else if ci_Format i = CommitFormatV2 \<and> \<not> validContentID (ci_ID i)
           then Inl (invalid_frame ''v2 commit ID must be a BLAKE3-256 content ID'')
      else Inr ())"

definition frame_Commit :: "contract_lib \<Rightarrow> CommitFrameV2 \<Rightarrow> goerr + commit" where
  "frame_Commit x f =
     rbind (rfor (cf_Parents f) (\<lambda>p. as_invalid ''parent'' (identity_Validate p))) (\<lambda>_.
     gc_NewCommit x (cf_SnapshotRoot f) (map ci_ID (cf_Parents f)) (cf_Author f) (cf_Message f) (cf_Time f))"

definition CommitObjectID :: "contract_lib \<Rightarrow> commit \<Rightarrow> goerr + string" where
  "CommitObjectID x cm = rbind (gc_MarshalCommit x cm) (\<lambda>data. Inr (ContentID x data))"

definition frame_Identity :: "contract_lib \<Rightarrow> CommitFrameV2 \<Rightarrow> goerr + CommitIdentity" where
  "frame_Identity x f = rbind (frame_Commit x f) (\<lambda>cm. rbind (CommitObjectID x cm) (\<lambda>i. Inr (V2CommitIdentity i)))"

section \<open>Validation\<close>

text \<open>\<open>f.Base.ID != "" || f.Base.Format != 0\<close>\<close>

definition no_base :: CommitIdentity where
  "no_base = \<lparr>ci_Format = 0, ci_ID = ''''\<rparr>"

definition check_ends :: "PackFrame \<Rightarrow> goerr + unit" where
  "check_ends f =
     rbind (if pf_Base f = no_base then Inr () else as_invalid ''base commit'' (identity_Validate (pf_Base f))) (\<lambda>_.
     rbind (as_invalid ''target commit'' (identity_Validate (pf_Target f))) (\<lambda>_.
     rassert (pf_Commits f \<noteq> []) (invalid_frame ''advancing pack must contain a commit frame'')))"

text \<open>The loop over the commits of a version 2 frame: each continues the chain of first parents.\<close>

fun first_parent_chain :: "contract_lib \<Rightarrow> bool \<Rightarrow> CommitIdentity \<Rightarrow> CommitFrameV2 list \<Rightarrow> goerr + CommitIdentity" where
  "first_parent_chain x first previous [] = Inr previous"
| "first_parent_chain x first previous (c # cs) =
     rbind (as_invalid ''commit'' (frame_Commit x c)) (\<lambda>_.
     if cf_Parents c = [] then
       (if first \<and> previous = no_base
        then rbind (frame_Identity x c) (\<lambda>i. first_parent_chain x False i cs)
        else Inl (invalid_frame ''commit does not continue the first-parent pack range''))
     else if hd (cf_Parents c) \<noteq> previous
       then Inl (invalid_frame ''commit does not continue the first-parent pack range'')
     else rbind (frame_Identity x c) (\<lambda>i. first_parent_chain x False i cs))"

fun check_objects :: "contract_lib \<Rightarrow> string list \<Rightarrow> PackObjectV2 list \<Rightarrow> goerr + string list" where
  "check_objects x seen [] = Inr seen"
| "check_objects x seen (ob # obs) =
     (if \<not> validContentID (po_ID ob) then Inl (invalid_frame ''object has invalid content ID'')
      else if ContentID x (po_Data ob) \<noteq> po_ID ob then Inl (invalid_frame ''object content ID mismatch'')
      else if po_ID ob \<in> set seen then Inl (invalid_frame ''duplicate object'')
      else check_objects x (po_ID ob # seen) obs)"

definition check_snapshots :: "contract_lib \<Rightarrow> string list \<Rightarrow> CommitFrameV2 list \<Rightarrow> goerr + unit" where
  "check_snapshots x seen cs = rfor cs (\<lambda>c.
     if cf_SnapshotRoot c \<in> set seen then Inr ()
     else rbind (frame_Identity x c) (\<lambda>_. Inl (invalid_frame ''commit snapshot is not available in the pack'')))"

definition validate_v2 :: "contract_lib \<Rightarrow> PackFrame \<Rightarrow> goerr + unit" where
  "validate_v2 x f =
     rbind (rassert (pf_Version f = PackFormatV2) (invalid_frame ''unsupported pack frame version'')) (\<lambda>_.
     rbind (check_ends f) (\<lambda>_.
     rbind (first_parent_chain x True (pf_Base f) (pf_Commits f)) (\<lambda>last_id.
     rbind (rassert (last_id = pf_Target f) (invalid_frame ''target does not name the final commit frame'')) (\<lambda>_.
     rbind (check_objects x [] (pf_Objects f)) (\<lambda>seen.
     check_snapshots x seen (pf_Commits f))))))"

text \<open>The loop over the commits of a version 3 frame.\<close>

fun distinct_commits :: "contract_lib \<Rightarrow> bool \<Rightarrow> string list \<Rightarrow> CommitFrameV2 list \<Rightarrow> goerr + unit" where
  "distinct_commits x based seen [] = Inr ()"
| "distinct_commits x based seen (c # cs) =
     rbind (as_invalid ''commit'' (frame_Commit x c)) (\<lambda>_.
     rbind (frame_Identity x c) (\<lambda>i.
     if ci_ID i \<in> set seen then Inl (invalid_frame ''duplicate commit'')
     else if cf_Parents c = [] \<and> based then Inl (invalid_frame ''commit has no parents in an advancing pack'')
     else rbind (rfor (cf_Parents c) (\<lambda>p. as_invalid ''commit parent'' (identity_Validate p))) (\<lambda>_.
       distinct_commits x based (ci_ID i # seen) cs)))"

definition validate_v3 :: "contract_lib \<Rightarrow> PackFrame \<Rightarrow> goerr + unit" where
  "validate_v3 x f =
     rbind (rassert (pf_Version f = PackFormatV3) (invalid_frame ''unsupported pack frame version'')) (\<lambda>_.
     rbind (check_ends f) (\<lambda>_.
     rbind (distinct_commits x (ci_ID (pf_Base f) \<noteq> '''') (if ci_ID (pf_Base f) \<noteq> '''' then [ci_ID (pf_Base f)] else []) (pf_Commits f)) (\<lambda>_.
     rbind (frame_Identity x (last (pf_Commits f))) (\<lambda>lastIdentity.
     rbind (rassert (lastIdentity = pf_Target f) (invalid_frame ''target does not name the final commit frame'')) (\<lambda>_.
     rbind (check_objects x [] (pf_Objects f)) (\<lambda>seen.
     check_snapshots x seen (pf_Commits f)))))))"

section \<open>Encoding\<close>

definition invalid_canonical :: "string \<Rightarrow> goerr" where
  "invalid_canonical msg = Wrapf msg (Sync ErrInvalidCanonicalFrame)"

definition marshal_frame :: "(PackFrame \<Rightarrow> goerr + unit) \<Rightarrow> contract_lib \<Rightarrow> PackFrame \<Rightarrow> goerr + bytes" where
  "marshal_frame validate x f =
     rbind (validate f) (\<lambda>_.
     rbind (as_invalid ''encode pack'' (cbor_enc_pack x f)) (\<lambda>data.
     if length data > MaxV2PackBytes then Inl (invalid_frame ''pack exceeds byte limit'') else Inr data))"

definition unmarshal_frame :: "(PackFrame \<Rightarrow> goerr + unit) \<Rightarrow> contract_lib \<Rightarrow> bytes \<Rightarrow> goerr + PackFrame" where
  "unmarshal_frame validate x data =
     (if length data > MaxV2PackBytes then Inl (invalid_canonical ''pack exceeds byte limit'')
      else rbind (rwrap (\<lambda>_. invalid_canonical ''decode pack'') (cbor_dec_pack x data)) (\<lambda>f.
           rbind (marshal_frame validate x f) (\<lambda>canonical.
           if data \<noteq> canonical then Inl (invalid_canonical ''object is not canonically encoded'') else Inr f)))"

definition MarshalPackFrameV2 :: "contract_lib \<Rightarrow> PackFrame \<Rightarrow> goerr + bytes" where
  "MarshalPackFrameV2 x = marshal_frame (validate_v2 x) x"

definition UnmarshalPackFrameV2 :: "contract_lib \<Rightarrow> bytes \<Rightarrow> goerr + PackFrame" where
  "UnmarshalPackFrameV2 x = unmarshal_frame (validate_v2 x) x"

definition MarshalPackFrameV3 :: "contract_lib \<Rightarrow> PackFrame \<Rightarrow> goerr + bytes" where
  "MarshalPackFrameV3 x = marshal_frame (validate_v3 x) x"

definition UnmarshalPackFrameV3 :: "contract_lib \<Rightarrow> bytes \<Rightarrow> goerr + PackFrame" where
  "UnmarshalPackFrameV3 x = unmarshal_frame (validate_v3 x) x"

text \<open>What push and pull do with the bytes of a pack of a given format.\<close>

definition unmarshal_pack :: "contract_lib \<Rightarrow> uint32 \<Rightarrow> bytes \<Rightarrow> goerr + PackFrame" where
  "unmarshal_pack x format data = (if format = PackFormatV3 then UnmarshalPackFrameV3 x data else UnmarshalPackFrameV2 x data)"

text \<open>\<open>sort.Slice\<close> by identifier; with distinct identifiers the result is determined.\<close>

definition SortPackObjects :: "PackObjectV2 list \<Rightarrow> PackObjectV2 list" where
  "SortPackObjects = sort_key po_ID"

end
