(* ===== verification/Sync_Push.thy ===== *)
theory Sync_Push
  imports Sync_Frame Pg_Merge
begin

text \<open>
  \<open>PushEngine\<close> (\<open>internal/server/sync/push.go\<close>): the pack is validated and stored before any metadata is
  touched, then its commits and its range are registered, and last the branch is created or moved by
  compare and swap. The engine runs over the interfaces \<open>cas.Driver\<close> and \<open>BranchStore\<close>; the optional
  interfaces the code tests for by type assertion are options.
\<close>

section \<open>Interfaces and requests\<close>

record 'w branch_store =
  bs_SetTenantContext :: "ctx \<Rightarrow> string \<Rightarrow> goerr + ctx"
  bs_PutCommit :: "ctx \<Rightarrow> string \<Rightarrow> string \<Rightarrow> commit \<Rightarrow> ('w, unit) eff"
  bs_PutPackRange :: "ctx \<Rightarrow> string \<Rightarrow> string \<Rightarrow> string \<Rightarrow> string \<Rightarrow> ('w, unit) eff"
  bs_GetCommitMetadata :: "ctx \<Rightarrow> string \<Rightarrow> string \<Rightarrow> ('w, CommitMetadata) eff"
  bs_GetBranchRef :: "ctx \<Rightarrow> string \<Rightarrow> string \<Rightarrow> ('w, string) eff"
  bs_IsAncestor :: "ctx \<Rightarrow> string \<Rightarrow> string \<Rightarrow> string \<Rightarrow> ('w, bool) eff"
  bs_GetPackRanges :: "ctx \<Rightarrow> string \<Rightarrow> string \<Rightarrow> string \<Rightarrow> ('w, PackRange list) eff"
  bs_CompareAndSwapBranchRef :: "ctx \<Rightarrow> string \<Rightarrow> string \<Rightarrow> string \<Rightarrow> string \<Rightarrow> ('w, unit) eff"
  bs_PutCommitWithFormat :: "(ctx \<Rightarrow> string \<Rightarrow> string \<Rightarrow> commit \<Rightarrow> uint32 \<Rightarrow> ('w, unit) eff) option"
  bs_PutPackRangeWithFormat :: "(ctx \<Rightarrow> string \<Rightarrow> string \<Rightarrow> string \<Rightarrow> string \<Rightarrow> uint32 \<Rightarrow> ('w, unit) eff) option"
  bs_CreateBranch :: "(ctx \<Rightarrow> string \<Rightarrow> string \<Rightarrow> string \<Rightarrow> ('w, unit) eff) option"

record CommitRecord =
  cr_ID :: string  cr_Commit :: commit

record PushRequest =
  pq_TenantID :: string  pq_RepoID :: string  pq_Branch :: string  pq_TargetCommit :: string
  pq_BaseCommit :: string  pq_Commits :: "CommitRecord list"  pq_PackHash :: string  pq_PackFormat :: uint32
  pq_PackStream :: "reader option"

record 'w push_engine =
  pe_driver :: "'w cas_driver"
  pe_store :: "'w branch_store"
  pe_validator :: "(bytes \<Rightarrow> goerr + unit) option"
  pe_min :: uint32

text \<open>The constructor takes its validator as a variadic argument and uses the first.\<close>

definition NewPushEngine :: "'w cas_driver \<Rightarrow> 'w branch_store \<Rightarrow> (bytes \<Rightarrow> goerr + unit) list \<Rightarrow> 'w push_engine" where
  "NewPushEngine drv st vs = \<lparr>pe_driver = drv, pe_store = st,
     pe_validator = (case vs of [] \<Rightarrow> None | v # _ \<Rightarrow> Some v), pe_min = PackFormatV2\<rparr>"

definition SetMinPackFormatVersion :: "uint32 \<Rightarrow> 'w push_engine \<Rightarrow> 'w push_engine" where
  "SetMinPackFormatVersion m e = (if m = 0 \<or> m > PackFormatV2 then e else e\<lparr>pe_min := m\<rparr>)"

section \<open>Validation\<close>

definition normalizePackFormat :: "uint32 \<Rightarrow> uint32" where
  "normalizePackFormat f = (if f = 0 then PackFormatV2 else f)"

definition validateCommitRecord :: "contract_lib \<Rightarrow> CommitRecord \<Rightarrow> goerr + unit" where
  "validateCommitRecord x r =
     rbind (as_invalid ''commit record'' (CommitObjectID x (cr_Commit r))) (\<lambda>i.
     rassert (cr_ID r = i) (invalid_frame ''commit record identity does not match ID''))"

definition validatePushRequest :: "contract_lib \<Rightarrow> PushRequest \<Rightarrow> uint32 \<Rightarrow> goerr + unit" where
  "validatePushRequest x q minFormat =
     (let packFormat = normalizePackFormat (pq_PackFormat q) in
      if pq_Branch q = '''' then Inl (Errorf ''sync: push: branch is required'')
      else if pq_TargetCommit q = '''' then Inl (Errorf ''sync: push: target commit is required'')
      else if pq_PackHash q = '''' then Inl (Errorf ''sync: push: pack hash is required'')
      else if packFormat < minFormat \<or> packFormat > PackFormatV3
           then Inl (Wrapf ''pack format is outside the versions this server currently accepts'' (Sync ErrUnsupportedContractVersion))
      else rfor (pq_Commits q) (validateCommitRecord x))"

text \<open>The records of the request are those of the frame, in the same order.\<close>

fun match_records :: "contract_lib \<Rightarrow> CommitRecord list \<Rightarrow> CommitFrameV2 list \<Rightarrow> goerr + unit" where
  "match_records x (r # rs) (f # fs) =
     rbind (frame_Commit x f) (\<lambda>cm.
     rbind (CommitObjectID x cm) (\<lambda>i.
     if cr_ID r \<noteq> i \<or> \<not> gc_Equal x (cr_Commit r) cm
     then Inl (invalid_frame ''commit metadata does not match its v2 frame'')
     else match_records x rs fs))"
| "match_records x _ _ = Inr ()"

definition validateV2CommitMetadata :: "contract_lib \<Rightarrow> CommitRecord list \<Rightarrow> CommitFrameV2 list \<Rightarrow> goerr + unit" where
  "validateV2CommitMetadata x rs fs =
     (if length rs \<noteq> length fs then Inl (invalid_frame ''v2 pack and metadata must contain the same commits'')
      else match_records x rs fs)"

definition validateV2BaseFormat :: "'w push_engine \<Rightarrow> ctx \<Rightarrow> string \<Rightarrow> CommitIdentity \<Rightarrow> ('w, unit) eff" where
  "validateV2BaseFormat e c repoID base =
     ebind (eassert (ci_Format base = CommitFormatV2) (invalid_frame ''native pack base must use v2 framing'')) (\<lambda>_.
     ebind (ewrap ''sync: push: resolve pack base'' (bs_GetCommitMetadata (pe_store e) c repoID (ci_ID base))) (\<lambda>md.
     eassert (md_Format md = CommitFormatV2) (invalid_frame ''pack base has format'')))"

section \<open>The pack\<close>

text \<open>The asset a node refers to, if any.\<close>

definition asset_reference :: "Node \<Rightarrow> string option" where
  "asset_reference n = (case lookup (nd_Properties n) ''assetUri'' of
       None \<Rightarrow> None
     | Some p \<Rightarrow> if pv_Kind p \<noteq> PropertyString then None
         else let hash = ToLower (TrimSpace (TrimPrefix (TrimSpace (pv_String p)) ''spool://assets/'')) in
              if hash = '''' then None else Some hash)"

definition verifySnapshotAssets :: "contract_lib \<Rightarrow> 'w push_engine \<Rightarrow> ctx \<Rightarrow> scope \<Rightarrow> bytes \<Rightarrow> ('w, unit) eff" where
  "verifySnapshotAssets x e c sc data = (case cbor_nodes x data of
       None \<Rightarrow> eret ()
     | Some nodes \<Rightarrow> efor nodes (\<lambda>n. case asset_reference n of
           None \<Rightarrow> eret ()
         | Some hash \<Rightarrow> ebind (ewrap ''sync: push: check asset'' (drv_AssetExists (pe_driver e) c sc hash)) (\<lambda>ex.
             eassert ex (Wrapf ''node references missing asset blob'' (Sync ErrMissingAsset)))))"

definition read_stream :: "reader option \<Rightarrow> goerr + bytes" where
  "read_stream r = (case r of None \<Rightarrow> Inl (Errorf ''pack stream is required'')
     | Some rd \<Rightarrow> rwrap (Wrapf ''read pack'') (read_limited (MaxV2PackBytes + 1) rd))"

definition check_snapshot :: "contract_lib \<Rightarrow> 'w push_engine \<Rightarrow> (bytes \<Rightarrow> goerr + unit) \<Rightarrow> ctx \<Rightarrow> scope \<Rightarrow> string \<Rightarrow> ('w, unit) eff" where
  "check_snapshot x e valid c sc root =
     ebind (ewrap ''read snapshot'' (drv_Get (pe_driver e) c sc root)) (\<lambda>snapshot.
     ebind (eassert (ContentID x snapshot = root) (invalid_frame ''snapshot has an invalid content ID'')) (\<lambda>_.
     ebind (elift (as_invalid ''snapshot'' (valid snapshot))) (\<lambda>_.
     verifySnapshotAssets x e c sc snapshot)))"

definition writePack :: "contract_lib \<Rightarrow> 'w push_engine \<Rightarrow> ctx \<Rightarrow> scope \<Rightarrow> PushRequest \<Rightarrow> ('w, CommitIdentity) eff" where
  "writePack x e c sc q =
     (if pq_PackStream q = None then efail (Errorf ''pack stream is required'')
      else case pe_validator e of
        None \<Rightarrow> efail (invalid_frame ''snapshot validator is required'')
      | Some valid \<Rightarrow>
          ebind (elift (read_stream (pq_PackStream q))) (\<lambda>data.
          ebind (eassert (length data \<le> MaxV2PackBytes) (Errorf ''pack exceeds byte limit'')) (\<lambda>_.
          ebind (eassert (ContentID x data = pq_PackHash q) (Errorf ''pack content ID does not match pack hash'')) (\<lambda>_.
          ebind (elift (unmarshal_pack x (normalizePackFormat (pq_PackFormat q)) data)) (\<lambda>frame.
          ebind (eassert (ci_ID (pf_Base frame) = pq_BaseCommit q \<and> ci_ID (pf_Target frame) = pq_TargetCommit q)
                  (invalid_frame ''pack frame base/target does not match push metadata'')) (\<lambda>_.
          ebind (elift (validateV2CommitMetadata x (pq_Commits q) (pf_Commits frame))) (\<lambda>_.
          ebind (efor (pf_Objects frame) (\<lambda>ob. ewrap ''write object'' (drv_Put (pe_driver e) c sc (po_ID ob) (po_Data ob)))) (\<lambda>_.
          ebind (efor (pf_Commits frame) (\<lambda>cf. check_snapshot x e valid c sc (cf_SnapshotRoot cf))) (\<lambda>_.
          ebind (drv_WritePack (pe_driver e) c sc (pq_PackHash q) \<lparr>rd_data = data, rd_err = None\<rparr>) (\<lambda>_.
          eret (pf_Base frame)))))))))))"

section \<open>The push\<close>

text \<open>Version 3: every parent is the base, an earlier commit of the push, or a registered commit.\<close>

definition check_parent :: "'w push_engine \<Rightarrow> ctx \<Rightarrow> string \<Rightarrow> string \<Rightarrow> string list \<Rightarrow> ('w, string list) eff" where
  "check_parent e c repoID p known =
     (if p \<in> set known then eret known
      else ebind (ecatch (bs_GetCommitMetadata (pe_store e) c repoID p)
        (\<lambda>err. if err_is err (Pg ErrCommitNotFound) then efail (invalid_frame ''commit references unknown parent'')
               else efail (Wrapf ''sync: push: resolve parent'' err))) (\<lambda>_.
      eret (p # known)))"

definition check_parents :: "'w push_engine \<Rightarrow> ctx \<Rightarrow> PushRequest \<Rightarrow> ('w, string list) eff" where
  "check_parents e c q =
     efold (pq_Commits q) (if pq_BaseCommit q = '''' then [] else [pq_BaseCommit q]) (\<lambda>r known.
       ebind (efold (cm_Parents (cr_Commit r)) known (check_parent e c (pq_RepoID q))) (\<lambda>known'.
       eret (cr_ID r # known')))"

definition register_commit :: "contract_lib \<Rightarrow> 'w push_engine \<Rightarrow> ctx \<Rightarrow> string \<Rightarrow> CommitRecord \<Rightarrow> ('w, unit) eff" where
  "register_commit x e c repoID r =
     ebind (elift (validateCommitRecord x r)) (\<lambda>_.
     ewrap ''sync: push: register commit'' (case bs_PutCommitWithFormat (pe_store e) of
         Some put \<Rightarrow> put c repoID (cr_ID r) (cr_Commit r) CommitFormatV2
       | None \<Rightarrow> bs_PutCommit (pe_store e) c repoID (cr_ID r) (cr_Commit r)))"

definition register_range :: "'w push_engine \<Rightarrow> ctx \<Rightarrow> PushRequest \<Rightarrow> ('w, unit) eff" where
  "register_range e c q =
     ewrap ''sync: push: register pack range'' (case bs_PutPackRangeWithFormat (pe_store e) of
         Some put \<Rightarrow> put c (pq_RepoID q) (pq_PackHash q) (pq_BaseCommit q) (pq_TargetCommit q) (normalizePackFormat (pq_PackFormat q))
       | None \<Rightarrow> bs_PutPackRange (pe_store e) c (pq_RepoID q) (pq_PackHash q) (pq_BaseCommit q) (pq_TargetCommit q))"

definition diagnoseNonFastForward :: "'w push_engine \<Rightarrow> ctx \<Rightarrow> PushRequest \<Rightarrow> string \<Rightarrow> ('w, unit) eff" where
  "diagnoseNonFastForward e c q actualHead =
     ebind (ewrap ''sync: push: check branch ancestry''
       (bs_IsAncestor (pe_store e) c (pq_RepoID q) (pq_BaseCommit q) actualHead)) (\<lambda>anc.
     efail (NonFastForwardError actualHead
       (if anc then ''remote branch has advanced since your base commit; pull the latest changes and reapply your commit before pushing again''
        else ''base commit not found in the remote branch's history; branches have diverged '' @
              [CHR 0xE2, CHR 0x80, CHR 0x94] @ '' pull and manually reconcile before pushing'')))"

definition swap_branch :: "'w push_engine \<Rightarrow> ctx \<Rightarrow> PushRequest \<Rightarrow> string \<Rightarrow> string \<Rightarrow> ('w, unit) eff" where
  "swap_branch e c q expected actualHead =
     ecatch (bs_CompareAndSwapBranchRef (pe_store e) c (pq_RepoID q) (pq_Branch q) expected (pq_TargetCommit q))
       (\<lambda>err. if err_is err (Pg PgNonFastForward)
              then efail (NonFastForwardError actualHead ''remote branch changed concurrently; pull the latest changes and retry your push'')
              else efail (Wrapf ''sync: push: advance branch ref'' err))"

definition advance_branch :: "'w push_engine \<Rightarrow> ctx \<Rightarrow> PushRequest \<Rightarrow> ('w, unit) eff" where
  "advance_branch e c q =
     ebind (etry (bs_GetBranchRef (pe_store e) c (pq_RepoID q) (pq_Branch q))) (\<lambda>r. case r of
       Inl err \<Rightarrow>
         if err_is err (Pg ErrBranchNotFound) \<and> pq_BaseCommit q = '''' then
           (case bs_CreateBranch (pe_store e) of
              Some create \<Rightarrow> ewrap ''sync: push: create branch'' (create c (pq_RepoID q) (pq_Branch q) (pq_TargetCommit q))
            | None \<Rightarrow> efail (Errorf ''sync: push: branch creation not supported by store''))
         else efail (Wrapf ''sync: push: get branch ref'' err)
     | Inr actualHead \<Rightarrow>
         if actualHead = pq_BaseCommit q then swap_branch e c q (pq_BaseCommit q) actualHead
         else if pq_BaseCommit q \<noteq> '''' then diagnoseNonFastForward e c q actualHead
         else if actualHead = pq_TargetCommit q then eret ()
         else ebind (etry (bs_IsAncestor (pe_store e) c (pq_RepoID q) actualHead (pq_TargetCommit q))) (\<lambda>anc.
           if anc = Inr True then swap_branch e c q actualHead actualHead
           else diagnoseNonFastForward e c q actualHead))"

definition HandlePush :: "contract_lib \<Rightarrow> 'w push_engine \<Rightarrow> ctx \<Rightarrow> PushRequest \<Rightarrow> ('w, unit) eff" where
  "HandlePush x e c0 q =
     ebind (elift (validatePushRequest x q (pe_min e))) (\<lambda>_.
     ebind (ewrap ''sync: push: set tenant context'' (elift (bs_SetTenantContext (pe_store e) c0 (pq_TenantID q)))) (\<lambda>c.
     ebind (ewrap ''sync: push: invalid CAS scope'' (elift (NewScope (pq_TenantID q) (pq_RepoID q)))) (\<lambda>scope.
     ebind (ewrap ''sync: push: write pack'' (writePack x e c scope q)) (\<lambda>base.
     ebind (if pq_BaseCommit q \<noteq> '''' then validateV2BaseFormat e c (pq_RepoID q) base else eret ()) (\<lambda>_.
     ebind (if normalizePackFormat (pq_PackFormat q) = PackFormatV3 then check_parents e c q else eret []) (\<lambda>_.
     ebind (efor (pq_Commits q) (register_commit x e c (pq_RepoID q))) (\<lambda>_.
     ebind (register_range e c q) (\<lambda>_.
     advance_branch e c q))))))))"

end
