(* ===== verification/Effects.thy ===== *)
theory Effects
  imports Rack_Prelude
begin

text \<open>
  Two ways to reason about a handler over an abstract state, both for a preorder \<open>R\<close> of states: that every
  run of it is a step of \<open>R\<close> (\<open>steps R\<close>), and that a loop whose steps are in \<open>R\<close> establishes, for every element,
  a fact that \<open>R\<close> keeps. With equality of a projection for \<open>R\<close>, the first says what a handler leaves alone.
\<close>

definition steps :: "('w \<Rightarrow> 'w \<Rightarrow> bool) \<Rightarrow> ('w, 'a) eff \<Rightarrow> bool" where
  "steps R m \<longleftrightarrow> (\<forall>w. R w (snd (m w)))"

lemma stepsD: "steps R m \<Longrightarrow> m w = (r, w') \<Longrightarrow> R w w'"
  unfolding steps_def by (metis snd_conv)

lemma elift_Inr_iff: "elift q w = (Inr x, w') \<longleftrightarrow> q = Inr x \<and> w' = w"
  by auto

lemmas run_inv = eff_inv elift_Inr_iff

locale state_order =
  fixes R :: "'w \<Rightarrow> 'w \<Rightarrow> bool"
  assumes refl: "R w w" and trans: "R a b \<Longrightarrow> R b c \<Longrightarrow> R a c"
begin

lemma steps_pure: "steps R (eret x)" "steps R (efail e)" "steps R (elift q)" "steps R (eassert b e)"
  by (simp_all add: steps_def eff_run refl)

lemma steps_ebind: "steps R m \<Longrightarrow> (\<And>x. steps R (f x)) \<Longrightarrow> steps R (ebind m f)"
  by (auto simp: steps_def ebind_def split: prod.splits sum.splits) (metis snd_conv trans)+

lemma steps_ecatch: "steps R m \<Longrightarrow> (\<And>e. steps R (h e)) \<Longrightarrow> steps R (ecatch m h)"
  by (auto simp: steps_def ecatch_def split: prod.splits sum.splits) (metis snd_conv trans)+

lemma steps_etry: "steps R m \<Longrightarrow> steps R (etry m)"
  by (auto simp: steps_def etry_def split: prod.splits) (metis snd_conv)

lemma steps_ewrap: "steps R m \<Longrightarrow> steps R (ewrap s m)"
  unfolding ewrap_def by (intro steps_ecatch steps_pure)

lemma steps_efor: "(\<And>x. x \<in> set xs \<Longrightarrow> steps R (f x)) \<Longrightarrow> steps R (efor xs f)"
  by (induction xs) (auto intro!: steps_pure steps_ebind)

lemma steps_efold: "(\<And>x a. steps R (f x a)) \<Longrightarrow> steps R (efold xs a f)"
  by (induction xs arbitrary: a) (auto intro!: steps_pure steps_ebind)

lemma steps_if: "steps R m \<Longrightarrow> steps R n \<Longrightarrow> steps R (if b then m else n)"
  by simp

lemma steps_option: "steps R m \<Longrightarrow> (\<And>y. steps R (f y)) \<Longrightarrow> steps R (case z of None \<Rightarrow> m | Some y \<Rightarrow> f y)"
  by (cases z) auto

lemma steps_sum: "(\<And>e. steps R (f e)) \<Longrightarrow> (\<And>y. steps R (g y)) \<Longrightarrow> steps R (case z of Inl e \<Rightarrow> f e | Inr y \<Rightarrow> g y)"
  by (cases z) auto

lemmas steps_intro = steps_pure steps_ebind steps_ecatch steps_etry steps_ewrap steps_efor steps_efold steps_if
  steps_option steps_sum

lemma efor_establishes:
  assumes run: "efor xs f w = (Inr u, w')"
    and step: "\<And>x w w' u. x \<in> set xs \<Longrightarrow> f x w = (Inr u, w') \<Longrightarrow> R w w' \<and> Q x w'"
    and keep: "\<And>x w w'. Q x w \<Longrightarrow> R w w' \<Longrightarrow> Q x w'"
  shows "R w w' \<and> (\<forall>x \<in> set xs. Q x w')"
  using run step
proof (induction xs arbitrary: w)
  case (Cons x xs)
  then obtain v w1 where one: "f x w = (Inr v, w1)" and rest: "efor xs f w1 = (Inr u, w')" by (auto simp: ebind_Inr_iff)
  have "R w w1 \<and> Q x w1" by (rule Cons.prems(2) [OF _ one]) simp
  moreover have "R w1 w' \<and> (\<forall>x \<in> set xs. Q x w')" by (rule Cons.IH [OF rest Cons.prems(2)]) auto
  ultimately show ?case using keep trans by auto
qed (simp add: refl)

end

abbreviation leaves :: "('w \<Rightarrow> 'b) \<Rightarrow> ('w, 'a) eff \<Rightarrow> bool" where
  "leaves p \<equiv> steps (\<lambda>w w'. p w' = p w)"

interpretation same: state_order "\<lambda>w w'. p w' = p w" for p
  by unfold_locales simp_all

end
