(* ===== verification/Rack_World.thy ===== *)
theory Rack_World
  imports Cas_Content Sync_Push Effects
begin

text \<open>
  The state of a server: the files of its content store and its database. The driver and the store of
  the model are lifted to it.
\<close>

section \<open>The world\<close>

record world =
  w_fs :: fs
  w_db :: db

definition on_fs :: "(fs, 'a) eff \<Rightarrow> (world, 'a) eff" where
  "on_fs m w = (case m (w_fs w) of (r, f) \<Rightarrow> (r, w\<lparr>w_fs := f\<rparr>))"

definition on_db :: "(db, 'a) eff \<Rightarrow> (world, 'a) eff" where
  "on_db m w = (case m (w_db w) of (r, s) \<Rightarrow> (r, w\<lparr>w_db := s\<rparr>))"

lemma on_fs_iff: "on_fs m w = (r, w') \<longleftrightarrow> (\<exists>f. m (w_fs w) = (r, f) \<and> w' = w\<lparr>w_fs := f\<rparr>)"
  by (auto simp: on_fs_def split: prod.splits)

lemma on_db_iff: "on_db m w = (r, w') \<longleftrightarrow> (\<exists>s. m (w_db w) = (r, s) \<and> w' = w\<lparr>w_db := s\<rparr>)"
  by (auto simp: on_db_def split: prod.splits)

lemma on_simps [simp]:
  "w_db (snd (on_fs m w)) = w_db w" "w_fs (snd (on_fs m w)) = snd (m (w_fs w))" "fst (on_fs m w) = fst (m (w_fs w))"
  "w_fs (snd (on_db n w)) = w_fs w" "w_db (snd (on_db n w)) = snd (n (w_db w))" "fst (on_db n w) = fst (n (w_db w))"
  by (simp_all add: on_fs_def on_db_def split: prod.splits)

definition rack_driver :: "cas_ext \<Rightarrow> path \<Rightarrow> world cas_driver" where
  "rack_driver y d = \<lparr>
     drv_Put = (\<lambda>c s h b. on_fs (Put y d c s h b)), drv_Get = (\<lambda>c s h. on_fs (Get y d c s h)),
     drv_Exists = (\<lambda>c s h. on_fs (Exists y d c s h)), drv_OpenPack = (\<lambda>c s h. on_fs (OpenPack y d c s h)),
     drv_WritePack = (\<lambda>c s h r. on_fs (WritePack y d c s h r)), drv_WriteAsset = (\<lambda>c s h r. on_fs (WriteAsset y d c s h r)),
     drv_OpenAsset = (\<lambda>c s h. on_fs (OpenAsset y d c s h)), drv_AssetExists = (\<lambda>c s h. on_fs (AssetExists y d c s h)),
     drv_DeletePack = Some (\<lambda>c s h. on_fs (DeletePack y d c s h))\<rparr>"

definition rack_store :: "(commit \<Rightarrow> goerr + commit) \<Rightarrow> world branch_store" where
  "rack_store nrm = \<lparr>
     bs_SetTenantContext = SetTenantContext,
     bs_PutCommit = (\<lambda>c r i m. on_db (PutCommit nrm c r i m)),
     bs_PutPackRange = (\<lambda>c r h b t. on_db (PutPackRange c r h b t)),
     bs_GetCommitMetadata = (\<lambda>c r i. on_db (GetCommitMetadata c r i)),
     bs_GetBranchRef = (\<lambda>c r b. on_db (GetBranchRef c r b)),
     bs_IsAncestor = (\<lambda>c r a i. on_db (IsAncestor c r a i)),
     bs_GetPackRanges = (\<lambda>c r h k. on_db (GetPackRanges c r h k)),
     bs_CompareAndSwapBranchRef = (\<lambda>c r b e n. on_db (CompareAndSwapBranchRef c r b e n)),
     bs_PutCommitWithFormat = Some (\<lambda>c r i m f. on_db (PutCommitWithFormat nrm c r i m f)),
     bs_PutPackRangeWithFormat = Some (\<lambda>c r h b t f. on_db (PutPackRangeWithFormat c r h b t f)),
     bs_CreateBranch = Some (\<lambda>c r n h. on_db (CreateBranch c r n h))\<rparr>"

lemma delete_runs:
  "DeletePack y d c sc h w = (Inr u, w') \<Longrightarrow> local_pack y d w' sc h = None"
  "DeletePack y d c sc h w = (Inl e, w') \<Longrightarrow> local_pack y d w' = local_pack y d w"
  by (rule local.delete_ok local.delete_err, simp add: local_driver_def, assumption)+

interpretation rack: content_store "rack_driver y d" "\<lambda>w. local_pack y d (w_fs w)" "\<lambda>b. hex_encode (blake3 y b)"
    "zstd_encode y" "zstd_decode y" "\<lambda>w. local_object y d (w_fs w)" "\<lambda>w. local_asset y d (w_fs w)"
  for y d
proof -
  note keeps = local.write_keeps local.open_keeps local.put_keeps local.get_keeps local.exists_keeps local.pack_keeps
  note keeps' = keeps [of y d, unfolded local_driver_def, simplified]
  note does = local.write_ok local.open_ok local.put_ok local.get_ok local.exists_ok
  note does' = does [of y d, unfolded local_driver_def, simplified]
  show "content_store (rack_driver y d) (\<lambda>w. local_pack y d (w_fs w)) (\<lambda>b. hex_encode (blake3 y b))
    (zstd_encode y) (zstd_decode y) (\<lambda>w. local_object y d (w_fs w)) (\<lambda>w. local_asset y d (w_fs w))"
  proof unfold_locales
    show "local_pack y d (w_fs w') sc h = None"
      if "drv_DeletePack (rack_driver y d) = Some del" and "del c sc h w = (Inr u, w')" for del c sc h w u w'
      using that delete_runs(1) by (fastforce simp: rack_driver_def on_fs_iff)
    show "(\<lambda>sc. local_pack y d (w_fs w') sc) = (\<lambda>sc. local_pack y d (w_fs w) sc)"
      if "drv_DeletePack (rack_driver y d) = Some del" and "del c sc h w = (Inl e, w')" for del c sc h w e w'
      using that delete_runs(2) by (fastforce simp: rack_driver_def on_fs_iff)
  qed (auto simp: rack_driver_def on_fs_iff keeps' dest: does' split: if_splits)
qed

section \<open>What the halves leave alone\<close>

lemma leaves_on: "leaves w_db (on_fs m)" "leaves w_fs (on_db n)"
  by (simp_all add: steps_def)

end
