(* ===== verification/Sync_Frame_Facts.thy ===== *)
theory Sync_Frame_Facts
  imports Sync_Frame
begin

text \<open>
  What the validation of a pack frame means: declarative descriptions of valid version 2 and version 3
  frames, and the canonicity of their encoding.
\<close>

section \<open>Identities\<close>

lemma rwrap_Inl_iff [simp]: "rwrap g r = Inl e \<longleftrightarrow> (\<exists>e'. r = Inl e' \<and> e = g e')"
  by (cases r) auto

lemma as_invalid_Inr_iff [simp]: "as_invalid s r = Inr y \<longleftrightarrow> r = Inr y"
  by (simp add: as_invalid_def)

lemma frame_Identity_Inr:
  "frame_Identity x f = Inr i \<longleftrightarrow> (\<exists>cm k. frame_Commit x f = Inr cm \<and> CommitObjectID x cm = Inr k \<and> i = V2CommitIdentity k)"
  by (auto simp: frame_Identity_def)

lemma frame_Identity_not_base: "frame_Identity x f = Inr i \<Longrightarrow> i \<noteq> no_base"
  by (auto simp: frame_Identity_Inr V2CommitIdentity_def no_base_def CommitFormatV2_def)

lemma V2CommitIdentity_inject [simp]: "V2CommitIdentity a = V2CommitIdentity b \<longleftrightarrow> a = b"
  by (simp add: V2CommitIdentity_def)

lemma ci_ID_V2 [simp]: "ci_ID (V2CommitIdentity i) = i" and ci_Format_V2 [simp]: "ci_Format (V2CommitIdentity i) = CommitFormatV2"
  by (simp_all add: V2CommitIdentity_def)

section \<open>Valid frames\<close>

text \<open>From \<open>b\<close> to \<open>t\<close>: each commit's first parent is its predecessor; without a base the first has none.\<close>

fun chain :: "contract_lib \<Rightarrow> CommitIdentity \<Rightarrow> CommitFrameV2 list \<Rightarrow> CommitIdentity \<Rightarrow> bool" where
  "chain x b [] t \<longleftrightarrow> b = t"
| "chain x b (c # cs) t \<longleftrightarrow>
     (if cf_Parents c = [] then b = no_base else hd (cf_Parents c) = b) \<and>
     (case frame_Identity x c of Inl _ \<Rightarrow> False | Inr i \<Rightarrow> chain x i cs t)"

definition authentic :: "contract_lib \<Rightarrow> PackObjectV2 list \<Rightarrow> bool" where
  "authentic x obs \<longleftrightarrow> distinct (map po_ID obs) \<and>
     (\<forall>ob \<in> set obs. validContentID (po_ID ob) \<and> ContentID x (po_Data ob) = po_ID ob)"

definition carries_snapshots :: "PackFrame \<Rightarrow> bool" where
  "carries_snapshots f \<longleftrightarrow> (\<forall>c \<in> set (pf_Commits f). cf_SnapshotRoot c \<in> po_ID ` set (pf_Objects f))"

definition valid_ends :: "PackFrame \<Rightarrow> bool" where
  "valid_ends f \<longleftrightarrow> (pf_Base f = no_base \<or> identity_Validate (pf_Base f) = Inr ()) \<and>
     identity_Validate (pf_Target f) = Inr () \<and> pf_Commits f \<noteq> []"

definition valid_v2 :: "contract_lib \<Rightarrow> PackFrame \<Rightarrow> bool" where
  "valid_v2 x f \<longleftrightarrow> pf_Version f = 2 \<and> valid_ends f \<and> chain x (pf_Base f) (pf_Commits f) (pf_Target f) \<and>
     authentic x (pf_Objects f) \<and> carries_snapshots f"

text \<open>Version 3 asks for less: the commits are distinct and none is the base, only a frame without a base may
  hold a commit without parents, and the target is the last commit.\<close>

definition valid_v3 :: "contract_lib \<Rightarrow> PackFrame \<Rightarrow> bool" where
  "valid_v3 x f \<longleftrightarrow> pf_Version f = 3 \<and> valid_ends f \<and>
     (\<exists>ids. list_all2 (\<lambda>c i. frame_Identity x c = Inr (V2CommitIdentity i)) (pf_Commits f) ids \<and> distinct ids \<and>
        (let b = ci_ID (pf_Base f) in b \<noteq> '''' \<longrightarrow> b \<notin> set ids \<and> (\<forall>c \<in> set (pf_Commits f). cf_Parents c \<noteq> [])) \<and>
        pf_Target f = V2CommitIdentity (last ids)) \<and>
     authentic x (pf_Objects f) \<and> carries_snapshots f"

lemma check_ends_iff: "check_ends f = Inr u \<longleftrightarrow> valid_ends f"
  by (auto simp: check_ends_def valid_ends_def split: if_splits)

lemma check_objects_iff:
  "check_objects x seen obs = Inr seen' \<longleftrightarrow>
     authentic x obs \<and> po_ID ` set obs \<inter> set seen = {} \<and> seen' = rev (map po_ID obs) @ seen"
  by (induction obs arbitrary: seen) (auto simp: authentic_def)

lemma check_snapshots_iff:
  "check_snapshots x (rev (map po_ID (pf_Objects f)) @ []) (pf_Commits f) = Inr u \<longleftrightarrow> carries_snapshots f"
  by (force simp: check_snapshots_def rfor_Inr_iff carries_snapshots_def split: if_splits)

lemma first_parent_chain_iff:
  assumes "first \<or> b \<noteq> no_base"
  shows "first_parent_chain x first b cs = Inr t \<longleftrightarrow> chain x b cs t"
  using assms
proof (induction cs arbitrary: first b)
  case (Cons c cs)
  show ?case
  proof (cases "frame_Identity x c")
    case (Inl e)
    then show ?thesis by auto
  next
    case (Inr i)
    then have "i \<noteq> no_base" by (rule frame_Identity_not_base)
    moreover obtain cm where "frame_Commit x c = Inr cm" using Inr by (auto simp: frame_Identity_Inr)
    ultimately show ?thesis using Cons Inr by auto
  qed
qed simp

lemma frame_Commit_parents: "frame_Commit x c = Inr cm \<Longrightarrow> p \<in> set (cf_Parents c) \<Longrightarrow> identity_Validate p = Inr ()"
  by (simp add: frame_Commit_def rfor_Inr_iff)

lemma distinct_commits_iff:
  "distinct_commits x based seen cs = Inr u \<longleftrightarrow>
     (\<exists>ids. list_all2 (\<lambda>c i. frame_Identity x c = Inr (V2CommitIdentity i)) cs ids \<and> distinct ids \<and>
        set ids \<inter> set seen = {} \<and> (based \<longrightarrow> (\<forall>c \<in> set cs. cf_Parents c \<noteq> [])))"
proof (induction cs arbitrary: seen)
  case (Cons c cs)
  show ?case
  proof (cases "frame_Identity x c")
    case (Inl e)
    then show ?thesis by (auto simp: list_all2_Cons1)
  next
    case (Inr i)
    then obtain k where k: "i = V2CommitIdentity k" and "\<exists>cm. frame_Commit x c = Inr cm" by (auto simp: frame_Identity_Inr)
    then have "rfor (cf_Parents c) (\<lambda>p. as_invalid ''commit parent'' (identity_Validate p)) = Inr ()"
      by (auto simp: rfor_Inr_iff dest: frame_Commit_parents)
    then have "distinct_commits x based seen (c # cs) = Inr u \<longleftrightarrow>
        k \<notin> set seen \<and> (based \<longrightarrow> cf_Parents c \<noteq> []) \<and> distinct_commits x based (k # seen) cs = Inr u"
      using Inr k \<open>\<exists>cm. _\<close> by auto
    moreover have "list_all2 (\<lambda>c i. frame_Identity x c = Inr (V2CommitIdentity i)) (c # cs) ids \<longleftrightarrow>
        (\<exists>is. ids = k # is \<and> list_all2 (\<lambda>c i. frame_Identity x c = Inr (V2CommitIdentity i)) cs is)" for ids
      using Inr k by (auto simp: list_all2_Cons1)
    ultimately show ?thesis unfolding Cons.IH by fastforce
  qed
qed simp

lemma last_list_all2: "list_all2 P xs ys \<Longrightarrow> xs \<noteq> [] \<Longrightarrow> P (last xs) (last ys)"
  by (induction rule: list_all2_induct) (auto dest: list_all2_lengthD)

lemma validate_v2_iff: "validate_v2 x f = Inr () \<longleftrightarrow> valid_v2 x f"
  by (auto simp: validate_v2_def valid_v2_def check_ends_iff first_parent_chain_iff check_objects_iff
      check_snapshots_iff [simplified] PackFormatV2_def)

lemma validate_v3_iff: "validate_v3 x f = Inr () \<longleftrightarrow> valid_v3 x f"
proof (cases "pf_Commits f = []")
  case True
  then show ?thesis by (simp add: validate_v3_def valid_v3_def check_ends_iff valid_ends_def)
next
  case False
  then have last: "frame_Identity x (last (pf_Commits f)) = Inr (V2CommitIdentity (last ids))"
    if "list_all2 (\<lambda>c i. frame_Identity x c = Inr (V2CommitIdentity i)) (pf_Commits f) ids" for ids
    using last_list_all2 [OF that] by simp
  let ?seen = "if ci_ID (pf_Base f) \<noteq> '''' then [ci_ID (pf_Base f)] else []"
  define P where "P ids \<longleftrightarrow> list_all2 (\<lambda>c i. frame_Identity x c = Inr (V2CommitIdentity i)) (pf_Commits f) ids \<and> distinct ids \<and>
      (let b = ci_ID (pf_Base f) in b \<noteq> '''' \<longrightarrow> b \<notin> set ids \<and> (\<forall>c \<in> set (pf_Commits f). cf_Parents c \<noteq> []))" for ids
  have P: "distinct_commits x (ci_ID (pf_Base f) \<noteq> '''') ?seen (pf_Commits f) = Inr () \<longleftrightarrow> (\<exists>ids. P ids)"
    by (auto simp: distinct_commits_iff P_def Let_def)
  have "(\<exists>ids. P ids) \<and> frame_Identity x (last (pf_Commits f)) = Inr (pf_Target f) \<longleftrightarrow>
      (\<exists>ids. P ids \<and> pf_Target f = V2CommitIdentity (last ids))"
    using last by (metis P_def sum.inject(2))
  then have "validate_v3 x f = Inr () \<longleftrightarrow> pf_Version f = 3 \<and> valid_ends f \<and>
      (\<exists>ids. P ids \<and> pf_Target f = V2CommitIdentity (last ids)) \<and> authentic x (pf_Objects f) \<and> carries_snapshots f"
    by (auto simp: validate_v3_def check_ends_iff P check_objects_iff check_snapshots_iff [simplified] PackFormatV3_def
        simp del: ex_simps)
  then show ?thesis by (simp add: valid_v3_def P_def conj_assoc)
qed


section \<open>Canonical encoding\<close>

lemma marshal_Inr:
  "marshal_frame v x f = Inr d \<longleftrightarrow> v f = Inr () \<and> cbor_enc_pack x f = Inr d \<and> length d \<le> MaxV2PackBytes"
  by (cases "v f"; cases "cbor_enc_pack x f") (auto simp: marshal_frame_def)

lemma unmarshal_Inr:
  "unmarshal_frame v x d = Inr f \<longleftrightarrow> cbor_dec_pack x d = Inr f \<and> marshal_frame v x f = Inr d"
proof (cases "cbor_dec_pack x d")
  case (Inr g)
  have "length d \<le> MaxV2PackBytes" if "marshal_frame v x g = Inr d" using that by (simp add: marshal_Inr)
  with Inr show ?thesis by (cases "marshal_frame v x g") (auto simp: unmarshal_frame_def split: if_splits)
qed (simp add: unmarshal_frame_def)


lemma unmarshal_pack_valid:
  "unmarshal_pack x format data = Inr f \<Longrightarrow> if format = PackFormatV3 then valid_v3 x f else valid_v2 x f"
  by (auto simp: unmarshal_pack_def UnmarshalPackFrameV2_def UnmarshalPackFrameV3_def unmarshal_Inr marshal_Inr validate_v2_iff validate_v3_iff)

end
