(* ===== verification/Sync_Push_Facts.thy ===== *)
theory Sync_Push_Facts
  imports Rack_World Sync_Frame_Facts
begin

text \<open>
  What a push does to the server: nothing enters the database before the content it refers to is in the
  content store, and what an acknowledged push has done.
\<close>

section \<open>Stored content\<close>

text \<open>A snapshot is stored when its object is there under its content ID, valid, and with its assets.\<close>

definition snapshot_stored :: "contract_lib \<Rightarrow> (bytes \<Rightarrow> goerr + unit) \<Rightarrow> (string \<Rightarrow> bytes option) \<Rightarrow> (string \<Rightarrow> bytes option) \<Rightarrow> string \<Rightarrow> bool" where
  "snapshot_stored x valid obj ast root \<longleftrightarrow> (\<exists>snap. obj root = Some snap \<and> ContentID x snap = root \<and> valid snap = Inr () \<and>
     (case cbor_nodes x snap of None \<Rightarrow> True
      | Some ns \<Rightarrow> \<forall>n \<in> set ns. case asset_reference n of None \<Rightarrow> True | Some h \<Rightarrow> ast h \<noteq> None))"

lemma snapshot_stored_mono:
  assumes "snapshot_stored x valid obj ast root" and "obj \<subseteq>\<^sub>m obj'" and "ast \<subseteq>\<^sub>m ast'"
  shows "snapshot_stored x valid obj' ast' root"
proof -
  obtain snap where s: "obj root = Some snap" "ContentID x snap = root" "valid snap = Inr ()"
    "case cbor_nodes x snap of None \<Rightarrow> True | Some ns \<Rightarrow> \<forall>n \<in> set ns. case asset_reference n of None \<Rightarrow> True | Some h \<Rightarrow> ast h \<noteq> None"
    using assms(1) by (auto simp: snapshot_stored_def)
  have "ast h \<noteq> None \<Longrightarrow> ast' h \<noteq> None" for h using assms(3) by (auto simp: map_le_def dom_def)
  then have "case cbor_nodes x snap of None \<Rightarrow> True | Some ns \<Rightarrow> \<forall>n \<in> set ns. case asset_reference n of None \<Rightarrow> True | Some h \<Rightarrow> ast' h \<noteq> None"
    using s(4) by (auto split: option.splits)
  moreover have "obj' root = Some snap" using assms(2) s(1) by (metis domI map_le_def)
  ultimately show ?thesis using s(2,3) by (auto simp: snapshot_stored_def)
qed

lemma map_leI: "(\<And>k v. m k = Some v \<Longrightarrow> m' k = Some v) \<Longrightarrow> m \<subseteq>\<^sub>m m'"
  by (auto simp: map_le_def dom_def)

context content_store
begin

text \<open>Nothing stored is lost.\<close>

definition grows :: "scope \<Rightarrow> 'w \<Rightarrow> 'w \<Rightarrow> bool" where
  "grows sc w w' \<longleftrightarrow> ob w sc \<subseteq>\<^sub>m ob w' sc \<and> at w sc \<subseteq>\<^sub>m at w' sc"

lemma grows_order: "state_order (grows sc)"
  by unfold_locales (auto simp: grows_def intro: map_le_trans)

lemmas grows_refl = state_order.refl [OF grows_order]
lemmas grows_trans = state_order.trans [OF grows_order]

lemma Put_grows: "drv_Put drv c sc h b w = (r, w') \<Longrightarrow> grows sc w w'"
  unfolding grows_def using put_keeps by (metis map_leI snd_conv)

lemma Get_grows: "drv_Get drv c sc h w = (r, w') \<Longrightarrow> grows sc w w'"
  unfolding grows_def using get_keeps [of c sc h w] by simp

lemma AssetExists_grows: "drv_AssetExists drv c sc h w = (r, w') \<Longrightarrow> grows sc w w'"
  unfolding grows_def using exists_keeps [of c sc h w] by simp

lemma WritePack_grows: "drv_WritePack drv c sc h rd w = (r, w') \<Longrightarrow> grows sc w w'"
  unfolding grows_def using pack_keeps by (metis map_leI snd_conv)

lemma asset_kept: "at w sc h \<noteq> None \<Longrightarrow> grows sc w w' \<Longrightarrow> at w' sc h \<noteq> None"
  by (auto simp: grows_def map_le_def dom_def)

lemma object_kept: "ob w sc h = Some b \<Longrightarrow> grows sc w w' \<Longrightarrow> ob w' sc h = Some b"
  by (auto simp: grows_def map_le_def dom_def)

lemma stored_kept:
  "snapshot_stored x v (ob w sc) (at w sc) h \<Longrightarrow> grows sc w w' \<Longrightarrow> snapshot_stored x v (ob w' sc) (at w' sc) h"
  by (auto simp: grows_def intro: snapshot_stored_mono)

lemma verify_assets:
  assumes "pe_driver e = drv" and "verifySnapshotAssets x e c sc data w = (Inr u, w')"
  shows "grows sc w w' \<and> (case cbor_nodes x data of None \<Rightarrow> True
      | Some ns \<Rightarrow> \<forall>n \<in> set ns. case asset_reference n of None \<Rightarrow> True | Some h \<Rightarrow> at w' sc h \<noteq> None)"
proof (cases "cbor_nodes x data")
  case None
  then show ?thesis using assms by (simp add: verifySnapshotAssets_def grows_refl)
next
  case (Some ns)
  let ?f = "\<lambda>n. case asset_reference n of None \<Rightarrow> eret ()
     | Some hash \<Rightarrow> ebind (ewrap ''sync: push: check asset'' (drv_AssetExists drv c sc hash)) (\<lambda>ex.
         eassert ex (Wrapf ''node references missing asset blob'' (Sync ErrMissingAsset)))"
  have "efor ns ?f w = (Inr u, w')" using assms(2) unfolding verifySnapshotAssets_def assms(1) Some by simp
  then have "grows sc w w' \<and> (\<forall>n \<in> set ns. case asset_reference n of None \<Rightarrow> True | Some h \<Rightarrow> at w' sc h \<noteq> None)"
  proof (rule state_order.efor_establishes [OF grows_order])
    fix n w w' u
    assume "?f n w = (Inr u, w')"
    then show "grows sc w w' \<and> (case asset_reference n of None \<Rightarrow> True | Some h \<Rightarrow> at w' sc h \<noteq> None)"
    proof (cases "asset_reference n")
      case None
      with \<open>?f n w = _\<close> show ?thesis by (simp add: grows_refl)
    next
      case (Some h)
      with \<open>?f n w = _\<close> have "drv_AssetExists drv c sc h w = (Inr True, w')" by (auto simp: run_inv)
      then have "grows sc w w'" and "at w sc h \<noteq> None" by (rule AssetExists_grows, rule exists_ok)
      with Some show ?thesis using asset_kept by (simp del: not_None_eq)
    qed
  qed (use asset_kept in \<open>auto split: option.splits simp del: not_None_eq\<close>)
  then show ?thesis using Some by simp
qed

lemma check_snapshot_stored:
  assumes drv: "pe_driver e = drv" and run: "check_snapshot x e valid c sc root w = (Inr u, w')"
  shows "grows sc w w' \<and> snapshot_stored x valid (ob w' sc) (at w' sc) root"
proof -
  obtain snap w1 where get: "drv_Get drv c sc root w = (Inr snap, w1)" and id: "ContentID x snap = root"
    and valid: "valid snap = Inr ()" and assets: "verifySnapshotAssets x e c sc snap w1 = (Inr u, w')"
    using run by (auto simp: check_snapshot_def run_inv drv simp del: elift_iff)
  note va = verify_assets [OF drv assets]
  have "ob w1 sc root = Some snap" using get_ok [OF get, THEN conjunct1] get_keeps(1) [of c sc root w] unfolding get by simp
  then have "ob w' sc root = Some snap" by (rule object_kept) (use va in simp)
  then have "snapshot_stored x valid (ob w' sc) (at w' sc) root"
    using id valid va by (auto simp: snapshot_stored_def)
  then show ?thesis using grows_trans [OF Get_grows [OF get]] va by simp
qed

text \<open>An accepted pack: it is what the request says, and its content is stored.\<close>

lemma writePack_stored:
  assumes drv: "pe_driver e = drv" and run: "writePack x e c sc q w = (Inr base, w')"
  shows "\<exists>valid data frame. pe_validator e = Some valid \<and> read_stream (pq_PackStream q) = Inr data \<and>
    ContentID x data = pq_PackHash q \<and>
    unmarshal_pack x (normalizePackFormat (pq_PackFormat q)) data = Inr frame \<and>
    base = pf_Base frame \<and> ci_ID base = pq_BaseCommit q \<and> ci_ID (pf_Target frame) = pq_TargetCommit q \<and>
    validateV2CommitMetadata x (pq_Commits q) (pf_Commits frame) = Inr () \<and> pk w' sc (pq_PackHash q) \<noteq> None \<and>
    (\<forall>cf \<in> set (pf_Commits frame). snapshot_stored x valid (ob w' sc) (at w' sc) (cf_SnapshotRoot cf))"
proof -
  obtain valid where valid: "pe_validator e = Some valid"
    using run by (auto simp: writePack_def split: if_splits option.splits)
  then obtain data frame w1 w2 u1 u2 u3 where r: "read_stream (pq_PackStream q) = Inr data" "ContentID x data = pq_PackHash q"
    "unmarshal_pack x (normalizePackFormat (pq_PackFormat q)) data = Inr frame"
    "ci_ID (pf_Base frame) = pq_BaseCommit q" "ci_ID (pf_Target frame) = pq_TargetCommit q"
    "validateV2CommitMetadata x (pq_Commits q) (pf_Commits frame) = Inr ()" "base = pf_Base frame"
    and puts: "efor (pf_Objects frame) (\<lambda>ob. ewrap ''write object'' (drv_Put drv c sc (po_ID ob) (po_Data ob))) w = (Inr u1, w1)"
    and snaps: "efor (pf_Commits frame) (\<lambda>cf. check_snapshot x e valid c sc (cf_SnapshotRoot cf)) w1 = (Inr u2, w2)"
    and pack: "drv_WritePack drv c sc (pq_PackHash q) \<lparr>rd_data = data, rd_err = None\<rparr> w2 = (Inr u3, w')"
    using run unfolding writePack_def drv by (auto simp: run_inv simp del: elift_iff split: if_splits)
  have "grows sc w1 w2 \<and> (\<forall>cf \<in> set (pf_Commits frame). snapshot_stored x valid (ob w2 sc) (at w2 sc) (cf_SnapshotRoot cf))"
  proof (rule state_order.efor_establishes [OF grows_order snaps])
    show "grows sc w w' \<and> snapshot_stored x valid (ob w' sc) (at w' sc) (cf_SnapshotRoot cf)"
      if "check_snapshot x e valid c sc (cf_SnapshotRoot cf) w = (Inr u, w')" for cf w w' u
      by (rule check_snapshot_stored [OF drv that])
  qed (fact stored_kept)
  then have "\<forall>cf \<in> set (pf_Commits frame). snapshot_stored x valid (ob w' sc) (at w' sc) (cf_SnapshotRoot cf)"
    using WritePack_grows [OF pack] by (auto intro: stored_kept)
  then show ?thesis using r valid write_present [OF pack] by blast
qed

end

section \<open>Content before metadata\<close>

lemma rack_store_simps [simp]:
  "bs_SetTenantContext (rack_store nrm) = SetTenantContext"
  "bs_GetCommitMetadata (rack_store nrm) = (\<lambda>c r i. on_db (GetCommitMetadata c r i))"
  "bs_GetBranchRef (rack_store nrm) = (\<lambda>c r b. on_db (GetBranchRef c r b))"
  "bs_IsAncestor (rack_store nrm) = (\<lambda>c r a i. on_db (IsAncestor c r a i))"
  "bs_GetPackRanges (rack_store nrm) = (\<lambda>c r h k. on_db (GetPackRanges c r h k))"
  "bs_CompareAndSwapBranchRef (rack_store nrm) = (\<lambda>c r b e n. on_db (CompareAndSwapBranchRef c r b e n))"
  "bs_PutCommitWithFormat (rack_store nrm) = Some (\<lambda>c r i m f. on_db (PutCommitWithFormat nrm c r i m f))"
  "bs_PutPackRangeWithFormat (rack_store nrm) = Some (\<lambda>c r h b t f. on_db (PutPackRangeWithFormat c r h b t f))"
  "bs_CreateBranch (rack_store nrm) = Some (\<lambda>c r n h. on_db (CreateBranch c r n h))"
  by (simp_all add: rack_store_def)

lemma rack_driver_leaves:
  "leaves w_db (drv_Put (rack_driver y d) c sc h b)" "leaves w_db (drv_Get (rack_driver y d) c sc h)"
  "leaves w_db (drv_AssetExists (rack_driver y d) c sc h)" "leaves w_db (drv_WritePack (rack_driver y d) c sc h r)"
  "leaves w_db (drv_OpenPack (rack_driver y d) c sc h)"
  by (simp_all add: rack_driver_def leaves_on)

lemma writePack_leaves:
  assumes "pe_driver e = rack_driver y d"
  shows "leaves w_db (writePack x e c sc q)"
  unfolding writePack_def check_snapshot_def verifySnapshotAssets_def assms by (intro same.steps_intro rack_driver_leaves)

text \<open>Everything after the pack works on the database alone.\<close>

definition after_pack :: "contract_lib \<Rightarrow> 'w push_engine \<Rightarrow> ctx \<Rightarrow> PushRequest \<Rightarrow> CommitIdentity \<Rightarrow> ('w, unit) eff" where
  "after_pack x e c q base =
     ebind (if pq_BaseCommit q \<noteq> '''' then validateV2BaseFormat e c (pq_RepoID q) base else eret ()) (\<lambda>_.
     ebind (if normalizePackFormat (pq_PackFormat q) = PackFormatV3 then check_parents e c q else eret []) (\<lambda>_.
     ebind (efor (pq_Commits q) (register_commit x e c (pq_RepoID q))) (\<lambda>_.
     ebind (register_range e c q) (\<lambda>_.
     advance_branch e c q))))"

lemma after_pack_leaves:
  assumes "pe_store e = rack_store nrm"
  shows "leaves w_fs (after_pack x e c q base)"
  unfolding after_pack_def validateV2BaseFormat_def check_parents_def check_parent_def register_commit_def register_range_def
    advance_branch_def swap_branch_def diagnoseNonFastForward_def assms rack_store_simps option.case
  by (intro same.steps_intro leaves_on)

lemma HandlePush_split:
  "HandlePush x e c0 q =
     ebind (elift (validatePushRequest x q (pe_min e))) (\<lambda>_.
     ebind (ewrap ''sync: push: set tenant context'' (elift (bs_SetTenantContext (pe_store e) c0 (pq_TenantID q)))) (\<lambda>c.
     ebind (ewrap ''sync: push: invalid CAS scope'' (elift (NewScope (pq_TenantID q) (pq_RepoID q)))) (\<lambda>scope.
     ebind (ewrap ''sync: push: write pack'' (writePack x e c scope q)) (\<lambda>base.
     after_pack x e c q base))))"
  by (simp add: HandlePush_def after_pack_def)

text \<open>How far a push has come when it first touches the database.\<close>

lemma HandlePush_cases:
  assumes drv: "pe_driver e = rack_driver y d" and st: "pe_store e = rack_store nrm" and run: "HandlePush x e c0 q w = (r, w')"
  obtains (early) "w_db w' = w_db w" and "\<exists>err. r = Inl err"
  | (late) c sc base w1 where "validatePushRequest x q (pe_min e) = Inr ()" "SetTenantContext c0 (pq_TenantID q) = Inr c"
      "NewScope (pq_TenantID q) (pq_RepoID q) = Inr sc" "writePack x e c sc q w = (Inr base, w1)" "w_db w1 = w_db w"
      "after_pack x e c q base w1 = (r, w')" "w_fs w' = w_fs w1"
proof (cases "validatePushRequest x q (pe_min e)")
  case (Inl err)
  then have "r = Inl err \<and> w' = w" using run by (simp add: HandlePush_split ebind_def elift_def)
  then show thesis using early by simp
next
  case valid: (Inr u)
  show thesis
  proof (cases "SetTenantContext c0 (pq_TenantID q)")
    case (Inl err)
    then show thesis using run early valid st by (auto simp: HandlePush_split eff_run)
  next
    case c: (Inr c)
    show thesis
    proof (cases "NewScope (pq_TenantID q) (pq_RepoID q)")
      case (Inl err)
      then show thesis using run early valid st c by (auto simp: HandlePush_split eff_run)
    next
      case sc: (Inr sc)
      obtain r1 w1 where pack: "writePack x e c sc q w = (r1, w1)" by fastforce
      have db: "w_db w1 = w_db w" by (rule stepsD [OF writePack_leaves [OF drv] pack])
      show thesis
      proof (cases r1)
        case (Inl err)
        then show thesis using run early valid st c sc pack db by (auto simp: HandlePush_split eff_run)
      next
        case (Inr base)
        then have rest: "after_pack x e c q base w1 = (r, w')"
          using run valid st c sc pack by (simp add: HandlePush_split eff_run)
        show thesis
          by (rule late [OF _ c sc pack [unfolded Inr] db rest stepsD [OF after_pack_leaves [OF st] rest]]) (use valid in simp)
      qed
    qed
  qed
qed

text \<open>C4: Metadata never gets ahead of content. If a push, acknowledged or failed at any point, has so much as
  queried the database, then its pack is in the content store of its tenant and repository under its hash,
  the pack is a valid frame of the commits the request lists, from its base to its target, and the snapshot
  of every one of them is stored under its content ID, accepted by the validator, and has every asset it
  refers to.\<close>

theorem metadata_never_precedes_content:
  assumes "pe_driver e = rack_driver y d" and "pe_store e = rack_store nrm"
    and "HandlePush x e c0 q w = (r, w')" and "w_db w' \<noteq> w_db w"
  shows "\<exists>sc valid data frame. NewScope (pq_TenantID q) (pq_RepoID q) = Inr sc \<and> pe_validator e = Some valid \<and>
    read_stream (pq_PackStream q) = Inr data \<and> ContentID x data = pq_PackHash q \<and>
    unmarshal_pack x (normalizePackFormat (pq_PackFormat q)) data = Inr frame \<and>
    ci_ID (pf_Base frame) = pq_BaseCommit q \<and> ci_ID (pf_Target frame) = pq_TargetCommit q \<and>
    validateV2CommitMetadata x (pq_Commits q) (pf_Commits frame) = Inr () \<and>
    local_pack y d (w_fs w') sc (pq_PackHash q) \<noteq> None \<and>
    (\<forall>cf \<in> set (pf_Commits frame).
       snapshot_stored x valid (local_object y d (w_fs w') sc) (local_asset y d (w_fs w') sc) (cf_SnapshotRoot cf))"
  using assms(1-3)
proof (cases rule: HandlePush_cases)
  case early
  with assms(4) show ?thesis by simp
next
  case (late c sc base w1)
  show ?thesis using rack.writePack_stored [OF assms(1) late(4)] late(3,7) by auto
qed

end
