(* ===== verification/Sync_Push_Done.thy ===== *)
theory Sync_Push_Done
  imports Sync_Push_Facts Pg_Facts
begin

text \<open>
  What an acknowledged push has done: the branch is at the target, the commits are registered, and with
  version 2 packs the branch has moved forward along parent links.
\<close>

section \<open>Reads and registrations\<close>

context session
begin

lemma GetCommitMetadata_ok: "tenantIDFromContext c = Some T \<Longrightarrow> op_ok T (GetCommitMetadata c rid i)"
  unfolding GetCommitMetadata_def by (intro op_with_tenant op_intros; (erule op_tx)?; (intro ok_intros)?) simp_all

lemma GetBranchRef_ok: "tenantIDFromContext c = Some T \<Longrightarrow> op_ok T (GetBranchRef c rid b)"
  unfolding GetBranchRef_def by (intro op_with_tenant op_intros; (erule op_tx)?; (intro ok_intros)?) simp_all

lemma IsAncestor_ok: "tenantIDFromContext c = Some T \<Longrightarrow> op_ok T (IsAncestor c rid a i)"
  unfolding IsAncestor_def by (intro op_with_tenant op_intros; (erule op_tx)?; (intro ok_intros)?) simp_all

lemmas reads_ok = GetCommitMetadata_ok GetBranchRef_ok IsAncestor_ok

lemma op_run: "op_ok T m \<Longrightarrow> m w = (r, w') \<Longrightarrow> I (tabs w) \<Longrightarrow> S (env w) (Some T) \<Longrightarrow> kept w w'"
  unfolding op_ok_def by (metis snd_conv)

end

text \<open>Registrations and reads do not touch the branches.\<close>

definition same_branches :: "tables \<Rightarrow> tables \<Rightarrow> bool" where
  "same_branches t t' \<longleftrightarrow> branches t' = branches t"

interpretation heads: session "\<lambda>_. True" "\<lambda>_ _. True" same_branches
  by unfold_locales (auto simp: same_branches_def)

lemma heads_stmts:
  "heads.ok (insert_commit_nothing r)" "heads.ok (insert_parents T rid cid ps)" "heads.ok (insert_range_nothing pr)"
  unfolding insert_commit_nothing_def insert_parents_def insert_range_nothing_def
  by (rule heads.ok_sql, auto simp: Let_def same_branches_def split: if_splits)+

lemma heads_putCommitTx: "heads.ok (putCommitTx nrm T rid cid cm f)"
  unfolding putCommitTx_def commitParentIDs_def by (intro heads.ok_intros heads_stmts)

lemma heads_put_commit: "tenantIDFromContext c = Some T \<Longrightarrow> heads.op_ok T (PutCommitWithFormat nrm c rid cid cm f)"
  unfolding PutCommitWithFormat_def putCommit_def
  by (intro heads.op_with_tenant heads.op_intros; (erule heads.op_tx)?; (intro heads.ok_intros heads_putCommitTx)?) simp_all

lemma heads_put_range: "tenantIDFromContext c = Some T \<Longrightarrow> heads.op_ok T (PutPackRangeWithFormat c rid h b t f)"
  unfolding PutPackRangeWithFormat_def putPackRange_def
  by (intro heads.op_with_tenant heads.op_intros; (erule heads.op_tx)?; (intro heads.ok_intros heads_stmts)?) simp_all

text \<open>A step that registers: references stay intact, history grows, branches stay.\<close>

definition registers :: "db \<Rightarrow> db \<Rightarrow> bool" where
  "registers w w' \<longleftrightarrow> (refs_ok (tabs w) \<longrightarrow> refs_ok (tabs w')) \<and> history_grows (tabs w) (tabs w') \<and>
     same_branches (tabs w) (tabs w') \<and> env w' = env w"

definition w_registers :: "world \<Rightarrow> world \<Rightarrow> bool" where
  "w_registers w w' \<longleftrightarrow> registers (w_db w) (w_db w')"

interpretation reg: state_order w_registers
  by unfold_locales (auto simp: w_registers_def registers_def same_branches_def intro: hist.R_refl hist.R_trans)

lemma registersI:
  assumes "refs.op_ok T m" and "hist.op_ok T m" and "heads.op_ok T m"
  shows "steps w_registers (on_db m)"
proof -
  have "registers w (snd (m w))" for w
    using assms unfolding registers_def refs.op_ok_def hist.op_ok_def heads.op_ok_def refs.kept_def hist.kept_def heads.kept_def
    by blast
  then show ?thesis by (simp add: steps_def w_registers_def)
qed

lemma registering:
  assumes T: "tenantIDFromContext c = Some T"
  shows "steps w_registers (on_db (GetCommitMetadata c rid i))" "steps w_registers (on_db (GetBranchRef c rid b))"
    "steps w_registers (on_db (IsAncestor c rid a i))" "steps w_registers (on_db (PutCommitWithFormat nrm c rid cid cm f))"
    "steps w_registers (on_db (PutPackRangeWithFormat c rid h bs t f))"
  by (intro registersI [of T] T refs.reads_ok hist.reads_ok heads.reads_ok refs.PutCommitWithFormat_ok
    hist.PutCommitWithFormat_ok refs.PutPackRangeWithFormat_ok hist.PutPackRangeWithFormat_ok heads_put_commit heads_put_range)+

section \<open>The registered graph\<close>

text \<open>What was there is still there.\<close>

lemma view_grows:
  assumes "registers w w'"
  shows "set (commit_ids (tenant_view T w) rid) \<subseteq> set (commit_ids (tenant_view T w') rid)"
    and "parent_links (tenant_view T w) rid \<subseteq> parent_links (tenant_view T w') rid"
    and "head_of w' = head_of w"
proof -
  have v: "vis (tenant_view T w') = vis (tenant_view T w)" for T
    by (rule vis_cong) (use assms in \<open>simp_all add: registers_def tenant_view_def\<close>)
  show "set (commit_ids (tenant_view T w) rid) \<subseteq> set (commit_ids (tenant_view T w') rid)"
    "parent_links (tenant_view T w) rid \<subseteq> parent_links (tenant_view T w') rid"
    using assms unfolding commit_ids_def parent_links_def links_def v
    by (auto simp: registers_def history_grows_def tenant_view_def)
  show "head_of w' = head_of w"
    by (intro ext) (use v assms in \<open>simp add: head_of_def find_branch_def registers_def same_branches_def tenant_view_def\<close>)
qed

text \<open>The tenant sees the commit, with links to the parents the normalised record names.\<close>

definition registered :: "(commit \<Rightarrow> goerr + commit) \<Rightarrow> string \<Rightarrow> string \<Rightarrow> CommitRecord \<Rightarrow> db \<Rightarrow> bool" where
  "registered nrm T rid r w \<longleftrightarrow> cr_ID r \<in> set (commit_ids (tenant_view T w) rid) \<and>
     (\<exists>n. nrm (cr_Commit r) = Inr n \<and> (\<forall>p \<in> set (cm_Parents n). (cr_ID r, p) \<in> parent_links (tenant_view T w) rid))"

lemma registered_kept: "registered nrm T rid r w \<Longrightarrow> registers w w' \<Longrightarrow> registered nrm T rid r w'"
  using view_grows(1,2) [of w w' T rid] unfolding registered_def by blast

lemma put_registers:
  assumes "PutCommitWithFormat nrm c rid (cr_ID r) (cr_Commit r) f w = (Inr u, w')" and "tenantIDFromContext c = Some T"
    and "env_rls (env w)" and "refs_ok (tabs w)"
  shows "registered nrm T rid r w'"
proof -
  obtain n row where n: "nrm (cr_Commit r) = Inr n" "commit_view T w' rid (cr_ID r) = Some (row, cm_Parents n)"
    using put_commit_view [OF assms] by blast
  then have "find_commit (tenant_view T w') rid (cr_ID r) = Some row" "parents_of (tenant_view T w') rid (cr_ID r) = cm_Parents n"
    by (auto simp: commit_view_def)
  then show ?thesis
    using n(1) find_commit_ids [of "tenant_view T w'" rid "cr_ID r"] parents_links [of _ "tenant_view T w'" rid "cr_ID r"]
    by (auto simp: registered_def)
qed

lemma register_all_commits:
  assumes "efor rs (register_commit x e c rid) w = (Inr u, w')" and st: "pe_store e = rack_store nrm"
    and T: "tenantIDFromContext c = Some T" and "env_rls (env (w_db w))" and "refs_ok (tabs (w_db w))"
  shows "w_registers w w' \<and> (\<forall>r \<in> set rs. registered nrm T rid r (w_db w'))"
  using assms(1,4,5)
proof (induction rs arbitrary: w)
  case (Cons r rs)
  then obtain v w1 where one: "register_commit x e c rid r w = (Inr v, w1)"
    and rest: "efor rs (register_commit x e c rid) w1 = (Inr u, w')" by (auto simp: ebind_Inr_iff)
  have "steps w_registers (register_commit x e c rid r)"
    unfolding register_commit_def st rack_store_simps option.case by (intro reg.steps_intro registering [OF T])
  then have s1: "w_registers w w1" using one by (rule stepsD)
  have "PutCommitWithFormat nrm c rid (cr_ID r) (cr_Commit r) CommitFormatV2 (w_db w) = (Inr v, w_db w1)"
    using one st by (auto simp: register_commit_def run_inv on_db_iff simp del: elift_iff)
  then have "registered nrm T rid r (w_db w1)" using put_registers [OF _ T] Cons.prems by simp
  moreover have "w_registers w1 w' \<and> (\<forall>r \<in> set rs. registered nrm T rid r (w_db w'))"
    using Cons.IH [OF rest] Cons.prems s1 by (simp add: w_registers_def registers_def)
  ultimately show ?case using s1 reg.trans by (auto intro: registered_kept simp: w_registers_def)
qed (simp add: reg.refl)

text \<open>
  What the contract library is relied on for: the commit record keeps the parents in order, equal records
  have equal parents, and normalisation keeps them.
\<close>

definition faithful_lib :: "contract_lib \<Rightarrow> (commit \<Rightarrow> goerr + commit) \<Rightarrow> bool" where
  "faithful_lib x nrm \<longleftrightarrow>
     (\<forall>root ps a m t cm. gc_NewCommit x root ps a m t = Inr cm \<longrightarrow> cm_Parents cm = ps) \<and>
     (\<forall>a b. gc_Equal x a b \<longrightarrow> cm_Parents a = cm_Parents b) \<and>
     (\<forall>a n. nrm a = Inr n \<longrightarrow> cm_Parents n = cm_Parents a)"

lemma chain_reaches:
  assumes lib: "faithful_lib x nrm"
  shows "chain x b cs t \<Longrightarrow> match_records x rs cs = Inr () \<Longrightarrow> length rs = length cs \<Longrightarrow>
    \<forall>r \<in> set rs. registered nrm T rid r w \<Longrightarrow> ci_ID b \<in> set (commit_ids (tenant_view T w) rid) \<Longrightarrow> b \<noteq> no_base \<Longrightarrow>
    is_ancestor_of (tenant_view T w) rid (ci_ID b) (ci_ID t)"
proof (induction cs arbitrary: b rs)
  case Nil
  then show ?case by (simp add: is_ancestor_of_def)
next
  case (Cons c cs)
  then obtain r rs' where rs: "rs = r # rs'" by (cases rs) auto
  obtain i where i: "frame_Identity x c = Inr i" "chain x i cs t" and parents: "cf_Parents c \<noteq> []" "hd (cf_Parents c) = b"
    using Cons.prems(1,6) by (auto split: sum.splits if_splits)
  obtain cm where cm: "frame_Commit x c = Inr cm" "CommitObjectID x cm = Inr (ci_ID i)" and "i = V2CommitIdentity (ci_ID i)"
    using i(1) by (auto simp: frame_Identity_Inr)
  have r: "cr_ID r = ci_ID i" "gc_Equal x (cr_Commit r) cm" "match_records x rs' cs = Inr ()"
    using Cons.prems(2) rs cm by (auto split: if_splits)
  have "cm_Parents cm = map ci_ID (cf_Parents c)" using cm(1) lib by (auto simp: frame_Commit_def faithful_lib_def)
  then have "ci_ID b \<in> set (cm_Parents (cr_Commit r))"
    using r(2) lib parents by (cases "cf_Parents c") (auto simp: faithful_lib_def)
  then have link: "(ci_ID i, ci_ID b) \<in> known_links (tenant_view T w) rid"
    using Cons.prems(4,5) lib r(1) rs by (auto simp: registered_def known_links_def faithful_lib_def)
  have "is_ancestor_of (tenant_view T w) rid (ci_ID i) (ci_ID t)"
  proof (rule Cons.IH [OF i(2) r(3)])
    show "ci_ID i \<in> set (commit_ids (tenant_view T w) rid)" using Cons.prems(4) rs r(1) by (auto simp: registered_def)
    show "i \<noteq> no_base" using i(1) by (rule frame_Identity_not_base)
  qed (use Cons.prems rs in auto)
  then show ?case using link by (auto simp: is_ancestor_of_def intro: rtrancl_into_rtrancl)
qed

section \<open>Moving the branch\<close>

lemma graph_grows:
  assumes "history_grows (tabs w) (tabs w')" and "env w' = env w"
  shows "set (commit_ids (tenant_view T w) rid) \<subseteq> set (commit_ids (tenant_view T w') rid)"
    and "parent_links (tenant_view T w) rid \<subseteq> parent_links (tenant_view T w') rid"
proof -
  have v: "vis (tenant_view T w') = vis (tenant_view T w)"
    by (rule vis_cong) (use assms in \<open>simp_all add: tenant_view_def\<close>)
  show "set (commit_ids (tenant_view T w) rid) \<subseteq> set (commit_ids (tenant_view T w') rid)"
    "parent_links (tenant_view T w) rid \<subseteq> parent_links (tenant_view T w') rid"
    using assms unfolding commit_ids_def parent_links_def links_def v by (auto simp: history_grows_def tenant_view_def)
qed

lemma ancestor_kept:
  assumes "is_ancestor_of (tenant_view T w) rid a i" and "history_grows (tabs w) (tabs w')" and "env w' = env w"
  shows "is_ancestor_of (tenant_view T w') rid a i"
proof -
  have "known_links (tenant_view T w) rid \<subseteq> known_links (tenant_view T w') rid"
    using graph_grows [OF assms(2,3), of T rid] by (auto simp: known_links_def)
  then show ?thesis
    using assms(1) graph_grows(1) [OF assms(2,3), of T rid] rtrancl_mono unfolding is_ancestor_of_def by blast
qed

lemma GetBranchRef_head:
  assumes "GetBranchRef c rid b w = (Inr h, w')" and T: "tenantIDFromContext c = Some T"
  shows "head_of w T rid b = Some h"
  using assms by (auto simp: GetBranchRef_def with_tenant_Some [OF T] stmt_inv simp flip: head_of_in_tx elim!: withTenantTx_Inr [OF _ T])

lemma GetBranchRef_missing:
  assumes run: "GetBranchRef c rid b w = (Inl e, w')" and T: "tenantIDFromContext c = Some T" and e: "err_is e (Pg ErrBranchNotFound)"
  shows "head_of w T rid b = None"
proof (rule ccontr)
  assume "head_of w T rid b \<noteq> None"
  then obtain r where r: "find_branch (in_tx T w) rid b = Some r" by (auto simp flip: head_of_in_tx)
  have "T \<noteq> ''''" using T by (auto simp: tenantIDFromContext_def split: option.splits if_splits)
  note run' = run [unfolded GetBranchRef_def with_tenant_Some [OF T]]
  have "\<not> err_is e (Pg ErrBranchNotFound)"
  proof (cases "env_fault (env w) (calls w) \<or> env_fault (env w) (Suc (calls w))")
    case True
    then show ?thesis using run' T \<open>T \<noteq> ''''\<close>
      by (auto simp: withTenantTx_def withConfiguredTenantTx_def begin_tx_cases set_tenant_cases ebind_def tick_def split: if_splits)
  next
    case False
    then show ?thesis using run' r
      by (auto simp: withTenantTx_run [OF T] commit_tx_def no_rows_or_def no_rows_def sql_row_def sql_def ecatch_def efail_def
        split: if_splits)
  qed
  with e show False by simp
qed

lemma CreateBranch_head:
  assumes run: "CreateBranch c rid n h w = (Inr u, w')" and T: "tenantIDFromContext c = Some T"
  shows "head_of w' T rid' n' = (if rid' = rid \<and> n' = n then Some h else head_of w T rid' n')"
proof -
  obtain w2 d w1 where w': "w' = (tick w2)\<lparr>guc := None\<rparr>" and q: "query_default_branch rid T (in_tx T w) = (Inr d, w1)"
    and ins: "ebind (insert_branch \<lparr>b_tenant = T, b_repo = rid, b_name = n, b_head = h, b_updated = txnow w1, b_deleted = None\<rparr>)
       (\<lambda>_. if d = None then ewrap ''postgres: create branch: set default branch'' (set_default_branch n rid T) else eret ()) w1 = (Inr u, w2)"
    using run
    by (auto simp: CreateBranch_def with_tenant_Some [OF T] stmt_inv ecatch_def ebind_def efail_def split: prod.splits sum.splits if_splits
        elim!: withTenantTx_Inr [OF _ T])
  have w1: "w1 = tick (in_tx T w)" using default_branch_run [OF q] by blast
  let ?r = "\<lparr>b_tenant = T, b_repo = rid, b_name = n, b_head = h, b_updated = txnow w1, b_deleted = None\<rparr>"
  have b2: "branches (tabs w2) = branches (tabs w) @ [?r]" "env w2 = env w"
    and new: "\<not> list_ex (\<lambda>q. b_repo q = rid \<and> b_name q = n) (branches (tabs w))"
    using ins by (auto simp: w1 stmt_inv insert_branch_def sql_Inr Let_def checked_def set_default_branch_def split: if_splits)
  have v: "vis (w'\<lparr>guc := Some T\<rparr>) = vis (in_tx T w)" by (rule vis_cong) (simp_all add: w' b2)
  have vT: "vis (in_tx T w) T" by (simp add: vis_def)
  have "find_branch (w'\<lparr>guc := Some T\<rparr>) rid' n' = (if rid' = rid \<and> n' = n then Some ?r else find_branch (in_tx T w) rid' n')"
  proof (cases "rid' = rid \<and> n' = n")
    case True
    then have "find (\<lambda>b. vis (in_tx T w) (b_tenant b) \<and> b_repo b = rid' \<and> b_name b = n') (branches (tabs w)) = None"
      using new by (auto simp: list_ex_iff)
    then show ?thesis unfolding find_branch_def v using True vT by (simp add: w' b2 find_append del: find_eq_None)
  next
    case False
    then have "find (\<lambda>b. vis (in_tx T w) (b_tenant b) \<and> b_repo b = rid' \<and> b_name b = n') [?r] = None" by auto
    then show ?thesis unfolding find_branch_def v using False
      by (auto simp: w' b2 find_append simp del: find_eq_None find.simps split: option.splits)
  qed
  then show ?thesis by (simp add: head_of_def [of w'] head_of_in_tx)
qed

section \<open>An acknowledged push\<close>

lemma tenant_of_context: "SetTenantContext c0 t = Inr c \<Longrightarrow> tenantIDFromContext c = Some t"
  by (auto simp: SetTenantContext_def tenantIDFromContext_def uuidV4Pattern_def split: if_splits)

lemma head_exists:
  assumes "head_of w T rid b = Some h" and "refs_ok (tabs w)" and "env_rls (env w)"
  shows "h \<in> set (commit_ids (tenant_view T w) rid)"
proof -
  obtain r where "r \<in> set (branches (tabs w))" "b_tenant r = T" "b_repo r = rid" "b_head r = h"
    using assms(1,3) by (auto simp: head_of_def find_branch_def vis_def dest!: find_SomeD)
  then have "has_commit (tabs w) T rid h" using refs_branches [OF assms(2)] by auto
  then show ?thesis using assms(3) by (force simp: has_commit_def list_ex_iff commit_ids_def tenant_view_def vis_def)
qed

text \<open>The last stage, on the database: which head the branch had, and where it is now.\<close>

lemma advance_Inr:
  assumes run: "advance_branch e c q w = (Inr u, w')" and st: "pe_store e = rack_store nrm" and T: "tenantIDFromContext c = Some T"
    and refs: "refs_ok (tabs (w_db w))" and rls: "env_rls (env (w_db w))"
  shows "(case head_of (w_db w) T (pq_RepoID q) (pq_Branch q) of
       None \<Rightarrow> pq_BaseCommit q = ''''
     | Some h \<Rightarrow> h = pq_BaseCommit q \<or> is_ancestor_of (tenant_view T (w_db w')) (pq_RepoID q) h (pq_TargetCommit q)) \<and>
    (\<forall>rid b. head_of (w_db w') T rid b =
       (if rid = pq_RepoID q \<and> b = pq_Branch q then Some (pq_TargetCommit q) else head_of (w_db w) T rid b)) \<and>
    history_grows (tabs (w_db w)) (tabs (w_db w')) \<and> env (w_db w') = env (w_db w)"
proof -
  let ?rid = "pq_RepoID q" and ?b = "pq_Branch q" and ?t = "pq_TargetCommit q"
  obtain r s where get: "GetBranchRef c ?rid ?b (w_db w) = (r, s)"
    and rest: "(case r of
       Inl err \<Rightarrow> if err_is err (Pg ErrBranchNotFound) \<and> pq_BaseCommit q = '''' then
           ewrap ''sync: push: create branch'' (on_db (CreateBranch c ?rid ?b ?t))
         else efail (Wrapf ''sync: push: get branch ref'' err)
     | Inr actualHead \<Rightarrow>
         if actualHead = pq_BaseCommit q then swap_branch e c q (pq_BaseCommit q) actualHead
         else if pq_BaseCommit q \<noteq> '''' then diagnoseNonFastForward e c q actualHead
         else if actualHead = ?t then eret ()
         else ebind (etry (on_db (IsAncestor c ?rid actualHead ?t))) (\<lambda>anc.
           if anc = Inr True then swap_branch e c q actualHead actualHead
           else diagnoseNonFastForward e c q actualHead)) (w\<lparr>w_db := s\<rparr>) = (Inr u, w')"
    using run unfolding advance_branch_def st rack_store_simps option.case by (auto simp: ebind_Inr_iff etry_iff on_db_iff)
  define w1 where "w1 = w\<lparr>w_db := s\<rparr>"
  note rest = rest [folded w1_def]
  have get: "GetBranchRef c ?rid ?b (w_db w) = (r, w_db w1)" using get by (simp add: w1_def)
  have quiet: "registers (w_db v) (w_db v')" if "on_db m v = (r', v')" and "steps w_registers (on_db m)" for m :: "(db, 'z) eff" and v v' r'
    using stepsD [OF that(2,1)] by (simp add: w_registers_def)
  have "on_db (GetBranchRef c ?rid ?b) w = (r, w1)" using get by (simp add: on_db_iff w1_def)
  then have g1: "registers (w_db w) (w_db w1)" by (rule quiet) (rule registering [OF T])
  have heads: "head_of (w_db w1) = head_of (w_db w)" by (rule view_grows(3) [OF g1])
  have hist1: "history_grows (tabs (w_db w)) (tabs (w_db w1))" "env (w_db w1) = env (w_db w)" "refs_ok (tabs (w_db w1))"
    using g1 refs by (auto simp: registers_def)
  have diag: "diagnoseNonFastForward e c q h v \<noteq> (Inr u', v')" for h v u' v'
    by (auto simp: diagnoseNonFastForward_def ebind_Inr_iff)
  have swap: "head_of (w_db v) T ?rid ?b = Some old \<and>
      (\<forall>rid b. head_of (w_db w') T rid b = (if rid = ?rid \<and> b = ?b then Some ?t else head_of (w_db v) T rid b)) \<and>
      history_grows (tabs (w_db v)) (tabs (w_db w')) \<and> env (w_db w') = env (w_db v)"
    if "swap_branch e c q old h v = (Inr u, w')" for old h v
  proof -
    have cas: "CompareAndSwapBranchRef c ?rid ?b old ?t (w_db v) = (Inr u, w_db w')"
      using that by (auto simp: swap_branch_def st ecatch_def efail_def on_db_def split: prod.splits sum.splits if_splits)
    have "hist.kept (w_db v) (w_db w')" by (rule hist.op_run [OF hist.CompareAndSwapBranchRef_ok [OF T] cas]) simp_all
    with cas_success [OF cas T] show ?thesis by (auto simp: hist.kept_def)
  qed
  show ?thesis
  proof (cases r)
    case (Inl err)
    with rest have nf: "err_is err (Pg ErrBranchNotFound)" "pq_BaseCommit q = ''''"
      and mk: "CreateBranch c ?rid ?b ?t (w_db w1) = (Inr u, w_db w')" by (auto simp: run_inv on_db_iff split: if_splits)
    have "head_of (w_db w) T ?rid ?b = None" using GetBranchRef_missing [OF get [unfolded Inl] T nf(1)] .
    moreover have "hist.kept (w_db w1) (w_db w')" by (rule hist.op_run [OF hist.CreateBranch_ok [OF T] mk]) simp_all
    ultimately show ?thesis
      using nf(2) CreateBranch_head [OF mk T] hist1 by (auto simp: hist.kept_def heads intro: hist.R_trans)
  next
    case (Inr h)
    have h: "head_of (w_db w) T ?rid ?b = Some h" using get Inr T by (auto intro: GetBranchRef_head)
    show ?thesis
    proof (cases "h = pq_BaseCommit q")
      case True
      then have "swap_branch e c q (pq_BaseCommit q) h w1 = (Inr u, w')" using rest Inr by simp
      note swap [OF this]
      then show ?thesis using h True hist1 by (auto simp: heads intro: hist.R_trans)
    next
      case False
      with rest Inr diag have nb: "pq_BaseCommit q = ''''" by (auto split: if_splits)
      show ?thesis
      proof (cases "h = ?t")
        case True
        then have "w' = w1" using rest Inr False nb by simp
        moreover have "is_ancestor_of (tenant_view T (w_db w1)) ?rid h ?t"
          using head_exists [of "w_db w1" T ?rid ?b h] h hist1 rls True by (simp add: heads is_ancestor_of_def)
        ultimately show ?thesis using h True hist1 by (auto simp: heads)
      next
        case no: False
        obtain r2 v where anc: "on_db (IsAncestor c ?rid h ?t) w1 = (r2, v)"
          and sw: "(if r2 = Inr True then swap_branch e c q h h else diagnoseNonFastForward e c q h) v = (Inr u, w')"
          using rest Inr False nb no by (auto simp: ebind_Inr_iff etry_iff)
        with diag have r2: "r2 = Inr True" by (auto split: if_splits)
        have reach: "is_ancestor_of (tenant_view T (w_db w1)) ?rid h ?t"
          using anc r2 IsAncestor_reach [OF _ T] by (auto simp: on_db_iff)
        have g2: "registers (w_db w1) (w_db v)" using anc by (rule quiet) (rule registering [OF T])
        have s: "swap_branch e c q h h v = (Inr u, w')" using sw r2 by simp
        have hv: "head_of (w_db v) = head_of (w_db w)" using view_grows(3) [OF g2] heads by simp
        have hg: "history_grows (tabs (w_db w1)) (tabs (w_db w'))" "env (w_db w') = env (w_db w1)"
          using swap [OF s] g2 by (auto simp: registers_def intro: hist.R_trans)
        then show ?thesis
          using h swap [OF s] hv ancestor_kept [OF reach hg] hist1 by (auto intro: hist.R_trans)
      qed
    qed
  qed
qed

lemma GetCommitMetadata_exists:
  assumes "GetCommitMetadata c rid i w = (Inr md, w')" and T: "tenantIDFromContext c = Some T"
  shows "i \<in> set (commit_ids (tenant_view T w) rid)"
proof -
  have "find_commit (in_tx T w) rid i \<noteq> None"
    using assms by (auto simp: GetCommitMetadata_def with_tenant_Some [OF T] stmt_inv elim!: withTenantTx_Inr [OF _ T])
  then show ?thesis using find_commit_ids [of "tenant_view T w" rid i] by (simp add: same_view_graph [OF view_in_tx])
qed

text \<open>Before the branch moves, everything the push refers to is registered.\<close>

lemma after_pack_prepares:
  assumes run: "after_pack x e c q base w = (Inr u, w')" and st: "pe_store e = rack_store nrm" and T: "tenantIDFromContext c = Some T"
    and rls: "env_rls (env (w_db w))" and refs: "refs_ok (tabs (w_db w))"
  shows "\<exists>v. w_registers w v \<and> (\<forall>r \<in> set (pq_Commits q). registered nrm T (pq_RepoID q) r (w_db v)) \<and>
    advance_branch e c q v = (Inr u, w') \<and>
    (pq_BaseCommit q \<noteq> '''' \<longrightarrow> ci_Format base = CommitFormatV2 \<and> ci_ID base \<in> set (commit_ids (tenant_view T (w_db v)) (pq_RepoID q)))"
proof -
  let ?rid = "pq_RepoID q"
  obtain u1 w1 l w2 u3 w3 u4 v
    where base: "(if pq_BaseCommit q \<noteq> '''' then validateV2BaseFormat e c ?rid base else eret ()) w = (Inr u1, w1)"
    and par: "(if normalizePackFormat (pq_PackFormat q) = PackFormatV3 then check_parents e c q else eret []) w1 = (Inr l, w2)"
    and all: "efor (pq_Commits q) (register_commit x e c ?rid) w2 = (Inr u3, w3)"
    and rng: "register_range e c q w3 = (Inr u4, v)" and adv: "advance_branch e c q v = (Inr u, w')"
    using run unfolding after_pack_def ebind_Inr_iff by blast
  note intro = reg.steps_intro registering [OF T]
  have "steps w_registers (if pq_BaseCommit q \<noteq> '''' then validateV2BaseFormat e c ?rid base else eret ())"
    unfolding validateV2BaseFormat_def st rack_store_simps by (intro intro)
  then have g1: "w_registers w w1" using base by (rule stepsD)
  have "steps w_registers (if normalizePackFormat (pq_PackFormat q) = PackFormatV3 then check_parents e c q else eret [])"
    unfolding check_parents_def check_parent_def st rack_store_simps by (intro intro)
  then have g2: "w_registers w1 w2" using par by (rule stepsD)
  have "w_registers w w2" using g1 g2 by (rule reg.trans)
  then have g3: "w_registers w2 w3 \<and> (\<forall>r \<in> set (pq_Commits q). registered nrm T ?rid r (w_db w3))"
    using rls refs by (intro register_all_commits [OF all st T]) (simp_all add: w_registers_def registers_def)
  have "steps w_registers (register_range e c q)"
    unfolding register_range_def st rack_store_simps option.case by (intro intro)
  then have g4: "w_registers w3 v" using rng by (rule stepsD)
  have g: "w_registers w1 v" using g2 g3 g4 reg.trans by blast
  have "ci_Format base = CommitFormatV2 \<and> ci_ID base \<in> set (commit_ids (tenant_view T (w_db v)) ?rid)" if "pq_BaseCommit q \<noteq> ''''"
  proof -
    have "validateV2BaseFormat e c ?rid base w = (Inr u1, w1)" using base that by simp
    then obtain md where "ci_Format base = CommitFormatV2" and md: "GetCommitMetadata c ?rid (ci_ID base) (w_db w) = (Inr md, w_db w1)"
      unfolding validateV2BaseFormat_def st rack_store_simps by (auto simp: run_inv on_db_iff simp del: elift_iff)
    moreover have "w_registers w v" using g1 g by (rule reg.trans)
    ultimately show ?thesis
      using GetCommitMetadata_exists [OF md T] view_grows(1) [of "w_db w" "w_db v" T ?rid] by (auto simp: w_registers_def)
  qed
  moreover have "\<forall>r \<in> set (pq_Commits q). registered nrm T ?rid r (w_db v)"
    using g3 g4 by (auto simp: w_registers_def intro: registered_kept)
  ultimately show ?thesis using adv g1 g reg.trans by blast
qed

text \<open>C3: An acknowledged push moves its branch forward, and only its branch. When a push of canonical version 2
  history succeeds, the branch stands at the pushed target; it did not exist and the push named no base, or
  it stood at a commit that is an ancestor of the target in the registered graph, linked to it by the pushed
  commits; and every other branch of the tenant stands where it stood. This rests on the contract library
  keeping a commit's parents as given.\<close>

theorem acknowledged_push_moves_forward:
  assumes drv: "pe_driver e = rack_driver y d" and st: "pe_store e = rack_store nrm"
    and run: "HandlePush x e c0 q w = (Inr u, w')" and v2: "normalizePackFormat (pq_PackFormat q) \<noteq> PackFormatV3"
    and lib: "faithful_lib x nrm" and rls: "env_rls (env (w_db w))" and refs: "refs_ok (tabs (w_db w))"
    and named: "head_of (w_db w) (pq_TenantID q) (pq_RepoID q) (pq_Branch q) \<noteq> Some ''''"
  shows "(case head_of (w_db w) (pq_TenantID q) (pq_RepoID q) (pq_Branch q) of
       None \<Rightarrow> pq_BaseCommit q = ''''
     | Some h \<Rightarrow> is_ancestor_of (tenant_view (pq_TenantID q) (w_db w')) (pq_RepoID q) h (pq_TargetCommit q)) \<and>
    (\<forall>rid b. head_of (w_db w') (pq_TenantID q) rid b =
       (if rid = pq_RepoID q \<and> b = pq_Branch q then Some (pq_TargetCommit q) else head_of (w_db w) (pq_TenantID q) rid b))"
  using drv st run
proof (cases rule: HandlePush_cases)
  case early
  then show ?thesis by auto
next
  case (late c sc base w1)
  let ?T = "pq_TenantID q" and ?rid = "pq_RepoID q"
  have T: "tenantIDFromContext c = Some ?T" by (rule tenant_of_context [OF late(2)])
  obtain frame data where frame: "unmarshal_pack x (normalizePackFormat (pq_PackFormat q)) data = Inr frame" "base = pf_Base frame"
    "ci_ID base = pq_BaseCommit q" "ci_ID (pf_Target frame) = pq_TargetCommit q"
    "validateV2CommitMetadata x (pq_Commits q) (pf_Commits frame) = Inr ()"
    using rack.writePack_stored [OF drv late(4)] by blast
  have valid: "chain x base (pf_Commits frame) (pf_Target frame)"
    using unmarshal_pack_valid [OF frame(1)] v2 by (simp add: valid_v2_def frame(2))
  have recs: "match_records x (pq_Commits q) (pf_Commits frame) = Inr ()" "length (pq_Commits q) = length (pf_Commits frame)"
    using frame(5) by (auto simp: validateV2CommitMetadata_def split: if_splits)
  obtain v where g: "w_registers w1 v" and all: "\<forall>r \<in> set (pq_Commits q). registered nrm ?T ?rid r (w_db v)"
    and adv: "advance_branch e c q v = (Inr u, w')"
    and based: "pq_BaseCommit q \<noteq> '''' \<longrightarrow> ci_Format base = CommitFormatV2 \<and> ci_ID base \<in> set (commit_ids (tenant_view ?T (w_db v)) ?rid)"
    using after_pack_prepares [OF late(6) st T] rls refs late(5) by auto
  have g': "registers (w_db w) (w_db v)" using g late(5) by (simp add: w_registers_def)
  then have heads: "head_of (w_db v) = head_of (w_db w)" by (rule view_grows(3))
  have inv: "refs_ok (tabs (w_db v))" "env_rls (env (w_db v))" using g' rls refs by (simp_all add: registers_def)
  note last = advance_Inr [OF adv st T inv]
  have "is_ancestor_of (tenant_view ?T (w_db w')) ?rid (pq_BaseCommit q) (pq_TargetCommit q)" if "pq_BaseCommit q \<noteq> ''''"
  proof -
    have "base \<noteq> no_base" using that frame(3) by (auto simp: no_base_def)
    then have "is_ancestor_of (tenant_view ?T (w_db v)) ?rid (ci_ID base) (ci_ID (pf_Target frame))"
      using based that by (intro chain_reaches [OF lib valid recs all]) auto
    then show ?thesis using last by (auto simp: frame(3,4) intro: ancestor_kept)
  qed
  then show ?thesis using last named by (auto simp: heads split: option.splits)
qed

end
