(* ===== verification/Sync_Samples.thy ===== *)
theory Sync_Samples
  imports Sync_Push_Done
begin

text \<open>
  A concrete server and pushes to it. Every digest is 32 zero bytes, every file of the content store is
  empty and already there, and the repository holds two unrelated commits, one of them the head of its
  branch.
\<close>

section \<open>The sample\<close>

definition zero_id :: string where "zero_id = hex_encode (replicate 32 0)"
definition head_id :: string where "head_id = hex_encode (replicate 32 1)"
definition other_id :: string where "other_id = hex_encode (replicate 32 2)"

definition tenant_uuid :: string where "tenant_uuid = ''11111111-1111-4111-8111-111111111111''"

text \<open>The pushed frame: one commit with parent \<open>p\<close> and an empty snapshot.\<close>

definition push_commit_frame :: "string \<Rightarrow> CommitFrameV2" where
  "push_commit_frame p = \<lparr>cf_Version = 2, cf_Parents = [V2CommitIdentity p], cf_SnapshotRoot = zero_id, cf_Author = ''a'',
     cf_Message = ''m'', cf_Time = 0\<rparr>"

definition push_frame :: "uint32 \<Rightarrow> string \<Rightarrow> PackFrame" where
  "push_frame v p = \<lparr>pf_Version = v, pf_Base = V2CommitIdentity head_id, pf_Target = V2CommitIdentity zero_id,
     pf_Commits = [push_commit_frame p], pf_Objects = [\<lparr>po_ID = zero_id, po_Data = []\<rparr>]\<rparr>"

definition push_lib :: "PackFrame \<Rightarrow> contract_lib" where
  "push_lib f = \<lparr>gc_NewCommit = (\<lambda>root ps a m t. Inr \<lparr>cm_Snapshot = root, cm_Parents = ps, cm_Author = a, cm_Message = m, cm_Time = t\<rparr>),
     gc_MarshalCommit = (\<lambda>_. Inr []), gc_Equal = (=), blake3_sum = (\<lambda>_. replicate 32 0),
     cbor_enc_pack = (\<lambda>g. if g = f then Inr [] else Inl (Ext ''cbor'')), cbor_dec_pack = (\<lambda>d. if d = [] then Inr f else Inl (Ext ''cbor'')),
     cbor_nodes = (\<lambda>_. None)\<rparr>"

definition push_cas :: cas_ext where
  "push_cas = \<lparr>blake3 = (\<lambda>_. replicate 32 0), zstd_encode = (\<lambda>b. b), zstd_decode = (\<lambda>b. \<lparr>rd_data = b, rd_err = None\<rparr>)\<rparr>"

definition push_record_of :: "string \<Rightarrow> CommitRecord" where
  "push_record_of p = \<lparr>cr_ID = zero_id, cr_Commit = \<lparr>cm_Snapshot = zero_id, cm_Parents = [p], cm_Author = ''a'', cm_Message = ''m'', cm_Time = 0\<rparr>\<rparr>"

definition push_request :: "uint32 \<Rightarrow> string \<Rightarrow> PushRequest" where
  "push_request v p = \<lparr>pq_TenantID = tenant_uuid, pq_RepoID = ''r'', pq_Branch = ''main'', pq_TargetCommit = zero_id,
     pq_BaseCommit = head_id, pq_Commits = [push_record_of p], pq_PackHash = zero_id, pq_PackFormat = v,
     pq_PackStream = Some \<lparr>rd_data = [], rd_err = None\<rparr>\<rparr>"

definition push_tabs :: tables where
  "push_tabs = \<lparr>
     tenants = [\<lparr>t_id = tenant_uuid, t_name = ''t'', t_created = 0, t_quota = 1000, t_used = 0\<rparr>],
     repositories = [\<lparr>r_id = ''r'', r_tenant = tenant_uuid, r_name = ''r'', r_created = 0, r_default = Some ''main''\<rparr>],
     commits = map (\<lambda>i. \<lparr>c_id = i, c_tenant = tenant_uuid, c_repo = ''r'', c_root = zero_id, c_format = 2, c_author = ''a'',
       c_message = ''m'', c_time = 0\<rparr>) [head_id, other_id],
     commit_parents = [], pack_ranges = [],
     branches = [\<lparr>b_tenant = tenant_uuid, b_repo = ''r'', b_name = ''main'', b_head = head_id, b_updated = 0, b_deleted = None\<rparr>],
     merge_leases = [], native_packs = [], native_objects = [], active_txns = [], audit_records = [], push_txns = [], assets = []\<rparr>"

definition push_db :: db where
  "push_db = \<lparr>tabs = push_tabs, guc = None, txnow = 0, calls = 0, env = \<lparr>env_rls = True, env_fault = (\<lambda>_. False),
     env_applied = (\<lambda>_. False), env_dbclock = (\<lambda>_. 0), env_goclock = (\<lambda>_. 0), env_rand = (\<lambda>_ _. None)\<rparr>\<rparr>"

definition push_fs :: fs where
  "push_fs = \<lparr>fs_files = (\<lambda>_. Some []), fs_calls = 0, fs_fault = (\<lambda>_. False), fs_torn = (\<lambda>_. 0), fs_tmpname = (\<lambda>_. ''x'')\<rparr>"

definition push_world :: world where
  "push_world = \<lparr>w_fs = push_fs, w_db = push_db\<rparr>"

definition push_root :: path where "push_root = Path True [''srv'']"

definition sample_engine :: "world push_engine" where
  "sample_engine = NewPushEngine (rack_driver push_cas push_root) (rack_store Inr) [\<lambda>_. Inr ()]"

definition push_ctx :: ctx where "push_ctx = \<lparr>ctx_err = None, ctx_tenant = Some tenant_uuid\<rparr>"

section \<open>The content store\<close>

definition calm :: "fs \<Rightarrow> bool" where
  "calm f \<longleftrightarrow> fs_files f = (\<lambda>_. Some []) \<and> fs_fault f = (\<lambda>_. False)"

lemma calm_calls [simp]: "calm (f\<lparr>fs_calls := n\<rparr>) = calm f"
  by (simp add: calm_def)

lemma calm_scopeTmpDir: "calm f \<Longrightarrow> scopeTmpDir push_cas d sc f = (Inr (tmp_dir push_cas d sc), f\<lparr>fs_calls := Suc (fs_calls f)\<rparr>)"
proof -
  have "plain ''tmp''" by (simp add: plain_def)
  then have "safeJoin (Path (p_abs d) (scope_dir (blake3 push_cas) d sc)) [''tmp''] = Inr (tmp_dir push_cas d sc)"
    using safeJoin_scope [of "[''tmp'']"] by (simp add: file_defs)
  then show "calm f \<Longrightarrow> ?thesis" by (simp add: scopeTmpDir_def scopeRoot_eq eff_run os_noop_def os_call_def calm_def)
qed

lemma zero_valid: "validateHash zero_id = Inr ()" and zero_hash: "hex_encode (blake3 push_cas b) = zero_id"
  by (simp_all add: zero_id_def push_cas_def validateHash_encode)

lemmas zero_paths = object_path_of_hash [OF zero_valid zero_hash]

lemma calm_stat: "calm f \<Longrightarrow> stat_case s p present absent f = present 0 (f\<lparr>fs_calls := Suc (fs_calls f)\<rparr>)"
  by (simp add: stat_case_def os_stat_def os_call_def eff_run calm_def Let_def)

lemma calm_runs:
  assumes "calm f" and "ctx_err c = None"
  shows "\<exists>f'. Put push_cas d c sc zero_id [] f = (Inr (), f') \<and> calm f'"
    "\<exists>f'. Get push_cas d c sc zero_id f = (Inr [], f') \<and> calm f'"
    "\<exists>f'. WritePack push_cas d c sc zero_id \<lparr>rd_data = b, rd_err = None\<rparr> f = (Inr (), f') \<and> calm f'"
proof -
  have check: "ctx_check c = eret ()" using assms(2) by (simp add: ctx_check_def)
  show "\<exists>f'. Put push_cas d c sc zero_id [] f = (Inr (), f') \<and> calm f'"
    using assms(1) by (simp add: Put_def check zero_valid zero_hash zero_paths eassert_def ebind_def eret_def elift_def calm_scopeTmpDir calm_stat)
  show "\<exists>f'. WritePack push_cas d c sc zero_id \<lparr>rd_data = b, rd_err = None\<rparr> f = (Inr (), f') \<and> calm f'"
    using assms(1) by (simp add: WritePack_def check zero_valid zero_paths ebind_def eret_def elift_def calm_scopeTmpDir calm_stat
        drain_def ewrap_def ecatch_def)
  show "\<exists>f'. Get push_cas d c sc zero_id f = (Inr [], f') \<and> calm f'"
    using assms(1) by (simp add: Get_def check zero_valid zero_hash zero_paths eff_run os_read_file_def os_call_def calm_def Let_def)
qed

section \<open>The pack\<close>

lemma sample_ids: "validContentID zero_id" "validContentID head_id" "validContentID other_id" "zero_id \<noteq> ''''" "head_id \<noteq> ''''" "other_id \<noteq> ''''"
  "zero_id \<noteq> head_id" "zero_id \<noteq> other_id" "head_id \<noteq> other_id" "head_id \<noteq> zero_id"
  by code_simp+

lemma sample_content: "ContentID (push_lib f) b = zero_id"
  by (simp add: ContentID_def push_lib_def zero_id_def)

lemma sample_identities: "validContentID i \<Longrightarrow> i \<noteq> '''' \<Longrightarrow> identity_Validate (V2CommitIdentity i) = Inr ()"
  by (simp add: identity_Validate_def V2CommitIdentity_def CommitFormatV2_def CommitFormatLegacy_def)

lemma sample_identity:
  assumes "validContentID p" and "p \<noteq> ''''"
  shows "frame_Commit (push_lib f) (push_commit_frame p) = Inr (cr_Commit (push_record_of p))"
    and "CommitObjectID (push_lib f) cm = Inr zero_id"
    and "frame_Identity (push_lib f) (push_commit_frame p) = Inr (V2CommitIdentity zero_id)"
proof -
  show c: "frame_Commit (push_lib f) (push_commit_frame p) = Inr (cr_Commit (push_record_of p))"
    using assms by (simp add: frame_Commit_def push_commit_frame_def sample_identities as_invalid_def push_lib_def push_record_of_def)
  show i: "CommitObjectID (push_lib f) cm = Inr zero_id" for cm
    by (simp add: CommitObjectID_def sample_content) (simp add: push_lib_def)
  show "frame_Identity (push_lib f) (push_commit_frame p) = Inr (V2CommitIdentity zero_id)"
    by (simp add: frame_Identity_def c i)
qed

lemma sample_frame:
  assumes "validContentID p" and "p \<noteq> ''''"
  shows "p = head_id \<Longrightarrow> valid_v2 (push_lib f) (push_frame 2 p)" and "valid_v3 (push_lib f) (push_frame 3 p)"
proof -
  have ends: "valid_ends (push_frame v p)" for v by (simp add: valid_ends_def push_frame_def sample_identities sample_ids)
  have auth: "authentic (push_lib f) (pf_Objects (push_frame v p))" for v
    by (simp add: authentic_def push_frame_def sample_content sample_ids)
  have snaps: "carries_snapshots (push_frame v p)" for v by (simp add: carries_snapshots_def push_frame_def push_commit_frame_def)
  have parents: "cf_Parents (push_commit_frame p) = [V2CommitIdentity p]" by (simp add: push_commit_frame_def)
  note id = sample_identity(3) [OF assms, of f]
  show "valid_v2 (push_lib f) (push_frame 2 p)" if "p = head_id"
    using ends [of 2] auth [of 2] snaps [of 2] parents id that by (simp add: valid_v2_def) (simp add: push_frame_def)
  have "list_all2 (\<lambda>c i. frame_Identity (push_lib f) c = Inr (V2CommitIdentity i)) [push_commit_frame p] [zero_id]" using id by simp
  then show "valid_v3 (push_lib f) (push_frame 3 p)"
    using ends [of 3] auth [of 3] snaps [of 3] parents sample_ids
    unfolding valid_v3_def by (intro conjI exI [of _ "[zero_id]"]) (simp_all add: push_frame_def)
qed

lemma sample_unmarshal:
  assumes "v = 2 \<and> p = head_id \<or> v = 3" and "validContentID p" and "p \<noteq> ''''"
  shows "unmarshal_pack (push_lib (push_frame v p)) (normalizePackFormat v) [] = Inr (push_frame v p)"
proof -
  have short: "length ([] :: bytes) \<le> MaxV2PackBytes" by simp
  have codec: "cbor_dec_pack (push_lib g) [] = Inr g" "cbor_enc_pack (push_lib g) g = Inr []" for g by (simp_all add: push_lib_def)
  show ?thesis
    using assms sample_frame [OF assms(2,3)]
    by (auto simp: unmarshal_pack_def UnmarshalPackFrameV2_def UnmarshalPackFrameV3_def unmarshal_Inr marshal_Inr validate_v2_iff
        validate_v3_iff codec normalizePackFormat_def PackFormatV3_def)
qed

lemma sample_match: "validContentID p \<Longrightarrow> p \<noteq> '''' \<Longrightarrow>
    validateV2CommitMetadata (push_lib f) [push_record_of p] [push_commit_frame p] = Inr ()"
  by (simp add: validateV2CommitMetadata_def sample_identity) (simp add: push_lib_def push_record_of_def)

lemma sample_write:
  assumes p: "v = 2 \<and> p = head_id \<or> v = 3" "validContentID p" "p \<noteq> ''''" and f: "calm f"
  shows "\<exists>f'. writePack (push_lib (push_frame v p)) sample_engine push_ctx sc (push_request v p) \<lparr>w_fs = f, w_db = s\<rparr> =
    (Inr (V2CommitIdentity head_id), \<lparr>w_fs = f', w_db = s\<rparr>) \<and> calm f'"
proof -
  let ?x = "push_lib (push_frame v p)" and ?e = sample_engine and ?q = "push_request v p"
  have c: "ctx_err push_ctx = None" by (simp add: push_ctx_def)
  obtain f1 where f1: "Put push_cas push_root push_ctx sc zero_id [] f = (Inr (), f1)" "calm f1" using calm_runs(1) [OF f c] by blast
  obtain f2 where f2: "Get push_cas push_root push_ctx sc zero_id f1 = (Inr [], f2)" "calm f2" using calm_runs(2) [OF f1(2) c] by blast
  obtain f3 where f3: "WritePack push_cas push_root push_ctx sc zero_id \<lparr>rd_data = [], rd_err = None\<rparr> f2 = (Inr (), f3)" "calm f3"
    using calm_runs(3) [OF f2(2) c] by blast
  have e: "pe_driver ?e = rack_driver push_cas push_root" "pe_validator ?e = Some (\<lambda>_. Inr ())"
    by (simp_all add: sample_engine_def NewPushEngine_def)
  have q: "pq_PackStream ?q = Some \<lparr>rd_data = [], rd_err = None\<rparr>" "pq_PackHash ?q = zero_id" "pq_BaseCommit ?q = head_id"
    "pq_TargetCommit ?q = zero_id" "pq_Commits ?q = [push_record_of p]" "pq_PackFormat ?q = v"
    by (simp_all add: push_request_def)
  have fr: "pf_Base (push_frame v p) = V2CommitIdentity head_id" "pf_Target (push_frame v p) = V2CommitIdentity zero_id"
    "pf_Commits (push_frame v p) = [push_commit_frame p]" "pf_Objects (push_frame v p) = [\<lparr>po_ID = zero_id, po_Data = []\<rparr>]"
    "cf_SnapshotRoot (push_commit_frame p) = zero_id" by (simp_all add: push_frame_def push_commit_frame_def)
  have rd: "read_stream (Some \<lparr>rd_data = [], rd_err = None\<rparr>) = Inr []" by (simp add: read_stream_def read_limited_def)
  have nodes: "cbor_nodes ?x b = None" for b by (simp add: push_lib_def)
  show ?thesis
    unfolding writePack_def e q
    by (simp add: rd sample_content sample_unmarshal [OF p] fr sample_match [OF p(2,3)] check_snapshot_def verifySnapshotAssets_def nodes e
        eff_run rack_driver_def on_fs_def f1(1) f2(1) f3 as_invalid_def)
qed

section \<open>Whole pushes\<close>

lemma sample_calm: "calm push_fs"
  by (simp add: calm_def push_fs_def)

lemma sample_context: "SetTenantContext push_ctx tenant_uuid = Inr push_ctx"
  by code_simp

lemma sample_scope: "NewScope tenant_uuid ''r'' = Inr \<lparr>sc_tenant = tenant_uuid, sc_repo = ''r''\<rparr>"
  by code_simp

lemma sample_valid_request:
  assumes "v = 2 \<or> v = 3"
  shows "validatePushRequest (push_lib f) (push_request v p) PackFormatV2 = Inr ()"
  using assms
  by (auto simp: validatePushRequest_def push_request_def Let_def normalizePackFormat_def PackFormatV2_def PackFormatV3_def sample_ids
      validateCommitRecord_def CommitObjectID_def sample_content as_invalid_def push_record_of_def)
     (simp_all add: push_lib_def)

lemma sample_after:
  "fst (after_pack (push_lib (push_frame 2 head_id)) sample_engine push_ctx (push_request 2 head_id) (V2CommitIdentity head_id)
     \<lparr>w_fs = f, w_db = push_db\<rparr>) = Inr ()"
  "fst (after_pack (push_lib (push_frame 3 other_id)) sample_engine push_ctx (push_request 3 other_id) (V2CommitIdentity head_id)
     \<lparr>w_fs = f, w_db = push_db\<rparr>) = Inr ()"
  by code_simp+

lemma sample_engine_fields: "pe_driver sample_engine = rack_driver push_cas push_root" "pe_store sample_engine = rack_store Inr"
  "pe_min sample_engine = PackFormatV2" "pe_validator sample_engine = Some (\<lambda>_. Inr ())"
  by (simp_all add: sample_engine_def NewPushEngine_def)

lemma sample_push:
  assumes p: "v = 2 \<and> p = head_id \<or> v = 3" "validContentID p" "p \<noteq> ''''"
  shows "\<exists>f'. HandlePush (push_lib (push_frame v p)) sample_engine push_ctx (push_request v p) push_world =
    after_pack (push_lib (push_frame v p)) sample_engine push_ctx (push_request v p) (V2CommitIdentity head_id) \<lparr>w_fs = f', w_db = push_db\<rparr>"
proof -
  have v: "v = 2 \<or> v = 3" using p by auto
  have q: "pq_TenantID (push_request v p) = tenant_uuid" "pq_RepoID (push_request v p) = ''r''" by (simp_all add: push_request_def)
  obtain f' where f': "writePack (push_lib (push_frame v p)) sample_engine push_ctx \<lparr>sc_tenant = tenant_uuid, sc_repo = ''r''\<rparr> (push_request v p)
      push_world = (Inr (V2CommitIdentity head_id), \<lparr>w_fs = f', w_db = push_db\<rparr>)"
    using sample_write [OF p sample_calm, of "\<lparr>sc_tenant = tenant_uuid, sc_repo = ''r''\<rparr>" push_db] by (auto simp: push_world_def)
  show ?thesis
    by (rule exI [of _ f'])
       (simp add: HandlePush_split sample_engine_fields q sample_valid_request [OF v] sample_context sample_scope eff_run f')
qed

lemma sample_lib: "faithful_lib (push_lib f) Inr"
  by (simp add: faithful_lib_def push_lib_def)

lemma sample_push_state: "env_rls (env push_db)" "refs_ok (tabs push_db)"
  "head_of push_db tenant_uuid ''r'' ''main'' = Some head_id"
  by code_simp+

theorem acknowledged_push_moves_forward_witness:
  "\<exists>w'. HandlePush (push_lib (push_frame 2 head_id)) sample_engine push_ctx (push_request 2 head_id) push_world = (Inr (), w') \<and>
     is_ancestor_of (tenant_view tenant_uuid (w_db w')) ''r'' head_id zero_id \<and> head_of (w_db w') tenant_uuid ''r'' ''main'' = Some zero_id"
proof -
  let ?q = "push_request 2 head_id" and ?x = "push_lib (push_frame 2 head_id)"
  obtain f' where f': "HandlePush ?x sample_engine push_ctx ?q push_world =
      after_pack ?x sample_engine push_ctx ?q (V2CommitIdentity head_id) \<lparr>w_fs = f', w_db = push_db\<rparr>"
    using sample_push [of 2 head_id] sample_ids by auto
  obtain w' where run: "HandlePush ?x sample_engine push_ctx ?q push_world = (Inr (), w')"
    using sample_after(1) [of f'] f' by (metis prod.collapse)
  have q: "pq_TenantID ?q = tenant_uuid" "pq_RepoID ?q = ''r''" "pq_Branch ?q = ''main''" "pq_TargetCommit ?q = zero_id"
    "normalizePackFormat (pq_PackFormat ?q) \<noteq> PackFormatV3"
    by (simp_all add: push_request_def normalizePackFormat_def PackFormatV3_def)
  have w: "w_db push_world = push_db" by (simp add: push_world_def)
  show ?thesis
    using acknowledged_push_moves_forward [OF sample_engine_fields(1,2) run q(5) sample_lib] run
    by (auto simp: q w sample_push_state sample_ids)
qed

theorem metadata_never_precedes_content_witness:
  "\<exists>w' :: world. local_pack push_cas push_root (w_fs w') \<lparr>sc_tenant = tenant_uuid, sc_repo = ''r''\<rparr> zero_id \<noteq> None \<and>
     head_of (w_db w') tenant_uuid ''r'' ''main'' = Some zero_id"
proof -
  let ?q = "push_request 3 other_id" and ?x = "push_lib (push_frame 3 other_id)"
  obtain f' where f': "HandlePush ?x sample_engine push_ctx ?q push_world =
      after_pack ?x sample_engine push_ctx ?q (V2CommitIdentity head_id) \<lparr>w_fs = f', w_db = push_db\<rparr>"
    using sample_push [of 3 other_id] sample_ids by auto
  define w' where "w' = snd (HandlePush ?x sample_engine push_ctx ?q push_world)"
  have h: "head_of (w_db w') tenant_uuid ''r'' ''main'' = Some zero_id" unfolding w'_def f' by code_simp
  have q: "pq_TenantID ?q = tenant_uuid" "pq_RepoID ?q = ''r''" "pq_PackHash ?q = zero_id" by (simp_all add: push_request_def)
  have "w_db w' \<noteq> w_db push_world" using h sample_push_state(3) sample_ids by (auto simp: push_world_def)
  moreover have run: "HandlePush ?x sample_engine push_ctx ?q push_world = (fst (HandlePush ?x sample_engine push_ctx ?q push_world), w')"
    by (simp add: w'_def)
  ultimately have "local_pack push_cas push_root (w_fs w') \<lparr>sc_tenant = tenant_uuid, sc_repo = ''r''\<rparr> zero_id \<noteq> None"
    using metadata_never_precedes_content [OF sample_engine_fields(1,2) run] by (auto simp: q sample_scope)
  with h show ?thesis by (intro exI [of _ w']) simp
qed


section \<open>Where a push goes wrong\<close>

text \<open>A version 3 push need not move the branch forward. Nothing relates the commits of a version 3 frame to its
  base but the request's own field: here the branch stands at a commit, a version 3 push based on it brings
  one commit whose only parent is an unrelated registered commit, and it is acknowledged; the branch then
  stands at a commit of which the old head is not an ancestor, and the old head's history is lost from it.\<close>

theorem v3_push_may_drop_history:
  "\<exists>w'. HandlePush (push_lib (push_frame 3 other_id)) sample_engine push_ctx (push_request 3 other_id) push_world = (Inr (), w') \<and>
     pq_BaseCommit (push_request 3 other_id) = head_id \<and>
     head_of (w_db push_world) tenant_uuid ''r'' ''main'' = Some head_id \<and>
     head_of (w_db w') tenant_uuid ''r'' ''main'' = Some zero_id \<and>
     \<not> is_ancestor_of (tenant_view tenant_uuid (w_db w')) ''r'' head_id zero_id"
proof -
  let ?q = "push_request 3 other_id" and ?x = "push_lib (push_frame 3 other_id)"
  obtain f' where f': "HandlePush ?x sample_engine push_ctx ?q push_world =
      after_pack ?x sample_engine push_ctx ?q (V2CommitIdentity head_id) \<lparr>w_fs = f', w_db = push_db\<rparr>"
    using sample_push [of 3 other_id] sample_ids by auto
  let ?w' = "snd (after_pack ?x sample_engine push_ctx ?q (V2CommitIdentity head_id) \<lparr>w_fs = f', w_db = push_db\<rparr>)"
  have run: "HandlePush ?x sample_engine push_ctx ?q push_world = (Inr (), ?w')"
    using sample_after(2) [of f'] f' by (simp add: prod_eq_iff)
  have h: "head_of (w_db ?w') tenant_uuid ''r'' ''main'' = Some zero_id" by code_simp
  have "\<not> ancestry_query (tenant_view tenant_uuid (w_db ?w')) ''r'' zero_id head_id" by code_simp
  then have n: "\<not> is_ancestor_of (tenant_view tenant_uuid (w_db ?w')) ''r'' head_id zero_id" by (simp add: ancestry_query_reach)
  have b: "pq_BaseCommit ?q = head_id" by (simp add: push_request_def)
  show ?thesis using run h n b sample_push_state(3) by (auto simp: push_world_def)
qed

end
