(* ===== verification/Sync_Pull.thy ===== *)
theory Sync_Pull
  imports Sync_Push
begin

text \<open>
  \<open>PullEngine\<close> (\<open>internal/server/sync/pull.go\<close>): the pack ranges from the branch head down to the known commit
  are completed with the history of merge parents, ordered so that every pack comes after the packs it
  depends on, and streamed in an envelope; and the verification of such an envelope. Canonical CBOR of a
  manifest is the parameter \<open>v\<close>, the zstd encoder the parameter \<open>z\<close>; closing a pack after reading it is taken
  not to fail.
\<close>

section \<open>Manifests\<close>

definition PullEnvelopeFormatV2 :: uint32 where "PullEnvelopeFormatV2 = 2"
definition pullEnvelopeMagic :: bytes where "pullEnvelopeMagic = str_bytes ''SRPL''"
definition pullEnvelopeHeaderSize :: nat where "pullEnvelopeHeaderSize = 16"

record PullPackManifest =
  pp_Hash :: string  pp_Format :: uint32  pp_Length :: uint64

record PullManifest =
  pm_Version :: uint32  pm_Head :: string  pm_Packs :: "PullPackManifest list"

record manifest_lib =
  cbor_enc_manifest :: "PullManifest \<Rightarrow> goerr + bytes"
  cbor_dec_manifest :: "bytes \<Rightarrow> goerr + PullManifest"

definition invalid_envelope :: "string \<Rightarrow> goerr" where
  "invalid_envelope msg = Wrapf msg (Sync ErrInvalidPullEnvelope)"

definition manifest_validate :: "PullManifest \<Rightarrow> goerr + unit" where
  "manifest_validate m =
     (if pm_Version m \<noteq> PullEnvelopeFormatV2 then Inl (invalid_envelope ''unsupported manifest version'')
      else if \<not> validContentID (pm_Head m) then Inl (invalid_envelope ''head must be a v2 BLAKE3-256 content ID'')
      else if pm_Packs m = [] then Inl (invalid_envelope ''at least one pack is required'')
      else rfor (pm_Packs m) (\<lambda>p.
        if \<not> validContentID (pp_Hash p) then Inl (invalid_envelope ''pack has invalid hash'')
        else if pp_Format p \<noteq> PackFormatV2 \<and> pp_Format p \<noteq> PackFormatV3 then Inl (invalid_envelope ''pack is not canonical v2 or v3'')
        else Inr ()))"

definition MarshalPullManifestV2 :: "manifest_lib \<Rightarrow> PullManifest \<Rightarrow> goerr + bytes" where
  "MarshalPullManifestV2 v m =
     rbind (manifest_validate m) (\<lambda>_. rwrap (\<lambda>_. invalid_envelope ''encode manifest'') (cbor_enc_manifest v m))"

definition UnmarshalPullManifestV2 :: "manifest_lib \<Rightarrow> bytes \<Rightarrow> goerr + PullManifest" where
  "UnmarshalPullManifestV2 v data =
     rbind (rwrap (\<lambda>_. invalid_envelope ''decode manifest'') (cbor_dec_manifest v data)) (\<lambda>m.
     rbind (MarshalPullManifestV2 v m) (\<lambda>canonical.
     if data \<noteq> canonical then Inl (invalid_envelope ''manifest is not canonically encoded'') else Inr m))"

section \<open>Envelopes\<close>

text \<open>\<open>binary.BigEndian\<close>: \<open>n\<close> bytes, the most significant first.\<close>

definition put_be :: "nat \<Rightarrow> nat \<Rightarrow> bytes" where
  "put_be n v = map (\<lambda>i. word_of_nat (v div 256 ^ (n - 1 - i))) [0..<n]"

definition get_be :: "bytes \<Rightarrow> nat" where
  "get_be bs = foldl (\<lambda>a b. a * 256 + unat b) 0 bs"

definition envelope_header :: "nat \<Rightarrow> bytes" where
  "envelope_header manifestLength = pullEnvelopeMagic @ put_be 4 (unat PullEnvelopeFormatV2) @ put_be 8 manifestLength"

text \<open>The state of the loop over the packs: the remaining bytes, the frames and their commits so far, and how
  many packs end at the head.\<close>

record envelope_scan =
  es_rest :: bytes  es_packs :: "bytes list"  es_frames :: "PackFrame list"  es_commits :: "CommitIdentity list"  es_heads :: nat

definition scan_commit :: "contract_lib \<Rightarrow> CommitFrameV2 \<Rightarrow> CommitIdentity list \<Rightarrow> goerr + CommitIdentity list" where
  "scan_commit x cf seen =
     rbind (rwrap (\<lambda>_. invalid_envelope ''identify pack commit'') (frame_Identity x cf)) (\<lambda>i.
     if i \<in> set seen then Inl (invalid_envelope ''commit appears in multiple packs'') else Inr (i # seen))"

definition scan_pack :: "contract_lib \<Rightarrow> string \<Rightarrow> PullPackManifest \<Rightarrow> envelope_scan \<Rightarrow> goerr + envelope_scan" where
  "scan_pack x head p s =
     (if unat (pp_Length p) > MaxV2PackBytes then Inl (invalid_envelope ''pack exceeds byte limit'')
      else if unat (pp_Length p) > length (es_rest s) then Inl (invalid_envelope ''pack length exceeds envelope'')
      else let data = take (unat (pp_Length p)) (es_rest s) in
        if ContentID x data \<noteq> pp_Hash p then Inl (invalid_envelope ''pack hash mismatch'')
        else rbind (rwrap (\<lambda>_. invalid_envelope ''pack is not a canonical frame'') (unmarshal_pack x (pp_Format p) data)) (\<lambda>frame.
          let heads = es_heads s + (if pf_Target frame = V2CommitIdentity head then 1 else 0) in
          if pf_Target frame = V2CommitIdentity head \<and> heads > 1 then Inl (invalid_envelope ''advertised head appears in multiple packs'')
          else rbind (rfold (pf_Commits frame) (es_commits s) (scan_commit x)) (\<lambda>seen.
            Inr \<lparr>es_rest = drop (unat (pp_Length p)) (es_rest s), es_packs = es_packs s @ [data],
              es_frames = es_frames s @ [frame], es_commits = seen, es_heads = heads\<rparr>)))"

definition merge_parents :: "CommitFrameV2 \<Rightarrow> CommitIdentity list" where
  "merge_parents cf = (if length (cf_Parents cf) < 2 then [] else tl (cf_Parents cf))"

definition check_merge_parents :: "CommitIdentity list \<Rightarrow> PackFrame list \<Rightarrow> goerr + unit" where
  "check_merge_parents seen frames =
     rfor frames (\<lambda>f. rfor (pf_Commits f) (\<lambda>cf. rfor (merge_parents cf) (\<lambda>p.
       if p \<in> set seen then Inr () else Inl (invalid_envelope ''merge parent is not supplied by the envelope''))))"

definition UnmarshalPullEnvelopeV2 :: "contract_lib \<Rightarrow> manifest_lib \<Rightarrow> bytes \<Rightarrow> goerr + PullManifest \<times> bytes list" where
  "UnmarshalPullEnvelopeV2 x v data =
     (if length data < pullEnvelopeHeaderSize \<or> take 4 data \<noteq> pullEnvelopeMagic then Inl (invalid_envelope ''missing envelope header'')
      else if get_be (take 4 (drop 4 data)) \<noteq> unat PullEnvelopeFormatV2 then Inl (invalid_envelope ''unsupported envelope version'')
      else let n = get_be (take 8 (drop 8 data)) in
        if n > length data - pullEnvelopeHeaderSize then Inl (invalid_envelope ''manifest length exceeds envelope'')
        else let rest = drop pullEnvelopeHeaderSize data in
          rbind (UnmarshalPullManifestV2 v (take n rest)) (\<lambda>m.
          rbind (rfold (pm_Packs m) \<lparr>es_rest = drop n rest, es_packs = [], es_frames = [], es_commits = [], es_heads = 0\<rparr>
            (scan_pack x (pm_Head m))) (\<lambda>s.
          if es_rest s \<noteq> [] then Inl (invalid_envelope ''trailing bytes after packs'')
          else if es_heads s \<noteq> 1 then Inl (invalid_envelope ''advertised head is not a transmitted v2 pack target'')
          else if pf_Target (last (es_frames s)) \<noteq> V2CommitIdentity (pm_Head m)
               then Inl (invalid_envelope ''advertised head is not the terminal pack target'')
          else rbind (check_merge_parents (es_commits s) (es_frames s)) (\<lambda>_. Inr (m, es_packs s)))))"

section \<open>Plans\<close>

record PullRequest =
  plq_TenantID :: string  plq_RepoID :: string  plq_Branch :: string  plq_KnownCommit :: string

record 'w pull_engine =
  pl_driver :: "'w cas_driver"
  pl_store :: "'w branch_store"

record PullPlan =
  pn_Head :: string  pn_Scope :: scope  pn_Ranges :: "PackRange list"

definition NewPullEngine :: "'w cas_driver \<Rightarrow> 'w branch_store \<Rightarrow> 'w pull_engine" where
  "NewPullEngine drv st = \<lparr>pl_driver = drv, pl_store = st\<rparr>"

definition no_scope :: scope where "no_scope = \<lparr>sc_tenant = '''', sc_repo = ''''\<rparr>"

fun chain_links :: "string \<Rightarrow> PackRange list \<Rightarrow> goerr + string" where
  "chain_links expected [] = Inr expected"
| "chain_links expected (r # rs) =
     (if rg_TargetCommitID r \<noteq> expected then Inl (Errorf ''sync: pull: incomplete pack range chain'')
      else chain_links (rg_BaseCommitID r) rs)"

definition validatePackChain :: "PackRange list \<Rightarrow> string \<Rightarrow> string \<Rightarrow> goerr + unit" where
  "validatePackChain rs head known =
     (if rs = [] then Inl (Errorf ''sync: pull: no pack range found for branch head'')
      else rbind (chain_links head rs) (\<lambda>last_base.
        if last_base \<noteq> known then Inl (Errorf ''sync: pull: pack range chain does not reach requested commit'') else Inr ()))"

definition readV2PackFrame :: "contract_lib \<Rightarrow> 'w pull_engine \<Rightarrow> ctx \<Rightarrow> scope \<Rightarrow> PackRange \<Rightarrow> ('w, PackFrame) eff" where
  "readV2PackFrame x e c sc r =
     ebind (eassert (rg_Format r = PackFormatV2 \<or> rg_Format r = PackFormatV3) (invalid_envelope ''pack is not canonical v2 or v3'')) (\<lambda>_.
     ebind (ewrap ''sync: pull: open pack'' (drv_OpenPack (pl_driver e) c sc (rg_PackHash r))) (\<lambda>pack.
     ebind (ewrap ''sync: pull: read pack'' (elift (read_limited (MaxV2PackBytes + 1) pack))) (\<lambda>data.
     ebind (eassert (length data \<le> MaxV2PackBytes \<and> ContentID x data = rg_PackHash r) (invalid_envelope ''pack has invalid content'')) (\<lambda>_.
     ebind (elift (unmarshal_pack x (rg_Format r) data)) (\<lambda>frame.
     ebind (eassert (ci_ID (pf_Base frame) = rg_BaseCommitID r \<and> ci_ID (pf_Target frame) = rg_TargetCommitID r)
       (invalid_envelope ''pack does not match its metadata range'')) (\<lambda>_.
     ebind (eassert (ci_ID (pf_Base frame) = '''' \<or> ci_Format (pf_Base frame) = CommitFormatV2) (invalid_envelope ''pack has a non-v2 base'')) (\<lambda>_.
     eret frame)))))))"

text \<open>The packs selected so far, in the order they were read, and the pack of each of their seen.\<close>

record pull_dag =
  dg_packs :: "(PackRange \<times> PackFrame) list"
  dg_commits :: "(CommitIdentity \<times> string) list"

definition selected :: "pull_dag \<Rightarrow> string list" where
  "selected g = map (\<lambda>(r, _). rg_PackHash r) (dg_packs g)"

definition claim_commit :: "contract_lib \<Rightarrow> string \<Rightarrow> CommitFrameV2 \<Rightarrow> (CommitIdentity \<times> string) list \<Rightarrow> goerr + (CommitIdentity \<times> string) list" where
  "claim_commit x hash cf seen =
     rbind (frame_Identity x cf) (\<lambda>i. case map_of seen i of
       None \<Rightarrow> Inr ((i, hash) # seen)
     | Some other \<Rightarrow> if other \<noteq> hash then Inl (invalid_envelope ''commit appears in multiple packs'') else Inr seen)"

text \<open>The inner loop: every pending range not selected yet is read and selected.\<close>

fun absorb :: "contract_lib \<Rightarrow> 'w pull_engine \<Rightarrow> ctx \<Rightarrow> scope \<Rightarrow> PackRange list \<Rightarrow> pull_dag \<Rightarrow> ('w, pull_dag) eff" where
  "absorb x e c sc [] g = eret g"
| "absorb x e c sc (r # rs) g =
     (if rg_PackHash r \<in> set (selected g) then absorb x e c sc rs g
      else ebind (readV2PackFrame x e c sc r) (\<lambda>frame.
           ebind (elift (rfold (pf_Commits frame) (dg_commits g) (claim_commit x (rg_PackHash r)))) (\<lambda>seen.
           absorb x e c sc rs \<lparr>dg_packs = dg_packs g @ [(r, frame)], dg_commits = seen\<rparr>)))"

text \<open>
  The merge parents that neither the selected packs nor the known history supply. The runtime enumerates the
  map of frames in an order of its own, which \<open>ord\<close> stands for.
\<close>

definition missing_parent :: "'w pull_engine \<Rightarrow> ctx \<Rightarrow> string \<Rightarrow> string \<Rightarrow> pull_dag \<Rightarrow> CommitIdentity \<Rightarrow> string list \<Rightarrow> ('w, string list) eff" where
  "missing_parent e c repoID known g p missing =
     ebind (eassert (ci_Format p = CommitFormatV2) (invalid_envelope ''merge parent is not a v2 commit'')) (\<lambda>_.
     if map_of (dg_commits g) p \<noteq> None \<or> ci_ID p = known then eret missing
     else ebind (if known = '''' then eret False
         else ewrap ''sync: pull: check known merge-parent ancestry'' (bs_IsAncestor (pl_store e) c repoID (ci_ID p) known)) (\<lambda>contained.
       eret (if contained then missing else ci_ID p # missing)))"

definition missing_parents :: "((PackRange \<times> PackFrame) list \<Rightarrow> (PackRange \<times> PackFrame) list) \<Rightarrow> 'w pull_engine \<Rightarrow> ctx \<Rightarrow> string \<Rightarrow> string \<Rightarrow> pull_dag \<Rightarrow> ('w, string list) eff" where
  "missing_parents ord e c repoID known g =
     ebind (efold (ord (dg_packs g)) [] (\<lambda>(_, frame). \<lambda>missing.
       efold (pf_Commits frame) missing (\<lambda>cf missing. efold (merge_parents cf) missing (missing_parent e c repoID known g)))) (\<lambda>missing.
     eret (sort (remdups missing)))"

text \<open>The history of one missing parent; a parent is expanded once.\<close>

definition expand_parent :: "'w pull_engine \<Rightarrow> ctx \<Rightarrow> string \<Rightarrow> string \<Rightarrow> string list \<times> PackRange list \<Rightarrow> ('w, string list \<times> PackRange list) eff" where
  "expand_parent e c repoID parentID acc =
     (case acc of (expanded, pending) \<Rightarrow>
      ebind (eassert (parentID \<notin> set expanded) (invalid_envelope ''merge parent is not supplied by its history packs'')) (\<lambda>_.
      ebind (ewrap ''sync: pull: get merge parent pack ranges'' (bs_GetPackRanges (pl_store e) c repoID parentID '''')) (\<lambda>ranges.
      ebind (elift (validatePackChain ranges parentID '''')) (\<lambda>_.
      eret (parentID # expanded, pending @ ranges)))))"

text \<open>
  The outer loop, at most \<open>fuel\<close> rounds: \<open>None\<close> when they are used up, which the code does not have.
  \<open>planning_ends\<close> bounds the rounds a store can demand.
\<close>

fun dag_rounds :: "nat \<Rightarrow> contract_lib \<Rightarrow> ((PackRange \<times> PackFrame) list \<Rightarrow> (PackRange \<times> PackFrame) list) \<Rightarrow> 'w pull_engine \<Rightarrow> ctx \<Rightarrow> scope \<Rightarrow>
    string \<Rightarrow> string \<Rightarrow> string list \<Rightarrow> PackRange list \<Rightarrow> pull_dag \<Rightarrow> ('w, pull_dag option) eff" where
  "dag_rounds 0 x ord e c sc repoID known expanded pending g = eret None"
| "dag_rounds (Suc n) x ord e c sc repoID known expanded pending g =
     ebind (absorb x e c sc pending g) (\<lambda>g'.
     ebind (missing_parents ord e c repoID known g') (\<lambda>missing.
     if missing = [] then eret (Some g')
     else ebind (efold missing (expanded, []) (expand_parent e c repoID)) (\<lambda>(expanded', pending').
       dag_rounds n x ord e c sc repoID known expanded' pending' g')))"

section \<open>The order of the packs\<close>

text \<open>The packs that hold parents of the commits of a pack.\<close>

definition pack_dependencies :: "(CommitIdentity \<times> string) list \<Rightarrow> PackRange \<times> PackFrame \<Rightarrow> string list" where
  "pack_dependencies seen rf = (case rf of (r, frame) \<Rightarrow>
     remdups [q. cf \<leftarrow> pf_Commits frame, p \<leftarrow> cf_Parents cf, q \<leftarrow> (case map_of seen p of None \<Rightarrow> [] | Some q \<Rightarrow> [q]), q \<noteq> rg_PackHash r])"

text \<open>
  The loop over the ready packs: \<open>waiting\<close> has each pack's open dependencies. The dependents of a pack are
  those that still wait for it: a pack is emitted once, so no other has been waiting.
\<close>

definition release :: "string \<Rightarrow> (string \<times> string list) list \<Rightarrow> (string \<times> string list) list" where
  "release hash waiting = map (\<lambda>(k, ds). (k, removeAll hash ds)) waiting"

definition released :: "string \<Rightarrow> (string \<times> string list) list \<Rightarrow> string list" where
  "released hash waiting = map fst (filter (\<lambda>(_, ds). hash \<in> set ds \<and> removeAll hash ds = []) waiting)"

definition open_count :: "(string \<times> string list) list \<Rightarrow> nat" where
  "open_count waiting = sum_list (map (\<lambda>(_, ds). length ds) waiting)"

lemma released_count: "length (released h w) + open_count (release h w) \<le> open_count w"
proof (induction w)
  case (Cons a w)
  obtain k ds where a: "a = (k, ds)" by (cases a)
  have fewer: "(if h \<in> set ds \<and> removeAll h ds = [] then Suc 0 else 0) + length (removeAll h ds) \<le> length ds"
    using length_removeAll_less_eq [of h ds] by (cases ds) auto
  have "length (released h (a # w)) = (if h \<in> set ds \<and> removeAll h ds = [] then Suc 0 else 0) + length (released h w)"
    "open_count (release h (a # w)) = length (removeAll h ds) + open_count (release h w)"
    "open_count (a # w) = length ds + open_count w"
    by (simp_all add: a released_def release_def open_count_def)
  then show ?case using Cons fewer by linarith
qed (simp add: released_def release_def open_count_def)

function emit :: "string list \<Rightarrow> (string \<times> string list) list \<Rightarrow> string list" where
  "emit [] waiting = []"
| "emit (h # ready) waiting = h # emit (sort (ready @ released h waiting)) (release h waiting)"
  by pat_completeness auto

termination
proof (relation "measure (\<lambda>(ready, waiting). length ready + open_count waiting)", goal_cases)
  case (2 h ready waiting)
  then show ?case using released_count [of h waiting] by simp
qed simp

definition orderPullPacks :: "pull_dag \<Rightarrow> goerr + PackRange list" where
  "orderPullPacks g =
     (let waiting = map (\<lambda>(r, frame). (rg_PackHash r, pack_dependencies (dg_commits g) (r, frame))) (dg_packs g);
          ordered = emit (sort (map fst (filter (\<lambda>(_, ds). ds = []) waiting))) waiting;
          range_of = map_of (map (\<lambda>(r, _). (rg_PackHash r, r)) (dg_packs g))
      in if length ordered \<noteq> length (dg_packs g) then Inl (invalid_envelope ''pack dependency cycle'')
         else Inr (map (the \<circ> range_of) ordered))"

definition planPullDAG :: "nat \<Rightarrow> contract_lib \<Rightarrow> ((PackRange \<times> PackFrame) list \<Rightarrow> (PackRange \<times> PackFrame) list) \<Rightarrow> 'w pull_engine \<Rightarrow> ctx \<Rightarrow> scope \<Rightarrow>
    string \<Rightarrow> string \<Rightarrow> PackRange list \<Rightarrow> ('w, PackRange list option) eff" where
  "planPullDAG fuel x ord e c sc repoID known initial =
     ebind (dag_rounds fuel x ord e c sc repoID known [] initial \<lparr>dg_packs = [], dg_commits = []\<rparr>) (\<lambda>r. case r of
       None \<Rightarrow> eret None
     | Some g \<Rightarrow> elift (rbind (orderPullPacks g) (\<lambda>ranges. Inr (Some ranges))))"

section \<open>The pull\<close>

text \<open>
  \<open>PreparePull\<close> returns a plan together with \<open>ErrUpToDate\<close> or \<open>PullDivergedError\<close>, and no plan with any other
  error; \<open>None\<close> is running out of rounds.
\<close>

definition head_only :: "string \<Rightarrow> PullPlan" where
  "head_only head = \<lparr>pn_Head = head, pn_Scope = no_scope, pn_Ranges = []\<rparr>"

definition check_known :: "'w pull_engine \<Rightarrow> ctx \<Rightarrow> PullRequest \<Rightarrow> string \<Rightarrow> ('w, bool) eff" where
  "check_known e c q head =
     (if plq_KnownCommit q = '''' then eret True
      else ewrap ''sync: pull: check known commit ancestry'' (bs_IsAncestor (pl_store e) c (plq_RepoID q) (plq_KnownCommit q) head))"

definition PreparePull :: "nat \<Rightarrow> contract_lib \<Rightarrow> ((PackRange \<times> PackFrame) list \<Rightarrow> (PackRange \<times> PackFrame) list) \<Rightarrow> 'w pull_engine \<Rightarrow> ctx \<Rightarrow>
    PullRequest \<Rightarrow> ('w, (PullPlan \<times> goerr option) option) eff" where
  "PreparePull fuel x ord e c0 q =
     ebind (eassert (plq_Branch q \<noteq> '''') (Errorf ''sync: pull: branch is required'')) (\<lambda>_.
     ebind (ewrap ''sync: pull: set tenant context'' (elift (bs_SetTenantContext (pl_store e) c0 (plq_TenantID q)))) (\<lambda>c.
     ebind (ewrap ''sync: pull: get branch ref'' (bs_GetBranchRef (pl_store e) c (plq_RepoID q) (plq_Branch q))) (\<lambda>head.
     if plq_KnownCommit q = head then eret (Some (head_only head, Some (Sync ErrUpToDate)))
     else ebind (check_known e c q head) (\<lambda>known.
     if \<not> known then eret (Some (head_only head, Some (PullDivergedError head)))
     else ebind (ewrap ''sync: pull: get pack ranges'' (bs_GetPackRanges (pl_store e) c (plq_RepoID q) head (plq_KnownCommit q))) (\<lambda>ranges.
     ebind (elift (validatePackChain ranges head (plq_KnownCommit q))) (\<lambda>_.
     ebind (ewrap ''sync: pull: invalid CAS scope'' (elift (NewScope (plq_TenantID q) (plq_RepoID q)))) (\<lambda>sc.
     ebind (planPullDAG fuel x ord e c sc (plq_RepoID q) (plq_KnownCommit q) ranges) (\<lambda>planned.
     eret (map_option (\<lambda>rs. (\<lparr>pn_Head = head, pn_Scope = sc, pn_Ranges = rs\<rparr>, None)) planned)))))))))"

text \<open>\<open>io.Copy\<close>: everything the reader delivers, and its error.\<close>

definition read_all :: "reader \<Rightarrow> goerr + bytes" where
  "read_all r = (case rd_err r of None \<Rightarrow> Inr (rd_data r) | Some err \<Rightarrow> Inl err)"

definition manifest_pack :: "contract_lib \<Rightarrow> 'w pull_engine \<Rightarrow> ctx \<Rightarrow> scope \<Rightarrow> PackRange \<Rightarrow> PullPackManifest list \<Rightarrow> ('w, PullPackManifest list) eff" where
  "manifest_pack x e c sc r packs =
     ebind (eassert (rg_Format r = PackFormatV2 \<or> rg_Format r = PackFormatV3) (invalid_envelope ''pack is not canonical v2 or v3'')) (\<lambda>_.
     ebind (eassert (validContentID (rg_PackHash r)) (invalid_envelope ''pack has invalid hash'')) (\<lambda>_.
     ebind (ewrap ''sync: pull: open pack'' (drv_OpenPack (pl_driver e) c sc (rg_PackHash r))) (\<lambda>pack.
     ebind (ewrap ''sync: pull: read pack'' (elift (read_all pack))) (\<lambda>data.
     ebind (eassert (ContentID x data = rg_PackHash r) (invalid_envelope ''pack hash mismatch'')) (\<lambda>_.
     ebind (eassert (length data \<le> MaxV2PackBytes) (invalid_envelope ''pack exceeds byte limit'')) (\<lambda>_.
     eret (packs @ [\<lparr>pp_Hash = rg_PackHash r, pp_Format = rg_Format r, pp_Length = word_of_nat (length data)\<rparr>])))))))"

definition BuildPullManifest :: "contract_lib \<Rightarrow> manifest_lib \<Rightarrow> 'w pull_engine \<Rightarrow> ctx \<Rightarrow> PullPlan \<Rightarrow> ('w, PullManifest) eff" where
  "BuildPullManifest x v e c plan =
     ebind (efold (pn_Ranges plan) [] (manifest_pack x e c (pn_Scope plan))) (\<lambda>packs.
     let manifest = \<lparr>pm_Version = PullEnvelopeFormatV2, pm_Head = pn_Head plan, pm_Packs = packs\<rparr> in
     ebind (elift (MarshalPullManifestV2 v manifest)) (\<lambda>_. eret manifest))"

definition ValidatePullPacks :: "contract_lib \<Rightarrow> manifest_lib \<Rightarrow> 'w pull_engine \<Rightarrow> ctx \<Rightarrow> PullPlan \<Rightarrow> ('w, unit) eff" where
  "ValidatePullPacks x v e c plan = ebind (BuildPullManifest x v e c plan) (\<lambda>_. eret ())"

definition pullManifestMatchesPlan :: "manifest_lib \<Rightarrow> PullManifest \<Rightarrow> PullPlan \<Rightarrow> goerr + unit" where
  "pullManifestMatchesPlan v manifest plan =
     rbind (MarshalPullManifestV2 v manifest) (\<lambda>_.
     if pm_Head manifest \<noteq> pn_Head plan \<or> length (pm_Packs manifest) \<noteq> length (pn_Ranges plan)
     then Inl (invalid_envelope ''manifest does not match pull plan'')
     else rfor (zip (pm_Packs manifest) (pn_Ranges plan)) (\<lambda>(p, r).
       if pp_Hash p \<noteq> rg_PackHash r \<or> pp_Format p \<noteq> rg_Format r \<or> rg_Format r \<noteq> PackFormatV2 \<and> rg_Format r \<noteq> PackFormatV3
       then Inl (invalid_envelope ''manifest pack does not match pull plan'') else Inr ()))"

subsection \<open>The stream\<close>

text \<open>
  A zstd encoder over the response writer. What \<open>io.Copy\<close> reads from a pack is written in one piece here, in
  pieces in the code; the bytes written are the same.
\<close>

record 'w zstd_writer =
  zw_new :: "('w, unit) eff"
  zw_write :: "bytes \<Rightarrow> ('w, unit) eff"
  zw_close :: "('w, unit) eff"

text \<open>Every error after the encoder exists closes it first.\<close>

definition closing :: "'w zstd_writer \<Rightarrow> ('w, 'a) eff \<Rightarrow> ('w, 'a) eff" where
  "closing z m = ecatch m (\<lambda>err. ebind (etry (zw_close z)) (\<lambda>_. efail err))"

definition stream_pack :: "contract_lib \<Rightarrow> 'w zstd_writer \<Rightarrow> 'w pull_engine \<Rightarrow> ctx \<Rightarrow> scope \<Rightarrow> PullPackManifest \<times> PackRange \<Rightarrow> ('w, unit) eff" where
  "stream_pack x z e c sc pr = (case pr of (p, r) \<Rightarrow>
     ebind (ewrap ''sync: pull: open pack'' (drv_OpenPack (pl_driver e) c sc (rg_PackHash r))) (\<lambda>pack.
     ebind (ewrap ''sync: pull: stream pack'' (ebind (zw_write z (rd_data pack)) (\<lambda>_. elift (read_all pack)))) (\<lambda>data.
     eassert (word_of_nat (length data) = pp_Length p \<and> ContentID x data = pp_Hash p) (invalid_envelope ''pack changed while streaming''))))"

definition StreamPullWithManifest :: "contract_lib \<Rightarrow> manifest_lib \<Rightarrow> 'w zstd_writer \<Rightarrow> 'w pull_engine \<Rightarrow> ctx \<Rightarrow> PullPlan \<Rightarrow> PullManifest \<Rightarrow> ('w, unit) eff" where
  "StreamPullWithManifest x v z e c plan manifest =
     ebind (elift (pullManifestMatchesPlan v manifest plan)) (\<lambda>_.
     ebind (ewrap ''sync: pull: create zstd encoder'' (zw_new z)) (\<lambda>_.
     ebind (closing z
       (ebind (elift (MarshalPullManifestV2 v manifest)) (\<lambda>manifestData.
        ebind (ewrap ''sync: pull: write envelope header'' (zw_write z (envelope_header (length manifestData)))) (\<lambda>_.
        ebind (ewrap ''sync: pull: write envelope manifest'' (zw_write z manifestData)) (\<lambda>_.
        efor (zip (pm_Packs manifest) (pn_Ranges plan)) (stream_pack x z e c (pn_Scope plan))))))) (\<lambda>_.
     ewrap ''sync: pull: finalize zstd stream'' (zw_close z))))"

definition StreamPull :: "contract_lib \<Rightarrow> manifest_lib \<Rightarrow> 'w zstd_writer \<Rightarrow> 'w pull_engine \<Rightarrow> ctx \<Rightarrow> PullPlan \<Rightarrow> ('w, unit) eff" where
  "StreamPull x v z e c plan = ebind (BuildPullManifest x v e c plan) (StreamPullWithManifest x v z e c plan)"

text \<open>The head is returned with an error too; a missing writer is \<open>None\<close>.\<close>

definition HandlePull :: "nat \<Rightarrow> contract_lib \<Rightarrow> ((PackRange \<times> PackFrame) list \<Rightarrow> (PackRange \<times> PackFrame) list) \<Rightarrow> manifest_lib \<Rightarrow>
    'w zstd_writer option \<Rightarrow> 'w pull_engine \<Rightarrow> ctx \<Rightarrow> PullRequest \<Rightarrow> ('w, (string \<times> goerr option) option) eff" where
  "HandlePull fuel x ord v w e c q = (case w of
       None \<Rightarrow> efail (Errorf ''sync: pull: response writer is required'')
     | Some z \<Rightarrow> ebind (PreparePull fuel x ord e c q) (\<lambda>r. case r of
         None \<Rightarrow> eret None
       | Some (plan, Some err) \<Rightarrow> eret (Some (pn_Head plan, Some err))
       | Some (plan, None) \<Rightarrow> ebind (StreamPull x v z e c plan) (\<lambda>_. eret (Some (pn_Head plan, None)))))"

end
