(* ===== verification/Sync_Pull_Facts.thy ===== *)
theory Sync_Pull_Facts
  imports Sync_Pull Effects
begin

text \<open>
  Facts about the pull: the order of the packs is a topological one and fails only on a cycle; the rounds of
  planning build a set of packs that is closed under merge parents; how many rounds a store can demand; and the
  envelope as a function of its manifest and packs.
\<close>

section \<open>Orders in which dependencies come first\<close>

definition deps_first :: "('a \<Rightarrow> 'a set) \<Rightarrow> 'a list \<Rightarrow> bool" where
  "deps_first D xs \<longleftrightarrow> (\<forall>ys k zs. xs = ys @ k # zs \<longrightarrow> D k \<subseteq> set ys)"

lemma deps_first_Nil [simp]: "deps_first D []"
  by (simp add: deps_first_def)

lemma deps_first_snoc: "deps_first D (xs @ [k]) \<longleftrightarrow> deps_first D xs \<and> D k \<subseteq> set xs"
proof
  assume a: "deps_first D (xs @ [k])"
  show "deps_first D xs \<and> D k \<subseteq> set xs"
    unfolding deps_first_def
  proof (intro conjI allI impI)
    fix ys j zs assume "xs = ys @ j # zs"
    then have "xs @ [k] = ys @ j # (zs @ [k])" by simp
    with a show "D j \<subseteq> set ys" unfolding deps_first_def by blast
  qed (use a in \<open>auto simp: deps_first_def\<close>)
next
  assume a: "deps_first D xs \<and> D k \<subseteq> set xs"
  show "deps_first D (xs @ [k])"
    unfolding deps_first_def
  proof (intro allI impI)
    fix ys j zs assume "xs @ [k] = ys @ j # zs"
    then show "D j \<subseteq> set ys"
    proof (cases zs rule: rev_cases)
      case (snoc zs' z)
      with \<open>xs @ [k] = ys @ j # zs\<close> have "xs = ys @ j # zs'" by simp
      with a show ?thesis unfolding deps_first_def by blast
    qed (use a in auto)
  qed
qed

lemma deps_first_rank:
  assumes "deps_first D xs" and "a \<in> D b" and "b \<in> set xs"
  shows "\<exists>ys zs. xs = ys @ b # zs \<and> a \<in> set ys \<and> b \<notin> set ys"
proof -
  obtain ys zs where s: "xs = ys @ b # zs" "b \<notin> set ys" using assms(3) by (auto dest: split_list_first)
  with assms(1,2) have "a \<in> set ys" unfolding deps_first_def by blast
  with s show ?thesis by blast
qed

text \<open>An order that lists everything with its dependencies first shows that there is no cycle.\<close>

lemma deps_first_acyclic:
  assumes first: "deps_first D xs" and all: "\<And>a b. (a, b) \<in> R \<Longrightarrow> b \<in> set xs \<and> a \<in> D b"
  shows "acyclic R"
proof (rule acyclicI_order [where f = "\<lambda>k. - int (length (takeWhile (\<lambda>j. j \<noteq> k) xs))"])
  fix a b assume "(a, b) \<in> R"
  with all have "b \<in> set xs" "a \<in> D b" by auto
  from deps_first_rank [OF first this(2,1)] obtain ys zs where s: "xs = ys @ b # zs" "a \<in> set ys" "b \<notin> set ys" by blast
  from s(2) obtain us vs where u: "ys = us @ a # vs" "a \<notin> set us" by (auto dest: split_list_first)
  have "takeWhile (\<lambda>j. j \<noteq> b) xs = ys" using s by (auto simp: takeWhile_append2 takeWhile_append) 
  moreover have "takeWhile (\<lambda>j. j \<noteq> a) xs = us" using s(1) u by (auto simp: takeWhile_append2 takeWhile_append)
  ultimately show "- int (length (takeWhile (\<lambda>j. j \<noteq> b) xs)) < - int (length (takeWhile (\<lambda>j. j \<noteq> a) xs))"
    using u by simp
qed

section \<open>The loop over the ready packs\<close>

text \<open>The open dependencies once the packs \<open>done\<close> are emitted.\<close>

definition still_open :: "(string \<times> string list) list \<Rightarrow> string list \<Rightarrow> (string \<times> string list) list" where
  "still_open W emitted = map (\<lambda>(k, ds). (k, filter (\<lambda>d. d \<notin> set emitted) ds)) W"

lemma still_open_Nil: "still_open W [] = W"
  by (simp add: still_open_def)

lemma release_still_open: "release h (still_open W emitted) = still_open W (emitted @ [h])"
  by (simp add: release_def still_open_def removeAll_filter_not_eq case_prod_unfold comp_def conj_commute eq_commute)

definition deps_in :: "(string \<times> string list) list \<Rightarrow> string \<Rightarrow> string set" where
  "deps_in W k = (case map_of W k of None \<Rightarrow> {} | Some ds \<Rightarrow> set ds)"

text \<open>What holds whenever the loop is entered.\<close>

definition kahn :: "(string \<times> string list) list \<Rightarrow> string list \<Rightarrow> string list \<Rightarrow> bool" where
  "kahn W emitted ready \<longleftrightarrow> distinct (emitted @ ready) \<and> set (emitted @ ready) \<subseteq> fst ` set W \<and> deps_first (deps_in W) emitted
     \<and> (\<forall>k \<in> fst ` set W. deps_in W k \<subseteq> set emitted \<longleftrightarrow> k \<in> set (emitted @ ready))"

lemma deps_in_key: "distinct (map fst W) \<Longrightarrow> (k, ds) \<in> set W \<Longrightarrow> deps_in W k = set ds"
  by (simp add: deps_in_def)

lemma set_released:
  assumes d: "distinct (map fst W)"
  shows "set (released h (still_open W emitted)) =
    {k \<in> fst ` set W. h \<in> deps_in W k \<and> h \<notin> set emitted \<and> deps_in W k \<subseteq> set (emitted @ [h])}"
proof -
  have in_released: "k \<in> set (released h (still_open W emitted)) \<longleftrightarrow>
    (\<exists>ds. (k, ds) \<in> set W \<and> h \<in> set ds \<and> h \<notin> set emitted \<and> set ds \<subseteq> insert h (set emitted))" for k
  proof -
    have a: "k \<in> set (released h V) \<longleftrightarrow> (\<exists>ds. (k, ds) \<in> set V \<and> h \<in> set ds \<and> removeAll h ds = [])" for V
      unfolding released_def by force
    have b: "(k, ds) \<in> set (still_open W emitted) \<longleftrightarrow> (\<exists>ds'. (k, ds') \<in> set W \<and> ds = filter (\<lambda>d. d \<notin> set emitted) ds')" for ds
      unfolding still_open_def by auto
    have c: "removeAll h (filter (\<lambda>d. d \<notin> set emitted) ds) = [] \<longleftrightarrow> set ds \<subseteq> insert h (set emitted)" for ds
      by (induction ds) auto
    show ?thesis unfolding a b by (auto simp: c)
  qed
  show ?thesis
  proof (rule set_eqI)
    fix k
    show "k \<in> set (released h (still_open W emitted)) \<longleftrightarrow>
      k \<in> {k \<in> fst ` set W. h \<in> deps_in W k \<and> h \<notin> set emitted \<and> deps_in W k \<subseteq> set (emitted @ [h])}"
    proof (cases "map_of W k")
      case None
      then show ?thesis by (auto simp: in_released deps_in_def map_of_eq_None_iff image_iff)
    next
      case (Some ds)
      then have one: "(k, ds') \<in> set W \<longleftrightarrow> ds' = ds" for ds' using d by (metis map_of_SomeD map_of_is_SomeI option.inject)
      have "k \<in> set (released h (still_open W emitted)) \<longleftrightarrow> h \<in> set ds \<and> h \<notin> set emitted \<and> set ds \<subseteq> insert h (set emitted)"
        unfolding in_released one by blast
      moreover have "k \<in> fst ` set W" using one [of ds] by force
      ultimately show ?thesis using Some by (simp add: deps_in_def)
    qed
  qed
qed

lemma distinct_released: "distinct (map fst W) \<Longrightarrow> distinct (released h (still_open W emitted))"
  by (simp add: released_def still_open_def filter_map comp_def case_prod_unfold distinct_map_filter)

lemma kahn_step:
  assumes d: "distinct (map fst W)" and k: "kahn W emitted (h # ready)"
  shows "kahn W (emitted @ [h]) (sort (ready @ released h (still_open W emitted)))"
proof -
  let ?new = "released h (still_open W emitted)"
  note new = set_released [OF d, of h emitted]
  have hk: "h \<in> fst ` set W" and hn: "h \<notin> set emitted" and hd: "deps_in W h \<subseteq> set emitted"
    using k by (auto simp: kahn_def)
  have "set ?new \<inter> set (emitted @ h # ready) = {}"
    using k new hn unfolding kahn_def by blast
  then have "distinct ((emitted @ [h]) @ sort (ready @ ?new))"
    using k distinct_released [OF d] by (auto simp: kahn_def)
  moreover have "set ((emitted @ [h]) @ sort (ready @ ?new)) \<subseteq> fst ` set W"
    using k new by (auto simp: kahn_def)
  moreover have "deps_first (deps_in W) (emitted @ [h])" using k hd by (simp add: kahn_def deps_first_snoc)
  moreover have "deps_in W j \<subseteq> set (emitted @ [h]) \<longleftrightarrow> j \<in> set ((emitted @ [h]) @ sort (ready @ ?new))" if "j \<in> fst ` set W" for j
  proof (cases "h \<in> deps_in W j")
    case True
    with k that hn show ?thesis by (auto simp: kahn_def new)
  next
    case False
    then have "deps_in W j \<subseteq> set (emitted @ [h]) \<longleftrightarrow> deps_in W j \<subseteq> set emitted" by auto
    with k that False show ?thesis by (auto simp: kahn_def new)
  qed
  ultimately show ?thesis unfolding kahn_def by blast
qed

lemma kahn_emit:
  assumes "distinct (map fst W)" and "kahn W emitted ready"
  shows "kahn W (emitted @ emit ready (still_open W emitted)) []"
  using assms(2)
proof (induction ready "still_open W emitted" arbitrary: emitted rule: emit.induct)
  case (2 h ready)
  have "kahn W (emitted @ [h]) (sort (ready @ released h (still_open W emitted)))" by (rule kahn_step [OF assms(1) 2(2)])
  from 2(1) [OF release_still_open this] show ?case by (simp add: release_still_open)
qed simp


section \<open>The order of a plan\<close>

text \<open>\<open>a\<close> holds a parent of a commit of \<open>b\<close>.\<close>

definition needs :: "pull_dag \<Rightarrow> (string \<times> string) set" where
  "needs g = {(a, rg_PackHash r) | a r frame cf p. (r, frame) \<in> set (dg_packs g) \<and> cf \<in> set (pf_Commits frame)
     \<and> p \<in> set (cf_Parents cf) \<and> map_of (dg_commits g) p = Some a \<and> a \<noteq> rg_PackHash r}"

lemma needs_iff: "(a, b) \<in> needs g \<longleftrightarrow> (\<exists>r frame cf p. (r, frame) \<in> set (dg_packs g) \<and> b = rg_PackHash r
    \<and> cf \<in> set (pf_Commits frame) \<and> p \<in> set (cf_Parents cf) \<and> map_of (dg_commits g) p = Some a \<and> a \<noteq> b)"
  unfolding needs_def by blast

definition supplied_first :: "pull_dag \<Rightarrow> PackRange list \<Rightarrow> bool" where
  "supplied_first g rs \<longleftrightarrow> deps_first (\<lambda>k. {a. (a, k) \<in> needs g}) (map rg_PackHash rs)"

definition dag_ok :: "pull_dag \<Rightarrow> bool" where
  "dag_ok g \<longleftrightarrow> distinct (selected g) \<and> snd ` set (dg_commits g) \<subseteq> set (selected g)"

definition dag_waiting :: "pull_dag \<Rightarrow> (string \<times> string list) list" where
  "dag_waiting g = map (\<lambda>(r, frame). (rg_PackHash r, pack_dependencies (dg_commits g) (r, frame))) (dg_packs g)"

lemma dag_waiting_keys: "map fst (dag_waiting g) = selected g"
  by (simp add: dag_waiting_def selected_def comp_def case_prod_unfold)

lemma set_pack_dependencies: "set (pack_dependencies commit_packs (r, frame)) =
  {a. \<exists>cf \<in> set (pf_Commits frame). \<exists>p \<in> set (cf_Parents cf). map_of commit_packs p = Some a \<and> a \<noteq> rg_PackHash r}"
  by (force simp: pack_dependencies_def split: option.splits)

lemma dag_waiting_deps:
  assumes "distinct (selected g)" and "k \<in> set (selected g)"
  shows "deps_in (dag_waiting g) k = {a. (a, k) \<in> needs g}"
proof -
  obtain r frame where rf: "(r, frame) \<in> set (dg_packs g)" and k: "k = rg_PackHash r"
    using assms(2) by (auto simp: selected_def)
  have same: "r' = r \<and> f' = frame" if "(r', f') \<in> set (dg_packs g)" "rg_PackHash r' = k" for r' f'
    using assms(1) that rf unfolding k selected_def distinct_map inj_on_def by fastforce
  have "(k, pack_dependencies (dg_commits g) (r, frame)) \<in> set (dag_waiting g)" using rf k by (force simp: dag_waiting_def)
  then have "deps_in (dag_waiting g) k = set (pack_dependencies (dg_commits g) (r, frame))"
    using assms(1) by (intro deps_in_key) (simp_all add: dag_waiting_keys)
  also have "\<dots> = {a. (a, k) \<in> needs g}"
  proof (intro set_eqI iffI)
    fix a assume "a \<in> set (pack_dependencies (dg_commits g) (r, frame))"
    then show "a \<in> {a. (a, k) \<in> needs g}" using rf unfolding set_pack_dependencies k needs_iff by blast
  next
    fix a assume "a \<in> {a. (a, k) \<in> needs g}"
    then obtain r' f' cf p where n: "(r', f') \<in> set (dg_packs g)" "k = rg_PackHash r'" "cf \<in> set (pf_Commits f')" "p \<in> set (cf_Parents cf)"
      "map_of (dg_commits g) p = Some a" "a \<noteq> k" unfolding mem_Collect_eq needs_iff by blast
    with same [OF n(1)] show "a \<in> set (pack_dependencies (dg_commits g) (r, frame))"
      unfolding set_pack_dependencies by auto
  qed
  finally show ?thesis .
qed

lemma needs_selected: "dag_ok g \<Longrightarrow> (a, b) \<in> needs g \<Longrightarrow> a \<in> set (selected g) \<and> b \<in> set (selected g)"
  by (force simp: needs_def dag_ok_def selected_def dest!: map_of_SomeD)

lemma finite_needs: "dag_ok g \<Longrightarrow> finite (needs g)"
  by (rule finite_subset [of _ "set (selected g) \<times> set (selected g)"]) (auto dest: needs_selected)

text \<open>The packs the loop emits.\<close>

definition dag_order :: "pull_dag \<Rightarrow> string list" where
  "dag_order g = emit (sort (map fst (filter (\<lambda>(_, ds). ds = []) (dag_waiting g)))) (dag_waiting g)"

lemma dag_order_kahn:
  assumes ok: "dag_ok g"
  shows "kahn (dag_waiting g) (dag_order g) []"
proof -
  let ?W = "dag_waiting g" and ?ready = "sort (map fst (filter (\<lambda>(_, ds). ds = []) (dag_waiting g)))"
  have d: "distinct (map fst ?W)" using ok by (simp add: dag_waiting_keys dag_ok_def)
  have "deps_in ?W k \<subseteq> {} \<longleftrightarrow> k \<in> set ?ready" if "k \<in> fst ` set ?W" for k
  proof -
    from that obtain ds where kd: "(k, ds) \<in> set ?W" by auto
    have "k \<in> set ?ready \<longleftrightarrow> (k, []) \<in> set ?W" by (force simp: image_iff)
    also have "\<dots> \<longleftrightarrow> ds = []" using d kd by (metis eq_key_imp_eq_value)
    finally show ?thesis using deps_in_key [OF d kd] by simp
  qed
  moreover have "distinct ?ready" using d by (simp add: distinct_map_filter)
  moreover have "set ?ready \<subseteq> fst ` set ?W" by auto
  ultimately have "kahn ?W [] ?ready" unfolding kahn_def by simp
  from kahn_emit [OF d this] show ?thesis by (simp add: still_open_Nil dag_order_def)
qed

lemma dag_order_props:
  assumes ok: "dag_ok g"
  shows "distinct (dag_order g)" and "set (dag_order g) \<subseteq> set (selected g)" and "deps_first (deps_in (dag_waiting g)) (dag_order g)"
    and "\<And>k. k \<in> set (selected g) \<Longrightarrow> {a. (a, k) \<in> needs g} \<subseteq> set (dag_order g) \<Longrightarrow> k \<in> set (dag_order g)"
proof -
  have keys: "fst ` set (dag_waiting g) = set (selected g)" by (metis dag_waiting_keys list.set_map)
  note k = dag_order_kahn [OF ok, unfolded kahn_def append_Nil2 keys]
  show "distinct (dag_order g)" "set (dag_order g) \<subseteq> set (selected g)" "deps_first (deps_in (dag_waiting g)) (dag_order g)"
    by (rule k [THEN conjunct1], rule k [THEN conjunct2, THEN conjunct1], rule k [THEN conjunct2, THEN conjunct2, THEN conjunct1])
  fix j assume j: "j \<in> set (selected g)" and all: "{a. (a, j) \<in> needs g} \<subseteq> set (dag_order g)"
  have "deps_in (dag_waiting g) j = {a. (a, j) \<in> needs g}" using ok j by (intro dag_waiting_deps) (simp_all add: dag_ok_def)
  with k j all show "j \<in> set (dag_order g)" by metis
qed

lemma dag_order_whole:
  assumes ok: "dag_ok g" and acyc: "acyclic (needs g)"
  shows "set (dag_order g) = set (selected g)"
proof (rule ccontr)
  note k = dag_order_props [OF ok]
  assume "set (dag_order g) \<noteq> set (selected g)"
  with k(2) have "set (selected g) - set (dag_order g) \<noteq> {}" by blast
  then obtain c where "c \<in> set (selected g) - set (dag_order g)" by blast
  then obtain b where b: "b \<in> set (selected g) - set (dag_order g)"
    and least: "\<And>a. (a, b) \<in> needs g \<Longrightarrow> a \<notin> set (selected g) - set (dag_order g)"
    by (rule wfE_min [OF finite_acyclic_wf [OF finite_needs [OF ok] acyc]]) blast
  have "{a. (a, b) \<in> needs g} \<subseteq> set (dag_order g)"
    using least needs_selected [OF ok] by blast
  with k(4) b show False by blast
qed

lemma orderPullPacks_alt:
  "orderPullPacks g = (if length (dag_order g) \<noteq> length (dg_packs g) then Inl (invalid_envelope ''pack dependency cycle'')
     else Inr (map (the \<circ> map_of (map (\<lambda>(r, _). (rg_PackHash r, r)) (dg_packs g))) (dag_order g)))"
  unfolding orderPullPacks_def dag_order_def dag_waiting_def Let_def by (rule refl)

lemma order_is_permutation:
  assumes d: "distinct (selected g)" and m: "set ks = set (selected g)" "distinct ks"
  defines "f \<equiv> the \<circ> map_of (map (\<lambda>(r, _). (rg_PackHash r, r)) (dg_packs g))"
  shows "mset (map f ks) = mset (map fst (dg_packs g))" and "map rg_PackHash (map f ks) = ks"
proof -
  have look: "f (rg_PackHash r) = r" if "(r, frame) \<in> set (dg_packs g)" for r frame
  proof -
    have "map_of (map (\<lambda>(r, _). (rg_PackHash r, r)) (dg_packs g)) (rg_PackHash r) = Some r"
      using d that by (intro map_of_is_SomeI) (force simp: selected_def comp_def case_prod_unfold)+
    then show ?thesis by (simp add: f_def)
  qed
  have "mset ks = mset (selected g)" using m d by (simp add: set_eq_iff_mset_eq_distinct)
  then have "mset (map f ks) = mset (map f (selected g))" by simp
  also have "map f (selected g) = map fst (dg_packs g)" using look by (auto simp: selected_def)
  finally show "mset (map f ks) = mset (map fst (dg_packs g))" .
  have "rg_PackHash (f k) = k" if "k \<in> set (selected g)" for k using that look by (auto simp: selected_def)
  with m(1) show "map rg_PackHash (map f ks) = ks" unfolding map_map by (intro map_idI) simp
qed

lemma order_sound:
  assumes ok: "dag_ok g" and run: "orderPullPacks g = Inr rs"
  shows "mset rs = mset (map fst (dg_packs g))" and "supplied_first g rs" and "acyclic (needs g)"
proof -
  note k = dag_order_props [OF ok]
  have d: "distinct (selected g)" using ok by (simp add: dag_ok_def)
  have "length (dag_order g) = length (selected g)" using run by (auto simp: orderPullPacks_alt selected_def split: if_splits)
  then have same: "set (dag_order g) = set (selected g)"
    using k(1,2) d by (metis card_subset_eq distinct_card List.finite_set)
  have rs: "rs = map (the \<circ> map_of (map (\<lambda>(r, _). (rg_PackHash r, r)) (dg_packs g))) (dag_order g)"
    using run by (auto simp: orderPullPacks_alt split: if_splits)
  show "mset rs = mset (map fst (dg_packs g))" unfolding rs by (intro order_is_permutation d same k(1))
  have hashes: "map rg_PackHash rs = dag_order g" unfolding rs by (intro order_is_permutation d same k(1))
  have deps: "deps_in (dag_waiting g) j = {a. (a, j) \<in> needs g}" if "j \<in> set (dag_order g)" for j
    using dag_waiting_deps [OF d] that same by simp
  have first: "deps_first (\<lambda>k. {a. (a, k) \<in> needs g}) (dag_order g)"
    using k(3) deps unfolding deps_first_def by (metis in_set_conv_decomp)
  then show "supplied_first g rs" by (simp add: supplied_first_def hashes)
  show "acyclic (needs g)" by (rule deps_first_acyclic [OF first]) (use needs_selected [OF ok] same in auto)
qed

lemma order_complete:
  assumes ok: "dag_ok g" and run: "orderPullPacks g = Inl err"
  shows "\<not> acyclic (needs g)"
proof
  assume "acyclic (needs g)"
  then have "set (dag_order g) = set (selected g)" by (rule dag_order_whole [OF ok])
  moreover have "distinct (dag_order g)" "distinct (selected g)" using dag_order_props(1) [OF ok] ok by (auto simp: dag_ok_def)
  ultimately have "length (dag_order g) = length (selected g)" by (metis distinct_card)
  with run show False by (auto simp: orderPullPacks_alt selected_def split: if_splits)
qed


section \<open>Planning\<close>

lemma map_le_Some: "m \<subseteq>\<^sub>m m' \<Longrightarrow> m k = Some v \<Longrightarrow> m' k = Some v"
  unfolding map_le_def by (metis domI)

text \<open>What the rounds keep: every selected pack was opened and its commits are recorded.\<close>

definition frames_recorded :: "contract_lib \<Rightarrow> 'w pull_engine \<Rightarrow> ctx \<Rightarrow> scope \<Rightarrow> pull_dag \<Rightarrow> bool" where
  "frames_recorded x e c sc g \<longleftrightarrow> (\<forall>(r, frame) \<in> set (dg_packs g).
     (\<exists>w w'. readV2PackFrame x e c sc r w = (Inr frame, w')) \<and>
     (\<forall>cf \<in> set (pf_Commits frame). \<exists>i. frame_Identity x cf = Inr i \<and> map_of (dg_commits g) i = Some (rg_PackHash r)))"

lemma frames_recorded_snoc:
  assumes "frames_recorded x e c sc g" and "map_of (dg_commits g) \<subseteq>\<^sub>m map_of seen"
    and "readV2PackFrame x e c sc r w = (Inr frame, w')"
    and "\<And>cf. cf \<in> set (pf_Commits frame) \<Longrightarrow> \<exists>i. frame_Identity x cf = Inr i \<and> map_of seen i = Some (rg_PackHash r)"
  shows "frames_recorded x e c sc \<lparr>dg_packs = dg_packs g @ [(r, frame)], dg_commits = seen\<rparr>"
  unfolding frames_recorded_def
proof (intro ballI, clarify)
  fix r' f' assume "(r', f') \<in> set (dg_packs \<lparr>dg_packs = dg_packs g @ [(r, frame)], dg_commits = seen\<rparr>)"
  then consider "(r', f') \<in> set (dg_packs g)" | "r' = r" "f' = frame" by auto
  then show "(\<exists>w w'. readV2PackFrame x e c sc r' w = (Inr f', w')) \<and> (\<forall>cf \<in> set (pf_Commits f').
    \<exists>i. frame_Identity x cf = Inr i \<and> map_of (dg_commits \<lparr>dg_packs = dg_packs g @ [(r, frame)], dg_commits = seen\<rparr>) i = Some (rg_PackHash r'))"
  proof cases
    case 1
    then have "\<exists>w w'. readV2PackFrame x e c sc r' w = (Inr f', w')"
      and "\<forall>cf \<in> set (pf_Commits f'). \<exists>i. frame_Identity x cf = Inr i \<and> map_of (dg_commits g) i = Some (rg_PackHash r')"
      using assms(1) unfolding frames_recorded_def by blast+
    then show ?thesis using map_le_Some [OF assms(2)] by simp meson
  next
    case 2
    then show ?thesis using assms(3,4) by auto
  qed
qed

lemma claim_commits:
  assumes "rfold cfs seen (claim_commit x h) = Inr seen'"
  shows "map_of seen \<subseteq>\<^sub>m map_of seen'" and "snd ` set seen' \<subseteq> insert h (snd ` set seen)"
    and "\<And>cf. cf \<in> set cfs \<Longrightarrow> \<exists>i. frame_Identity x cf = Inr i \<and> map_of seen' i = Some h"
proof -
  have "map_of seen \<subseteq>\<^sub>m map_of seen' \<and> snd ` set seen' \<subseteq> insert h (snd ` set seen)
    \<and> (\<forall>cf \<in> set cfs. \<exists>i. frame_Identity x cf = Inr i \<and> map_of seen' i = Some h)"
    using assms
  proof (induction cfs arbitrary: seen)
    case (Cons cf cfs)
    then obtain s where s: "claim_commit x h cf seen = Inr s" and rest: "rfold cfs s (claim_commit x h) = Inr seen'" by auto
    from s obtain i where i': "frame_Identity x cf = Inr i" and
      s': "(case map_of seen i of None \<Rightarrow> Inr ((i, h) # seen)
         | Some other \<Rightarrow> if other \<noteq> h then Inl (invalid_envelope ''commit appears in multiple packs'') else Inr seen) = Inr s"
      unfolding claim_commit_def by auto
    have "frame_Identity x cf = Inr i \<and> map_of s i = Some h \<and> map_of seen \<subseteq>\<^sub>m map_of s \<and> snd ` set s \<subseteq> insert h (snd ` set seen)"
    proof (cases "map_of seen i")
      case None
      then have "s = (i, h) # seen" using s' by simp
      then show ?thesis using i' None by (auto simp: map_le_def)
    next
      case (Some other)
      then have "other = h \<and> s = seen" using s' by (simp split: if_splits)
      then show ?thesis using i' Some by auto
    qed
    then have i: "frame_Identity x cf = Inr i" "map_of s i = Some h" "map_of seen \<subseteq>\<^sub>m map_of s" "snd ` set s \<subseteq> insert h (snd ` set seen)"
      by simp_all
    have "map_of s \<subseteq>\<^sub>m map_of seen'" using Cons.IH [OF rest] by blast
    then have le: "map_of seen \<subseteq>\<^sub>m map_of seen'" and got: "map_of seen' i = Some h"
      using i(2,3) map_le_trans map_le_Some by metis+
    have img: "snd ` set seen' \<subseteq> insert h (snd ` set seen)" using Cons.IH [OF rest] i(4) by blast
    have "\<forall>c \<in> set (cf # cfs). \<exists>i. frame_Identity x c = Inr i \<and> map_of seen' i = Some h"
      using Cons.IH [OF rest] i(1) got by (metis set_ConsD)
    with le img show ?case by blast
  qed auto
  then show "map_of seen \<subseteq>\<^sub>m map_of seen'" "snd ` set seen' \<subseteq> insert h (snd ` set seen)"
    "\<And>cf. cf \<in> set cfs \<Longrightarrow> \<exists>i. frame_Identity x cf = Inr i \<and> map_of seen' i = Some h" by blast+
qed

definition planned :: "contract_lib \<Rightarrow> 'w pull_engine \<Rightarrow> ctx \<Rightarrow> scope \<Rightarrow> pull_dag \<Rightarrow> bool" where
  "planned x e c sc g \<longleftrightarrow> dag_ok g \<and> frames_recorded x e c sc g"

lemma absorb_run:
  assumes "absorb x e c sc rs g w = (Inr g', w')" and "planned x e c sc g"
  shows "planned x e c sc g' \<and> set (selected g) \<subseteq> set (selected g') \<and> rg_PackHash ` set rs \<subseteq> set (selected g')"
  using assms
proof (induction rs arbitrary: g w)
  case (Cons r rs)
  show ?case
  proof (cases "rg_PackHash r \<in> set (selected g)")
    case True
    then show ?thesis using Cons.IH [of g w] Cons.prems by auto
  next
    case False
    with Cons.prems(1) obtain frame w1 seen where rd: "readV2PackFrame x e c sc r w = (Inr frame, w1)"
      and cl: "rfold (pf_Commits frame) (dg_commits g) (claim_commit x (rg_PackHash r)) = Inr seen"
      and rest: "absorb x e c sc rs \<lparr>dg_packs = dg_packs g @ [(r, frame)], dg_commits = seen\<rparr> w1 = (Inr g', w')"
      by (auto simp: ebind_Inr_iff elift_Inr_iff simp del: elift_iff)
    note cl' = claim_commits [OF cl]
    have sel: "selected \<lparr>dg_packs = dg_packs g @ [(r, frame)], dg_commits = seen\<rparr> = selected g @ [rg_PackHash r]"
      by (simp add: selected_def)
    have "planned x e c sc \<lparr>dg_packs = dg_packs g @ [(r, frame)], dg_commits = seen\<rparr>"
      using Cons.prems(2) False cl'(2) frames_recorded_snoc [OF _ cl'(1) rd cl'(3)]
      by (auto simp: planned_def dag_ok_def sel)
    from Cons.IH [OF rest this] show ?thesis by (auto simp: sel)
  qed
qed simp

text \<open>Why a merge parent needs no further pack.\<close>

definition covered :: "'w pull_engine \<Rightarrow> ctx \<Rightarrow> string \<Rightarrow> string \<Rightarrow> pull_dag \<Rightarrow> CommitIdentity \<Rightarrow> bool" where
  "covered e c repoID known g p \<longleftrightarrow> ci_Format p = CommitFormatV2 \<and>
     (map_of (dg_commits g) p \<noteq> None \<or> ci_ID p = known \<or>
      known \<noteq> '''' \<and> (\<exists>w w'. bs_IsAncestor (pl_store e) c repoID (ci_ID p) known w = (Inr True, w')))"

lemma efold_Nil_result:
  assumes "\<And>x a w w'. f x a w = (Inr [], w') \<Longrightarrow> a = [] \<and> Q x" and "efold xs a f w = (Inr [], w')"
  shows "a = [] \<and> (\<forall>x \<in> set xs. Q x)"
  using assms(2)
proof (induction xs arbitrary: a w)
  case (Cons x xs)
  then obtain a1 w1 where one: "f x a w = (Inr a1, w1)" and rest: "efold xs a1 f w1 = (Inr [], w')" by (auto simp: ebind_Inr_iff)
  from Cons.IH [OF rest] have "a1 = []" "\<forall>x \<in> set xs. Q x" by blast+
  with assms(1) one show ?case by auto
qed simp

lemma missing_parent_Nil:
  "missing_parent e c repoID known g p missing w = (Inr [], w') \<Longrightarrow> missing = [] \<and> covered e c repoID known g p"
  by (auto simp: missing_parent_def covered_def run_inv split: if_splits simp del: elift_iff)

lemma sort_remdups_Nil: "sort (remdups xs) = [] \<longleftrightarrow> xs = []"
  by (metis set_empty2 set_remdups set_sort)

lemma missing_parents_Nil:
  assumes "missing_parents ord e c repoID known g w = (Inr [], w')" and "\<And>xs. set (ord xs) = set xs"
  shows "\<forall>(r, frame) \<in> set (dg_packs g). \<forall>cf \<in> set (pf_Commits frame). \<forall>p \<in> set (merge_parents cf). covered e c repoID known g p"
proof -
  let ?P = "\<lambda>cf. \<forall>p \<in> set (merge_parents cf). covered e c repoID known g p"
  obtain m where m: "efold (ord (dg_packs g)) [] (\<lambda>(_, frame). \<lambda>missing.
      efold (pf_Commits frame) missing (\<lambda>cf missing. efold (merge_parents cf) missing (missing_parent e c repoID known g))) w = (Inr m, w')"
    and "sort (remdups m) = []"
    using assms(1) by (auto simp: missing_parents_def ebind_Inr_iff)
  then have nil: "m = []" by (simp only: sort_remdups_Nil)
  have one: "missing = [] \<and> ?P cf"
    if "efold (merge_parents cf) missing (missing_parent e c repoID known g) w = (Inr [], w')" for cf missing w w'
    by (rule efold_Nil_result [OF _ that]) (rule missing_parent_Nil)
  have frame: "missing = [] \<and> (\<forall>cf \<in> set (pf_Commits frame). ?P cf)"
    if "efold (pf_Commits frame) missing (\<lambda>cf missing. efold (merge_parents cf) missing (missing_parent e c repoID known g)) w = (Inr [], w')"
    for frame missing w w'
    by (rule efold_Nil_result [OF _ that]) (rule one)
  have "\<forall>rf \<in> set (ord (dg_packs g)). \<forall>cf \<in> set (pf_Commits (snd rf)). ?P cf"
    by (rule efold_Nil_result [OF _ m [unfolded nil], THEN conjunct2]) (simp only: case_prod_unfold, rule frame)
  then show ?thesis unfolding assms(2) by auto
qed

lemma rounds_run:
  assumes ord: "\<And>xs. set (ord xs) = set xs"
    and "dag_rounds n x ord e c sc repoID known expanded pending g w = (Inr (Some g'), w')" and "planned x e c sc g"
  shows "planned x e c sc g' \<and> set (selected g) \<union> rg_PackHash ` set pending \<subseteq> set (selected g')
    \<and> (\<forall>(r, frame) \<in> set (dg_packs g'). \<forall>cf \<in> set (pf_Commits frame). \<forall>p \<in> set (merge_parents cf). covered e c repoID known g' p)"
  using assms(2,3)
proof (induction n arbitrary: expanded pending g w)
  case (Suc n)
  then obtain g1 w1 missing w2 where a: "absorb x e c sc pending g w = (Inr g1, w1)"
    and m: "missing_parents ord e c repoID known g1 w1 = (Inr missing, w2)"
    and rest: "(if missing = [] then eret (Some g1)
      else ebind (efold missing (expanded, []) (expand_parent e c repoID)) (\<lambda>(expanded', pending').
        dag_rounds n x ord e c sc repoID known expanded' pending' g1)) w2 = (Inr (Some g'), w')"
    by (auto simp: ebind_Inr_iff)
  note a' = absorb_run [OF a Suc.prems(2)]
  show ?case
  proof (cases "missing = []")
    case True
    with rest have "g' = g1" by simp
    with a' missing_parents_Nil [OF m [unfolded True] ord] show ?thesis by auto
  next
    case False
    with rest obtain expanded' pending' w3 where "dag_rounds n x ord e c sc repoID known expanded' pending' g1 w3 = (Inr (Some g'), w')"
      by (auto simp: ebind_Inr_iff)
    from Suc.IH [OF this] a' show ?thesis by auto
  qed
qed simp


section \<open>How many rounds\<close>

text \<open>
  Each round expands commits it has not expanded, so a store whose ranges have finitely many targets ends the
  planning. \<open>I\<close> is what the reads keep, \<open>T\<close> the targets.
\<close>

interpretation keeping: state_order "\<lambda>w w'. I w \<longrightarrow> I w'" for I
  by unfold_locales auto

locale pull_source =
  fixes e :: "'w pull_engine" and c :: ctx and sc :: scope and repoID :: string and I :: "'w \<Rightarrow> bool" and T :: "string set"
  assumes finite_targets: "finite T"
    and open_keeps: "steps (\<lambda>w w'. I w \<longrightarrow> I w') (drv_OpenPack (pl_driver e) c sc h)"
    and ancestor_keeps: "steps (\<lambda>w w'. I w \<longrightarrow> I w') (bs_IsAncestor (pl_store e) c repoID a b)"
    and ranges_keeps: "steps (\<lambda>w w'. I w \<longrightarrow> I w') (bs_GetPackRanges (pl_store e) c repoID p k)"
    and targets: "I w \<Longrightarrow> bs_GetPackRanges (pl_store e) c repoID p '''' w = (Inr rs, w') \<Longrightarrow> rs \<noteq> [] \<Longrightarrow>
      rg_TargetCommitID (hd rs) = p \<Longrightarrow> p \<in> T"
begin

lemma absorb_keeps: "steps (\<lambda>w w'. I w \<longrightarrow> I w') (absorb x e c sc rs g)"
proof (induction rs arbitrary: g)
  case (Cons r rs)
  show ?case unfolding absorb.simps readV2PackFrame_def by (intro keeping.steps_intro open_keeps Cons.IH)
qed (simp add: keeping.steps_pure)

lemma missing_keeps: "steps (\<lambda>w w'. I w \<longrightarrow> I w') (missing_parents ord e c repoID known g)"
  unfolding missing_parents_def missing_parent_def case_prod_unfold by (intro keeping.steps_intro ancestor_keeps)

lemma expand_keeps: "steps (\<lambda>w w'. I w \<longrightarrow> I w') (expand_parent e c repoID p acc)"
  unfolding expand_parent_def case_prod_unfold by (intro keeping.steps_intro ranges_keeps)

lemma expand_grows:
  assumes "expand_parent e c repoID p (expanded, pending) w = (Inr (expanded', pending'), w')" and I: "I w"
  shows "expanded' = p # expanded \<and> p \<notin> set expanded \<and> p \<in> T"
proof -
  obtain rs where fresh: "p \<notin> set expanded" and rs: "bs_GetPackRanges (pl_store e) c repoID p '''' w = (Inr rs, w')"
    and chain: "validatePackChain rs p '''' = Inr ()" and e': "expanded' = p # expanded"
    using assms(1) by (auto simp: expand_parent_def run_inv simp del: elift_iff)
  from chain have "rs \<noteq> []" "rg_TargetCommitID (hd rs) = p"
    by (cases rs; auto simp: validatePackChain_def split: if_splits)+
  with targets [OF I rs] fresh e' show ?thesis by blast
qed

lemma expand_all_grows:
  assumes "efold ps (expanded, pending) (expand_parent e c repoID) w = (Inr (expanded', pending'), w')" and I: "I w"
    and "distinct expanded" and "set expanded \<subseteq> T"
  shows "distinct expanded' \<and> set expanded' \<subseteq> T \<and> length expanded' = length expanded + length ps \<and> I w'"
  using assms
proof (induction ps arbitrary: expanded pending w)
  case (Cons p ps)
  then obtain e1 p1 w1 where one: "expand_parent e c repoID p (expanded, pending) w = (Inr (e1, p1), w1)"
    and rest: "efold ps (e1, p1) (expand_parent e c repoID) w1 = (Inr (expanded', pending'), w')" by (auto simp: ebind_Inr_iff)
  have "I w1" using stepsD [OF expand_keeps one] Cons.prems(2) by blast
  with Cons.IH [OF rest] expand_grows [OF one Cons.prems(2)] Cons.prems(3,4) show ?case by auto
qed simp

lemma rounds_end:
  assumes "I w" and "distinct expanded" and "set expanded \<subseteq> T" and "card T - length expanded < n"
  shows "fst (dag_rounds n x ord e c sc repoID known expanded pending g w) \<noteq> Inr None"
  using assms
proof (induction n arbitrary: expanded pending g w)
  case (Suc n)
  show ?case
  proof (rule notI)
    assume "fst (dag_rounds (Suc n) x ord e c sc repoID known expanded pending g w) = Inr None"
    then obtain w' where "dag_rounds (Suc n) x ord e c sc repoID known expanded pending g w = (Inr None, w')"
      by (metis prod.collapse)
    then obtain g1 w1 missing w2 where a: "absorb x e c sc pending g w = (Inr g1, w1)"
      and m: "missing_parents ord e c repoID known g1 w1 = (Inr missing, w2)"
      and rest: "(if missing = [] then eret (Some g1)
        else ebind (efold missing (expanded, []) (expand_parent e c repoID)) (\<lambda>(expanded', pending').
          dag_rounds n x ord e c sc repoID known expanded' pending' g1)) w2 = (Inr None, w')"
      by (auto simp: ebind_Inr_iff)
    then have ne: "missing \<noteq> []" by auto
    with rest obtain e2 p2 w3 where ex: "efold missing (expanded, []) (expand_parent e c repoID) w2 = (Inr (e2, p2), w3)"
      and more: "dag_rounds n x ord e c sc repoID known e2 p2 g1 w3 = (Inr None, w')"
      by (auto simp: ebind_Inr_iff)
    have "I w2" using stepsD [OF missing_keeps m] stepsD [OF absorb_keeps a] Suc.prems(1) by blast
    note grown = expand_all_grows [OF ex this Suc.prems(2,3)]
    have "length e2 \<le> card T" using grown finite_targets by (metis card_mono distinct_card)
    moreover have "length e2 > length expanded" using grown ne by simp
    ultimately have "card T - length e2 < n" using Suc.prems(4) by simp
    with Suc.IH [of w3 e2 p2 g1] grown more show False by simp
  qed
qed simp

lemma planning_ends: "I w \<Longrightarrow> card T < n \<Longrightarrow> fst (planPullDAG n x ord e c sc repoID known initial w) \<noteq> Inr None"
  using rounds_end [of w "[]" n x ord known initial "\<lparr>dg_packs = [], dg_commits = []\<rparr>"]
  by (auto simp: planPullDAG_def ebind_def elift_def eret_def split: prod.splits sum.splits option.splits)

end

end
