(* ===== verification/Sync_Envelope_Facts.thy ===== *)
theory Sync_Envelope_Facts
  imports Sync_Pull
begin

text \<open>
  The pull envelope as a function of its manifest and packs: what \<open>UnmarshalPullEnvelopeV2\<close> accepts is exactly
  the header, the canonical manifest and the packs it describes, whose frames are complete.
\<close>

section \<open>Big-endian numbers\<close>

lemma put_be_Suc: "put_be (Suc n) v = put_be n (v div 256) @ [word_of_nat v]"
proof -
  have "v div 256 ^ (Suc n - 1 - i) = v div 256 div 256 ^ (n - 1 - i)" if "i < n" for i
  proof -
    from that have "Suc n - 1 - i = Suc (n - 1 - i)" by simp
    then show ?thesis by (simp only: power_Suc div_mult2_eq)
  qed
  then show ?thesis by (simp add: put_be_def)
qed

lemma length_put_be [simp]: "length (put_be n v) = n"
  by (simp add: put_be_def)

lemma get_be_snoc: "get_be (bs @ [b]) = get_be bs * 256 + unat b"
  by (simp add: get_be_def)

lemma get_put_be: "v < 256 ^ n \<Longrightarrow> get_be (put_be n v) = v"
proof (induction n arbitrary: v)
  case (Suc n)
  then have "v div 256 < 256 ^ n" by (simp add: less_mult_imp_div_less mult.commute)
  then show ?case by (simp add: put_be_Suc get_be_snoc Suc.IH unat_of_nat)
qed (simp add: get_be_def put_be_def)

lemma get_be_less: "get_be bs < 256 ^ length bs"
proof (induction bs rule: rev_induct)
  case (snoc b bs)
  have "unat b < 256" using unsigned_less [of b, where ?'a = nat] by simp
  with snoc show ?case by (simp add: get_be_snoc)
qed (simp add: get_be_def)

lemma put_get_be: "put_be (length bs) (get_be bs) = bs"
proof (induction bs rule: rev_induct)
  case (snoc b bs)
  have "unat b < 256" using unsigned_less [of b, where ?'a = nat] by simp
  then have "(get_be bs * 256 + unat b) div 256 = get_be bs" by simp
  moreover have "(word_of_nat (get_be bs * 256 + unat b) :: 8 word) = b"
    by (rule word_unat_eq_iff [THEN iffD2]) (use \<open>unat b < 256\<close> in \<open>simp only: unat_of_nat, simp\<close>)
  ultimately show ?case using snoc by (simp add: put_be_Suc get_be_snoc)
qed (simp add: put_be_def)

section \<open>The packs\<close>

definition pack_ok :: "contract_lib \<Rightarrow> PullPackManifest \<Rightarrow> bytes \<times> PackFrame \<Rightarrow> bool" where
  "pack_ok x p df \<longleftrightarrow> unat (pp_Length p) = length (fst df) \<and> length (fst df) \<le> MaxV2PackBytes
     \<and> ContentID x (fst df) = pp_Hash p \<and> unmarshal_pack x (pp_Format p) (fst df) = Inr (snd df)"

definition at_head :: "string \<Rightarrow> PackFrame \<Rightarrow> bool" where
  "at_head head f \<longleftrightarrow> pf_Target f = V2CommitIdentity head"

text \<open>From state \<open>s\<close>, the packs and frames \<open>dfs\<close> lead to \<open>s'\<close>.\<close>

definition scanned :: "contract_lib \<Rightarrow> string \<Rightarrow> envelope_scan \<Rightarrow> (bytes \<times> PackFrame) list \<Rightarrow> envelope_scan \<Rightarrow> bool" where
  "scanned x head s dfs s' \<longleftrightarrow> es_rest s = concat (map fst dfs) @ es_rest s' \<and> es_packs s' = es_packs s @ map fst dfs
     \<and> es_frames s' = es_frames s @ map snd dfs
     \<and> (\<exists>ids. rmap (frame_Identity x) (concat (map (pf_Commits \<circ> snd) dfs)) = Inr ids \<and> distinct ids
          \<and> set ids \<inter> set (es_commits s) = {} \<and> es_commits s' = rev ids @ es_commits s)
     \<and> es_heads s' = es_heads s + length (filter (at_head head \<circ> snd) dfs)
     \<and> (filter (at_head head \<circ> snd) dfs \<noteq> [] \<longrightarrow> es_heads s' = 1)"

lemma scan_commits: "rfold cfs seen (scan_commit x) = Inr seen' \<longleftrightarrow>
  (\<exists>ids. rmap (frame_Identity x) cfs = Inr ids \<and> distinct ids \<and> set ids \<inter> set seen = {} \<and> seen' = rev ids @ seen)"
proof (induction cfs arbitrary: seen)
  case (Cons cf cfs)
  have step: "scan_commit x cf seen = Inr s1 \<longleftrightarrow> (\<exists>i. frame_Identity x cf = Inr i \<and> i \<notin> set seen \<and> s1 = i # seen)" for s1
    by (auto simp: scan_commit_def)
  show ?case
  proof
    assume "rfold (cf # cfs) seen (scan_commit x) = Inr seen'"
    then obtain i ids where "frame_Identity x cf = Inr i" "i \<notin> set seen" "rmap (frame_Identity x) cfs = Inr ids" "distinct ids"
      "set ids \<inter> set (i # seen) = {}" "seen' = rev ids @ i # seen" by (auto simp: step Cons.IH)
    then show "\<exists>ids. rmap (frame_Identity x) (cf # cfs) = Inr ids \<and> distinct ids \<and> set ids \<inter> set seen = {} \<and> seen' = rev ids @ seen"
      by (intro exI [of _ "i # ids"]) auto
  next
    assume "\<exists>ids. rmap (frame_Identity x) (cf # cfs) = Inr ids \<and> distinct ids \<and> set ids \<inter> set seen = {} \<and> seen' = rev ids @ seen"
    then obtain i ids where a: "frame_Identity x cf = Inr i" "rmap (frame_Identity x) cfs = Inr ids" "distinct (i # ids)"
      "set (i # ids) \<inter> set seen = {}" "seen' = rev (i # ids) @ seen" by auto
    then have "rfold cfs (i # seen) (scan_commit x) = Inr seen'" unfolding Cons.IH by (intro exI [of _ ids]) auto
    moreover have "scan_commit x cf seen = Inr (i # seen)" using a step by auto
    ultimately show "rfold (cf # cfs) seen (scan_commit x) = Inr seen'" by simp
  qed
qed auto

lemma scan_one: "scan_pack x head p s = Inr s' \<longleftrightarrow> (\<exists>df. pack_ok x p df \<and> scanned x head s [df] s')"
proof
  assume run: "scan_pack x head p s = Inr s'"
  define d where "d = take (unat (pp_Length p)) (es_rest s)"
  from run have len: "unat (pp_Length p) \<le> MaxV2PackBytes" "unat (pp_Length p) \<le> length (es_rest s)" "ContentID x d = pp_Hash p"
    by (auto simp: scan_pack_def Let_def d_def split: if_splits)
  with run obtain f seen where f: "unmarshal_pack x (pp_Format p) d = Inr f" and one: "at_head head f \<longrightarrow> es_heads s = 0"
    and seen: "rfold (pf_Commits f) (es_commits s) (scan_commit x) = Inr seen"
    and s': "s' = \<lparr>es_rest = drop (unat (pp_Length p)) (es_rest s), es_packs = es_packs s @ [d], es_frames = es_frames s @ [f],
      es_commits = seen, es_heads = es_heads s + (if at_head head f then 1 else 0)\<rparr>"
    by (auto simp: scan_pack_def Let_def d_def at_head_def split: if_splits)
  have "pack_ok x p (d, f)" using len f by (simp add: pack_ok_def d_def)
  moreover have "scanned x head s [(d, f)] s'"
    using seen one unfolding scan_commits by (auto simp: scanned_def s' d_def)
  ultimately show "\<exists>df. pack_ok x p df \<and> scanned x head s [df] s'" by blast
next
  assume "\<exists>df. pack_ok x p df \<and> scanned x head s [df] s'"
  then obtain d f where ok: "pack_ok x p (d, f)" and sc: "scanned x head s [(d, f)] s'" by auto
  then have rest: "es_rest s = d @ es_rest s'" and seen: "rfold (pf_Commits f) (es_commits s) (scan_commit x) = Inr (es_commits s')"
    and heads: "es_heads s' = es_heads s + (if at_head head f then 1 else 0)" "at_head head f \<longrightarrow> es_heads s = 0"
    unfolding scan_commits by (auto simp: scanned_def)
  have "scan_pack x head p s = Inr \<lparr>es_rest = es_rest s', es_packs = es_packs s @ [d], es_frames = es_frames s @ [f],
      es_commits = es_commits s', es_heads = es_heads s'\<rparr>"
    using ok rest seen heads by (auto simp: scan_pack_def Let_def pack_ok_def at_head_def)
  also have "\<dots> = Inr s'" using sc by (simp add: scanned_def)
  finally show "scan_pack x head p s = Inr s'" .
qed

lemma rmap_append: "rmap f (xs @ ys) = Inr zs \<longleftrightarrow> (\<exists>as bs. zs = as @ bs \<and> rmap f xs = Inr as \<and> rmap f ys = Inr bs)"
proof (induction xs arbitrary: zs)
  case (Cons x xs)
  show ?case by (auto simp: Cons.IH)
qed auto

lemma scanned_Nil: "scanned x head s [] s' \<longleftrightarrow> s' = s"
  by (auto simp: scanned_def)

lemma scanned_Cons: "scanned x head s (df # dfs) s' \<longleftrightarrow> (\<exists>s1. scanned x head s [df] s1 \<and> scanned x head s1 dfs s')"
proof
  assume a: "scanned x head s (df # dfs) s'"
  then obtain ids where ids: "rmap (frame_Identity x) (pf_Commits (snd df) @ concat (map (pf_Commits \<circ> snd) dfs)) = Inr ids" "distinct ids"
    "set ids \<inter> set (es_commits s) = {}" "es_commits s' = rev ids @ es_commits s" by (auto simp: scanned_def)
  then obtain as bs where s: "ids = as @ bs" "rmap (frame_Identity x) (pf_Commits (snd df)) = Inr as"
    "rmap (frame_Identity x) (concat (map (pf_Commits \<circ> snd) dfs)) = Inr bs" unfolding rmap_append by blast
  let ?s1 = "\<lparr>es_rest = concat (map fst dfs) @ es_rest s', es_packs = es_packs s @ [fst df], es_frames = es_frames s @ [snd df],
    es_commits = rev as @ es_commits s, es_heads = es_heads s + (if at_head head (snd df) then 1 else 0)\<rparr>"
  have "scanned x head s [df] ?s1" using a ids s unfolding scanned_def
    by (auto split: if_splits)
  moreover have "scanned x head ?s1 dfs s'" using a ids s unfolding scanned_def by (auto split: if_splits)
  ultimately show "\<exists>s1. scanned x head s [df] s1 \<and> scanned x head s1 dfs s'" by blast
next
  assume "\<exists>s1. scanned x head s [df] s1 \<and> scanned x head s1 dfs s'"
  then obtain s1 where a: "scanned x head s [df] s1" and b: "scanned x head s1 dfs s'" by blast
  from a obtain as where as: "rmap (frame_Identity x) (pf_Commits (snd df)) = Inr as" "distinct as" "set as \<inter> set (es_commits s) = {}"
    "es_commits s1 = rev as @ es_commits s" by (auto simp: scanned_def)
  from b obtain bs where bs: "rmap (frame_Identity x) (concat (map (pf_Commits \<circ> snd) dfs)) = Inr bs" "distinct bs"
    "set bs \<inter> set (es_commits s1) = {}" "es_commits s' = rev bs @ es_commits s1" by (auto simp: scanned_def)
  have "rmap (frame_Identity x) (concat (map (pf_Commits \<circ> snd) (df # dfs))) = Inr (as @ bs) \<and> distinct (as @ bs)
    \<and> set (as @ bs) \<inter> set (es_commits s) = {} \<and> es_commits s' = rev (as @ bs) @ es_commits s"
    using as bs by (auto simp: rmap_append)
  with a b show "scanned x head s (df # dfs) s'" unfolding scanned_def by (auto split: if_splits)
qed

lemma scan_packs: "rfold ps s (scan_pack x head) = Inr s' \<longleftrightarrow> (\<exists>dfs. list_all2 (pack_ok x) ps dfs \<and> scanned x head s dfs s')"
proof (induction ps arbitrary: s)
  case (Cons p ps)
  show ?case
    by (simp add: Cons.IH scan_one list_all2_Cons1) (metis scanned_Cons)
qed (auto simp: scanned_Nil)


section \<open>What is accepted\<close>

definition envelope_of :: "bytes \<Rightarrow> bytes list \<Rightarrow> bytes" where
  "envelope_of md packs = envelope_header (length md) @ md @ concat packs"

text \<open>
  The frames hold distinct commits, only the last ends at the head, and every merge parent of their commits is
  one of their commits.
\<close>

definition complete_frames :: "contract_lib \<Rightarrow> string \<Rightarrow> PackFrame list \<Rightarrow> bool" where
  "complete_frames x head fs \<longleftrightarrow> fs \<noteq> [] \<and> at_head head (last fs) \<and> (\<forall>f \<in> set (butlast fs). \<not> at_head head f) \<and>
     (\<exists>ids. rmap (frame_Identity x) (concat (map pf_Commits fs)) = Inr ids \<and> distinct ids \<and>
        (\<forall>f \<in> set fs. \<forall>cf \<in> set (pf_Commits f). set (merge_parents cf) \<subseteq> set ids))"

lemma one_head:
  "fs \<noteq> [] \<Longrightarrow> at_head head (last fs) \<Longrightarrow> length (filter (at_head head) fs) = 1 \<longleftrightarrow> (\<forall>f \<in> set (butlast fs). \<not> at_head head f)"
  by (cases fs rule: rev_cases) (auto simp: filter_empty_conv)

lemma check_merge_parents_iff: "check_merge_parents seen fs = Inr u \<longleftrightarrow>
  (\<forall>f \<in> set fs. \<forall>cf \<in> set (pf_Commits f). set (merge_parents cf) \<subseteq> set seen)"
  by (auto simp: check_merge_parents_def rfor_Inr_iff split: if_splits)

lemma unmarshal_manifest: "UnmarshalPullManifestV2 v md = Inr m \<longleftrightarrow> cbor_dec_manifest v md = Inr m \<and> MarshalPullManifestV2 v m = Inr md"
  by (auto simp: UnmarshalPullManifestV2_def split: if_splits)

lemma manifest_has_packs: "MarshalPullManifestV2 v m = Inr md \<Longrightarrow> pm_Packs m \<noteq> []"
  by (auto simp: MarshalPullManifestV2_def manifest_validate_def split: if_splits)

lemma length_header: "length (envelope_header n) = pullEnvelopeHeaderSize"
  by (simp add: envelope_header_def pullEnvelopeMagic_def str_bytes_def pullEnvelopeHeaderSize_def)

lemma header_parts:
  "take 4 (envelope_header n @ r) = pullEnvelopeMagic"
  "get_be (take 4 (drop 4 (envelope_header n @ r))) = unat PullEnvelopeFormatV2"
  "n < 2 ^ 64 \<Longrightarrow> get_be (take 8 (drop 8 (envelope_header n @ r))) = n"
  by (simp_all add: envelope_header_def pullEnvelopeMagic_def str_bytes_def get_put_be PullEnvelopeFormatV2_def)

lemma header_of_parts:
  assumes "pullEnvelopeHeaderSize \<le> length data" and "take 4 data = pullEnvelopeMagic"
    and "get_be (take 4 (drop 4 data)) = unat PullEnvelopeFormatV2"
  shows "data = envelope_header (get_be (take 8 (drop 8 data))) @ drop pullEnvelopeHeaderSize data"
proof -
  have "put_be 4 (unat PullEnvelopeFormatV2) = take 4 (drop 4 data)"
    using assms put_get_be [of "take 4 (drop 4 data)"] by (simp add: pullEnvelopeHeaderSize_def)
  moreover have "put_be 8 (get_be (take 8 (drop 8 data))) = take 8 (drop 8 data)"
    using assms(1) put_get_be [of "take 8 (drop 8 data)"] by (simp add: pullEnvelopeHeaderSize_def)
  moreover have "data = take 4 data @ take 4 (drop 4 data) @ take 8 (drop 8 data) @ drop 16 data"
  proof -
    have "drop 8 data = drop 4 (drop 4 data)" "drop 16 data = drop 8 (drop 8 data)" by simp_all
    then show ?thesis by (metis append_take_drop_id)
  qed
  ultimately show ?thesis using assms(2) by (simp add: envelope_header_def pullEnvelopeHeaderSize_def)
qed

lemma get_be_8: "get_be (take 8 b) < 2 ^ 64"
proof -
  have "get_be (take 8 b) < 256 ^ length (take 8 b)" by (rule get_be_less)
  also have "\<dots> \<le> (256 :: nat) ^ 8" by (rule power_increasing) auto
  finally show ?thesis by simp
qed

end
