(* ===== verification/Review_Snapshot.thy ===== *)
theory Review_Snapshot
  imports Cas_Store Graph_Types
begin

text \<open>
  The snapshot a review works on (\<open>internal/server/review/snapshot.go\<close>): its canonical envelope, its
  validation and its loading from the content store. Canonical CBOR and the schema validation of the
  contract library are the parameter \<open>l\<close>. A legacy JSON payload is recognised by its first byte.
\<close>

record Snapshot =
  sn_Version :: uint32  sn_Schema :: SchemaSnapshot  sn_Nodes :: "Node go_map"  sn_Edges :: "Edge go_map"

text \<open>
  The contract library's schema functions, and CBOR. \<open>ValidateSchemaSnapshot\<close> returns no error, or an
  error with the violations \<open>errors.As\<close> finds in it, if it finds any.
\<close>

record review_lib =
  gs_Normalize :: "SchemaSnapshot \<Rightarrow> goerr + SchemaSnapshot"
  gs_Validate :: "SchemaSnapshot \<Rightarrow> Node go_map \<Rightarrow> Edge go_map \<Rightarrow> (goerr \<times> SchemaViolation list option) option"
  cbor_snapshot_version :: "bytes \<Rightarrow> goerr + uint32"
  cbor_enc_snapshot :: "Snapshot \<Rightarrow> goerr + bytes"
  cbor_dec_snapshot :: "bytes \<Rightarrow> goerr + Snapshot"

definition SnapshotVersion :: uint32 where "SnapshotVersion = 3"
definition SnapshotEnvelopeVersion :: uint32 where "SnapshotEnvelopeVersion = 3"

definition snapshotRootPattern :: "string \<Rightarrow> bool" where
  "snapshotRootPattern s \<longleftrightarrow> length s = 64 \<and> list_all is_lower_hex s"

definition snapshot_Validate :: "review_lib \<Rightarrow> Snapshot \<Rightarrow> goerr + unit" where
  "snapshot_Validate l s =
     (if sn_Version s \<noteq> SnapshotVersion then Inl (Wrapf ''version'' (Review ErrUnsupportedSnapshotVersion))
      else if sn_Nodes s = None \<or> sn_Edges s = None then Inl (Wrapf ''nodes and edges must be maps'' (Review ErrInvalidSnapshot))
      else rbind (rwrap (\<lambda>e. Wrap2f ''schema'' (Review ErrInvalidSnapshot) e) (gs_Normalize l (sn_Schema s))) (\<lambda>normalized.
           if sn_Schema s \<noteq> normalized then Inl (Wrapf ''schema must be normalized'' (Review ErrInvalidSnapshot))
           else case gs_Validate l (sn_Schema s) (sn_Nodes s) (sn_Edges s) of
             None \<Rightarrow> Inr ()
           | Some (e, _) \<Rightarrow> Inl (Wrap2f '''' (Review ErrInvalidSnapshot) e)))"

text \<open>\<open>newSnapshotEnvelope\<close>: the envelope has the fields of the snapshot, its version being the envelope's.\<close>

definition newSnapshotEnvelope :: "review_lib \<Rightarrow> Snapshot \<Rightarrow> goerr + Snapshot" where
  "newSnapshotEnvelope l s = rbind (snapshot_Validate l s) (\<lambda>_. Inr (s\<lparr>sn_Version := SnapshotEnvelopeVersion\<rparr>))"

definition MarshalSnapshotCBOR :: "review_lib \<Rightarrow> Snapshot \<Rightarrow> goerr + bytes" where
  "MarshalSnapshotCBOR l s =
     rbind (newSnapshotEnvelope l s) (\<lambda>env.
     rwrap (\<lambda>_. Wrapf ''encode CBOR'' (Review ErrInvalidSnapshot)) (cbor_enc_snapshot l env))"

definition MarshalSnapshot :: "review_lib \<Rightarrow> Snapshot \<Rightarrow> goerr + bytes" where
  "MarshalSnapshot = MarshalSnapshotCBOR"

definition DecodeSnapshotCBOR :: "review_lib \<Rightarrow> bytes \<Rightarrow> goerr + Snapshot" where
  "DecodeSnapshotCBOR l data =
     rbind (rwrap (\<lambda>_. Wrapf ''decode CBOR envelope header'' (Review ErrInvalidCanonicalCBOR)) (cbor_snapshot_version l data)) (\<lambda>version.
     if version = 2 then Inl (Wrapf ''Rack v2 CBOR snapshots contain the retired JSON review schema'' (Review ErrUnsupportedSnapshotVersion))
     else if version \<noteq> SnapshotEnvelopeVersion then Inl (Wrapf ''envelope version'' (Review ErrUnsupportedSnapshotVersion))
     else rbind (rwrap (\<lambda>_. Wrapf ''decode CBOR'' (Review ErrInvalidCanonicalCBOR)) (cbor_dec_snapshot l data)) (\<lambda>env.
          rbind (rwrap (\<lambda>_. Wrapf ''re-encode CBOR'' (Review ErrInvalidCanonicalCBOR)) (cbor_enc_snapshot l env)) (\<lambda>canonical.
          if data \<noteq> canonical then Inl (Wrapf ''object is not canonically encoded'' (Review ErrInvalidCanonicalCBOR))
          else let s = \<lparr>sn_Version = SnapshotVersion, sn_Schema = sn_Schema env, sn_Nodes = sn_Nodes env, sn_Edges = sn_Edges env\<rparr> in
               rbind (snapshot_Validate l s) (\<lambda>_. Inr s))))"

definition bytes_str :: "bytes \<Rightarrow> string" where
  "bytes_str = map (\<lambda>b. char_of (unat b))"

definition looks_like_json :: "bytes \<Rightarrow> bool" where
  "looks_like_json data = (case TrimSpace (bytes_str data) of [] \<Rightarrow> False | c # _ \<Rightarrow> c = CHR ''{'' \<or> c = CHR ''['')"

definition DecodeSnapshotObject :: "review_lib \<Rightarrow> bytes \<Rightarrow> goerr + Snapshot" where
  "DecodeSnapshotObject l data =
     (if looks_like_json data then Inl (Wrapf ''legacy JSON review snapshots are unsupported'' (Review ErrUnsupportedSnapshotVersion))
      else DecodeSnapshotCBOR l data)"

definition DecodeSnapshotJSON :: "bytes \<Rightarrow> goerr + Snapshot" where
  "DecodeSnapshotJSON _ = Inl (Wrapf ''JSON review snapshots are unsupported'' (Review ErrUnsupportedSnapshotVersion))"

definition MarshalSnapshotJSON :: "Snapshot \<Rightarrow> goerr + bytes" where
  "MarshalSnapshotJSON _ = Inl (Wrapf ''JSON review snapshots are unsupported'' (Review ErrUnsupportedSnapshotVersion))"

text \<open>\<open>SnapshotObjectStore\<close> is the \<open>Get\<close> of a driver.\<close>

type_synonym 'w object_get = "ctx \<Rightarrow> scope \<Rightarrow> string \<Rightarrow> ('w, bytes) eff"

definition DecodeSnapshot :: "review_lib \<Rightarrow> 'w object_get option \<Rightarrow> ctx \<Rightarrow> scope \<Rightarrow> string \<Rightarrow> ('w, Snapshot) eff" where
  "DecodeSnapshot l objects c sc root =
     ebind (eassert (snapshotRootPattern root) (Wrapf ''expected 64 lowercase hexadecimal characters'' (Review ErrInvalidSnapshotRoot))) (\<lambda>_.
     case objects of
       None \<Rightarrow> efail (Wrapf ''object store is required'' (Review ErrInvalidSnapshot))
     | Some get \<Rightarrow>
         ebind (ewrap ''review: load snapshot root'' (get c sc root)) (\<lambda>data.
         ewrap ''review: decode snapshot root'' (elift (DecodeSnapshotObject l data))))"

text \<open>\<open>SnapshotDecoder.Decode\<close>: the receiver and its store may be nil.\<close>

definition SnapshotDecoder_Decode ::
  "review_lib \<Rightarrow> 'w object_get option option \<Rightarrow> ctx \<Rightarrow> scope \<Rightarrow> string \<Rightarrow> ('w, Snapshot) eff" where
  "SnapshotDecoder_Decode l d c sc root = (case d of
       Some (Some get) \<Rightarrow> DecodeSnapshot l (Some get) c sc root
     | _ \<Rightarrow> efail (Wrapf ''object store is required'' (Review ErrInvalidSnapshot)))"

end
