(* ===== verification/Review_Merge.thy ===== *)
theory Review_Merge
  imports Review_Snapshot
begin

text \<open>
  The three-way merge of \<open>internal/server/review/engine.go\<close>: elements are merged one by one in the order
  of their identifiers, first their existence and structure, then their properties; what cannot be merged
  becomes a conflict with a token. The preview the Go code writes through a pointer is threaded. \<open>Node\<close> and
  \<open>Edge\<close>, over which the Go functions are generic, are a dictionary of operations.
\<close>

section \<open>Previews\<close>

record CommitIdentity =
  rc_ID :: string  rc_SnapshotRoot :: string  rc_Format :: uint32

datatype ChangeKind = ChangeKindElement | ChangeKindProperty | ChangeKindSchema
datatype ChangeOperation = ChangeAdded | ChangeUpdated | ChangeDeleted
datatype ElementKind = ElementNode | ElementEdge | ElementSchema
datatype ConflictType = ConflictProperty | ConflictDeleteUpdate | ConflictStructural | ConflictSchema | ConflictCardinality

text \<open>The texts of the Go constants.\<close>

fun change_kind :: "ChangeKind \<Rightarrow> string" where
  "change_kind ChangeKindElement = ''element''"
| "change_kind ChangeKindProperty = ''property''"
| "change_kind ChangeKindSchema = ''schema''"

fun change_operation :: "ChangeOperation \<Rightarrow> string" where
  "change_operation ChangeAdded = ''added''"
| "change_operation ChangeUpdated = ''updated''"
| "change_operation ChangeDeleted = ''deleted''"

fun element_kind :: "ElementKind \<Rightarrow> string" where
  "element_kind ElementNode = ''node''"
| "element_kind ElementEdge = ''edge''"
| "element_kind ElementSchema = ''schema''"

fun conflict_type :: "ConflictType \<Rightarrow> string" where
  "conflict_type ConflictProperty = ''property''"
| "conflict_type ConflictDeleteUpdate = ''delete_update''"
| "conflict_type ConflictStructural = ''structural''"
| "conflict_type ConflictSchema = ''schema''"
| "conflict_type ConflictCardinality = ''cardinality''"

record Change =
  ch_Kind :: ChangeKind  ch_Operation :: ChangeOperation  ch_Element :: ElementKind
  ch_ElementID :: string  ch_Property :: string  ch_Branch :: string

record ConflictToken =
  ct_Token :: string  ct_Type :: ConflictType  ct_Element :: ElementKind  ct_ElementID :: string  ct_Property :: string

record ResolutionRequirement =
  rr_Token :: string  rr_Required :: bool  rr_Options :: "string list"

record MergePreview =
  mp_SourceBranch :: string  mp_TargetBranch :: string
  mp_BaseCommit :: CommitIdentity  mp_SourceCommit :: CommitIdentity  mp_TargetCommit :: CommitIdentity
  mp_CanFastForward :: bool  mp_CleanChanges :: "Change list"  mp_Conflicts :: "ConflictToken list"
  mp_Violations :: "SchemaViolation list"  mp_HasConflicts :: bool  mp_Resolutions :: "ResolutionRequirement list"

definition no_commit :: CommitIdentity where
  "no_commit = \<lparr>rc_ID = '''', rc_SnapshotRoot = '''', rc_Format = 0\<rparr>"

definition empty_preview :: MergePreview where
  "empty_preview = \<lparr>mp_SourceBranch = '''', mp_TargetBranch = '''', mp_BaseCommit = no_commit, mp_SourceCommit = no_commit,
     mp_TargetCommit = no_commit, mp_CanFastForward = False, mp_CleanChanges = [], mp_Conflicts = [], mp_Violations = [],
     mp_HasConflicts = False, mp_Resolutions = []\<rparr>"

definition conflict_token :: "ConflictType \<Rightarrow> ElementKind \<Rightarrow> string \<Rightarrow> string \<Rightarrow> string" where
  "conflict_token kind element i property =
     conflict_type kind @ '':'' @ element_kind element @
     (if i \<noteq> '''' then '':'' @ i else '''') @ (if property \<noteq> '''' then '':'' @ property else '''')"

definition addConflict :: "ConflictType \<Rightarrow> ElementKind \<Rightarrow> string \<Rightarrow> string \<Rightarrow> MergePreview \<Rightarrow> MergePreview" where
  "addConflict kind element i property p =
     (let token = conflict_token kind element i property in
      if list_ex (\<lambda>c. ct_Token c = token) (mp_Conflicts p) then p
      else p\<lparr>mp_HasConflicts := True,
         mp_Conflicts := mp_Conflicts p @ [\<lparr>ct_Token = token, ct_Type = kind, ct_Element = element, ct_ElementID = i, ct_Property = property\<rparr>],
         mp_Resolutions := mp_Resolutions p @ [\<lparr>rr_Token = token, rr_Required = True, rr_Options = [''source'', ''target'', ''manual'']\<rparr>]\<rparr>)"

definition addChange :: "Change \<Rightarrow> MergePreview \<Rightarrow> MergePreview" where
  "addChange c p = p\<lparr>mp_CleanChanges := mp_CleanChanges p @ [c]\<rparr>"

definition addElementChange :: "ElementKind \<Rightarrow> string \<Rightarrow> ChangeOperation \<Rightarrow> string \<Rightarrow> MergePreview \<Rightarrow> MergePreview" where
  "addElementChange kind i operation branch =
     addChange \<lparr>ch_Kind = ChangeKindElement, ch_Operation = operation, ch_Element = kind, ch_ElementID = i, ch_Property = '''', ch_Branch = branch\<rparr>"

section \<open>Values\<close>

text \<open>The merged value, the branch it comes from, and whether the three values conflict.\<close>

definition mergeValue :: "'a \<Rightarrow> 'a \<Rightarrow> 'a \<Rightarrow> 'a \<times> string \<times> bool" where
  "mergeValue base source target =
     (if source = base then (target, ''target'', False)
      else if target = base then (source, ''source'', False)
      else if source = target then (source, ''both'', False)
      else (target, '''', True))"

text \<open>The same for values that may be absent: \<open>optionalEqual\<close> is equality of options.\<close>

definition mergeOptional :: "'a option \<Rightarrow> 'a option \<Rightarrow> 'a option \<Rightarrow> 'a option \<times> string \<times> bool" where
  "mergeOptional base source target = mergeValue base source target"

definition propertyOperation :: "bool \<Rightarrow> bool \<Rightarrow> ChangeOperation" where
  "propertyOperation before after = (if \<not> before then ChangeAdded else if \<not> after then ChangeDeleted else ChangeUpdated)"

section \<open>Elements\<close>

text \<open>\<open>T Node | Edge\<close>: the zero value, \<open>elementProperties\<close>, \<open>withProperties\<close> and \<open>sameStructure\<close>.\<close>

record 'e element_ops =
  el_zero :: 'e
  el_props :: "'e \<Rightarrow> properties"
  el_with :: "'e \<Rightarrow> properties \<Rightarrow> 'e"
  el_same :: "'e \<Rightarrow> 'e \<Rightarrow> bool"

definition node_ops :: "Node element_ops" where
  "node_ops = \<lparr>el_zero = \<lparr>nd_ID = '''', nd_Title = '''', nd_Labels = None, nd_Properties = None, nd_rest = ''''\<rparr>,
     el_props = nd_Properties, el_with = (\<lambda>n ps. n\<lparr>nd_Properties := ps\<rparr>),
     el_same = (\<lambda>a b. nd_ID a = nd_ID b \<and> nd_Title a = nd_Title b \<and> nd_Labels a = nd_Labels b)\<rparr>"

definition edge_ops :: "Edge element_ops" where
  "edge_ops = \<lparr>el_zero = \<lparr>ed_ID = '''', ed_Source = '''', ed_Target = '''', ed_Type = '''', ed_Properties = None, ed_rest = ''''\<rparr>,
     el_props = ed_Properties, el_with = (\<lambda>n ps. n\<lparr>ed_Properties := ps\<rparr>),
     el_same = (\<lambda>a b. ed_ID a = ed_ID b \<and> ed_Source a = ed_Source b \<and> ed_Target a = ed_Target b \<and> ed_Type a = ed_Type b)\<rparr>"

definition mergeStructure :: "'e element_ops \<Rightarrow> 'e \<Rightarrow> 'e \<Rightarrow> 'e \<Rightarrow> 'e \<times> string \<times> bool" where
  "mergeStructure ops base source target =
     (case mergeValue (el_with ops base None) (el_with ops source None) (el_with ops target None) of
        (value, branch, conflict) \<Rightarrow> (el_with ops value (el_props ops base), branch, conflict))"

definition merge_property :: "ElementKind \<Rightarrow> string \<Rightarrow> properties \<Rightarrow> properties \<Rightarrow> properties \<Rightarrow> string \<Rightarrow>
    (string, PropertyValue) fmap \<times> MergePreview \<Rightarrow> (string, PropertyValue) fmap \<times> MergePreview" where
  "merge_property kind i base source target name acc =
     (case acc of (merged, p) \<Rightarrow>
      case mergeOptional (lookup base name) (lookup source name) (lookup target name) of (value, branch, conflict) \<Rightarrow>
      let v = (if conflict then lookup target name else value);
          p' = (if conflict then addConflict ConflictProperty kind i name p
                else if lookup base name \<noteq> value then
                  addChange \<lparr>ch_Kind = ChangeKindProperty, ch_Operation = propertyOperation (lookup base name \<noteq> None) (value \<noteq> None),
                     ch_Element = kind, ch_ElementID = i, ch_Property = name, ch_Branch = branch\<rparr> p
                else p)
      in ((case v of None \<Rightarrow> merged | Some x \<Rightarrow> fmupd name x merged), p'))"

definition mergeProperties :: "ElementKind \<Rightarrow> string \<Rightarrow> properties \<Rightarrow> properties \<Rightarrow> properties \<Rightarrow> MergePreview \<Rightarrow> properties \<times> MergePreview" where
  "mergeProperties kind i base source target p =
     (case fold (merge_property kind i base source target) (sorted_keys [entries base, entries source, entries target]) (fmempty, p) of
        (merged, p') \<Rightarrow> (Some merged, p'))"

definition merge_present :: "'e element_ops \<Rightarrow> ElementKind \<Rightarrow> string \<Rightarrow> 'e \<Rightarrow> 'e \<Rightarrow> 'e \<Rightarrow> MergePreview \<Rightarrow> 'e option \<times> MergePreview" where
  "merge_present ops kind i base source target p =
     (case mergeStructure ops base source target of (structure, branch, conflict) \<Rightarrow>
      let structure' = (if conflict then target else structure);
          p' = (if conflict then addConflict ConflictStructural kind i '''' p
                else if \<not> el_same ops base structure then addElementChange kind i ChangeUpdated branch p
                else p)
      in case mergeProperties kind i (el_props ops base) (el_props ops source) (el_props ops target) p' of
           (ps, p'') \<Rightarrow> (Some (el_with ops structure' ps), p''))"

text \<open>One element: the special cases of existence first, as the code tests them.\<close>

fun mergeElement :: "'e element_ops \<Rightarrow> ElementKind \<Rightarrow> string \<Rightarrow> 'e option \<Rightarrow> 'e option \<Rightarrow> 'e option \<Rightarrow> MergePreview \<Rightarrow> 'e option \<times> MergePreview" where
  "mergeElement ops kind i (Some b) None (Some t) p =
     (if b \<noteq> t then (Some t, addConflict ConflictDeleteUpdate kind i '''' p)
      else (None, addElementChange kind i ChangeDeleted ''source'' p))"
| "mergeElement ops kind i (Some b) (Some s) None p =
     (if b \<noteq> s then (None, addConflict ConflictDeleteUpdate kind i '''' p)
      else (None, addElementChange kind i ChangeDeleted ''target'' p))"
| "mergeElement ops kind i None (Some s) (Some t) p =
     (if \<not> el_same ops s t then (Some t, addConflict ConflictStructural kind i '''' p)
      else merge_present ops kind i (el_zero ops) s t p)"
| "mergeElement ops kind i None (Some s) None p = (Some s, addElementChange kind i ChangeAdded ''source'' p)"
| "mergeElement ops kind i None None (Some t) p = (Some t, addElementChange kind i ChangeAdded ''target'' p)"
| "mergeElement ops kind i (Some b) None None p = (None, addElementChange kind i ChangeDeleted ''both'' p)"
| "mergeElement ops kind i (Some b) (Some s) (Some t) p = merge_present ops kind i b s t p"
| "mergeElement ops kind i None None None p = merge_present ops kind i (el_zero ops) (el_zero ops) (el_zero ops) p"

definition merge_one :: "'e element_ops \<Rightarrow> ElementKind \<Rightarrow> 'e go_map \<Rightarrow> 'e go_map \<Rightarrow> 'e go_map \<Rightarrow> string \<Rightarrow>
    (string, 'e) fmap \<times> MergePreview \<Rightarrow> (string, 'e) fmap \<times> MergePreview" where
  "merge_one ops kind base source target i acc =
     (case acc of (merged, p) \<Rightarrow>
      case mergeElement ops kind i (lookup base i) (lookup source i) (lookup target i) p of
        (None, p') \<Rightarrow> (merged, p')
      | (Some e, p') \<Rightarrow> (fmupd i e merged, p'))"

definition mergeElements :: "'e element_ops \<Rightarrow> ElementKind \<Rightarrow> 'e go_map \<Rightarrow> 'e go_map \<Rightarrow> 'e go_map \<Rightarrow> MergePreview \<Rightarrow> 'e go_map \<times> MergePreview" where
  "mergeElements ops kind base source target p =
     (case fold (merge_one ops kind base source target) (sorted_keys [entries base, entries source, entries target]) (fmempty, p) of
        (merged, p') \<Rightarrow> (Some merged, p'))"

section \<open>Snapshots\<close>

definition validateMergedSchema :: "review_lib \<Rightarrow> Snapshot \<Rightarrow> MergePreview \<Rightarrow> MergePreview" where
  "validateMergedSchema l s p =
     (case gs_Validate l (sn_Schema s) (sn_Nodes s) (sn_Edges s) of
        None \<Rightarrow> p
      | Some (_, None) \<Rightarrow> addConflict ConflictSchema ElementSchema '''' '''' p
      | Some (_, Some vs) \<Rightarrow>
          addConflict (if list_all (\<lambda>v. Contains (sv_Code v) ''cardinality'') vs then ConflictCardinality else ConflictSchema)
            ElementSchema '''' '''' (p\<lparr>mp_Violations := mp_Violations p @ vs\<rparr>))"

text \<open>\<open>strings.Join(..., "\\x00")\<close> of a change's fields.\<close>

definition change_key :: "Change \<Rightarrow> string" where
  "change_key c = Join [change_kind (ch_Kind c), element_kind (ch_Element c), ch_ElementID c, ch_Property c,
     change_operation (ch_Operation c), ch_Branch c] [CHR 0x00]"

definition sortChanges :: "Change list \<Rightarrow> Change list" where "sortChanges = sort_key change_key"
definition sortConflicts :: "ConflictToken list \<Rightarrow> ConflictToken list" where "sortConflicts = sort_key ct_Token"

text \<open>The schema, the nodes and the edges, before validation and sorting.\<close>

definition merge_graphs :: "Snapshot \<Rightarrow> Snapshot \<Rightarrow> Snapshot \<Rightarrow> Snapshot \<times> MergePreview" where
  "merge_graphs base source target =
     (case mergeValue (sn_Schema base) (sn_Schema source) (sn_Schema target) of (mergedSchema, branch, schemaConflict) \<Rightarrow>
      let schema = (if schemaConflict then sn_Schema target else mergedSchema);
          p = (if schemaConflict then addConflict ConflictSchema ElementSchema '''' '''' empty_preview
               else if sn_Schema base \<noteq> mergedSchema then
                 addChange \<lparr>ch_Kind = ChangeKindSchema, ch_Operation = ChangeUpdated, ch_Element = ElementSchema, ch_ElementID = '''',
                    ch_Property = '''', ch_Branch = branch\<rparr> empty_preview
               else empty_preview)
      in case mergeElements node_ops ElementNode (sn_Nodes base) (sn_Nodes source) (sn_Nodes target) p of (nodes, p1) \<Rightarrow>
         case mergeElements edge_ops ElementEdge (sn_Edges base) (sn_Edges source) (sn_Edges target) p1 of (edges, p2) \<Rightarrow>
         (\<lparr>sn_Version = SnapshotVersion, sn_Schema = schema, sn_Nodes = nodes, sn_Edges = edges\<rparr>, p2))"

definition mergeSnapshots :: "review_lib \<Rightarrow> Snapshot \<Rightarrow> Snapshot \<Rightarrow> Snapshot \<Rightarrow> MergePreview" where
  "mergeSnapshots l base source target =
     (case merge_graphs base source target of (merged, p) \<Rightarrow>
      let p' = (if mp_HasConflicts p then p else validateMergedSchema l merged p) in
      p'\<lparr>mp_CleanChanges := sortChanges (mp_CleanChanges p'), mp_Conflicts := sortConflicts (mp_Conflicts p'),
         mp_Resolutions := sort_key rr_Token (mp_Resolutions p')\<rparr>)"

end
