(* ===== verification/Review_Preview.thy ===== *)
theory Review_Preview
  imports Review_Merge Pg_Merge
begin

text \<open>
  \<open>PreviewEngine.PreviewMerge\<close> (\<open>internal/server/review/engine.go\<close>): the two branches and their merge base are
  resolved in the metadata store, the three snapshots read from the content store, and merged. Nothing is
  written. A nil receiver, store or context is \<open>None\<close>.
\<close>

text \<open>\<open>MetadataStore\<close>, with the optional \<open>commitMetadataStore\<close>.\<close>

record 'w metadata_store =
  ms_SetTenantContext :: "ctx \<Rightarrow> string \<Rightarrow> goerr + ctx"
  ms_GetBranchRef :: "ctx \<Rightarrow> string \<Rightarrow> string \<Rightarrow> ('w, string) eff"
  ms_IsAncestor :: "ctx \<Rightarrow> string \<Rightarrow> string \<Rightarrow> string \<Rightarrow> ('w, bool) eff"
  ms_FindLowestCommonAncestor :: "ctx \<Rightarrow> string \<Rightarrow> string \<Rightarrow> string \<Rightarrow> ('w, string) eff"
  ms_GetCommitSnapshotRoot :: "ctx \<Rightarrow> string \<Rightarrow> string \<Rightarrow> ('w, string) eff"
  ms_GetCommitMetadata :: "(ctx \<Rightarrow> string \<Rightarrow> string \<Rightarrow> ('w, CommitMetadata) eff) option"


definition resolveCommitIdentity :: "('w, 'm) metadata_store_scheme \<Rightarrow> ctx \<Rightarrow> string \<Rightarrow> string \<Rightarrow> ('w, CommitIdentity) eff" where
  "resolveCommitIdentity st c repoID commitID = (case ms_GetCommitMetadata st of
       Some get \<Rightarrow> ebind (get c repoID commitID) (\<lambda>md.
         eret \<lparr>rc_ID = md_ID md, rc_SnapshotRoot = md_SnapshotRoot md, rc_Format = md_Format md\<rparr>)
     | None \<Rightarrow> ebind (ms_GetCommitSnapshotRoot st c repoID commitID) (\<lambda>root.
         eret \<lparr>rc_ID = commitID, rc_SnapshotRoot = root, rc_Format = 0\<rparr>))"

text \<open>The commits a preview is about, and whether the merge is a fast forward.\<close>

definition resolve_ends :: "('w, 'm) metadata_store_scheme \<Rightarrow> ctx \<Rightarrow> string \<Rightarrow> string \<Rightarrow> string \<Rightarrow>
    ('w, CommitIdentity \<times> CommitIdentity \<times> CommitIdentity \<times> bool) eff" where
  "resolve_ends st c repoID sourceBranch targetBranch =
     ebind (ewrap ''review: resolve source branch'' (ms_GetBranchRef st c repoID sourceBranch)) (\<lambda>sourceID.
     ebind (ewrap ''review: resolve target branch'' (ms_GetBranchRef st c repoID targetBranch)) (\<lambda>targetID.
     ebind (ewrap ''review: test fast-forward ancestry'' (ms_IsAncestor st c repoID targetID sourceID)) (\<lambda>canFastForward.
     ebind (if canFastForward then eret targetID
            else ewrap ''review: find merge base'' (ms_FindLowestCommonAncestor st c repoID sourceID targetID)) (\<lambda>baseID.
     ebind (ewrap ''review: resolve base snapshot'' (resolveCommitIdentity st c repoID baseID)) (\<lambda>baseCommit.
     ebind (ewrap ''review: resolve source snapshot'' (resolveCommitIdentity st c repoID sourceID)) (\<lambda>sourceCommit.
     ebind (ewrap ''review: resolve target snapshot'' (resolveCommitIdentity st c repoID targetID)) (\<lambda>targetCommit.
     eret (baseCommit, sourceCommit, targetCommit, canFastForward))))))))"

text \<open>The three snapshots, in the order they are read.\<close>

definition load_three :: "review_lib \<Rightarrow> 'w object_get \<Rightarrow> ctx \<Rightarrow> scope \<Rightarrow> CommitIdentity \<Rightarrow> CommitIdentity \<Rightarrow> CommitIdentity \<Rightarrow>
    ('w, Snapshot \<times> Snapshot \<times> Snapshot) eff" where
  "load_three l get c sc b s t =
     ebind (ewrap ''review: load base snapshot'' (DecodeSnapshot l (Some get) c sc (rc_SnapshotRoot b))) (\<lambda>base.
     ebind (ewrap ''review: load source snapshot'' (DecodeSnapshot l (Some get) c sc (rc_SnapshotRoot s))) (\<lambda>source.
     ebind (ewrap ''review: load target snapshot'' (DecodeSnapshot l (Some get) c sc (rc_SnapshotRoot t))) (\<lambda>target.
     eret (base, source, target))))"

definition PreviewMerge :: "review_lib \<Rightarrow> ('w object_get option \<times> ('w, 'm) metadata_store_scheme option) option \<Rightarrow> ctx option \<Rightarrow>
    string \<Rightarrow> string \<Rightarrow> string \<Rightarrow> string \<Rightarrow> ('w, MergePreview) eff" where
  "PreviewMerge l e c0 tenantID repoID sourceBranch targetBranch = (case e of
       Some (Some get, Some st) \<Rightarrow>
         (case c0 of
            None \<Rightarrow> efail (Wrapf ''tenant, repository, source branch, and target branch are required'' (Review ErrInvalidPreviewRequest))
          | Some c1 \<Rightarrow>
            if tenantID = '''' \<or> repoID = '''' \<or> sourceBranch = '''' \<or> targetBranch = ''''
            then efail (Wrapf ''tenant, repository, source branch, and target branch are required'' (Review ErrInvalidPreviewRequest))
            else
              ebind (ewrap ''review: set tenant context'' (elift (ms_SetTenantContext st c1 tenantID))) (\<lambda>c.
              ebind (ewrap ''review: create CAS scope'' (elift (NewScope tenantID repoID))) (\<lambda>sc.
              ebind (resolve_ends st c repoID sourceBranch targetBranch) (\<lambda>(baseCommit, sourceCommit, targetCommit, canFastForward).
              ebind (load_three l get c sc baseCommit sourceCommit targetCommit) (\<lambda>(base, source, target).
              eret ((mergeSnapshots l base source target)\<lparr>mp_SourceBranch := sourceBranch, mp_TargetBranch := targetBranch,
                 mp_BaseCommit := baseCommit, mp_SourceCommit := sourceCommit, mp_TargetCommit := targetCommit,
                 mp_CanFastForward := canFastForward\<rparr>))))))
     | _ \<Rightarrow> efail (Review ErrPreviewUnavailable))"

text \<open>\<open>NewPreviewEngine\<close> and \<open>NewEngine\<close>.\<close>

definition NewPreviewEngine :: "'w object_get option \<Rightarrow> ('w, 'm) metadata_store_scheme option \<Rightarrow>
    ('w object_get option \<times> ('w, 'm) metadata_store_scheme option) option" where
  "NewPreviewEngine objects st = Some (objects, st)"

end
