(* ===== verification/Review_Finalize.thy ===== *)
theory Review_Finalize
  imports Review_Preview Sync_Frame "HOL-Library.Product_Lexorder"
begin

text \<open>
  \<open>FinalizeEngine\<close> (\<open>internal/server/review/finalize.go\<close>): leases on a target branch, and the application of
  a reviewed merge, either as a fast forward or as a merge commit built from the resolutions of its
  conflicts. The JSON decoder of manual values is the parameter \<open>j\<close>.
\<close>

section \<open>Requests\<close>

definition defaultMergeLeaseDuration :: int where "defaultMergeLeaseDuration = 5 * 60 * 1000000000"

record Resolution =
  re_Token :: string  re_Choice :: string  re_Value :: bytes

record LeaseRequest =
  lr_SourceBranch :: string  lr_TargetBranch :: string  lr_Subject :: string

record ApplyRequest =
  aq_SourceBranch :: string  aq_TargetBranch :: string  aq_Subject :: string  aq_LeaseToken :: string
  aq_Resolutions :: "Resolution list"  aq_Author :: string  aq_Message :: string

record ApplyResult =
  as_Branch :: string  as_HeadCommit :: string  as_FastForward :: bool  as_SnapshotRoot :: string  as_PackHash :: string

text \<open>\<open>MergeStore\<close> extends \<open>MetadataStore\<close>.\<close>

record 'w merge_store = "'w metadata_store" +
  ms_AcquireMergeLease :: "ctx \<Rightarrow> MergeLeaseRequest \<Rightarrow> ('w, MergeLease) eff"
  ms_ValidateMergeLease :: "ctx \<Rightarrow> string \<Rightarrow> string \<Rightarrow> string \<Rightarrow> string \<Rightarrow> ('w, MergeLease) eff"
  ms_ReleaseMergeLease :: "ctx \<Rightarrow> string \<Rightarrow> string \<Rightarrow> string \<Rightarrow> string \<Rightarrow> ('w, unit) eff"
  ms_ApplyMerge :: "ctx \<Rightarrow> ApplyMergeRequest \<Rightarrow> ('w, unit) eff"
  ms_CompareAndSwapBranchRef :: "ctx \<Rightarrow> string \<Rightarrow> string \<Rightarrow> string \<Rightarrow> string \<Rightarrow> ('w, unit) eff"

record 'w finalize_engine =
  fe_objects :: "'w cas_driver option"
  fe_store :: "'w merge_store option"
  fe_now :: "('w, int) eff"

definition NewFinalizeEngine :: "('w, int) eff \<Rightarrow> 'w cas_driver option \<Rightarrow> 'w merge_store option \<Rightarrow> 'w finalize_engine" where
  "NewFinalizeEngine now objects st = \<lparr>fe_objects = objects, fe_store = st, fe_now = now\<rparr>"

definition invalid_merge :: "string \<Rightarrow> goerr" where
  "invalid_merge msg = Wrapf msg (Review ErrInvalidMergeRequest)"

section \<open>Manual values\<close>

text \<open>What follows the first JSON value of a text: nothing, another value, or something else.\<close>

datatype json_rest = JsonEOF | JsonMore | JsonErr goerr

text \<open>Decoding the first value with unknown fields disallowed.\<close>

record json_lib =
  js_schema :: "bytes \<Rightarrow> goerr + SchemaSnapshot \<times> json_rest"
  js_property :: "bytes \<Rightarrow> goerr + PropertyValue \<times> json_rest"
  js_node :: "bytes \<Rightarrow> goerr + Node \<times> json_rest"
  js_edge :: "bytes \<Rightarrow> goerr + Edge \<times> json_rest"
  js_snapshot :: "bytes \<Rightarrow> goerr + Snapshot \<times> json_rest"

definition decodeManual :: "(bytes \<Rightarrow> goerr + 'a \<times> json_rest) \<Rightarrow> bytes \<Rightarrow> goerr + 'a" where
  "decodeManual dec data =
     rbind (rwrap (\<lambda>_. invalid_merge ''invalid manual value'') (dec data)) (\<lambda>(v, rest). case rest of
       JsonEOF \<Rightarrow> Inr v
     | JsonMore \<Rightarrow> Inl (invalid_merge ''invalid manual value: multiple JSON values are not allowed'')
     | JsonErr _ \<Rightarrow> Inl (invalid_merge ''invalid manual value''))"

section \<open>Resolutions\<close>

text \<open>The loop of \<open>validateResolutions\<close> removes a token when it is answered.\<close>

fun answer_all :: "string set \<Rightarrow> Resolution list \<Rightarrow> goerr + string set" where
  "answer_all required [] = Inr required"
| "answer_all required (r # rs) =
     (if re_Token r \<notin> required then Inl (invalid_merge ''unknown or duplicate resolution token'')
      else if re_Choice r \<noteq> ''source'' \<and> re_Choice r \<noteq> ''target'' \<and> re_Choice r \<noteq> ''manual''
           then Inl (invalid_merge ''resolution has an invalid choice'')
      else if re_Choice r = ''manual'' \<and> re_Value r = [] then Inl (invalid_merge ''manual resolution requires a value'')
      else if re_Choice r \<noteq> ''manual'' \<and> re_Value r \<noteq> [] then Inl (invalid_merge ''non-manual resolution must not include a value'')
      else answer_all (required - {re_Token r}) rs)"

definition validateResolutions :: "MergePreview \<Rightarrow> Resolution list \<Rightarrow> goerr + unit" where
  "validateResolutions p rs =
     (let required = set (map ct_Token (mp_Conflicts p)) in
      if length rs \<noteq> card required then Inl (invalid_merge ''every preview conflict requires exactly one resolution'')
      else rbind (answer_all required rs) (\<lambda>left.
           if left \<noteq> {} then Inl (invalid_merge ''missing conflict resolutions'') else Inr ()))"

text \<open>\<open>conflictByToken\<close>: \<open>None\<close> is the zero \<open>ConflictToken\<close>, whose type, element and identifiers are empty.\<close>

definition conflictByToken :: "MergePreview \<Rightarrow> string \<Rightarrow> ConflictToken option" where
  "conflictByToken p token = find (\<lambda>c. ct_Token c = token) (mp_Conflicts p)"

definition resolutionRank :: "ConflictToken option \<Rightarrow> nat" where
  "resolutionRank c = (case c of None \<Rightarrow> 0 | Some k \<Rightarrow> if ct_Type k = ConflictProperty then 1 else 0)"

definition propertiesFor :: "Snapshot \<Rightarrow> ElementKind \<Rightarrow> string \<Rightarrow> properties option" where
  "propertiesFor s kind i =
     (if kind = ElementNode then map_option nd_Properties (lookup (sn_Nodes s) i)
      else map_option ed_Properties (lookup (sn_Edges s) i))"

definition replaceProperty :: "properties \<Rightarrow> string \<Rightarrow> PropertyValue option \<Rightarrow> properties" where
  "replaceProperty ps name v = Some (case v of Some x \<Rightarrow> fmupd name x (entries ps) | None \<Rightarrow> fmdrop name (entries ps))"

definition setNode :: "Node go_map \<Rightarrow> string \<Rightarrow> Node option \<Rightarrow> Node go_map" where
  "setNode ns i v = Some (case v of Some x \<Rightarrow> fmupd i x (entries ns) | None \<Rightarrow> fmdrop i (entries ns))"

definition setEdge :: "Edge go_map \<Rightarrow> string \<Rightarrow> Edge option \<Rightarrow> Edge go_map" where
  "setEdge es i v = Some (case v of Some x \<Rightarrow> fmupd i x (entries es) | None \<Rightarrow> fmdrop i (entries es))"

definition setProperty :: "Snapshot \<Rightarrow> ElementKind \<Rightarrow> string \<Rightarrow> string \<Rightarrow> PropertyValue option \<Rightarrow> goerr + Snapshot" where
  "setProperty s kind i name v =
     (if kind = ElementNode then
        (case lookup (sn_Nodes s) i of
           Some n \<Rightarrow> Inr (s\<lparr>sn_Nodes := Some (fmupd i (n\<lparr>nd_Properties := replaceProperty (nd_Properties n) name v\<rparr>) (entries (sn_Nodes s)))\<rparr>)
         | None \<Rightarrow> Inl (invalid_merge ''conflicted element no longer exists''))
      else
        (case lookup (sn_Edges s) i of
           Some e \<Rightarrow> Inr (s\<lparr>sn_Edges := Some (fmupd i (e\<lparr>ed_Properties := replaceProperty (ed_Properties e) name v\<rparr>) (entries (sn_Edges s)))\<rparr>)
         | None \<Rightarrow> Inl (invalid_merge ''conflicted element no longer exists'')))"

definition resolutionProperty :: "json_lib \<Rightarrow> Snapshot \<Rightarrow> Snapshot \<Rightarrow> ConflictToken \<Rightarrow> Resolution \<Rightarrow> goerr + PropertyValue option" where
  "resolutionProperty j source target c r =
     (if re_Choice r = ''manual'' then rbind (decodeManual (js_property j) (re_Value r)) (\<lambda>v. Inr (Some v))
      else let s = (if re_Choice r = ''target'' then target else source) in
           case propertiesFor s (ct_Element c) (ct_ElementID c) of
             None \<Rightarrow> Inr None
           | Some ps \<Rightarrow> Inr (lookup ps (ct_Property c)))"

definition resolutionNode :: "json_lib \<Rightarrow> Snapshot \<Rightarrow> Snapshot \<Rightarrow> string \<Rightarrow> Resolution \<Rightarrow> goerr + Node option" where
  "resolutionNode j source target i r =
     (if re_Choice r = ''manual'' then
        if re_Value r = str_bytes ''null'' then Inr None
        else rbind (decodeManual (js_node j) (re_Value r)) (\<lambda>v.
             if nd_ID v \<noteq> i then Inl (invalid_merge ''manual node ID does not match conflict'') else Inr (Some v))
      else let s = (if re_Choice r = ''target'' then target else source) in Inr (lookup (sn_Nodes s) i))"

definition resolutionEdge :: "json_lib \<Rightarrow> Snapshot \<Rightarrow> Snapshot \<Rightarrow> string \<Rightarrow> Resolution \<Rightarrow> goerr + Edge option" where
  "resolutionEdge j source target i r =
     (if re_Choice r = ''manual'' then
        if re_Value r = str_bytes ''null'' then Inr None
        else rbind (decodeManual (js_edge j) (re_Value r)) (\<lambda>v.
             if ed_ID v \<noteq> i then Inl (invalid_merge ''manual edge ID does not match conflict'') else Inr (Some v))
      else let s = (if re_Choice r = ''target'' then target else source) in Inr (lookup (sn_Edges s) i))"

definition resolutionSchema :: "json_lib \<Rightarrow> Snapshot \<Rightarrow> Snapshot \<Rightarrow> Resolution \<Rightarrow> goerr + SchemaSnapshot" where
  "resolutionSchema j source target r =
     (if re_Choice r = ''source'' then Inr (sn_Schema source)
      else if re_Choice r = ''target'' then Inr (sn_Schema target)
      else decodeManual (js_schema j) (re_Value r))"

definition apply_edge :: "json_lib \<Rightarrow> Snapshot \<Rightarrow> Snapshot \<Rightarrow> string \<Rightarrow> Resolution \<Rightarrow> Snapshot \<Rightarrow> goerr + Snapshot" where
  "apply_edge j source target i r merged =
     rbind (resolutionEdge j source target i r) (\<lambda>v. Inr (merged\<lparr>sn_Edges := setEdge (sn_Edges merged) i v\<rparr>))"

definition applyResolution :: "json_lib \<Rightarrow> Snapshot \<Rightarrow> Snapshot \<Rightarrow> ConflictToken option \<Rightarrow> Resolution \<Rightarrow> Snapshot \<Rightarrow> goerr + Snapshot" where
  "applyResolution j source target conflict r merged = (case conflict of
       None \<Rightarrow> apply_edge j source target '''' r merged
     | Some c \<Rightarrow>
         if ct_Type c = ConflictSchema then
           rbind (resolutionSchema j source target r) (\<lambda>v. Inr (merged\<lparr>sn_Schema := v\<rparr>))
         else if ct_Type c = ConflictProperty then
           rbind (resolutionProperty j source target c r) (\<lambda>v. setProperty merged (ct_Element c) (ct_ElementID c) (ct_Property c) v)
         else if ct_Element c = ElementNode then
           rbind (resolutionNode j source target (ct_ElementID c) r) (\<lambda>v.
             Inr (merged\<lparr>sn_Nodes := setNode (sn_Nodes merged) (ct_ElementID c) v\<rparr>))
         else apply_edge j source target (ct_ElementID c) r merged)"

definition resolution_key :: "MergePreview \<Rightarrow> Resolution \<Rightarrow> nat \<times> string" where
  "resolution_key p r = (let c = conflictByToken p (re_Token r) in
     (resolutionRank c, case c of None \<Rightarrow> '''' | Some k \<Rightarrow> ct_Token k))"

definition cardinality_only :: "MergePreview \<Rightarrow> bool" where
  "cardinality_only p \<longleftrightarrow> (case mp_Conflicts p of [c] \<Rightarrow> ct_Type c = ConflictCardinality | _ \<Rightarrow> False)"

definition unresolved_merge :: "Snapshot \<Rightarrow> Snapshot \<Rightarrow> Snapshot \<Rightarrow> Snapshot" where
  "unresolved_merge base source target = \<lparr>sn_Version = SnapshotVersion,
     sn_Schema = fst (mergeValue (sn_Schema base) (sn_Schema source) (sn_Schema target)),
     sn_Nodes = fst (mergeElements node_ops ElementNode (sn_Nodes base) (sn_Nodes source) (sn_Nodes target) empty_preview),
     sn_Edges = fst (mergeElements edge_ops ElementEdge (sn_Edges base) (sn_Edges source) (sn_Edges target) empty_preview)\<rparr>"

definition materializeMerge :: "review_lib \<Rightarrow> json_lib \<Rightarrow> Snapshot \<Rightarrow> Snapshot \<Rightarrow> Snapshot \<Rightarrow> MergePreview \<Rightarrow> Resolution list \<Rightarrow> goerr + Snapshot" where
  "materializeMerge l j base source target p rs =
     (if cardinality_only p \<and> rs \<noteq> [] then
        let r = hd rs in
        if re_Choice r = ''source'' then Inr source
        else if re_Choice r = ''target'' then Inr target
        else rbind (decodeManual (js_snapshot j) (re_Value r)) (\<lambda>s. rbind (snapshot_Validate l s) (\<lambda>_. Inr s))
      else
        rbind (rfold (sort_key (resolution_key p) rs) (unresolved_merge base source target)
          (\<lambda>r merged. applyResolution j source target (conflictByToken p (re_Token r)) r merged)) (\<lambda>merged.
        rbind (rwrap (\<lambda>_. invalid_merge ''resolved merge is invalid'') (snapshot_Validate l merged)) (\<lambda>_. Inr merged)))"

section \<open>Leases\<close>

text \<open>The engine's preview: over the same driver and store.\<close>

definition fe_preview :: "review_lib \<Rightarrow> 'w finalize_engine \<Rightarrow> ctx \<Rightarrow> string \<Rightarrow> string \<Rightarrow> string \<Rightarrow> string \<Rightarrow> ('w, MergePreview) eff" where
  "fe_preview l e c tenantID repoID sourceBranch targetBranch =
     PreviewMerge l (NewPreviewEngine (map_option drv_Get (fe_objects e)) (fe_store e)) (Some c) tenantID repoID sourceBranch targetBranch"

definition AcquireLease :: "review_lib \<Rightarrow> 'w finalize_engine option \<Rightarrow> ctx option \<Rightarrow> string \<Rightarrow> string \<Rightarrow> LeaseRequest \<Rightarrow> ('w, MergeLease) eff" where
  "AcquireLease l e0 c0 tenantID repoID q = (case e0 of None \<Rightarrow> efail (Review ErrMergeUnavailable) | Some e \<Rightarrow>
     (case (fe_objects e, fe_store e) of
        (Some drv, Some st) \<Rightarrow>
          (case c0 of
             None \<Rightarrow> efail (invalid_merge ''tenant, repository, branches, and subject are required'')
           | Some c1 \<Rightarrow>
             if tenantID = '''' \<or> repoID = '''' \<or> lr_SourceBranch q = '''' \<or> lr_TargetBranch q = '''' \<or> lr_Subject q = ''''
             then efail (invalid_merge ''tenant, repository, branches, and subject are required'')
             else
               ebind (fe_preview l e c1 tenantID repoID (lr_SourceBranch q) (lr_TargetBranch q)) (\<lambda>preview.
               ebind (eassert (\<not> mp_CanFastForward preview) (invalid_merge ''fast-forward merges do not require a lease'')) (\<lambda>_.
               ebind (ewrap ''review: set tenant context'' (elift (ms_SetTenantContext st c1 tenantID))) (\<lambda>c.
               ewrap ''review: acquire merge lease'' (ms_AcquireMergeLease st c
                 \<lparr>lq_RepoID = repoID, lq_TargetBranch = lr_TargetBranch q, lq_Subject = lr_Subject q,
                  lq_SourceCommitID = rc_ID (mp_SourceCommit preview), lq_TargetCommitID = rc_ID (mp_TargetCommit preview),
                  lq_BaseCommitID = rc_ID (mp_BaseCommit preview), lq_Duration = defaultMergeLeaseDuration\<rparr>)))))
      | _ \<Rightarrow> efail (Review ErrMergeUnavailable)))"

definition ReleaseLease :: "'w finalize_engine option \<Rightarrow> ctx option \<Rightarrow> string \<Rightarrow> string \<Rightarrow> string \<Rightarrow> string \<Rightarrow> string \<Rightarrow> ('w, unit) eff" where
  "ReleaseLease e0 c0 tenantID repoID targetBranch subject token = (case e0 of None \<Rightarrow> efail (Review ErrMergeUnavailable) | Some e \<Rightarrow>
     (case fe_store e of
        None \<Rightarrow> efail (Review ErrMergeUnavailable)
      | Some st \<Rightarrow>
          (case c0 of
             None \<Rightarrow> efail (invalid_merge ''tenant, repository, target branch, subject, and lease token are required'')
           | Some c1 \<Rightarrow>
             if tenantID = '''' \<or> repoID = '''' \<or> targetBranch = '''' \<or> subject = '''' \<or> token = ''''
             then efail (invalid_merge ''tenant, repository, target branch, subject, and lease token are required'')
             else
               ebind (ewrap ''review: set tenant context'' (elift (ms_SetTenantContext st c1 tenantID))) (\<lambda>c.
               ewrap ''review: release merge lease'' (ms_ReleaseMergeLease st c repoID targetBranch subject token)))))"

section \<open>Applying a merge\<close>

definition frameCommitIdentity :: "Review_Merge.CommitIdentity \<Rightarrow> goerr + Sync_Frame.CommitIdentity" where
  "frameCommitIdentity cm =
     (if rc_Format cm \<noteq> CommitFormatV2 then Inl (invalid_merge ''merge parents must use v2 framing'')
      else let identity = V2CommitIdentity (rc_ID cm) in
           rbind (rwrap (\<lambda>_. invalid_merge ''invalid v2 commit identity'') (identity_Validate identity)) (\<lambda>_. Inr identity))"

text \<open>The merge commit and the pack that carries it: its identifier and the encoded pack.\<close>

definition merge_frame :: "Sync_Frame.CommitIdentity \<Rightarrow> Sync_Frame.CommitIdentity \<Rightarrow> string \<Rightarrow> ApplyRequest \<Rightarrow> int \<Rightarrow> CommitFrameV2" where
  "merge_frame t s root q now = \<lparr>cf_Version = CommitFormatV2, cf_Parents = [t, s], cf_SnapshotRoot = root,
     cf_Author = aq_Author q, cf_Message = aq_Message q, cf_Time = now\<rparr>"

definition frame_merge :: "contract_lib \<Rightarrow> Sync_Frame.CommitIdentity \<Rightarrow> Sync_Frame.CommitIdentity \<Rightarrow> bytes \<Rightarrow> ApplyRequest \<Rightarrow> int \<Rightarrow> goerr + string \<times> bytes" where
  "frame_merge x t s data q now =
     (let root = ContentID x data; frame = merge_frame t s root q now in
      rbind (rwrap (Wrapf ''review: build merged commit'') (frame_Commit x frame)) (\<lambda>commit.
      rbind (rwrap (Wrapf ''review: frame merged commit'') (CommitObjectID x commit)) (\<lambda>commitID.
      rbind (rwrap (Wrapf ''review: frame merged pack'') (MarshalPackFrameV2 x
         \<lparr>pf_Version = PackFormatV2, pf_Base = t, pf_Target = V2CommitIdentity commitID, pf_Commits = [frame],
          pf_Objects = [\<lparr>po_ID = root, po_Data = data\<rparr>]\<rparr>)) (\<lambda>packData.
      Inr (commitID, packData)))))"

definition apply_request :: "string \<Rightarrow> ApplyRequest \<Rightarrow> MergePreview \<Rightarrow> string \<Rightarrow> string \<Rightarrow> string \<Rightarrow> int \<Rightarrow> ApplyMergeRequest" where
  "apply_request repoID q p commitID root packHash now =
     \<lparr>am_RepoID = repoID, am_TargetBranch = aq_TargetBranch q, am_Subject = aq_Subject q, am_LeaseToken = aq_LeaseToken q,
      am_SourceCommitID = rc_ID (mp_SourceCommit p), am_TargetCommitID = rc_ID (mp_TargetCommit p),
      am_BaseCommitID = rc_ID (mp_BaseCommit p), am_ResultCommitID = commitID, am_SnapshotRoot = root,
      am_Author = aq_Author q, am_Message = aq_Message q, am_PackHash = packHash,
      am_CommitFormat = CommitFormatV2, am_PackFormat = PackFormatV2, am_CommitTime = now\<rparr>"

text \<open>A merge with a merged snapshot: everything is framed, then stored, then published in one transaction.\<close>

definition publish_merge :: "contract_lib \<Rightarrow> review_lib \<Rightarrow> 'w finalize_engine \<Rightarrow> 'w cas_driver \<Rightarrow> 'w merge_store \<Rightarrow> ctx \<Rightarrow> scope \<Rightarrow>
    string \<Rightarrow> ApplyRequest \<Rightarrow> MergePreview \<Rightarrow> Snapshot \<Rightarrow> ('w, ApplyResult) eff" where
  "publish_merge x l e drv st c sc repoID q p merged =
     ebind (ewrap ''review: encode merged snapshot'' (elift (MarshalSnapshot l merged))) (\<lambda>data.
     ebind (elift (frameCommitIdentity (mp_TargetCommit p))) (\<lambda>targetIdentity.
     ebind (elift (frameCommitIdentity (mp_SourceCommit p))) (\<lambda>sourceIdentity.
     ebind (fe_now e) (\<lambda>now.
     ebind (elift (frame_merge x targetIdentity sourceIdentity data q now)) (\<lambda>(commitID, packData).
     ebind (ewrap ''review: persist merged snapshot'' (drv_Put drv c sc (ContentID x data) data)) (\<lambda>_.
     ebind (ewrap ''review: persist merged pack''
        (drv_WritePack drv c sc (ContentID x packData) \<lparr>rd_data = packData, rd_err = None\<rparr>)) (\<lambda>_.
     ebind (ewrap ''review: apply merge'' (ms_ApplyMerge st c
        (apply_request repoID q p commitID (ContentID x data) (ContentID x packData) now))) (\<lambda>_.
     eret \<lparr>as_Branch = aq_TargetBranch q, as_HeadCommit = commitID, as_FastForward = False,
        as_SnapshotRoot = ContentID x data, as_PackHash = ContentID x packData\<rparr>))))))))"

definition merge_three_way :: "contract_lib \<Rightarrow> review_lib \<Rightarrow> json_lib \<Rightarrow> 'w finalize_engine \<Rightarrow> 'w cas_driver \<Rightarrow> 'w merge_store \<Rightarrow> ctx \<Rightarrow>
    string \<Rightarrow> string \<Rightarrow> ApplyRequest \<Rightarrow> MergePreview \<Rightarrow> ('w, ApplyResult) eff" where
  "merge_three_way x l j e drv st c tenantID repoID q p =
     ebind (eassert (aq_LeaseToken q \<noteq> '''') (invalid_merge ''leaseToken is required for a three-way merge'')) (\<lambda>_.
     ebind (ewrap ''review: validate merge lease'' (ms_ValidateMergeLease st c repoID (aq_TargetBranch q) (aq_Subject q) (aq_LeaseToken q))) (\<lambda>lease.
     ebind (eassert (ml_SourceCommitID lease = rc_ID (mp_SourceCommit p) \<and> ml_TargetCommitID lease = rc_ID (mp_TargetCommit p) \<and>
         ml_BaseCommitID lease = rc_ID (mp_BaseCommit p)) (Wrapf ''lease does not match current merge preview'' (Pg ErrMergeLeaseMismatch))) (\<lambda>_.
     ebind (elift (validateResolutions p (aq_Resolutions q))) (\<lambda>_.
     ebind (ewrap ''review: create CAS scope'' (elift (NewScope tenantID repoID))) (\<lambda>sc.
     ebind (load_three l (drv_Get drv) c sc (mp_BaseCommit p) (mp_SourceCommit p) (mp_TargetCommit p)) (\<lambda>(base, source, target).
     ebind (elift (materializeMerge l j base source target p (aq_Resolutions q))) (\<lambda>merged.
     publish_merge x l e drv st c sc repoID q p merged)))))))"

definition fast_forward :: "'w merge_store \<Rightarrow> ctx \<Rightarrow> string \<Rightarrow> ApplyRequest \<Rightarrow> MergePreview \<Rightarrow> ('w, ApplyResult) eff" where
  "fast_forward st c repoID q p =
     ebind (eassert (aq_Resolutions q = [] \<and> aq_LeaseToken q = '''') (invalid_merge ''fast-forward apply must not include a lease or resolutions'')) (\<lambda>_.
     ebind (ewrap ''review: fast-forward target branch'' (ms_CompareAndSwapBranchRef st c repoID (aq_TargetBranch q)
        (rc_ID (mp_TargetCommit p)) (rc_ID (mp_SourceCommit p)))) (\<lambda>_.
     eret \<lparr>as_Branch = aq_TargetBranch q, as_HeadCommit = rc_ID (mp_SourceCommit p), as_FastForward = True,
        as_SnapshotRoot = '''', as_PackHash = ''''\<rparr>))"

definition Apply :: "contract_lib \<Rightarrow> review_lib \<Rightarrow> json_lib \<Rightarrow> 'w finalize_engine option \<Rightarrow> ctx option \<Rightarrow> string \<Rightarrow> string \<Rightarrow> ApplyRequest \<Rightarrow> ('w, ApplyResult) eff" where
  "Apply x l j e0 c0 tenantID repoID q = (case e0 of None \<Rightarrow> efail (Review ErrMergeUnavailable) | Some e \<Rightarrow>
     (case (fe_objects e, fe_store e) of
        (Some drv, Some st) \<Rightarrow>
          (case c0 of
             None \<Rightarrow> efail (invalid_merge ''tenant, repository, branches, subject, author, and message are required'')
           | Some c1 \<Rightarrow>
             if tenantID = '''' \<or> repoID = '''' \<or> aq_SourceBranch q = '''' \<or> aq_TargetBranch q = '''' \<or> aq_Subject q = '''' \<or>
                aq_Author q = '''' \<or> aq_Message q = ''''
             then efail (invalid_merge ''tenant, repository, branches, subject, author, and message are required'')
             else
               ebind (fe_preview l e c1 tenantID repoID (aq_SourceBranch q) (aq_TargetBranch q)) (\<lambda>preview.
               ebind (ewrap ''review: set tenant context'' (elift (ms_SetTenantContext st c1 tenantID))) (\<lambda>c.
               if mp_CanFastForward preview then fast_forward st c repoID q preview
               else merge_three_way x l j e drv st c tenantID repoID q preview)))
      | _ \<Rightarrow> efail (Review ErrMergeUnavailable)))"

end
