(* ===== verification/Review_Merge_Facts.thy ===== *)
theory Review_Merge_Facts
  imports Review_Merge
begin

text \<open>
  What the merge computes, element by element and property by property. The abstract merge of three values
  is \<open>three_way\<close>; the code's loops over sorted identifiers, threading a preview, are shown to compute it
  pointwise and to report a conflict exactly where two branches changed the same thing differently.
\<close>

section \<open>Loops that collect a map\<close>

text \<open>One round of either loop: what is decided for a key is stored if there is something to store.\<close>

definition collect :: "('k \<Rightarrow> 'p \<Rightarrow> 'v option \<times> 'p) \<Rightarrow> 'k \<Rightarrow> ('k, 'v) fmap \<times> 'p \<Rightarrow> ('k, 'v) fmap \<times> 'p" where
  "collect f k acc = (case acc of (m, p) \<Rightarrow> case f k p of (v, p') \<Rightarrow> ((case v of None \<Rightarrow> m | Some x \<Rightarrow> fmupd k x m), p'))"

lemma collect_lookup:
  assumes "\<And>k p. k \<in> set ks \<Longrightarrow> fst (f k p) = g k"
  shows "fmlookup (fst (fold (collect f) ks (m, p))) k =
     (if k \<in> set ks \<and> g k \<noteq> None then g k else fmlookup m k)"
  using assms
proof (induction ks arbitrary: m p)
  case (Cons x ks)
  obtain p' where one: "f x p = (g x, p')" using Cons.prems [of x p] by (cases "f x p") simp
  show ?case
    using Cons.IH [of "case g x of None \<Rightarrow> m | Some v \<Rightarrow> fmupd x v m" p'] Cons.prems
    by (cases "g x") (auto simp: collect_def one)
qed simp

lemma collect_state:
  assumes "I p"
    and "\<And>k p. k \<in> set ks \<Longrightarrow> I p \<Longrightarrow> I (snd (f k p)) \<and> (H (snd (f k p)) \<longleftrightarrow> H p \<or> c k)"
  shows "I (snd (fold (collect f) ks (m, p))) \<and> (H (snd (fold (collect f) ks (m, p))) \<longleftrightarrow> H p \<or> (\<exists>k \<in> set ks. c k))"
  using assms
proof (induction ks arbitrary: m p)
  case (Cons x ks)
  obtain v p' where one: "f x p = (v, p')" by (cases "f x p") simp
  with Cons.prems(2) [of x p] Cons.prems(1) have "I p'" and "H p' \<longleftrightarrow> H p \<or> c x" by simp_all
  then show ?case using Cons.IH [of p' "case v of None \<Rightarrow> m | Some y \<Rightarrow> fmupd x y m"] Cons.prems(2) by (auto simp: collect_def one)
qed simp

section \<open>The abstract merge\<close>

text \<open>The source's value where the target kept the base's, and the target's otherwise.\<close>

definition three_way :: "'a \<Rightarrow> 'a \<Rightarrow> 'a \<Rightarrow> 'a" where
  "three_way b s t = (if t = b then s else t)"

definition disputed :: "'a \<Rightarrow> 'a \<Rightarrow> 'a \<Rightarrow> bool" where
  "disputed b s t \<longleftrightarrow> s \<noteq> b \<and> t \<noteq> b \<and> s \<noteq> t"

text \<open>\<open>m\<close> has every change either branch made, and no other.\<close>

definition keeps_both :: "'a \<Rightarrow> 'a \<Rightarrow> 'a \<Rightarrow> 'a \<Rightarrow> bool" where
  "keeps_both b s t m \<longleftrightarrow> (s \<noteq> b \<longrightarrow> m = s) \<and> (t \<noteq> b \<longrightarrow> m = t) \<and> (s = b \<and> t = b \<longrightarrow> m = b)"

lemma keeps_both_three_way: "\<not> disputed b s t \<Longrightarrow> keeps_both b s t (three_way b s t)"
  by (auto simp: disputed_def keeps_both_def three_way_def)

lemma disputed_commute: "disputed b s t \<longleftrightarrow> disputed b t s"
  by (auto simp: disputed_def)

lemma mergeValue_is: "mergeValue b s t = (v, br, c) \<Longrightarrow> v = three_way b s t \<and> c = disputed b s t"
  by (auto simp: mergeValue_def three_way_def disputed_def split: if_splits)

lemma fst_mergeValue [simp]: "fst (mergeValue b s t) = three_way b s t"
  and snd_mergeValue [simp]: "snd (snd (mergeValue b s t)) = disputed b s t"
  by (auto simp: mergeValue_def three_way_def disputed_def)

lemma three_way_None [simp]: "three_way None None None = None"
  by (simp add: three_way_def)

section \<open>Conflicts in a preview\<close>

text \<open>The token of a conflict names its type and place; a property has a node or an edge.\<close>

definition named :: "ConflictToken \<Rightarrow> bool" where
  "named c \<longleftrightarrow> ct_Token c = conflict_token (ct_Type c) (ct_Element c) (ct_ElementID c) (ct_Property c) \<and>
     (ct_Type c = ConflictProperty \<longrightarrow> ct_Element c \<noteq> ElementSchema)"

definition tidy :: "MergePreview \<Rightarrow> bool" where
  "tidy p \<longleftrightarrow> (mp_HasConflicts p \<longleftrightarrow> mp_Conflicts p \<noteq> []) \<and> distinct (map ct_Token (mp_Conflicts p)) \<and>
     map rr_Token (mp_Resolutions p) = map ct_Token (mp_Conflicts p) \<and> list_all named (mp_Conflicts p)"

lemma tidy_empty [simp]: "tidy empty_preview" "mp_HasConflicts empty_preview = False" "mp_Conflicts empty_preview = []"
  by (simp_all add: tidy_def empty_preview_def)

lemma addChange_simps [simp]:
  "tidy (addChange c p) = tidy p" "mp_HasConflicts (addChange c p) = mp_HasConflicts p" "mp_Conflicts (addChange c p) = mp_Conflicts p"
  "tidy (addElementChange k i oper br p) = tidy p" "mp_HasConflicts (addElementChange k i oper br p) = mp_HasConflicts p"
  by (simp_all add: addElementChange_def addChange_def tidy_def)

lemma addConflict_simps [simp]:
  assumes "tidy p" and "k = ConflictProperty \<longrightarrow> el \<noteq> ElementSchema"
  shows "tidy (addConflict k el i n p)" "mp_HasConflicts (addConflict k el i n p)"
  using assms by (auto simp: addConflict_def tidy_def Let_def list_ex_iff named_def)

section \<open>Properties\<close>

definition property_step :: "ElementKind \<Rightarrow> string \<Rightarrow> properties \<Rightarrow> properties \<Rightarrow> properties \<Rightarrow> string \<Rightarrow> MergePreview \<Rightarrow> PropertyValue option \<times> MergePreview" where
  "property_step kind i b s t n p =
     (case mergeOptional (lookup b n) (lookup s n) (lookup t n) of (value, branch, conflict) \<Rightarrow>
      (if conflict then lookup t n else value,
       if conflict then addConflict ConflictProperty kind i n p
       else if lookup b n \<noteq> value then
         addChange \<lparr>ch_Kind = ChangeKindProperty, ch_Operation = propertyOperation (lookup b n \<noteq> None) (value \<noteq> None),
            ch_Element = kind, ch_ElementID = i, ch_Property = n, ch_Branch = branch\<rparr> p
       else p))"

lemma merge_property_collect: "merge_property kind i b s t = collect (property_step kind i b s t)"
  by (intro ext) (simp add: merge_property_def collect_def property_step_def Let_def case_prod_unfold)

lemma property_step_value: "fst (property_step kind i b s t n p) = three_way (lookup b n) (lookup s n) (lookup t n)"
  by (auto simp: property_step_def mergeOptional_def case_prod_unfold three_way_def disputed_def)

lemma property_step_state:
  "tidy p \<Longrightarrow> kind \<noteq> ElementSchema \<Longrightarrow> tidy (snd (property_step kind i b s t n p)) \<and>
     (mp_HasConflicts (snd (property_step kind i b s t n p)) \<longleftrightarrow> mp_HasConflicts p \<or> disputed (lookup b n) (lookup s n) (lookup t n))"
  by (auto simp: property_step_def mergeOptional_def case_prod_unfold)

lemma lookup_fmdom: "lookup m n \<noteq> None \<longleftrightarrow> n |\<in>| fmdom (entries m)"
  by (simp add: lookup_def fmlookup_dom_iff)

lemma keys_miss:
  assumes "n \<notin> set (sorted_keys [entries b, entries s, entries t])"
  shows "lookup b n = None" "lookup s n = None" "lookup t n = None"
  using assms by (simp_all add: lookup_def fmdom_notD)

lemma not_disputed_None [simp]: "disputed None None None = False"
  by (simp add: disputed_def)

lemma mergeProperties_value:
  "lookup (fst (mergeProperties kind i b s t p)) n = three_way (lookup b n) (lookup s n) (lookup t n)"
proof -
  let ?ks = "sorted_keys [entries b, entries s, entries t]"
  have "fmlookup (fst (fold (collect (property_step kind i b s t)) ?ks (fmempty, p))) n =
     (if n \<in> set ?ks \<and> three_way (lookup b n) (lookup s n) (lookup t n) \<noteq> None
      then three_way (lookup b n) (lookup s n) (lookup t n) else fmlookup fmempty n)"
    by (rule collect_lookup) (rule property_step_value)
  moreover have "n \<in> set ?ks \<or> three_way (lookup b n) (lookup s n) (lookup t n) = None"
    by (metis keys_miss three_way_None)
  ultimately show ?thesis
    by (auto simp: mergeProperties_def merge_property_collect case_prod_unfold)
qed

lemma mergeProperties_some: "\<exists>m. fst (mergeProperties kind i b s t p) = Some m"
  by (simp add: mergeProperties_def case_prod_unfold)

definition props_disputed :: "properties \<Rightarrow> properties \<Rightarrow> properties \<Rightarrow> bool" where
  "props_disputed b s t \<longleftrightarrow> (\<exists>n. disputed (lookup b n) (lookup s n) (lookup t n))"

lemma mergeProperties_state:
  assumes "tidy p" and kind: "kind \<noteq> ElementSchema"
  shows "tidy (snd (mergeProperties kind i b s t p)) \<and>
     (mp_HasConflicts (snd (mergeProperties kind i b s t p)) \<longleftrightarrow> mp_HasConflicts p \<or> props_disputed b s t)"
proof -
  let ?ks = "sorted_keys [entries b, entries s, entries t]"
  have "(\<exists>n \<in> set ?ks. disputed (lookup b n) (lookup s n) (lookup t n)) \<longleftrightarrow> props_disputed b s t"
    unfolding props_disputed_def by (metis keys_miss not_disputed_None)
  then show ?thesis
    using collect_state [where I = tidy and H = mp_HasConflicts and f = "property_step kind i b s t" and ks = ?ks and m = fmempty,
        OF assms(1) property_step_state [OF _ kind]]
    by (simp add: mergeProperties_def merge_property_collect case_prod_unfold)
qed


section \<open>Elements\<close>

text \<open>What nodes and edges have in common: \<open>view\<close> is what \<open>sameStructure\<close> compares.\<close>

locale element =
  fixes ops :: "'e element_ops" and view :: "'e \<Rightarrow> 'v"
  assumes props_with: "el_props ops (el_with ops e ps) = ps"
    and view_with: "view (el_with ops e ps) = view e"
    and same_view: "el_same ops a b \<longleftrightarrow> view a = view b"
    and zero_props: "el_props ops (el_zero ops) = None"
begin

abbreviation strip where
  "strip e \<equiv> el_with ops e None"

text \<open>What an optional element shows: its structure and its properties.\<close>

definition shape :: "'e option \<Rightarrow> 'v option" where
  "shape = map_option view"

definition pval :: "'e option \<Rightarrow> string \<Rightarrow> PropertyValue option" where
  "pval z n = Option.bind z (\<lambda>e. lookup (el_props ops e) n)"

lemma pval_simps [simp]: "pval None n = None" "pval (Some e) n = lookup (el_props ops e) n" "shape None = None" "shape (Some e) = Some (view e)"
  by (simp_all add: pval_def shape_def)

definition joint :: "'e \<Rightarrow> 'e \<Rightarrow> 'e \<Rightarrow> 'e \<Rightarrow> bool" where
  "joint b s t e \<longleftrightarrow> view e = view (three_way (strip b) (strip s) (strip t)) \<and>
     (\<forall>n. lookup (el_props ops e) n = three_way (lookup (el_props ops b) n) (lookup (el_props ops s) n) (lookup (el_props ops t) n))"

lemma merge_present_value:
  "\<exists>e. fst (merge_present ops k i b s t p) = Some e \<and> joint b s t e"
  by (auto simp: merge_present_def mergeStructure_def case_prod_unfold Let_def joint_def props_with view_with
      mergeProperties_value three_way_def disputed_def)

definition joint_disputed :: "'e \<Rightarrow> 'e \<Rightarrow> 'e \<Rightarrow> bool" where
  "joint_disputed b s t \<longleftrightarrow> disputed (strip b) (strip s) (strip t) \<or>
     props_disputed (el_props ops b) (el_props ops s) (el_props ops t)"

lemma merge_present_state:
  assumes "tidy p" and "k \<noteq> ElementSchema"
  shows "tidy (snd (merge_present ops k i b s t p)) \<and>
     (mp_HasConflicts (snd (merge_present ops k i b s t p)) \<longleftrightarrow> mp_HasConflicts p \<or> joint_disputed b s t)"
  using assms
  by (auto simp: merge_present_def mergeStructure_def case_prod_unfold Let_def joint_disputed_def mergeProperties_state)

text \<open>When two branches cannot be combined at an identifier.\<close>

fun element_disputed :: "'e option \<Rightarrow> 'e option \<Rightarrow> 'e option \<Rightarrow> bool" where
  "element_disputed (Some b) None (Some t) = (t \<noteq> b)"
| "element_disputed (Some b) (Some s) None = (s \<noteq> b)"
| "element_disputed None (Some s) (Some t) = (view s \<noteq> view t \<or> joint_disputed (el_zero ops) s t)"
| "element_disputed (Some b) (Some s) (Some t) = joint_disputed b s t"
| "element_disputed _ _ _ = False"

lemma mergeElement_state:
  assumes "tidy p" and "b \<noteq> None \<or> s \<noteq> None \<or> t \<noteq> None" and "k \<noteq> ElementSchema"
  shows "tidy (snd (mergeElement ops k i b s t p)) \<and>
     (mp_HasConflicts (snd (mergeElement ops k i b s t p)) \<longleftrightarrow> mp_HasConflicts p \<or> element_disputed b s t)"
  using assms by (cases b; cases s; cases t) (auto simp: merge_present_state same_view)

text \<open>Without a dispute, the merged element has the changes of both branches.\<close>

lemma mergeElement_keeps_both:
  assumes "\<not> element_disputed b s t" and "b \<noteq> None \<or> s \<noteq> None \<or> t \<noteq> None"
  shows "keeps_both (shape b) (shape s) (shape t) (shape (fst (mergeElement ops k i b s t p))) \<and>
     keeps_both (pval b n) (pval s n) (pval t n) (pval (fst (mergeElement ops k i b s t p)) n)"
proof (cases "\<exists>s' t'. s = Some s' \<and> t = Some t'")
  case True
  then obtain s' t' where st: "s = Some s'" "t = Some t'" by blast
  let ?b = "case b of None \<Rightarrow> el_zero ops | Some b' \<Rightarrow> b'"
  have clean: "\<not> joint_disputed ?b s' t'" and new: "b = None \<Longrightarrow> view s' = view t'"
    using assms(1) st by (cases b; simp)+
  obtain e where e: "fst (mergeElement ops k i b s t p) = Some e" and j: "joint ?b s' t' e"
    using merge_present_value [of k i ?b s' t' p] st new by (cases b) (auto simp: same_view)
  have pb: "pval b n = lookup (el_props ops ?b) n" by (cases b) (simp_all add: zero_props)
  have "keeps_both (pval b n) (pval s n) (pval t n) (pval (Some e) n)"
    using j clean
    by (simp add: pb st joint_def joint_disputed_def props_disputed_def keeps_both_three_way)
  moreover have "keeps_both (shape b) (shape s) (shape t) (shape (Some e))"
    using j clean new view_with [of _ None]
    by (cases b) (auto simp: st joint_def joint_disputed_def disputed_def three_way_def keeps_both_def, metis+)
  ultimately show ?thesis by (simp add: e)
next
  case False
  then show ?thesis using assms by (cases b; cases s; cases t) (auto simp: keeps_both_def)
qed

end


section \<open>Maps of elements\<close>

lemma mergeProperties_pure: "fst (mergeProperties k i b s t p) = fst (mergeProperties k i b s t q)"
proof -
  obtain m n where mn: "fst (mergeProperties k i b s t p) = Some m" "fst (mergeProperties k i b s t q) = Some n"
    using mergeProperties_some by metis
  have "m = n"
    using mergeProperties_value [of k i b s t p] mergeProperties_value [of k i b s t q] by (intro fmap_ext) (simp add: mn)
  with mn show ?thesis by simp
qed

lemma merge_present_pure: "fst (merge_present ops k i b s t p) = fst (merge_present ops k i b s t q)"
  unfolding merge_present_def case_prod_unfold Let_def fst_conv
  by (rule arg_cong [where f = Some], rule arg_cong2 [where f = "el_with ops", OF refl], rule mergeProperties_pure)

lemma mergeElement_pure: "fst (mergeElement ops k i b s t p) = fst (mergeElement ops k i b s t q)"
  by (cases b; cases s; cases t) (auto intro: merge_present_pure)

lemma merge_one_collect:
  "merge_one ops kind b s t = collect (\<lambda>i. mergeElement ops kind i (lookup b i) (lookup s i) (lookup t i))"
  by (intro ext) (simp add: merge_one_def collect_def case_prod_unfold split: option.split)

lemma mergeElements_value:
  "lookup (fst (mergeElements ops k b s t p)) i =
     (if lookup b i = None \<and> lookup s i = None \<and> lookup t i = None then None
      else fst (mergeElement ops k i (lookup b i) (lookup s i) (lookup t i) q))"
proof -
  let ?ks = "sorted_keys [entries b, entries s, entries t]"
  let ?g = "\<lambda>i. fst (mergeElement ops k i (lookup b i) (lookup s i) (lookup t i) q)"
  have "fmlookup (fst (fold (merge_one ops k b s t) ?ks (fmempty, p))) i =
     (if i \<in> set ?ks \<and> ?g i \<noteq> None then ?g i else fmlookup fmempty i)"
    unfolding merge_one_collect by (rule collect_lookup) (rule mergeElement_pure)
  moreover have "i \<in> set ?ks \<longleftrightarrow> lookup b i \<noteq> None \<or> lookup s i \<noteq> None \<or> lookup t i \<noteq> None"
    by (auto simp: lookup_def fmlookup_dom_iff)
  ultimately show ?thesis by (auto simp: mergeElements_def case_prod_unfold)
qed

context element
begin

lemma mergeElements_keeps_both:
  assumes "\<And>i. \<not> element_disputed (lookup b i) (lookup s i) (lookup t i)"
  shows "keeps_both (shape (lookup b i)) (shape (lookup s i)) (shape (lookup t i)) (shape (lookup (fst (mergeElements ops k b s t p)) i))"
    and "keeps_both (pval (lookup b i) n) (pval (lookup s i) n) (pval (lookup t i) n) (pval (lookup (fst (mergeElements ops k b s t p)) i) n)"
  using mergeElement_keeps_both [OF assms, of i, where k = k and i = i and p = p and n = n]
  by (auto simp: mergeElements_value [where q = p] keeps_both_def)

lemma mergeElements_state:
  assumes "tidy p" and kind: "k \<noteq> ElementSchema"
  shows "tidy (snd (mergeElements ops k b s t p)) \<and>
     (mp_HasConflicts (snd (mergeElements ops k b s t p)) \<longleftrightarrow>
      mp_HasConflicts p \<or> (\<exists>i. element_disputed (lookup b i) (lookup s i) (lookup t i)))"
proof -
  let ?ks = "sorted_keys [entries b, entries s, entries t]"
  let ?d = "\<lambda>i. element_disputed (lookup b i) (lookup s i) (lookup t i)"
  let ?f = "\<lambda>i. mergeElement ops k i (lookup b i) (lookup s i) (lookup t i)"
  have "tidy (snd (?f i p)) \<and> (mp_HasConflicts (snd (?f i p)) \<longleftrightarrow> mp_HasConflicts p \<or> ?d i)" if "tidy p" and "i \<in> set ?ks" for i p
    by (rule mergeElement_state [OF that(1) _ kind]) (use that(2) in \<open>auto simp: lookup_def fmlookup_dom_iff\<close>)
  moreover have "(\<exists>i \<in> set ?ks. ?d i) \<longleftrightarrow> (\<exists>i. ?d i)"
    by (metis keys_miss element_disputed.simps(5))
  ultimately show ?thesis
    using collect_state [where I = tidy and H = mp_HasConflicts and f = ?f and c = ?d and ks = ?ks and m = fmempty, OF assms(1)]
    by (simp add: mergeElements_def merge_one_collect case_prod_unfold)
qed

end


section \<open>Nodes and edges\<close>

definition node_view :: "Node \<Rightarrow> string \<times> string \<times> string list option" where
  "node_view e = (nd_ID e, nd_Title e, nd_Labels e)"

definition edge_view :: "Edge \<Rightarrow> string \<times> string \<times> string \<times> string" where
  "edge_view e = (ed_ID e, ed_Source e, ed_Target e, ed_Type e)"

interpretation nodes: element node_ops node_view
  by unfold_locales (auto simp: node_ops_def node_view_def)

interpretation edges: element edge_ops edge_view
  by unfold_locales (auto simp: edge_ops_def edge_view_def)

section \<open>Snapshots\<close>

text \<open>
  What there is to see in a snapshot, one spot at a time: the schema, the structure of an element, a
  property of an element. A branch's changes are the spots at which it differs from the base.
\<close>

datatype spot = Schema | NodeAt string | NodeProperty string string | EdgeAt string | EdgeProperty string string

datatype sight =
  SchemaIs SchemaSnapshot
| NodeIs "(string \<times> string \<times> string list option) option"
| EdgeIs "(string \<times> string \<times> string \<times> string) option"
| PropertyIs "PropertyValue option"

fun observe :: "Snapshot \<Rightarrow> spot \<Rightarrow> sight" where
  "observe s Schema = SchemaIs (sn_Schema s)"
| "observe s (NodeAt i) = NodeIs (map_option node_view (lookup (sn_Nodes s) i))"
| "observe s (EdgeAt i) = EdgeIs (map_option edge_view (lookup (sn_Edges s) i))"
| "observe s (NodeProperty i n) = PropertyIs (case lookup (sn_Nodes s) i of None \<Rightarrow> None | Some e \<Rightarrow> lookup (nd_Properties e) n)"
| "observe s (EdgeProperty i n) = PropertyIs (case lookup (sn_Edges s) i of None \<Rightarrow> None | Some e \<Rightarrow> lookup (ed_Properties e) n)"

definition snapshots_disputed :: "Snapshot \<Rightarrow> Snapshot \<Rightarrow> Snapshot \<Rightarrow> bool" where
  "snapshots_disputed b s t \<longleftrightarrow>
     disputed (sn_Schema b) (sn_Schema s) (sn_Schema t) \<or>
     (\<exists>i. nodes.element_disputed (lookup (sn_Nodes b) i) (lookup (sn_Nodes s) i) (lookup (sn_Nodes t) i)) \<or>
     (\<exists>i. edges.element_disputed (lookup (sn_Edges b) i) (lookup (sn_Edges s) i) (lookup (sn_Edges t) i))"

text \<open>The preview after the schema, and the merge in its parts.\<close>

definition schema_preview :: "Snapshot \<Rightarrow> Snapshot \<Rightarrow> Snapshot \<Rightarrow> MergePreview" where
  "schema_preview b s t =
     (case mergeValue (sn_Schema b) (sn_Schema s) (sn_Schema t) of (v, branch, c) \<Rightarrow>
        if c then addConflict ConflictSchema ElementSchema '''' '''' empty_preview
        else if sn_Schema b \<noteq> v then
          addChange \<lparr>ch_Kind = ChangeKindSchema, ch_Operation = ChangeUpdated, ch_Element = ElementSchema, ch_ElementID = '''',
             ch_Property = '''', ch_Branch = branch\<rparr> empty_preview
        else empty_preview)"

lemma schema_preview_state:
  "tidy (schema_preview b s t)" "mp_HasConflicts (schema_preview b s t) \<longleftrightarrow> disputed (sn_Schema b) (sn_Schema s) (sn_Schema t)"
  by (auto simp: schema_preview_def case_prod_unfold)

lemma map_sort_key_is: "map f (sort_key f xs) = sort (map f xs)"
  by (rule properties_for_sort [symmetric]) simp_all

lemma sort_key_is_Nil [simp]: "sort_key f xs = [] \<longleftrightarrow> xs = []"
  by (metis length_0_conv length_sort)

lemma merge_graphs_parts:
  "merge_graphs b s t =
     (let p = schema_preview b s t;
          (ns, p1) = mergeElements node_ops ElementNode (sn_Nodes b) (sn_Nodes s) (sn_Nodes t) p;
          (es, p2) = mergeElements edge_ops ElementEdge (sn_Edges b) (sn_Edges s) (sn_Edges t) p1
      in (\<lparr>sn_Version = SnapshotVersion, sn_Schema = three_way (sn_Schema b) (sn_Schema s) (sn_Schema t), sn_Nodes = ns, sn_Edges = es\<rparr>, p2))"
  by (auto simp: merge_graphs_def schema_preview_def case_prod_unfold Let_def three_way_def disputed_def mergeValue_def)

lemma merge_graphs_state:
  "tidy (snd (merge_graphs b s t)) \<and> (mp_HasConflicts (snd (merge_graphs b s t)) \<longleftrightarrow> snapshots_disputed b s t)"
  using nodes.mergeElements_state [OF schema_preview_state(1), of ElementNode "sn_Nodes b" "sn_Nodes s" "sn_Nodes t" b s t]
    edges.mergeElements_state [of _ ElementEdge "sn_Edges b" "sn_Edges s" "sn_Edges t"]
  by (simp add: merge_graphs_parts case_prod_unfold Let_def snapshots_disputed_def schema_preview_state)

lemma ops_props: "el_props node_ops = nd_Properties" "el_props edge_ops = ed_Properties"
  by (simp_all add: node_ops_def edge_ops_def)

lemma observe_pval:
  "observe s (NodeProperty i n) = PropertyIs (nodes.pval (lookup (sn_Nodes s) i) n)"
  "observe s (EdgeProperty i n) = PropertyIs (edges.pval (lookup (sn_Edges s) i) n)"
  "observe s (NodeAt i) = NodeIs (nodes.shape (lookup (sn_Nodes s) i))"
  "observe s (EdgeAt i) = EdgeIs (edges.shape (lookup (sn_Edges s) i))"
  by (simp_all add: nodes.shape_def edges.shape_def ops_props split: option.split)

lemma keeps_both_inj: "keeps_both b s t m \<Longrightarrow> inj f \<Longrightarrow> keeps_both (f b) (f s) (f t) (f m)"
  by (auto simp: keeps_both_def inj_eq)

lemma merge_graphs_keeps_both:
  assumes "\<not> snapshots_disputed b s t"
  shows "keeps_both (observe b x) (observe s x) (observe t x) (observe (fst (merge_graphs b s t)) x)"
proof (cases x)
  case Schema
  then show ?thesis using assms
    by (auto simp: snapshots_disputed_def merge_graphs_parts case_prod_unfold Let_def intro!: keeps_both_inj [OF keeps_both_three_way] injI)
next
  case (NodeAt i)
  then show ?thesis using assms
    by (auto simp: snapshots_disputed_def merge_graphs_parts case_prod_unfold Let_def observe_pval simp del: observe.simps
        intro!: keeps_both_inj [where f = NodeIs] nodes.mergeElements_keeps_both injI)
next
  case (EdgeAt i)
  then show ?thesis using assms
    by (auto simp: snapshots_disputed_def merge_graphs_parts case_prod_unfold Let_def observe_pval simp del: observe.simps
        intro!: keeps_both_inj [where f = EdgeIs] edges.mergeElements_keeps_both injI)
next
  case (NodeProperty i n)
  then show ?thesis using assms
    by (auto simp: snapshots_disputed_def merge_graphs_parts case_prod_unfold Let_def observe_pval simp del: observe.simps
        intro!: keeps_both_inj [where f = PropertyIs] nodes.mergeElements_keeps_both injI)
next
  case (EdgeProperty i n)
  then show ?thesis using assms
    by (auto simp: snapshots_disputed_def merge_graphs_parts case_prod_unfold Let_def observe_pval simp del: observe.simps
        intro!: keeps_both_inj [where f = PropertyIs] edges.mergeElements_keeps_both injI)
qed

lemma keeps_both_is_three_way: "keeps_both b s t m \<Longrightarrow> m = three_way b s t"
  by (auto simp: keeps_both_def three_way_def)

definition schema_broken :: "review_lib \<Rightarrow> Snapshot \<Rightarrow> bool" where
  "schema_broken l s \<longleftrightarrow> gs_Validate l (sn_Schema s) (sn_Nodes s) (sn_Edges s) \<noteq> None"

lemma validateMergedSchema_state:
  assumes "tidy p"
  shows "tidy (validateMergedSchema l s p) \<and> (mp_HasConflicts (validateMergedSchema l s p) \<longleftrightarrow> mp_HasConflicts p \<or> schema_broken l s)"
proof -
  have "tidy (p\<lparr>mp_Violations := v\<rparr>)" for v using assms by (simp add: tidy_def)
  with assms show ?thesis by (auto simp: validateMergedSchema_def schema_broken_def split: option.split)
qed

text \<open>The preview before its lists are sorted.\<close>

definition unsorted_preview :: "review_lib \<Rightarrow> Snapshot \<Rightarrow> Snapshot \<Rightarrow> Snapshot \<Rightarrow> MergePreview" where
  "unsorted_preview l b s t = (case merge_graphs b s t of (m, p) \<Rightarrow> if mp_HasConflicts p then p else validateMergedSchema l m p)"

lemma mergeSnapshots_sorts:
  "mp_HasConflicts (mergeSnapshots l b s t) = mp_HasConflicts (unsorted_preview l b s t)"
  "mp_Conflicts (mergeSnapshots l b s t) = sort_key ct_Token (mp_Conflicts (unsorted_preview l b s t))"
  "mp_Resolutions (mergeSnapshots l b s t) = sort_key rr_Token (mp_Resolutions (unsorted_preview l b s t))"
  by (simp_all add: mergeSnapshots_def unsorted_preview_def case_prod_unfold Let_def sortConflicts_def)

lemma unsorted_preview_state:
  "tidy (unsorted_preview l b s t) \<and>
   (mp_HasConflicts (unsorted_preview l b s t) \<longleftrightarrow> snapshots_disputed b s t \<or> schema_broken l (fst (merge_graphs b s t)))"
  using merge_graphs_state [of b s t] validateMergedSchema_state [of "snd (merge_graphs b s t)" l "fst (merge_graphs b s t)"]
  by (auto simp: unsorted_preview_def case_prod_unfold)

lemma preview_conflicts:
  "mp_HasConflicts (mergeSnapshots l b s t) \<longleftrightarrow> snapshots_disputed b s t \<or> schema_broken l (fst (merge_graphs b s t))"
  "mp_HasConflicts (mergeSnapshots l b s t) \<longleftrightarrow> mp_Conflicts (mergeSnapshots l b s t) \<noteq> []"
  "distinct (map ct_Token (mp_Conflicts (mergeSnapshots l b s t)))"
  "map rr_Token (mp_Resolutions (mergeSnapshots l b s t)) = map ct_Token (mp_Conflicts (mergeSnapshots l b s t))"
  "c \<in> set (mp_Conflicts (mergeSnapshots l b s t)) \<Longrightarrow> named c"
proof -
  note st = unsorted_preview_state [of l b s t]
  show "map rr_Token (mp_Resolutions (mergeSnapshots l b s t)) = map ct_Token (mp_Conflicts (mergeSnapshots l b s t))"
    using st unfolding mergeSnapshots_sorts map_sort_key_is by (simp add: tidy_def)
qed (use unsorted_preview_state [of l b s t] in \<open>auto simp: mergeSnapshots_sorts tidy_def list_all_iff distinct_map\<close>)

end
