(* ===== verification/Review_Finalize_Facts.thy ===== *)
theory Review_Finalize_Facts
  imports Review_Finalize Review_Merge_Facts
begin

text \<open>
  What materializing a reviewed merge yields: without conflicts the merge itself, always and validly; with
  conflicts, at a property in conflict, the value the resolution chose.
\<close>

section \<open>Without conflicts\<close>

lemma unresolved_merge_is: "unresolved_merge b s t = fst (merge_graphs b s t)"
proof -
  have pure: "fst (mergeElements ops k x y z p) = fst (mergeElements ops k x y z q)" for ops :: "'e element_ops" and k x y z p q
  proof -
    have some: "\<exists>m. fst (mergeElements ops k x y z p) = Some m" for p
      by (simp add: mergeElements_def case_prod_unfold)
    obtain m n where mn: "fst (mergeElements ops k x y z p) = Some m" "fst (mergeElements ops k x y z q) = Some n"
      using some by metis
    have "m = n"
      using mergeElements_value [of ops k x y z p _ empty_preview] mergeElements_value [of ops k x y z q _ empty_preview]
      by (intro fmap_ext) (simp add: mn)
    with mn show ?thesis by simp
  qed
  show ?thesis
    using pure [of node_ops] pure [of edge_ops]
    by (auto simp: unresolved_merge_def merge_graphs_parts case_prod_unfold Let_def)
qed

lemma snapshot_Validate_iff:
  "snapshot_Validate l s = Inr u \<longleftrightarrow> sn_Version s = SnapshotVersion \<and> sn_Nodes s \<noteq> None \<and> sn_Edges s \<noteq> None \<and>
     gs_Normalize l (sn_Schema s) = Inr (sn_Schema s) \<and> \<not> schema_broken l s"
  by (auto simp: snapshot_Validate_def schema_broken_def split: option.splits if_splits)

lemma merged_valid:
  assumes "snapshot_Validate l b = Inr ()" and "snapshot_Validate l s = Inr ()" and "snapshot_Validate l t = Inr ()"
    and "\<not> schema_broken l (fst (merge_graphs b s t))"
  shows "snapshot_Validate l (fst (merge_graphs b s t)) = Inr ()"
proof -
  have "sn_Nodes (unresolved_merge b s t) \<noteq> None" "sn_Edges (unresolved_merge b s t) \<noteq> None"
    by (simp_all add: unresolved_merge_def mergeElements_def case_prod_unfold)
  moreover have "sn_Schema (unresolved_merge b s t) \<in> {sn_Schema b, sn_Schema s, sn_Schema t}"
    by (simp add: unresolved_merge_def three_way_def)
  ultimately show ?thesis
    using assms by (auto simp: snapshot_Validate_iff unresolved_merge_is [symmetric]) (simp_all add: unresolved_merge_def)
qed

lemma materialize_clean:
  assumes "\<not> mp_HasConflicts (mergeSnapshots l b s t)"
    and "snapshot_Validate l b = Inr ()" and "snapshot_Validate l s = Inr ()" and "snapshot_Validate l t = Inr ()"
  shows "materializeMerge l j b s t (mergeSnapshots l b s t) [] = Inr (fst (merge_graphs b s t))"
    and "snapshot_Validate l (fst (merge_graphs b s t)) = Inr ()"
proof -
  show valid: "snapshot_Validate l (fst (merge_graphs b s t)) = Inr ()"
    using assms by (intro merged_valid) (simp_all add: preview_conflicts(1))
  then show "materializeMerge l j b s t (mergeSnapshots l b s t) [] = Inr (fst (merge_graphs b s t))"
    by (simp add: materializeMerge_def unresolved_merge_is)
qed

section \<open>Resolutions\<close>

lemma answer_all_Inr:
  "answer_all R rs = Inr L \<Longrightarrow> distinct (map re_Token rs) \<and> set (map re_Token rs) \<subseteq> R \<and> L = R - set (map re_Token rs)"
proof (induction rs arbitrary: R)
  case (Cons r rs)
  then have "re_Token r \<in> R" and "answer_all (R - {re_Token r}) rs = Inr L" by (auto split: if_splits)
  then show ?case using Cons.IH [of "R - {re_Token r}"] by auto
qed simp

lemma validateResolutions_Inr:
  assumes "validateResolutions p rs = Inr u"
  shows "distinct (map re_Token rs)" "set (map re_Token rs) = set (map ct_Token (mp_Conflicts p))"
proof -
  have "answer_all (set (map ct_Token (mp_Conflicts p))) rs = Inr {}"
    using assms by (auto simp: validateResolutions_def Let_def split: if_splits)
  from answer_all_Inr [OF this]
  show "distinct (map re_Token rs)" "set (map re_Token rs) = set (map ct_Token (mp_Conflicts p))" by blast+
qed

text \<open>The place of a property in conflict.\<close>

definition property_place :: "ConflictToken \<Rightarrow> spot" where
  "property_place c = (if ct_Element c = ElementNode then NodeProperty (ct_ElementID c) (ct_Property c)
     else EdgeProperty (ct_ElementID c) (ct_Property c))"


lemma replaceProperty_lookup: "lookup (replaceProperty ps n v) k = (if k = n then v else lookup ps k)"
  by (auto simp: replaceProperty_def lookup_def split: option.splits)

lemma setProperty_observe:
  assumes "setProperty s kind i n v = Inr s'"
  shows "observe s' (if kind = ElementNode then NodeProperty i n else EdgeProperty i n) = PropertyIs v"
    and "x \<noteq> (if kind = ElementNode then NodeProperty i n else EdgeProperty i n) \<Longrightarrow> observe s' x = observe s x"
  using assms
  by (auto simp: setProperty_def lookup_def [of "sn_Nodes s"] lookup_def [of "sn_Edges s"] replaceProperty_lookup
      node_view_def edge_view_def split: if_splits option.splits; cases x;
      auto simp: lookup_def [of "sn_Nodes s"] lookup_def [of "sn_Edges s"] replaceProperty_lookup node_view_def edge_view_def)+


lemma place_of_token:
  assumes "named c" and "named d" and "ct_Type c = ConflictProperty" and "ct_Type d = ConflictProperty"
    and "property_place c = property_place d"
  shows "ct_Token c = ct_Token d"
proof -
  have "ct_Element c = ct_Element d" and "ct_ElementID c = ct_ElementID d" and "ct_Property c = ct_Property d"
    using assms by (cases "ct_Element c"; cases "ct_Element d"; auto simp: property_place_def named_def)+
  with assms show ?thesis by (simp add: named_def)
qed

lemma conflictByToken_SomeD:
  "conflictByToken p t = Some c \<Longrightarrow> c \<in> set (mp_Conflicts p) \<and> ct_Token c = t"
  by (auto simp: conflictByToken_def dest: find_SomeD)

lemma conflictByToken_found:
  "t \<in> set (map ct_Token (mp_Conflicts p)) \<Longrightarrow> \<exists>c. conflictByToken p t = Some c"
  by (cases "conflictByToken p t") (auto simp: conflictByToken_def)

text \<open>A resolution of a property conflict writes its place and no other.\<close>

lemma applyResolution_property:
  assumes "applyResolution j s t (Some c) r m = Inr m'" and "ct_Type c = ConflictProperty"
  shows "\<exists>v. resolutionProperty j s t c r = Inr v \<and> observe m' (property_place c) = PropertyIs v \<and>
     (\<forall>x. x \<noteq> property_place c \<longrightarrow> observe m' x = observe m x)"
proof -
  obtain v where "resolutionProperty j s t c r = Inr v" and "setProperty m (ct_Element c) (ct_ElementID c) (ct_Property c) v = Inr m'"
    using assms by (auto simp: applyResolution_def)
  with setProperty_observe [OF this(2)] show ?thesis by (auto simp: property_place_def)
qed

lemma resolutionProperty_side:
  assumes "resolutionProperty j s t c r = Inr v" and "re_Choice r \<noteq> ''manual''"
  shows "PropertyIs v = observe (if re_Choice r = ''target'' then t else s) (property_place c)"
  using assms
  by (auto simp: resolutionProperty_def propertiesFor_def property_place_def Let_def split: option.splits if_splits)

lemma distinct_map_sort: "distinct (map f xs) \<Longrightarrow> distinct (map f (sort_key g xs))"
  by (simp add: distinct_map)

text \<open>Property conflicts alone, for different places, leave this one as it is.\<close>

lemma later_resolutions_keep:
  assumes "rfold rs m (\<lambda>r m. applyResolution j s t (conflictByToken p (re_Token r)) r m) = Inr m'"
    and "\<And>r. r \<in> set rs \<Longrightarrow> \<exists>c. conflictByToken p (re_Token r) = Some c \<and> ct_Type c = ConflictProperty \<and> property_place c \<noteq> x"
  shows "observe m' x = observe m x"
  using assms
proof (induction rs arbitrary: m)
  case (Cons r rs)
  obtain m1 where one: "applyResolution j s t (conflictByToken p (re_Token r)) r m = Inr m1"
    and rest: "rfold rs m1 (\<lambda>r m. applyResolution j s t (conflictByToken p (re_Token r)) r m) = Inr m'"
    using Cons.prems(1) by auto
  obtain c where c: "conflictByToken p (re_Token r) = Some c" "ct_Type c = ConflictProperty" "property_place c \<noteq> x"
    using Cons.prems(2) [of r] by auto
  have "observe m1 x = observe m x"
    using applyResolution_property [OF one [unfolded c(1)] c(2)] c(3) by auto
  moreover have "observe m' x = observe m1 x" by (rule Cons.IH [OF rest Cons.prems(2)]) simp
  ultimately show ?case by simp
qed simp

lemma rfold_append: "rfold (xs @ ys) a f = rbind (rfold xs a f) (\<lambda>b. rfold ys b f)"
proof (induction xs arbitrary: a)
  case (Cons x xs)
  then show ?case by (cases "f x a") auto
qed simp

lemma property_resolved:
  assumes run: "materializeMerge l j b s t p rs = Inr m"
    and named: "\<And>c. c \<in> set (mp_Conflicts p) \<Longrightarrow> named c"
    and valid: "validateResolutions p rs = Inr ()"
    and r: "r \<in> set rs" and c: "c \<in> set (mp_Conflicts p)" "ct_Token c = re_Token r" "distinct (map ct_Token (mp_Conflicts p))"
    and kind: "ct_Type c = ConflictProperty" and side: "re_Choice r \<noteq> ''manual''"
  shows "observe m (property_place c) = observe (if re_Choice r = ''target'' then t else s) (property_place c)"
proof -
  let ?rs = "sort_key (resolution_key p) rs"
  let ?apply = "\<lambda>r m. applyResolution j s t (conflictByToken p (re_Token r)) r m"
  have cr: "conflictByToken p (re_Token r) = Some c"
  proof -
    obtain d where d: "conflictByToken p (re_Token r) = Some d"
      using conflictByToken_found [of "ct_Token c" p] c(1,2) by (metis image_eqI set_map)
    have "inj_on ct_Token (set (mp_Conflicts p))" using c(3) by (simp add: distinct_map)
    then have "d = c" using conflictByToken_SomeD [OF d] c(1,2) by (simp add: inj_on_def)
    with d show ?thesis by simp
  qed
  have "\<not> cardinality_only p"
    using c(1) kind by (auto simp: cardinality_only_def split: list.splits)
  then have fold: "rfold ?rs (unresolved_merge b s t) ?apply = Inr m"
    using run by (auto simp: materializeMerge_def)
  obtain xs ys where split: "?rs = xs @ r # ys" using r by (metis set_sort split_list)
  obtain m1 m2 where one: "applyResolution j s t (Some c) r m1 = Inr m2" and rest: "rfold ys m2 ?apply = Inr m"
    using fold unfolding split rfold_append by (auto simp: cr)
  have "observe m (property_place c) = observe m2 (property_place c)"
  proof (rule later_resolutions_keep [OF rest])
    fix y assume y: "y \<in> set ys"
    have "resolution_key p r \<le> resolution_key p y"
      using sorted_sort_key [of "resolution_key p" rs] y unfolding split by (auto simp: sorted_append)
    moreover have "re_Token y \<in> set (map ct_Token (mp_Conflicts p))"
    proof -
      have "y \<in> set rs" using y set_sort [of "resolution_key p" rs] unfolding split by auto
      then have "re_Token y \<in> set (map re_Token rs)" by simp
      then show ?thesis unfolding validateResolutions_Inr(2) [OF valid] .
    qed
    then obtain d where d: "conflictByToken p (re_Token y) = Some d" using conflictByToken_found by blast
    ultimately have dp: "ct_Type d = ConflictProperty"
      using kind by (auto simp: resolution_key_def cr resolutionRank_def Let_def split: if_splits)
    have "distinct (map re_Token (xs @ r # ys))"
      using validateResolutions_Inr(1) [OF valid] unfolding split [symmetric]
      by (metis distinct_map_sort)
    then have "re_Token r \<notin> re_Token ` set ys" by simp
    then have "re_Token y \<noteq> re_Token r" using y by (metis image_eqI)
    then have "property_place d \<noteq> property_place c"
      using place_of_token [OF named named, of d c] conflictByToken_SomeD [OF d] c kind dp by auto
    with d dp show "\<exists>c'. conflictByToken p (re_Token y) = Some c' \<and> ct_Type c' = ConflictProperty \<and> property_place c' \<noteq> property_place c"
      by blast
  qed
  also have "\<dots> = observe (if re_Choice r = ''target'' then t else s) (property_place c)"
    using applyResolution_property [OF one kind] resolutionProperty_side [OF _ side] by metis
  finally show ?thesis .
qed

end
