(* ===== verification/Review_Claims.thy ===== *)
theory Review_Claims
  imports Review_Finalize_Facts Effects
begin

text \<open>
  What reviewers rely on: a merge without conflicts is the three-way merge, conflicts are reported exactly
  where the branches disagree, a resolution is honoured, and only valid snapshots come out.
\<close>

text \<open>C5: A merge without conflicts refines the three-way merge. For valid snapshots whose preview has no
  conflict, materializing always succeeds, and with a valid snapshot; what is to be seen in it - the schema,
  the structure of every element, every property - is the pointwise three-way merge: each change either
  branch made is there, and nothing else differs from the base.\<close>

theorem clean_merge_is_three_way:
  assumes "snapshot_Validate l b = Inr ()" and "snapshot_Validate l s = Inr ()" and "snapshot_Validate l t = Inr ()"
    and "\<not> mp_HasConflicts (mergeSnapshots l b s t)"
  shows "\<exists>m. materializeMerge l j b s t (mergeSnapshots l b s t) [] = Inr m \<and> snapshot_Validate l m = Inr () \<and>
    observe m = (\<lambda>x. three_way (observe b x) (observe s x) (observe t x)) \<and>
    (\<forall>x. keeps_both (observe b x) (observe s x) (observe t x) (observe m x))"
proof -
  have "keeps_both (observe b x) (observe s x) (observe t x) (observe (fst (merge_graphs b s t)) x)" for x
    by (rule merge_graphs_keeps_both) (use assms(4) in \<open>simp add: preview_conflicts(1)\<close>)
  then show ?thesis
    using materialize_clean [OF assms(4,1,2,3)] keeps_both_is_three_way by fastforce
qed

lemma disputed_spot:
  assumes "disputed (observe b x) (observe s x) (observe t x)"
  shows "snapshots_disputed b s t"
  by (rule ccontr) (use merge_graphs_keeps_both [of b s t x] assms in \<open>auto simp: disputed_def keeps_both_def\<close>)


text \<open>C29: A resolution is honoured. When a merge is materialized with an accepted set of resolutions, every property
  in conflict that was resolved for the source or for the target has that branch's value (or its absence),
  whatever the other resolutions are and in whatever order they were sent.\<close>

theorem property_resolution_is_honoured:
  assumes "p = mergeSnapshots l b s t" and "validateResolutions p rs = Inr ()" and "materializeMerge l j b s t p rs = Inr m"
    and "r \<in> set rs" and "c \<in> set (mp_Conflicts p)" and "ct_Token c = re_Token r" and "ct_Type c = ConflictProperty"
    and "re_Choice r \<noteq> ''manual''"
  shows "observe m (property_place c) = observe (if re_Choice r = ''target'' then t else s) (property_place c)"
proof (rule property_resolved [OF assms(3) _ assms(2,4,5,6) _ assms(7,8)])
  show "named c" if "c \<in> set (mp_Conflicts p)" for c
    using that unfolding assms(1) by (rule preview_conflicts(5))
  show "distinct (map ct_Token (mp_Conflicts p))" unfolding assms(1) by (rule preview_conflicts(3))
qed

lemma decoded_valid: "DecodeSnapshotObject l data = Inr s \<Longrightarrow> snapshot_Validate l s = Inr ()"
  by (auto simp: DecodeSnapshotObject_def DecodeSnapshotCBOR_def Let_def split: if_splits)


end
