(* ===== verification/Review_Apply.thy ===== *)
theory Review_Apply
  imports Review_Claims Sync_Push_Done
begin

text \<open>
  The review service over the server's content store and database: a preview reads only, and an applied
  merge is stored and published whole.
\<close>

section \<open>The engine of the server\<close>

definition rack_merge_store :: "world merge_store" where
  "rack_merge_store = \<lparr>
     ms_SetTenantContext = SetTenantContext,
     ms_GetBranchRef = (\<lambda>c r b. on_db (GetBranchRef c r b)),
     ms_IsAncestor = (\<lambda>c r a i. on_db (IsAncestor c r a i)),
     ms_FindLowestCommonAncestor = (\<lambda>c r a b. on_db (FindLowestCommonAncestor c r a b)),
     ms_GetCommitSnapshotRoot = (\<lambda>c r i. on_db (GetCommitSnapshotRoot c r i)),
     ms_GetCommitMetadata = Some (\<lambda>c r i. on_db (GetCommitMetadata c r i)),
     ms_AcquireMergeLease = (\<lambda>c q. on_db (AcquireMergeLease c q)),
     ms_ValidateMergeLease = (\<lambda>c r b s t. on_db (ValidateMergeLease c r b s t)),
     ms_ReleaseMergeLease = (\<lambda>c r b s t. on_db (ReleaseMergeLease c r b s t)),
     ms_ApplyMerge = (\<lambda>c q. on_db (ApplyMerge c q)),
     ms_CompareAndSwapBranchRef = (\<lambda>c r b e n. on_db (CompareAndSwapBranchRef c r b e n))\<rparr>"

definition rack_finalizer :: "cas_ext \<Rightarrow> path \<Rightarrow> world finalize_engine" where
  "rack_finalizer y d = NewFinalizeEngine (on_db go_now) (Some (rack_driver y d)) (Some rack_merge_store)"

lemma rack_merge_store_simps [simp]:
  "ms_SetTenantContext rack_merge_store = SetTenantContext"
  "ms_GetBranchRef rack_merge_store = (\<lambda>c r b. on_db (GetBranchRef c r b))"
  "ms_IsAncestor rack_merge_store = (\<lambda>c r a i. on_db (IsAncestor c r a i))"
  "ms_FindLowestCommonAncestor rack_merge_store = (\<lambda>c r a b. on_db (FindLowestCommonAncestor c r a b))"
  "ms_GetCommitMetadata rack_merge_store = Some (\<lambda>c r i. on_db (GetCommitMetadata c r i))"
  "ms_AcquireMergeLease rack_merge_store = (\<lambda>c q. on_db (AcquireMergeLease c q))"
  "ms_ValidateMergeLease rack_merge_store = (\<lambda>c r b s t. on_db (ValidateMergeLease c r b s t))"
  "ms_ReleaseMergeLease rack_merge_store = (\<lambda>c r b s t. on_db (ReleaseMergeLease c r b s t))"
  "ms_ApplyMerge rack_merge_store = (\<lambda>c q. on_db (ApplyMerge c q))"
  "ms_CompareAndSwapBranchRef rack_merge_store = (\<lambda>c r b e n. on_db (CompareAndSwapBranchRef c r b e n))"
  by (simp_all add: rack_merge_store_def)

lemma rack_finalizer_simps [simp]:
  "fe_objects (rack_finalizer y d) = Some (rack_driver y d)" "fe_store (rack_finalizer y d) = Some rack_merge_store"
  "fe_now (rack_finalizer y d) = on_db go_now"
  by (simp_all add: rack_finalizer_def NewFinalizeEngine_def)

section \<open>Reading\<close>

text \<open>Reads leave the tables and the environment as they are.\<close>

interpretation same_tabs: session "\<lambda>_. True" "\<lambda>_ _. True" "\<lambda>t t'. t' = t"
  by unfold_locales simp_all

context session
begin

lemma collect_ok: "ok (collectMergeAncestry rid i)"
  unfolding collectMergeAncestry_def by (intro ok_intros)

lemma FindLowestCommonAncestor_ok: "tenantIDFromContext c = Some T \<Longrightarrow> op_ok T (FindLowestCommonAncestor c rid a b)"
  unfolding FindLowestCommonAncestor_def
  by (intro op_with_tenant op_intros; (erule op_tx)?; (intro ok_intros collect_ok)?) simp_all

lemma ValidateMergeLease_ok: "tenantIDFromContext c = Some T \<Longrightarrow> op_ok T (ValidateMergeLease c rid b s tk)"
  unfolding ValidateMergeLease_def by (intro op_with_tenant op_intros; (erule op_tx)?; (intro ok_intros)?) simp_all

end

definition w_reads :: "world \<Rightarrow> world \<Rightarrow> bool" where
  "w_reads w w' \<longleftrightarrow> tabs (w_db w') = tabs (w_db w) \<and> env (w_db w') = env (w_db w)"

interpretation rd: state_order w_reads
  by unfold_locales (simp_all add: w_reads_def)

lemma reads_db: "same_tabs.op_ok T m \<Longrightarrow> steps w_reads (on_db m)"
  unfolding steps_def w_reads_def same_tabs.op_ok_def same_tabs.kept_def by (simp add: on_simps)

lemma reads_fs: "steps w_reads (on_fs m)"
  by (simp add: steps_def w_reads_def)

lemma go_now_reads: "steps w_reads (on_db go_now)"
  by (simp add: steps_def w_reads_def go_now_def)

lemma store_reads:
  assumes T: "tenantIDFromContext c = Some T"
  shows "steps w_reads (on_db (GetBranchRef c rid b))" "steps w_reads (on_db (IsAncestor c rid a i))"
    "steps w_reads (on_db (FindLowestCommonAncestor c rid a i))" "steps w_reads (on_db (GetCommitMetadata c rid i))"
    "steps w_reads (on_db (ValidateMergeLease c rid b s tk))"
  by (rule reads_db, (rule same_tabs.GetBranchRef_ok same_tabs.IsAncestor_ok same_tabs.GetCommitMetadata_ok
      same_tabs.FindLowestCommonAncestor_ok same_tabs.ValidateMergeLease_ok), rule T)+

lemma driver_reads:
  "steps w_reads (drv_Get (rack_driver y d) c sc h)" "steps w_reads (drv_Put (rack_driver y d) c sc h v)"
  "steps w_reads (drv_WritePack (rack_driver y d) c sc h r)"
  by (simp_all add: rack_driver_def reads_fs)

lemma resolve_ends_reads: "tenantIDFromContext c = Some T \<Longrightarrow> steps w_reads (resolve_ends rack_merge_store c rid a b)"
  unfolding resolve_ends_def resolveCommitIdentity_def rack_merge_store_simps option.case
  by (intro rd.steps_intro store_reads)

lemma load_three_reads: "steps w_reads (load_three l (drv_Get (rack_driver y d)) c sc p q r)"
  unfolding load_three_def DecodeSnapshot_def option.case case_prod_unfold by (intro rd.steps_intro driver_reads)

lemma same_tables:
  assumes "w_reads w w'"
  shows "head_of (w_db w') = head_of (w_db w)" "is_ancestor_of (tenant_view T (w_db w')) = is_ancestor_of (tenant_view T (w_db w))"
proof -
  have v: "vis (tenant_view T (w_db w')) = vis (tenant_view T (w_db w))" for T
    by (rule vis_cong) (use assms in \<open>simp_all add: w_reads_def tenant_view_def\<close>)
  show "head_of (w_db w') = head_of (w_db w)"
    by (intro ext) (use v assms in \<open>simp add: head_of_def find_branch_def w_reads_def tenant_view_def\<close>)
  show "is_ancestor_of (tenant_view T (w_db w')) = is_ancestor_of (tenant_view T (w_db w))"
    using assms unfolding is_ancestor_of_def known_links_def parent_links_def links_def commit_ids_def v
    by (simp add: w_reads_def tenant_view_def fun_eq_iff)
qed

lemma metadata_id:
  assumes "GetCommitMetadata c rid i w = (Inr md, w')" and T: "tenantIDFromContext c = Some T"
  shows "md_ID md = i"
  using assms by (auto simp: GetCommitMetadata_def with_tenant_Some [OF T] stmt_inv elim!: withTenantTx_Inr [OF _ T])

text \<open>Nor do they touch what is stored.\<close>

abbreviation stored_objects :: "cas_ext \<Rightarrow> path \<Rightarrow> world \<Rightarrow> scope \<Rightarrow> string \<Rightarrow> bytes option" where
  "stored_objects y d w \<equiv> local_object y d (w_fs w)"

lemma objects_db: "leaves (stored_objects y d) (on_db m)"
  by (simp add: steps_def)

lemma objects_get: "leaves (stored_objects y d) (drv_Get (rack_driver y d) c sc h)"
  by (simp add: steps_def rack.get_keeps)

lemma load_three_objects: "leaves (stored_objects y d) (load_three l (drv_Get (rack_driver y d)) c sc p q r)"
  unfolding load_three_def DecodeSnapshot_def option.case case_prod_unfold by (intro same.steps_intro objects_get)

lemma resolve_ends_objects: "leaves (stored_objects y d) (resolve_ends rack_merge_store c rid a b)"
  unfolding resolve_ends_def resolveCommitIdentity_def rack_merge_store_simps option.case
  by (intro same.steps_intro objects_db)

lemma fe_preview_objects: "leaves (stored_objects y d) (fe_preview l (rack_finalizer y d) c t rid a b)"
  unfolding fe_preview_def PreviewMerge_def NewPreviewEngine_def rack_finalizer_simps option.map option.case case_prod_unfold fst_conv snd_conv
  by (intro same.steps_intro resolve_ends_objects load_three_objects)

text \<open>What the ends of a preview are.\<close>

lemma resolve_ends_Inr:
  assumes run: "resolve_ends rack_merge_store c rid a b w = (Inr (bc, sc, tc, ff), w')" and T: "tenantIDFromContext c = Some T"
  shows "w_reads w w' \<and> head_of (w_db w) T rid a = Some (rc_ID sc) \<and> head_of (w_db w) T rid b = Some (rc_ID tc) \<and>
    (ff \<longrightarrow> is_ancestor_of (tenant_view T (w_db w)) rid (rc_ID tc) (rc_ID sc))"
proof -
  obtain s t w1 w2 w3 w4 w5 w6 base where a: "on_db (GetBranchRef c rid a) w = (Inr s, w1)"
    and b: "on_db (GetBranchRef c rid b) w1 = (Inr t, w2)" and anc: "on_db (IsAncestor c rid t s) w2 = (Inr ff, w3)"
    and m: "resolveCommitIdentity rack_merge_store c rid s w5 = (Inr sc, w6)"
    and n: "resolveCommitIdentity rack_merge_store c rid t w6 = (Inr tc, w')"
    using run by (auto simp: resolve_ends_def run_inv simp del: elift_iff)
  have w1: "w_reads w w1" using a by (rule stepsD [OF store_reads(1) [OF T]])
  have w2: "w_reads w w2" using w1 stepsD [OF store_reads(1) [OF T] b] by (rule rd.trans)
  have "head_of (w_db w) T rid a = Some s" using a GetBranchRef_head [OF _ T] by (auto simp: on_db_iff)
  moreover have "head_of (w_db w) T rid b = Some t"
    using b same_tables(1) [OF w1] by (auto simp: on_db_iff dest!: GetBranchRef_head [OF _ T])
  moreover have "rc_ID sc = s" "rc_ID tc = t"
    using m n by (auto simp: resolveCommitIdentity_def run_inv on_db_iff simp del: elift_iff dest!: metadata_id [OF _ T])
  moreover have "ff \<longrightarrow> is_ancestor_of (tenant_view T (w_db w)) rid t s"
    using anc same_tables(2) [OF w2, of T] by (auto simp: on_db_iff dest!: IsAncestor_reach [OF _ T])
  ultimately show ?thesis using stepsD [OF resolve_ends_reads [OF T] run] by simp
qed

lemma fe_preview_Inr:
  assumes run: "fe_preview l (rack_finalizer y d) c0 t rid a b w = (Inr p, w')"
  shows "w_reads w w' \<and> head_of (w_db w) t rid a = Some (rc_ID (mp_SourceCommit p)) \<and>
    head_of (w_db w) t rid b = Some (rc_ID (mp_TargetCommit p)) \<and>
    (mp_CanFastForward p \<longrightarrow> is_ancestor_of (tenant_view t (w_db w)) rid (rc_ID (mp_TargetCommit p)) (rc_ID (mp_SourceCommit p)))"
proof -
  obtain c sc bc src tc ff w1 bs ss ts where c: "SetTenantContext c0 t = Inr c"
    and ends: "resolve_ends rack_merge_store c rid a b w = (Inr (bc, src, tc, ff), w1)"
    and load: "load_three l (drv_Get (rack_driver y d)) c sc bc src tc w1 = (Inr (bs, ss, ts), w')"
    and p: "p = (mergeSnapshots l bs ss ts)\<lparr>mp_SourceBranch := a, mp_TargetBranch := b,
        mp_BaseCommit := bc, mp_SourceCommit := src, mp_TargetCommit := tc, mp_CanFastForward := ff\<rparr>"
    using run by (auto simp: fe_preview_def PreviewMerge_def NewPreviewEngine_def run_inv simp del: elift_iff split: if_splits)
  have T: "tenantIDFromContext c = Some t" by (rule tenant_of_context [OF c])
  have "w_reads w w'" using stepsD [OF resolve_ends_reads [OF T] ends] stepsD [OF load_three_reads load] by (rule rd.trans)
  then show ?thesis using resolve_ends_Inr [OF ends T] p by simp
qed


section \<open>Applying\<close>

text \<open>A merge commit is published only after its snapshot and its pack are in the content store.\<close>

lemma publish_merge_Inr:
  assumes run: "publish_merge x l (rack_finalizer y d) (rack_driver y d) rack_merge_store c sc rid q p m w = (Inr res, w')"
  shows "\<exists>data pack w1 now. MarshalSnapshot l m = Inr data \<and> w_reads w w1 \<and>
    as_Branch res = aq_TargetBranch q \<and> \<not> as_FastForward res \<and> as_SnapshotRoot res = ContentID x data \<and> as_PackHash res = ContentID x pack \<and>
    ApplyMerge c (apply_request rid q p (as_HeadCommit res) (ContentID x data) (ContentID x pack) now) (w_db w1) = (Inr (), w_db w') \<and>
    local_object y d (w_fs w') sc (ContentID x data) \<noteq> None \<and>
    (local_object y d (w_fs w) sc (ContentID x data) = None \<longrightarrow> local_object y d (w_fs w') sc (ContentID x data) = Some data) \<and>
    local_pack y d (w_fs w') sc (ContentID x pack) \<noteq> None"
proof -
  obtain data ti si now cid pack w1 w2 w3 u1 u2 where data: "MarshalSnapshot l m = Inr data"
    and clock: "on_db go_now w = (Inr now, w1)"
    and put: "drv_Put (rack_driver y d) c sc (ContentID x data) data w1 = (Inr u1, w2)"
    and pack: "drv_WritePack (rack_driver y d) c sc (ContentID x pack) \<lparr>rd_data = pack, rd_err = None\<rparr> w2 = (Inr u2, w3)"
    and app: "on_db (ApplyMerge c (apply_request rid q p cid (ContentID x data) (ContentID x pack) now)) w3 = (Inr (), w')"
    and res: "res = \<lparr>as_Branch = aq_TargetBranch q, as_HeadCommit = cid, as_FastForward = False,
        as_SnapshotRoot = ContentID x data, as_PackHash = ContentID x pack\<rparr>"
    using run by (auto simp: publish_merge_def run_inv simp del: elift_iff split: prod.splits)
  have "w_reads w w3"
    using stepsD [OF go_now_reads clock] stepsD [OF driver_reads(2) put] stepsD [OF driver_reads(3) pack] rd.trans by blast
  moreover have fs: "w_fs w1 = w_fs w" "w_fs w' = w_fs w3"
    using stepsD [OF leaves_on(2) clock] stepsD [OF leaves_on(2) app] by simp_all
  moreover have "local_object y d (w_fs w2) sc (ContentID x data) \<noteq> None"
    "local_object y d (w_fs w1) sc (ContentID x data) = None \<longrightarrow> local_object y d (w_fs w2) sc (ContentID x data) = Some data"
    using rack.put_ok [OF put] by blast+
  moreover have "\<And>v. local_object y d (w_fs w2) sc (ContentID x data) = Some v \<Longrightarrow> local_object y d (w_fs w3) sc (ContentID x data) = Some v"
    by (rule rack.object_kept [OF _ rack.WritePack_grows [OF pack]])
  moreover have "local_pack y d (w_fs w3) sc (ContentID x pack) \<noteq> None" using pack by (rule rack.write_present)
  moreover have "ApplyMerge c (apply_request rid q p cid (ContentID x data) (ContentID x pack) now) (w_db w3) = (Inr (), w_db w')"
    using app by (auto simp: on_db_iff)
  ultimately show ?thesis using data res by (intro exI [of _ data] exI [of _ pack] exI [of _ w3] exI [of _ now]) auto
qed

lemma three_way_publishes:
  assumes rest: "merge_three_way x l j (rack_finalizer y d) (rack_driver y d) rack_merge_store c t rid q p w1 = (Inr res, w')"
    and T: "tenantIDFromContext c = Some t"
  obtains sc m data pack w4 now where "NewScope t rid = Inr sc" "MarshalSnapshot l m = Inr data" "w_reads w1 w4" "\<not> as_FastForward res"
    "as_SnapshotRoot res = ContentID x data" "as_PackHash res = ContentID x pack"
    "ApplyMerge c (apply_request rid q p (as_HeadCommit res) (ContentID x data) (ContentID x pack) now) (w_db w4) = (Inr (), w_db w')"
    "local_object y d (w_fs w') sc (ContentID x data) \<noteq> None"
    "local_object y d (w_fs w1) sc (ContentID x data) = None \<longrightarrow> local_object y d (w_fs w') sc (ContentID x data) = Some data"
    "local_pack y d (w_fs w') sc (ContentID x pack) \<noteq> None"
proof -
  obtain lease sc w2 b s tg m w3 where val: "on_db (ValidateMergeLease c rid (aq_TargetBranch q) (aq_Subject q) (aq_LeaseToken q)) w1 = (Inr lease, w2)"
    and sc: "NewScope t rid = Inr sc"
    and load: "load_three l (drv_Get (rack_driver y d)) c sc (mp_BaseCommit p) (mp_SourceCommit p) (mp_TargetCommit p) w2 = (Inr (b, s, tg), w3)"
    and pub: "publish_merge x l (rack_finalizer y d) (rack_driver y d) rack_merge_store c sc rid q p m w3 = (Inr res, w')"
    using rest by (auto simp: merge_three_way_def run_inv simp del: elift_iff split: prod.splits)
  have r3: "w_reads w1 w3" using stepsD [OF store_reads(5) [OF T] val] stepsD [OF load_three_reads load] rd.trans by blast
  have objs: "local_object y d (w_fs w3) = local_object y d (w_fs w1)" using stepsD [OF objects_db val] stepsD [OF load_three_objects load] by simp
  obtain data pack w4 now where p: "MarshalSnapshot l m = Inr data" "w_reads w3 w4" "\<not> as_FastForward res"
    "as_SnapshotRoot res = ContentID x data" "as_PackHash res = ContentID x pack"
    "ApplyMerge c (apply_request rid q p (as_HeadCommit res) (ContentID x data) (ContentID x pack) now) (w_db w4) = (Inr (), w_db w')"
    "local_object y d (w_fs w') sc (ContentID x data) \<noteq> None"
    "local_object y d (w_fs w3) sc (ContentID x data) = None \<longrightarrow> local_object y d (w_fs w') sc (ContentID x data) = Some data"
    "local_pack y d (w_fs w') sc (ContentID x pack) \<noteq> None"
    using publish_merge_Inr [OF pub] by (elim exE conjE) (rule that; assumption)
  show thesis by (rule that [OF sc p(1) rd.trans [OF r3 p(2)] p(3-7) _ p(9)]) (use p(8) objs in simp)
qed

text \<open>C6: An applied merge is what its result says. When \<open>Apply\<close> succeeds, the source and the target branch had
  heads, the target branch now stands at the reported commit, and every other branch stands where it stood.
  A fast forward moved it to the source's head, a descendant of the old head. Otherwise the commit is a new
  one with the old head and the source's head as its parents, in this order; it was authorised by a lease of
  the caller for these very commits; and its snapshot, a valid one, and its pack are in the content
  store.\<close>

theorem applied_merge_is_whole:
  assumes run: "Apply x l j (Some (rack_finalizer y d)) (Some c0) t rid q w = (Inr res, w')"
    and rls: "env_rls (env (w_db w))" and refs: "refs_ok (tabs (w_db w))"
  shows "\<exists>src tgt. head_of (w_db w) t rid (aq_SourceBranch q) = Some src \<and> head_of (w_db w) t rid (aq_TargetBranch q) = Some tgt \<and>
    (\<forall>rid' b. head_of (w_db w') t rid' b =
       (if rid' = rid \<and> b = aq_TargetBranch q then Some (as_HeadCommit res) else head_of (w_db w) t rid' b)) \<and>
    (if as_FastForward res then as_HeadCommit res = src \<and> is_ancestor_of (tenant_view t (w_db w)) rid tgt src
     else \<not> has_commit (tabs (w_db w)) t rid (as_HeadCommit res) \<and>
       parents_of (tenant_view t (w_db w')) rid (as_HeadCommit res) = [tgt, src] \<and>
       (\<exists>ls \<in> set (merge_leases (tabs (w_db w))). l_tenant ls = t \<and> l_repo ls = rid \<and> l_branch ls = aq_TargetBranch q \<and>
          l_subject ls = aq_Subject q \<and> l_token ls = aq_LeaseToken q \<and> l_source ls = src \<and> l_target ls = tgt) \<and>
       (\<exists>sc m data. NewScope t rid = Inr sc \<and> snapshot_Validate l m = Inr () \<and> MarshalSnapshot l m = Inr data \<and>
          as_SnapshotRoot res = ContentID x data \<and> local_object y d (w_fs w') sc (as_SnapshotRoot res) \<noteq> None \<and>
          (local_object y d (w_fs w) sc (as_SnapshotRoot res) = None \<longrightarrow> local_object y d (w_fs w') sc (as_SnapshotRoot res) = Some data) \<and>
          local_pack y d (w_fs w') sc (as_PackHash res) \<noteq> None))"
proof -
  obtain p w1 c where pre: "fe_preview l (rack_finalizer y d) c0 t rid (aq_SourceBranch q) (aq_TargetBranch q) w = (Inr p, w1)"
    and c: "SetTenantContext c0 t = Inr c"
    and rest: "(if mp_CanFastForward p then fast_forward rack_merge_store c rid q p
        else merge_three_way x l j (rack_finalizer y d) (rack_driver y d) rack_merge_store c t rid q p) w1 = (Inr res, w')"
    using run by (auto simp: Apply_def run_inv simp del: elift_iff split: if_splits)
  have T: "tenantIDFromContext c = Some t" by (rule tenant_of_context [OF c])
  note ends = fe_preview_Inr [OF pre]
  let ?src = "rc_ID (mp_SourceCommit p)" and ?tgt = "rc_ID (mp_TargetCommit p)"
  show ?thesis
  proof (cases "mp_CanFastForward p")
    case True
    then have cas: "CompareAndSwapBranchRef c rid (aq_TargetBranch q) ?tgt ?src (w_db w1) = (Inr (), w_db w')"
      and res: "as_HeadCommit res = ?src" "as_FastForward res"
      using rest by (auto simp: fast_forward_def run_inv on_db_iff simp del: elift_iff)
    show ?thesis
      using cas_success [OF cas T] ends True res same_tables(1) [of w w1] by (intro exI [of _ ?src] exI [of _ ?tgt]) simp
  next
    case False
    then have three: "merge_three_way x l j (rack_finalizer y d) (rack_driver y d) rack_merge_store c t rid q p w1 = (Inr res, w')" using rest by simp
    obtain sc m data pack w4 now where sc: "NewScope t rid = Inr sc" and data: "MarshalSnapshot l m = Inr data" and r4: "w_reads w1 w4"
      and ff: "\<not> as_FastForward res" and ids: "as_SnapshotRoot res = ContentID x data" "as_PackHash res = ContentID x pack"
      and app: "ApplyMerge c (apply_request rid q p (as_HeadCommit res) (ContentID x data) (ContentID x pack) now) (w_db w4) = (Inr (), w_db w')"
      and stored: "local_object y d (w_fs w') sc (ContentID x data) \<noteq> None"
        "local_object y d (w_fs w1) sc (ContentID x data) = None \<longrightarrow> local_object y d (w_fs w') sc (ContentID x data) = Some data"
        "local_pack y d (w_fs w') sc (ContentID x pack) \<noteq> None"
      by (rule three_way_publishes [OF three T])
    have objs: "local_object y d (w_fs w1) = local_object y d (w_fs w)" using stepsD [OF fe_preview_objects pre] by simp
    have r: "w_reads w w4" using ends r4 rd.trans by blast
    then have st: "tabs (w_db w4) = tabs (w_db w)" "env (w_db w4) = env (w_db w)" by (simp_all add: w_reads_def)
    let ?q = "apply_request rid q p (as_HeadCommit res) (ContentID x data) (ContentID x pack) now"
    have q: "am_RepoID ?q = rid" "am_TargetBranch ?q = aq_TargetBranch q" "am_ResultCommitID ?q = as_HeadCommit res"
      "am_TargetCommitID ?q = ?tgt" "am_SourceCommitID ?q = ?src" "am_Subject ?q = aq_Subject q" "am_LeaseToken ?q = aq_LeaseToken q"
      by (simp_all add: apply_request_def)
    note eff = apply_merge_effect [OF app T, unfolded st q same_tables(1) [OF r], OF rls refs]
    have "snapshot_Validate l m = Inr ()" using data by (auto simp: MarshalSnapshot_def MarshalSnapshotCBOR_def newSnapshotEnvelope_def)
    moreover have "(w_db w')\<lparr>guc := Some t\<rparr> = tenant_view t (w_db w')" by (simp add: tenant_view_def)
    ultimately show ?thesis
      using eff ends ff ids sc data stored unfolding objs lease_matches_def q
      by (intro exI [of _ ?src] exI [of _ ?tgt]) auto
  qed
qed

end
