(* ===== verification/Sync_Pull_Claims.thy ===== *)
theory Sync_Pull_Claims
  imports Sync_Pull_Facts Sync_Envelope_Facts Review_Apply
begin

text \<open>
  The properties of the pull: a plan is complete and in dependency order, planning ends, and the envelope is
  accepted exactly when it is what the manifest and complete packs determine.
\<close>

section \<open>Plans\<close>

lemma plan_run:
  assumes "planPullDAG n x ord e c sc repoID known initial w = (Inr (Some rs), w')" and ord: "\<And>xs. set (ord xs) = set xs"
  obtains g where "planned x e c sc g" and "orderPullPacks g = Inr rs" and "rg_PackHash ` set initial \<subseteq> set (selected g)"
    and "\<forall>(r, frame) \<in> set (dg_packs g). \<forall>cf \<in> set (pf_Commits frame). \<forall>p \<in> set (merge_parents cf). covered e c repoID known g p"
proof -
  let ?g0 = "\<lparr>dg_packs = [], dg_commits = []\<rparr> :: pull_dag"
  from assms(1) obtain g w1 where g: "dag_rounds n x ord e c sc repoID known [] initial ?g0 w = (Inr (Some g), w1)"
    and rs: "orderPullPacks g = Inr rs"
    by (auto simp: planPullDAG_def ebind_Inr_iff elift_Inr_iff simp del: elift_iff split: option.splits)
  have "planned x e c sc ?g0" by (simp add: planned_def dag_ok_def frames_recorded_def selected_def)
  from rounds_run [OF ord g this] rs show ?thesis by (intro that) auto
qed

text \<open>C12: A pull plan is complete and in dependency order. The packs of a plan are distinct and contain the ranges from
  the branch head down to the known commit; each was read from the content store, where its bytes have its hash,
  they decode to a valid frame, and the frame's ends are those of its range; every merge parent of a commit of
  the plan is a commit of the plan, or the known commit, or an ancestor of it according to the metadata; and
  every pack comes after the packs that hold parents of its commits.\<close>

theorem pull_plan_is_complete_and_ordered:
  assumes "planPullDAG n x ord e c sc repoID known initial w = (Inr (Some rs), w')" and "\<And>xs. set (ord xs) = set xs"
  shows "\<exists>g. mset rs = mset (map fst (dg_packs g)) \<and> distinct (map rg_PackHash rs) \<and> rg_PackHash ` set initial \<subseteq> rg_PackHash ` set rs \<and>
    (\<forall>(r, frame) \<in> set (dg_packs g).
       (\<exists>v v'. readV2PackFrame x e c sc r v = (Inr frame, v')) \<and>
       (\<forall>cf \<in> set (pf_Commits frame). \<exists>i. frame_Identity x cf = Inr i \<and> map_of (dg_commits g) i = Some (rg_PackHash r)) \<and>
       (\<forall>cf \<in> set (pf_Commits frame). \<forall>p \<in> set (merge_parents cf). covered e c repoID known g p)) \<and>
    (\<forall>ys r zs. rs = ys @ r # zs \<longrightarrow> (\<forall>a. (a, rg_PackHash r) \<in> needs g \<longrightarrow> a \<in> rg_PackHash ` set ys))"
proof -
  obtain g where g: "planned x e c sc g" and rs: "orderPullPacks g = Inr rs" and sel: "rg_PackHash ` set initial \<subseteq> set (selected g)"
    and cov: "\<forall>(r, frame) \<in> set (dg_packs g). \<forall>cf \<in> set (pf_Commits frame). \<forall>p \<in> set (merge_parents cf). covered e c repoID known g p"
    using plan_run [OF assms] by blast
  have ok: "dag_ok g" and rec: "frames_recorded x e c sc g" using g by (simp_all add: planned_def)
  note sound = order_sound [OF ok rs]
  have hashes: "mset (map rg_PackHash rs) = mset (selected g)"
  proof -
    have "mset (map rg_PackHash rs) = image_mset rg_PackHash (mset (map fst (dg_packs g)))" by (simp only: mset_map sound(1))
    also have "\<dots> = mset (selected g)" by (simp add: selected_def case_prod_unfold image_mset.compositionality comp_def)
    finally show ?thesis .
  qed
  have d: "distinct (map rg_PackHash rs)" using ok mset_eq_imp_distinct_iff [OF hashes] by (simp add: dag_ok_def)
  have s: "rg_PackHash ` set initial \<subseteq> rg_PackHash ` set rs" using sel mset_eq_setD [OF hashes] by simp
  have first: "\<forall>ys r zs. rs = ys @ r # zs \<longrightarrow> (\<forall>a. (a, rg_PackHash r) \<in> needs g \<longrightarrow> a \<in> rg_PackHash ` set ys)"
  proof (intro allI impI)
    fix ys r zs a assume "rs = ys @ r # zs" and a: "(a, rg_PackHash r) \<in> needs g"
    then have "map rg_PackHash rs = map rg_PackHash ys @ rg_PackHash r # map rg_PackHash zs" by simp
    from sound(2) [unfolded supplied_first_def deps_first_def, rule_format, OF this] a show "a \<in> rg_PackHash ` set ys" by auto
  qed
  have frames: "\<forall>(r, frame) \<in> set (dg_packs g).
       (\<exists>v v'. readV2PackFrame x e c sc r v = (Inr frame, v')) \<and>
       (\<forall>cf \<in> set (pf_Commits frame). \<exists>i. frame_Identity x cf = Inr i \<and> map_of (dg_commits g) i = Some (rg_PackHash r)) \<and>
       (\<forall>cf \<in> set (pf_Commits frame). \<forall>p \<in> set (merge_parents cf). covered e c repoID known g p)"
    using rec cov unfolding frames_recorded_def by blast
  show ?thesis by (intro exI [of _ g] conjI sound(1) d s frames first)
qed

text \<open>Ordering the packs fails exactly on a cycle: with distinct packs and every recorded commit in one of them,
  the order is an error if and only if the relation "holds a parent of a commit of" has a cycle, and the error
  is \<open>ErrInvalidPullEnvelope\<close>.\<close>

theorem pull_order_fails_only_on_cycles:
  assumes "distinct (selected g)" and "snd ` set (dg_commits g) \<subseteq> set (selected g)"
  shows "case orderPullPacks g of
      Inl err \<Rightarrow> \<not> acyclic (needs g) \<and> err_is err (Sync ErrInvalidPullEnvelope)
    | Inr rs \<Rightarrow> acyclic (needs g) \<and> mset rs = mset (map fst (dg_packs g))"
proof (cases "orderPullPacks g")
  case (Inl err)
  have "err_is err (Sync ErrInvalidPullEnvelope)"
    using Inl by (auto simp: orderPullPacks_alt invalid_envelope_def split: if_splits)
  with Inl order_complete [OF _ Inl] assms show ?thesis by (simp add: dag_ok_def)
next
  case (Inr rs)
  with order_sound [OF _ Inr] assms show ?thesis by (simp add: dag_ok_def)
qed

section \<open>Planning over the server's store\<close>

lemma range_levels_hd: "range_levels w rid known n rows = Some out \<Longrightarrow> out = [] \<and> rows = [] \<or> hd out \<in> set rows"
  by (cases rows; cases n) auto

lemma pack_chain_head_target:
  assumes "pack_chain w rid head known n = Some rs" and "rs \<noteq> []"
  shows "rg_TargetCommitID (hd rs) = head \<and> head \<in> pr_target ` set (pack_ranges (tabs w))"
proof -
  obtain out where out: "range_levels w rid known n
      (filter (\<lambda>r. vis w (pr_tenant r) \<and> pr_repo r = rid \<and> pr_target r = head) (pack_ranges (tabs w))) = Some out" and rs: "rs = map pack_range out"
    using assms(1) by (auto simp: pack_chain_def)
  with assms(2) have "hd out \<in> set (filter (\<lambda>r. vis w (pr_tenant r) \<and> pr_repo r = rid \<and> pr_target r = head) (pack_ranges (tabs w)))"
    using range_levels_hd [OF out] by auto
  moreover have "hd rs = pack_range (hd out)" using rs assms(2) by (simp add: hd_map)
  ultimately show ?thesis by (auto simp: pack_range_def)
qed

context session
begin

lemma GetPackRanges_ok: "tenantIDFromContext c = Some T \<Longrightarrow> op_ok T (GetPackRanges c rid head known)"
  unfolding GetPackRanges_def
  by (intro op_with_tenant op_intros; (erule op_tx)?; (intro ok_intros ok_sql)?) (auto split: option.splits simp: R_refl)

end

lemma GetPackRanges_head:
  assumes "GetPackRanges c rid head known w = (Inr rs, w')" and T: "tenantIDFromContext c = Some T" and "rs \<noteq> []"
  shows "head \<in> pr_target ` set (pack_ranges (tabs w))"
proof -
  have "pack_chain (in_tx T w) rid head known (Suc (length (pack_ranges (tabs w)))) = Some rs"
    using assms(1) by (auto simp: GetPackRanges_def with_tenant_Some [OF T] ewrap_Inr_iff sql_Inr split: option.splits elim!: withTenantTx_Inr [OF _ T])
  from pack_chain_head_target [OF this assms(3)] show ?thesis by simp
qed

lemma with_tenant_None: "tenantIDFromContext c = None \<Longrightarrow>
    with_tenant c s f w = (Inl (Wrapf s (Wrapf ''postgres: tenant context'' (Pg ErrMissingTenantContext))), w)"
  by (simp add: with_tenant_def requireTenantID_def ebind_def elift_def rwrap_def)

text \<open>The pull engine of the server: its reads keep the tables, whose range targets bound the planning.\<close>

definition rack_puller :: "cas_ext \<Rightarrow> path \<Rightarrow> (commit \<Rightarrow> goerr + commit) \<Rightarrow> world pull_engine" where
  "rack_puller y d nrm = NewPullEngine (rack_driver y d) (rack_store nrm)"

lemma store_reads_always:
  "steps w_reads (on_db (IsAncestor c rid a b))" "steps w_reads (on_db (GetPackRanges c rid p k))"
  "steps w_reads (on_db (GetBranchRef c rid n))"
proof -
  show "steps w_reads (on_db (GetBranchRef c rid n))"
  proof (cases "tenantIDFromContext c")
    case None
    then show ?thesis
      by (simp add: GetBranchRef_def with_tenant_None steps_def on_db_def w_reads_def)
  qed (rule store_reads)
  show "steps w_reads (on_db (IsAncestor c rid a b))"
  proof (cases "tenantIDFromContext c")
    case None
    then show ?thesis
      by (simp add: IsAncestor_def with_tenant_None steps_def on_db_def w_reads_def)
  qed (rule store_reads)
  show "steps w_reads (on_db (GetPackRanges c rid p k))"
  proof (cases "tenantIDFromContext c")
    case None
    then show ?thesis
      by (simp add: GetPackRanges_def with_tenant_None steps_def on_db_def w_reads_def)
  qed (rule reads_db, rule same_tabs.GetPackRanges_ok)
qed

lemma reads_keep_tables: "steps w_reads m \<Longrightarrow> steps (\<lambda>w w'. tabs (w_db w) = t \<longrightarrow> tabs (w_db w') = t) m"
  by (simp add: steps_def w_reads_def)

interpretation rack_pull: pull_source "rack_puller y d nrm" c sc rid "\<lambda>w. tabs (w_db w) = t" "pr_target ` set (pack_ranges t)"
  for y d nrm c sc rid t
proof unfold_locales
  show "finite (pr_target ` set (pack_ranges t))" by simp
  show "steps (\<lambda>w w'. tabs (w_db w) = t \<longrightarrow> tabs (w_db w') = t) (drv_OpenPack (pl_driver (rack_puller y d nrm)) c sc h)" for h
    by (simp add: steps_def rack_puller_def NewPullEngine_def rack_driver_def)
  show "steps (\<lambda>w w'. tabs (w_db w) = t \<longrightarrow> tabs (w_db w') = t) (bs_IsAncestor (pl_store (rack_puller y d nrm)) c rid a b)" for a b
    using reads_keep_tables [OF store_reads_always(1)] by (simp add: rack_puller_def NewPullEngine_def rack_store_def)
  show "steps (\<lambda>w w'. tabs (w_db w) = t \<longrightarrow> tabs (w_db w') = t) (bs_GetPackRanges (pl_store (rack_puller y d nrm)) c rid p k)" for p k
    using reads_keep_tables [OF store_reads_always(2)] by (simp add: rack_puller_def NewPullEngine_def rack_store_def)
  show "p \<in> pr_target ` set (pack_ranges t)" if "tabs (w_db w) = t" and
    run: "bs_GetPackRanges (pl_store (rack_puller y d nrm)) c rid p '''' w = (Inr rs, w')" and "rs \<noteq> []" for w p rs w'
  proof -
    from run obtain s where s: "GetPackRanges c rid p '''' (w_db w) = (Inr rs, s)"
      by (auto simp: rack_puller_def NewPullEngine_def rack_store_def on_db_iff)
    then obtain T where "tenantIDFromContext c = Some T"
      by (cases "tenantIDFromContext c") (simp_all add: GetPackRanges_def with_tenant_None)
    from GetPackRanges_head [OF s this \<open>rs \<noteq> []\<close>] that(1) show ?thesis by simp
  qed
qed

text \<open>\<open>m\<close> returns a value or an error, never \<open>None\<close>, in the states with \<open>I\<close>.\<close>

definition settles :: "('w \<Rightarrow> bool) \<Rightarrow> ('w, 'a option) eff \<Rightarrow> bool" where
  "settles I m \<longleftrightarrow> (\<forall>w. I w \<longrightarrow> fst (m w) \<noteq> Inr None)"

lemma settles_ebind:
  assumes "steps (\<lambda>w w'. I w \<longrightarrow> I w') m" and "\<And>x. settles I (f x)"
  shows "settles I (ebind m f)"
  unfolding settles_def
proof (intro allI impI)
  fix w assume I: "I w"
  show "fst (ebind m f w) \<noteq> Inr None"
  proof (cases "m w")
    case (Pair r w1)
    then have "I w1" using stepsD [OF assms(1)] I by blast
    then show ?thesis using assms(2) Pair by (cases r) (auto simp: ebind_def settles_def)
  qed
qed

lemma settles_Some: "settles I (eret (Some x))"
  by (simp add: settles_def eret_def)

lemma settles_if: "settles I m \<Longrightarrow> settles I n \<Longrightarrow> settles I (if b then m else n)"
  by simp

lemma settles_map: "settles I m \<Longrightarrow> settles I (ebind m (\<lambda>r. eret (map_option f r)))"
  by (fastforce simp: settles_def ebind_def eret_def split: prod.splits sum.splits)

text \<open>Over the server's own store, planning a pull always ends: with one round more than there are registered pack
  ranges, \<open>PreparePull\<close> never runs out of rounds, whatever the history, the packs and the failures.\<close>

theorem pull_planning_ends:
  assumes "length (pack_ranges (tabs (w_db w))) < n"
  shows "fst (PreparePull n x ord (rack_puller y d nrm) c0 q w) \<noteq> Inr None"
proof -
  let ?t = "tabs (w_db w)"
  let ?I = "\<lambda>w. tabs (w_db w) = ?t"
  have "card (pr_target ` set (pack_ranges ?t)) < n"
    using assms card_image_le [of "set (pack_ranges ?t)" pr_target] card_length [of "pack_ranges ?t"] by simp
  then have plan: "settles ?I (planPullDAG n x ord (rack_puller y d nrm) c sc (plq_RepoID q) known rs)" for c sc known rs
    using rack_pull.planning_ends unfolding settles_def by blast
  have "settles ?I (PreparePull n x ord (rack_puller y d nrm) c0 q)"
    unfolding PreparePull_def check_known_def
    by (intro settles_map settles_if settles_Some plan settles_ebind keeping.steps_intro rack_pull.ranges_keeps rack_pull.ancestor_keeps
        reads_keep_tables)
      (simp add: rack_puller_def NewPullEngine_def rack_store_def store_reads_always)
  then show ?thesis by (simp add: settles_def)
qed

section \<open>The envelope\<close>

lemma envelope_iff:
  "UnmarshalPullEnvelopeV2 x v data = Inr (m, packs) \<longleftrightarrow>
   (\<exists>md frames. cbor_dec_manifest v md = Inr m \<and> MarshalPullManifestV2 v m = Inr md \<and> length md < 2 ^ 64 \<and>
      data = envelope_header (length md) @ md @ concat packs \<and>
      length packs = length frames \<and> list_all2 (pack_ok x) (pm_Packs m) (zip packs frames) \<and>
      complete_frames x (pm_Head m) frames)"
  (is "?lhs \<longleftrightarrow> ?rhs")
proof
  assume ?lhs
  let ?n = "get_be (take 8 (drop 8 data))" and ?rest = "drop pullEnvelopeHeaderSize data"
  let ?start = "\<lambda>n. \<lparr>es_rest = drop n ?rest, es_packs = [], es_frames = [], es_commits = [], es_heads = 0\<rparr> :: envelope_scan"
  from \<open>?lhs\<close> have h: "pullEnvelopeHeaderSize \<le> length data" "take 4 data = pullEnvelopeMagic"
    "get_be (take 4 (drop 4 data)) = unat PullEnvelopeFormatV2" and fits: "?n \<le> length ?rest"
    by (auto simp: UnmarshalPullEnvelopeV2_def Let_def split: if_splits)
  with \<open>?lhs\<close> obtain s where md: "UnmarshalPullManifestV2 v (take ?n ?rest) = Inr m"
    and s: "rfold (pm_Packs m) (?start ?n) (scan_pack x (pm_Head m)) = Inr s"
    and post: "es_rest s = []" "es_heads s = 1" "at_head (pm_Head m) (last (es_frames s))"
      "check_merge_parents (es_commits s) (es_frames s) = Inr ()" "packs = es_packs s"
    by (auto simp: UnmarshalPullEnvelopeV2_def Let_def at_head_def split: if_splits)
  from s obtain dfs where ok: "list_all2 (pack_ok x) (pm_Packs m) dfs" and sc: "scanned x (pm_Head m) (?start ?n) dfs s"
    unfolding scan_packs by blast
  from sc have p: "packs = map fst dfs" "es_frames s = map snd dfs" "drop ?n ?rest = concat (map fst dfs)"
    "length (filter (at_head (pm_Head m)) (map snd dfs)) = 1"
    using post by (auto simp: scanned_def filter_map)
  have "pm_Packs m \<noteq> []" using md manifest_has_packs unfolding unmarshal_manifest by blast
  with ok have "dfs \<noteq> []" by auto
  then have only: "\<forall>f \<in> set (butlast (map snd dfs)). \<not> at_head (pm_Head m) f"
    using one_head [of "map snd dfs" "pm_Head m"] p(2,4) post(3) by simp
  have "complete_frames x (pm_Head m) (map snd dfs)"
    using sc post p(1,2) only unfolding complete_frames_def check_merge_parents_iff
    by (auto simp: scanned_def comp_def)
  moreover have "length (take ?n ?rest) = ?n" using fits by simp
  moreover have "data = envelope_header ?n @ take ?n ?rest @ concat packs"
    using header_of_parts [OF h] p(1,3) by (metis append_take_drop_id)
  moreover have "zip packs (map snd dfs) = dfs" using p(1) by (simp add: zip_map_fst_snd)
  ultimately show ?rhs
    using md ok p(1) get_be_8 [of "drop 8 data"] unfolding unmarshal_manifest
    by (intro exI [of _ "take ?n ?rest"] exI [of _ "map snd dfs"]) simp
next
  assume ?rhs
  then obtain md frames where md: "UnmarshalPullManifestV2 v md = Inr m" "length md < 2 ^ 64"
    and data: "data = envelope_header (length md) @ md @ concat packs" and len: "length packs = length frames"
    and ok: "list_all2 (pack_ok x) (pm_Packs m) (zip packs frames)" and full: "complete_frames x (pm_Head m) frames"
    unfolding unmarshal_manifest by blast
  from full obtain ids where ids: "rmap (frame_Identity x) (concat (map pf_Commits frames)) = Inr ids" "distinct ids"
    "\<forall>f \<in> set frames. \<forall>cf \<in> set (pf_Commits f). set (merge_parents cf) \<subseteq> set ids"
    and fs: "frames \<noteq> []" "at_head (pm_Head m) (last frames)" "\<forall>f \<in> set (butlast frames). \<not> at_head (pm_Head m) f"
    unfolding complete_frames_def by blast
  let ?start = "\<lparr>es_rest = concat packs, es_packs = [], es_frames = [], es_commits = [], es_heads = 0\<rparr> :: envelope_scan"
  let ?fin = "\<lparr>es_rest = [], es_packs = packs, es_frames = frames, es_commits = rev ids, es_heads = 1\<rparr> :: envelope_scan"
  have "map fst (zip packs frames) = packs" "map snd (zip packs frames) = frames" using len by simp_all
  moreover have "map (pf_Commits \<circ> snd) (zip packs frames) = map pf_Commits frames" by (metis calculation(2) map_map)
  moreover have "length (filter (at_head (pm_Head m) \<circ> snd) (zip packs frames)) = 1"
    using one_head [OF fs(1,2)] fs(3) by (metis calculation(2) filter_map length_map)
  ultimately have "scanned x (pm_Head m) ?start (zip packs frames) ?fin" using ids(1,2) unfolding scanned_def comp_def by simp
  with ok have "rfold (pm_Packs m) ?start (scan_pack x (pm_Head m)) = Inr ?fin" unfolding scan_packs by blast
  moreover have "check_merge_parents (rev ids) frames = Inr ()" using ids(3) by (simp add: check_merge_parents_iff)
  ultimately show ?lhs
    using md fs(2) unfolding data UnmarshalPullEnvelopeV2_def Let_def header_parts(1,2) header_parts(3) [OF md(2)]
    by (simp add: length_header at_head_def)
qed

text \<open>C23: The pull envelope is unambiguous. \<open>UnmarshalPullEnvelopeV2\<close> returns manifest \<open>m\<close> and packs for some bytes
  if and only if the bytes are the 16-byte header, the canonical encoding of \<open>m\<close> and the packs in order; each
  pack has the length, hash and format the manifest says, is within 64 MiB and decodes to a valid frame; and the
  frames hold distinct commits, contain the merge parents of these, and only the last ends at the head.\<close>

theorem pull_envelope_is_unambiguous:
  "UnmarshalPullEnvelopeV2 x v data = Inr (m, packs) \<longleftrightarrow>
   (\<exists>md frames. cbor_dec_manifest v md = Inr m \<and> MarshalPullManifestV2 v m = Inr md \<and> length md < 2 ^ 64 \<and>
      data = envelope_header (length md) @ md @ concat packs \<and>
      length packs = length frames \<and> list_all2 (pack_ok x) (pm_Packs m) (zip packs frames) \<and>
      complete_frames x (pm_Head m) frames)"
  by (rule envelope_iff)

text \<open>What streaming writes: each pack as the content store delivers it, checked against the manifest.\<close>

definition appends :: "('w \<Rightarrow> bytes) \<Rightarrow> 'w zstd_writer \<Rightarrow> bool" where
  "appends sent z \<longleftrightarrow> (\<forall>w u w'. zw_new z w = (Inr u, w') \<longrightarrow> sent w' = []) \<and>
     (\<forall>b w u w'. zw_write z b w = (Inr u, w') \<longrightarrow> sent w' = sent w @ b) \<and>
     (\<forall>w u w'. zw_close z w = (Inr u, w') \<longrightarrow> sent w' = sent w)"

lemma stream_packs_sent:
  assumes "efor (zip ps rs) (stream_pack x z e c sc) w = (Inr u, w')" and len: "length ps = length rs"
    and z: "appends sent z" and drv: "\<And>h. leaves sent (drv_OpenPack (pl_driver e) c sc h)"
  shows "\<exists>datas. sent w' = sent w @ concat datas \<and> list_all2 (\<lambda>p d. pp_Length p = word_of_nat (length d) \<and> ContentID x d = pp_Hash p) ps datas"
  using assms(1) len
proof (induction ps arbitrary: rs w)
  case (Cons p ps)
  then obtain r rs' where rs: "rs = r # rs'" by (cases rs) auto
  with Cons.prems obtain w1 v where one: "stream_pack x z e c sc (p, r) w = (Inr v, w1)"
    and rest: "efor (zip ps rs') (stream_pack x z e c sc) w1 = (Inr u, w')" by (auto simp: ebind_Inr_iff)
  from one obtain rd wo where op: "drv_OpenPack (pl_driver e) c sc (rg_PackHash r) w = (Inr rd, wo)"
    and wr: "\<exists>t. zw_write z (rd_data rd) wo = (Inr t, w1)" and all: "read_all rd = Inr d \<Longrightarrow> d = rd_data rd" 
    and chk: "pp_Length p = word_of_nat (length (rd_data rd)) \<and> ContentID x (rd_data rd) = pp_Hash p" for d
    by (fastforce simp: stream_pack_def run_inv read_all_def simp del: elift_iff split: option.splits)
  have "sent w1 = sent w @ rd_data rd" using stepsD [OF drv op] wr z unfolding appends_def by metis
  with Cons.IH [OF rest] Cons.prems(2) rs obtain datas where "sent w' = sent w @ concat (rd_data rd # datas)"
    "list_all2 (\<lambda>p d. pp_Length p = word_of_nat (length d) \<and> ContentID x d = pp_Hash p) ps datas" by auto
  with chk show ?case by (intro exI [of _ "rd_data rd # datas"]) auto
qed auto

text \<open>What a pull streams is the envelope of its manifest. When \<open>StreamPullWithManifest\<close> succeeds, over a writer
  that appends and a content store that does not touch it, the bytes sent are the header, the canonical manifest
  and one block of bytes per pack, each with the length and the hash the manifest says.\<close>

theorem streamed_bytes_are_the_envelope:
  assumes "StreamPullWithManifest x v z e c plan m w = (Inr u, w')"
    and "appends sent z" and "\<And>h. leaves sent (drv_OpenPack (pl_driver e) c (pn_Scope plan) h)"
  shows "\<exists>md datas. MarshalPullManifestV2 v m = Inr md \<and> sent w' = envelope_header (length md) @ md @ concat datas \<and>
    list_all2 (\<lambda>p d. pp_Length p = word_of_nat (length d) \<and> ContentID x d = pp_Hash p) (pm_Packs m) datas \<and>
    map pp_Hash (pm_Packs m) = map rg_PackHash (pn_Ranges plan)"
proof -
  have closing_Inr: "closing z q a = (Inr b, a') \<longleftrightarrow> q a = (Inr b, a')" for q :: "('a, unit) eff" and a b a'
    by (auto simp: closing_def ecatch_def ebind_def etry_def efail_def split: prod.splits sum.splits)
  from assms(1) obtain w1 w2 w3 w4 md u1 u2 u3 u4 where matches: "pullManifestMatchesPlan v m plan = Inr ()"
    and new: "zw_new z w = (Inr u1, w1)" and md: "MarshalPullManifestV2 v m = Inr md"
    and hd: "zw_write z (envelope_header (length md)) w1 = (Inr u2, w2)" and mw: "zw_write z md w2 = (Inr u3, w3)"
    and packs: "efor (zip (pm_Packs m) (pn_Ranges plan)) (stream_pack x z e c (pn_Scope plan)) w3 = (Inr u4, w4)"
    and cl: "zw_close z w4 = (Inr u, w')"
    by (auto simp: StreamPullWithManifest_def run_inv closing_Inr simp del: elift_iff)
  from matches have len: "length (pm_Packs m) = length (pn_Ranges plan)"
    and each: "\<forall>(p, r) \<in> set (zip (pm_Packs m) (pn_Ranges plan)). pp_Hash p = rg_PackHash r"
    by (auto simp: pullManifestMatchesPlan_def rfor_Inr_iff split: if_splits)
  from stream_packs_sent [OF packs len assms(2,3)] obtain datas where d: "sent w4 = sent w3 @ concat datas"
    "list_all2 (\<lambda>p d. pp_Length p = word_of_nat (length d) \<and> ContentID x d = pp_Hash p) (pm_Packs m) datas" by blast
  have "sent w' = envelope_header (length md) @ md @ concat datas"
    using assms(2) new hd mw cl d(1) unfolding appends_def by (metis append.assoc append_Nil)
  moreover have "map pp_Hash (pm_Packs m) = map rg_PackHash (pn_Ranges plan)"
  proof -
    have "list_all2 (\<lambda>p r. pp_Hash p = rg_PackHash r) (pm_Packs m) (pn_Ranges plan)" using len each by (simp add: list_all2_iff)
    then show ?thesis by (induction rule: list_all2_induct) auto
  qed
  ultimately show ?thesis using md d(2) by blast
qed

end
