(* ===== verification/Sync_Pull_Samples.thy ===== *)
theory Sync_Pull_Samples
  imports Sync_Pull_Claims Sync_Samples
begin

text \<open>
  A pull of one pack from the sample server, and the stream of its envelope.
\<close>

section \<open>Planning\<close>

definition sample_range :: PackRange where
  "sample_range = \<lparr>rg_PackHash = zero_id, rg_BaseCommitID = head_id, rg_TargetCommitID = zero_id, rg_Format = 2\<rparr>"

abbreviation pulled_frame :: PackFrame where "pulled_frame \<equiv> push_frame 2 head_id"

lemma calm_OpenPack:
  assumes "calm f" and "ctx_err c = None"
  shows "\<exists>f'. OpenPack push_cas d c sc zero_id f = (Inr \<lparr>rd_data = [], rd_err = None\<rparr>, f') \<and> calm f'"
proof -
  have check: "ctx_check c = eret ()" using assms(2) by (simp add: ctx_check_def)
  show ?thesis
    using assms(1)
    by (simp add: OpenPack_def check zero_valid zero_hash zero_paths eff_run os_read_file_def os_noop_def os_call_def calm_def Let_def)
      (simp add: push_cas_def)
qed

lemma sample_read:
  "\<exists>f. readV2PackFrame (push_lib pulled_frame) (rack_puller push_cas push_root Inr) push_ctx sc sample_range push_world =
     (Inr pulled_frame, push_world\<lparr>w_fs := f\<rparr>)"
proof -
  obtain f where f: "OpenPack push_cas push_root push_ctx sc zero_id push_fs = (Inr \<lparr>rd_data = [], rd_err = None\<rparr>, f)"
    using calm_OpenPack [OF sample_calm, of push_ctx] by (auto simp: push_ctx_def)
  have un: "unmarshal_pack (push_lib pulled_frame) 2 [] = Inr pulled_frame"
    using sample_unmarshal [of 2 head_id] sample_ids by (simp add: normalizePackFormat_def)
  have fr: "pf_Base pulled_frame = V2CommitIdentity head_id" "pf_Target pulled_frame = V2CommitIdentity zero_id" by (simp_all add: push_frame_def)
  show ?thesis
    by (simp add: readV2PackFrame_def sample_range_def rack_puller_def NewPullEngine_def rack_driver_def eff_run on_fs_def push_world_def f
        read_limited_def MaxV2PackBytes_def sample_content un fr V2CommitIdentity_def PackFormatV2_def)
qed

lemma sample_dag:
  "\<exists>w'. planPullDAG 2 (push_lib pulled_frame) (\<lambda>xs. xs) (rack_puller push_cas push_root Inr) push_ctx sc ''r'' head_id [sample_range] push_world
    = (Inr (Some [sample_range]), w')"
proof -
  obtain f where rd: "readV2PackFrame (push_lib pulled_frame) (rack_puller push_cas push_root Inr) push_ctx sc sample_range push_world =
     (Inr pulled_frame, push_world\<lparr>w_fs := f\<rparr>)" using sample_read by blast
  have fr: "pf_Commits pulled_frame = [push_commit_frame head_id]" by (simp add: push_frame_def)
  have merge: "merge_parents (push_commit_frame head_id) = []" by (simp add: merge_parents_def push_commit_frame_def)
  have parents: "cf_Parents (push_commit_frame head_id) = [V2CommitIdentity head_id]" by (simp add: push_commit_frame_def)
  have id: "frame_Identity (push_lib pulled_frame) (push_commit_frame head_id) = Inr (V2CommitIdentity zero_id)"
    using sample_identity(3) sample_ids by simp
  have ne: "V2CommitIdentity head_id \<noteq> V2CommitIdentity zero_id" using sample_ids by (simp add: V2CommitIdentity_def)
  show ?thesis
    by (simp add: planPullDAG_def numeral_2_eq_2 selected_def ebind_def rd fr claim_commit_def id elift_def missing_parents_def merge eret_def
        orderPullPacks_def pack_dependencies_def parents ne released_def release_def split: prod.splits)
qed

theorem pull_plan_is_complete_and_ordered_witness:
  "\<exists>g :: pull_dag. mset [sample_range] = mset (map fst (dg_packs g)) \<and> (\<forall>(r, frame) \<in> set (dg_packs g).
    \<exists>v v'. readV2PackFrame (push_lib pulled_frame) (rack_puller push_cas push_root Inr) push_ctx no_scope r v = (Inr frame, v'))"
proof -
  obtain w' where "planPullDAG 2 (push_lib pulled_frame) (\<lambda>xs. xs) (rack_puller push_cas push_root Inr) push_ctx no_scope ''r'' head_id
    [sample_range] push_world = (Inr (Some [sample_range]), w')" using sample_dag by blast
  from pull_plan_is_complete_and_ordered [OF this refl] obtain g where
    m: "mset [sample_range] = mset (map fst (dg_packs g))" and
    a: "\<forall>(r, frame) \<in> set (dg_packs g). (\<exists>v v'. readV2PackFrame (push_lib pulled_frame) (rack_puller push_cas push_root Inr) push_ctx no_scope r v = (Inr frame, v')) \<and>
      (\<forall>cf \<in> set (pf_Commits frame). \<exists>i. frame_Identity (push_lib pulled_frame) cf = Inr i \<and> map_of (dg_commits g) i = Some (rg_PackHash r)) \<and>
      (\<forall>cf \<in> set (pf_Commits frame). \<forall>p \<in> set (merge_parents cf). covered (rack_puller push_cas push_root Inr) push_ctx ''r'' head_id g p)"
    by (elim exE conjE)
  have "\<forall>(r, frame) \<in> set (dg_packs g). \<exists>v v'. readV2PackFrame (push_lib pulled_frame) (rack_puller push_cas push_root Inr) push_ctx no_scope r v = (Inr frame, v')"
    using a by fast
  with m show ?thesis by blast
qed

text \<open>Two packs that need each other.\<close>

definition merge_of :: "string \<Rightarrow> CommitFrameV2" where
  "merge_of p = \<lparr>cf_Version = 2, cf_Parents = [V2CommitIdentity p], cf_SnapshotRoot = '''', cf_Author = '''', cf_Message = '''', cf_Time = 0\<rparr>"

definition knot :: pull_dag where
  "knot = \<lparr>dg_packs = map (\<lambda>(a, b). (\<lparr>rg_PackHash = a, rg_BaseCommitID = '''', rg_TargetCommitID = a, rg_Format = 2\<rparr>,
      \<lparr>pf_Version = 2, pf_Base = no_base, pf_Target = V2CommitIdentity a, pf_Commits = [merge_of b], pf_Objects = []\<rparr>)) [(''a'', ''b''), (''b'', ''a'')],
     dg_commits = [(V2CommitIdentity ''a'', ''a''), (V2CommitIdentity ''b'', ''b'')]\<rparr>"

theorem pull_order_fails_only_on_cycles_witness: "\<not> acyclic (needs knot)"
proof -
  have "orderPullPacks knot = Inl (invalid_envelope ''pack dependency cycle'')"
    by (simp add: orderPullPacks_def knot_def pack_dependencies_def merge_of_def V2CommitIdentity_def)
  moreover have "distinct (selected knot)" "snd ` set (dg_commits knot) \<subseteq> set (selected knot)" by (simp_all add: knot_def selected_def)
  ultimately show ?thesis using pull_order_fails_only_on_cycles [of knot] by simp
qed

theorem pull_planning_ends_witness:
  "fst (PreparePull 1 (push_lib pulled_frame) (\<lambda>xs. xs) (rack_puller push_cas push_root Inr) push_ctx
     \<lparr>plq_TenantID = tenant_uuid, plq_RepoID = ''r'', plq_Branch = ''main'', plq_KnownCommit = ''''\<rparr> push_world) \<noteq> Inr None"
  by (rule pull_planning_ends) (simp add: push_world_def push_db_def push_tabs_def)

section \<open>Streaming\<close>

text \<open>A writer into a list of bytes, and a content store whose packs are all empty.\<close>

definition list_writer :: "bytes zstd_writer" where
  "list_writer = \<lparr>zw_new = (\<lambda>_. (Inr (), [])), zw_write = (\<lambda>b w. (Inr (), w @ b)), zw_close = eret ()\<rparr>"

definition empty_packs :: "bytes cas_driver" where
  "empty_packs = \<lparr>drv_Put = (\<lambda>_ _ _ _. eret ()), drv_Get = (\<lambda>_ _ _. eret []), drv_Exists = (\<lambda>_ _ _. eret True),
     drv_OpenPack = (\<lambda>_ _ _. eret \<lparr>rd_data = [], rd_err = None\<rparr>), drv_WritePack = (\<lambda>_ _ _ _. eret ()),
     drv_WriteAsset = (\<lambda>_ _ _ _. eret 0), drv_OpenAsset = (\<lambda>_ _ _. eret (\<lparr>rd_data = [], rd_err = None\<rparr>, 0)),
     drv_AssetExists = (\<lambda>_ _ _. eret True), drv_DeletePack = None\<rparr>"

definition no_metadata :: "bytes branch_store" where
  "no_metadata = \<lparr>bs_SetTenantContext = (\<lambda>c _. Inr c), bs_PutCommit = (\<lambda>_ _ _ _. eret ()), bs_PutPackRange = (\<lambda>_ _ _ _ _. eret ()),
     bs_GetCommitMetadata = (\<lambda>_ _ _. efail (Pg ErrCommitNotFound)), bs_GetBranchRef = (\<lambda>_ _ _. efail (Pg ErrBranchNotFound)),
     bs_IsAncestor = (\<lambda>_ _ _ _. eret False), bs_GetPackRanges = (\<lambda>_ _ _ _. eret []), bs_CompareAndSwapBranchRef = (\<lambda>_ _ _ _ _. eret ()),
     bs_PutCommitWithFormat = None, bs_PutPackRangeWithFormat = None, bs_CreateBranch = None\<rparr>"

definition sample_manifest :: PullManifest where
  "sample_manifest = \<lparr>pm_Version = 2, pm_Head = zero_id, pm_Packs = [\<lparr>pp_Hash = zero_id, pp_Format = 2, pp_Length = 0\<rparr>]\<rparr>"

definition manifest_bytes :: manifest_lib where
  "manifest_bytes = \<lparr>cbor_enc_manifest = (\<lambda>_. Inr [7]), cbor_dec_manifest = (\<lambda>_. Inr sample_manifest)\<rparr>"

definition sample_plan :: PullPlan where
  "sample_plan = \<lparr>pn_Head = zero_id, pn_Scope = no_scope, pn_Ranges = [sample_range]\<rparr>"

theorem streamed_bytes_are_the_envelope_witness:
  "\<exists>md datas. MarshalPullManifestV2 manifest_bytes sample_manifest = Inr md \<and>
     snd (StreamPullWithManifest (push_lib pulled_frame) manifest_bytes list_writer (NewPullEngine empty_packs no_metadata) push_ctx
       sample_plan sample_manifest []) = envelope_header (length md) @ md @ concat datas"
proof -
  have md: "MarshalPullManifestV2 manifest_bytes sample_manifest = Inr [7]"
    using sample_ids by (simp add: MarshalPullManifestV2_def manifest_validate_def sample_manifest_def manifest_bytes_def
        PullEnvelopeFormatV2_def PackFormatV2_def)
  have ok: "pullManifestMatchesPlan manifest_bytes sample_manifest sample_plan = Inr ()"
    by (simp add: pullManifestMatchesPlan_def md) (simp add: sample_manifest_def sample_plan_def sample_range_def PackFormatV2_def)
  have pk: "zip (pm_Packs sample_manifest) (pn_Ranges sample_plan) = [(\<lparr>pp_Hash = zero_id, pp_Format = 2, pp_Length = 0\<rparr>, sample_range)]"
    by (simp add: sample_manifest_def sample_plan_def)
  obtain w' where run: "StreamPullWithManifest (push_lib pulled_frame) manifest_bytes list_writer (NewPullEngine empty_packs no_metadata) push_ctx
       sample_plan sample_manifest [] = (Inr (), w')"
    by (simp add: StreamPullWithManifest_def ok md pk closing_def stream_pack_def NewPullEngine_def empty_packs_def list_writer_def
        eff_run read_all_def sample_content)
  have z: "appends (\<lambda>w. w) list_writer" by (simp add: appends_def list_writer_def)
  have d: "leaves (\<lambda>w. w) (drv_OpenPack (pl_driver (NewPullEngine empty_packs no_metadata)) push_ctx (pn_Scope sample_plan) h)" for h
    by (simp add: steps_def NewPullEngine_def empty_packs_def eret_def)
  from streamed_bytes_are_the_envelope [OF run z d] run show ?thesis by auto
qed

end
