(* ===== verification/Pg_Live.thy ===== *)
theory Pg_Live
  imports Pg_Facts
begin

text \<open>
  Progress: when nothing fails underneath, a branch whose last lease has run out can be leased again.
\<close>

lemma quiet_sql_row:
  "\<not> env_fault (env w) (calls w) \<Longrightarrow> q w = Some x \<Longrightarrow> sql_row s q w = (Inr x, tick w)"
  by (simp add: sql_row_Inr)

lemma find_branch_has:
  assumes "find_branch w rid name = Some b" and "\<forall>x. vis w x \<longleftrightarrow> x = T"
  shows "has_branch (tabs w) T rid name"
  using assms by (auto simp: find_branch_def has_branch_def list_ex_iff dest!: find_SomeD)

text \<open>C34: A dead lease never blocks a merge. If the tenant's branch stands at the commit the request names, no live
  lease holds it, the commits of the request are registered, and no statement fails, then acquiring a
  merge lease succeeds: the caller holds a lease with the fresh token, whatever stale lease was there.\<close>

theorem stale_lease_never_blocks:
  assumes T: "tenantIDFromContext c = Some T" and valid: "valid_lease_request q" and rls: "env_rls (env w)"
    and quiet: "\<And>n. \<not> env_fault (env w) n" and rand: "env_rand (env w) (calls w) 32 = Some b"
    and head: "head_of w T (lq_RepoID q) (lq_TargetBranch q) = Some (lq_TargetCommitID q)"
    and stale: "\<not> lease_live w T (lq_RepoID q) (lq_TargetBranch q) (tx_time (tick w))"
    and known: "\<And>i. i \<in> {lq_SourceCommitID q, lq_TargetCommitID q, lq_BaseCommitID q} \<Longrightarrow> has_commit (tabs w) T (lq_RepoID q) i"
    and repo: "has_repo (tabs w) T (lq_RepoID q)"
    and fresh: "\<And>l. l \<in> set (merge_leases (tabs w)) \<Longrightarrow> l_token l \<noteq> hex_encode b"
  shows "\<exists>l w'. AcquireMergeLease c q w = (Inr l, w') \<and> ml_Token l = hex_encode b \<and> ml_Subject l = lq_Subject q \<and>
    (\<exists>r \<in> set (merge_leases (tabs w')). l_tenant r = T \<and> l_repo r = lq_RepoID q \<and> l_branch r = lq_TargetBranch q \<and>
       l_token r = hex_encode b)"
proof -
  let ?tok = "hex_encode b" and ?v = "tick (in_tx T (tick w))" and ?rid = "lq_RepoID q" and ?br = "lq_TargetBranch q"
  let ?r = "\<lparr>l_tenant = T, l_repo = ?rid, l_branch = ?br, l_subject = lq_Subject q, l_token = ?tok,
     l_source = lq_SourceCommitID q, l_target = lq_TargetCommitID q, l_base = lq_BaseCommitID q,
     l_expires = tx_time (tick w) + pg_time (lq_Duration q), l_created = tx_time (tick w)\<rparr>"
  have vT: "vis (in_tx T (tick w)) x \<longleftrightarrow> x = T" for x using rls by (auto simp: vis_def)
  have "head_of (tick w) T ?rid ?br = head_of w T ?rid ?br" by (simp add: head_of_def find_branch_def vis_def)
  then obtain br where br: "find_branch (in_tx T (tick w)) ?rid ?br = Some br" "b_head br = lq_TargetCommitID q"
    using head head_of_in_tx [of T "tick w" ?rid ?br] by auto
  have fk: "lease_fk (tabs w) ?r"
    using find_branch_has [OF br(1)] vT known repo by (simp add: lease_fk_def)
  have dead: "\<not> list_ex (\<lambda>l. lease_key l ?r \<and> \<not> l_expires l \<le> txnow ?v) (merge_leases (tabs w))"
    using stale by (auto simp: lease_live_def list_ex_iff lease_key_def tx_time_def)
  define t where "t = (if list_ex (\<lambda>l. lease_key l ?r) (merge_leases (tabs w))
     then (tabs w)\<lparr>merge_leases := map (\<lambda>l. if lease_key l ?r then ?r else l) (merge_leases (tabs w))\<rparr>
     else (tabs w)\<lparr>merge_leases := merge_leases (tabs w) @ [?r]\<rparr>)"
  have unused: "\<not> list_ex (\<lambda>l. l_token l = ?tok \<and> P l) (merge_leases (tabs w))" for P
    using fresh by (auto simp: list_ex_iff)
  have up: "upsert_lease ?r ?v = (Inr (l_expires ?r), (tick ?v)\<lparr>tabs := t\<rparr>)"
    using quiet fk dead unused [of "\<lambda>_. True"] unused vT
    by (simp add: upsert_lease_def sql_def Let_def checked_def t_def)
  have mem: "?r \<in> set (merge_leases t)" by (auto simp: t_def list_ex_iff image_iff)
  have tok: "newOpaqueToken w = (Inr ?tok, tick w)"
    using rand by (simp add: newOpaqueToken_def read_rand_def eff_run)
  have lock: "branchHeadForUpdate ?rid ?br (in_tx T (tick w)) = (Inr (lq_TargetCommitID q), ?v)"
    using br quiet by (simp add: branchHeadForUpdate_def no_rows_or_Inr sql_row_Inr)
  have body: "acquire_body T q ?tok (in_tx T (tick w)) =
      (Inr ((lease_of ?rid ?br ?r)\<lparr>ml_ExpiresAt := l_expires ?r\<rparr>), (tick ?v)\<lparr>tabs := t\<rparr>)"
    using lock up by (simp add: acquire_body_def eff_run pg_now_def no_rows_or_def Let_def tx_time_def)
  have "AcquireMergeLease c q w = (Inr ((lease_of ?rid ?br ?r)\<lparr>ml_ExpiresAt := l_expires ?r\<rparr>),
      (tick ((tick ?v)\<lparr>tabs := t\<rparr>))\<lparr>guc := None\<rparr>)"
    using valid quiet tok body
    by (simp add: AcquireMergeLease_def with_tenant_Some [OF T] withTenantTx_run [OF T] commit_tx_def eff_run)
  then show ?thesis using mem by (auto simp: lease_of_def intro!: bexI [of _ ?r])
qed

end
