(* ===== verification/Review_Samples.thy ===== *)
theory Review_Samples
  imports Review_Apply Sync_Samples Pg_Live Pg_Samples
begin

text \<open>
  The claims about reviews applied to small snapshots and to a merge on the sample server.
\<close>

section \<open>Small snapshots\<close>

definition pv :: "string \<Rightarrow> PropertyValue" where
  "pv s = \<lparr>pv_Kind = PropertyString, pv_String = s, pv_rest = ''''\<rparr>"

definition a_node :: "string \<Rightarrow> (string \<times> string) list \<Rightarrow> Node" where
  "a_node i ps = \<lparr>nd_ID = i, nd_Title = ''t'', nd_Labels = None,
     nd_Properties = Some (fmap_of_list (map (\<lambda>(k, v). (k, pv v)) ps)), nd_rest = ''''\<rparr>"

definition snap :: "Node list \<Rightarrow> Snapshot" where
  "snap ns = \<lparr>sn_Version = 3, sn_Schema = \<lparr>ss_data = ''s''\<rparr>,
     sn_Nodes = Some (fmap_of_list (map (\<lambda>n. (nd_ID n, n)) ns)), sn_Edges = Some fmempty\<rparr>"

text \<open>A library whose schema accepts everything, and which encodes everything as nothing.\<close>

definition any_lib :: review_lib where
  "any_lib = \<lparr>gs_Normalize = Inr, gs_Validate = (\<lambda>_ _ _. None), cbor_snapshot_version = (\<lambda>_. Inr 3),
     cbor_enc_snapshot = (\<lambda>_. Inr []), cbor_dec_snapshot = (\<lambda>_. Inr (snap []))\<rparr>"

definition no_json :: json_lib where
  "no_json = \<lparr>js_schema = (\<lambda>_. Inl (Ext '''')), js_property = (\<lambda>_. Inl (Ext '''')), js_node = (\<lambda>_. Inl (Ext '''')),
     js_edge = (\<lambda>_. Inl (Ext '''')), js_snapshot = (\<lambda>_. Inl (Ext ''''))\<rparr>"

definition base0 :: Snapshot where "base0 = snap [a_node ''n'' [(''p'', ''0''), (''q'', ''0'')]]"
definition source0 :: Snapshot where "source0 = snap [a_node ''n'' [(''p'', ''1''), (''q'', ''0'')]]"
definition target0 :: Snapshot where "target0 = snap [a_node ''n'' [(''p'', ''0''), (''q'', ''1'')], a_node ''m'' []]"
definition target1 :: Snapshot where "target1 = snap [a_node ''n'' [(''p'', ''2''), (''q'', ''1'')]]"

lemma snap_valid: "snapshot_Validate any_lib (snap ns) = Inr ()"
  by (simp add: snapshot_Validate_def snap_def any_lib_def SnapshotVersion_def)

lemmas samples_valid = snap_valid [of "[a_node ''n'' [(''p'', ''0''), (''q'', ''0'')]]", folded base0_def]
  snap_valid [of "[a_node ''n'' [(''p'', ''1''), (''q'', ''0'')]]", folded source0_def]
  snap_valid [of "[a_node ''n'' [(''p'', ''0''), (''q'', ''1'')], a_node ''m'' []]", folded target0_def]
  snap_valid [of "[a_node ''n'' [(''p'', ''2''), (''q'', ''1'')]]", folded target1_def]

theorem clean_merge_is_three_way_witness:
  "\<exists>m. materializeMerge any_lib no_json base0 source0 target0 (mergeSnapshots any_lib base0 source0 target0) [] = Inr m \<and>
     observe m (NodeProperty ''n'' ''p'') = PropertyIs (Some (pv ''1'')) \<and> observe m (NodeProperty ''n'' ''q'') = PropertyIs (Some (pv ''1''))"
proof -
  have "\<not> mp_HasConflicts (mergeSnapshots any_lib base0 source0 target0)" by code_simp
  note clean_merge_is_three_way [OF samples_valid(1,2,3) this, of no_json]
  moreover have "three_way (observe base0 (NodeProperty ''n'' ''p'')) (observe source0 (NodeProperty ''n'' ''p''))
      (observe target0 (NodeProperty ''n'' ''p'')) = PropertyIs (Some (pv ''1''))"
    "three_way (observe base0 (NodeProperty ''n'' ''q'')) (observe source0 (NodeProperty ''n'' ''q''))
      (observe target0 (NodeProperty ''n'' ''q'')) = PropertyIs (Some (pv ''1''))"
    by code_simp+
  ultimately show ?thesis by (metis (no_types, lifting))
qed


definition preview1 :: MergePreview where "preview1 = mergeSnapshots any_lib base0 source0 target1"
definition for_source :: "Resolution list" where
  "for_source = [\<lparr>re_Token = ''property:node:n:p'', re_Choice = ''source'', re_Value = []\<rparr>]"

lemma isInr: "(case r of Inl _ \<Rightarrow> False | Inr _ \<Rightarrow> True) \<Longrightarrow> \<exists>m. r = Inr m"
  by (cases r) auto

theorem property_resolution_is_honoured_witness:
  "\<exists>m. materializeMerge any_lib no_json base0 source0 target1 preview1 for_source = Inr m \<and>
     observe m (NodeProperty ''n'' ''p'') = PropertyIs (Some (pv ''1''))"
proof -
  let ?c = "\<lparr>ct_Token = ''property:node:n:p'', ct_Type = ConflictProperty, ct_Element = ElementNode, ct_ElementID = ''n'', ct_Property = ''p''\<rparr>"
  let ?r = "hd for_source"
  have "case materializeMerge any_lib no_json base0 source0 target1 preview1 for_source of Inl _ \<Rightarrow> False | Inr _ \<Rightarrow> True" by code_simp
  then obtain m where m: "materializeMerge any_lib no_json base0 source0 target1 preview1 for_source = Inr m" by (blast dest: isInr)
  have "validateResolutions preview1 for_source = Inr ()" by code_simp
  moreover have "?c \<in> set (mp_Conflicts preview1)" by code_simp
  ultimately have "observe m (property_place ?c) = observe (if re_Choice ?r = ''target'' then target1 else source0) (property_place ?c)"
    by (intro property_resolution_is_honoured [OF preview1_def _ m]) (simp_all add: for_source_def)
  moreover have "observe (if re_Choice ?r = ''target'' then target1 else source0) (property_place ?c) = PropertyIs (Some (pv ''1''))" by code_simp
  ultimately show ?thesis using m by (auto simp: property_place_def)
qed


theorem stale_lease_never_blocks_witness:
  "\<exists>l w'. AcquireMergeLease sample_ctx sample_lease_request sample_db = (Inr l, w') \<and> ml_Subject l = ''sub''"
proof -
  have "has_commit (tabs sample_db) ''t'' ''r'' ''c1''" "has_commit (tabs sample_db) ''t'' ''r'' ''c2''" by code_simp+
  moreover have "valid_lease_request sample_lease_request" "env_rls (env sample_db)" "has_repo (tabs sample_db) ''t'' ''r''"
    "env_rand (env sample_db) (calls sample_db) 32 = Some (replicate 32 171)"
    "head_of sample_db ''t'' ''r'' ''main'' = Some ''c1''" "\<not> lease_live sample_db ''t'' ''r'' ''main'' (tx_time (tick sample_db))"
    by code_simp+
  ultimately show ?thesis
    using stale_lease_never_blocks [OF sample_tenant, of sample_lease_request sample_db "replicate 32 171"]
    by (auto simp: sample_lease_request_def sample_db_def sample_env_def sample_tabs_def)
qed


section \<open>A merge on the sample server\<close>

text \<open>
  The commits \<open>head\<close> of \<open>main\<close> and \<open>other\<close> of \<open>dev\<close> have a common parent; a lease is held; every file of the
  content store is empty and decodes to the empty snapshot.
\<close>

definition root_id :: string where "root_id = hex_encode (replicate 32 3)"

definition merge_tabs :: tables where
  "merge_tabs = push_tabs\<lparr>
     commits := map (\<lambda>i. \<lparr>c_id = i, c_tenant = tenant_uuid, c_repo = ''r'', c_root = zero_id, c_format = 2, c_author = ''a'',
       c_message = ''m'', c_time = 0\<rparr>) [root_id, head_id, other_id],
     commit_parents := map (\<lambda>i. \<lparr>cp_tenant = tenant_uuid, cp_repo = ''r'', cp_commit = i, cp_pos = 1, cp_parent = root_id\<rparr>) [head_id, other_id],
     branches := map (\<lambda>(n, h). \<lparr>b_tenant = tenant_uuid, b_repo = ''r'', b_name = n, b_head = h, b_updated = 0, b_deleted = None\<rparr>)
       [(''main'', head_id), (''dev'', other_id)],
     merge_leases := [\<lparr>l_tenant = tenant_uuid, l_repo = ''r'', l_branch = ''main'', l_subject = ''sub'', l_token = ''k'',
       l_source = other_id, l_target = head_id, l_base = root_id, l_expires = 10, l_created = 0\<rparr>]\<rparr>"

definition merge_db :: "string option \<Rightarrow> int \<Rightarrow> nat \<Rightarrow> db" where
  "merge_db g n k = \<lparr>tabs = merge_tabs, guc = g, txnow = n, calls = k, env = env push_db\<rparr>"

definition merge_world :: "fs \<Rightarrow> db \<Rightarrow> world" where "merge_world f s = \<lparr>w_fs = f, w_db = s\<rparr>"

definition merge_request :: ApplyRequest where
  "merge_request = \<lparr>aq_SourceBranch = ''dev'', aq_TargetBranch = ''main'', aq_Subject = ''sub'', aq_LeaseToken = ''k'',
     aq_Resolutions = [], aq_Author = ''a'', aq_Message = ''m''\<rparr>"

definition identity :: "string \<Rightarrow> Review_Merge.CommitIdentity" where
  "identity i = \<lparr>rc_ID = i, rc_SnapshotRoot = zero_id, rc_Format = 2\<rparr>"

definition merged_frame :: PackFrame where
  "merged_frame = \<lparr>pf_Version = 2, pf_Base = V2CommitIdentity head_id, pf_Target = V2CommitIdentity zero_id,
     pf_Commits = [merge_frame (V2CommitIdentity head_id) (V2CommitIdentity other_id) zero_id merge_request 0],
     pf_Objects = [\<lparr>po_ID = zero_id, po_Data = []\<rparr>]\<rparr>"

definition merged_preview :: MergePreview where
  "merged_preview = (mergeSnapshots any_lib (snap []) (snap []) (snap []))\<lparr>mp_SourceBranch := ''dev'', mp_TargetBranch := ''main'',
     mp_BaseCommit := identity root_id, mp_SourceCommit := identity other_id, mp_TargetCommit := identity head_id, mp_CanFastForward := False\<rparr>"

abbreviation sample_sc :: scope where "sample_sc \<equiv> \<lparr>sc_tenant = tenant_uuid, sc_repo = ''r''\<rparr>"

lemma merge_db_is: "w_reads (merge_world f (merge_db g n k)) w \<Longrightarrow> \<exists>g n k. w_db w = merge_db g n k"
  by (cases "w_db w") (auto simp: w_reads_def merge_world_def merge_db_def)

lemma ends_run: "fst (resolve_ends rack_merge_store push_ctx ''r'' ''dev'' ''main'' (merge_world f (merge_db g n k))) =
    Inr (identity root_id, identity other_id, identity head_id, False)"
  by code_simp

lemma lease_run: "fst (on_db (ValidateMergeLease push_ctx ''r'' ''main'' ''sub'' ''k'') (merge_world f (merge_db g n k))) =
    Inr (lease_of ''r'' ''main'' (hd (merge_leases merge_tabs)))"
  by code_simp

lemma apply_run: "fst (on_db (ApplyMerge push_ctx (apply_request ''r'' merge_request merged_preview zero_id zero_id zero_id 0))
    (merge_world f (merge_db g n k))) = Inr ()"
  by code_simp


text \<open>What every step of the merge finds: calm files, and the tables of the sample.\<close>

definition ready :: "world \<Rightarrow> bool" where
  "ready w \<longleftrightarrow> calm (w_fs w) \<and> (\<exists>g n k. w_db w = merge_db g n k)"

lemma ready_is: "ready w \<Longrightarrow> \<exists>f g n k. w = merge_world f (merge_db g n k) \<and> calm f"
  by (cases w) (auto simp: ready_def merge_world_def)

lemma ready_reads: "ready w \<Longrightarrow> w_reads w w' \<Longrightarrow> calm (w_fs w') \<Longrightarrow> ready w'"
  by (metis merge_db_is ready_def ready_is)

lemma push_tenant: "tenantIDFromContext push_ctx = Some tenant_uuid"
  by code_simp

lemma run_db:
  assumes "ready w" and "steps w_reads m" and "leaves w_fs m" and "\<And>f g n k. fst (m (merge_world f (merge_db g n k))) = Inr x"
  shows "\<exists>w'. m w = (Inr x, w') \<and> ready w'"
proof -
  obtain f g n k where w: "w = merge_world f (merge_db g n k)" using ready_is [OF assms(1)] by blast
  obtain r w' where run: "m w = (r, w')" by (cases "m w")
  have "r = Inr x" using assms(4) [of f g n k] run w by simp
  moreover have "ready w'"
    using stepsD [OF assms(3) run] assms(1) by (intro ready_reads [OF assms(1) stepsD [OF assms(2) run]]) (simp add: ready_def)
  ultimately show ?thesis using run by blast
qed

lemma ready_ends: "ready w \<Longrightarrow> \<exists>w'. resolve_ends rack_merge_store push_ctx ''r'' ''dev'' ''main'' w =
    (Inr (identity root_id, identity other_id, identity head_id, False), w') \<and> ready w'"
proof (rule run_db [OF _ resolve_ends_reads [OF push_tenant] _ ends_run])
  show "leaves w_fs (resolve_ends rack_merge_store push_ctx ''r'' ''dev'' ''main'')"
    unfolding resolve_ends_def resolveCommitIdentity_def rack_merge_store_simps option.case by (intro same.steps_intro leaves_on)
qed

lemma ready_lease: "ready w \<Longrightarrow> \<exists>w'. on_db (ValidateMergeLease push_ctx ''r'' ''main'' ''sub'' ''k'') w =
    (Inr (lease_of ''r'' ''main'' (hd (merge_leases merge_tabs))), w') \<and> ready w'"
  by (rule run_db [OF _ store_reads(5) [OF push_tenant] leaves_on(2) lease_run])

lemma clock_run: "fst (on_db go_now (merge_world f (merge_db g n k))) = Inr 0"
  by code_simp

lemma ready_clock: "ready w \<Longrightarrow> \<exists>w'. on_db go_now w = (Inr 0, w') \<and> ready w'"
  by (rule run_db [OF _ go_now_reads leaves_on(2) clock_run])

lemma push_done: "ctx_err push_ctx = None"
  by (simp add: push_ctx_def)

lemma ready_fs: "ready w \<Longrightarrow> calm f \<Longrightarrow> ready (w\<lparr>w_fs := f\<rparr>)"
  by (simp add: ready_def)

lemma ready_driver:
  assumes "ready w"
  shows "\<exists>w'. drv_Get (rack_driver push_cas push_root) push_ctx sc zero_id w = (Inr [], w') \<and> ready w'"
    "\<exists>w'. drv_Put (rack_driver push_cas push_root) push_ctx sc zero_id [] w = (Inr (), w') \<and> ready w'"
    "\<exists>w'. drv_WritePack (rack_driver push_cas push_root) push_ctx sc zero_id \<lparr>rd_data = b, rd_err = None\<rparr> w = (Inr (), w') \<and> ready w'"
proof -
  have f: "calm (w_fs w)" using assms by (simp add: ready_def)
  note put = calm_runs(1) [OF f push_done, of push_root sc] and get = calm_runs(2) [OF f push_done, of push_root sc]
    and pack = calm_runs(3) [OF f push_done, of push_root sc b]
  show "\<exists>w'. drv_Get (rack_driver push_cas push_root) push_ctx sc zero_id w = (Inr [], w') \<and> ready w'"
    "\<exists>w'. drv_Put (rack_driver push_cas push_root) push_ctx sc zero_id [] w = (Inr (), w') \<and> ready w'"
    "\<exists>w'. drv_WritePack (rack_driver push_cas push_root) push_ctx sc zero_id \<lparr>rd_data = b, rd_err = None\<rparr> w = (Inr (), w') \<and> ready w'"
    using get put pack ready_fs [OF assms] by (auto simp: rack_driver_def on_fs_def)
qed

lemma empty_decodes: "DecodeSnapshotObject any_lib [] = Inr (snap [])"
proof -
  have "DecodeSnapshotCBOR any_lib [] = Inr (snap [])"
    using snap_valid [of "[]"]
    by (simp add: DecodeSnapshotCBOR_def any_lib_def SnapshotEnvelopeVersion_def SnapshotVersion_def snap_def)
  moreover have "\<not> looks_like_json []" by code_simp
  ultimately show ?thesis by (simp add: DecodeSnapshotObject_def)
qed

lemma ready_decode:
  assumes "ready w"
  shows "\<exists>w'. DecodeSnapshot any_lib (Some (drv_Get (rack_driver push_cas push_root))) push_ctx sc zero_id w = (Inr (snap []), w') \<and> ready w'"
proof -
  have "snapshotRootPattern zero_id" by code_simp
  then show ?thesis
    using ready_driver(1) [OF assms, of sc] by (auto simp: DecodeSnapshot_def eff_run empty_decodes)
qed

lemma ready_load:
  assumes "ready w"
  shows "\<exists>w'. load_three any_lib (drv_Get (rack_driver push_cas push_root)) push_ctx sc (identity i) (identity i') (identity i'') w =
    (Inr (snap [], snap [], snap []), w') \<and> ready w'"
proof -
  obtain w1 where w1: "DecodeSnapshot any_lib (Some (drv_Get (rack_driver push_cas push_root))) push_ctx sc zero_id w = (Inr (snap []), w1)" "ready w1"
    using ready_decode [OF assms] by blast
  obtain w2 where w2: "DecodeSnapshot any_lib (Some (drv_Get (rack_driver push_cas push_root))) push_ctx sc zero_id w1 = (Inr (snap []), w2)" "ready w2"
    using ready_decode [OF w1(2)] by blast
  obtain w3 where w3: "DecodeSnapshot any_lib (Some (drv_Get (rack_driver push_cas push_root))) push_ctx sc zero_id w2 = (Inr (snap []), w3)" "ready w3"
    using ready_decode [OF w2(2)] by blast
  show ?thesis using w1 w2 w3 by (simp add: load_three_def identity_def eff_run)
qed

lemma merged_pack: "frame_merge (push_lib merged_frame) (V2CommitIdentity head_id) (V2CommitIdentity other_id) [] merge_request 0 = Inr (zero_id, [])"
proof -
  let ?x = "push_lib merged_frame" and ?f = "merge_frame (V2CommitIdentity head_id) (V2CommitIdentity other_id) zero_id merge_request 0"
  have ps: "cf_Parents ?f = [V2CommitIdentity head_id, V2CommitIdentity other_id]" by (simp add: merge_frame_def)
  obtain cm where c: "frame_Commit ?x ?f = Inr cm"
    by (simp add: frame_Commit_def ps sample_identities sample_ids as_invalid_def) (simp add: push_lib_def)
  have i: "CommitObjectID ?x cm = Inr zero_id" for cm by (simp add: CommitObjectID_def sample_content) (simp add: push_lib_def)
  have "valid_v2 ?x merged_frame"
    using c i ps
    by (simp add: valid_v2_def valid_ends_def authentic_def carries_snapshots_def merged_frame_def sample_identities sample_ids sample_content
        frame_Identity_def) (simp add: merge_frame_def)
  moreover have "cbor_enc_pack ?x merged_frame = Inr []" by (simp add: push_lib_def)
  ultimately have "MarshalPackFrameV2 ?x merged_frame = Inr []"
    by (simp add: MarshalPackFrameV2_def marshal_Inr validate_v2_iff)
  then show ?thesis
    using c i by (simp add: frame_merge_def sample_content Let_def) (simp add: merged_frame_def PackFormatV2_def)
qed


lemma ready_preview:
  assumes "ready w"
  shows "\<exists>w'. fe_preview any_lib (rack_finalizer push_cas push_root) push_ctx tenant_uuid ''r'' ''dev'' ''main'' w =
    (Inr merged_preview, w') \<and> ready w'"
proof -
  obtain w1 where w1: "resolve_ends rack_merge_store push_ctx ''r'' ''dev'' ''main'' w =
    (Inr (identity root_id, identity other_id, identity head_id, False), w1)" "ready w1"
    using ready_ends [OF assms] by blast
  obtain w2 where w2: "load_three any_lib (drv_Get (rack_driver push_cas push_root)) push_ctx sample_sc (identity root_id) (identity other_id)
      (identity head_id) w1 = (Inr (snap [], snap [], snap []), w2)" "ready w2"
    using ready_load [OF w1(2)] by blast
  have "tenant_uuid \<noteq> ''''" by (simp add: tenant_uuid_def)
  then show ?thesis
    using w1 w2
    by (simp add: fe_preview_def PreviewMerge_def NewPreviewEngine_def sample_context sample_scope eff_run merged_preview_def)
qed

lemma merged_clean: "\<not> mp_HasConflicts (mergeSnapshots any_lib (snap []) (snap []) (snap []))"
  by code_simp

lemma ready_three_way:
  assumes "ready w"
  shows "\<exists>w' res. merge_three_way (push_lib merged_frame) any_lib no_json (rack_finalizer push_cas push_root) (rack_driver push_cas push_root)
    rack_merge_store push_ctx tenant_uuid ''r'' merge_request merged_preview w = (Inr res, w') \<and> as_HeadCommit res = zero_id \<and> \<not> as_FastForward res"
proof -
  let ?d = "rack_driver push_cas push_root" and ?m = "fst (merge_graphs (snap []) (snap []) (snap []))"
  note v = snap_valid [of "[]"]
  obtain w1 where w1: "on_db (ValidateMergeLease push_ctx ''r'' ''main'' ''sub'' ''k'') w =
    (Inr (lease_of ''r'' ''main'' (hd (merge_leases merge_tabs))), w1)" "ready w1" using ready_lease [OF assms] by blast
  obtain w2 where w2: "load_three any_lib (drv_Get ?d) push_ctx sample_sc (identity root_id) (identity other_id)
      (identity head_id) w1 = (Inr (snap [], snap [], snap []), w2)" "ready w2"
    using ready_load [OF w1(2)] by blast
  obtain w3 where w3: "on_db go_now w2 = (Inr 0, w3)" "ready w3" using ready_clock [OF w2(2)] by blast
  obtain w4 where w4: "drv_Put ?d push_ctx sample_sc zero_id [] w3 = (Inr (), w4)" "ready w4"
    using ready_driver(2) [OF w3(2)] by blast
  obtain w5 where w5: "drv_WritePack ?d push_ctx sample_sc zero_id \<lparr>rd_data = [], rd_err = None\<rparr> w4 = (Inr (), w5)" "ready w5"
    using ready_driver(3) [OF w4(2)] by blast
  obtain f g n k where "w5 = merge_world f (merge_db g n k)" using ready_is [OF w5(2)] by blast
  then obtain w6 where w6: "on_db (ApplyMerge push_ctx (apply_request ''r'' merge_request merged_preview zero_id zero_id zero_id 0)) w5 = (Inr (), w6)"
    using apply_run [of f g n k] by (metis prod.collapse)
  have none: "mp_Conflicts merged_preview = []"
    using merged_clean by (simp_all add: merged_preview_def preview_conflicts(2))
  have q: "aq_Resolutions merge_request = []" "aq_LeaseToken merge_request = ''k''" "aq_TargetBranch merge_request = ''main''"
    "aq_Subject merge_request = ''sub''" by (simp_all add: merge_request_def)
  have p: "mp_SourceCommit merged_preview = identity other_id" "mp_TargetCommit merged_preview = identity head_id"
    "mp_BaseCommit merged_preview = identity root_id" by (simp_all add: merged_preview_def)
  have ls: "ml_SourceCommitID (lease_of ''r'' ''main'' (hd (merge_leases merge_tabs))) = other_id"
    "ml_TargetCommitID (lease_of ''r'' ''main'' (hd (merge_leases merge_tabs))) = head_id"
    "ml_BaseCommitID (lease_of ''r'' ''main'' (hd (merge_leases merge_tabs))) = root_id" by code_simp+
  have ids: "rc_ID (identity i) = i" for i by (simp add: identity_def)
  have res: "validateResolutions merged_preview [] = Inr ()" by (simp add: validateResolutions_def none)
  have mat: "materializeMerge any_lib no_json (snap []) (snap []) (snap []) merged_preview [] = Inr ?m"
    using materialize_clean(2) [OF merged_clean v v v] by (simp add: materializeMerge_def unresolved_merge_is)
  have enc: "MarshalSnapshot any_lib ?m = Inr []"
    using materialize_clean(2) [OF merged_clean v v v]
    by (simp add: MarshalSnapshot_def MarshalSnapshotCBOR_def newSnapshotEnvelope_def) (simp add: any_lib_def)
  have fr: "frameCommitIdentity (identity i) = Inr (V2CommitIdentity i)" if "validContentID i" "i \<noteq> ''''" for i
    using that by (simp add: frameCommitIdentity_def identity_def CommitFormatV2_def sample_identities)
  show ?thesis
    unfolding merge_three_way_def publish_merge_def q p rack_finalizer_simps rack_merge_store_simps
    by (simp add: eff_run w1(1) ls ids res sample_scope w2(1) mat enc fr sample_ids w3(1) merged_pack sample_content w4(1) w5(1) w6)
qed

theorem applied_merge_is_whole_witness:
  "\<exists>res w'. Apply (push_lib merged_frame) any_lib no_json (Some (rack_finalizer push_cas push_root)) (Some push_ctx) tenant_uuid ''r'' merge_request
      (merge_world push_fs (merge_db None 0 0)) = (Inr res, w') \<and>
    head_of (w_db w') tenant_uuid ''r'' ''main'' = Some zero_id \<and>
    parents_of (tenant_view tenant_uuid (w_db w')) ''r'' zero_id = [head_id, other_id]"
proof -
  let ?w = "merge_world push_fs (merge_db None 0 0)"
  have "ready ?w" using sample_calm by (auto simp: ready_def merge_world_def)
  then obtain w1 where w1: "fe_preview any_lib (rack_finalizer push_cas push_root) push_ctx tenant_uuid ''r'' ''dev'' ''main'' ?w =
    (Inr merged_preview, w1)" "ready w1" using ready_preview by blast
  obtain w' res where w': "merge_three_way (push_lib merged_frame) any_lib no_json (rack_finalizer push_cas push_root) (rack_driver push_cas push_root)
    rack_merge_store push_ctx tenant_uuid ''r'' merge_request merged_preview w1 = (Inr res, w')" "as_HeadCommit res = zero_id" "\<not> as_FastForward res"
    using ready_three_way [OF w1(2)] by blast
  have run: "Apply (push_lib merged_frame) any_lib no_json (Some (rack_finalizer push_cas push_root)) (Some push_ctx) tenant_uuid ''r'' merge_request ?w
      = (Inr res, w')"
  proof -
    have q: "aq_SourceBranch merge_request = ''dev''" "aq_TargetBranch merge_request = ''main''" "aq_Subject merge_request \<noteq> ''''"
      "aq_Author merge_request \<noteq> ''''" "aq_Message merge_request \<noteq> ''''" by (simp_all add: merge_request_def)
    have t: "tenant_uuid \<noteq> ''''" and ff: "\<not> mp_CanFastForward merged_preview" by (simp_all add: tenant_uuid_def merged_preview_def)
    show ?thesis using w1(1) w'(1) by (simp add: Apply_def q t ff sample_context eff_run)
  qed
  have st: "env_rls (env (w_db ?w))" "refs_ok (tabs (w_db ?w))" "head_of (w_db ?w) tenant_uuid ''r'' ''main'' = Some head_id"
    "head_of (w_db ?w) tenant_uuid ''r'' ''dev'' = Some other_id" by code_simp+
  have q: "aq_TargetBranch merge_request = ''main''" "aq_SourceBranch merge_request = ''dev''" by (simp_all add: merge_request_def)
  show ?thesis
    using applied_merge_is_whole [OF run st(1,2)] run by (auto simp: q st w'(2,3))
qed


section \<open>Where reviews go wrong\<close>

text \<open>
  A token joins its parts with colons, so different places can have the same token: here property \<open>y:z\<close> of node
  \<open>x\<close> and property \<open>z\<close> of node \<open>x:y\<close> are both in conflict, and only one conflict is reported. The
  other property silently keeps the target's value.
\<close>

definition colon_snap :: "string \<Rightarrow> Snapshot" where
  "colon_snap v = snap [a_node ''x'' [(''y:z'', v)], a_node ''x:y'' [(''z'', v)]]"

lemma token_collision_hides_conflict:
  "disputed (observe (colon_snap ''0'') (NodeProperty ''x'' ''y:z'')) (observe (colon_snap ''1'') (NodeProperty ''x'' ''y:z''))
     (observe (colon_snap ''2'') (NodeProperty ''x'' ''y:z'')) \<and>
   disputed (observe (colon_snap ''0'') (NodeProperty ''x:y'' ''z'')) (observe (colon_snap ''1'') (NodeProperty ''x:y'' ''z''))
     (observe (colon_snap ''2'') (NodeProperty ''x:y'' ''z'')) \<and>
   map ct_Token (mp_Conflicts (mergeSnapshots any_lib (colon_snap ''0'') (colon_snap ''1'') (colon_snap ''2''))) = [''property:node:x:y:z'']"
  by code_simp

text \<open>An element both branches added alike is reported as updated, though the base does not have it.\<close>

lemma same_addition_reported_as_update:
  "map (\<lambda>c. (ch_Kind c, ch_Operation c, ch_ElementID c, ch_Branch c))
     (mp_CleanChanges (mergeSnapshots any_lib (snap []) (snap [a_node ''n'' []]) (snap [a_node ''n'' []]))) =
   [(ChangeKindElement, ChangeUpdated, ''n'', ''both'')]"
  by code_simp

text \<open>
  Resolving a structural conflict for the source replaces the whole element: the target's change of a property,
  reported as clean, is lost.
\<close>

definition titled :: "string \<Rightarrow> string \<Rightarrow> Snapshot" where
  "titled t p = snap [(a_node ''n'' [(''p'', p)])\<lparr>nd_Title := t\<rparr>]"

lemma structural_source_drops_clean_changes:
  "(case mergeSnapshots any_lib (titled ''a'' ''0'') (titled ''b'' ''0'') (titled ''c'' ''1'') of p \<Rightarrow>
     map (\<lambda>c. (ch_ElementID c, ch_Property c, ch_Branch c)) (mp_CleanChanges p) = [(''n'', ''p'', ''target'')] \<and>
     (case materializeMerge any_lib no_json (titled ''a'' ''0'') (titled ''b'' ''0'') (titled ''c'' ''1'') p
        [\<lparr>re_Token = ''structural:node:n'', re_Choice = ''source'', re_Value = []\<rparr>] of
        Inl _ \<Rightarrow> False
      | Inr m \<Rightarrow> observe m (NodeProperty ''n'' ''p'') = PropertyIs (Some (pv ''0''))))"
  by code_simp

end
