(* ===== verification/Retention.thy ===== *)
theory Retention
  imports Rack_World Pg_Native
begin

text \<open>
  \<open>Collector\<close> (\<open>internal/server/retention/retention.go\<close>): the native packs of a repository that no branch head, active
  transaction or audit record reaches are removed from the index, and their bytes from the content store once
  no kept pack shares them. The store is an interface; that the driver can delete packs is its option
  \<open>drv_DeletePack\<close>. The sets of the code are lists here, of which only membership is used.
\<close>

section \<open>Interfaces and reports\<close>

record 'w retention_store =
  rt_SetTenantContext :: "ctx \<Rightarrow> string \<Rightarrow> goerr + ctx"
  rt_ListBranchRefs :: "ctx \<Rightarrow> string \<Rightarrow> ('w, BranchRef list) eff"
  rt_CommitAncestryIDs :: "ctx \<Rightarrow> string \<Rightarrow> string \<Rightarrow> ('w, string list) eff"
  rt_ListActiveTransactions :: "ctx \<Rightarrow> string \<Rightarrow> ('w, ActiveTransaction list) eff"
  rt_ListAuditRecords :: "ctx \<Rightarrow> string \<Rightarrow> ('w, AuditRecord list) eff"
  rt_ListNativePacks :: "ctx \<Rightarrow> string \<Rightarrow> ('w, NativePackSummary list) eff"
  rt_ListNativePackObjectIDs :: "ctx \<Rightarrow> string \<Rightarrow> ('w, (string \<times> string) list) eff"
  rt_DeleteNativePack :: "ctx \<Rightarrow> string \<Rightarrow> string \<Rightarrow> ('w, unit) eff"

record RetainedPack =
  kp_PackID :: string  kp_CASPackHash :: string

record CollectedPack =
  cl_PackID :: string  cl_CASPackHash :: string  cl_CASBlobCollected :: bool

record Report =
  rpt_TenantID :: string  rpt_RepoID :: string  rpt_DryRun :: bool
  rpt_Retained :: "RetainedPack list"  rpt_Collected :: "CollectedPack list"

record 'w collector =
  gc_store :: "'w retention_store option"
  gc_driver :: "'w cas_driver option"

definition NewCollector :: "'w retention_store option \<Rightarrow> 'w cas_driver option \<Rightarrow> 'w collector" where
  "NewCollector st drv = \<lparr>gc_store = st, gc_driver = drv\<rparr>"

section \<open>Roots\<close>

text \<open>\<open>addCommitRoot\<close>: a root that is no registered commit has no history to add.\<close>

definition addCommitRoot :: "'w retention_store \<Rightarrow> ctx \<Rightarrow> string \<Rightarrow> string \<Rightarrow> string list \<Rightarrow> ('w, string list) eff" where
  "addCommitRoot st c repoID commitID retained =
     (if commitID = '''' then eret retained
      else ecatch (ebind (rt_CommitAncestryIDs st c repoID commitID) (\<lambda>ancestry. eret (ancestry @ commitID # retained)))
        (\<lambda>err. if err_is err (Pg ErrCommitNotFound) then eret (commitID # retained) else efail err))"

definition branch_roots :: "'w retention_store \<Rightarrow> ctx \<Rightarrow> string \<Rightarrow> BranchRef list \<Rightarrow> string list \<Rightarrow> ('w, string list) eff" where
  "branch_roots st c repoID bs retained = efold bs retained (\<lambda>b retained.
     ewrap ''retention: collect: branch history'' (addCommitRoot st c repoID (br_HeadCommitID b) retained))"

definition txn_roots :: "'w retention_store \<Rightarrow> ctx \<Rightarrow> string \<Rightarrow> ActiveTransaction list \<Rightarrow> string list \<times> string list \<Rightarrow> ('w, string list \<times> string list) eff" where
  "txn_roots st c repoID ts acc = efold ts acc (\<lambda>t (retained, objects).
     ebind (ewrap ''retention: collect: active transaction history'' (addCommitRoot st c repoID (at_CommitID t) retained)) (\<lambda>retained.
     eret (retained, if at_ObjectID t \<noteq> '''' then at_ObjectID t # objects else objects)))"

definition audit_roots :: "'w retention_store \<Rightarrow> ctx \<Rightarrow> string \<Rightarrow> AuditRecord list \<Rightarrow> string list \<times> string list \<Rightarrow> ('w, string list \<times> string list) eff" where
  "audit_roots st c repoID rs acc = efold rs acc (\<lambda>r (retained, objects).
     ebind (ewrap ''retention: collect: audit record history'' (addCommitRoot st c repoID (ar_CommitID r) retained)) (\<lambda>retained.
     eret (retained, if ar_ObjectID r \<noteq> '''' then ar_ObjectID r # objects else objects)))"

definition gather_roots :: "'w retention_store \<Rightarrow> ctx \<Rightarrow> string \<Rightarrow> ('w, string list \<times> string list) eff" where
  "gather_roots st c repoID =
     ebind (ewrap ''retention: collect: list branch refs'' (rt_ListBranchRefs st c repoID)) (\<lambda>branches.
     ebind (branch_roots st c repoID branches []) (\<lambda>retained1.
     ebind (ewrap ''retention: collect: list active transactions'' (rt_ListActiveTransactions st c repoID)) (\<lambda>activeTxns.
     ebind (txn_roots st c repoID activeTxns (retained1, [])) (\<lambda>roots2.
     ebind (ewrap ''retention: collect: list audit records'' (rt_ListAuditRecords st c repoID)) (\<lambda>auditRecords.
     audit_roots st c repoID auditRecords roots2)))))"

definition rooted_packs :: "string list \<Rightarrow> (string \<times> string) list \<Rightarrow> string list" where
  "rooted_packs objects objectToPack = [p. ob \<leftarrow> objects, p \<leftarrow> (case map_of objectToPack ob of None \<Rightarrow> [] | Some p \<Rightarrow> [p])]"

definition is_retained :: "string list \<Rightarrow> string list \<Rightarrow> NativePackSummary \<Rightarrow> bool" where
  "is_retained retainedCommits rootedPackIDs p \<longleftrightarrow>
     ps_CommitID p \<noteq> '''' \<and> ps_CommitID p \<in> set retainedCommits \<or> ps_PackID p \<in> set rootedPackIDs"

section \<open>Collection\<close>

text \<open>One candidate: its index rows, then its bytes unless a kept pack or an earlier candidate has them.\<close>

definition collect_pack :: "'w retention_store \<Rightarrow> (ctx \<Rightarrow> scope \<Rightarrow> string \<Rightarrow> ('w, unit) eff) option \<Rightarrow> ctx \<Rightarrow> scope \<Rightarrow> string \<Rightarrow> bool \<Rightarrow>
    string list \<Rightarrow> NativePackSummary \<Rightarrow> string list \<times> CollectedPack list \<Rightarrow> ('w, string list \<times> CollectedPack list) eff" where
  "collect_pack st deleter c sc repoID dryRun retainedHashes p acc = (case acc of (handled, out) \<Rightarrow>
     ebind (if dryRun then eret ()
            else ewrap ''retention: collect: delete native pack'' (rt_DeleteNativePack st c repoID (ps_PackID p))) (\<lambda>_.
     let hash = ps_CASPackHash p;
         collected = (\<lambda>b. \<lparr>cl_PackID = ps_PackID p, cl_CASPackHash = hash, cl_CASBlobCollected = b\<rparr>) in
     if hash \<in> set retainedHashes \<or> hash \<in> set handled then eret (handled, out @ [collected False])
     else case deleter of
       None \<Rightarrow> eret (hash # handled, out @ [collected False])
     | Some del \<Rightarrow>
         ebind (if dryRun then eret () else ewrap ''retention: collect: delete CAS pack'' (del c sc hash)) (\<lambda>_.
         eret (hash # handled, out @ [collected True]))))"

definition collect_scope :: "'w collector \<Rightarrow> string \<Rightarrow> string \<Rightarrow> goerr + scope" where
  "collect_scope g tenantID repoID = (case gc_driver g of
       None \<Rightarrow> Inr \<lparr>sc_tenant = '''', sc_repo = ''''\<rparr>
     | Some _ \<Rightarrow> rwrap (Wrapf ''retention: collect: invalid CAS scope'') (NewScope tenantID repoID))"

definition Collect :: "'w collector option \<Rightarrow> ctx \<Rightarrow> string \<Rightarrow> string \<Rightarrow> bool \<Rightarrow> ('w, Report) eff" where
  "Collect g0 c0 tenantID repoID dryRun = (case g0 of
       None \<Rightarrow> efail (Misc ErrRetentionNotInitialized)
     | Some g \<Rightarrow> (case gc_store g of
       None \<Rightarrow> efail (Misc ErrRetentionNotInitialized)
     | Some st \<Rightarrow>
     ebind (eassert (tenantID \<noteq> '''') (Errorf ''retention: collect: tenant ID is required'')) (\<lambda>_.
     ebind (eassert (repoID \<noteq> '''') (Errorf ''retention: collect: repo ID is required'')) (\<lambda>_.
     ebind (elift (collect_scope g tenantID repoID)) (\<lambda>sc.
     ebind (ewrap ''retention: collect: set tenant context'' (elift (rt_SetTenantContext st c0 tenantID))) (\<lambda>c.
     ebind (gather_roots st c repoID) (\<lambda>(retainedCommits, objects).
     ebind (ewrap ''retention: collect: list native pack object IDs'' (rt_ListNativePackObjectIDs st c repoID)) (\<lambda>objectToPack.
     ebind (ewrap ''retention: collect: list native packs'' (rt_ListNativePacks st c repoID)) (\<lambda>packs.
     let keep = is_retained retainedCommits (rooted_packs objects objectToPack);
         kept = filter keep packs in
     ebind (efold (filter (\<lambda>p. \<not> keep p) packs) ([], [])
       (collect_pack st (case gc_driver g of None \<Rightarrow> None | Some drv \<Rightarrow> drv_DeletePack drv) c sc repoID dryRun (map ps_CASPackHash kept)))
       (\<lambda>(_, collected).
     eret \<lparr>rpt_TenantID = tenantID, rpt_RepoID = repoID, rpt_DryRun = dryRun,
       rpt_Retained = sort_key kp_PackID (map (\<lambda>p. \<lparr>kp_PackID = ps_PackID p, kp_CASPackHash = ps_CASPackHash p\<rparr>) kept),
       rpt_Collected = sort_key cl_PackID collected\<rparr>))))))))))"

section \<open>The server's collector\<close>

definition rack_retention_store :: "world retention_store" where
  "rack_retention_store = \<lparr>
     rt_SetTenantContext = SetTenantContext,
     rt_ListBranchRefs = (\<lambda>c r. on_db (ListBranchRefs c r)),
     rt_CommitAncestryIDs = (\<lambda>c r i. on_db (CommitAncestryIDs c r i)),
     rt_ListActiveTransactions = (\<lambda>c r. on_db (ListActiveTransactions c r)),
     rt_ListAuditRecords = (\<lambda>c r. on_db (ListAuditRecords c r)),
     rt_ListNativePacks = (\<lambda>c r. on_db (ListNativePacks c r)),
     rt_ListNativePackObjectIDs = (\<lambda>c r. on_db (ListNativePackObjectIDs c r)),
     rt_DeleteNativePack = (\<lambda>c r p. on_db (DeleteNativePack c r p))\<rparr>"

definition rack_collector :: "cas_ext \<Rightarrow> path \<Rightarrow> world collector" where
  "rack_collector y d = NewCollector (Some rack_retention_store) (Some (rack_driver y d))"

end
