(* ===== verification/Retention_Facts.thy ===== *)
theory Retention_Facts
  imports Retention Sync_Pull_Claims
begin

text \<open>
  What a collection of the server does: which packs it keeps, in terms of the tables, and that it removes exactly
  the others, with their bytes unless a kept pack shares them.
\<close>

section \<open>What keeps a pack\<close>

text \<open>The commits and objects named by branch heads (of deleted branches too), active transactions and audit records.\<close>

definition commit_roots :: "db \<Rightarrow> string \<Rightarrow> string set" where
  "commit_roots w rid =
     {b_head b | b. b \<in> set (branches (tabs w)) \<and> vis w (b_tenant b) \<and> b_repo b = rid} \<union>
     {cm | x cm. x \<in> set (active_txns (tabs w)) \<and> vis w (x_tenant x) \<and> x_repo x = rid \<and> x_commit x = Some cm} \<union>
     {cm | a cm. a \<in> set (audit_records (tabs w)) \<and> vis w (a_tenant a) \<and> a_repo a = rid \<and> a_commit a = Some cm}"

definition object_roots :: "db \<Rightarrow> string \<Rightarrow> string set" where
  "object_roots w rid =
     {ob | x ob. x \<in> set (active_txns (tabs w)) \<and> vis w (x_tenant x) \<and> x_repo x = rid \<and> x_object x = Some ob} \<union>
     {ob | a ob. a \<in> set (audit_records (tabs w)) \<and> vis w (a_tenant a) \<and> a_repo a = rid \<and> a_object a = Some ob}"

text \<open>The commits a root keeps: itself and, when it is registered, its history.\<close>

definition history :: "db \<Rightarrow> string \<Rightarrow> string \<Rightarrow> string set" where
  "history w rid root = (if root = '''' then {} else
     insert root {cm. root \<in> set (commit_ids w rid) \<and> (root, cm) \<in> (parent_links w rid)\<^sup>*})"

definition object_pack :: "db \<Rightarrow> string \<Rightarrow> string \<Rightarrow> string option" where
  "object_pack w rid = map_of (fold (\<lambda>r m. AList.update (o_object r) (o_pack r) m)
     (filter (\<lambda>r. vis w (o_tenant r) \<and> o_repo r = rid) (native_objects (tabs w))) [])"

definition reachable_pack :: "db \<Rightarrow> string \<Rightarrow> npack_row \<Rightarrow> bool" where
  "reachable_pack w rid n \<longleftrightarrow>
     (\<exists>cm. n_commit n = Some cm \<and> cm \<noteq> '''' \<and> (\<exists>root \<in> commit_roots w rid. cm \<in> history w rid root)) \<or>
     (\<exists>ob \<in> object_roots w rid. ob \<noteq> '''' \<and> object_pack w rid ob = Some (n_pack n))"

lemma same_view_retention:
  assumes "same_view w w'"
  shows "commit_roots w' = commit_roots w" "object_roots w' = object_roots w" "object_pack w' = object_pack w" "history w' = history w"
proof -
  have v: "vis w' = vis w" using assms by (intro vis_cong) (simp_all add: same_view_def)
  have t: "tabs w' = tabs w" using assms by (simp add: same_view_def)
  show "commit_roots w' = commit_roots w" "object_roots w' = object_roots w" "object_pack w' = object_pack w"
    by (simp_all add: commit_roots_def object_roots_def object_pack_def v t fun_eq_iff)
  show "history w' = history w" using same_view_graph [OF assms] by (simp add: history_def fun_eq_iff)
qed

section \<open>Errors of the ancestry search\<close>

lemma bfs_later_errors:
  "bfs lim b rid q h w = (Inl err, w') \<Longrightarrow> h \<noteq> [] \<Longrightarrow> \<not> err_is err (Pg ErrCommitNotFound)"
proof (induction lim b rid q h arbitrary: w rule: bfs.induct)
  case (2 lim b rid cid depth q h)
  show ?case
  proof (cases "cid \<in> fst ` set h")
    case True
    with 2 show ?thesis by simp
  next
    case False
    then show ?thesis
      using 2(3,4) "2.IH"(2) [OF False]
      by (auto simp: ebind_Inl_iff commit_exists_def commitParentIDs_def ewrap_Inl_iff sql_select_def sql_def split: if_splits)
  qed
qed simp

lemma withTenantTx_Inl:
  assumes "withTenantTx c m w0 = (Inl err, w')" and T: "tenantIDFromContext c = Some T"
  shows "(\<exists>w1. m (in_tx T w0) = (Inl err, w1)) \<or> (\<exists>s. err = Wrapf s (Fault ''begin'') \<or> err = Wrapf s (Fault ''set_config'') \<or> err = Wrapf s (Fault ''commit''))"
proof -
  have T': "T \<noteq> ''''" using T by (auto simp: tenantIDFromContext_def split: option.splits if_splits)
  consider "env_fault (env w0) (calls w0)" | "\<not> env_fault (env w0) (calls w0)" "env_fault (env w0) (Suc (calls w0))"
    | "\<not> env_fault (env w0) (calls w0)" "\<not> env_fault (env w0) (Suc (calls w0))" by blast
  then show ?thesis
  proof cases
    case 1
    then show ?thesis using assms T' by (auto simp: withTenantTx_def withConfiguredTenantTx_def begin_tx_cases)
  next
    case 2
    then show ?thesis using assms T' by (auto simp: withTenantTx_def withConfiguredTenantTx_def begin_tx_cases set_tenant_cases ebind_def)
  next
    case 3
    with assms(1) show ?thesis by (auto simp: withTenantTx_run [OF T 3] commit_tx_def split: prod.splits sum.splits if_splits)
  qed
qed

lemma CommitAncestryIDs_not_found:
  assumes "CommitAncestryIDs c rid tip w = (Inl err, w')" and "err_is err (Pg ErrCommitNotFound)" and T: "tenantIDFromContext c = Some T"
  shows "tip \<notin> set (commit_ids (tenant_view T w) rid)"
proof -
  have "\<exists>w1. bfs maxRetentionAncestryCommits False rid [(tip, 0)] [] (in_tx T w) = (Inl err, w1)"
    using withTenantTx_Inl [OF assms(1) [unfolded CommitAncestryIDs_def with_tenant_Some [OF T]] T] assms(2)
    by (auto simp: ebind_Inl_iff simp del: bfs.simps)
  then obtain w1 where run: "ebind (commit_exists rid tip) (\<lambda>found.
      if \<not> found then efail (Pg ErrCommitNotFound)
      else ebind (commitParentIDs rid tip) (\<lambda>parents.
        bfs maxRetentionAncestryCommits False rid (map (\<lambda>p. (p, Suc 0)) (filter (\<lambda>p. p \<noteq> tip) parents)) [(tip, 0)])) (in_tx T w) = (Inl err, w1)"
    by (auto simp add: maxRetentionAncestryCommits_def cong: if_cong)
  have no_fault: "\<not> err_is (Wrapf s (Fault t)) (Pg ErrCommitNotFound)" for s t by simp
  have "find_commit (in_tx T w) rid tip = None"
  proof (rule ccontr)
    assume found: "find_commit (in_tx T w) rid tip \<noteq> None"
    from run consider "commit_exists rid tip (in_tx T w) = (Inl err, w1)"
      | w2 where "commit_exists rid tip (in_tx T w) = (Inr True, w2)" "commitParentIDs rid tip w2 = (Inl err, w1)"
      | w3 q where "bfs maxRetentionAncestryCommits False rid q [(tip, 0)] w3 = (Inl err, w1)"
      using found unfolding ebind_Inl_iff by (auto simp: commit_exists_Inr ebind_Inl_iff simp del: bfs.simps)
    then show False
    proof cases
      case 3
      then show False using bfs_later_errors assms(2) by blast
    qed (use assms(2) in \<open>auto simp: commit_exists_def commitParentIDs_def ewrap_Inl_iff sql_select_def sql_def split: if_splits\<close>)
  qed
  then have "tip \<notin> set (commit_ids (in_tx T w) rid)"
    by (auto simp: find_commit_def commit_ids_def vis_def)
  then show ?thesis by (simp add: same_view_graph [OF view_in_tx])
qed


lemma eff_head: "ebind (elift (Inr x)) f = f x" "eassert True e = eret ()" "ebind (eret x) f = f x" "ewrap s (elift (Inr x)) = elift (Inr x)"
  by (simp_all add: fun_eq_iff eff_run)

section \<open>Listings\<close>

lemma listing_run:
  assumes "with_tenant c m (\<lambda>_. withTenantTx c (ewrap e (sql_select n q))) s = (Inr r, s')" and T: "tenantIDFromContext c = Some T"
  shows "r = q (in_tx T s)"
  using assms(1) by (auto simp: with_tenant_Some [OF T] stmt_inv elim!: withTenantTx_Inr [OF _ T])

lemma vis_in_tx: "vis (in_tx T s) = vis (tenant_view T s)"
  by (rule vis_cong) (simp_all add: tenant_view_def)

context session
begin

lemma op_plain: "tenantIDFromContext c = Some T \<Longrightarrow> ok m \<Longrightarrow> op_ok T (with_tenant c s (\<lambda>_. withTenantTx c m))"
  by (intro op_with_tenant; simp add: op_tx)

lemma listings_ok:
  assumes "tenantIDFromContext c = Some T"
  shows "op_ok T (ListBranchRefs c rid)" "op_ok T (CommitAncestryIDs c rid tip)" "op_ok T (ListActiveTransactions c rid)"
    "op_ok T (ListAuditRecords c rid)" "op_ok T (ListNativePacks c rid)" "op_ok T (ListNativePackObjectIDs c rid)"
  unfolding ListBranchRefs_def CommitAncestryIDs_def ListActiveTransactions_def ListAuditRecords_def ListNativePacks_def
    ListNativePackObjectIDs_def
  by (rule op_plain [OF assms], intro ok_intros)+

end

lemma retention_reads:
  assumes "tenantIDFromContext c = Some T"
  shows "steps w_reads (rt_ListBranchRefs rack_retention_store c rid)" "steps w_reads (rt_CommitAncestryIDs rack_retention_store c rid tip)"
    "steps w_reads (rt_ListActiveTransactions rack_retention_store c rid)" "steps w_reads (rt_ListAuditRecords rack_retention_store c rid)"
    "steps w_reads (rt_ListNativePacks rack_retention_store c rid)" "steps w_reads (rt_ListNativePackObjectIDs rack_retention_store c rid)"
  unfolding rack_retention_store_def retention_store.simps
  by (rule reads_db, rule same_tabs.listings_ok, rule assms)+

text \<open>What a state that differs by reads shows of the tables.\<close>

lemma reads_view: "w_reads w w' \<Longrightarrow> same_view (tenant_view T (w_db w)) (tenant_view T (w_db w'))"
  by (simp add: same_view_def tenant_view_def w_reads_def)

section \<open>Roots\<close>

lemma root_run:
  assumes run: "addCommitRoot rack_retention_store c rid root retained w = (Inr retained', w')" and T: "tenantIDFromContext c = Some T"
  shows "set retained' = set retained \<union> history (tenant_view T (w_db w)) rid root"
proof (cases "root = ''''")
  case False
  let ?v = "tenant_view T (w_db w)"
  obtain r s where call: "CommitAncestryIDs c rid root (w_db w) = (r, s)" by (cases "CommitAncestryIDs c rid root (w_db w)")
  show ?thesis
  proof (cases r)
    case (Inl err)
    with run False call have "err_is err (Pg ErrCommitNotFound)" and "retained' = root # retained"
      by (auto simp: addCommitRoot_def rack_retention_store_def ecatch_def ebind_def on_db_def split: if_splits)
    with CommitAncestryIDs_not_found [OF call [unfolded Inl] _ T] show ?thesis by (simp add: history_def False)
  next
    case (Inr ids)
    then have ids: "retained' = ids @ root # retained"
      using run False call by (auto simp: addCommitRoot_def rack_retention_store_def ecatch_def ebind_def on_db_def eret_def)
    have "set ids = {x. (root, x) \<in> (parent_links ?v rid)\<^sup>*}" "set ids \<subseteq> set (commit_ids ?v rid)"
      using CommitAncestryIDs_reach [OF call [unfolded Inr] T] by blast+
    moreover from this have "root \<in> set (commit_ids ?v rid)" by blast
    ultimately show ?thesis by (auto simp: ids history_def False)
  qed
qed (use run in \<open>simp add: addCommitRoot_def history_def\<close>)

lemma root_reads: "tenantIDFromContext c = Some T \<Longrightarrow> steps w_reads (addCommitRoot rack_retention_store c rid root retained)"
  unfolding addCommitRoot_def by (intro rd.steps_intro retention_reads)

lemma branch_roots_run:
  assumes "branch_roots rack_retention_store c rid bs retained w = (Inr retained', w')" and T: "tenantIDFromContext c = Some T"
    and "same_view v (tenant_view T (w_db w))"
  shows "set retained' = set retained \<union> (\<Union>b \<in> set bs. history v rid (br_HeadCommitID b)) \<and> w_reads w w'"
  using assms(1,3)
proof (induction bs arbitrary: retained w)
  case (Cons b bs)
  then obtain r1 w1 where one: "addCommitRoot rack_retention_store c rid (br_HeadCommitID b) retained w = (Inr r1, w1)"
    and rest: "branch_roots rack_retention_store c rid bs r1 w1 = (Inr retained', w')"
    by (auto simp: branch_roots_def ebind_Inr_iff ewrap_Inr_iff)
  have rd: "w_reads w w1" by (rule stepsD [OF root_reads [OF T] one])
  then have "same_view v (tenant_view T (w_db w1))" using Cons.prems(2) reads_view [of w w1 T] by (simp add: same_view_def)
  from Cons.IH [OF rest this] root_run [OF one T] rd rd.trans show ?case
    by (auto simp: same_view_retention [OF Cons.prems(2)])
qed (auto simp: branch_roots_def rd.refl)


lemma pair_roots_run:
  assumes "efold ts (retained, objects) (\<lambda>t (retained, objects).
      ebind (ewrap msg (addCommitRoot rack_retention_store c rid (f t) retained)) (\<lambda>retained.
      eret (retained, if g t \<noteq> '''' then g t # objects else objects))) w = (Inr (retained', objects'), w')"
    and T: "tenantIDFromContext c = Some T" and "same_view v (tenant_view T (w_db w))"
  shows "set retained' = set retained \<union> (\<Union>t \<in> set ts. history v rid (f t)) \<and> set objects' = set objects \<union> (g ` set ts - {''''}) \<and> w_reads w w'"
  using assms(1,3)
proof (induction ts arbitrary: retained objects w)
  case (Cons t ts)
  then obtain r1 w1 where one: "addCommitRoot rack_retention_store c rid (f t) retained w = (Inr r1, w1)"
    and rest: "efold ts (r1, if g t \<noteq> '''' then g t # objects else objects) (\<lambda>t (retained, objects).
      ebind (ewrap msg (addCommitRoot rack_retention_store c rid (f t) retained)) (\<lambda>retained.
      eret (retained, if g t \<noteq> '''' then g t # objects else objects))) w1 = (Inr (retained', objects'), w')"
    by (auto simp: ebind_Inr_iff ewrap_Inr_iff)
  have rd: "w_reads w w1" by (rule stepsD [OF root_reads [OF T] one])
  then have "same_view v (tenant_view T (w_db w1))" using Cons.prems(2) reads_view [of w w1 T] by (simp add: same_view_def)
  from Cons.IH [OF rest this] root_run [OF one T] rd rd.trans show ?case
    by (auto simp: same_view_retention [OF Cons.prems(2)])
qed (auto simp: rd.refl)

lemma txn_roots_run:
  assumes "txn_roots rack_retention_store c rid ts (retained, objects) w = (Inr (retained', objects'), w')"
    and "tenantIDFromContext c = Some T" and "same_view v (tenant_view T (w_db w))"
  shows "set retained' = set retained \<union> (\<Union>t \<in> set ts. history v rid (at_CommitID t)) \<and>
    set objects' = set objects \<union> (at_ObjectID ` set ts - {''''}) \<and> w_reads w w'"
  using assms unfolding txn_roots_def by (rule pair_roots_run)

lemma audit_roots_run:
  assumes "audit_roots rack_retention_store c rid rs (retained, objects) w = (Inr (retained', objects'), w')"
    and "tenantIDFromContext c = Some T" and "same_view v (tenant_view T (w_db w))"
  shows "set retained' = set retained \<union> (\<Union>r \<in> set rs. history v rid (ar_CommitID r)) \<and>
    set objects' = set objects \<union> (ar_ObjectID ` set rs - {''''}) \<and> w_reads w w'"
  using assms unfolding audit_roots_def by (rule pair_roots_run)

lemma set_rooted_packs: "set (rooted_packs objects m) = {p. \<exists>ob \<in> set objects. map_of m ob = Some p}"
  by (force simp: rooted_packs_def split: option.splits)

section \<open>Removal\<close>

text \<open>The rows of the packs \<open>P\<close> are gone.\<close>

definition drop_packs :: "(string \<Rightarrow> bool) \<Rightarrow> string \<Rightarrow> string set \<Rightarrow> tables \<Rightarrow> tables" where
  "drop_packs V rid P t = t\<lparr>
     native_objects := filter (\<lambda>q. \<not> (V (o_tenant q) \<and> o_repo q = rid \<and> o_pack q \<in> P)) (native_objects t),
     native_packs := filter (\<lambda>n. \<not> (V (n_tenant n) \<and> n_repo n = rid \<and> n_pack n \<in> P)) (native_packs t)\<rparr>"

lemma drop_packs_none: "drop_packs V rid {} t = t"
  by (simp add: drop_packs_def)

lemma drop_packs_twice: "drop_packs V rid P (drop_packs V rid Q t) = drop_packs V rid (P \<union> Q) t"
proof -
  have comm: "(a \<longrightarrow> b \<longrightarrow> c) = (b \<longrightarrow> a \<longrightarrow> c)" for a b c by blast
  show ?thesis by (simp add: drop_packs_def imp_conjR conj_commute comm)
qed

lemma DeleteNativePack_run:
  assumes "DeleteNativePack c rid p s = (Inr u, s')" and T: "tenantIDFromContext c = Some T"
  shows "tabs s' = drop_packs (vis (tenant_view T s)) rid {p} (tabs s) \<and> env s' = env s"
proof -
  obtain s1 s2 where del: "delete_nobjs rid p (in_tx T s) = (Inr (), s1)" "delete_npacks rid p s1 = (Inr (), s2)"
    and s': "s' = (tick s2)\<lparr>guc := None\<rparr>"
    using assms(1) by (auto simp: DeleteNativePack_def with_tenant_Some [OF T] stmt_inv elim!: withTenantTx_Inr [OF _ T])
  let ?t1 = "(tabs s)\<lparr>native_objects := filter (\<lambda>x. \<not> (vis (in_tx T s) (o_tenant x) \<and> o_repo x = rid \<and> o_pack x = p)) (native_objects (tabs s))\<rparr>"
  have s1: "tabs s1 = ?t1" "env s1 = env s" "guc s1 = Some T"
    using del(1) by (auto simp: delete_nobjs_def sql_Inr Let_def)
  have v: "vis s1 = vis (in_tx T s)" by (rule vis_cong) (simp_all add: s1)
  show ?thesis
    using del(2) unfolding delete_npacks_def sql_Inr Let_def checked_Inr v s1(1)
    by (auto simp: s' s1 drop_packs_def vis_in_tx)
qed

lemma pack_file_inj: "pack_file y d sc k = pack_file y d sc' k' \<Longrightarrow> k = k'"
  by (auto simp: file_defs)

lemma DeletePack_only:
  assumes "DeletePack y d c sc h f = (Inr u, f')"
  shows "local_pack y d f' sc' k = local_pack y d f sc' k \<or> canonicalHashString k = canonicalHashString h"
proof (cases "canonicalHashString h")
  case (Inl e)
  then obtain e' where "validateHash h = Inl e'" by (cases "validateHash h") (auto simp: validateHash_def split: if_splits)
  from fwp_run [OF bad_hash_fwp(4) [OF this] assms] show ?thesis by simp
next
  case (Inr ch)
  have "fs_files f' = (fs_files f)(pack_file y d sc ch := None)" by (rule fwp_run [OF DeletePack_fwp [OF Inr] assms])
  then show ?thesis using Inr pack_file_inj by (auto simp: local_pack_def split: sum.splits)
qed

lemma collect_run:
  assumes "efold cs acc (collect_pack rack_retention_store (drv_DeletePack (rack_driver y d)) c sc rid False hs) w = (Inr acc', w')"
    and T: "tenantIDFromContext c = Some T" and V: "V = vis (tenant_view T (w_db w))"
  shows "tabs (w_db w') = drop_packs V rid (ps_PackID ` set cs) (tabs (w_db w)) \<and> env (w_db w') = env (w_db w) \<and>
    (\<forall>sc' k. local_pack y d (w_fs w') sc' k = local_pack y d (w_fs w) sc' k \<or>
      (\<exists>p \<in> set cs. ps_CASPackHash p \<notin> set hs \<and> canonicalHashString k = canonicalHashString (ps_CASPackHash p)))"
  using assms(1) V
proof (induction cs arbitrary: acc w)
  case (Cons p cs)
  then obtain acc1 w1 where one: "collect_pack rack_retention_store (drv_DeletePack (rack_driver y d)) c sc rid False hs p acc w = (Inr acc1, w1)"
    and rest: "efold cs acc1 (collect_pack rack_retention_store (drv_DeletePack (rack_driver y d)) c sc rid False hs) w1 = (Inr acc', w')"
    by (auto simp: ebind_Inr_iff)
  obtain s f where del: "DeleteNativePack c rid (ps_PackID p) (w_db w) = (Inr (), s)" and w1: "w_db w1 = s" "w_fs w1 = f"
    and f: "f = w_fs w \<or> ps_CASPackHash p \<notin> set hs \<and> (\<exists>u. DeletePack y d c sc (ps_CASPackHash p) (w_fs w) = (Inr u, f))"
    using one
    by (cases acc) (auto simp: collect_pack_def rack_retention_store_def rack_driver_def ebind_Inr_iff ewrap_Inr_iff on_db_iff on_fs_iff Let_def
        split: if_splits)
  note d = DeleteNativePack_run [OF del T]
  have env: "env s = env (w_db w)" using d by simp
  then have "V = vis (tenant_view T (w_db w1))" using Cons.prems(2) w1 by (auto intro!: vis_cong simp: tenant_view_def)
  note IH = Cons.IH [OF rest this]
  have "tabs (w_db w') = drop_packs V rid (ps_PackID ` set (p # cs)) (tabs (w_db w))"
    using IH d w1 Cons.prems(2) by (simp add: drop_packs_twice)
  moreover have "local_pack y d f sc' k = local_pack y d (w_fs w) sc' k \<or>
      ps_CASPackHash p \<notin> set hs \<and> canonicalHashString k = canonicalHashString (ps_CASPackHash p)" for sc' k
    using f DeletePack_only by blast
  ultimately show ?case using IH w1 env by (simp; metis)
qed (simp add: drop_packs_none)


section \<open>The property\<close>

lemma reads_tables: "w_reads w w' \<Longrightarrow> tabs (w_db w') = tabs (w_db w) \<and> env (w_db w') = env (w_db w)"
  by (simp add: w_reads_def)

text \<open>The packs of a repository a tenant sees, and the identifiers of those nothing reaches.\<close>

definition repo_packs :: "db \<Rightarrow> string \<Rightarrow> npack_row list" where
  "repo_packs w rid = filter (\<lambda>n. vis w (n_tenant n) \<and> n_repo n = rid) (native_packs (tabs w))"

definition garbage :: "db \<Rightarrow> string \<Rightarrow> npack_row set" where
  "garbage w rid = {n \<in> set (repo_packs w rid). \<not> reachable_pack w rid n}"

text \<open>What the roots and listings of a collection amount to.\<close>

lemma keep_is_reachable:
  assumes commits: "set retained = (\<Union>root \<in> commit_roots v rid. history v rid root)"
    and objects: "set objects = object_roots v rid - {''''}" and packs: "map_of objectToPack = object_pack v rid"
  shows "is_retained retained (rooted_packs objects objectToPack) (pack_summary n) \<longleftrightarrow> reachable_pack v rid n"
proof -
  have "ps_CommitID (pack_summary n) \<noteq> '''' \<and> ps_CommitID (pack_summary n) \<in> set retained \<longleftrightarrow>
    (\<exists>cm. n_commit n = Some cm \<and> cm \<noteq> '''' \<and> (\<exists>root \<in> commit_roots v rid. cm \<in> history v rid root))"
    by (cases "n_commit n") (auto simp: pack_summary_def textOrEmpty_def commits)
  moreover have "ps_PackID (pack_summary n) \<in> set (rooted_packs objects objectToPack) \<longleftrightarrow>
    (\<exists>ob \<in> object_roots v rid. ob \<noteq> '''' \<and> object_pack v rid ob = Some (n_pack n))"
    by (auto simp: set_rooted_packs objects packs pack_summary_def)
  ultimately show ?thesis unfolding is_retained_def reachable_pack_def by simp
qed

lemma roots_of_listings:
  assumes b: "bs = map branch_ref (sort_key b_name (filter (\<lambda>b. vis v (b_tenant b) \<and> b_repo b = rid) (branches (tabs v))))"
    and t: "ts = map active_txn (sort_key x_id (filter (\<lambda>r. vis v (x_tenant r) \<and> x_repo r = rid) (active_txns (tabs v))))"
    and a: "rs = map audit_record (sort_key a_created (filter (\<lambda>r. vis v (a_tenant r) \<and> a_repo r = rid) (audit_records (tabs v))))"
  shows "(\<Union>b \<in> set bs. history v rid (br_HeadCommitID b)) \<union> (\<Union>t \<in> set ts. history v rid (at_CommitID t)) \<union>
      (\<Union>r \<in> set rs. history v rid (ar_CommitID r)) = (\<Union>root \<in> commit_roots v rid. history v rid root)"
    and "(at_ObjectID ` set ts - {''''}) \<union> (ar_ObjectID ` set rs - {''''}) = object_roots v rid - {''''}"
proof -
  have e: "history v rid '''' = {}" by (simp add: history_def)
  have opt: "x \<in> history v rid (textOrEmpty q) \<longleftrightarrow> (\<exists>cm. q = Some cm \<and> x \<in> history v rid cm)" for x q
    by (cases q) (simp_all add: textOrEmpty_def e)
  show "(\<Union>b \<in> set bs. history v rid (br_HeadCommitID b)) \<union> (\<Union>t \<in> set ts. history v rid (at_CommitID t)) \<union>
      (\<Union>r \<in> set rs. history v rid (ar_CommitID r)) = (\<Union>root \<in> commit_roots v rid. history v rid root)"
    by (rule set_eqI) (auto simp: b t a branch_ref_def active_txn_def audit_record_def commit_roots_def opt)
  have opt': "textOrEmpty q = x \<and> x \<noteq> '''' \<longleftrightarrow> q = Some x \<and> x \<noteq> ''''" for q x by (cases q) (auto simp: textOrEmpty_def)
  show "(at_ObjectID ` set ts - {''''}) \<union> (ar_ObjectID ` set rs - {''''}) = object_roots v rid - {''''}"
    by (rule set_eqI) (auto simp: t a active_txn_def audit_record_def object_roots_def image_iff opt' textOrEmpty_def split: option.splits)
qed


lemma view_reads: "w_reads w u \<Longrightarrow> vis (in_tx T (w_db u)) = vis (tenant_view T (w_db w)) \<and> tabs (in_tx T (w_db u)) = tabs (tenant_view T (w_db w))"
  by (auto intro!: vis_cong simp: w_reads_def tenant_view_def)

lemma listings_at:
  assumes T: "tenantIDFromContext c = Some T" and u: "w_reads w u"
  shows "rt_ListBranchRefs rack_retention_store c rid u = (Inr bs, u') \<Longrightarrow>
      bs = map branch_ref (sort_key b_name (filter (\<lambda>b. vis (tenant_view T (w_db w)) (b_tenant b) \<and> b_repo b = rid) (branches (tabs (tenant_view T (w_db w))))))"
    and "rt_ListActiveTransactions rack_retention_store c rid u = (Inr ts, u') \<Longrightarrow>
      ts = map active_txn (sort_key x_id (filter (\<lambda>r. vis (tenant_view T (w_db w)) (x_tenant r) \<and> x_repo r = rid) (active_txns (tabs (tenant_view T (w_db w))))))"
    and "rt_ListAuditRecords rack_retention_store c rid u = (Inr rs, u') \<Longrightarrow>
      rs = map audit_record (sort_key a_created (filter (\<lambda>r. vis (tenant_view T (w_db w)) (a_tenant r) \<and> a_repo r = rid) (audit_records (tabs (tenant_view T (w_db w))))))"
    and "rt_ListNativePackObjectIDs rack_retention_store c rid u = (Inr m, u') \<Longrightarrow> map_of m = object_pack (tenant_view T (w_db w)) rid"
    and "rt_ListNativePacks rack_retention_store c rid u = (Inr ps, u') \<Longrightarrow>
      ps = map pack_summary (sort_key n_pack (repo_packs (tenant_view T (w_db w)) rid))"
  unfolding rack_retention_store_def retention_store.simps on_db_iff ListBranchRefs_def ListActiveTransactions_def ListAuditRecords_def
    ListNativePacks_def ListNativePackObjectIDs_def repo_packs_def object_pack_def
  by (elim exE conjE; drule listing_run [OF _ T]; simp only: view_reads [OF u])+

lemma gather_run:
  assumes "gather_roots rack_retention_store c rid w = (Inr (retained, objects), w')" and T: "tenantIDFromContext c = Some T"
  shows "w_reads w w'" and "set retained = (\<Union>root \<in> commit_roots (tenant_view T (w_db w)) rid. history (tenant_view T (w_db w)) rid root)"
    and "set objects = object_roots (tenant_view T (w_db w)) rid - {''''}"
proof -
  let ?v = "tenant_view T (w_db w)" and ?st = rack_retention_store
  from assms(1) [unfolded gather_roots_def ebind_Inr_iff ewrap_Inr_iff]
  obtain bs w1 r1 w2 ts w3 p2 w4 rs w5 where
    bs: "rt_ListBranchRefs ?st c rid w = (Inr bs, w1)" and r1: "branch_roots ?st c rid bs [] w1 = (Inr r1, w2)"
    and ts: "rt_ListActiveTransactions ?st c rid w2 = (Inr ts, w3)" and p2: "txn_roots ?st c rid ts (r1, []) w3 = (Inr p2, w4)"
    and rs: "rt_ListAuditRecords ?st c rid w4 = (Inr rs, w5)" and p3: "audit_roots ?st c rid rs p2 w5 = (Inr (retained, objects), w')"
    by (elim exE conjE) (rule that; assumption)
  obtain r2 o2 where "p2 = (r2, o2)" by (cases p2)
  with p2 p3 have r2: "txn_roots ?st c rid ts (r1, []) w3 = (Inr (r2, o2), w4)"
    and r3: "audit_roots ?st c rid rs (r2, o2) w5 = (Inr (retained, objects), w')" by simp_all
  note rd = retention_reads [OF T]
  have s1: "w_reads w w1" by (rule stepsD [OF rd(1) bs])
  note b = branch_roots_run [OF r1 T reads_view [OF s1]]
  have s2: "w_reads w w2" by (rule rd.trans [OF s1 b [THEN conjunct2]])
  have s3: "w_reads w w3" by (rule rd.trans [OF s2 stepsD [OF rd(3) ts]])
  note x = txn_roots_run [OF r2 T reads_view [OF s3]]
  have s4: "w_reads w w4" by (rule rd.trans [OF s3 x [THEN conjunct2, THEN conjunct2]])
  have s5: "w_reads w w5" by (rule rd.trans [OF s4 stepsD [OF rd(4) rs]])
  note a = audit_roots_run [OF r3 T reads_view [OF s5]]
  show "w_reads w w'" by (rule rd.trans [OF s5 a [THEN conjunct2, THEN conjunct2]])
  have lists: "bs = map branch_ref (sort_key b_name (filter (\<lambda>b. vis ?v (b_tenant b) \<and> b_repo b = rid) (branches (tabs ?v))))"
    "ts = map active_txn (sort_key x_id (filter (\<lambda>r. vis ?v (x_tenant r) \<and> x_repo r = rid) (active_txns (tabs ?v))))"
    "rs = map audit_record (sort_key a_created (filter (\<lambda>r. vis ?v (a_tenant r) \<and> a_repo r = rid) (audit_records (tabs ?v))))"
    by (rule listings_at(1) [OF T rd.refl bs] listings_at(2) [OF T s2 ts] listings_at(3) [OF T s4 rs])+
  note roots = roots_of_listings [OF lists]
  show "set retained = (\<Union>root \<in> commit_roots ?v rid. history ?v rid root)"
    unfolding roots(1) [symmetric] using b [THEN conjunct1] x [THEN conjunct1] a [THEN conjunct1] by (simp only: list.set(1) Un_empty_left)
  show "set objects = object_roots ?v rid - {''''}"
    unfolding roots(2) [symmetric] using x [THEN conjunct2, THEN conjunct1] a [THEN conjunct2, THEN conjunct1] by (simp only: list.set(1) Un_empty_left)
qed


lemma store_context: "rt_SetTenantContext rack_retention_store = SetTenantContext"
  by (simp add: rack_retention_store_def)

lemma store_leaves_files:
  "leaves w_fs (rt_ListBranchRefs rack_retention_store c rid)" "leaves w_fs (rt_CommitAncestryIDs rack_retention_store c rid tip)"
  "leaves w_fs (rt_ListActiveTransactions rack_retention_store c rid)" "leaves w_fs (rt_ListAuditRecords rack_retention_store c rid)"
  "leaves w_fs (rt_ListNativePacks rack_retention_store c rid)" "leaves w_fs (rt_ListNativePackObjectIDs rack_retention_store c rid)"
  "leaves w_fs (gather_roots rack_retention_store c rid)"
proof -
  show calls: "leaves w_fs (rt_ListBranchRefs rack_retention_store c rid)" "leaves w_fs (rt_CommitAncestryIDs rack_retention_store c rid tip)"
    "leaves w_fs (rt_ListActiveTransactions rack_retention_store c rid)" "leaves w_fs (rt_ListAuditRecords rack_retention_store c rid)"
    "leaves w_fs (rt_ListNativePacks rack_retention_store c rid)" "leaves w_fs (rt_ListNativePackObjectIDs rack_retention_store c rid)" for tip
    by (simp_all add: rack_retention_store_def leaves_on)
  show "leaves w_fs (gather_roots rack_retention_store c rid)"
  proof -
    have root: "leaves w_fs (addCommitRoot rack_retention_store c rid i r)" for i r
      unfolding addCommitRoot_def by (rule same.steps_if same.steps_pure same.steps_ecatch same.steps_ebind calls)+
    show ?thesis
      unfolding gather_roots_def branch_roots_def txn_roots_def audit_roots_def case_prod_unfold
      by (rule same.steps_pure same.steps_efold same.steps_ewrap same.steps_ebind calls root)+
  qed
qed

text \<open>The part of \<open>Collect\<close> that reads.\<close>

lemma Collect_reads:
  assumes run: "Collect (Some (rack_collector y d)) c0 tid rid dry w = (Inr rep, w')"
    and ctx: "SetTenantContext c0 tid = Inr c" and T: "tenantIDFromContext c = Some T"
  obtains keep packs sc w1 acc where "w_reads w w1" and "w_fs w1 = w_fs w" and "\<And>n. keep (pack_summary n) \<longleftrightarrow> reachable_pack (tenant_view T (w_db w)) rid n"
    and "packs = map pack_summary (sort_key n_pack (repo_packs (tenant_view T (w_db w)) rid))" and "NewScope tid rid = Inr sc"
    and "efold (filter (\<lambda>p. \<not> keep p) packs) ([], []) (collect_pack rack_retention_store (drv_DeletePack (rack_driver y d)) c sc rid dry
      (map ps_CASPackHash (filter keep packs))) w1 = (Inr acc, w')"
proof -
  let ?st = rack_retention_store
  have ne: "tid \<noteq> ''''" "rid \<noteq> ''''"
    using run by (auto simp: Collect_def rack_collector_def NewCollector_def ebind_Inr_iff eassert_Inr_iff)
  obtain sc0 where sc0: "NewScope tid rid = Inr sc0"
    using run by (cases "NewScope tid rid")
      (auto simp: Collect_def rack_collector_def NewCollector_def collect_scope_def ebind_Inr_iff eassert_Inr_iff)
  from run have "ebind (gather_roots ?st c rid) (\<lambda>(retainedCommits, objects).
     ebind (ewrap ''retention: collect: list native pack object IDs'' (rt_ListNativePackObjectIDs ?st c rid)) (\<lambda>objectToPack.
     ebind (ewrap ''retention: collect: list native packs'' (rt_ListNativePacks ?st c rid)) (\<lambda>packs.
     let keep = is_retained retainedCommits (rooted_packs objects objectToPack);
         kept = filter keep packs in
     ebind (efold (filter (\<lambda>p. \<not> keep p) packs) ([], [])
       (collect_pack ?st (drv_DeletePack (rack_driver y d)) c (projr (NewScope tid rid)) rid dry (map ps_CASPackHash kept)))
       (\<lambda>(_, collected).
     eret \<lparr>rpt_TenantID = tid, rpt_RepoID = rid, rpt_DryRun = dry,
       rpt_Retained = sort_key kp_PackID (map (\<lambda>p. \<lparr>kp_PackID = ps_PackID p, kp_CASPackHash = ps_CASPackHash p\<rparr>) kept),
       rpt_Collected = sort_key cl_PackID collected\<rparr>)))) w = (Inr rep, w')"
    and sc: "NewScope tid rid = Inr (projr (NewScope tid rid))"
    by (simp_all add: Collect_def rack_collector_def NewCollector_def collect_scope_def store_context ctx sc0 eff_head ne)
  then obtain r3 o3 w6 where g: "gather_roots ?st c rid w = (Inr (r3, o3), w6)" and
    rest: "ebind (ewrap ''retention: collect: list native pack object IDs'' (rt_ListNativePackObjectIDs ?st c rid)) (\<lambda>objectToPack.
     ebind (ewrap ''retention: collect: list native packs'' (rt_ListNativePacks ?st c rid)) (\<lambda>packs.
     let keep = is_retained r3 (rooted_packs o3 objectToPack);
         kept = filter keep packs in
     ebind (efold (filter (\<lambda>p. \<not> keep p) packs) ([], [])
       (collect_pack ?st (drv_DeletePack (rack_driver y d)) c (projr (NewScope tid rid)) rid dry (map ps_CASPackHash kept)))
       (\<lambda>(_, collected).
     eret \<lparr>rpt_TenantID = tid, rpt_RepoID = rid, rpt_DryRun = dry,
       rpt_Retained = sort_key kp_PackID (map (\<lambda>p. \<lparr>kp_PackID = ps_PackID p, kp_CASPackHash = ps_CASPackHash p\<rparr>) kept),
       rpt_Collected = sort_key cl_PackID collected\<rparr>))) w6 = (Inr rep, w')"
    by (auto simp: ebind_Inr_iff)
  from rest obtain m w7 packs w8 acc where m: "rt_ListNativePackObjectIDs ?st c rid w6 = (Inr m, w7)"
    and packs: "rt_ListNativePacks ?st c rid w7 = (Inr packs, w8)"
    and loop: "efold (filter (\<lambda>p. \<not> is_retained r3 (rooted_packs o3 m) p) packs) ([], [])
      (collect_pack ?st (drv_DeletePack (rack_driver y d)) c (projr (NewScope tid rid)) rid dry
        (map ps_CASPackHash (filter (is_retained r3 (rooted_packs o3 m)) packs))) w8 = (Inr acc, w')"
    by (auto simp: ebind_Inr_iff ewrap_Inr_iff Let_def)
  note g' = gather_run [OF g T]
  have s7: "w_reads w w7" using g'(1) stepsD [OF retention_reads(6) [OF T] m] rd.trans by blast
  have s8: "w_reads w w8" using s7 stepsD [OF retention_reads(5) [OF T] packs] rd.trans by blast
  note keep = keep_is_reachable [OF g'(2,3) listings_at(4) [OF T g'(1) m]]
  have fs: "w_fs w8 = w_fs w"
    using stepsD [OF store_leaves_files(7) g] stepsD [OF store_leaves_files(6) m] stepsD [OF store_leaves_files(5) packs] by simp
  show thesis by (rule that [OF s8 fs keep listings_at(5) [OF T s7 packs] sc loop])
qed

text \<open>C9: Garbage collection removes exactly what nothing reaches. When a collection of a repository succeeds, the rows of
  exactly those packs are gone whose commit is not in the history of a branch head (deleted branches included),
  an active transaction or an audit record, and none of whose objects is named by a transaction or an audit
  record; no other row of any table has changed; and the only packs whose bytes may have changed are those with
  the hash of a removed pack that no remaining pack of the repository has.\<close>

theorem collection_is_exact:
  assumes "Collect (Some (rack_collector y d)) c0 tid rid False w = (Inr rep, w')"
    and "SetTenantContext c0 tid = Inr c" and "tenantIDFromContext c = Some T"
  shows "tabs (w_db w') = drop_packs (vis (tenant_view T (w_db w))) rid (n_pack ` garbage (tenant_view T (w_db w)) rid) (tabs (w_db w)) \<and>
    (\<forall>sc h. local_pack y d (w_fs w') sc h \<noteq> local_pack y d (w_fs w) sc h \<longrightarrow>
      (\<exists>n \<in> garbage (tenant_view T (w_db w)) rid. canonicalHashString h = canonicalHashString (n_cas n) \<and>
        (\<forall>k \<in> set (repo_packs (tenant_view T (w_db w)) rid). n_cas k = n_cas n \<longrightarrow> \<not> reachable_pack (tenant_view T (w_db w)) rid k)))"
proof -
  let ?v = "tenant_view T (w_db w)"
  obtain keep packs sc w1 acc where reads: "w_reads w w1" and fs: "w_fs w1 = w_fs w" and keep: "\<And>n. keep (pack_summary n) \<longleftrightarrow> reachable_pack ?v rid n"
    and packs: "packs = map pack_summary (sort_key n_pack (repo_packs ?v rid))"
    and loop: "efold (filter (\<lambda>p. \<not> keep p) packs) ([], []) (collect_pack rack_retention_store (drv_DeletePack (rack_driver y d)) c sc rid False
      (map ps_CASPackHash (filter keep packs))) w1 = (Inr acc, w')"
    by (rule Collect_reads [OF assms]) (rule that, assumption+)
  have vis: "vis ?v = vis (tenant_view T (w_db w1))" using reads by (auto intro!: vis_cong simp: w_reads_def tenant_view_def)
  note run = collect_run [OF loop assms(3) vis]
  have gone: "ps_PackID ` set (filter (\<lambda>p. \<not> keep p) packs) = n_pack ` garbage ?v rid"
  proof -
    have "set (filter (\<lambda>p. \<not> keep p) packs) = pack_summary ` garbage ?v rid" by (auto simp: packs keep garbage_def)
    then show ?thesis by (simp add: image_image pack_summary_def)
  qed
  have "tabs (w_db w') = drop_packs (vis ?v) rid (n_pack ` garbage ?v rid) (tabs (w_db w))"
    using run reads_tables [OF reads] gone by simp
  moreover have "\<exists>n \<in> garbage ?v rid. canonicalHashString h = canonicalHashString (n_cas n) \<and>
      (\<forall>k \<in> set (repo_packs ?v rid). n_cas k = n_cas n \<longrightarrow> \<not> reachable_pack ?v rid k)"
    if ch: "local_pack y d (w_fs w') sc h \<noteq> local_pack y d (w_fs w) sc h" for sc h
  proof -
    obtain p where p: "p \<in> set (filter (\<lambda>p. \<not> keep p) packs)" "ps_CASPackHash p \<notin> set (map ps_CASPackHash (filter keep packs))"
      "canonicalHashString h = canonicalHashString (ps_CASPackHash p)" using run ch fs by metis
    from p(1) obtain n where n: "n \<in> set (repo_packs ?v rid)" "p = pack_summary n" "\<not> reachable_pack ?v rid n" by (auto simp: packs keep)
    have "\<not> reachable_pack ?v rid k" if "k \<in> set (repo_packs ?v rid)" "n_cas k = n_cas n" for k
    proof
      assume "reachable_pack ?v rid k"
      then have "pack_summary k \<in> set (filter keep packs)" using that(1) by (simp add: packs keep)
      then have "n_cas k \<in> set (map ps_CASPackHash (filter keep packs))" by (force simp: pack_summary_def)
      with p(2) that(2) n(2) show False by (simp add: pack_summary_def)
    qed
    with n p(3) show ?thesis by (intro bexI [of _ n]) (simp_all add: garbage_def pack_summary_def)
  qed
  ultimately show ?thesis by blast
qed

end
