(* ===== verification/Retention_Samples.thy ===== *)
theory Retention_Samples
  imports Retention_Facts Sync_Samples
begin

text \<open>
  A repository with two native packs: one that holds an object of an active transaction, one that nothing reaches.
\<close>

definition spare_id :: string where "spare_id = hex_encode (replicate 32 3)"

definition gc_db :: db where
  "gc_db = push_db\<lparr>tabs := push_tabs\<lparr>branches := [], active_txns := [\<lparr>x_tenant = tenant_uuid, x_repo = ''r'', x_id = ''t'', x_commit = None, x_object = Some ''ob''\<rparr>],
     native_objects := [\<lparr>o_tenant = tenant_uuid, o_repo = ''r'', o_pack = ''kept'', o_object = ''ob'', o_offset = 0, o_csize = 0, o_usize = 0, o_crc = 0\<rparr>],
     native_packs :=
     [\<lparr>n_tenant = tenant_uuid, n_repo = ''r'', n_pack = ''kept'', n_cas = spare_id, n_commit = None, n_count = 0\<rparr>,
      \<lparr>n_tenant = tenant_uuid, n_repo = ''r'', n_pack = ''spare'', n_cas = zero_id, n_commit = None, n_count = 0\<rparr>]\<rparr>\<rparr>"

definition gc_world :: world where
  "gc_world = \<lparr>w_fs = push_fs, w_db = gc_db\<rparr>"

text \<open>The database after each of the calls of a collection.\<close>

definition gc1 :: db where "gc1 = snd (ListBranchRefs push_ctx ''r'' gc_db)"
definition gc2 :: db where "gc2 = snd (ListActiveTransactions push_ctx ''r'' gc1)"
definition gc3 :: db where "gc3 = snd (ListAuditRecords push_ctx ''r'' gc2)"
definition gc4 :: db where "gc4 = snd (ListNativePackObjectIDs push_ctx ''r'' gc3)"
definition gc5 :: db where "gc5 = snd (ListNativePacks push_ctx ''r'' gc4)"
definition gc6 :: db where "gc6 = snd (DeleteNativePack push_ctx ''r'' ''spare'' gc5)"
definition gc_fs :: fs where
  "gc_fs = snd (DeletePack push_cas push_root push_ctx \<lparr>sc_tenant = tenant_uuid, sc_repo = ''r''\<rparr> zero_id push_fs)"

lemma gc_calls:
  "fst (ListBranchRefs push_ctx ''r'' gc_db) = Inr []"
  "fst (ListActiveTransactions push_ctx ''r'' gc1) = Inr [\<lparr>at_TransactionID = ''t'', at_CommitID = '''', at_ObjectID = ''ob''\<rparr>]"
  "fst (ListAuditRecords push_ctx ''r'' gc2) = Inr []"
  "fst (ListNativePackObjectIDs push_ctx ''r'' gc3) = Inr [(''ob'', ''kept'')]"
  "fst (ListNativePacks push_ctx ''r'' gc4) = Inr [\<lparr>ps_PackID = ''kept'', ps_CASPackHash = spare_id, ps_CommitID = ''''\<rparr>,
     \<lparr>ps_PackID = ''spare'', ps_CASPackHash = zero_id, ps_CommitID = ''''\<rparr>]"
  "fst (DeleteNativePack push_ctx ''r'' ''spare'' gc5) = Inr ()"
  by code_simp+

lemma gc_delete: "fst (DeletePack push_cas push_root push_ctx \<lparr>sc_tenant = tenant_uuid, sc_repo = ''r''\<rparr> zero_id push_fs) = Inr ()"
  by code_simp

lemma gc_ids: "zero_id \<noteq> spare_id"
  by code_simp

lemma run_of: "fst p = r \<Longrightarrow> p = (r, snd p)"
  by (simp add: prod_eq_iff)

lemma gc_run: "\<exists>w'. Collect (Some (rack_collector push_cas push_root)) push_ctx tenant_uuid ''r'' False gc_world =
  (Inr \<lparr>rpt_TenantID = tenant_uuid, rpt_RepoID = ''r'', rpt_DryRun = False, rpt_Retained = [\<lparr>kp_PackID = ''kept'', kp_CASPackHash = spare_id\<rparr>],
    rpt_Collected = [\<lparr>cl_PackID = ''spare'', cl_CASPackHash = zero_id, cl_CASBlobCollected = True\<rparr>]\<rparr>, w')"
proof -
  note calls = gc_calls [THEN run_of, folded gc1_def gc2_def gc3_def gc4_def gc5_def gc6_def] gc_delete [THEN run_of, folded gc_fs_def]
  have ne: "tenant_uuid \<noteq> ''''" by (simp add: tenant_uuid_def)
  have gw: "w_db gc_world = gc_db" "w_fs gc_world = push_fs" by (simp_all add: gc_world_def)
  have store: "rt_ListBranchRefs rack_retention_store = (\<lambda>c r. on_db (ListBranchRefs c r))"
    "rt_ListActiveTransactions rack_retention_store = (\<lambda>c r. on_db (ListActiveTransactions c r))"
    "rt_ListAuditRecords rack_retention_store = (\<lambda>c r. on_db (ListAuditRecords c r))"
    "rt_ListNativePackObjectIDs rack_retention_store = (\<lambda>c r. on_db (ListNativePackObjectIDs c r))"
    "rt_ListNativePacks rack_retention_store = (\<lambda>c r. on_db (ListNativePacks c r))"
    "rt_DeleteNativePack rack_retention_store = (\<lambda>c r p. on_db (DeleteNativePack c r p))"
    by (simp_all add: rack_retention_store_def)
  have roots: "gather_roots rack_retention_store push_ctx ''r'' gc_world = (Inr ([], [''ob'']), gc_world\<lparr>w_db := gc3\<rparr>)"
    by (simp add: gather_roots_def branch_roots_def txn_roots_def audit_roots_def addCommitRoot_def eff_run store on_db_def gw calls)
  let ?sc = "\<lparr>sc_tenant = tenant_uuid, sc_repo = ''r''\<rparr>"
  let ?kept = "\<lparr>ps_PackID = ''kept'', ps_CASPackHash = spare_id, ps_CommitID = ''''\<rparr>"
  let ?spare = "\<lparr>ps_PackID = ''spare'', ps_CASPackHash = zero_id, ps_CommitID = ''''\<rparr>"
  have keep: "filter (is_retained [] (rooted_packs [''ob''] [(''ob'', ''kept'')])) [?kept, ?spare] = [?kept]"
    "filter (\<lambda>p. \<not> is_retained [] (rooted_packs [''ob''] [(''ob'', ''kept'')]) p) [?kept, ?spare] = [?spare]"
    by (simp_all add: is_retained_def rooted_packs_def)
  have drv: "drv_DeletePack (rack_driver push_cas push_root) = Some (\<lambda>c s h. on_fs (DeletePack push_cas push_root c s h))"
    by (simp add: rack_driver_def)
  have loop: "collect_pack rack_retention_store (drv_DeletePack (rack_driver push_cas push_root)) push_ctx ?sc ''r'' False [spare_id] ?spare ([], [])
      (gc_world\<lparr>w_db := gc5\<rparr>) = (Inr ([zero_id], [\<lparr>cl_PackID = ''spare'', cl_CASPackHash = zero_id, cl_CASBlobCollected = True\<rparr>]),
        \<lparr>w_fs = gc_fs, w_db = gc6\<rparr>)"
    unfolding collect_pack_def drv store by (simp add: eff_run on_db_def on_fs_def calls gc_ids gw)
  have lists: "rt_ListNativePackObjectIDs rack_retention_store push_ctx ''r'' (gc_world\<lparr>w_db := gc3\<rparr>) = (Inr [(''ob'', ''kept'')], gc_world\<lparr>w_db := gc4\<rparr>)"
    "rt_ListNativePacks rack_retention_store push_ctx ''r'' (gc_world\<lparr>w_db := gc4\<rparr>) = (Inr [?kept, ?spare], gc_world\<lparr>w_db := gc5\<rparr>)"
    by (simp_all add: store on_db_def calls)
  have "Collect (Some (rack_collector push_cas push_root)) push_ctx tenant_uuid ''r'' False =
    ebind (gather_roots rack_retention_store push_ctx ''r'') (\<lambda>(retainedCommits, objects).
     ebind (ewrap ''retention: collect: list native pack object IDs'' (rt_ListNativePackObjectIDs rack_retention_store push_ctx ''r'')) (\<lambda>objectToPack.
     ebind (ewrap ''retention: collect: list native packs'' (rt_ListNativePacks rack_retention_store push_ctx ''r'')) (\<lambda>packs.
     let keep = is_retained retainedCommits (rooted_packs objects objectToPack); kept = filter keep packs in
     ebind (efold (filter (\<lambda>p. \<not> keep p) packs) ([], [])
       (collect_pack rack_retention_store (drv_DeletePack (rack_driver push_cas push_root)) push_ctx ?sc ''r'' False (map ps_CASPackHash kept)))
       (\<lambda>(_, collected).
     eret \<lparr>rpt_TenantID = tenant_uuid, rpt_RepoID = ''r'', rpt_DryRun = False,
       rpt_Retained = sort_key kp_PackID (map (\<lambda>p. \<lparr>kp_PackID = ps_PackID p, kp_CASPackHash = ps_CASPackHash p\<rparr>) kept),
       rpt_Collected = sort_key cl_PackID collected\<rparr>))))"
    by (simp add: Collect_def rack_collector_def NewCollector_def collect_scope_def sample_scope sample_context store_context ne eff_head)
  then show ?thesis
    unfolding ebind_def ewrap_def ecatch_def
    by (simp only: roots lists prod.case sum.case Let_def keep) (simp add: loop ebind_def eret_def)
qed

theorem collection_is_exact_witness:
  "\<exists>w' :: world. tabs (w_db w') = drop_packs (vis (tenant_view tenant_uuid gc_db)) ''r'' (n_pack ` garbage (tenant_view tenant_uuid gc_db) ''r'') (tabs gc_db)"
proof -
  obtain w' rep where "Collect (Some (rack_collector push_cas push_root)) push_ctx tenant_uuid ''r'' False gc_world = (Inr rep, w')"
    using gc_run by blast
  moreover have "tenantIDFromContext push_ctx = Some tenant_uuid" by (simp add: push_ctx_def tenantIDFromContext_def tenant_uuid_def)
  ultimately have "tabs (w_db w') = drop_packs (vis (tenant_view tenant_uuid (w_db gc_world))) ''r''
      (n_pack ` garbage (tenant_view tenant_uuid (w_db gc_world)) ''r'') (tabs (w_db gc_world))"
    using collection_is_exact [OF _ sample_context] by blast
  then show ?thesis by (auto simp: gc_world_def)
qed

end
