(* ===== verification/Native_Frame.thy ===== *)
theory Native_Frame
  imports Pg_Native Sync_Envelope_Facts
begin

text \<open>
  Native packs on the wire (\<open>internal/server/nativepull/framing.go\<close>): the manifest of a pull response, the
  checks of its frames, and the encoding and decoding of the envelope. The pack format belongs to the contract
  library, which is the parameter \<open>l\<close>; canonical CBOR of a manifest is part of it.
\<close>

section \<open>The pack format\<close>

record PackMetadata =
  mt_ID :: string  mt_ObjectCount :: uint32  mt_Compression :: string  mt_rest :: string

record PackManifest =
  mf_Packs :: "PackMetadata list"  mf_rest :: string

record PackHeader =
  ph_ObjectCount :: uint32  ph_rest :: string

record NativePackFrame =
  nf_PackID :: string  nf_CommitID :: string  nf_PackHash :: string  nf_Length :: uint64
  nf_Manifest :: PackManifest  nf_Entries :: "pack_index_entry list"

record NativePullManifest =
  nm_Version :: uint32  nm_Head :: string  nm_Packs :: "NativePackFrame list"

text \<open>\<open>DecompressPackedObject\<close> gives the type and the canonical bytes of an object.\<close>

record native_lib =
  nl_ValidPackID :: "string \<Rightarrow> bool"
  nl_ValidatePackManifest :: "PackManifest \<Rightarrow> goerr + unit"
  nl_ReadPackHeader :: "bytes \<Rightarrow> goerr + PackHeader"
  nl_ValidatePackHeader :: "PackHeader \<Rightarrow> goerr + unit"
  nl_ValidatePackIndexEntry :: "string \<Rightarrow> pack_index_entry \<Rightarrow> goerr + unit"
  nl_ValidatePackEntries :: "string \<Rightarrow> PackHeader \<Rightarrow> uint64 \<Rightarrow> pack_index_entry list \<Rightarrow> goerr + unit"
  nl_DecompressPackedObject :: "pack_index_entry \<Rightarrow> bytes \<Rightarrow> goerr + string \<times> bytes"
  nl_blake3 :: "bytes \<Rightarrow> bytes"
  nl_Zstd :: string
  nl_enc_manifest :: "NativePullManifest \<Rightarrow> goerr + bytes"
  nl_dec_manifest :: "bytes \<Rightarrow> goerr + NativePullManifest"

definition MaxNativePackBytes :: nat where "MaxNativePackBytes = 67108864"
definition MaxNativePullPacks :: nat where "MaxNativePullPacks = 4096"
definition NativePullFormatV1 :: uint32 where "NativePullFormatV1 = 1"
definition nativePullMagic :: bytes where "nativePullMagic = str_bytes ''SRNP''"
definition nativePullHeaderSize :: nat where "nativePullHeaderSize = 16"

definition invalid_pull :: "string \<Rightarrow> goerr" where
  "invalid_pull msg = Wrapf msg (Native ErrInvalidNativePullFrame)"

definition contentHash :: "native_lib \<Rightarrow> bytes \<Rightarrow> string" where
  "contentHash l data = hex_encode (nl_blake3 l data)"

section \<open>Manifests\<close>

text \<open>The first entry of the manifest with the pack's identifier decides; the count is compared as \<open>uint32\<close>.\<close>

definition manifestListsPack :: "native_lib \<Rightarrow> PackManifest \<Rightarrow> string \<Rightarrow> nat \<Rightarrow> goerr + unit" where
  "manifestListsPack l mf packID objectCount = (case find (\<lambda>md. mt_ID md = packID) (mf_Packs mf) of
       None \<Rightarrow> Inl (Errorf ''manifest does not list pack'')
     | Some md \<Rightarrow>
         if mt_ObjectCount md \<noteq> word_of_nat objectCount then Inl (Errorf ''manifest object count does not match supplied entries'')
         else if mt_Compression md \<noteq> nl_Zstd l then Inl (Errorf ''manifest declares unsupported compression'')
         else Inr ())"

fun distinct_entries :: "native_lib \<Rightarrow> string \<Rightarrow> string list \<Rightarrow> pack_index_entry list \<Rightarrow> goerr + unit" where
  "distinct_entries l packID seen [] = Inr ()"
| "distinct_entries l packID seen (e # es) =
     rbind (rwrap (\<lambda>_. Errorf ''pack entry'') (nl_ValidatePackIndexEntry l packID e)) (\<lambda>_.
     if pe_Object e \<in> set seen then Inl (Errorf ''duplicate object in index'')
     else distinct_entries l packID (pe_Object e # seen) es)"

definition frame_validate :: "native_lib \<Rightarrow> NativePackFrame \<Rightarrow> goerr + unit" where
  "frame_validate l f =
     (if \<not> nl_ValidPackID l (nf_PackID f) then Inl (Errorf ''invalid pack ID'')
      else if \<not> validContentID (nf_PackHash f) then Inl (Errorf ''invalid pack hash'')
      else if \<not> validContentID (nf_CommitID f) then Inl (Errorf ''invalid commit ID'')
      else if nf_Length f = 0 then Inl (Errorf ''length must be nonzero'')
      else if unat (nf_Length f) > MaxNativePackBytes then Inl (Errorf ''length exceeds byte limit'')
      else rbind (rwrap (\<lambda>_. Errorf ''pack manifest'') (nl_ValidatePackManifest l (nf_Manifest f))) (\<lambda>_.
           rbind (rwrap (\<lambda>_. Errorf ''pack manifest'') (manifestListsPack l (nf_Manifest f) (nf_PackID f) (length (nf_Entries f)))) (\<lambda>_.
           distinct_entries l (nf_PackID f) [] (nf_Entries f))))"

fun distinct_frames :: "native_lib \<Rightarrow> string list \<Rightarrow> string list \<Rightarrow> NativePackFrame list \<Rightarrow> goerr + unit" where
  "distinct_frames l seenPacks seenCommits [] = Inr ()"
| "distinct_frames l seenPacks seenCommits (f # fs) =
     rbind (rwrap (\<lambda>_. invalid_pull ''pack'') (frame_validate l f)) (\<lambda>_.
     if nf_PackID f \<in> set seenPacks then Inl (invalid_pull ''pack ID appears more than once'')
     else if nf_CommitID f \<in> set seenCommits then Inl (invalid_pull ''commit appears in multiple packs'')
     else distinct_frames l (nf_PackID f # seenPacks) (nf_CommitID f # seenCommits) fs)"

definition native_manifest_validate :: "native_lib \<Rightarrow> NativePullManifest \<Rightarrow> goerr + unit" where
  "native_manifest_validate l m =
     (if nm_Version m \<noteq> NativePullFormatV1 then Inl (invalid_pull ''unsupported manifest version'')
      else if nm_Packs m = [] then Inl (invalid_pull ''at least one pack is required'')
      else if length (nm_Packs m) > MaxNativePullPacks then Inl (invalid_pull ''manifest declares too many packs'')
      else if \<not> validContentID (nm_Head m) then Inl (invalid_pull ''head must be a valid BLAKE3-256 content ID'')
      else rbind (distinct_frames l [] [] (nm_Packs m)) (\<lambda>_.
           if nf_CommitID (last (nm_Packs m)) \<noteq> nm_Head m then Inl (invalid_pull ''head is not the terminal commit'')
           else Inr ()))"

definition MarshalNativePullManifestV1 :: "native_lib \<Rightarrow> NativePullManifest \<Rightarrow> goerr + bytes" where
  "MarshalNativePullManifestV1 l m =
     rbind (native_manifest_validate l m) (\<lambda>_. rwrap (\<lambda>_. invalid_pull ''encode manifest'') (nl_enc_manifest l m))"

definition UnmarshalNativePullManifestV1 :: "native_lib \<Rightarrow> bytes \<Rightarrow> goerr + NativePullManifest" where
  "UnmarshalNativePullManifestV1 l data =
     rbind (rwrap (\<lambda>_. invalid_pull ''decode manifest'') (nl_dec_manifest l data)) (\<lambda>m.
     rbind (MarshalNativePullManifestV1 l m) (\<lambda>canonical.
     if data \<noteq> canonical then Inl (invalid_pull ''manifest is not canonically encoded'') else Inr m))"

section \<open>Envelopes\<close>

record NativePackSource =
  nsrc_PackID :: string  nsrc_CommitID :: string  nsrc_Manifest :: PackManifest
  nsrc_Entries :: "pack_index_entry list"  nsrc_PackData :: bytes

record DecodedNativePack =
  dn_PackID :: string  dn_CommitID :: string  dn_Manifest :: PackManifest
  dn_Entries :: "pack_index_entry list"  dn_Data :: bytes

definition validateNativePackBytes :: "native_lib \<Rightarrow> bytes \<Rightarrow> nat \<Rightarrow> goerr + unit" where
  "validateNativePackBytes l packData entryCount =
     rbind (rwrap (\<lambda>_. invalid_pull ''read pack header'') (nl_ReadPackHeader l packData)) (\<lambda>header.
     rbind (rwrap (\<lambda>_. invalid_pull ''pack header'') (nl_ValidatePackHeader l header)) (\<lambda>_.
     if unat (ph_ObjectCount header) \<noteq> entryCount then Inl (invalid_pull ''header declares another number of objects'')
     else Inr ()))"

definition source_frame :: "native_lib \<Rightarrow> NativePackSource \<Rightarrow> goerr + NativePackFrame" where
  "source_frame l src =
     (if length (nsrc_PackData src) > MaxNativePackBytes then Inl (invalid_pull ''pack exceeds byte limit'')
      else rbind (validateNativePackBytes l (nsrc_PackData src) (length (nsrc_Entries src))) (\<lambda>_.
        Inr \<lparr>nf_PackID = nsrc_PackID src, nf_CommitID = nsrc_CommitID src, nf_PackHash = contentHash l (nsrc_PackData src),
             nf_Length = word_of_nat (length (nsrc_PackData src)), nf_Manifest = nsrc_Manifest src, nf_Entries = nsrc_Entries src\<rparr>))"

definition native_header :: "nat \<Rightarrow> bytes" where
  "native_header manifestLength = nativePullMagic @ put_be 4 (unat NativePullFormatV1) @ put_be 8 manifestLength"

definition EncodeNativePullResponse :: "native_lib \<Rightarrow> string \<Rightarrow> NativePackSource list \<Rightarrow> goerr + bytes" where
  "EncodeNativePullResponse l head sources =
     rbind (rmap (source_frame l) sources) (\<lambda>frames.
     rbind (MarshalNativePullManifestV1 l \<lparr>nm_Version = NativePullFormatV1, nm_Head = head, nm_Packs = frames\<rparr>) (\<lambda>manifestData.
     Inr (native_header (length manifestData) @ manifestData @ concat (map nsrc_PackData sources))))"

text \<open>One pack of the remaining bytes.\<close>

definition take_pack :: "native_lib \<Rightarrow> NativePackFrame \<Rightarrow> bytes \<times> DecodedNativePack list \<Rightarrow> goerr + bytes \<times> DecodedNativePack list" where
  "take_pack l f acc = (case acc of (rest, decoded) \<Rightarrow>
     if unat (nf_Length f) > MaxNativePackBytes then Inl (invalid_pull ''pack exceeds byte limit'')
     else if unat (nf_Length f) > length rest then Inl (invalid_pull ''pack length exceeds envelope'')
     else let packData = take (unat (nf_Length f)) rest in
       if contentHash l packData \<noteq> nf_PackHash f then Inl (invalid_pull ''pack hash mismatch'')
       else rbind (validateNativePackBytes l packData (length (nf_Entries f))) (\<lambda>_.
         Inr (drop (unat (nf_Length f)) rest, decoded @ [\<lparr>dn_PackID = nf_PackID f, dn_CommitID = nf_CommitID f,
            dn_Manifest = nf_Manifest f, dn_Entries = nf_Entries f, dn_Data = packData\<rparr>])))"

definition DecodeNativePullResponse :: "native_lib \<Rightarrow> bytes \<Rightarrow> goerr + string \<times> DecodedNativePack list" where
  "DecodeNativePullResponse l data =
     (if length data < nativePullHeaderSize \<or> take 4 data \<noteq> nativePullMagic then Inl (invalid_pull ''missing envelope header'')
      else if get_be (take 4 (drop 4 data)) \<noteq> unat NativePullFormatV1 then Inl (invalid_pull ''unsupported envelope version'')
      else let n = get_be (take 8 (drop 8 data)) in
        if n > length data - nativePullHeaderSize then Inl (invalid_pull ''manifest length exceeds envelope'')
        else let rest = drop nativePullHeaderSize data in
          rbind (UnmarshalNativePullManifestV1 l (take n rest)) (\<lambda>m.
          rbind (rfold (nm_Packs m) (drop n rest, []) (take_pack l)) (\<lambda>(left, decoded).
          if left \<noteq> [] then Inl (invalid_pull ''trailing bytes after packs'') else Inr (nm_Head m, decoded))))"

end
