(* ===== verification/Native_Frame_Facts.thy ===== *)
theory Native_Frame_Facts
  imports Native_Frame
begin

text \<open>
  The native pull envelope: decoding is the inverse of encoding, so an envelope has one meaning and a response one
  encoding.
\<close>

definition source_of :: "DecodedNativePack \<Rightarrow> NativePackSource" where
  "source_of d = \<lparr>nsrc_PackID = dn_PackID d, nsrc_CommitID = dn_CommitID d, nsrc_Manifest = dn_Manifest d,
     nsrc_Entries = dn_Entries d, nsrc_PackData = dn_Data d\<rparr>"

lemma source_of_data [simp]: "nsrc_PackData (source_of d) = dn_Data d"
  by (simp add: source_of_def)

text \<open>What taking a pack off the stream undoes.\<close>

lemma take_pack_iff: "take_pack l f (rest, acc) = Inr (left, out) \<longleftrightarrow>
  (\<exists>d. out = acc @ [d] \<and> rest = dn_Data d @ left \<and> source_frame l (source_of d) = Inr f)"
proof
  assume run: "take_pack l f (rest, acc) = Inr (left, out)"
  define n where "n = unat (nf_Length f)"
  define d where "d = \<lparr>dn_PackID = nf_PackID f, dn_CommitID = nf_CommitID f, dn_Manifest = nf_Manifest f,
    dn_Entries = nf_Entries f, dn_Data = take n rest\<rparr>"
  have len: "n \<le> MaxNativePackBytes" "n \<le> length rest" and hash: "contentHash l (take n rest) = nf_PackHash f"
    and ok: "validateNativePackBytes l (take n rest) (length (nf_Entries f)) = Inr ()"
    and out: "left = drop n rest" "out = acc @ [d]"
    using run by (auto simp: take_pack_def Let_def n_def d_def split: if_splits)
  have "source_frame l (source_of d) = Inr f"
    using len hash ok by (simp add: source_frame_def source_of_def d_def n_def min_absorb2)
  with out show "\<exists>d. out = acc @ [d] \<and> rest = dn_Data d @ left \<and> source_frame l (source_of d) = Inr f"
    by (intro exI [of _ d]) (simp add: d_def)
next
  assume "\<exists>d. out = acc @ [d] \<and> rest = dn_Data d @ left \<and> source_frame l (source_of d) = Inr f"
  then obtain d where out: "out = acc @ [d]" "rest = dn_Data d @ left" and src: "source_frame l (source_of d) = Inr f" by blast
  then have len: "length (dn_Data d) \<le> MaxNativePackBytes" and f: "f = \<lparr>nf_PackID = dn_PackID d, nf_CommitID = dn_CommitID d,
      nf_PackHash = contentHash l (dn_Data d), nf_Length = word_of_nat (length (dn_Data d)), nf_Manifest = dn_Manifest d, nf_Entries = dn_Entries d\<rparr>"
    and ok: "validateNativePackBytes l (dn_Data d) (length (dn_Entries d)) = Inr ()"
    by (auto simp: source_frame_def source_of_def split: if_splits)
  have "unat (nf_Length f) = length (dn_Data d)"
    using len by (simp add: f unat_of_nat MaxNativePackBytes_def)
  then show "take_pack l f (rest, acc) = Inr (left, out)"
    using len ok by (simp add: take_pack_def out f)
qed

lemma take_packs: "rfold fs (rest, acc) (take_pack l) = Inr (left, out) \<longleftrightarrow>
  (\<exists>ds. out = acc @ ds \<and> rest = concat (map dn_Data ds) @ left \<and> rmap (source_frame l) (map source_of ds) = Inr fs)"
proof (induction fs arbitrary: rest acc)
  case Nil
  show ?case by (auto simp: rmap_Inr_iff)
next
  case (Cons f fs)
  have "rfold (f # fs) (rest, acc) (take_pack l) = Inr (left, out) \<longleftrightarrow>
      (\<exists>rest1 acc1. take_pack l f (rest, acc) = Inr (rest1, acc1) \<and> rfold fs (rest1, acc1) (take_pack l) = Inr (left, out))"
    by (simp add: split_paired_Ex)
  also have "\<dots> \<longleftrightarrow> (\<exists>d ds. out = (acc @ [d]) @ ds \<and> rest = dn_Data d @ concat (map dn_Data ds) @ left \<and>
      source_frame l (source_of d) = Inr f \<and> rmap (source_frame l) (map source_of ds) = Inr fs)"
    unfolding take_pack_iff Cons.IH by blast
  also have "\<dots> \<longleftrightarrow> (\<exists>ds. out = acc @ ds \<and> rest = concat (map dn_Data ds) @ left \<and> rmap (source_frame l) (map source_of ds) = Inr (f # fs))"
  proof
    assume "\<exists>ds. out = acc @ ds \<and> rest = concat (map dn_Data ds) @ left \<and> rmap (source_frame l) (map source_of ds) = Inr (f # fs)"
    then obtain ds where a: "out = acc @ ds" "rest = concat (map dn_Data ds) @ left" "rmap (source_frame l) (map source_of ds) = Inr (f # fs)" by blast
    then obtain e es where "ds = e # es" by (cases ds) auto
    with a show "\<exists>d ds. out = (acc @ [d]) @ ds \<and> rest = dn_Data d @ concat (map dn_Data ds) @ left \<and>
      source_frame l (source_of d) = Inr f \<and> rmap (source_frame l) (map source_of ds) = Inr fs" by auto
  next
    assume "\<exists>d ds. out = (acc @ [d]) @ ds \<and> rest = dn_Data d @ concat (map dn_Data ds) @ left \<and>
      source_frame l (source_of d) = Inr f \<and> rmap (source_frame l) (map source_of ds) = Inr fs"
    then obtain e es where "out = (acc @ [e]) @ es" "rest = dn_Data e @ concat (map dn_Data es) @ left"
      "source_frame l (source_of e) = Inr f" "rmap (source_frame l) (map source_of es) = Inr fs" by blast
    then show "\<exists>ds. out = acc @ ds \<and> rest = concat (map dn_Data ds) @ left \<and> rmap (source_frame l) (map source_of ds) = Inr (f # fs)"
      by (intro exI [of _ "e # es"]) simp
  qed
  finally show ?case .
qed

lemma unmarshal_native: "UnmarshalNativePullManifestV1 l md = Inr m \<longleftrightarrow> nl_dec_manifest l md = Inr m \<and> MarshalNativePullManifestV1 l m = Inr md"
  by (auto simp: UnmarshalNativePullManifestV1_def split: if_splits)

lemma native_header_parts:
  "take 4 (native_header n @ r) = nativePullMagic"
  "get_be (take 4 (drop 4 (native_header n @ r))) = unat NativePullFormatV1"
  "n < 2 ^ 64 \<Longrightarrow> get_be (take 8 (drop 8 (native_header n @ r))) = n"
  "length (native_header n) = nativePullHeaderSize"
  by (simp_all add: native_header_def nativePullMagic_def str_bytes_def get_put_be NativePullFormatV1_def nativePullHeaderSize_def)

lemma native_header_of_parts:
  assumes "nativePullHeaderSize \<le> length data" and "take 4 data = nativePullMagic"
    and "get_be (take 4 (drop 4 data)) = unat NativePullFormatV1"
  shows "data = native_header (get_be (take 8 (drop 8 data))) @ drop nativePullHeaderSize data"
proof -
  have "put_be 4 (unat NativePullFormatV1) = take 4 (drop 4 data)"
    using assms put_get_be [of "take 4 (drop 4 data)"] by (simp add: nativePullHeaderSize_def)
  moreover have "put_be 8 (get_be (take 8 (drop 8 data))) = take 8 (drop 8 data)"
    using assms(1) put_get_be [of "take 8 (drop 8 data)"] by (simp add: nativePullHeaderSize_def)
  moreover have "data = take 4 data @ take 4 (drop 4 data) @ take 8 (drop 8 data) @ drop 16 data"
  proof -
    have "drop 8 data = drop 4 (drop 4 data)" "drop 16 data = drop 8 (drop 8 data)" by simp_all
    then show ?thesis by (metis append_take_drop_id)
  qed
  ultimately show ?thesis using assms(2) by (simp add: native_header_def nativePullHeaderSize_def)
qed

lemma marshal_version: "MarshalNativePullManifestV1 l m = Inr md \<Longrightarrow> nm_Version m = NativePullFormatV1"
  by (auto simp: MarshalNativePullManifestV1_def native_manifest_validate_def split: if_splits)

text \<open>Decoding, as the parts of the envelope.\<close>

lemma decode_iff: "DecodeNativePullResponse l data = Inr (head, packs) \<longleftrightarrow>
  (\<exists>md m. data = native_header (length md) @ md @ concat (map dn_Data packs) \<and> length md < 2 ^ 64 \<and>
     UnmarshalNativePullManifestV1 l md = Inr m \<and> nm_Head m = head \<and> rmap (source_frame l) (map source_of packs) = Inr (nm_Packs m))"
proof
  assume run: "DecodeNativePullResponse l data = Inr (head, packs)"
  define n where "n = get_be (take 8 (drop 8 data))"
  define rest where "rest = drop nativePullHeaderSize data"
  have c: "nativePullHeaderSize \<le> length data" "take 4 data = nativePullMagic" "get_be (take 4 (drop 4 data)) = unat NativePullFormatV1"
    and n: "n \<le> length rest" using run by (auto simp: DecodeNativePullResponse_def Let_def n_def rest_def split: if_splits)
  from run c n obtain m where m: "UnmarshalNativePullManifestV1 l (take n rest) = Inr m" "nm_Head m = head"
    and f: "rfold (nm_Packs m) (drop n rest, []) (take_pack l) = Inr ([], packs)"
    by (auto simp: DecodeNativePullResponse_def Let_def n_def rest_def split: if_splits)
  have l: "length (take n rest) = n" using n by simp
  have parts: "data = native_header n @ rest" using native_header_of_parts [OF c] by (simp add: n_def rest_def)
  from f have packs: "drop n rest = concat (map dn_Data packs)" "rmap (source_frame l) (map source_of packs) = Inr (nm_Packs m)"
    unfolding take_packs by auto
  have "rest = take n rest @ concat (map dn_Data packs)" by (simp flip: packs(1))
  with parts have "data = native_header (length (take n rest)) @ take n rest @ concat (map dn_Data packs)"
    unfolding l by metis
  moreover have "length (take n rest) < 2 ^ 64" unfolding l by (simp only: n_def get_be_8)
  ultimately show "\<exists>md m. data = native_header (length md) @ md @ concat (map dn_Data packs) \<and> length md < 2 ^ 64 \<and>
     UnmarshalNativePullManifestV1 l md = Inr m \<and> nm_Head m = head \<and> rmap (source_frame l) (map source_of packs) = Inr (nm_Packs m)"
    using m packs(2) by blast
next
  assume "\<exists>md m. data = native_header (length md) @ md @ concat (map dn_Data packs) \<and> length md < 2 ^ 64 \<and>
     UnmarshalNativePullManifestV1 l md = Inr m \<and> nm_Head m = head \<and> rmap (source_frame l) (map source_of packs) = Inr (nm_Packs m)"
  then obtain md m where data: "data = native_header (length md) @ md @ concat (map dn_Data packs)" and len: "length md < 2 ^ 64"
    and m: "UnmarshalNativePullManifestV1 l md = Inr m" "nm_Head m = head" and packs: "rmap (source_frame l) (map source_of packs) = Inr (nm_Packs m)" by blast
  have "rfold (nm_Packs m) (concat (map dn_Data packs), []) (take_pack l) = Inr ([], packs)"
    unfolding take_packs using packs by simp
  then show "DecodeNativePullResponse l data = Inr (head, packs)"
    using m unfolding data DecodeNativePullResponse_def Let_def native_header_parts(1,2) native_header_parts(3) [OF len]
    by (simp add: native_header_parts(4))
qed


end
