(* ===== verification/Native_Samples.thy ===== *)
theory Native_Samples
  imports Native_Frame_Facts Sync_Samples
begin

text \<open>
  A concrete pull response with one native pack, over a contract library that knows this pack and its manifest only.
\<close>

definition one_entry :: pack_index_entry where
  "one_entry = \<lparr>pe_Object = ''ob'', pe_Offset = 0, pe_CompressedSize = 1, pe_UncompressedSize = 1, pe_CRC32 = 0\<rparr>"

definition one_manifest :: PackManifest where
  "one_manifest = \<lparr>mf_Packs = [\<lparr>mt_ID = ''pk'', mt_ObjectCount = 1, mt_Compression = ''zstd'', mt_rest = ''''\<rparr>], mf_rest = ''''\<rparr>"

definition one_pack :: DecodedNativePack where
  "one_pack = \<lparr>dn_PackID = ''pk'', dn_CommitID = zero_id, dn_Manifest = one_manifest, dn_Entries = [one_entry], dn_Data = [7]\<rparr>"

definition one_pull :: NativePullManifest where
  "one_pull = \<lparr>nm_Version = 1, nm_Head = zero_id, nm_Packs = [\<lparr>nf_PackID = ''pk'', nf_CommitID = zero_id, nf_PackHash = zero_id,
     nf_Length = 1, nf_Manifest = one_manifest, nf_Entries = [one_entry]\<rparr>]\<rparr>"

definition one_lib :: native_lib where
  "one_lib = \<lparr>nl_ValidPackID = (\<lambda>p. p = ''pk''), nl_ValidatePackManifest = (\<lambda>_. Inr ()),
     nl_ReadPackHeader = (\<lambda>_. Inr \<lparr>ph_ObjectCount = 1, ph_rest = ''''\<rparr>), nl_ValidatePackHeader = (\<lambda>_. Inr ()),
     nl_ValidatePackIndexEntry = (\<lambda>_ _. Inr ()), nl_ValidatePackEntries = (\<lambda>_ _ _ _. Inr ()),
     nl_DecompressPackedObject = (\<lambda>e d. Inr (''blob'', d)), nl_blake3 = (\<lambda>_. replicate 32 0), nl_Zstd = ''zstd'',
     nl_enc_manifest = (\<lambda>m. if m = one_pull then Inr [1, 2] else Inl (Ext ''cbor'')),
     nl_dec_manifest = (\<lambda>d. if d = [1, 2] then Inr one_pull else Inl (Ext ''cbor''))\<rparr>"

lemma one_encodes: "EncodeNativePullResponse one_lib zero_id (map source_of [one_pack]) = Inr (native_header 2 @ [1, 2, 7])"
proof -
  have hash: "contentHash one_lib [7] = zero_id" by (simp add: contentHash_def one_lib_def zero_id_def)
  have fr: "rmap (source_frame one_lib) (map source_of [one_pack]) = Inr (nm_Packs one_pull)"
    by (simp add: source_frame_def source_of_def one_pack_def validateNativePackBytes_def hash one_pull_def MaxNativePackBytes_def)
      (rule exI [of _ "\<lparr>ph_ObjectCount = 1, ph_rest = ''''\<rparr>"], simp add: one_lib_def)
  have "native_manifest_validate one_lib one_pull = Inr ()"
    by (simp add: native_manifest_validate_def one_pull_def NativePullFormatV1_def MaxNativePullPacks_def sample_ids frame_validate_def
        MaxNativePackBytes_def manifestListsPack_def one_manifest_def one_entry_def) (simp add: one_lib_def)
  then have "MarshalNativePullManifestV1 one_lib one_pull = Inr [1, 2]"
    by (simp add: MarshalNativePullManifestV1_def) (simp add: one_lib_def)
  moreover have "one_pull = \<lparr>nm_Version = NativePullFormatV1, nm_Head = zero_id, nm_Packs = nm_Packs one_pull\<rparr>"
    by (simp add: one_pull_def NativePullFormatV1_def)
  ultimately have "MarshalNativePullManifestV1 one_lib \<lparr>nm_Version = NativePullFormatV1, nm_Head = zero_id, nm_Packs = nm_Packs one_pull\<rparr> = Inr [1, 2]"
    by metis
  then show ?thesis by (simp only: EncodeNativePullResponse_def fr rbind.simps) (simp add: source_of_def one_pack_def numeral_2_eq_2)
qed


end
