(* ===== verification/Native_Push.thy ===== *)
theory Native_Push
  imports Native_Frame Rack_World Review_Apply
begin

text \<open>
  Native packs on the server: the index of their objects (\<open>internal/server/nativeindex\<close>) and the push of native commits
  (\<open>internal/server/nativepush\<close>). \<open>None\<close> as the value of an operation is a run-time panic: the bounds of an object are
  \<open>uint64\<close>, their sum wraps, and a slice with a wrapped end is out of range. \<open>sort.Slice\<close> is modelled stable.
\<close>

section \<open>The index\<close>

record 'w index_store =
  ix_SetTenantContext :: "ctx \<Rightarrow> string \<Rightarrow> goerr + ctx"
  ix_PutNativePack :: "ctx \<Rightarrow> string \<Rightarrow> string \<Rightarrow> string \<Rightarrow> string \<Rightarrow> pack_index_entry list \<Rightarrow> ('w, unit) eff"
  ix_GetNativeObjectLocation :: "ctx \<Rightarrow> string \<Rightarrow> string \<Rightarrow> ('w, NativeObjectLocation) eff"

record 'w indexer =
  ix_driver :: "'w cas_driver"
  ix_store :: "'w index_store"

definition NewIndexer :: "'w cas_driver \<Rightarrow> 'w index_store \<Rightarrow> 'w indexer" where
  "NewIndexer drv st = \<lparr>ix_driver = drv, ix_store = st\<rparr>"

definition invalid_pack :: "string \<Rightarrow> goerr" where
  "invalid_pack msg = Wrapf msg (Native ErrInvalidPack)"

text \<open>\<open>data[off:off+n]\<close> on \<open>uint64\<close>.\<close>

definition go_slice :: "bytes \<Rightarrow> uint64 \<Rightarrow> uint64 \<Rightarrow> bytes option" where
  "go_slice data off n =
     (if off \<le> off + n \<and> unat (off + n) \<le> length data then Some (take (unat (off + n) - unat off) (drop (unat off) data)) else None)"

definition validateManifestListsPack :: "native_lib \<Rightarrow> PackManifest \<Rightarrow> string \<Rightarrow> nat \<Rightarrow> goerr + unit" where
  "validateManifestListsPack l mf packID objectCount = (case find (\<lambda>md. mt_ID md = packID) (mf_Packs mf) of
       None \<Rightarrow> Inl (invalid_pack ''manifest does not list pack'')
     | Some md \<Rightarrow>
         if mt_ObjectCount md \<noteq> word_of_nat objectCount then Inl (invalid_pack ''manifest object count does not match supplied entries'')
         else if mt_Compression md \<noteq> nl_Zstd l then Inl (invalid_pack ''manifest declares unsupported compression'')
         else Inr ())"

text \<open>Every object is decompressed and verified before anything is stored.\<close>

fun verify_objects :: "native_lib \<Rightarrow> bytes \<Rightarrow> pack_index_entry list \<Rightarrow> goerr + unit option" where
  "verify_objects l data [] = Inr (Some ())"
| "verify_objects l data (e # es) = (case go_slice data (pe_Offset e) (pe_CompressedSize e) of
       None \<Rightarrow> Inr None
     | Some compressed \<Rightarrow> (case nl_DecompressPackedObject l e compressed of
         Inl _ \<Rightarrow> Inl (invalid_pack ''verify object'')
       | Inr _ \<Rightarrow> verify_objects l data es))"

definition as_bad :: "string \<Rightarrow> goerr + 'a \<Rightarrow> goerr + 'a" where
  "as_bad msg = rwrap (\<lambda>_. invalid_pack msg)"

definition check_pack :: "native_lib \<Rightarrow> string \<Rightarrow> PackManifest \<Rightarrow> bytes \<Rightarrow> pack_index_entry list \<Rightarrow> goerr + unit option" where
  "check_pack l packID mf packData es =
     (let sorted = sort_key pe_Offset es in
      if length packData > MaxNativePackBytes then Inl (invalid_pack ''pack exceeds byte limit'')
      else if \<not> nl_ValidPackID l packID then Inl (invalid_pack ''invalid pack ID'')
      else rbind (as_bad ''pack manifest'' (nl_ValidatePackManifest l mf)) (\<lambda>_.
           rbind (validateManifestListsPack l mf packID (length es)) (\<lambda>_.
           rbind (as_bad ''read pack header'' (nl_ReadPackHeader l packData)) (\<lambda>header.
           rbind (as_bad ''pack header'' (nl_ValidatePackHeader l header)) (\<lambda>_.
           rbind (rfor sorted (\<lambda>e. as_bad ''pack entry'' (nl_ValidatePackIndexEntry l packID e))) (\<lambda>_.
           rbind (as_bad ''pack entries'' (nl_ValidatePackEntries l packID header (word_of_nat (length packData)) sorted)) (\<lambda>_.
           verify_objects l packData sorted)))))))"

definition IndexPack :: "native_lib \<Rightarrow> 'w indexer \<Rightarrow> ctx \<Rightarrow> string \<Rightarrow> string \<Rightarrow> string \<Rightarrow> PackManifest \<Rightarrow> bytes \<Rightarrow> pack_index_entry list \<Rightarrow>
    string \<Rightarrow> ('w, unit option) eff" where
  "IndexPack l idx c0 tenantID repoID packID mf packData es commitID =
     ebind (elift (check_pack l packID mf packData es)) (\<lambda>checked. case checked of
       None \<Rightarrow> eret None
     | Some _ \<Rightarrow>
         let casPackHash = contentHash l packData in
         ebind (ewrap ''nativeindex: index pack: invalid CAS scope'' (elift (NewScope tenantID repoID))) (\<lambda>sc.
         ebind (ewrap ''nativeindex: index pack: write CAS pack''
           (drv_WritePack (ix_driver idx) c0 sc casPackHash \<lparr>rd_data = packData, rd_err = None\<rparr>)) (\<lambda>_.
         ebind (ewrap ''nativeindex: index pack: set tenant context'' (elift (ix_SetTenantContext (ix_store idx) c0 tenantID))) (\<lambda>c.
         ebind (ewrap ''nativeindex: index pack: register native pack''
           (ix_PutNativePack (ix_store idx) c repoID packID casPackHash commitID (sort_key pe_Offset es))) (\<lambda>_.
         eret (Some ()))))))"

definition entry_at :: "string \<Rightarrow> NativeObjectLocation \<Rightarrow> pack_index_entry" where
  "entry_at objectID loc = \<lparr>pe_Object = objectID, pe_Offset = no_Offset loc, pe_CompressedSize = no_CompressedSize loc,
     pe_UncompressedSize = no_UncompressedSize loc, pe_CRC32 = no_CRC32 loc\<rparr>"

text \<open>The object at a location of the bytes of its pack.\<close>

definition object_at :: "native_lib \<Rightarrow> string \<Rightarrow> NativeObjectLocation \<Rightarrow> bytes \<Rightarrow> goerr + (string \<times> bytes) option" where
  "object_at l objectID loc packData =
     (if length packData > MaxNativePackBytes then Inl (Errorf ''nativeindex: resolve object: pack exceeds byte limit'')
      else if unat (no_Offset loc + no_CompressedSize loc) > length packData
        then Inl (Errorf ''nativeindex: resolve object: entry extends beyond pack data'')
      else case go_slice packData (no_Offset loc) (no_CompressedSize loc) of
        None \<Rightarrow> Inr None
      | Some compressed \<Rightarrow> rbind (nl_DecompressPackedObject l (entry_at objectID loc) compressed) (\<lambda>ob. Inr (Some ob)))"

definition ResolveObject :: "native_lib \<Rightarrow> 'w indexer \<Rightarrow> ctx \<Rightarrow> string \<Rightarrow> string \<Rightarrow> string \<Rightarrow> ('w, (string \<times> bytes) option) eff" where
  "ResolveObject l idx c0 tenantID repoID objectID =
     ebind (ewrap ''nativeindex: resolve object: set tenant context'' (elift (ix_SetTenantContext (ix_store idx) c0 tenantID))) (\<lambda>c.
     ebind (ecatch (ix_GetNativeObjectLocation (ix_store idx) c repoID objectID) (\<lambda>err.
       if err_is err (Pg ErrNativeObjectNotFound) then efail (Wrapf '''' (Native ErrObjectNotFound))
       else efail (Wrapf ''nativeindex: resolve object: lookup location'' err))) (\<lambda>loc.
     ebind (ewrap ''nativeindex: resolve object: invalid CAS scope'' (elift (NewScope tenantID repoID))) (\<lambda>sc.
     ebind (ewrap ''nativeindex: resolve object: open pack'' (drv_OpenPack (ix_driver idx) c0 sc (no_CASPackHash loc))) (\<lambda>rd.
     ebind (ewrap ''nativeindex: resolve object: read pack'' (elift (read_limited (MaxNativePackBytes + 1) rd))) (\<lambda>packData.
     elift (object_at l objectID loc packData))))))"

section \<open>The push\<close>

definition ObjectTypeCommit :: string where "ObjectTypeCommit = ''commit''"
definition ObjectTypeSnapshot :: string where "ObjectTypeSnapshot = ''snapshot''"
definition CommitFormatNative :: uint32 where "CommitFormatNative = 3"

record NativeCommitRecord =
  ncr_ID :: string  ncr_Commit :: commit

record NativePushRequest =
  nq_TenantID :: string  nq_RepoID :: string  nq_Branch :: string  nq_BaseCommit :: string  nq_TargetCommit :: string
  nq_PackID :: string  nq_PackManifest :: PackManifest  nq_PackData :: bytes  nq_PackEntries :: "pack_index_entry list"
  nq_Commits :: "NativeCommitRecord list"

type_synonym packed = "(string \<times> string \<times> bytes) list"

record 'w native_store = "'w branch_store" +
  nst_PublishNativePush :: "ctx \<Rightarrow> NativePushPublication \<Rightarrow> ('w, NativePushResult) eff"
  nst_PutActiveTransaction :: "ctx \<Rightarrow> string \<Rightarrow> string \<Rightarrow> string \<Rightarrow> string \<Rightarrow> ('w, unit) eff"
  nst_DeleteActiveTransaction :: "ctx \<Rightarrow> string \<Rightarrow> string \<Rightarrow> ('w, unit) eff"

record 'w native_engine =
  ne_indexer :: "'w indexer"
  ne_store :: "'w native_store"

definition NewEngine :: "'w indexer \<Rightarrow> 'w native_store \<Rightarrow> 'w native_engine" where
  "NewEngine idx st = \<lparr>ne_indexer = idx, ne_store = st\<rparr>"

text \<open>The contract library's decoding of a commit; its equality is the one of the other pushes.\<close>

record commit_lib =
  ul_UnmarshalCommit :: "bytes \<Rightarrow> goerr + commit"
  ul_Equal :: "commit \<Rightarrow> commit \<Rightarrow> bool"

definition invalid_push :: "string \<Rightarrow> goerr" where
  "invalid_push msg = Wrapf msg (Native ErrInvalidNativePush)"

definition disconnected :: "string \<Rightarrow> goerr" where
  "disconnected msg = Wrapf msg (Native ErrDisconnectedPush)"

definition validateNativeRequest :: "NativePushRequest \<Rightarrow> goerr + unit" where
  "validateNativeRequest q =
     (if nq_TenantID q = '''' then Inl (invalid_push ''tenant ID is required'')
      else if nq_RepoID q = '''' then Inl (invalid_push ''repo ID is required'')
      else if nq_Branch q = '''' then Inl (invalid_push ''branch is required'')
      else if nq_BaseCommit q = '''' then Inl (invalid_push ''base commit is required'')
      else if nq_TargetCommit q = '''' then Inl (invalid_push ''target commit is required'')
      else if nq_Commits q = [] then Inl (invalid_push ''a native push must include at least one commit'')
      else rbind (rfor (nq_Commits q) (\<lambda>cr. if ncr_ID cr = '''' then Inl (invalid_push ''commit has no ID'') else Inr ())) (\<lambda>_.
        if ncr_ID (last (nq_Commits q)) \<noteq> nq_TargetCommit q then Inl (invalid_push ''target commit does not name the last commit in the push'')
        else Inr ()))"

text \<open>The decoded objects, a later entry of the same object first.\<close>

fun decodePackedObjects :: "native_lib \<Rightarrow> bytes \<Rightarrow> pack_index_entry list \<Rightarrow> packed \<Rightarrow> goerr + packed option" where
  "decodePackedObjects l data [] objects = Inr (Some objects)"
| "decodePackedObjects l data (e # es) objects =
     (if unat (pe_Offset e + pe_CompressedSize e) > length data then Inl (invalid_push ''entry extends beyond pack data'')
      else case go_slice data (pe_Offset e) (pe_CompressedSize e) of
        None \<Rightarrow> Inr None
      | Some compressed \<Rightarrow> (case nl_DecompressPackedObject l e compressed of
          Inl _ \<Rightarrow> Inl (invalid_push ''decode object'')
        | Inr ob \<Rightarrow> decodePackedObjects l data es ((pe_Object e, ob) # objects)))"

definition verify_record :: "commit_lib \<Rightarrow> packed \<Rightarrow> NativeCommitRecord \<Rightarrow> goerr + commit" where
  "verify_record u objects cr = (case map_of objects (ncr_ID cr) of
       None \<Rightarrow> Inl (disconnected ''commit is not present in the verified pack'')
     | Some (objectType, data) \<Rightarrow>
         if objectType \<noteq> ObjectTypeCommit then Inl (invalid_push ''object has another type'')
         else rbind (rwrap (\<lambda>_. invalid_push ''decode commit'') (ul_UnmarshalCommit u data)) (\<lambda>cm.
           if \<not> ul_Equal u cm (ncr_Commit cr) then Inl (invalid_push ''commit metadata does not match its packed object'') else Inr cm))"

definition decodeAndVerifyCommitRecords :: "commit_lib \<Rightarrow> NativeCommitRecord list \<Rightarrow> packed \<Rightarrow> goerr + commit list" where
  "decodeAndVerifyCommitRecords u records objects = rmap (verify_record u objects) records"

definition verifyCommitSnapshot :: "native_lib \<Rightarrow> review_lib \<Rightarrow> 'w native_engine \<Rightarrow> ctx \<Rightarrow> NativePushRequest \<Rightarrow> commit \<Rightarrow> packed \<Rightarrow> ('w, unit option) eff" where
  "verifyCommitSnapshot l rl e c0 q cm objects =
     ebind (case map_of objects (cm_Snapshot cm) of
         Some ob \<Rightarrow> eret (Some ob)
       | None \<Rightarrow> ecatch (ResolveObject l (ne_indexer e) c0 (nq_TenantID q) (nq_RepoID q) (cm_Snapshot cm)) (\<lambda>err.
           if err_is err (Native ErrObjectNotFound) then efail (disconnected ''commit snapshot is not available'')
           else efail (Wrapf ''nativepush: resolve snapshot'' err))) (\<lambda>found. case found of
       None \<Rightarrow> eret None
     | Some (objectType, data) \<Rightarrow>
         ebind (eassert (objectType = ObjectTypeSnapshot) (invalid_push ''object has another type'')) (\<lambda>_.
         case DecodeSnapshotObject rl data of
           Inl err \<Rightarrow> efail (Wrap2f ''commit snapshot'' (Native ErrInvalidNativePush) err)
         | Inr _ \<Rightarrow> eret (Some ())))"

text \<open>A merge parent is an earlier pushed commit or one the repository has.\<close>

definition verify_parent :: "'w native_engine \<Rightarrow> ctx \<Rightarrow> string \<Rightarrow> string list \<Rightarrow> string \<Rightarrow> ('w, unit) eff" where
  "verify_parent e c repoID known pid =
     (if pid \<in> set known then eret ()
      else ecatch (ebind (bs_GetCommitMetadata (ne_store e) c repoID pid) (\<lambda>_. eret ())) (\<lambda>err.
        if err_is err (Pg ErrCommitNotFound) then efail (disconnected ''commit references unknown parent'')
        else efail (Wrapf ''nativepush: resolve parent'' err)))"

fun verifyCommitDAG :: "native_lib \<Rightarrow> review_lib \<Rightarrow> 'w native_engine \<Rightarrow> ctx \<Rightarrow> ctx \<Rightarrow> NativePushRequest \<Rightarrow> packed \<Rightarrow> string \<Rightarrow> string list \<Rightarrow>
    (NativeCommitRecord \<times> commit) list \<Rightarrow> ('w, unit option) eff" where
  "verifyCommitDAG l rl e c0 c q objects previous known [] = eret (Some ())"
| "verifyCommitDAG l rl e c0 c q objects previous known ((cr, cm) # rest) =
     ebind (eassert (cm_Parents cm \<noteq> [] \<and> hd (cm_Parents cm) = previous) (invalid_push ''commit does not continue the pushed history'')) (\<lambda>_.
     ebind (efor (tl (cm_Parents cm)) (verify_parent e c (nq_RepoID q) known)) (\<lambda>_.
     ebind (verifyCommitSnapshot l rl e c0 q cm objects) (\<lambda>ok. case ok of
       None \<Rightarrow> eret None
     | Some _ \<Rightarrow> verifyCommitDAG l rl e c0 c q objects (ncr_ID cr) (ncr_ID cr # known) rest)))"

definition diagnoseNonFastForward :: "'w native_engine \<Rightarrow> ctx \<Rightarrow> NativePushRequest \<Rightarrow> string \<Rightarrow> ('w, 'a) eff" where
  "diagnoseNonFastForward e c q actualHead =
     ebind (ewrap ''nativepush: check branch ancestry'' (bs_IsAncestor (ne_store e) c (nq_RepoID q) (nq_BaseCommit q) actualHead)) (\<lambda>isAncestor.
     efail (NonFastForwardError actualHead
       (if isAncestor then ''remote branch has advanced since your base commit; pull the latest changes and reapply your commit before pushing again''
        else ''base commit not found in the remote branch history; branches have diverged - pull and manually reconcile before pushing'')))"

definition publication_of :: "NativePushRequest \<Rightarrow> NativePushPublication" where
  "publication_of q = \<lparr>np_RepoID = nq_RepoID q, np_Branch = nq_Branch q, np_IdempotencyKey = nq_PackID q,
     np_BaseCommit = nq_BaseCommit q, np_TargetCommit = nq_TargetCommit q,
     np_Commits = map (\<lambda>cr. \<lparr>pc_ID = ncr_ID cr, pc_Commit = ncr_Commit cr, pc_Format = CommitFormatNative\<rparr>) (nq_Commits q)\<rparr>"

text \<open>Everything between the anchor and its release.\<close>

definition publish_verified :: "native_lib \<Rightarrow> review_lib \<Rightarrow> commit_lib \<Rightarrow> 'w native_engine \<Rightarrow> ctx \<Rightarrow> ctx \<Rightarrow> NativePushRequest \<Rightarrow> ('w, unit option) eff" where
  "publish_verified l rl u e c0 c q =
     ebind (elift (decodePackedObjects l (nq_PackData q) (nq_PackEntries q) [])) (\<lambda>decoded. case decoded of
       None \<Rightarrow> eret None
     | Some objects \<Rightarrow>
     ebind (elift (decodeAndVerifyCommitRecords u (nq_Commits q) objects)) (\<lambda>commits.
     ebind (ecatch (bs_GetCommitMetadata (ne_store e) c (nq_RepoID q) (nq_BaseCommit q)) (\<lambda>err.
       if err_is err (Pg ErrCommitNotFound) then efail (disconnected ''base commit is not known to this repository'')
       else efail (Wrapf ''nativepush: resolve base commit'' err))) (\<lambda>md.
     ebind (eassert (md_Format md = CommitFormatNative) (invalid_push ''base commit has another format'')) (\<lambda>_.
     ebind (verifyCommitDAG l rl e c0 c q objects (nq_BaseCommit q) [] (zip (nq_Commits q) commits)) (\<lambda>ok. case ok of
       None \<Rightarrow> eret None
     | Some _ \<Rightarrow>
         ecatch (ebind (nst_PublishNativePush (ne_store e) c (publication_of q)) (\<lambda>_. eret (Some ()))) (\<lambda>err.
           case as_nff_head err of
             Some actualHead \<Rightarrow> diagnoseNonFastForward e c q actualHead
           | None \<Rightarrow> efail (Wrapf ''nativepush: publish push'' err)))))))"

definition HandleNativePush :: "native_lib \<Rightarrow> review_lib \<Rightarrow> commit_lib \<Rightarrow> 'w native_engine \<Rightarrow> ctx \<Rightarrow> NativePushRequest \<Rightarrow> ('w, unit option) eff" where
  "HandleNativePush l rl u e c0 q =
     ebind (elift (validateNativeRequest q)) (\<lambda>_.
     ebind (ewrap ''nativepush: verify pack'' (IndexPack l (ne_indexer e) c0 (nq_TenantID q) (nq_RepoID q) (nq_PackID q)
       (nq_PackManifest q) (nq_PackData q) (nq_PackEntries q) (nq_TargetCommit q))) (\<lambda>indexed. case indexed of
       None \<Rightarrow> eret None
     | Some _ \<Rightarrow>
         ebind (ewrap ''nativepush: set tenant context'' (elift (bs_SetTenantContext (ne_store e) c0 (nq_TenantID q)))) (\<lambda>c.
         ebind (ewrap ''nativepush: anchor retention for pack''
           (nst_PutActiveTransaction (ne_store e) c (nq_RepoID q) (nq_PackID q) '''' (nq_TargetCommit q))) (\<lambda>_.
         edefer (publish_verified l rl u e c0 c q) (nst_DeleteActiveTransaction (ne_store e) c (nq_RepoID q) (nq_PackID q))))))"

section \<open>Over the server's store\<close>

definition rack_index_store :: "world index_store" where
  "rack_index_store = \<lparr>
     ix_SetTenantContext = SetTenantContext,
     ix_PutNativePack = (\<lambda>c r p h i es. on_db (PutNativePack c r p h i es)),
     ix_GetNativeObjectLocation = (\<lambda>c r i. on_db (GetNativeObjectLocation c r i))\<rparr>"

definition rack_indexer :: "cas_ext \<Rightarrow> path \<Rightarrow> world indexer" where
  "rack_indexer y d = NewIndexer (rack_driver y d) rack_index_store"

definition rack_native_store :: "(commit \<Rightarrow> goerr + commit) \<Rightarrow> world native_store" where
  "rack_native_store nrm = branch_store.extend (rack_store nrm) \<lparr>
     nst_PublishNativePush = (\<lambda>c p. on_db (PublishNativePush nrm c p)),
     nst_PutActiveTransaction = (\<lambda>c r t i ob. on_db (PutActiveTransaction c r t i ob)),
     nst_DeleteActiveTransaction = (\<lambda>c r t. on_db (DeleteActiveTransaction c r t))\<rparr>"

definition rack_native :: "cas_ext \<Rightarrow> path \<Rightarrow> (commit \<Rightarrow> goerr + commit) \<Rightarrow> world native_engine" where
  "rack_native y d nrm = NewEngine (rack_indexer y d) (rack_native_store nrm)"

end
