(* ===== verification/Native_Push_Facts.thy ===== *)
theory Native_Push_Facts
  imports Native_Push Sync_Push_Done
begin

text \<open>What a native push that succeeds has verified, and what it needs of the repository.\<close>

section \<open>Indexing\<close>

lemma rack_indexer_simps:
  "ix_driver (rack_indexer y d) = rack_driver y d" "ix_SetTenantContext (ix_store (rack_indexer y d)) = SetTenantContext"
  "ix_PutNativePack (ix_store (rack_indexer y d)) = (\<lambda>c r p h i es. on_db (PutNativePack c r p h i es))"
  by (simp_all add: rack_indexer_def NewIndexer_def rack_index_store_def)

lemma rack_native_simps:
  "ne_indexer (rack_native y d nrm) = rack_indexer y d" "ne_store (rack_native y d nrm) = rack_native_store nrm"
  by (simp_all add: rack_native_def NewEngine_def)

lemma IndexPack_Inr:
  assumes "IndexPack l (rack_indexer y d) c0 t rid pk mf data es cid w = (Inr (Some u), w')"
  shows "check_pack l pk mf data es = Inr (Some ()) \<and>
    (\<exists>c w1 s2. SetTenantContext c0 t = Inr c \<and> w_db w1 = w_db w \<and>
       PutNativePack c rid pk (contentHash l data) cid (sort_key pe_Offset es) (w_db w1) = (Inr (), s2) \<and> w' = w1\<lparr>w_db := s2\<rparr>)"
proof -
  have leave: "w_db w2 = w_db w1" if "drv_WritePack (rack_driver y d) c sc h r w1 = (x, w2)" for c sc h r x w1 w2
    using stepsD [OF rack_driver_leaves(4) that] .
  show ?thesis
    using assms unfolding IndexPack_def rack_indexer_simps Let_def
    by (auto simp: run_inv on_db_iff simp del: elift_iff split: option.splits dest!: leave)
qed

text \<open>A pack is indexed under a commit only where that commit is registered.\<close>

lemma indexed_under_registered:
  assumes run: "IndexPack l (rack_indexer y d) c0 t rid pk mf data es cid w = (Inr (Some u), w')"
    and "env_rls (env (w_db w))" "refs_ok (tabs (w_db w))" "cid \<noteq> ''''"
  shows "has_commit (tabs (w_db w)) t rid cid"
proof (rule ccontr)
  assume no: "\<not> has_commit (tabs (w_db w)) t rid cid"
  obtain c s2 and w1 :: world where c: "SetTenantContext c0 t = Inr c" "w_db w1 = w_db w"
    "PutNativePack c rid pk (contentHash l data) cid (sort_key pe_Offset es) (w_db w1) = (Inr (), s2)"
    using IndexPack_Inr [OF run] by (elim exE conjE)
  from native_pack_needs_its_commit [OF tenant_of_context [OF c(1)] assms(2,4) no assms(3)] c(2,3) show False
    by (metis fst_conv sum.distinct(1))
qed

section \<open>A successful push\<close>

lemma edefer_Inr: "edefer m fin w = (Inr z, w') \<Longrightarrow> \<exists>w1. m w = (Inr z, w1)"
  by (auto simp: edefer_def split: prod.splits)

lemma HandleNativePush_Inr:
  assumes "HandleNativePush l rl u (rack_native y d nrm) c0 q w = (Inr (Some z), w')"
  obtains c w1 w2 w3 where "validateNativeRequest q = Inr ()"
    "IndexPack l (rack_indexer y d) c0 (nq_TenantID q) (nq_RepoID q) (nq_PackID q) (nq_PackManifest q) (nq_PackData q) (nq_PackEntries q)
       (nq_TargetCommit q) w = (Inr (Some ()), w1)"
    "publish_verified l rl u (rack_native y d nrm) c0 c q w2 = (Inr (Some ()), w3)"
  using assms unfolding HandleNativePush_def rack_native_simps
  by (auto simp: run_inv simp del: elift_iff split: option.splits dest!: edefer_Inr)

text \<open>A native push registers nothing new on the server's store: it succeeds only if its target commit is
  registered already. The pack is indexed under the target commit before the commits it carries are registered, and
  the foreign key from native packs to commits refuses a commit the repository does not have; so the first push of
  any history fails, whatever it carries, and only a retry over commits registered by other means succeeds.\<close>

theorem native_push_needs_registered_target:
  assumes "HandleNativePush l rl u (rack_native y d nrm) c0 q w = (Inr (Some z), w')"
    and "env_rls (env (w_db w))" and "refs_ok (tabs (w_db w))"
  shows "has_commit (tabs (w_db w)) (nq_TenantID q) (nq_RepoID q) (nq_TargetCommit q)"
  using assms(1)
proof (rule HandleNativePush_Inr)
  fix w1
  assume valid: "validateNativeRequest q = Inr ()"
    and pack: "IndexPack l (rack_indexer y d) c0 (nq_TenantID q) (nq_RepoID q) (nq_PackID q) (nq_PackManifest q) (nq_PackData q) (nq_PackEntries q)
       (nq_TargetCommit q) w = (Inr (Some ()), w1)"
  from valid have "nq_TargetCommit q \<noteq> ''''" by (auto simp: validateNativeRequest_def split: if_splits)
  with indexed_under_registered [OF pack assms(2,3)] show ?thesis .
qed

section \<open>What was verified\<close>

text \<open>The first parents of the commits form the chain that the push names, and packed snapshots decode.\<close>

fun chained :: "review_lib \<Rightarrow> packed \<Rightarrow> string \<Rightarrow> (NativeCommitRecord \<times> commit) list \<Rightarrow> bool" where
  "chained rl objects previous [] \<longleftrightarrow> True"
| "chained rl objects previous ((cr, cm) # rest) \<longleftrightarrow> cm_Parents cm \<noteq> [] \<and> hd (cm_Parents cm) = previous \<and>
     (\<forall>ty data. map_of objects (cm_Snapshot cm) = Some (ty, data) \<longrightarrow> ty = ObjectTypeSnapshot \<and> (\<exists>s. DecodeSnapshotObject rl data = Inr s)) \<and>
     chained rl objects (ncr_ID cr) rest"

lemma verifyCommitSnapshot_Inr:
  assumes "verifyCommitSnapshot l rl e c0 q cm objects w = (Inr (Some ()), w')" and "map_of objects (cm_Snapshot cm) = Some (ty, data)"
  shows "ty = ObjectTypeSnapshot \<and> (\<exists>s. DecodeSnapshotObject rl data = Inr s)"
  using assms unfolding verifyCommitSnapshot_def
  by (cases "DecodeSnapshotObject rl data") (auto simp: eff_run split: if_splits)

lemma verifyCommitDAG_chained:
  "verifyCommitDAG l rl e c0 c q objects previous known rs w = (Inr (Some ()), w') \<Longrightarrow> chained rl objects previous rs"
proof (induction rs arbitrary: previous known w)
  case (Cons a rest)
  obtain cr cm where a: "a = (cr, cm)" by fastforce
  from Cons.prems obtain w1 w2 where head: "cm_Parents cm \<noteq> []" "hd (cm_Parents cm) = previous"
    and snap: "verifyCommitSnapshot l rl e c0 q cm objects w1 = (Inr (Some ()), w2)"
    and rest: "verifyCommitDAG l rl e c0 c q objects (ncr_ID cr) (ncr_ID cr # known) rest w2 = (Inr (Some ()), w')"
    by (auto simp: a run_inv simp del: elift_iff split: option.splits)
  then show ?case using Cons.IH [OF rest] verifyCommitSnapshot_Inr [OF snap] by (auto simp: a)
qed simp

lemma rmap_Inr: "rmap f xs = Inr ys \<longleftrightarrow> list_all2 (\<lambda>x y. f x = Inr y) xs ys"
  by (induction xs arbitrary: ys) (auto simp: list_all2_Cons1)

lemma verify_record_Inr:
  "verify_record u objects cr = Inr cm \<Longrightarrow>
   \<exists>data. map_of objects (ncr_ID cr) = Some (ObjectTypeCommit, data) \<and> ul_UnmarshalCommit u data = Inr cm \<and> ul_Equal u cm (ncr_Commit cr)"
  by (auto simp: verify_record_def split: option.splits if_splits)


end
