(* ===== verification/Native_Push_Samples.thy ===== *)
theory Native_Push_Samples
  imports Native_Push_Facts Native_Samples Review_Samples
begin

text \<open>
  A native push whose target the repository already has: one pack with a commit and its empty snapshot, pushed to a
  branch that stands at the base.
\<close>

definition nat_commit :: commit where
  "nat_commit = \<lparr>cm_Snapshot = zero_id, cm_Parents = [head_id], cm_Author = ''a'', cm_Message = ''m'', cm_Time = 0\<rparr>"

definition nat_entries :: "pack_index_entry list" where
  "nat_entries = [\<lparr>pe_Object = other_id, pe_Offset = 0, pe_CompressedSize = 1, pe_UncompressedSize = 1, pe_CRC32 = 0\<rparr>,
     \<lparr>pe_Object = zero_id, pe_Offset = 1, pe_CompressedSize = 1, pe_UncompressedSize = 1, pe_CRC32 = 0\<rparr>]"

definition nat_manifest :: PackManifest where
  "nat_manifest = \<lparr>mf_Packs = [\<lparr>mt_ID = ''pk'', mt_ObjectCount = 2, mt_Compression = ''zstd'', mt_rest = ''''\<rparr>], mf_rest = ''''\<rparr>"

definition nat_lib :: native_lib where
  "nat_lib = one_lib\<lparr>nl_DecompressPackedObject := (\<lambda>e d. if pe_Object e = other_id then Inr (ObjectTypeCommit, d) else Inr (ObjectTypeSnapshot, []))\<rparr>"

definition nat_commits :: commit_lib where
  "nat_commits = \<lparr>ul_UnmarshalCommit = (\<lambda>_. Inr nat_commit), ul_Equal = (=)\<rparr>"

definition nat_request :: NativePushRequest where
  "nat_request = \<lparr>nq_TenantID = tenant_uuid, nq_RepoID = ''r'', nq_Branch = ''main'', nq_BaseCommit = head_id, nq_TargetCommit = other_id,
     nq_PackID = ''pk'', nq_PackManifest = nat_manifest, nq_PackData = [7, 8], nq_PackEntries = nat_entries,
     nq_Commits = [\<lparr>ncr_ID = other_id, ncr_Commit = nat_commit\<rparr>]\<rparr>"

text \<open>The two commits are native, and the second has the first for its parent.\<close>

definition nat_db :: db where
  "nat_db = push_db\<lparr>tabs := push_tabs\<lparr>commits := map (\<lambda>r. r\<lparr>c_format := 3\<rparr>) (commits push_tabs),
     commit_parents := parent_rows tenant_uuid ''r'' other_id [head_id]\<rparr>\<rparr>"

definition nat_world :: world where
  "nat_world = \<lparr>w_fs = push_fs, w_db = nat_db\<rparr>"

definition nat_engine :: "world native_engine" where
  "nat_engine = rack_native push_cas push_root Inr"

lemma nat_check: "check_pack nat_lib ''pk'' nat_manifest [7, 8] nat_entries = Inr (Some ())"
  by (simp add: check_pack_def nat_lib_def one_lib_def nat_manifest_def nat_entries_def MaxNativePackBytes_def validateManifestListsPack_def
      as_bad_def go_slice_def)

lemma nat_valid: "validateNativeRequest nat_request = Inr ()"
  by (simp add: validateNativeRequest_def nat_request_def sample_ids tenant_uuid_def)

lemma nat_decoded: "decodePackedObjects nat_lib [7, 8] nat_entries [] = Inr (Some [(zero_id, ObjectTypeSnapshot, []), (other_id, ObjectTypeCommit, [7])])"
  using sample_ids by (simp add: nat_lib_def nat_entries_def go_slice_def)

definition nat_db1 :: db where
  "nat_db1 = snd (PutNativePack push_ctx ''r'' ''pk'' zero_id other_id (sort_key pe_Offset nat_entries) nat_db)"

lemma nat_put: "fst (PutNativePack push_ctx ''r'' ''pk'' zero_id other_id (sort_key pe_Offset nat_entries) nat_db) = Inr ()"
  by code_simp

definition nat_db2 :: db where
  "nat_db2 = snd (PutActiveTransaction push_ctx ''r'' ''pk'' '''' other_id nat_db1)"

lemma nat_anchor: "fst (PutActiveTransaction push_ctx ''r'' ''pk'' '''' other_id nat_db1) = Inr ()"
  by code_simp

definition nat_db3 :: db where
  "nat_db3 = snd (GetCommitMetadata push_ctx ''r'' head_id nat_db2)"

definition nat_base :: CommitMetadata where
  "nat_base = projr (fst (GetCommitMetadata push_ctx ''r'' head_id nat_db2))"

lemma nat_metadata: "fst (GetCommitMetadata push_ctx ''r'' head_id nat_db2) = Inr nat_base" "md_Format nat_base = 3"
  by code_simp+

lemma nat_publish: "fst (PublishNativePush Inr push_ctx (publication_of nat_request) nat_db3) = Inr \<lparr>nr_AlreadyApplied = False, nr_Head = other_id\<rparr>"
  by code_simp

section \<open>The run\<close>

lemma nat_fields: "nq_TenantID nat_request = tenant_uuid" "nq_RepoID nat_request = ''r''" "nq_BaseCommit nat_request = head_id"
  "nq_TargetCommit nat_request = other_id" "nq_PackID nat_request = ''pk''" "nq_PackManifest nat_request = nat_manifest"
  "nq_PackData nat_request = [7, 8]" "nq_PackEntries nat_request = nat_entries"
  "nq_Commits nat_request = [\<lparr>ncr_ID = other_id, ncr_Commit = nat_commit\<rparr>]"
  by (simp_all add: nat_request_def)

lemma nat_hash: "contentHash nat_lib b = zero_id"
  by (simp add: contentHash_def nat_lib_def one_lib_def zero_id_def)

lemma nat_runs:
  "PutNativePack push_ctx ''r'' ''pk'' zero_id other_id (sort_key pe_Offset nat_entries) nat_db = (Inr (), nat_db1)"
  "PutActiveTransaction push_ctx ''r'' ''pk'' [] other_id nat_db1 = (Inr (), nat_db2)"
  "GetCommitMetadata push_ctx ''r'' head_id nat_db2 = (Inr nat_base, nat_db3)"
  "\<exists>s. PublishNativePush Inr push_ctx (publication_of nat_request) nat_db3 = (Inr \<lparr>nr_AlreadyApplied = False, nr_Head = other_id\<rparr>, s)"
  using nat_put nat_anchor nat_metadata(1) nat_publish
  by (simp_all add: prod_eq_iff nat_db1_def nat_db2_def nat_db3_def)

lemma nat_indexed: "\<exists>f. calm f \<and> IndexPack nat_lib (ne_indexer nat_engine) push_ctx tenant_uuid ''r'' ''pk'' nat_manifest [7, 8] nat_entries other_id nat_world =
    (Inr (Some ()), \<lparr>w_fs = f, w_db = nat_db1\<rparr>)"
proof -
  obtain f where f: "WritePack push_cas push_root push_ctx \<lparr>sc_tenant = tenant_uuid, sc_repo = ''r''\<rparr> zero_id \<lparr>rd_data = [7, 8], rd_err = None\<rparr> push_fs =
      (Inr (), f)" "calm f" using calm_runs(3) [OF sample_calm, of push_ctx] by (simp only: push_ctx_def ctx.simps) blast
  have "IndexPack nat_lib (ne_indexer nat_engine) push_ctx tenant_uuid ''r'' ''pk'' nat_manifest [7, 8] nat_entries other_id nat_world =
    (Inr (Some ()), \<lparr>w_fs = f, w_db = nat_db1\<rparr>)"
    unfolding IndexPack_def nat_engine_def rack_native_simps rack_indexer_simps Let_def nat_check nat_hash
    by (simp add: eff_run sample_scope sample_context rack_driver_def on_fs_def on_db_def nat_world_def f nat_runs)
  then show ?thesis using f(2) by blast
qed

lemma nat_verified: "\<exists>w'. publish_verified nat_lib any_lib nat_commits nat_engine push_ctx push_ctx nat_request \<lparr>w_fs = f, w_db = nat_db2\<rparr> = (Inr (Some ()), w')"
proof -
  obtain s where s: "PublishNativePush Inr push_ctx (publication_of nat_request) nat_db3 = (Inr \<lparr>nr_AlreadyApplied = False, nr_Head = other_id\<rparr>, s)"
    using nat_runs(4) by blast
  have ne: "other_id \<noteq> zero_id" "ObjectTypeSnapshot \<noteq> ObjectTypeCommit"
    using sample_ids by (auto simp: ObjectTypeSnapshot_def ObjectTypeCommit_def)
  show ?thesis
    unfolding publish_verified_def nat_fields nat_decoded
    by (simp add: eff_run nat_engine_def rack_native_simps rack_native_store_def rack_store_def branch_store.extend_def on_db_def
      decodeAndVerifyCommitRecords_def verify_record_def ne sample_ids nat_commits_def nat_runs nat_metadata(2)
      CommitFormatNative_def nat_commit_def verifyCommitSnapshot_def empty_decodes s)
qed

lemma nat_push: "\<exists>w'. HandleNativePush nat_lib any_lib nat_commits nat_engine push_ctx nat_request nat_world = (Inr (Some ()), w')"
proof -
  obtain f where f: "IndexPack nat_lib (ne_indexer nat_engine) push_ctx tenant_uuid ''r'' ''pk'' nat_manifest [7, 8] nat_entries other_id nat_world =
    (Inr (Some ()), \<lparr>w_fs = f, w_db = nat_db1\<rparr>)" using nat_indexed by blast
  obtain w' where w': "publish_verified nat_lib any_lib nat_commits nat_engine push_ctx push_ctx nat_request \<lparr>w_fs = f, w_db = nat_db2\<rparr> = (Inr (Some ()), w')"
    using nat_verified by blast
  have store: "bs_SetTenantContext (ne_store nat_engine) = SetTenantContext"
    "nst_PutActiveTransaction (ne_store nat_engine) push_ctx ''r'' ''pk'' [] other_id \<lparr>w_fs = f, w_db = nat_db1\<rparr> = (Inr (), \<lparr>w_fs = f, w_db = nat_db2\<rparr>)"
    by (simp_all add: nat_engine_def rack_native_simps rack_native_store_def rack_store_def branch_store.extend_def on_db_def nat_runs)
  show ?thesis
    unfolding HandleNativePush_def nat_fields nat_valid
    by (simp add: eff_run f sample_context store w')
qed

lemma nat_state: "env_rls (env (w_db nat_world))" "refs_ok (tabs (w_db nat_world))"
  by code_simp+

theorem native_push_needs_registered_target_witness:
  "has_commit (tabs (w_db nat_world)) tenant_uuid ''r'' other_id \<and>
   (\<exists>w'. HandleNativePush nat_lib any_lib nat_commits nat_engine push_ctx nat_request nat_world = (Inr (Some ()), w'))"
proof -
  obtain w' where run: "HandleNativePush nat_lib any_lib nat_commits nat_engine push_ctx nat_request nat_world = (Inr (Some ()), w')"
    using nat_push by blast
  from native_push_needs_registered_target [OF this [unfolded nat_engine_def] nat_state] run show ?thesis by (auto simp: nat_fields)
qed


end
