(* ===== verification/Auth.thy ===== *)
theory Auth
  imports Go_Text
begin

text \<open>
  Authentication (\<open>internal/server/auth/auth.go\<close>): roles and their order, the two verifiers and the extraction of a
  credential from the request headers. A header map is the list of its values in the order of arrival, under
  canonical names.
\<close>

section \<open>Roles\<close>

definition RoleViewer :: string where "RoleViewer = ''viewer''"
definition RoleContributor :: string where "RoleContributor = ''contributor''"
definition RoleAdmin :: string where "RoleAdmin = ''admin''"

definition roleRank :: "string \<Rightarrow> nat option" where
  "roleRank r = (if r = RoleViewer then Some 0 else if r = RoleContributor then Some 1 else if r = RoleAdmin then Some 2 else None)"

text \<open>An unknown role satisfies nothing, and nothing satisfies an unknown requirement.\<close>

definition Satisfies :: "string \<Rightarrow> string \<Rightarrow> bool" where
  "Satisfies r required = (case roleRank r of
       None \<Rightarrow> False
     | Some rr \<Rightarrow> (case roleRank required of None \<Rightarrow> False | Some reqRank \<Rightarrow> reqRank \<le> rr))"

section \<open>Credentials and claims\<close>

datatype CredentialKind = CredentialKindBearer | CredentialKindAPIKey

record Credential =
  cred_Kind :: CredentialKind  cred_Token :: string

record Claims =
  cm_TenantID :: string  cm_Role :: string  cm_Subject :: string

type_synonym verifier = "ctx \<Rightarrow> string \<Rightarrow> goerr + Claims"

definition NewStaticVerifier :: "(string \<rightharpoonup> Claims) \<Rightarrow> verifier" where
  "NewStaticVerifier tokens c rawToken = (case tokens rawToken of None \<Rightarrow> Inl (Misc ErrInvalidToken) | Some claims \<Rightarrow> Inr claims)"

definition PermissiveVerifier :: verifier where
  "PermissiveVerifier c rawToken =
     (if rawToken = '''' then Inl (Misc ErrInvalidToken)
      else Inr \<lparr>cm_TenantID = '''', cm_Role = RoleAdmin, cm_Subject = rawToken\<rparr>)"

section \<open>Headers\<close>

type_synonym headers = "(string \<times> string) list"

definition header_Values :: "headers \<Rightarrow> string \<Rightarrow> string list" where
  "header_Values hs k = map snd (filter (\<lambda>(n, _). n = k) hs)"

definition header_Get :: "headers \<Rightarrow> string \<Rightarrow> string" where
  "header_Get hs k = (case header_Values hs k of [] \<Rightarrow> '''' | v # _ \<Rightarrow> v)"

text \<open>\<open>strings.Cut\<close> at a space.\<close>

definition cut_space :: "string \<Rightarrow> (string \<times> string) option" where
  "cut_space s = (case dropWhile (\<lambda>c. c \<noteq> CHR '' '') s of [] \<Rightarrow> None | _ # t \<Rightarrow> Some (takeWhile (\<lambda>c. c \<noteq> CHR '' '') s, t))"

text \<open>\<open>strings.EqualFold\<close> with \<open>Bearer\<close>, whose letters fold with ASCII letters only.\<close>

definition ExtractCredential :: "headers \<Rightarrow> goerr + Credential" where
  "ExtractCredential hs = (case header_Values hs ''Authorization'' of
       v # _ \<Rightarrow>
         (let authorization = TrimSpace v in
          if authorization = '''' then Inl (Misc ErrMalformedCredential)
          else case cut_space authorization of
            None \<Rightarrow> Inl (Misc ErrMalformedCredential)
          | Some (scheme, rest) \<Rightarrow>
              if ToLower scheme \<noteq> ''bearer'' then Inl (Misc ErrMalformedCredential)
              else let token = TrimSpace rest in
                if token = '''' then Inl (Misc ErrMalformedCredential)
                else Inr \<lparr>cred_Kind = CredentialKindBearer, cred_Token = token\<rparr>)
     | [] \<Rightarrow> (case header_Values hs ''X-Api-Key'' of
         v # _ \<Rightarrow> (let token = TrimSpace v in
           if token = '''' then Inl (Misc ErrMalformedCredential)
           else Inr \<lparr>cred_Kind = CredentialKindAPIKey, cred_Token = token\<rparr>)
       | [] \<Rightarrow> Inl (Misc ErrMissingCredential)))"

section \<open>The order of roles\<close>

lemma Satisfies_trans: "Satisfies a b \<Longrightarrow> Satisfies b c \<Longrightarrow> Satisfies a c"
  by (auto simp: Satisfies_def split: option.splits)

lemma Satisfies_table:
  "Satisfies r RoleViewer \<longleftrightarrow> r \<in> {RoleViewer, RoleContributor, RoleAdmin}"
  "Satisfies r RoleContributor \<longleftrightarrow> r \<in> {RoleContributor, RoleAdmin}"
  "Satisfies r RoleAdmin \<longleftrightarrow> r = RoleAdmin"
  by (auto simp: Satisfies_def roleRank_def RoleViewer_def RoleContributor_def RoleAdmin_def)

lemma credential_nonempty: "ExtractCredential hs = Inr c \<Longrightarrow> cred_Token c \<noteq> ''''"
  by (auto simp: ExtractCredential_def Let_def split: list.splits option.splits if_splits)

end
