(* ===== verification/Audit_Log.thy ===== *)
theory Audit_Log
  imports Rack_Prelude "HOL-Library.Sublist"
begin

text \<open>
  The audit trail (\<open>internal/server/audit\<close>): \<open>Logger\<close> with its bounded channel, the background goroutine that hands
  events to the sink, and \<open>InMemorySink\<close>. The goroutine's receive and its call of the sink are separate steps, which
  interleave freely with emissions and \<open>Close\<close>; the mutex makes an emission and a close one step each. A sink that
  panics is a sink that fails.
\<close>

record AuditEvent =
  ev_Timestamp :: int  ev_CorrelationID :: string  ev_Actor :: string  ev_TenantID :: string  ev_RepoID :: string
  ev_Branch :: string  ev_Action :: string  ev_Outcome :: string  ev_ContractVersion :: uint32
  ev_PreviousRef :: string  ev_NewRef :: string  ev_Detail :: string

definition defaultBufferSize :: nat where "defaultBufferSize = 256"

text \<open>\<open>lg_flight\<close> is the event the goroutine has received and not finished; \<open>lg_done\<close> is the closed channel \<open>done\<close>. The
  sink is \<open>InMemorySink\<close> when \<open>lg_events\<close> is read as its contents.\<close>

record audit_logger =
  lg_sink :: bool
  lg_queue :: "AuditEvent list"
  lg_flight :: "AuditEvent option"
  lg_events :: "AuditEvent list"
  lg_closed :: bool
  lg_done :: bool

definition NewLogger :: "bool \<Rightarrow> audit_logger" where
  "NewLogger sink = \<lparr>lg_sink = sink, lg_queue = [], lg_flight = None, lg_events = [], lg_closed = False, lg_done = False\<rparr>"

definition stamped :: "int \<Rightarrow> AuditEvent \<Rightarrow> AuditEvent" where
  "stamped now e = (if ev_Timestamp e = 0 then e\<lparr>ev_Timestamp := now\<rparr> else e)"

text \<open>Whether an emission is queued: a full queue, a closed logger or a missing sink drops it.\<close>

definition accepts :: "audit_logger \<Rightarrow> bool" where
  "accepts l \<longleftrightarrow> lg_sink l \<and> \<not> lg_closed l \<and> length (lg_queue l) < defaultBufferSize"

definition Emit :: "int \<Rightarrow> AuditEvent \<Rightarrow> audit_logger \<Rightarrow> audit_logger" where
  "Emit now e l =
     (if \<not> lg_sink l then l
      else if lg_closed l then l
      else if length (lg_queue l) < defaultBufferSize then l\<lparr>lg_queue := lg_queue l @ [stamped now e]\<rparr> else l)"

text \<open>The sink in memory: \<open>Record\<close> appends, \<open>Events\<close> returns a copy.\<close>

definition sink_Record :: "AuditEvent \<Rightarrow> AuditEvent list \<Rightarrow> AuditEvent list" where
  "sink_Record e es = es @ [e]"

definition sink_Events :: "audit_logger \<Rightarrow> AuditEvent list" where
  "sink_Events l = lg_events l"

definition CloseLogger :: "audit_logger \<Rightarrow> audit_logger" where
  "CloseLogger l = l\<lparr>lg_closed := True\<rparr>"

text \<open>The steps of the logger: \<open>run\<close> receives, records (or fails to), and ends when the channel is closed and drained.\<close>

datatype audit_act = Emitted AuditEvent bool | Received | Recorded AuditEvent | Failed AuditEvent | Closed | Ended

inductive audit_step :: "audit_logger \<Rightarrow> audit_act \<Rightarrow> audit_logger \<Rightarrow> bool" where
  emitting: "audit_step l (Emitted (stamped now e) (accepts l)) (Emit now e l)"
| receiving: "lg_flight l = None \<Longrightarrow> lg_queue l = e # q \<Longrightarrow> audit_step l Received (l\<lparr>lg_queue := q, lg_flight := Some e\<rparr>)"
| recording: "lg_flight l = Some e \<Longrightarrow> audit_step l (Recorded e) (l\<lparr>lg_flight := None, lg_events := sink_Record e (lg_events l)\<rparr>)"
| failing: "lg_flight l = Some e \<Longrightarrow> audit_step l (Failed e) (l\<lparr>lg_flight := None\<rparr>)"
| closing: "audit_step l Closed (CloseLogger l)"
| ending: "lg_closed l \<Longrightarrow> lg_queue l = [] \<Longrightarrow> lg_flight l = None \<Longrightarrow> audit_step l Ended (l\<lparr>lg_done := True\<rparr>)"

inductive_cases emittedE: "audit_step l (Emitted e b) l'"
inductive_cases handledE: "audit_step l (Recorded e) l'" "audit_step l (Failed e) l'" "audit_step l Received l'"
inductive_cases endedE: "audit_step l Closed l'" "audit_step l Ended l'"

inductive audit_run :: "audit_logger \<Rightarrow> audit_act list \<Rightarrow> audit_logger \<Rightarrow> bool" where
  start: "audit_run l [] l"
| extend_run: "audit_run l as l' \<Longrightarrow> audit_step l' a l'' \<Longrightarrow> audit_run l (as @ [a]) l''"

inductive_cases audit_runE: "audit_run l (as @ [a]) l''"

text \<open>The events a trace accepted, and those it handed to the sink, with and without success.\<close>

definition accepted :: "audit_act list \<Rightarrow> AuditEvent list" where
  "accepted as = concat (map (\<lambda>a. case a of Emitted e True \<Rightarrow> [e] | _ \<Rightarrow> []) as)"

definition handled :: "audit_act list \<Rightarrow> AuditEvent list" where
  "handled as = concat (map (\<lambda>a. case a of Recorded e \<Rightarrow> [e] | Failed e \<Rightarrow> [e] | _ \<Rightarrow> []) as)"

definition recorded :: "audit_act list \<Rightarrow> AuditEvent list" where
  "recorded as = concat (map (\<lambda>a. case a of Recorded e \<Rightarrow> [e] | _ \<Rightarrow> []) as)"

lemmas trace_defs = accepted_def handled_def recorded_def

lemma trace_snoc [simp]:
  "accepted (as @ [a]) = accepted as @ (case a of Emitted e True \<Rightarrow> [e] | _ \<Rightarrow> [])"
  "handled (as @ [a]) = handled as @ (case a of Recorded e \<Rightarrow> [e] | Failed e \<Rightarrow> [e] | _ \<Rightarrow> [])"
  "recorded (as @ [a]) = recorded as @ (case a of Recorded e \<Rightarrow> [e] | _ \<Rightarrow> [])"
  "accepted [] = []" "handled [] = []" "recorded [] = []"
  by (simp_all add: trace_defs)

definition audit_inv :: "audit_act list \<Rightarrow> audit_logger \<Rightarrow> bool" where
  "audit_inv as l \<longleftrightarrow> accepted as = handled as @ (case lg_flight l of None \<Rightarrow> [] | Some e \<Rightarrow> [e]) @ lg_queue l \<and>
     lg_events l = recorded as \<and> length (lg_queue l) \<le> defaultBufferSize \<and>
     (lg_done l \<longrightarrow> lg_closed l \<and> lg_queue l = [] \<and> lg_flight l = None)"

lemma recorded_subseq: "subseq (recorded as) (handled as)"
  by (induction as) (auto simp: trace_defs split: audit_act.splits)

lemma audit_inv_step:
  assumes "audit_inv as l" and "audit_step l a l'"
  shows "audit_inv (as @ [a]) l'"
  using assms(2,1)
proof cases
  case (emitting now e)
  then show ?thesis using assms(1)
    by (cases "accepts l") (auto simp: audit_inv_def accepts_def Emit_def split: option.splits)
qed (auto simp: audit_inv_def CloseLogger_def sink_Record_def)

lemma audit_run_inv: "audit_run (NewLogger s) as l \<Longrightarrow> audit_inv as l"
proof (induction "NewLogger s" as l rule: audit_run.induct)
  case start
  then show ?case by (simp add: audit_inv_def NewLogger_def)
next
  case (extend_run as l' a l'')
  then show ?case by (blast intro: audit_inv_step)
qed

text \<open>C20: The audit trail loses nothing it accepted. In every interleaving of emissions, the background goroutine and
  \<open>Close\<close>, the events handed to the sink, the one in flight and those waiting are, in this order, exactly the events
  accepted so far, at most 256 waiting; the sink holds those recorded without failure, a subsequence of them. An
  emission is refused only without sink, after \<open>Close\<close>, or with 256 events waiting. Once the logger is done (what
  \<open>Close\<close> waits for), every accepted event has been handed to the sink, once and in order.\<close>

theorem audit_trail_is_what_was_accepted:
  assumes "audit_run (NewLogger s) as l"
  shows "accepted as = handled as @ (case lg_flight l of None \<Rightarrow> [] | Some e \<Rightarrow> [e]) @ lg_queue l \<and>
    length (lg_queue l) \<le> defaultBufferSize \<and> sink_Events l = recorded as \<and> subseq (recorded as) (accepted as) \<and>
    (lg_done l \<longrightarrow> handled as = accepted as) \<and>
    (audit_step l (Emitted e False) l' \<longrightarrow> l' = l \<and> (\<not> lg_sink l \<or> lg_closed l \<or> length (lg_queue l) = defaultBufferSize))"
proof -
  note inv = audit_run_inv [OF assms, unfolded audit_inv_def]
  have "subseq (recorded as) (handled as @ r)" for r
    using recorded_subseq subseq_order.trans [OF _ list_emb_append2] by (meson list_emb_append2 prefix_imp_subseq prefixI recorded_subseq subseq_order.trans)
  moreover have "l' = l \<and> (\<not> lg_sink l \<or> lg_closed l \<or> length (lg_queue l) = defaultBufferSize)"
    if "audit_step l (Emitted e False) l'"
    using that inv by (auto elim!: emittedE simp: accepts_def Emit_def)
  ultimately show ?thesis using inv by (auto simp: sink_Events_def)
qed

definition some_event :: "string \<Rightarrow> AuditEvent" where
  "some_event a = \<lparr>ev_Timestamp = 5, ev_CorrelationID = '''', ev_Actor = '''', ev_TenantID = '''', ev_RepoID = '''', ev_Branch = '''',
     ev_Action = a, ev_Outcome = '''', ev_ContractVersion = 0, ev_PreviousRef = '''', ev_NewRef = '''', ev_Detail = ''''\<rparr>"

end
