(* ===== verification/Asset_Service.thy ===== *)
theory Asset_Service
  imports Rack_World Pg_Native
begin

text \<open>
  The asset service (\<open>internal/server/asset/service.go\<close>): negotiation of missing assets, upload and download, over the
  content store and the metadata store. The runtime enumerates the set of existing hashes in an order of its own,
  which \<open>ord\<close> stands for. \<open>Upload\<close> returns the bytes written also with the error of the registration; its callers read
  the count only when there is no error, and the model keeps the error.
\<close>

record 'w asset_store =
  az_AdmitAssetUpload :: "ctx \<Rightarrow> string \<Rightarrow> string \<Rightarrow> int64 \<Rightarrow> ('w, unit) eff"
  az_RegisterAsset :: "ctx \<Rightarrow> string \<Rightarrow> string \<Rightarrow> int64 \<Rightarrow> string \<Rightarrow> ('w, unit) eff"
  az_GetAssetMetadata :: "ctx \<Rightarrow> string \<Rightarrow> string \<Rightarrow> ('w, AssetRecord) eff"
  az_ListMissingAssets :: "ctx \<Rightarrow> string \<Rightarrow> string list \<Rightarrow> ('w, string list) eff"

text \<open>\<open>Sizes\<close> is a map that may be nil: no sizes are known then, as in an empty one.\<close>

record NegotiationRequest =
  nq_Hashes :: "string list"  nq_Sizes :: "string \<rightharpoonup> int64"

record NegotiationResult =
  ng_Missing :: "string list"  ng_Existing :: "string list"  ng_UploadAuthorized :: bool

record 'w asset_service =
  svc_driver :: "'w cas_driver option"
  svc_store :: "'w asset_store option"

definition NewService :: "'w cas_driver option \<Rightarrow> 'w asset_store option \<Rightarrow> 'w asset_service" where
  "NewService drv st = \<lparr>svc_driver = drv, svc_store = st\<rparr>"

definition clean_hash :: "string \<Rightarrow> string" where
  "clean_hash h = ToLower (TrimSpace h)"

definition normalized_hashes :: "string list \<Rightarrow> string list" where
  "normalized_hashes hs = filter (\<lambda>h. h \<noteq> '''') (map clean_hash hs)"

text \<open>A missing asset of known positive size is admitted on its own.\<close>

definition admit_missing :: "'w asset_store \<Rightarrow> ctx \<Rightarrow> string \<Rightarrow> (string \<rightharpoonup> int64) \<Rightarrow> string \<Rightarrow> ('w, unit) eff" where
  "admit_missing st c repoID sizes h = (case sizes h of
       None \<Rightarrow> eret ()
     | Some sz \<Rightarrow> if 0 <s sz then ewrap ''admit asset'' (az_AdmitAssetUpload st c repoID h sz) else eret ())"

definition Negotiate :: "(string list \<Rightarrow> string list) \<Rightarrow> 'w asset_service \<Rightarrow> ctx \<Rightarrow> scope \<Rightarrow> NegotiationRequest \<Rightarrow> ('w, NegotiationResult) eff" where
  "Negotiate ord s c sc q = (case svc_store s of
       None \<Rightarrow> efail (Errorf ''asset service: store is not configured'')
     | Some st \<Rightarrow>
         let normalized = normalized_hashes (nq_Hashes q) in
         ebind (ewrap ''negotiate assets'' (az_ListMissingAssets st c (sc_repo sc) normalized)) (\<lambda>missing.
         ebind (efor missing (admit_missing st c (sc_repo sc) (nq_Sizes q))) (\<lambda>_.
         eret \<lparr>ng_Missing = missing, ng_Existing = ord (filter (\<lambda>h. h \<notin> set missing) (remdups normalized)), ng_UploadAuthorized = True\<rparr>)))"

definition octet_stream :: string where "octet_stream = ''application/octet-stream''"

definition Upload :: "'w asset_service \<Rightarrow> ctx \<Rightarrow> scope \<Rightarrow> string \<Rightarrow> int64 \<Rightarrow> string \<Rightarrow> reader \<Rightarrow> ('w, int64) eff" where
  "Upload s c sc hash n mimeType r = (case (svc_driver s, svc_store s) of
       (Some drv, Some st) \<Rightarrow>
         let cleanHash = clean_hash hash in
         if cleanHash = '''' then efail (Misc ErrMissingHash)
         else
           ebind (if 0 <s n then ewrap ''admit asset upload'' (az_AdmitAssetUpload st c (sc_repo sc) cleanHash n) else eret ()) (\<lambda>_.
           ebind (ewrap ''write asset to cas'' (drv_WriteAsset drv c sc cleanHash r)) (\<lambda>written.
           ebind (ewrap ''register asset metadata'' (az_RegisterAsset st c (sc_repo sc) cleanHash written
             (if mimeType = '''' then octet_stream else mimeType))) (\<lambda>_.
           eret written)))
     | _ \<Rightarrow> efail (Errorf ''asset service: not configured''))"

text \<open>An error of the metadata store is dropped: the asset is served as a byte stream.\<close>

definition asset_mime :: "'w asset_store option \<Rightarrow> ctx \<Rightarrow> string \<Rightarrow> string \<Rightarrow> ('w, string) eff" where
  "asset_mime st c repoID hash = (case st of
       None \<Rightarrow> eret octet_stream
     | Some st \<Rightarrow> ebind (etry (az_GetAssetMetadata st c repoID hash)) (\<lambda>res. eret (case res of
           Inl _ \<Rightarrow> octet_stream
         | Inr rec \<Rightarrow> if as_MIMEType rec \<noteq> '''' then as_MIMEType rec else octet_stream)))"

definition Open :: "'w asset_service \<Rightarrow> ctx \<Rightarrow> scope \<Rightarrow> string \<Rightarrow> ('w, reader \<times> int64 \<times> string) eff" where
  "Open s c sc hash = (case svc_driver s of
       None \<Rightarrow> efail (Errorf ''asset service: cas driver not configured'')
     | Some drv \<Rightarrow>
         let cleanHash = clean_hash hash in
         if cleanHash = '''' then efail (Misc ErrMissingHash)
         else
           ebind (asset_mime (svc_store s) c (sc_repo sc) cleanHash) (\<lambda>mimeType.
           ebind (ecatch (drv_OpenAsset drv c sc cleanHash) (\<lambda>err.
             if err_is err (Cas ErrNotFound) then efail (Misc ErrAssetBlobNotFound) else efail (Wrapf ''open asset'' err))) (\<lambda>(rc, n).
           eret (rc, n, mimeType))))"

section \<open>The service of the server\<close>

definition rack_asset_store :: "world asset_store" where
  "rack_asset_store = \<lparr>
     az_AdmitAssetUpload = (\<lambda>c r h n. on_db (AdmitAssetUpload c r h n)),
     az_RegisterAsset = (\<lambda>c r h n m. on_db (RegisterAsset c r h n m)),
     az_GetAssetMetadata = (\<lambda>c r h. on_db (GetAssetMetadata c r h)),
     az_ListMissingAssets = (\<lambda>c r hs. on_db (ListMissingAssets c r hs))\<rparr>"

definition rack_assets :: "cas_ext \<Rightarrow> path \<Rightarrow> world asset_service" where
  "rack_assets y d = NewService (Some (rack_driver y d)) (Some rack_asset_store)"

end
