(* ===== verification/Gateway_Http.thy ===== *)
theory Gateway_Http
  imports Auth Audit_Log Asset_Service Review_Apply Sync_Pull_Claims
begin

text \<open>
  What the gateway's handlers share (\<open>internal/server/gateway\<close>: \<open>context.go\<close>, \<open>errors.go\<close>, \<open>contractversion.go\<close>,
  \<open>middleware.go\<close>): requests and responses, the request context with the values the middleware attaches, error
  envelopes, version windows, and the middleware itself. A handler maps the state of the server to a response and
  a state; \<open>None\<close> is a request that is not answered (a handler that panics). Log lines are left out. Responses
  keep their values instead of the JSON text of them.
\<close>

section \<open>Requests and responses\<close>

text \<open>A multipart body: its parts, each with its form name and stream, and how it ends.\<close>

record multipart =
  mp_Parts :: "(string \<times> reader) list"  mp_End :: "goerr option"

record request =
  rq_Method :: string
  rq_Path :: "string list"
  rq_Vars :: "(string \<times> string) list"
  rq_Query :: "(string \<times> string) list"
  rq_Headers :: headers
  rq_Body :: reader
  rq_ContentLength :: int64
  rq_Multipart :: "multipart option"
  rq_Err :: "goerr option"

definition PathValue :: "request \<Rightarrow> string \<Rightarrow> string" where
  "PathValue r k = (case map_of (rq_Vars r) k of None \<Rightarrow> '''' | Some v \<Rightarrow> v)"

definition QueryGet :: "request \<Rightarrow> string \<Rightarrow> string" where
  "QueryGet r k = (case map_of (rq_Query r) k of None \<Rightarrow> '''' | Some v \<Rightarrow> v)"

text \<open>A message of an error envelope: a text of the code, or the text of an error.\<close>

datatype message = Text string | ErrText goerr

datatype body =
  NoBody
| JsonError string message string string
| JsonStrings "(string \<times> string) list"
| JsonHealth "uint32 list"
| JsonLease MergeLease
| JsonApply ApplyResult
| JsonPreview MergePreview
| JsonBranches "(string \<times> string \<times> bool) list"
| JsonTenant TenantSummary
| JsonTenants "TenantSummary list"
| JsonWorkspace WorkspaceSummary
| JsonWorkspaces "WorkspaceSummary list"
| JsonNegotiation NegotiationResult
| JsonUploaded string int64
| Content bytes
| PullStream

record response =
  rs_Status :: nat
  rs_Headers :: "(string \<times> string) list"
  rs_Body :: body

definition json_header :: "(string \<times> string) list" where
  "json_header = [(''Content-Type'', ''application/json'')]"

section \<open>The request context\<close>

text \<open>
  \<open>rx_Base\<close> is what the stores see of the context: they look for a tenant under a key of their own package, which only
  their \<open>SetTenantContext\<close> sets.
\<close>

record rctx =
  rx_Base :: ctx
  rx_TenantID :: "string option"
  rx_Scope :: "scope option"
  rx_Credential :: "Credential option"
  rx_Claims :: "Claims option"
  rx_CorrelationID :: "string option"

definition fresh_context :: "request \<Rightarrow> rctx" where
  "fresh_context r = \<lparr>rx_Base = \<lparr>ctx_err = rq_Err r, ctx_tenant = None\<rparr>, rx_TenantID = None, rx_Scope = None,
     rx_Credential = None, rx_Claims = None, rx_CorrelationID = None\<rparr>"

text \<open>\<open>tenantID, _ := TenantIDFromContext(ctx)\<close> and its like: the zero value when there is none.\<close>

definition tenant_of :: "rctx \<Rightarrow> string" where
  "tenant_of x = (case rx_TenantID x of None \<Rightarrow> '''' | Some t \<Rightarrow> t)"

definition repo_of :: "rctx \<Rightarrow> string" where
  "repo_of x = (case rx_Scope x of None \<Rightarrow> '''' | Some sc \<Rightarrow> sc_repo sc)"

definition RoleFromContext :: "rctx \<Rightarrow> string option" where
  "RoleFromContext x = map_option cm_Role (rx_Claims x)"

section \<open>Server state\<close>

record 'w gstate =
  gs_world :: 'w
  gs_audit :: audit_logger
  gs_now :: int
  gs_random :: "bytes option"

type_synonym 'w hres = "'w gstate \<Rightarrow> response option \<times> 'w gstate"

type_synonym 'w handler = "rctx \<Rightarrow> request \<Rightarrow> 'w hres"

definition respond :: "nat \<Rightarrow> (string \<times> string) list \<Rightarrow> body \<Rightarrow> 'w hres" where
  "respond status hs b s = (Some \<lparr>rs_Status = status, rs_Headers = hs, rs_Body = b\<rparr>, s)"

definition unanswered :: "'w hres" where
  "unanswered s = (None, s)"

text \<open>A call of the stores or engines, with its result and error.\<close>

definition hcall :: "('w, 'a) eff \<Rightarrow> (goerr + 'a \<Rightarrow> 'w hres) \<Rightarrow> 'w hres" where
  "hcall m k s = (case m (gs_world s) of (res, w) \<Rightarrow> k res (s\<lparr>gs_world := w\<rparr>))"

definition emit :: "AuditEvent \<Rightarrow> 'w hres \<Rightarrow> 'w hres" where
  "emit e k s = k (s\<lparr>gs_audit := Emit (gs_now s) e (gs_audit s)\<rparr>)"

section \<open>Errors\<close>

definition ErrorCodeUnauthorized :: string where "ErrorCodeUnauthorized = ''unauthorized''"
definition ErrorCodeBadRequest :: string where "ErrorCodeBadRequest = ''bad_request''"
definition ErrorCodeForbidden :: string where "ErrorCodeForbidden = ''forbidden''"
definition ErrorCodeConflict :: string where "ErrorCodeConflict = ''conflict''"
definition ErrorCodeNotImplemented :: string where "ErrorCodeNotImplemented = ''not_implemented''"
definition ErrorCodeNotFound :: string where "ErrorCodeNotFound = ''not_found''"
definition ErrorCodeInternal :: string where "ErrorCodeInternal = ''internal_error''"
definition ErrorCodeBranchAlreadyExists :: string where "ErrorCodeBranchAlreadyExists = ''branch_already_exists''"
definition ErrorCodeBranchSourceNotFound :: string where "ErrorCodeBranchSourceNotFound = ''branch_source_not_found''"
definition ErrorCodeBranchNotFound :: string where "ErrorCodeBranchNotFound = ''branch_not_found''"
definition ErrorCodeBranchProtected :: string where "ErrorCodeBranchProtected = ''branch_protected''"
definition ErrorCodeUnsupportedContractVersion :: string where
  "ErrorCodeUnsupportedContractVersion = ''unsupported_contract_version''"

definition writeJSONErrorEnvelope :: "rctx \<Rightarrow> nat \<Rightarrow> string \<Rightarrow> message \<Rightarrow> string \<Rightarrow> 'w hres" where
  "writeJSONErrorEnvelope x status code msg currentHead =
     respond status json_header (JsonError code msg currentHead (case rx_CorrelationID x of None \<Rightarrow> '''' | Some c \<Rightarrow> c))"

definition writeJSONError :: "rctx \<Rightarrow> nat \<Rightarrow> string \<Rightarrow> string \<Rightarrow> 'w hres" where
  "writeJSONError x status code msg = writeJSONErrorEnvelope x status code (Text msg) ''''"

section \<open>Version windows\<close>

record VersionWindow =
  vw_Min :: uint32  vw_Max :: uint32

definition Accepts :: "VersionWindow \<Rightarrow> uint32 \<Rightarrow> bool" where
  "Accepts w v = (if v = 0 then True else vw_Min w \<le> v \<and> v \<le> vw_Max w)"

text \<open>\<open>strconv.ParseUint(s, 10, 32)\<close>: decimal digits only, at least one, within 32 bits.\<close>

definition digit_value :: "char \<Rightarrow> nat option" where
  "digit_value c = (if CHR ''0'' \<le> c \<and> c \<le> CHR ''9'' then Some (of_char c - 48) else None)"

fun parse_digits :: "nat \<Rightarrow> string \<Rightarrow> nat option" where
  "parse_digits a [] = Some a"
| "parse_digits a (c # cs) = (case digit_value c of None \<Rightarrow> None | Some v \<Rightarrow> parse_digits (a * 10 + v) cs)"

definition ParseUint32 :: "string \<Rightarrow> uint32 option" where
  "ParseUint32 s = (if s = '''' then None
     else case parse_digits 0 s of None \<Rightarrow> None | Some n \<Rightarrow> if n < 2 ^ 32 then Some (word_of_nat n) else None)"

text \<open>The environment of the process is a function of the variable's name; an unset variable is empty.\<close>

definition envVersionWindow :: "(string \<Rightarrow> string) \<Rightarrow> string \<Rightarrow> uint32 \<Rightarrow> VersionWindow" where
  "envVersionWindow getenv minEnvVar current =
     (let window = \<lparr>vw_Min = current, vw_Max = current\<rparr>; raw = getenv minEnvVar in
      if raw = '''' then window
      else case ParseUint32 raw of None \<Rightarrow> window | Some parsed \<Rightarrow> if parsed > current then window else window\<lparr>vw_Min := parsed\<rparr>)"

definition defaultPackFormatWindow :: "(string \<Rightarrow> string) \<Rightarrow> VersionWindow" where
  "defaultPackFormatWindow getenv =
     (let window = envVersionWindow getenv ''RACK_MIN_PACK_FORMAT_VERSION'' PackFormatV3 in
      if getenv ''RACK_MIN_PACK_FORMAT_VERSION'' = '''' then window\<lparr>vw_Min := PackFormatV2\<rparr> else window)"

section \<open>Middleware\<close>

definition HeaderTenantID :: string where "HeaderTenantID = ''X-Tenant-Id''"
definition HeaderCorrelationID :: string where "HeaderCorrelationID = ''X-Correlation-Id''"

definition newCorrelationID :: "bytes option \<Rightarrow> string" where
  "newCorrelationID raw = (case raw of None \<Rightarrow> ''00000000-0000-4000-8000-000000000000'' | Some b \<Rightarrow> format_uuid b)"

text \<open>The identifier is on the response of every handler, since the handlers leave that header alone.\<close>

definition CorrelationID :: "'w handler \<Rightarrow> 'w handler" where
  "CorrelationID next x r s =
     (let given = header_Get (rq_Headers r) HeaderCorrelationID;
          correlationID = (if given = '''' then newCorrelationID (gs_random s) else given) in
      case next (x\<lparr>rx_CorrelationID := Some correlationID\<rparr>) r s of
        (resp, s') \<Rightarrow> (map_option (rs_Headers_update (\<lambda>hs. (HeaderCorrelationID, correlationID) # hs)) resp, s'))"

definition Authenticate :: "verifier \<Rightarrow> 'w handler \<Rightarrow> 'w handler" where
  "Authenticate verify next x r = (case ExtractCredential (rq_Headers r) of
       Inl _ \<Rightarrow> writeJSONError x 401 ErrorCodeUnauthorized ''missing or malformed credential''
     | Inr cred \<Rightarrow> (case verify (rx_Base x) (cred_Token cred) of
         Inl _ \<Rightarrow> writeJSONError x 401 ErrorCodeUnauthorized ''credential verification failed''
       | Inr claims \<Rightarrow>
           let tenantID = header_Get (rq_Headers r) HeaderTenantID;
               claimsCopy = (if tenantID \<noteq> '''' then claims\<lparr>cm_TenantID := tenantID\<rparr> else claims);
               tenant = (if tenantID \<noteq> '''' then tenantID else cm_TenantID claimsCopy) in
           next (x\<lparr>rx_Credential := Some cred, rx_Claims := Some claimsCopy, rx_TenantID := Some tenant\<rparr>) r))"

definition RequireRepoScope :: "'w handler \<Rightarrow> 'w handler" where
  "RequireRepoScope next x r =
     (if tenant_of x = '''' then writeJSONError x 400 ErrorCodeBadRequest ''missing tenant context''
      else let workspace = PathValue r ''workspace''; repoID = (if workspace = '''' then PathValue r ''repo'' else workspace) in
        case NewScope (tenant_of x) repoID of
          Inl _ \<Rightarrow> writeJSONError x 400 ErrorCodeBadRequest ''invalid tenant or repository identifier''
        | Inr sc \<Rightarrow> next (x\<lparr>rx_Scope := Some sc\<rparr>) r)"

definition RequireRole :: "string \<Rightarrow> 'w handler \<Rightarrow> 'w handler" where
  "RequireRole requiredRole next x r = (case RoleFromContext x of
       None \<Rightarrow> writeJSONError x 401 ErrorCodeUnauthorized ''missing authenticated claims''
     | Some role \<Rightarrow>
         if \<not> Satisfies role requiredRole then writeJSONError x 403 ErrorCodeForbidden ''insufficient role''
         else next x r)"

text \<open>\<open>decodeSingleJSON\<close>: one JSON value and nothing after it.\<close>

definition decodeSingleJSON :: "(reader \<Rightarrow> goerr + 'a \<times> json_rest) \<Rightarrow> rctx \<Rightarrow> request \<Rightarrow> ('a \<Rightarrow> 'w hres) \<Rightarrow> 'w hres" where
  "decodeSingleJSON decode x r k = (case decode (rq_Body r) of
       Inl _ \<Rightarrow> writeJSONError x 400 ErrorCodeBadRequest ''request must contain valid JSON''
     | Inr (v, rest) \<Rightarrow>
         if rest = JsonEOF then k v
         else writeJSONError x 400 ErrorCodeBadRequest ''request must contain exactly one JSON object'')"

text \<open>\<open>request.Field == nil || *request.Field == ""\<close>\<close>

definition given :: "string option \<Rightarrow> bool" where
  "given f \<longleftrightarrow> f \<noteq> None \<and> f \<noteq> Some ''''"

end
