(* ===== verification/Gateway_Handlers.thy ===== *)
theory Gateway_Handlers
  imports Gateway_Http
begin

text \<open>
  The handlers of the gateway (\<open>gateway.go\<close>, \<open>branches.go\<close>, \<open>tenants_workspaces.go\<close>) over its engines and stores,
  which are interfaces; what is not configured is \<open>None\<close>. Decoding JSON, canonical CBOR, zstd and \<open>http.ServeContent\<close>
  are parameters. The engines' planning rounds are bounded by \<open>ge_fuel\<close>: a pull that needs more is not answered.
\<close>

section \<open>Interfaces\<close>

record 'w finalizer =
  fz_AcquireLease :: "ctx \<Rightarrow> string \<Rightarrow> string \<Rightarrow> LeaseRequest \<Rightarrow> ('w, MergeLease) eff"
  fz_Apply :: "ctx \<Rightarrow> string \<Rightarrow> string \<Rightarrow> ApplyRequest \<Rightarrow> ('w, ApplyResult) eff"
  fz_ReleaseLease :: "ctx \<Rightarrow> string \<Rightarrow> string \<Rightarrow> string \<Rightarrow> string \<Rightarrow> string \<Rightarrow> ('w, unit) eff"

record 'w lifecycle_store =
  bl_SetTenantContext :: "ctx \<Rightarrow> string \<Rightarrow> goerr + ctx"
  bl_CreateBranch :: "ctx \<Rightarrow> string \<Rightarrow> string \<Rightarrow> string \<Rightarrow> ('w, unit) eff"
  bl_GetBranchRef :: "ctx \<Rightarrow> string \<Rightarrow> string \<Rightarrow> ('w, string) eff"
  bl_ListBranchRefs :: "ctx \<Rightarrow> string \<Rightarrow> ('w, BranchRef list) eff"
  bl_DeleteBranch :: "ctx \<Rightarrow> string \<Rightarrow> string \<Rightarrow> ('w, unit) eff"
  bl_GetDefaultBranch :: "ctx \<Rightarrow> string \<Rightarrow> ('w, BranchRef) eff"

record 'w workspace_store =
  wk_SetTenantContext :: "ctx \<Rightarrow> string \<Rightarrow> goerr + ctx"
  wk_CreateTenant :: "ctx \<Rightarrow> string \<Rightarrow> ('w, string) eff"
  wk_ListTenants :: "ctx \<Rightarrow> ('w, TenantSummary list) eff"
  wk_GetTenant :: "ctx \<Rightarrow> string \<Rightarrow> ('w, TenantSummary) eff"
  wk_CreateWorkspace :: "ctx \<Rightarrow> string \<Rightarrow> ('w, string) eff"
  wk_ListWorkspaces :: "ctx \<Rightarrow> ('w, WorkspaceSummary list) eff"
  wk_GetWorkspace :: "ctx \<Rightarrow> string \<Rightarrow> ('w, WorkspaceSummary) eff"

type_synonym 'w previewer = "ctx \<Rightarrow> string \<Rightarrow> string \<Rightarrow> string \<Rightarrow> string \<Rightarrow> ('w, MergePreview) eff"

record mergeApplyRequest =
  ma_SourceBranch :: "string option"  ma_TargetBranch :: "string option"  ma_LeaseToken :: string
  ma_Resolutions :: "Resolution list option"  ma_Author :: "string option"  ma_Message :: "string option"

record createBranchRequest =
  cb_Name :: "string option"  cb_SourceBranch :: "string option"  cb_SourceCommit :: "string option"

record pushMetadata =
  pm_Branch :: string  pm_BaseCommit :: string  pm_TargetCommit :: string  pm_PackHash :: string
  pm_PackFormat :: uint32  pm_Commits :: "CommitRecord list"

text \<open>Decoders of the request bodies; a second metadata part is decoded over the first.\<close>

record gateway_json =
  gj_merge :: "reader \<Rightarrow> goerr + (string option \<times> string option) \<times> json_rest"
  gj_apply :: "reader \<Rightarrow> goerr + mergeApplyRequest \<times> json_rest"
  gj_release :: "reader \<Rightarrow> goerr + (string option \<times> string option) \<times> json_rest"
  gj_branch :: "reader \<Rightarrow> goerr + createBranchRequest \<times> json_rest"
  gj_name :: "reader \<Rightarrow> goerr + string option \<times> json_rest"
  gj_negotiate :: "reader \<Rightarrow> goerr + NegotiationRequest \<times> json_rest"
  gj_push :: "pushMetadata \<Rightarrow> reader \<Rightarrow> goerr + pushMetadata"

record 'w gateway_env =
  ge_json :: gateway_json
  ge_contract :: contract_lib
  ge_manifest :: manifest_lib
  ge_writer :: "'w zstd_writer"
  ge_frames :: "(PackRange \<times> PackFrame) list \<Rightarrow> (PackRange \<times> PackFrame) list"
  ge_hashes :: "string list \<Rightarrow> string list"
  ge_fuel :: nat
  ge_serve :: "request \<Rightarrow> string \<Rightarrow> bytes \<Rightarrow> nat \<times> (string \<times> string) list \<times> bytes"
  ge_PackFormatVersion :: uint32
  ge_PackIndexFormatVersion :: uint32
  ge_PackManifestFormatVersion :: uint32

record 'w gateway =
  g_verifier :: verifier
  g_push :: "'w push_engine option"
  g_pull :: "'w pull_engine option"
  g_preview :: "'w previewer option"
  g_merge :: "'w finalizer option"
  g_assets :: "'w asset_service option"
  g_branches :: "'w lifecycle_store option"
  g_workspaces :: "'w workspace_store option"
  g_packWindow :: VersionWindow
  g_indexWindow :: VersionWindow
  g_manifestWindow :: VersionWindow

definition not_implemented :: "rctx \<Rightarrow> string \<Rightarrow> 'w hres" where
  "not_implemented x msg = writeJSONError x 501 ErrorCodeNotImplemented msg"

definition bad_request :: "rctx \<Rightarrow> string \<Rightarrow> 'w hres" where
  "bad_request x msg = writeJSONError x 400 ErrorCodeBadRequest msg"

definition internal_error :: "rctx \<Rightarrow> string \<Rightarrow> 'w hres" where
  "internal_error x msg = writeJSONError x 500 ErrorCodeInternal msg"

definition newAuditEvent :: "'w gateway_env \<Rightarrow> rctx \<Rightarrow> string \<Rightarrow> string \<Rightarrow> string \<Rightarrow> string \<Rightarrow> string \<Rightarrow> AuditEvent" where
  "newAuditEvent v x tenantID repoID branch action outcome =
     \<lparr>ev_Timestamp = 0, ev_CorrelationID = (case rx_CorrelationID x of None \<Rightarrow> '''' | Some c \<Rightarrow> c),
      ev_Actor = (case rx_Claims x of None \<Rightarrow> '''' | Some cl \<Rightarrow> cm_Subject cl), ev_TenantID = tenantID, ev_RepoID = repoID,
      ev_Branch = branch, ev_Action = action, ev_Outcome = outcome, ev_ContractVersion = ge_PackFormatVersion v,
      ev_PreviousRef = '''', ev_NewRef = '''', ev_Detail = ''''\<rparr>"

section \<open>Health and identity\<close>

definition handleHealthz :: "'w gateway_env \<Rightarrow> 'w gateway \<Rightarrow> 'w handler" where
  "handleHealthz v g x r = respond 200 json_header (JsonHealth
     [PackFormatV3, vw_Min (g_packWindow g), vw_Max (g_packWindow g),
      ge_PackIndexFormatVersion v, vw_Min (g_indexWindow g), vw_Max (g_indexWindow g),
      ge_PackManifestFormatVersion v, vw_Min (g_manifestWindow g), vw_Max (g_manifestWindow g)])"

definition handleWhoami :: "'w handler" where
  "handleWhoami x r = respond 200 json_header (JsonStrings ((''tenantID'', tenant_of x) #
     (case rx_Claims x of None \<Rightarrow> [] | Some cl \<Rightarrow> [(''role'', cm_Role cl), (''subject'', cm_Subject cl)])))"

definition handleRepoWhoami :: "'w handler" where
  "handleRepoWhoami x r = respond 200 json_header (JsonStrings ((''tenantID'', tenant_of x) # (''repoID'', repo_of x) #
     (case rx_Claims x of None \<Rightarrow> [] | Some cl \<Rightarrow> [(''role'', cm_Role cl)])))"

section \<open>Merging\<close>

definition writeMergeError :: "rctx \<Rightarrow> goerr \<Rightarrow> 'w hres" where
  "writeMergeError x err =
     (if err_is err (Pg ErrBranchNotFound) then writeJSONError x 404 ErrorCodeNotFound ''branch not found''
      else if err_is err (Pg ErrMergeLeaseHeld) \<or> err_is err (Pg PgNonFastForward) \<or> err_is err (Pg ErrMergeLeaseMismatch)
        then writeJSONError x 409 ErrorCodeConflict ''merge branch state changed or is currently leased''
      else if err_is err (Pg ErrMergeLeaseNotFound) \<or> err_is err (Pg ErrMergeLeaseOwnership) \<or> err_is err (Pg ErrMergeLeaseExpired)
        then bad_request x ''merge lease is invalid, expired, or not held by this caller''
      else if err_is err (Review ErrInvalidMergeRequest) then bad_request x ''invalid merge request''
      else internal_error x ''failed to finalize merge'')"

text \<open>Reading \<open>claims.Subject\<close> panics without claims.\<close>

definition with_subject :: "rctx \<Rightarrow> (string \<Rightarrow> 'w hres) \<Rightarrow> 'w hres" where
  "with_subject x k = (case rx_Claims x of None \<Rightarrow> unanswered | Some cl \<Rightarrow> k (cm_Subject cl))"

definition handleMergeLease :: "'w gateway_env \<Rightarrow> 'w gateway \<Rightarrow> 'w handler" where
  "handleMergeLease v g x r = (case g_merge g of
       None \<Rightarrow> not_implemented x ''merge finalization is not configured on this server''
     | Some fz \<Rightarrow> decodeSingleJSON (gj_merge (ge_json v)) x r (\<lambda>(source, target).
         if \<not> given source \<or> \<not> given target then bad_request x ''sourceBranch and targetBranch are required''
         else with_subject x (\<lambda>subject.
           hcall (fz_AcquireLease fz (rx_Base x) (tenant_of x) (repo_of x)
             \<lparr>lr_SourceBranch = the source, lr_TargetBranch = the target, lr_Subject = subject\<rparr>) (\<lambda>res. case res of
               Inl err \<Rightarrow> writeMergeError x err
             | Inr lease \<Rightarrow> respond 201 json_header (JsonLease lease)))))"

definition handleMergeApply :: "'w gateway_env \<Rightarrow> 'w gateway \<Rightarrow> 'w handler" where
  "handleMergeApply v g x r = (case g_merge g of
       None \<Rightarrow> not_implemented x ''merge finalization is not configured on this server''
     | Some fz \<Rightarrow> decodeSingleJSON (gj_apply (ge_json v)) x r (\<lambda>q.
         if \<not> given (ma_SourceBranch q) \<or> \<not> given (ma_TargetBranch q) \<or> \<not> given (ma_Author q) \<or> \<not> given (ma_Message q) \<or>
            ma_Resolutions q = None
         then bad_request x ''sourceBranch, targetBranch, resolutions, author, and message are required''
         else with_subject x (\<lambda>subject.
           let event = newAuditEvent v x (tenant_of x) (repo_of x) (the (ma_TargetBranch q)) ''merge.apply'' in
           hcall (fz_Apply fz (rx_Base x) (tenant_of x) (repo_of x)
             \<lparr>aq_SourceBranch = the (ma_SourceBranch q), aq_TargetBranch = the (ma_TargetBranch q), aq_Subject = subject,
              aq_LeaseToken = ma_LeaseToken q, aq_Resolutions = the (ma_Resolutions q), aq_Author = the (ma_Author q),
              aq_Message = the (ma_Message q)\<rparr>) (\<lambda>res. case res of
               Inl err \<Rightarrow> emit ((event ''rejected'')\<lparr>ev_Detail := ''merge apply rejected''\<rparr>) (writeMergeError x err)
             | Inr result \<Rightarrow> emit ((event ''success'')\<lparr>ev_NewRef := as_HeadCommit result\<rparr>)
                 (respond 200 json_header (JsonApply result))))))"

definition handleMergeLeaseRelease :: "'w gateway_env \<Rightarrow> 'w gateway \<Rightarrow> 'w handler" where
  "handleMergeLeaseRelease v g x r = (case g_merge g of
       None \<Rightarrow> not_implemented x ''merge finalization is not configured on this server''
     | Some fz \<Rightarrow> decodeSingleJSON (gj_release (ge_json v)) x r (\<lambda>(target, token).
         if \<not> given target \<or> \<not> given token then bad_request x ''targetBranch and leaseToken are required''
         else with_subject x (\<lambda>subject.
           hcall (fz_ReleaseLease fz (rx_Base x) (tenant_of x) (repo_of x) (the target) subject (the token)) (\<lambda>res. case res of
               Inl err \<Rightarrow> writeMergeError x err
             | Inr _ \<Rightarrow> respond 204 [] NoBody))))"

definition handleMergePreview :: "'w gateway_env \<Rightarrow> 'w gateway \<Rightarrow> 'w handler" where
  "handleMergePreview v g x r = (case g_preview g of
       None \<Rightarrow> not_implemented x ''merge preview is not configured on this server''
     | Some preview \<Rightarrow> decodeSingleJSON (gj_merge (ge_json v)) x r (\<lambda>(source, target).
         if \<not> given source \<or> \<not> given target then bad_request x ''sourceBranch and targetBranch are required''
         else hcall (preview (rx_Base x) (tenant_of x) (repo_of x) (the source) (the target)) (\<lambda>res. case res of
             Inr p \<Rightarrow> respond 200 json_header (JsonPreview p)
           | Inl err \<Rightarrow>
               if err_is err (Pg ErrBranchNotFound) then writeJSONError x 404 ErrorCodeNotFound ''branch not found''
               else if err_is err (Review ErrInvalidPreviewRequest) then bad_request x ''invalid merge preview request''
               else internal_error x ''failed to preview merge'')))"

section \<open>Pull and clone\<close>

text \<open>The optional pack format of the query.\<close>

definition pack_format_ok :: "VersionWindow \<Rightarrow> string \<Rightarrow> bool" where
  "pack_format_ok w raw \<longleftrightarrow> raw = '''' \<or> (case ParseUint32 raw of None \<Rightarrow> False | Some f \<Rightarrow> Accepts w f)"

definition unsupported_format :: "rctx \<Rightarrow> 'w hres" where
  "unsupported_format x =
     writeJSONError x 400 ErrorCodeUnsupportedContractVersion ''pack format is outside the versions this server currently accepts''"

definition pull_headers :: "string \<Rightarrow> (string \<times> string) list" where
  "pull_headers head = [(''Content-Type'', ''application/vnd.spool-rack.pull-envelope''), (''Content-Encoding'', ''zstd''),
     (''X-Spool-Pull-Format'', ''2''), (''X-Spool-Head-Commit'', head)]"

text \<open>\<open>errors.As\<close> for a \<open>*PullDivergedError\<close>.\<close>

fun as_diverged :: "goerr \<Rightarrow> string option" where
  "as_diverged (PullDivergedError h) = Some h"
| "as_diverged (Wrapf _ e) = as_diverged e"
| "as_diverged (Wrap2f _ e f) = (case as_diverged e of Some h \<Rightarrow> Some h | None \<Rightarrow> as_diverged f)"
| "as_diverged _ = None"

text \<open>The result and the error of \<open>PreparePull\<close> as the handlers see them.\<close>

definition prepared :: "goerr + (PullPlan \<times> goerr option) option \<Rightarrow> (PullPlan option \<times> goerr option) option" where
  "prepared res = (case res of
       Inl err \<Rightarrow> Some (None, Some err)
     | Inr None \<Rightarrow> None
     | Inr (Some (plan, err)) \<Rightarrow> Some (Some plan, err))"

definition plan_head :: "PullPlan option \<Rightarrow> string" where
  "plan_head p = (case p of None \<Rightarrow> '''' | Some plan \<Rightarrow> pn_Head plan)"

text \<open>The response is on its way when the packs are streamed: an error then only ends the stream.\<close>

definition stream_packs :: "'w gateway_env \<Rightarrow> 'w pull_engine \<Rightarrow> rctx \<Rightarrow> PullPlan \<Rightarrow> PullManifest \<Rightarrow> (string \<times> string) list \<Rightarrow> 'w hres" where
  "stream_packs v e x plan manifest hs =
     hcall (StreamPullWithManifest (ge_contract v) (ge_manifest v) (ge_writer v) e (rx_Base x) plan manifest) (\<lambda>_.
     respond 200 hs PullStream)"

definition handlePull :: "'w gateway_env \<Rightarrow> 'w gateway \<Rightarrow> 'w handler" where
  "handlePull v g x r = (case g_pull g of
       None \<Rightarrow> not_implemented x ''pull is not configured on this server''
     | Some e \<Rightarrow>
         let branch = QueryGet r ''branch''; knownCommit = QueryGet r ''knownCommit'';
             event = (\<lambda>outcome. (newAuditEvent v x (tenant_of x) (repo_of x) branch ''pull'' outcome)\<lparr>ev_PreviousRef := knownCommit\<rparr>) in
         if branch = '''' then bad_request x ''branch query parameter is required''
         else if \<not> pack_format_ok (g_packWindow g) (QueryGet r ''packFormat'') then unsupported_format x
         else hcall (PreparePull (ge_fuel v) (ge_contract v) (ge_frames v) e (rx_Base x)
             \<lparr>plq_TenantID = tenant_of x, plq_RepoID = repo_of x, plq_Branch = branch, plq_KnownCommit = knownCommit\<rparr>)
           (\<lambda>res. case prepared res of
             None \<Rightarrow> unanswered
           | Some (plan, Some err) \<Rightarrow>
               if err_is err (Sync ErrUpToDate) then
                 emit ((event ''up_to_date'')\<lparr>ev_NewRef := plan_head plan\<rparr>)
                   (respond 204 [(''X-Spool-Head-Commit'', plan_head plan)] NoBody)
               else if err_is err (Sync ErrPullDiverged) \<and> as_diverged err \<noteq> None then
                 emit ((event ''rejected'')\<lparr>ev_NewRef := the (as_diverged err), ev_Detail := ''known commit is not an ancestor of the remote branch head''\<rparr>)
                   (writeJSONErrorEnvelope x 409 ErrorCodeConflict (Text ''known commit is not an ancestor of the remote branch head'') (the (as_diverged err)))
               else if err_is err (Pg ErrBranchNotFound) then
                 emit ((event ''rejected'')\<lparr>ev_Detail := ''branch not found''\<rparr>) (writeJSONError x 404 ErrorCodeNotFound ''branch not found'')
               else emit (event ''error'') (internal_error x ''failed to prepare pull'')
           | Some (None, None) \<Rightarrow> unanswered
           | Some (Some plan, None) \<Rightarrow>
               hcall (BuildPullManifest (ge_contract v) (ge_manifest v) e (rx_Base x) plan) (\<lambda>res. case res of
                 Inl err \<Rightarrow> emit ((event ''error'')\<lparr>ev_NewRef := pn_Head plan\<rparr>) (internal_error x ''failed to open pull pack'')
               | Inr manifest \<Rightarrow> emit ((event ''success'')\<lparr>ev_NewRef := pn_Head plan\<rparr>)
                   (stream_packs v e x plan manifest (pull_headers (pn_Head plan))))))"

text \<open>The default branch of the repository, or that the repository is empty.\<close>

definition clone_default :: "'w gateway \<Rightarrow> rctx \<Rightarrow> string \<Rightarrow> (string option \<Rightarrow> 'w hres) \<Rightarrow> 'w hres" where
  "clone_default g x branch k = (case g_branches g of
       None \<Rightarrow> k (Some '''')
     | Some st \<Rightarrow> (case bl_SetTenantContext st (rx_Base x) (tenant_of x) of
         Inl _ \<Rightarrow> k (Some '''')
       | Inr c \<Rightarrow> hcall (bl_GetDefaultBranch st c (repo_of x)) (\<lambda>res. case res of
           Inr ref \<Rightarrow> k (Some (br_Name ref))
         | Inl err \<Rightarrow> if err_is err (Pg ErrDefaultBranchNotSet) \<and> branch = '''' then k None else k (Some ''''))))"

definition handleClone :: "'w gateway_env \<Rightarrow> 'w gateway \<Rightarrow> 'w handler" where
  "handleClone v g x r = (case g_pull g of
       None \<Rightarrow> not_implemented x ''clone is not configured on this server''
     | Some e \<Rightarrow>
         if \<not> pack_format_ok (g_packWindow g) (QueryGet r ''packFormat'') then unsupported_format x
         else clone_default g x (QueryGet r ''branch'') (\<lambda>found. case found of
           None \<Rightarrow> emit (newAuditEvent v x (tenant_of x) (repo_of x) ''main'' ''clone'' ''empty'')
             (respond 200 [(''X-Spool-Empty'', ''true''), (''X-Spool-Default-Branch'', ''main''), (''X-Spool-Branch'', ''main'')] NoBody)
         | Some found \<Rightarrow>
             let branch = (if QueryGet r ''branch'' \<noteq> '''' then QueryGet r ''branch'' else if found \<noteq> '''' then found else ''main'');
                 defaultBranchName = (if found = '''' then branch else found);
                 event = newAuditEvent v x (tenant_of x) (repo_of x) branch ''clone'' in
             hcall (PreparePull (ge_fuel v) (ge_contract v) (ge_frames v) e (rx_Base x)
               \<lparr>plq_TenantID = tenant_of x, plq_RepoID = repo_of x, plq_Branch = branch, plq_KnownCommit = ''''\<rparr>)
             (\<lambda>res. case prepared res of
               None \<Rightarrow> unanswered
             | Some (plan, Some err) \<Rightarrow>
                 if err_is err (Pg ErrBranchNotFound) then
                   emit ((event ''rejected'')\<lparr>ev_Detail := ''branch not found''\<rparr>) (writeJSONError x 404 ErrorCodeNotFound ''branch not found'')
                 else emit (event ''error'') (internal_error x ''failed to prepare clone'')
             | Some (None, None) \<Rightarrow> unanswered
             | Some (Some plan, None) \<Rightarrow>
                 hcall (BuildPullManifest (ge_contract v) (ge_manifest v) e (rx_Base x) plan) (\<lambda>res. case res of
                   Inl err \<Rightarrow> emit ((event ''error'')\<lparr>ev_NewRef := pn_Head plan\<rparr>) (internal_error x ''failed to open clone pack'')
                 | Inr manifest \<Rightarrow> emit ((event ''success'')\<lparr>ev_NewRef := pn_Head plan\<rparr>)
                     (stream_packs v e x plan manifest (pull_headers (pn_Head plan) @
                        [(''X-Spool-Branch'', branch), (''X-Spool-Default-Branch'', defaultBranchName)]))))))"

section \<open>Push\<close>

definition pushPackHashPattern :: "string \<Rightarrow> bool" where
  "pushPackHashPattern h \<longleftrightarrow> length h = 64 \<and>
     list_all (\<lambda>c. CHR ''0'' \<le> c \<and> c \<le> CHR ''9'' \<or> CHR ''a'' \<le> c \<and> c \<le> CHR ''f'') h"

definition no_metadata :: pushMetadata where
  "no_metadata = \<lparr>pm_Branch = '''', pm_BaseCommit = '''', pm_TargetCommit = '''', pm_PackHash = '''', pm_PackFormat = 0, pm_Commits = []\<rparr>"

definition push_request_of :: "rctx \<Rightarrow> pushMetadata \<Rightarrow> reader \<Rightarrow> PushRequest" where
  "push_request_of x m part = \<lparr>pq_TenantID = tenant_of x, pq_RepoID = repo_of x, pq_Branch = pm_Branch m,
     pq_TargetCommit = pm_TargetCommit m, pq_BaseCommit = pm_BaseCommit m, pq_Commits = pm_Commits m,
     pq_PackHash = pm_PackHash m, pq_PackFormat = pm_PackFormat m, pq_PackStream = Some part\<rparr>"

definition rejectPush :: "'w gateway_env \<Rightarrow> rctx \<Rightarrow> pushMetadata \<Rightarrow> goerr \<Rightarrow> 'w hres" where
  "rejectPush v x m err =
     (let event = (newAuditEvent v x (tenant_of x) (repo_of x) (pm_Branch m) ''push'' ''rejected'')
            \<lparr>ev_PreviousRef := pm_BaseCommit m, ev_ContractVersion := pm_PackFormat m\<rparr>;
          unsupported = err_is err (Sync ErrUnsupportedContractVersion) in
      case as_nff err of
        Some (actualHead, guidance) \<Rightarrow>
          emit (event\<lparr>ev_NewRef := actualHead, ev_Detail := ''non-fast-forward push''\<rparr>)
            (writeJSONErrorEnvelope x 409 ErrorCodeConflict (Text guidance) actualHead)
      | None \<Rightarrow>
          emit (event\<lparr>ev_NewRef := pm_TargetCommit m,
              ev_Detail := (if unsupported then ''unsupported contract version'' else ''invalid push pack or metadata'')\<rparr>)
            (if unsupported then writeJSONErrorEnvelope x 400 ErrorCodeUnsupportedContractVersion (ErrText err) ''''
             else if err_is err (Sync ErrInvalidFrame) \<or> err_is err (Sync ErrInvalidCanonicalFrame)
               then bad_request x ''invalid or malformed push pack''
             else bad_request x ''push request could not be processed''))"

definition push_pack :: "'w gateway_env \<Rightarrow> 'w push_engine \<Rightarrow> rctx \<Rightarrow> pushMetadata \<Rightarrow> reader \<Rightarrow> 'w hres" where
  "push_pack v e x m part =
     hcall (HandlePush (ge_contract v) e (rx_Base x) (push_request_of x m part)) (\<lambda>res. case res of
       Inl err \<Rightarrow> rejectPush v x m err
     | Inr _ \<Rightarrow>
         emit ((newAuditEvent v x (tenant_of x) (repo_of x) (pm_Branch m) ''push'' ''verified'')
             \<lparr>ev_PreviousRef := pm_BaseCommit m, ev_NewRef := pm_TargetCommit m, ev_ContractVersion := pm_PackFormat m\<rparr>)
           (respond 200 json_header (JsonStrings [(''branch'', pm_Branch m), (''headCommit'', pm_TargetCommit m)])))"

text \<open>The loop over the parts: the first pack part after a metadata part is pushed, parts of other names are skipped.\<close>

fun push_parts :: "'w gateway_env \<Rightarrow> 'w push_engine \<Rightarrow> rctx \<Rightarrow> goerr option \<Rightarrow> pushMetadata \<Rightarrow> bool \<Rightarrow> (string \<times> reader) list \<Rightarrow> 'w hres" where
  "push_parts v e x fin m saw [] = (case fin of
       None \<Rightarrow> bad_request x ''request must include metadata and pack parts''
     | Some _ \<Rightarrow> bad_request x ''failed to read multipart body'')"
| "push_parts v e x fin m saw ((name, part) # parts) =
     (if name = ''metadata'' then (case gj_push (ge_json v) m part of
          Inl _ \<Rightarrow> bad_request x ''metadata part must contain valid JSON''
        | Inr m' \<Rightarrow>
            if \<not> pushPackHashPattern (pm_PackHash m') then bad_request x ''packHash must be 64 lowercase hex characters''
            else push_parts v e x fin m' True parts)
      else if name = ''pack'' then
        (if \<not> saw then bad_request x ''metadata part must precede pack part'' else push_pack v e x m part)
      else push_parts v e x fin m saw parts)"

definition handlePush :: "'w gateway_env \<Rightarrow> 'w gateway \<Rightarrow> 'w handler" where
  "handlePush v g x r = (case g_push g of
       None \<Rightarrow> not_implemented x ''push is not configured on this server''
     | Some e \<Rightarrow> (case rq_Multipart r of
         None \<Rightarrow> bad_request x ''request must be multipart/form-data''
       | Some mr \<Rightarrow> push_parts v e x (mp_End mr) no_metadata False (mp_Parts mr)))"

end
