(* ===== verification/Gateway_Admin.thy ===== *)
theory Gateway_Admin
  imports Gateway_Handlers
begin

text \<open>
  The handlers for branches (\<open>branches.go\<close>), tenants and workspaces (\<open>tenants_workspaces.go\<close>) and assets (\<open>gateway.go\<close>).
\<close>

section \<open>Branches\<close>

definition no_branches :: "rctx \<Rightarrow> 'w hres" where
  "no_branches x = not_implemented x ''branch lifecycle management is not configured on this server''"

definition with_branches :: "'w gateway \<Rightarrow> rctx \<Rightarrow> ('w lifecycle_store \<Rightarrow> 'w hres) \<Rightarrow> 'w hres" where
  "with_branches g x k = (case g_branches g of None \<Rightarrow> no_branches x | Some st \<Rightarrow> k st)"

definition branch_context :: "'w lifecycle_store \<Rightarrow> rctx \<Rightarrow> (ctx \<Rightarrow> 'w hres) \<Rightarrow> 'w hres" where
  "branch_context st x k = (case bl_SetTenantContext st (rx_Base x) (tenant_of x) of
       Inl _ \<Rightarrow> bad_request x ''invalid tenant context''
     | Inr c \<Rightarrow> k c)"

definition create_branch_at :: "'w gateway_env \<Rightarrow> 'w lifecycle_store \<Rightarrow> rctx \<Rightarrow> ctx \<Rightarrow> string \<Rightarrow> string \<Rightarrow> 'w hres" where
  "create_branch_at v st x c name headCommitID =
     hcall (bl_CreateBranch st c (repo_of x) name headCommitID) (\<lambda>res. case res of
       Inl err \<Rightarrow>
         if err_is err (Pg ErrBranchAlreadyExists) then writeJSONError x 409 ErrorCodeBranchAlreadyExists ''branch already exists''
         else if err_is err (Pg ErrCommitNotFound) then writeJSONError x 404 ErrorCodeBranchSourceNotFound ''source commit not found''
         else internal_error x ''failed to create branch''
     | Inr _ \<Rightarrow>
         emit ((newAuditEvent v x (tenant_of x) (repo_of x) name ''branch.create'' ''success'')\<lparr>ev_NewRef := headCommitID\<rparr>)
           (respond 201 json_header (JsonStrings [(''name'', name), (''headCommit'', headCommitID)])))"

definition handleCreateBranch :: "'w gateway_env \<Rightarrow> 'w gateway \<Rightarrow> 'w handler" where
  "handleCreateBranch v g x r = with_branches g x (\<lambda>st.
     decodeSingleJSON (gj_branch (ge_json v)) x r (\<lambda>q.
       if \<not> given (cb_Name q) then bad_request x ''name is required''
       else if given (cb_SourceBranch q) = given (cb_SourceCommit q)
         then bad_request x ''exactly one of sourceBranch or sourceCommit is required''
       else branch_context st x (\<lambda>c.
         if given (cb_SourceBranch q) then
           hcall (bl_GetBranchRef st c (repo_of x) (the (cb_SourceBranch q))) (\<lambda>res. case res of
             Inl err \<Rightarrow>
               if err_is err (Pg ErrBranchNotFound) then writeJSONError x 404 ErrorCodeBranchSourceNotFound ''source branch not found''
               else internal_error x ''failed to resolve source branch''
           | Inr head \<Rightarrow> create_branch_at v st x c (the (cb_Name q)) head)
         else create_branch_at v st x c (the (cb_Name q)) (the (cb_SourceCommit q)))))"

definition live_entries :: "string \<Rightarrow> BranchRef list \<Rightarrow> (string \<times> string \<times> bool) list" where
  "live_entries defaultName refs =
     map (\<lambda>ref. (br_Name ref, br_HeadCommitID ref, br_Name ref = defaultName)) (filter (\<lambda>ref. \<not> br_Deleted ref) refs)"

definition handleListBranches :: "'w gateway \<Rightarrow> 'w handler" where
  "handleListBranches g x r = with_branches g x (\<lambda>st. branch_context st x (\<lambda>c.
     hcall (bl_ListBranchRefs st c (repo_of x)) (\<lambda>res. case res of
       Inl _ \<Rightarrow> internal_error x ''failed to list branches''
     | Inr refs \<Rightarrow>
         hcall (bl_GetDefaultBranch st c (repo_of x)) (\<lambda>res. case res of
           Inr ref \<Rightarrow> respond 200 json_header (JsonBranches (live_entries (br_Name ref) refs))
         | Inl err \<Rightarrow>
             if err_is err (Pg ErrDefaultBranchNotSet) then respond 200 json_header (JsonBranches (live_entries '''' refs))
             else internal_error x ''failed to resolve default branch''))))"

definition handleDefaultBranch :: "'w gateway \<Rightarrow> 'w handler" where
  "handleDefaultBranch g x r = with_branches g x (\<lambda>st. branch_context st x (\<lambda>c.
     hcall (bl_GetDefaultBranch st c (repo_of x)) (\<lambda>res. case res of
       Inl err \<Rightarrow>
         if err_is err (Pg ErrDefaultBranchNotSet) then writeJSONError x 404 ErrorCodeBranchNotFound ''repository has no default branch''
         else internal_error x ''failed to resolve default branch''
     | Inr ref \<Rightarrow> respond 200 json_header (JsonStrings [(''name'', br_Name ref), (''headCommit'', br_HeadCommitID ref)]))))"

definition handleDeleteBranch :: "'w gateway_env \<Rightarrow> 'w gateway \<Rightarrow> 'w handler" where
  "handleDeleteBranch v g x r = with_branches g x (\<lambda>st.
     let name = PathValue r ''name''; event = newAuditEvent v x (tenant_of x) (repo_of x) name ''branch.delete'' in
     if name = '''' then bad_request x ''branch name is required''
     else branch_context st x (\<lambda>c.
       hcall (bl_DeleteBranch st c (repo_of x) name) (\<lambda>res. case res of
         Inl err \<Rightarrow>
           if err_is err (Pg ErrDefaultBranchProtected) then
             emit ((event ''rejected'')\<lparr>ev_Detail := ''cannot delete default branch''\<rparr>)
               (writeJSONError x 409 ErrorCodeBranchProtected ''cannot delete the default branch of the repository'')
           else if err_is err (Pg ErrBranchNotFound) then writeJSONError x 404 ErrorCodeBranchNotFound ''branch not found''
           else internal_error x ''failed to delete branch''
       | Inr _ \<Rightarrow> emit (event ''success'') (respond 204 [] NoBody))))"

section \<open>Tenants and workspaces\<close>

definition with_workspaces :: "'w gateway \<Rightarrow> rctx \<Rightarrow> string \<Rightarrow> ('w workspace_store \<Rightarrow> 'w hres) \<Rightarrow> 'w hres" where
  "with_workspaces g x msg k = (case g_workspaces g of None \<Rightarrow> not_implemented x msg | Some st \<Rightarrow> k st)"

definition tenants_missing :: string where "tenants_missing = ''tenant management is not configured on this server''"
definition workspaces_missing :: string where "workspaces_missing = ''workspace management is not configured on this server''"

text \<open>A tenant that cannot be read back is reported with the current time.\<close>

definition handleCreateTenant :: "'w gateway_env \<Rightarrow> 'w gateway \<Rightarrow> 'w handler" where
  "handleCreateTenant v g x r = with_workspaces g x tenants_missing (\<lambda>st.
     decodeSingleJSON (gj_name (ge_json v)) x r (\<lambda>name.
       if \<not> given name then bad_request x ''name is required''
       else hcall (wk_CreateTenant st (rx_Base x) (the name)) (\<lambda>res. case res of
         Inl err \<Rightarrow>
           if err_is err (Pg ErrTenantNameConflict) then writeJSONError x 409 ErrorCodeConflict ''tenant name already exists''
           else internal_error x ''failed to create tenant''
       | Inr i \<Rightarrow> hcall (wk_GetTenant st (rx_Base x) i) (\<lambda>res s. respond 201 json_header (JsonTenant (case res of
             Inr tenant \<Rightarrow> tenant
           | Inl _ \<Rightarrow> \<lparr>ts_ID = i, ts_Name = the name, ts_CreatedAt = gs_now s\<rparr>)) s))))"

definition handleListTenants :: "'w gateway \<Rightarrow> 'w handler" where
  "handleListTenants g x r = with_workspaces g x tenants_missing (\<lambda>st.
     hcall (wk_ListTenants st (rx_Base x)) (\<lambda>res. case res of
       Inl _ \<Rightarrow> internal_error x ''failed to list tenants''
     | Inr ts \<Rightarrow> respond 200 json_header (JsonTenants ts)))"

definition handleGetTenant :: "'w gateway \<Rightarrow> 'w handler" where
  "handleGetTenant g x r = with_workspaces g x tenants_missing (\<lambda>st.
     let tenantParam = PathValue r ''tenant'' in
     if tenantParam = '''' then bad_request x ''tenant identifier is required''
     else hcall (wk_GetTenant st (rx_Base x) tenantParam) (\<lambda>res. case res of
       Inl err \<Rightarrow>
         if err_is err (Pg ErrTenantNotFound) then writeJSONError x 404 ErrorCodeNotFound ''tenant not found''
         else internal_error x ''failed to get tenant''
     | Inr tenant \<Rightarrow> respond 200 json_header (JsonTenant tenant)))"

definition workspace_context :: "'w workspace_store \<Rightarrow> rctx \<Rightarrow> (ctx \<Rightarrow> 'w hres) \<Rightarrow> 'w hres" where
  "workspace_context st x k =
     (if tenant_of x = '''' then bad_request x ''missing tenant context''
      else case wk_SetTenantContext st (rx_Base x) (tenant_of x) of
        Inl _ \<Rightarrow> bad_request x ''invalid tenant context''
      | Inr c \<Rightarrow> k c)"

definition handleCreateWorkspace :: "'w gateway_env \<Rightarrow> 'w gateway \<Rightarrow> 'w handler" where
  "handleCreateWorkspace v g x r = with_workspaces g x workspaces_missing (\<lambda>st. workspace_context st x (\<lambda>c.
     decodeSingleJSON (gj_name (ge_json v)) x r (\<lambda>name.
       if \<not> given name then bad_request x ''name is required''
       else hcall (wk_CreateWorkspace st c (the name)) (\<lambda>res. case res of
         Inl err \<Rightarrow>
           if err_is err (Pg ErrWorkspaceNameConflict) then writeJSONError x 409 ErrorCodeConflict ''workspace name already exists in this tenant''
           else internal_error x ''failed to create workspace''
       | Inr i \<Rightarrow> hcall (wk_GetWorkspace st c i) (\<lambda>res s. respond 201 json_header (JsonWorkspace (case res of
             Inr summary \<Rightarrow> summary
           | Inl _ \<Rightarrow> \<lparr>ws_ID = i, ws_TenantID = tenant_of x, ws_Name = the name, ws_CreatedAt = gs_now s\<rparr>)) s)))))"

definition handleListWorkspaces :: "'w gateway \<Rightarrow> 'w handler" where
  "handleListWorkspaces g x r = with_workspaces g x workspaces_missing (\<lambda>st. workspace_context st x (\<lambda>c.
     hcall (wk_ListWorkspaces st c) (\<lambda>res. case res of
       Inl _ \<Rightarrow> internal_error x ''failed to list workspaces''
     | Inr wss \<Rightarrow> respond 200 json_header (JsonWorkspaces wss))))"

definition handleGetWorkspace :: "'w gateway \<Rightarrow> 'w handler" where
  "handleGetWorkspace g x r = with_workspaces g x workspaces_missing (\<lambda>st. workspace_context st x (\<lambda>c.
     let workspaceParam = (if PathValue r ''workspace'' = '''' then PathValue r ''repo'' else PathValue r ''workspace'') in
     if workspaceParam = '''' then bad_request x ''workspace identifier is required''
     else hcall (wk_GetWorkspace st c workspaceParam) (\<lambda>res. case res of
       Inl err \<Rightarrow>
         if err_is err (Pg ErrWorkspaceNotFound) then writeJSONError x 404 ErrorCodeNotFound ''workspace not found''
         else internal_error x ''failed to get workspace''
     | Inr workspace \<Rightarrow> respond 200 json_header (JsonWorkspace workspace))))"

section \<open>Assets\<close>

definition with_assets :: "'w gateway \<Rightarrow> rctx \<Rightarrow> ('w asset_service \<Rightarrow> 'w hres) \<Rightarrow> 'w hres" where
  "with_assets g x k = (case g_assets g of
       None \<Rightarrow> not_implemented x ''asset service is not configured on this server''
     | Some svc \<Rightarrow> k svc)"

definition with_scope :: "rctx \<Rightarrow> (scope \<Rightarrow> 'w hres) \<Rightarrow> 'w hres" where
  "with_scope x k = (case rx_Scope x of None \<Rightarrow> bad_request x ''missing repository scope'' | Some sc \<Rightarrow> k sc)"

definition quota_exceeded :: "rctx \<Rightarrow> goerr \<Rightarrow> 'w hres" where
  "quota_exceeded x err = writeJSONErrorEnvelope x 403 ''QUOTA_EXCEEDED'' (ErrText err) ''''"

definition asset_failure :: "rctx \<Rightarrow> goerr \<Rightarrow> 'w hres" where
  "asset_failure x err = writeJSONErrorEnvelope x 500 ErrorCodeInternal (ErrText err) ''''"

definition handleAssetNegotiate :: "'w gateway_env \<Rightarrow> 'w gateway \<Rightarrow> 'w handler" where
  "handleAssetNegotiate v g x r = with_assets g x (\<lambda>svc.
     decodeSingleJSON (gj_negotiate (ge_json v)) x r (\<lambda>q. with_scope x (\<lambda>sc.
       hcall (Negotiate (ge_hashes v) svc (rx_Base x) sc q) (\<lambda>res. case res of
         Inl err \<Rightarrow> if err_is err (Pg ErrQuotaExceeded) then quota_exceeded x err else asset_failure x err
       | Inr result \<Rightarrow> respond 200 json_header (JsonNegotiation result)))))"

definition handleAssetUpload :: "'w gateway \<Rightarrow> 'w handler" where
  "handleAssetUpload g x r = with_assets g x (\<lambda>svc.
     let hash = PathValue r ''hash'' in
     if hash = '''' then bad_request x ''asset hash is required''
     else with_scope x (\<lambda>sc.
       hcall (Upload svc (rx_Base x) sc hash (rq_ContentLength r) (header_Get (rq_Headers r) ''Content-Type'') (rq_Body r)) (\<lambda>res. case res of
         Inl err \<Rightarrow>
           if err_is err (Pg ErrQuotaExceeded) then quota_exceeded x err
           else if err_is err (Cas ErrHashMismatch) then writeJSONErrorEnvelope x 400 ErrorCodeBadRequest (ErrText err) ''''
           else asset_failure x err
       | Inr written \<Rightarrow> respond 201 json_header (JsonUploaded hash written))))"

text \<open>The local driver hands out a file, which \<open>http.ServeContent\<close> serves.\<close>

definition handleAssetStream :: "'w gateway_env \<Rightarrow> 'w gateway \<Rightarrow> 'w handler" where
  "handleAssetStream v g x r = with_assets g x (\<lambda>svc.
     let hash = PathValue r ''hash'' in
     if hash = '''' then bad_request x ''asset hash is required''
     else with_scope x (\<lambda>sc.
       hcall (Open svc (rx_Base x) sc hash) (\<lambda>res. case res of
         Inl err \<Rightarrow>
           if err_is err (Misc ErrAssetBlobNotFound) then writeJSONError x 404 ErrorCodeNotFound ''asset blob not found''
           else asset_failure x err
       | Inr (rc, n, mimeType) \<Rightarrow> (case ge_serve v r mimeType (rd_data rc) of
           (status, hs, content) \<Rightarrow> respond status ([(''Content-Type'', mimeType), (''Accept-Ranges'', ''bytes'')] @ hs) (Content content)))))"

end
