(* ===== verification/Gateway.thy ===== *)
theory Gateway
  imports Gateway_Admin
begin

text \<open>
  The gateway: its construction from the options (\<open>New\<close>), the table of routes with their middleware, and the service of
  a request. What a branch store can do beyond pushes is found by type assertions: here the options of its record.
\<close>

section \<open>Construction\<close>

record 'w branch_backend =
  bb_store :: "'w branch_store"
  bb_metadata :: "'w metadata_store option"
  bb_merge :: "'w merge_store option"
  bb_branches :: "'w lifecycle_store option"
  bb_workspaces :: "'w workspace_store option"
  bb_assets :: "'w asset_store option"

record 'w gateway_options =
  go_verifier :: "verifier option"
  go_driver :: "'w cas_driver option"
  go_store :: "'w branch_backend option"
  go_preview :: "'w previewer option"
  go_merge :: "'w finalizer option"
  go_assets :: "'w asset_service option"
  go_branches :: "'w lifecycle_store option"
  go_workspaces :: "'w workspace_store option"
  go_packWindow :: "VersionWindow option"
  go_indexWindow :: "VersionWindow option"
  go_manifestWindow :: "VersionWindow option"

definition finalizer_of :: "contract_lib \<Rightarrow> review_lib \<Rightarrow> json_lib \<Rightarrow> 'w finalize_engine \<Rightarrow> 'w finalizer" where
  "finalizer_of x l j e = \<lparr>
     fz_AcquireLease = (\<lambda>c t r q. AcquireLease l (Some e) (Some c) t r q),
     fz_Apply = (\<lambda>c t r q. Apply x l j (Some e) (Some c) t r q),
     fz_ReleaseLease = (\<lambda>c t r b sub tok. ReleaseLease (Some e) (Some c) t r b sub tok)\<rparr>"

text \<open>The validator of pushed snapshots: \<open>DecodeSnapshotCBOR\<close> with its result dropped.\<close>

definition snapshot_validator :: "review_lib \<Rightarrow> bytes \<Rightarrow> goerr + unit" where
  "snapshot_validator l data = rbind (DecodeSnapshotCBOR l data) (\<lambda>_. Inr ())"

text \<open>\<open>x = d\<close> when nothing was configured: \<open>if g.f == nil\<close>\<close>

definition or_else :: "'a option \<Rightarrow> 'a option \<Rightarrow> 'a option" where
  "or_else a b = (case a of None \<Rightarrow> b | Some v \<Rightarrow> Some v)"

definition window_or :: "VersionWindow option \<Rightarrow> VersionWindow \<Rightarrow> VersionWindow" where
  "window_or w d = (case w of None \<Rightarrow> d | Some w' \<Rightarrow> if w' = \<lparr>vw_Min = 0, vw_Max = 0\<rparr> then d else w')"

definition New :: "('w, int) eff \<Rightarrow> (string \<Rightarrow> string) \<Rightarrow> review_lib \<Rightarrow> json_lib \<Rightarrow> 'w gateway_env \<Rightarrow> 'w gateway_options \<Rightarrow> 'w gateway" where
  "New now getenv l j v opts =
     (let packWindow = window_or (go_packWindow opts) (defaultPackFormatWindow getenv);
          engines = (case (go_driver opts, go_store opts) of (Some drv, Some b) \<Rightarrow> Some (drv, b) | _ \<Rightarrow> None) in
      \<lparr>g_verifier = (case go_verifier opts of None \<Rightarrow> PermissiveVerifier | Some vf \<Rightarrow> vf),
       g_push = map_option (\<lambda>(drv, b). SetMinPackFormatVersion (vw_Min packWindow) (NewPushEngine drv (bb_store b) [snapshot_validator l])) engines,
       g_pull = map_option (\<lambda>(drv, b). NewPullEngine drv (bb_store b)) engines,
       g_preview = or_else (go_preview opts) (case engines of None \<Rightarrow> None
         | Some (drv, b) \<Rightarrow> map_option (\<lambda>ms c t r s tg. PreviewMerge l (NewPreviewEngine (Some (drv_Get drv)) (Some ms)) (Some c) t r s tg) (bb_metadata b)),
       g_merge = or_else (go_merge opts) (case engines of None \<Rightarrow> None
         | Some (drv, b) \<Rightarrow> map_option (\<lambda>ms. finalizer_of (ge_contract v) l j (NewFinalizeEngine now (Some drv) (Some ms))) (bb_merge b)),
       g_assets = or_else (go_assets opts) (case engines of None \<Rightarrow> None
         | Some (drv, b) \<Rightarrow> map_option (\<lambda>az. NewService (Some drv) (Some az)) (bb_assets b)),
       g_branches = or_else (go_branches opts) (case go_store opts of None \<Rightarrow> None | Some b \<Rightarrow> bb_branches b),
       g_workspaces = or_else (go_workspaces opts) (case go_store opts of None \<Rightarrow> None | Some b \<Rightarrow> bb_workspaces b),
       g_packWindow = packWindow,
       g_indexWindow = window_or (go_indexWindow opts) (envVersionWindow getenv ''RACK_MIN_PACK_INDEX_FORMAT_VERSION'' (ge_PackIndexFormatVersion v)),
       g_manifestWindow = window_or (go_manifestWindow opts) (envVersionWindow getenv ''RACK_MIN_PACK_MANIFEST_FORMAT_VERSION'' (ge_PackManifestFormatVersion v))\<rparr>)"

section \<open>Routes\<close>

datatype segment = Lit string | Var string

datatype access = Public | AnyRole | RepoAny | Role string | RepoRole string

datatype endpoint =
  Healthz | Whoami | CreateTenantR | ListTenantsR | GetTenantR | CreateWorkspaceR | ListWorkspacesR | GetWorkspaceR
| RepoWhoami | PushR | PullR | CloneR | PreviewR | LeaseR | ReleaseR | ApplyR
| CreateBranchR | ListBranchesR | DefaultBranchR | DeleteBranchR | NegotiateR | UploadR | StreamR

record route =
  rt_Method :: string
  rt_Path :: "segment list"
  rt_Access :: access
  rt_Endpoint :: endpoint

abbreviation "GET \<equiv> ''GET''"
abbreviation "POST \<equiv> ''POST''"
abbreviation "PUT \<equiv> ''PUT''"
abbreviation "DELETE \<equiv> ''DELETE''"

definition route_of :: "string \<Rightarrow> segment list \<Rightarrow> access \<Rightarrow> endpoint \<Rightarrow> route" where
  "route_of m p a e = \<lparr>rt_Method = m, rt_Path = p, rt_Access = a, rt_Endpoint = e\<rparr>"

definition api :: "segment list" where "api = [Lit ''api'', Lit ''v1'']"

text \<open>The routes below a repository, registered under \<open>repos/{repo}\<close> and again under \<open>workspaces/{workspace}\<close>.\<close>

definition repo_routes :: "segment list \<Rightarrow> route list" where
  "repo_routes p = [
     route_of GET (p @ [Lit ''whoami'']) RepoAny RepoWhoami,
     route_of POST (p @ [Lit ''push'']) (RepoRole RoleContributor) PushR,
     route_of GET (p @ [Lit ''pull'']) (RepoRole RoleViewer) PullR,
     route_of GET (p @ [Lit ''clone'']) (RepoRole RoleViewer) CloneR,
     route_of POST (p @ [Lit ''merge'', Lit ''preview'']) (RepoRole RoleViewer) PreviewR,
     route_of POST (p @ [Lit ''merge'', Lit ''lease'']) (RepoRole RoleContributor) LeaseR,
     route_of DELETE (p @ [Lit ''merge'', Lit ''lease'']) (RepoRole RoleContributor) ReleaseR,
     route_of POST (p @ [Lit ''merge'', Lit ''apply'']) (RepoRole RoleContributor) ApplyR,
     route_of POST (p @ [Lit ''branches'']) (RepoRole RoleContributor) CreateBranchR,
     route_of GET (p @ [Lit ''branches'']) (RepoRole RoleViewer) ListBranchesR,
     route_of GET (p @ [Lit ''branches'', Lit ''default'']) (RepoRole RoleViewer) DefaultBranchR,
     route_of DELETE (p @ [Lit ''branches'', Var ''name'']) (RepoRole RoleContributor) DeleteBranchR,
     route_of POST (p @ [Lit ''assets'', Lit ''negotiate'']) (RepoRole RoleContributor) NegotiateR,
     route_of PUT (p @ [Lit ''assets'', Lit ''blobs'', Var ''hash'']) (RepoRole RoleContributor) UploadR,
     route_of GET (p @ [Lit ''assets'', Lit ''blobs'', Var ''hash'']) (RepoRole RoleViewer) StreamR]"

definition registerRoutes :: "route list" where
  "registerRoutes = [
     route_of GET [Lit ''healthz''] Public Healthz,
     route_of GET [Lit ''v1'', Lit ''whoami''] AnyRole Whoami,
     route_of POST (api @ [Lit ''tenants'']) (Role RoleAdmin) CreateTenantR,
     route_of GET (api @ [Lit ''tenants'']) (Role RoleViewer) ListTenantsR,
     route_of GET (api @ [Lit ''tenants'', Var ''tenant'']) (Role RoleViewer) GetTenantR,
     route_of POST (api @ [Lit ''workspaces'']) (Role RoleContributor) CreateWorkspaceR,
     route_of GET (api @ [Lit ''workspaces'']) (Role RoleViewer) ListWorkspacesR,
     route_of GET (api @ [Lit ''workspaces'', Var ''workspace'']) (Role RoleViewer) GetWorkspaceR] @
     repo_routes (api @ [Lit ''repos'', Var ''repo'']) @ repo_routes (api @ [Lit ''workspaces'', Var ''workspace''])"

definition run_endpoint :: "'w gateway_env \<Rightarrow> 'w gateway \<Rightarrow> endpoint \<Rightarrow> 'w handler" where
  "run_endpoint v g e = (case e of
       Healthz \<Rightarrow> handleHealthz v g | Whoami \<Rightarrow> handleWhoami | CreateTenantR \<Rightarrow> handleCreateTenant v g
     | ListTenantsR \<Rightarrow> handleListTenants g | GetTenantR \<Rightarrow> handleGetTenant g | CreateWorkspaceR \<Rightarrow> handleCreateWorkspace v g
     | ListWorkspacesR \<Rightarrow> handleListWorkspaces g | GetWorkspaceR \<Rightarrow> handleGetWorkspace g | RepoWhoami \<Rightarrow> handleRepoWhoami
     | PushR \<Rightarrow> handlePush v g | PullR \<Rightarrow> handlePull v g | CloneR \<Rightarrow> handleClone v g | PreviewR \<Rightarrow> handleMergePreview v g
     | LeaseR \<Rightarrow> handleMergeLease v g | ReleaseR \<Rightarrow> handleMergeLeaseRelease v g | ApplyR \<Rightarrow> handleMergeApply v g
     | CreateBranchR \<Rightarrow> handleCreateBranch v g | ListBranchesR \<Rightarrow> handleListBranches g | DefaultBranchR \<Rightarrow> handleDefaultBranch g
     | DeleteBranchR \<Rightarrow> handleDeleteBranch v g | NegotiateR \<Rightarrow> handleAssetNegotiate v g | UploadR \<Rightarrow> handleAssetUpload g
     | StreamR \<Rightarrow> handleAssetStream v g)"

definition guarded :: "'w gateway \<Rightarrow> access \<Rightarrow> 'w handler \<Rightarrow> 'w handler" where
  "guarded g a h = (case a of
       Public \<Rightarrow> h
     | AnyRole \<Rightarrow> Authenticate (g_verifier g) h
     | RepoAny \<Rightarrow> Authenticate (g_verifier g) (RequireRepoScope h)
     | Role role \<Rightarrow> Authenticate (g_verifier g) (RequireRole role h)
     | RepoRole role \<Rightarrow> Authenticate (g_verifier g) (RequireRepoScope (RequireRole role h)))"

text \<open>
  \<open>http.ServeMux\<close>: a variable matches one nonempty segment, a literal wins over a variable. No two registered
  patterns of one method match the same path, except that \<open>branches/default\<close> has no rival under \<open>GET\<close>; so the first
  match is the match. \<open>HEAD\<close> is served by a \<open>GET\<close> route.
\<close>

fun match_path :: "segment list \<Rightarrow> string list \<Rightarrow> (string \<times> string) list option" where
  "match_path [] [] = Some []"
| "match_path (Lit l # ps) (s # ss) = (if l = s then match_path ps ss else None)"
| "match_path (Var n # ps) (s # ss) = (if s = '''' then None else map_option ((#) (n, s)) (match_path ps ss))"
| "match_path _ _ = None"

definition method_ok :: "string \<Rightarrow> string \<Rightarrow> bool" where
  "method_ok m m' \<longleftrightarrow> m = m' \<or> m = GET \<and> m' = ''HEAD''"

definition find_route :: "request \<Rightarrow> route option" where
  "find_route r = find (\<lambda>rt. method_ok (rt_Method rt) (rq_Method r) \<and> match_path (rt_Path rt) (rq_Path r) \<noteq> None) registerRoutes"

text \<open>The plain responses of the multiplexer.\<close>

definition no_route :: "'w handler" where
  "no_route x r = respond (if list_ex (\<lambda>rt. match_path (rt_Path rt) (rq_Path r) \<noteq> None) registerRoutes then 405 else 404) [] NoBody"

definition mux :: "'w gateway_env \<Rightarrow> 'w gateway \<Rightarrow> 'w handler" where
  "mux v g x r = (case find_route r of
       None \<Rightarrow> no_route x r
     | Some rt \<Rightarrow> guarded g (rt_Access rt) (run_endpoint v g (rt_Endpoint rt)) x
         (r\<lparr>rq_Vars := the (match_path (rt_Path rt) (rq_Path r))\<rparr>))"

definition serve :: "'w gateway_env \<Rightarrow> 'w gateway \<Rightarrow> request \<Rightarrow> 'w hres" where
  "serve v g r = CorrelationID (mux v g) (fresh_context r) r"

section \<open>The server\<close>

definition rack_lifecycle :: "world lifecycle_store" where
  "rack_lifecycle = \<lparr>
     bl_SetTenantContext = SetTenantContext,
     bl_CreateBranch = (\<lambda>c r n h. on_db (CreateBranch c r n h)),
     bl_GetBranchRef = (\<lambda>c r b. on_db (GetBranchRef c r b)),
     bl_ListBranchRefs = (\<lambda>c r. on_db (ListBranchRefs c r)),
     bl_DeleteBranch = (\<lambda>c r n. on_db (DeleteBranch c r n)),
     bl_GetDefaultBranch = (\<lambda>c r. on_db (GetDefaultBranch c r))\<rparr>"

definition rack_workspaces :: "world workspace_store" where
  "rack_workspaces = \<lparr>
     wk_SetTenantContext = SetTenantContext,
     wk_CreateTenant = (\<lambda>c n. on_db (CreateTenant n)),
     wk_ListTenants = (\<lambda>c. on_db ListTenants),
     wk_GetTenant = (\<lambda>c i. on_db (GetTenant i)),
     wk_CreateWorkspace = (\<lambda>c n. on_db (CreateWorkspace c n)),
     wk_ListWorkspaces = (\<lambda>c. on_db (ListWorkspaces c)),
     wk_GetWorkspace = (\<lambda>c i. on_db (GetWorkspace c i))\<rparr>"

text \<open>What \<open>main\<close> configures: the local driver and the store, which has every optional capability.\<close>

definition rack_options :: "cas_ext \<Rightarrow> path \<Rightarrow> (commit \<Rightarrow> goerr + commit) \<Rightarrow> verifier option \<Rightarrow> world gateway_options" where
  "rack_options y d nrm vf = \<lparr>
     go_verifier = vf, go_driver = Some (rack_driver y d),
     go_store = Some \<lparr>bb_store = rack_store nrm, bb_metadata = Some (metadata_store.truncate rack_merge_store), bb_merge = Some rack_merge_store,
       bb_branches = Some rack_lifecycle, bb_workspaces = Some rack_workspaces, bb_assets = Some rack_asset_store\<rparr>,
     go_preview = None, go_merge = None, go_assets = None, go_branches = None, go_workspaces = None,
     go_packWindow = None, go_indexWindow = None, go_manifestWindow = None\<rparr>"

definition rack_gateway :: "(string \<Rightarrow> string) \<Rightarrow> review_lib \<Rightarrow> json_lib \<Rightarrow> world gateway_env \<Rightarrow> cas_ext \<Rightarrow> path \<Rightarrow>
    (commit \<Rightarrow> goerr + commit) \<Rightarrow> verifier option \<Rightarrow> world gateway" where
  "rack_gateway getenv l j v y d nrm vf = New (on_db go_now) getenv l j v (rack_options y d nrm vf)"

end
