(* ===== verification/Gateway_Facts.thy ===== *)
theory Gateway_Facts
  imports Gateway Retention_Facts
begin

text \<open>
  How handlers change the world: a handler step calculus beside the one for stores, what the server's gateway is made
  of, and which endpoints only read.
\<close>

section \<open>Handlers as steps\<close>

definition hsteps :: "('w \<Rightarrow> 'w \<Rightarrow> bool) \<Rightarrow> 'w hres \<Rightarrow> bool" where
  "hsteps R h \<longleftrightarrow> (\<forall>s. R (gs_world s) (gs_world (snd (h s))))"

lemma hstepsD: "hsteps R h \<Longrightarrow> R (gs_world s) (gs_world (snd (h s)))"
  by (simp add: hsteps_def)

lemma hcall_run: "m (gs_world s) = (res, w) \<Longrightarrow> hcall m k s = k res (s\<lparr>gs_world := w\<rparr>)"
  by (simp add: hcall_def)

lemmas error_responses = writeJSONError_def writeJSONErrorEnvelope_def not_implemented_def bad_request_def internal_error_def

context state_order
begin

lemma hsteps_respond: "hsteps R (respond a b c)" "hsteps R unanswered"
  by (simp_all add: hsteps_def respond_def unanswered_def refl)

lemma hsteps_error:
  "hsteps R (writeJSONErrorEnvelope x a b c e)" "hsteps R (writeJSONError x a b t)" "hsteps R (not_implemented x t)"
  "hsteps R (bad_request x t)" "hsteps R (internal_error x t)"
  by (simp_all add: error_responses hsteps_respond)

lemma hsteps_hcall: "steps R m \<Longrightarrow> (\<And>res. hsteps R (k res)) \<Longrightarrow> hsteps R (hcall m k)"
proof -
  assume m: "steps R m" and k: "\<And>res. hsteps R (k res)"
  have "R (gs_world s) (gs_world (snd (k res (s\<lparr>gs_world := w\<rparr>))))" if "m (gs_world s) = (res, w)" for s res w
  proof (rule trans)
    show "R (gs_world s) w" using m that unfolding steps_def by (metis snd_conv)
    show "R w (gs_world (snd (k res (s\<lparr>gs_world := w\<rparr>))))" using hstepsD [OF k, of "s\<lparr>gs_world := w\<rparr>" res] by simp
  qed
  then show ?thesis by (auto simp: hsteps_def hcall_def split: prod.splits)
qed

lemma hsteps_emit: "hsteps R k \<Longrightarrow> hsteps R (emit e k)"
  unfolding hsteps_def emit_def by (auto dest: spec [of _ "s\<lparr>gs_audit := a\<rparr>" for s a])

lemma hsteps_json: "(\<And>v. hsteps R (k v)) \<Longrightarrow> hsteps R (decodeSingleJSON d x r k)"
  by (auto simp: decodeSingleJSON_def hsteps_error split: sum.splits prod.splits)

lemma hsteps_if: "hsteps R m \<Longrightarrow> hsteps R n \<Longrightarrow> hsteps R (if b then m else n)"
  by simp

lemma hsteps_option: "hsteps R m \<Longrightarrow> (\<And>z. hsteps R (f z)) \<Longrightarrow> hsteps R (case q of None \<Rightarrow> m | Some z \<Rightarrow> f z)"
  by (cases q) auto

lemma hsteps_sum: "(\<And>e. hsteps R (f e)) \<Longrightarrow> (\<And>z. hsteps R (g z)) \<Longrightarrow> hsteps R (case q of Inl e \<Rightarrow> f e | Inr z \<Rightarrow> g z)"
  by (cases q) auto

lemma hsteps_prod: "(\<And>a b. hsteps R (f a b)) \<Longrightarrow> hsteps R (case q of (a, b) \<Rightarrow> f a b)"
  by (cases q) auto

lemmas hsteps_intro = hsteps_respond hsteps_error hsteps_hcall hsteps_emit hsteps_json hsteps_if hsteps_option hsteps_sum hsteps_prod

text \<open>The middleware only hands on or answers itself.\<close>

lemma hsteps_guarded: "(\<And>x. hsteps R (h x r)) \<Longrightarrow> hsteps R (guarded g a h x r)"
  unfolding guarded_def Authenticate_def RequireRepoScope_def RequireRole_def Let_def
  by (cases a) (auto intro!: hsteps_error hsteps_if hsteps_option hsteps_sum)

end

section \<open>Behind the middleware\<close>

lemma scope_set: "NewScope T rid = Inr sc \<Longrightarrow> sc_tenant sc = T"
  by (auto simp: NewScope_def)

text \<open>The tenant of a request: the one its header names and, without the header, the one of its verified claims.\<close>

definition requested_tenant :: "request \<Rightarrow> Claims \<Rightarrow> string" where
  "requested_tenant r cl = (if header_Get (rq_Headers r) HeaderTenantID = '''' then cm_TenantID cl else header_Get (rq_Headers r) HeaderTenantID)"

text \<open>The context a handler finds behind the middleware.\<close>

definition authenticated :: "verifier \<Rightarrow> request \<Rightarrow> rctx \<Rightarrow> bool" where
  "authenticated vf r x \<longleftrightarrow> ctx_tenant (rx_Base x) = None \<and> rx_Claims x \<noteq> None \<and>
     (\<exists>c cred cl. ExtractCredential (rq_Headers r) = Inr cred \<and> vf c (cred_Token cred) = Inr cl \<and> tenant_of x = requested_tenant r cl) \<and>
     (\<forall>sc. rx_Scope x = Some sc \<longrightarrow> sc_tenant sc = tenant_of x)"

lemma authenticated_updates:
  assumes "ctx_tenant (rx_Base x) = None" "rx_Scope x = None" "ExtractCredential (rq_Headers r) = Inr cred" "vf (rx_Base x) (cred_Token cred) = Inr cl"
  shows "authenticated vf r (x\<lparr>rx_Credential := Some cred, rx_Claims := Some cl', rx_TenantID := Some (requested_tenant r cl)\<rparr>)"
    "NewScope (requested_tenant r cl) rid = Inr sc \<Longrightarrow>
      authenticated vf r (x\<lparr>rx_Credential := Some cred, rx_Claims := Some cl', rx_TenantID := Some (requested_tenant r cl), rx_Scope := Some sc\<rparr>)"
  using assms by (auto simp: authenticated_def tenant_of_def scope_set)

lemma behind_middleware:
  assumes h: "\<And>x'. authenticated (g_verifier g) r x' \<Longrightarrow> P (h x' (r\<lparr>rq_Vars := vs\<rparr>))"
    and p: "a = Public \<Longrightarrow> P (h x (r\<lparr>rq_Vars := vs\<rparr>))"
    and x: "ctx_tenant (rx_Base x) = None" "rx_Scope x = None"
    and err: "\<And>x n c t. 400 \<le> n \<Longrightarrow> P (writeJSONError x n c t)"
  shows "P (guarded g a h x (r\<lparr>rq_Vars := vs\<rparr>))"
proof -
  have auth: "P (Authenticate (g_verifier g) k x (r\<lparr>rq_Vars := vs\<rparr>))"
    if "\<And>cred cl cl'. ExtractCredential (rq_Headers r) = Inr cred \<Longrightarrow> g_verifier g (rx_Base x) (cred_Token cred) = Inr cl \<Longrightarrow>
        P (k (x\<lparr>rx_Credential := Some cred, rx_Claims := Some cl', rx_TenantID := Some (requested_tenant r cl)\<rparr>) (r\<lparr>rq_Vars := vs\<rparr>))" for k
    unfolding Authenticate_def Let_def using that by (auto simp: requested_tenant_def err split: sum.splits)
  have sco: "P (RequireRepoScope k z (r\<lparr>rq_Vars := vs\<rparr>))"
    if "\<And>sc rid. NewScope (tenant_of z) rid = Inr sc \<Longrightarrow> P (k (z\<lparr>rx_Scope := Some sc\<rparr>) (r\<lparr>rq_Vars := vs\<rparr>))" for k z
    unfolding RequireRepoScope_def Let_def using that by (auto simp: err split: sum.splits)
  have role: "P (RequireRole required k z (r\<lparr>rq_Vars := vs\<rparr>))" if "P (k z (r\<lparr>rq_Vars := vs\<rparr>))" for required k z
    unfolding RequireRole_def using that by (auto simp: err split: option.splits)
  note upd = authenticated_updates [OF x]
  show ?thesis
  proof (cases a)
    case Public
    then show ?thesis using p by (simp add: guarded_def)
  next
    case AnyRole
    then show ?thesis by (auto simp: guarded_def intro!: auth h upd)
  next
    case RepoAny
    then show ?thesis by (auto simp: guarded_def tenant_of_def intro!: auth sco h upd)
  next
    case (Role role)
    then show ?thesis by (auto simp: guarded_def intro!: auth role h upd)
  next
    case (RepoRole role)
    then show ?thesis by (auto simp: guarded_def tenant_of_def intro!: auth sco role h upd)
  qed
qed

text \<open>What a property of handlers says of serving a request.\<close>

lemma serving:
  assumes routed: "\<And>rt x vs. find_route r = Some rt \<Longrightarrow> ctx_tenant (rx_Base x) = None \<Longrightarrow> rx_Scope x = None \<Longrightarrow>
      P (guarded g (rt_Access rt) (run_endpoint v g (rt_Endpoint rt)) x (r\<lparr>rq_Vars := vs\<rparr>))"
    and none: "\<And>n. find_route r = None \<Longrightarrow> P (respond n [] NoBody)"
  obtains m i where "P m" "serve v g r s = (map_option (rs_Headers_update (\<lambda>hs. (HeaderCorrelationID, i) # hs)) (fst (m s)), snd (m s))"
proof -
  have "P (mux v g x r)" if "ctx_tenant (rx_Base x) = None" "rx_Scope x = None" for x
    unfolding mux_def no_route_def using that by (auto split: option.splits intro: routed none)
  then have "P (mux v g ((fresh_context r)\<lparr>rx_CorrelationID := Some i\<rparr>) r)" for i by (simp add: fresh_context_def)
  then show ?thesis by (rule that) (simp add: serve_def CorrelationID_def Let_def case_prod_beta)
qed

context state_order
begin

lemma hsteps_authenticated:
  assumes "\<And>x'. authenticated (g_verifier g) r x' \<Longrightarrow> hsteps R (h x' (r\<lparr>rq_Vars := vs\<rparr>))"
    and "a = Public \<Longrightarrow> hsteps R (h x (r\<lparr>rq_Vars := vs\<rparr>))" and "ctx_tenant (rx_Base x) = None" "rx_Scope x = None"
  shows "hsteps R (guarded g a h x (r\<lparr>rq_Vars := vs\<rparr>))"
  by (rule behind_middleware [where P = "hsteps R" and g = g and h = h and r = r and vs = vs and a = a and x = x])
    (simp_all add: assms hsteps_error)

lemma hsteps_serve_as:
  assumes "\<And>rt x vs. find_route r = Some rt \<Longrightarrow> ctx_tenant (rx_Base x) = None \<Longrightarrow> rx_Scope x = None \<Longrightarrow>
      hsteps R (guarded g (rt_Access rt) (run_endpoint v g (rt_Endpoint rt)) x (r\<lparr>rq_Vars := vs\<rparr>))"
  shows "hsteps R (serve v g r)"
  unfolding hsteps_def
proof
  fix s
  show "R (gs_world s) (gs_world (snd (serve v g r s)))"
    by (rule serving [where P = "hsteps R" and s = s, OF assms hsteps_respond(1)]) (auto dest: hstepsD)
qed

end

section \<open>The server's gateway\<close>

lemma rack_parts [simp]:
  "g_pull (rack_gateway ge l j v y d nrm vf) = Some (rack_puller y d nrm)"
  "g_assets (rack_gateway ge l j v y d nrm vf) = Some (rack_assets y d)"
  "g_branches (rack_gateway ge l j v y d nrm vf) = Some rack_lifecycle"
  "g_workspaces (rack_gateway ge l j v y d nrm vf) = Some rack_workspaces"
  "g_verifier (rack_gateway ge l j v y d nrm vf) = (case vf of None \<Rightarrow> PermissiveVerifier | Some f \<Rightarrow> f)"
  "g_merge (rack_gateway ge l j v y d nrm vf) = Some (finalizer_of (ge_contract v) l j (rack_finalizer y d))"
  "g_preview (rack_gateway ge l j v y d nrm vf) =
     Some (\<lambda>c t r s tg. PreviewMerge l (NewPreviewEngine (Some (drv_Get (rack_driver y d))) (Some (metadata_store.truncate rack_merge_store))) (Some c) t r s tg)"
  by (simp_all add: rack_gateway_def New_def rack_options_def or_else_def rack_puller_def rack_assets_def rack_finalizer_def Let_def)

section \<open>Reading\<close>

text \<open>The tables and the files are as before.\<close>

definition w_quiet :: "world \<Rightarrow> world \<Rightarrow> bool" where
  "w_quiet w w' \<longleftrightarrow> w_reads w w' \<and> fs_files (w_fs w') = fs_files (w_fs w)"

interpretation qt: state_order w_quiet
  by unfold_locales (auto simp: w_quiet_def rd.refl intro: rd.trans)

lemma quiet_db: "steps w_reads (on_db m) \<Longrightarrow> steps w_quiet (on_db m)"
  by (simp add: steps_def w_quiet_def)

lemma quiet_fs: "(\<And>w. fs_files (snd (m w)) = fs_files w) \<Longrightarrow> steps w_quiet (on_fs m)"
  by (simp add: steps_def w_quiet_def w_reads_def)

lemma OpenAsset_fwp: "fwp (OpenAsset x d c sc h) (\<lambda>_ F'. F' = F) (\<lambda>_ F'. F' = F) F"
  unfolding OpenAsset_def
  by (intro fwp_ebind [of "ctx_check c"] fwp_ctx_check fwp_ebind_lift fwp_ebind [of "ecatch _ _"] fwp_ecatch fwp_read_file)
    (auto intro!: fwp_intro)

lemma OpenPack_files: "fs_files (snd (OpenPack x d c sc h w)) = fs_files w"
proof (cases "canonicalHashString h")
  case (Inl e) then show ?thesis by (rule Inl_hash_run)
next
  case (Inr a) then show ?thesis using fwp_any [OF OpenPack_fwp [of h a x d c sc "fs_files w"]] by (auto split: prod.splits sum.splits)
qed

lemma OpenAsset_files: "fs_files (snd (OpenAsset x d c sc h w)) = fs_files w"
  using fwp_any [OF OpenAsset_fwp [of x d c sc h "fs_files w"]] by (auto split: prod.splits sum.splits)

lemma quiet_driver:
  "steps w_quiet (drv_OpenPack (rack_driver y d) c sc h)" "steps w_quiet (drv_Get (rack_driver y d) c sc h)"
  "steps w_quiet (drv_OpenAsset (rack_driver y d) c sc h)"
  unfolding rack_driver_def cas_driver.simps
  by (intro quiet_fs; simp add: OpenPack_files Get_files OpenAsset_files)+


lemma reads_tenant:
  "(\<And>T. tenantIDFromContext c = Some T \<Longrightarrow> same_tabs.op_ok T (with_tenant c s f)) \<Longrightarrow> steps w_quiet (on_db (with_tenant c s f))"
proof (cases "tenantIDFromContext c")
  case None
  then show ?thesis by (simp add: with_tenant_None steps_def on_db_def qt.refl)
next
  case (Some T)
  then show "(\<And>T. tenantIDFromContext c = Some T \<Longrightarrow> same_tabs.op_ok T (with_tenant c s f)) \<Longrightarrow> ?thesis"
    by (intro quiet_db reads_db)
qed

lemma reads_any: "(\<And>T. tenantIDFromContext c = Some T \<Longrightarrow> same_tabs.op_ok T m) \<Longrightarrow> m = with_tenant c s f \<Longrightarrow> steps w_quiet (on_db m)"
  using reads_tenant [of c s f] by simp

lemma reads_ok: "same_tabs.ok m \<Longrightarrow> steps w_quiet (on_db m)"
  unfolding same_tabs.ok_def same_tabs.kept_def by (intro quiet_db) (simp add: steps_def w_reads_def on_simps)

context session
begin

lemma viewer_ok:
  assumes "tenantIDFromContext c = Some T"
  shows "op_ok T (GetDefaultBranch c rid)" "op_ok T (GetAssetMetadata c rid h)" "op_ok T (ListWorkspaces c)" "op_ok T (GetWorkspace c i)"
  unfolding GetDefaultBranch_def GetAssetMetadata_def ListWorkspaces_def GetWorkspace_def query_default_branch_def resolveRepoUUID_def
  by (intro op_with_tenant op_intros; (erule op_tx)?; (intro ok_intros)?; (simp add: assms)?)+

end

lemma quiet_lookups:
  "steps w_quiet (on_db (GetBranchRef c rid b))" "steps w_quiet (on_db (IsAncestor c rid a i))" "steps w_quiet (on_db (GetPackRanges c rid p k))"
  by (rule quiet_db, rule store_reads_always)+

lemma quiet_graph:
  "steps w_quiet (on_db (FindLowestCommonAncestor c rid a i))" "steps w_quiet (on_db (GetCommitMetadata c rid i))"
  by (rule reads_any [OF same_tabs.FindLowestCommonAncestor_ok FindLowestCommonAncestor_def]
      reads_any [OF same_tabs.GetCommitMetadata_ok GetCommitMetadata_def], assumption)+

lemma quiet_listings:
  "steps w_quiet (on_db (ListBranchRefs c rid))" "steps w_quiet (on_db (GetDefaultBranch c rid))" "steps w_quiet (on_db (GetAssetMetadata c rid h))"
  "steps w_quiet (on_db (ListWorkspaces c))" "steps w_quiet (on_db (GetWorkspace c i))"
  by (rule reads_any [OF same_tabs.listings_ok(1) ListBranchRefs_def] reads_any [OF same_tabs.viewer_ok(1) GetDefaultBranch_def]
      reads_any [OF same_tabs.viewer_ok(2) GetAssetMetadata_def] reads_any [OF same_tabs.viewer_ok(3) ListWorkspaces_def]
      reads_any [OF same_tabs.viewer_ok(4) GetWorkspace_def], assumption)+

lemma quiet_tenants: "steps w_quiet (on_db ListTenants)" "steps w_quiet (on_db (GetTenant i))"
  unfolding ListTenants_def GetTenant_def by (intro reads_ok same_tabs.ok_intros)+

section \<open>Pulling only reads\<close>

locale quiet_pull = state_order R for R :: "'w \<Rightarrow> 'w \<Rightarrow> bool" +
  fixes e :: "'w pull_engine"
  assumes opens: "steps R (drv_OpenPack (pl_driver e) c sc h)"
    and looks: "steps R (bs_GetBranchRef (pl_store e) c rid b)" "steps R (bs_IsAncestor (pl_store e) c rid p q)"
      "steps R (bs_GetPackRanges (pl_store e) c rid p q)"
begin

lemmas reading = steps_intro opens looks

lemma steps_readV2: "steps R (readV2PackFrame x e c sc r)"
  unfolding readV2PackFrame_def by (intro reading)

lemma steps_absorb: "steps R (absorb x e c sc rs g)"
  by (induction rs arbitrary: g) (auto intro!: reading steps_readV2)

lemma steps_missing: "steps R (missing_parents ord e c rid known g)"
  unfolding missing_parents_def missing_parent_def case_prod_unfold by (intro reading)

lemma steps_expand: "steps R (expand_parent e c rid p acc)"
  unfolding expand_parent_def case_prod_unfold by (intro reading)

lemma steps_rounds: "steps R (dag_rounds n x ord e c sc rid known expanded pending g)"
proof (induction n arbitrary: expanded pending g)
  case 0
  show ?case by (simp add: steps_pure)
next
  case (Suc n)
  show ?case unfolding dag_rounds.simps case_prod_unfold
    by (intro steps_ebind steps_absorb steps_missing steps_if steps_pure steps_efold steps_expand Suc)
qed

lemma steps_prepare: "steps R (PreparePull n x ord e c0 q)"
  unfolding PreparePull_def check_known_def planPullDAG_def by (intro reading steps_rounds)

lemma steps_manifest: "steps R (BuildPullManifest x v e c plan)"
  unfolding BuildPullManifest_def manifest_pack_def Let_def by (intro reading)

lemma steps_stream:
  assumes "steps R (zw_new z)" "\<And>bs. steps R (zw_write z bs)" "steps R (zw_close z)"
  shows "steps R (StreamPullWithManifest x v z e c plan manifest)"
  unfolding StreamPullWithManifest_def closing_def stream_pack_def case_prod_unfold by (intro reading assms)

end


text \<open>The server's pull engine reads the tables and the packs.\<close>

lemma quiet_engine:
  "steps w_quiet (drv_OpenPack (pl_driver (rack_puller y d nrm)) c sc h)"
  "steps w_quiet (bs_GetBranchRef (pl_store (rack_puller y d nrm)) c rid p)" "steps w_quiet (bs_IsAncestor (pl_store (rack_puller y d nrm)) c rid p q)"
  "steps w_quiet (bs_GetPackRanges (pl_store (rack_puller y d nrm)) c rid p q)"
  by (simp_all add: rack_puller_def NewPullEngine_def rack_store_def quiet_driver quiet_lookups)

definition quiet_writer :: "world zstd_writer \<Rightarrow> bool" where
  "quiet_writer z \<longleftrightarrow> steps w_quiet (zw_new z) \<and> (\<forall>bs. steps w_quiet (zw_write z bs)) \<and> steps w_quiet (zw_close z)"

interpretation pulls: quiet_pull w_quiet "rack_puller y d nrm" for y d nrm
  by unfold_locales (simp_all add: quiet_engine)

lemma quiet_stream: "quiet_writer z \<Longrightarrow> steps w_quiet (StreamPullWithManifest x v z (rack_puller y d nrm) c plan manifest)"
  by (rule pulls.steps_stream) (simp_all add: quiet_writer_def)

lemma truncated_simps:
  "ms_SetTenantContext (metadata_store.truncate rack_merge_store) = SetTenantContext"
  "ms_GetBranchRef (metadata_store.truncate rack_merge_store) = (\<lambda>c r b. on_db (GetBranchRef c r b))"
  "ms_IsAncestor (metadata_store.truncate rack_merge_store) = (\<lambda>c r a i. on_db (IsAncestor c r a i))"
  "ms_FindLowestCommonAncestor (metadata_store.truncate rack_merge_store) = (\<lambda>c r a b. on_db (FindLowestCommonAncestor c r a b))"
  "ms_GetCommitMetadata (metadata_store.truncate rack_merge_store) = Some (\<lambda>c r i. on_db (GetCommitMetadata c r i))"
  by (simp_all add: metadata_store.truncate_def)

lemma quiet_preview: "steps w_quiet (PreviewMerge l (NewPreviewEngine (Some (drv_Get (rack_driver y d))) (Some (metadata_store.truncate rack_merge_store))) c t r a b)"
  unfolding PreviewMerge_def NewPreviewEngine_def resolve_ends_def resolveCommitIdentity_def load_three_def
    DecodeSnapshot_def case_prod_unfold truncated_simps option.case fst_conv snd_conv prod.case
  by (intro qt.steps_pure qt.steps_ebind qt.steps_ecatch qt.steps_ewrap qt.steps_if qt.steps_sum qt.steps_option quiet_lookups quiet_graph quiet_driver)

lemma quiet_open: "steps w_quiet (Open (rack_assets y d) c sc h)"
  unfolding Open_def asset_mime_def rack_assets_def NewService_def asset_service.simps rack_asset_store_def asset_store.simps option.case
    Let_def case_prod_unfold
  by (intro qt.steps_intro quiet_listings quiet_driver)

end
