(* ===== verification/Gateway_Claims.thy ===== *)
theory Gateway_Claims
  imports Gateway_Facts
begin

text \<open>
  What the gateway of the server guarantees, and what it does not: who may change something, whose data a request
  reaches, that requests are answered, and what its asset routes do.
\<close>

section \<open>Reading roles\<close>

definition viewing :: "endpoint \<Rightarrow> bool" where
  "viewing e \<longleftrightarrow> e \<in> {Healthz, Whoami, ListTenantsR, GetTenantR, ListWorkspacesR, GetWorkspaceR, RepoWhoami, PullR, CloneR,
     PreviewR, ListBranchesR, DefaultBranchR, StreamR}"

definition modest :: "route \<Rightarrow> bool" where
  "modest rt \<longleftrightarrow> viewing (rt_Endpoint rt) \<or> rt_Access rt \<in> {Role RoleAdmin, Role RoleContributor, RepoRole RoleContributor}"

lemma viewing_simps:
  "viewing Healthz" "viewing Whoami" "viewing ListTenantsR" "viewing GetTenantR" "viewing ListWorkspacesR" "viewing GetWorkspaceR"
  "viewing RepoWhoami" "viewing PullR" "viewing CloneR" "viewing PreviewR" "viewing ListBranchesR" "viewing DefaultBranchR" "viewing StreamR"
  by (simp_all only: viewing_def insert_iff simp_thms)

lemma modest_route: "modest (route_of m p a e) \<longleftrightarrow> viewing e \<or> a \<in> {Role RoleAdmin, Role RoleContributor, RepoRole RoleContributor}"
  by (simp only: modest_def route_of_def route.simps)

lemma repo_routes_modest: "list_all modest (repo_routes p)"
  unfolding repo_routes_def list.pred_inject(2) modest_route by (simp only: viewing_simps insert_iff simp_thms list.pred_inject)

lemma route_table: "rt \<in> set registerRoutes \<Longrightarrow> modest rt"
proof -
  have "list_all modest registerRoutes"
    unfolding registerRoutes_def list_all_append list.pred_inject(2) modest_route
    by (simp only: viewing_simps insert_iff simp_thms list.pred_inject repo_routes_modest)
  then show "rt \<in> set registerRoutes \<Longrightarrow> modest rt" unfolding list_all_iff by blast
qed

lemma public_route: "rt \<in> set registerRoutes \<Longrightarrow> rt_Access rt = Public \<Longrightarrow> rt_Endpoint rt = Healthz"
proof -
  have p: "(rt_Access (route_of m q a e) = Public \<longrightarrow> rt_Endpoint (route_of m q a e) = Healthz) = (a = Public \<longrightarrow> e = Healthz)" for m q a e
    by (simp only: route_of_def route.simps)
  have repo: "list_all (\<lambda>rt. rt_Access rt = Public \<longrightarrow> rt_Endpoint rt = Healthz) (repo_routes q)" for q
    unfolding repo_routes_def list.pred_inject(2) p by (simp only: access.distinct not_False_eq_True simp_thms list.pred_inject)
  have "list_all (\<lambda>rt. rt_Access rt = Public \<longrightarrow> rt_Endpoint rt = Healthz) registerRoutes"
    unfolding registerRoutes_def list_all_append list.pred_inject(2) p
    by (simp only: access.distinct not_False_eq_True simp_thms list.pred_inject repo)
  then show "rt \<in> set registerRoutes \<Longrightarrow> rt_Access rt = Public \<Longrightarrow> rt_Endpoint rt = Healthz" unfolding list_all_iff by blast
qed

lemma find_route_registered: "find_route r = Some rt \<Longrightarrow> rt \<in> set registerRoutes"
  unfolding find_route_def find_Some_iff by (elim exE conjE) (simp only: nth_mem)

definition only_reads :: "verifier \<Rightarrow> request \<Rightarrow> bool" where
  "only_reads vf r \<longleftrightarrow> (\<forall>c cred cl. ExtractCredential (rq_Headers r) = Inr cred \<longrightarrow> vf c (cred_Token cred) = Inr cl \<longrightarrow>
     \<not> Satisfies (cm_Role cl) RoleContributor)"

lemma denied:
  assumes "only_reads (g_verifier g) r" and "a \<in> {Role RoleAdmin, Role RoleContributor, RepoRole RoleContributor}"
  shows "hsteps w_quiet (guarded g a h x (r\<lparr>rq_Vars := vs\<rparr>))"
  using assms unfolding only_reads_def guarded_def Authenticate_def RequireRepoScope_def RequireRole_def RoleFromContext_def Let_def
  by (auto intro!: qt.hsteps_error simp: Satisfies_table split: sum.splits)

section \<open>The reading handlers\<close>

lemma reading_pulls:
  assumes g: "g = rack_gateway ge l j v y d nrm vf" and z: "quiet_writer (ge_writer v)"
  shows "hsteps w_quiet (handlePull v g x r)" "hsteps w_quiet (handleClone v g x r)"
proof -
  show "hsteps w_quiet (handlePull v g x r)"
    unfolding g handlePull_def rack_parts option.case Let_def stream_packs_def unsupported_format_def
    by (intro qt.hsteps_intro pulls.steps_prepare pulls.steps_manifest quiet_stream [OF z])
  show "hsteps w_quiet (handleClone v g x r)"
    unfolding g handleClone_def clone_default_def rack_parts option.case Let_def stream_packs_def unsupported_format_def
      rack_lifecycle_def lifecycle_store.simps
    by (intro qt.hsteps_intro pulls.steps_prepare pulls.steps_manifest quiet_stream [OF z] quiet_listings)
qed

lemma reading_handlers:
  assumes g: "g = rack_gateway ge l j v y d nrm vf"
  shows "hsteps w_quiet (handleListTenants g x r)" "hsteps w_quiet (handleGetTenant g x r)" "hsteps w_quiet (handleListWorkspaces g x r)"
    "hsteps w_quiet (handleGetWorkspace g x r)" "hsteps w_quiet (handleListBranches g x r)" "hsteps w_quiet (handleDefaultBranch g x r)"
    "hsteps w_quiet (handleMergePreview v g x r)" "hsteps w_quiet (handleAssetStream v g x r)"
  unfolding g handleListTenants_def handleGetTenant_def handleListWorkspaces_def handleGetWorkspace_def handleListBranches_def
    handleDefaultBranch_def handleMergePreview_def handleAssetStream_def with_workspaces_def workspace_context_def with_branches_def
    branch_context_def with_assets_def with_scope_def rack_parts option.case rack_workspaces_def workspace_store.simps
    rack_lifecycle_def lifecycle_store.simps Let_def asset_failure_def
  by (intro qt.hsteps_intro quiet_tenants quiet_listings quiet_preview quiet_open)+

lemma viewing_reads:
  assumes g: "g = rack_gateway ge l j v y d nrm vf" and z: "quiet_writer (ge_writer v)" and e: "viewing e"
  shows "hsteps w_quiet (run_endpoint v g e x r)"
  using e unfolding viewing_def insert_iff empty_iff run_endpoint_def
  by (elim disjE FalseE; hypsubst; unfold endpoint.case)
    (rule reading_pulls [OF g z] reading_handlers [OF g] | simp add: handleHealthz_def handleWhoami_def handleRepoWhoami_def qt.hsteps_respond)+

text \<open>C2: A caller whose credential does not make it a contributor changes nothing. If every verification of the
  credential the request carries yields a role below contributor (or fails, or there is no credential), then whatever
  the method, the path, the headers and the body, serving the request on the server's gateway leaves every table and
  every file as it was. (The response writer is the only other thing a handler writes to; it is assumed to leave
  tables and files alone.)\<close>

theorem viewers_change_nothing:
  assumes "only_reads vf r" and "quiet_writer (ge_writer v)"
  shows "tabs (w_db (gs_world (snd (serve v (rack_gateway ge l j v y d nrm (Some vf)) r s)))) = tabs (w_db (gs_world s)) \<and>
    fs_files (w_fs (gs_world (snd (serve v (rack_gateway ge l j v y d nrm (Some vf)) r s)))) = fs_files (w_fs (gs_world s))"
proof -
  let ?g = "rack_gateway ge l j v y d nrm (Some vf)"
  have reads: "only_reads (g_verifier ?g) r" using assms(1) by simp
  have "hsteps w_quiet (serve v ?g r)"
  proof (rule qt.hsteps_serve_as)
    fix rt vs and x :: rctx
    assume "find_route r = Some rt"
    then consider "viewing (rt_Endpoint rt)" | "rt_Access rt \<in> {Role RoleAdmin, Role RoleContributor, RepoRole RoleContributor}"
      using route_table [OF find_route_registered] unfolding modest_def by blast
    then show "hsteps w_quiet (guarded ?g (rt_Access rt) (run_endpoint v ?g (rt_Endpoint rt)) x (r\<lparr>rq_Vars := vs\<rparr>))"
      by cases (blast intro: qt.hsteps_guarded viewing_reads [OF HOL.refl assms(2)] denied [OF reads])+
  qed
  then show ?thesis by (simp add: hsteps_def w_quiet_def w_reads_def)
qed

section \<open>The tenant header\<close>

definition relabelled :: "string \<Rightarrow> verifier \<Rightarrow> verifier" where
  "relabelled T vf = (\<lambda>c tok. map_sum id (cm_TenantID_update (\<lambda>_. T)) (vf c tok))"

lemma verifier_update:
  "g_push (g\<lparr>g_verifier := vf\<rparr>) = g_push g" "g_pull (g\<lparr>g_verifier := vf\<rparr>) = g_pull g" "g_preview (g\<lparr>g_verifier := vf\<rparr>) = g_preview g"
  "g_merge (g\<lparr>g_verifier := vf\<rparr>) = g_merge g" "g_assets (g\<lparr>g_verifier := vf\<rparr>) = g_assets g" "g_branches (g\<lparr>g_verifier := vf\<rparr>) = g_branches g"
  "g_workspaces (g\<lparr>g_verifier := vf\<rparr>) = g_workspaces g" "g_packWindow (g\<lparr>g_verifier := vf\<rparr>) = g_packWindow g"
  "g_indexWindow (g\<lparr>g_verifier := vf\<rparr>) = g_indexWindow g" "g_manifestWindow (g\<lparr>g_verifier := vf\<rparr>) = g_manifestWindow g"
  "g_verifier (g\<lparr>g_verifier := vf\<rparr>) = vf"
  by simp_all

lemma endpoint_verifier: "run_endpoint v (g\<lparr>g_verifier := vf\<rparr>) e = run_endpoint v g e"
  by (cases e; intro ext; simp only: run_endpoint_def endpoint.case handleHealthz_def handleCreateTenant_def handleListTenants_def
      handleGetTenant_def handleCreateWorkspace_def handleListWorkspaces_def handleGetWorkspace_def handlePush_def handlePull_def
      handleClone_def clone_default_def handleMergePreview_def handleMergeLease_def handleMergeLeaseRelease_def handleMergeApply_def
      handleCreateBranch_def handleListBranches_def handleDefaultBranch_def handleDeleteBranch_def handleAssetNegotiate_def
      handleAssetUpload_def handleAssetStream_def with_workspaces_def with_branches_def with_assets_def verifier_update)

lemma authenticate_relabelled:
  assumes "header_Get (rq_Headers r) HeaderTenantID \<noteq> ''''"
  shows "Authenticate (relabelled T vf) h x (r\<lparr>rq_Vars := vs\<rparr>) = Authenticate vf h x (r\<lparr>rq_Vars := vs\<rparr>)"
  using assms unfolding Authenticate_def relabelled_def Let_def by (auto split: sum.splits)

text \<open>C39: The tenant a request acts in is the one its \<open>X-Tenant-ID\<close> header names, whoever sends it. With a nonempty
  header the tenant of the verified claims plays no part: for every gateway and every tenant \<open>T\<close>, if all credentials
  were instead verified to be of tenant \<open>T\<close>, with the same roles and subjects, the request would be served with the
  same response and the same effects.\<close>

theorem tenant_header_decides:
  assumes "header_Get (rq_Headers r) HeaderTenantID \<noteq> ''''"
  shows "serve v (g\<lparr>g_verifier := relabelled T (g_verifier g)\<rparr>) r = serve v g r"
proof -
  have "mux v (g\<lparr>g_verifier := relabelled T (g_verifier g)\<rparr>) x r = mux v g x r" for x
    unfolding mux_def endpoint_verifier guarded_def verifier_update
    by (cases "rt_Access (the (find_route r))"; cases "find_route r") (simp_all add: authenticate_relabelled [OF assms])
  then show ?thesis unfolding serve_def CorrelationID_def by (intro ext) (simp add: Let_def)
qed

section \<open>Every request is answered\<close>

definition answers :: "('w \<Rightarrow> bool) \<Rightarrow> 'w hres \<Rightarrow> bool" where
  "answers I h \<longleftrightarrow> (\<forall>s. I (gs_world s) \<longrightarrow> fst (h s) \<noteq> None)"

lemma answers_respond: "answers I (respond a b c)" "answers I (writeJSONErrorEnvelope x a c' m e)" "answers I (writeJSONError x a c' t)"
  "answers I (not_implemented x t)" "answers I (bad_request x t)" "answers I (internal_error x t)"
  by (simp_all add: answers_def error_responses respond_def)

lemma answers_hcall: "(\<And>res. answers (\<lambda>_. True) (k res)) \<Longrightarrow> answers I (hcall m k)"
  by (auto simp: answers_def hcall_def split: prod.splits)

lemma answers_keep: "(\<And>w. I w \<Longrightarrow> I (snd (m w))) \<Longrightarrow> (\<And>res. answers I (k res)) \<Longrightarrow> answers I (hcall m k)"
  unfolding answers_def hcall_def by (auto simp: case_prod_beta)

lemma answers_result: "(\<And>w. I w \<Longrightarrow> Q (fst (m w))) \<Longrightarrow> (\<And>res. Q res \<Longrightarrow> answers (\<lambda>_. True) (k res)) \<Longrightarrow> answers I (hcall m k)"
  unfolding answers_def hcall_def by (auto simp: case_prod_beta)

lemma answers_emit: "answers I h \<Longrightarrow> answers I (emit e h)"
  by (simp add: answers_def emit_def)

lemma answers_json: "(\<And>v. answers I (k v)) \<Longrightarrow> answers I (decodeSingleJSON d x r k)"
  by (auto simp: decodeSingleJSON_def answers_respond split: sum.splits prod.splits)

lemma answers_if: "answers I m \<Longrightarrow> answers I n \<Longrightarrow> answers I (if b then m else n)"
  by simp

lemma answers_option: "answers I m \<Longrightarrow> (\<And>z. answers I (f z)) \<Longrightarrow> answers I (case q of None \<Rightarrow> m | Some z \<Rightarrow> f z)"
  by (cases q) auto

lemma answers_sum: "(\<And>e. answers I (f e)) \<Longrightarrow> (\<And>z. answers I (g z)) \<Longrightarrow> answers I (case q of Inl e \<Rightarrow> f e | Inr z \<Rightarrow> g z)"
  by (cases q) auto

lemma answers_prod: "(\<And>a b. answers I (f a b)) \<Longrightarrow> answers I (case q of (a, b) \<Rightarrow> f a b)"
  by (cases q) auto

lemmas answers_intro = answers_respond answers_hcall answers_emit answers_json answers_if answers_option answers_sum answers_prod

lemma answers_now: "answers I (\<lambda>s. respond a b (c s) s)"
  by (simp add: answers_def respond_def)

lemma answers_subject: "rx_Claims x \<noteq> None \<Longrightarrow> (\<And>z. answers I (k z)) \<Longrightarrow> answers I (with_subject x k)"
  by (auto simp: with_subject_def)

lemma answers_anywhere: "answers (\<lambda>_. True) h \<Longrightarrow> answers I h"
  by (simp add: answers_def)

lemma answers_plain:
  "answers (\<lambda>_. True) (handleHealthz v g x r)" "answers (\<lambda>_. True) (handleWhoami x r)" "answers (\<lambda>_. True) (handleRepoWhoami x r)"
  "answers (\<lambda>_. True) (handleCreateTenant v g x r)" "answers (\<lambda>_. True) (handleListTenants g x r)" "answers (\<lambda>_. True) (handleGetTenant g x r)"
  "answers (\<lambda>_. True) (handleCreateWorkspace v g x r)" "answers (\<lambda>_. True) (handleListWorkspaces g x r)" "answers (\<lambda>_. True) (handleGetWorkspace g x r)"
  "answers (\<lambda>_. True) (handleMergePreview v g x r)" "answers (\<lambda>_. True) (handleCreateBranch v g x r)" "answers (\<lambda>_. True) (handleListBranches g x r)"
  "answers (\<lambda>_. True) (handleDefaultBranch g x r)" "answers (\<lambda>_. True) (handleDeleteBranch v g x r)" "answers (\<lambda>_. True) (handleAssetNegotiate v g x r)"
  "answers (\<lambda>_. True) (handleAssetUpload g x r)" "answers (\<lambda>_. True) (handleAssetStream v g x r)"
  unfolding handleHealthz_def handleWhoami_def handleRepoWhoami_def handleCreateTenant_def handleListTenants_def handleGetTenant_def
    handleCreateWorkspace_def handleListWorkspaces_def handleGetWorkspace_def handleMergePreview_def handleCreateBranch_def
    create_branch_at_def handleListBranches_def handleDefaultBranch_def handleDeleteBranch_def handleAssetNegotiate_def
    handleAssetUpload_def handleAssetStream_def with_workspaces_def workspace_context_def with_branches_def no_branches_def branch_context_def
    with_assets_def with_scope_def asset_failure_def quota_exceeded_def Let_def
  by (intro answers_intro answers_now)+

lemma answers_merges:
  assumes "rx_Claims x \<noteq> None"
  shows "answers (\<lambda>_. True) (handleMergeLease v g x r)" "answers (\<lambda>_. True) (handleMergeApply v g x r)"
    "answers (\<lambda>_. True) (handleMergeLeaseRelease v g x r)"
  unfolding handleMergeLease_def handleMergeApply_def handleMergeLeaseRelease_def writeMergeError_def Let_def
  by (intro answers_subject [OF assms] answers_intro)+

lemma answers_push: "answers (\<lambda>_. True) (handlePush v g x r)"
proof -
  have one: "answers (\<lambda>_. True) (push_pack v e x m part)" for e m part
    unfolding push_pack_def rejectPush_def Let_def by (intro answers_intro)
  have "answers (\<lambda>_. True) (push_parts v e x fin m saw parts)" for e fin m saw parts
    by (induction parts arbitrary: m saw) (auto intro!: answers_intro one split: option.splits sum.splits)
  then show ?thesis unfolding handlePush_def by (intro answers_intro)
qed

lemma prepared_some: "res \<noteq> Inr None \<Longrightarrow> \<exists>p e. prepared res = Some (p, e) \<and> (p \<noteq> None \<or> e \<noteq> None)"
  by (cases res) (auto simp: prepared_def split: option.splits)

lemma answers_prepared:
  assumes t: "length (pack_ranges t) < n"
    and k: "\<And>p e. p \<noteq> None \<or> e \<noteq> None \<Longrightarrow> answers (\<lambda>_. True) (k (Some (p, e)))"
  shows "answers (\<lambda>w. tabs (w_db w) = t) (hcall (PreparePull n x ord (rack_puller y d nrm) c0 q) (\<lambda>res. k (prepared res)))"
proof (rule answers_result [where Q = "\<lambda>res. res \<noteq> Inr None"])
  show "fst (PreparePull n x ord (rack_puller y d nrm) c0 q w) \<noteq> Inr None" if "tabs (w_db w) = t" for w
    using pull_planning_ends t that by blast
  show "answers (\<lambda>_. True) (k (prepared res))" if "res \<noteq> Inr None" for res
    using prepared_some [OF that] k by auto
qed

lemma answers_pulls:
  assumes t: "length (pack_ranges t) < ge_fuel v" and g: "g = rack_gateway ge l j v' y d nrm vf"
  shows "answers (\<lambda>w. tabs (w_db w) = t) (handlePull v g x r)" "answers (\<lambda>w. tabs (w_db w) = t) (handleClone v g x r)"
proof -
  have keep: "tabs (w_db (snd (on_db (GetDefaultBranch c rid) w))) = t" if "tabs (w_db w) = t" for c rid w
    using quiet_listings(2) [of c rid] that by (simp add: steps_def w_quiet_def w_reads_def)
  have default: "answers (\<lambda>w. tabs (w_db w) = t) (clone_default (rack_gateway ge l j v' y d nrm vf) x b k)"
    if "\<And>z. answers (\<lambda>w. tabs (w_db w) = t) (k z)" for b k
    unfolding clone_default_def rack_parts option.case rack_lifecycle_def lifecycle_store.simps
    by (intro answers_sum answers_keep keep answers_if that)
  show "answers (\<lambda>w. tabs (w_db w) = t) (handlePull v g x r)"
    unfolding g handlePull_def rack_parts option.case Let_def unsupported_format_def
    by (intro answers_if answers_respond; rule answers_prepared [OF t]; unfold option.case prod.case)
      (auto split: option.split intro!: answers_intro simp: stream_packs_def)
  show "answers (\<lambda>w. tabs (w_db w) = t) (handleClone v g x r)"
    unfolding g handleClone_def rack_parts option.case Let_def unsupported_format_def
    by (intro answers_if answers_respond default answers_option answers_emit; rule answers_prepared [OF t]; unfold option.case prod.case)
      (auto split: option.split intro!: answers_intro simp: stream_packs_def)
qed


section \<open>The asset routes\<close>

definition refuses :: "world hres \<Rightarrow> bool" where
  "refuses h \<longleftrightarrow> (\<forall>s. \<exists>resp. fst (h s) = Some resp \<and> 400 \<le> rs_Status resp \<and> w_db (gs_world (snd (h s))) = w_db (gs_world s))"

definition fails :: "(world, 'a) eff \<Rightarrow> bool" where
  "fails m \<longleftrightarrow> (\<forall>w. \<exists>e. fst (m w) = Inl e \<and> w_db (snd (m w)) = w_db w)"

lemma refuses_intro:
  "400 \<le> n \<Longrightarrow> refuses (writeJSONErrorEnvelope x n c m e)" "400 \<le> n \<Longrightarrow> refuses (writeJSONError x n c t)" "refuses (bad_request x t)"
  "(\<And>v. refuses (k v)) \<Longrightarrow> refuses (decodeSingleJSON d x r k)"
  by (auto simp: refuses_def error_responses respond_def decodeSingleJSON_def split: sum.splits prod.splits)

lemma refuses_failing:
  assumes "fails m" and "\<And>e. refuses (k (Inl e))"
  shows "refuses (hcall m k)"
  unfolding refuses_def
proof
  fix s :: "world gstate"
  from assms(1) obtain e where e: "fst (m (gs_world s)) = Inl e" "w_db (snd (m (gs_world s))) = w_db (gs_world s)" unfolding fails_def by blast
  obtain resp where "fst (k (Inl e) (s\<lparr>gs_world := snd (m (gs_world s))\<rparr>)) = Some resp" "400 \<le> rs_Status resp"
    "w_db (gs_world (snd (k (Inl e) (s\<lparr>gs_world := snd (m (gs_world s))\<rparr>)))) = w_db (snd (m (gs_world s)))"
    using assms(2) [of e] unfolding refuses_def by (metis gstate.select_convs(1) gstate.surjective gstate.update_convs(1))
  then show "\<exists>resp. fst (hcall m k s) = Some resp \<and> 400 \<le> rs_Status resp \<and> w_db (gs_world (snd (hcall m k s))) = w_db (gs_world s)"
    using e by (simp add: hcall_def case_prod_beta)
qed

lemma fails_bind: "fails m \<Longrightarrow> fails (ebind m f)"
  unfolding fails_def ebind_def by (metis (mono_tags, lifting) case_prod_conv fst_conv old.sum.simps(5) prod.collapse snd_conv)

lemma fails_later: "leaves w_db m \<Longrightarrow> (\<And>v. fails (f v)) \<Longrightarrow> fails (ebind m f)"
  unfolding fails_def steps_def ebind_def by (auto split: prod.splits sum.splits) (metis fst_conv snd_conv)+

lemma fails_wrap: "fails m \<Longrightarrow> fails (ewrap s m)"
  unfolding fails_def ewrap_def ecatch_def efail_def
proof (intro allI)
  fix w
  assume "\<forall>w. \<exists>e. fst (m w) = Inl e \<and> w_db (snd (m w)) = w_db w"
  then obtain e w' where "m w = (Inl e, w')" "w_db w' = w_db w" by (metis prod.collapse)
  then show "\<exists>e. fst (case m w of (Inl e, w') \<Rightarrow> (Inl (Wrapf s e), w') | (Inr x, w') \<Rightarrow> (Inr x, w')) = Inl e \<and>
    w_db (snd (case m w of (Inl e, w') \<Rightarrow> (Inl (Wrapf s e), w') | (Inr x, w') \<Rightarrow> (Inr x, w'))) = w_db w" by simp
qed

lemma no_tenant_stores:
  assumes "tenantIDFromContext c = None"
  shows "fails (az_ListMissingAssets rack_asset_store c rid hs)" "fails (az_RegisterAsset rack_asset_store c rid h k m)"
    "leaves w_db (az_AdmitAssetUpload rack_asset_store c rid h k)"
  by (simp_all add: rack_asset_store_def fails_def steps_def on_db_def ListMissingAssets_def RegisterAsset_def AdmitAssetUpload_def
      with_tenant_None [OF assms])

lemma no_tenant_fails:
  assumes "tenantIDFromContext c = None"
  shows "fails (Negotiate ord (rack_assets y d) c sc q)" "fails (Upload (rack_assets y d) c sc h n mt rd)"
proof -
  note stores = no_tenant_stores [OF assms]
  show "fails (Negotiate ord (rack_assets y d) c sc q)"
    unfolding Negotiate_def rack_assets_def NewService_def asset_service.simps option.case Let_def
    by (intro fails_bind fails_wrap stores)
  have w: "leaves w_db (drv_WriteAsset (rack_driver y d) c sc h rd)" for h by (simp add: rack_driver_def steps_def)
  have "fails (efail e)" for e :: goerr by (simp add: fails_def efail_def)
  then show "fails (Upload (rack_assets y d) c sc h n mt rd)"
    unfolding Upload_def rack_assets_def NewService_def asset_service.simps option.case prod.case Let_def
    by (simp only: split: if_split, intro conjI impI)
      ((assumption | rule fails_later fails_bind fails_wrap stores w same.steps_ewrap same.steps_pure)+)
qed

text \<open>C40: No asset can be negotiated or uploaded. The asset handlers call the asset service with the context of the
  request, while the metadata store looks for the tenant its own \<open>SetTenantContext\<close> sets: on the server's gateway
  every request for the negotiation of assets or the upload of a blob, whoever sends it and whatever it carries, is
  answered with an error, and leaves every table as it was.\<close>

theorem asset_writes_never_succeed:
  assumes route: "find_route r = Some rt" "rt_Endpoint rt \<in> {NegotiateR, UploadR}"
  shows "\<exists>resp. fst (serve v (rack_gateway ge l j v' y d nrm vf) r s) = Some resp \<and> 400 \<le> rs_Status resp \<and>
    tabs (w_db (gs_world (snd (serve v (rack_gateway ge l j v' y d nrm vf) r s)))) = tabs (w_db (gs_world s))"
proof -
  let ?g = "rack_gateway ge l j v' y d nrm vf"
  have routed: "refuses (guarded ?g (rt_Access rt') (run_endpoint v ?g (rt_Endpoint rt')) x (r\<lparr>rq_Vars := vs\<rparr>))"
    if "find_route r = Some rt'" and x: "ctx_tenant (rx_Base x) = None" "rx_Scope x = None" for rt' vs and x :: rctx
  proof (rule behind_middleware [where P = refuses and g = ?g and r = r and vs = vs and x = x and a = "rt_Access rt'", OF _ _ x])
    fix x' :: rctx
    assume "authenticated (g_verifier ?g) r x'"
    then have c: "tenantIDFromContext (rx_Base x') = None" by (simp add: authenticated_def tenantIDFromContext_def)
    have neg: "refuses (handleAssetNegotiate v ?g x' q)" for q
      unfolding handleAssetNegotiate_def with_assets_def rack_parts option.case with_scope_def
      by (auto intro!: refuses_intro refuses_failing no_tenant_fails [OF c] simp: quota_exceeded_def asset_failure_def split: option.splits)
    have up: "refuses (handleAssetUpload ?g x' q)" for q
      unfolding handleAssetUpload_def with_assets_def rack_parts option.case with_scope_def Let_def
      by (auto intro!: refuses_intro refuses_failing no_tenant_fails [OF c] simp: quota_exceeded_def asset_failure_def split: option.splits)
    show "refuses (run_endpoint v ?g (rt_Endpoint rt') x' (r\<lparr>rq_Vars := vs\<rparr>))"
      using route that(1) by (auto simp: run_endpoint_def intro: neg up)
  next
    assume "rt_Access rt' = Public"
    then show "refuses (run_endpoint v ?g (rt_Endpoint rt') x (r\<lparr>rq_Vars := vs\<rparr>))"
      using public_route [OF find_route_registered [OF that(1)]] route that(1) by auto
  qed (simp add: refuses_intro)
  have none: "refuses (respond n [] NoBody)" if "find_route r = None" for n using that route(1) by simp
  obtain m i where "refuses m" "serve v ?g r s = (map_option (rs_Headers_update (\<lambda>hs. (HeaderCorrelationID, i) # hs)) (fst (m s)), snd (m s))"
    by (rule serving [where P = refuses and s = s, OF routed none])
  then show ?thesis unfolding refuses_def by fastforce
qed

end
