(* ===== verification/Gateway_Tenants.thy ===== *)
theory Gateway_Tenants
  imports Gateway_Claims Pg_Props Sync_Push_Done
begin

text \<open>
  Whose rows and files a request can change: the steps of every handler keep what belongs to another tenant than the
  one the request acts for.
\<close>

section \<open>What belongs to another tenant\<close>

text \<open>The rows of \<open>U\<close>, when the server's role is subject to row-level security, and the files below the scopes of \<open>U\<close>.\<close>

definition w_apart :: "cas_ext \<Rightarrow> path \<Rightarrow> string \<Rightarrow> world \<Rightarrow> world \<Rightarrow> bool" where
  "w_apart y d U w w' \<longleftrightarrow>
     (env_rls (env (w_db w)) \<longrightarrow> rows_of U (tabs (w_db w')) = rows_of U (tabs (w_db w)) \<and> env (w_db w') = env (w_db w)) \<and>
     (\<forall>s es. sc_tenant s = U \<longrightarrow> fs_files (w_fs w') (in_scope y d s es) = fs_files (w_fs w) (in_scope y d s es))"

interpretation ap: state_order "w_apart y d U" for y d U
  by unfold_locales (auto simp: w_apart_def)

lemma quiet_apart: "steps w_quiet m \<Longrightarrow> steps (w_apart y d U) m"
  by (simp add: steps_def w_apart_def w_quiet_def w_reads_def)

lemma apart_db: "T \<noteq> U \<Longrightarrow> iso.op_ok U T m \<Longrightarrow> steps (w_apart y d U) (on_db m)"
  unfolding steps_def w_apart_def iso.op_ok_def iso.kept_def
  by simp

lemma apart_writes:
  assumes T: "tenantIDFromContext c = Some T" "T \<noteq> U"
  shows "steps (w_apart y d U) (on_db (PutCommitWithFormat nrm c rid cid cm f))" "steps (w_apart y d U) (on_db (PutPackRangeWithFormat c rid h b t f))"
    "steps (w_apart y d U) (on_db (CompareAndSwapBranchRef c rid br b n))" "steps (w_apart y d U) (on_db (CreateBranch c rid br h))"
    "steps (w_apart y d U) (on_db (DeleteBranch c rid br))" "steps (w_apart y d U) (on_db (CreateWorkspace c n))"
    "steps (w_apart y d U) (on_db (AcquireMergeLease c lq))" "steps (w_apart y d U) (on_db (ReleaseMergeLease c rid br sb tok))"
    "steps (w_apart y d U) (on_db (ApplyMerge c am))"
  unfolding CreateWorkspace_def
  by (rule apart_db [OF T(2)], rule iso.PutCommitWithFormat_ok iso.PutPackRangeWithFormat_ok iso.CompareAndSwapBranchRef_ok iso.CreateBranch_ok
      iso.DeleteBranch_ok iso.CreateRepository_ok iso.AcquireMergeLease_ok iso.ReleaseMergeLease_ok iso.ApplyMerge_ok, rule T(1))+

text \<open>Without a tenant in the context the store answers with an error at once.\<close>

lemma no_tenant_quiet:
  assumes "tenantIDFromContext c = None"
  shows "on_db (AdmitAssetUpload c rid h n) w = (Inl (Wrapf ''postgres: admit asset upload'' (Wrapf ''postgres: tenant context'' (Pg ErrMissingTenantContext))), w)"
    "on_db (RegisterAsset c rid h n mt) w = (Inl (Wrapf ''postgres: register asset'' (Wrapf ''postgres: tenant context'' (Pg ErrMissingTenantContext))), w)"
    "on_db (ListMissingAssets c rid hs) w = (Inl (Wrapf ''postgres: list missing assets'' (Wrapf ''postgres: tenant context'' (Pg ErrMissingTenantContext))), w)"
    "on_db (GetAssetMetadata c rid h) w = (Inl (Wrapf ''postgres: get asset metadata'' (Wrapf ''postgres: tenant context'' (Pg ErrMissingTenantContext))), w)"
  unfolding AdmitAssetUpload_def RegisterAsset_def ListMissingAssets_def GetAssetMetadata_def
  by (simp_all add: with_tenant_None [OF assms] on_db_def)

lemma no_tenant_apart:
  assumes "tenantIDFromContext c = None"
  shows "steps (w_apart y d U) (on_db (AdmitAssetUpload c rid h n))" "steps (w_apart y d U) (on_db (RegisterAsset c rid h n mt))"
    "steps (w_apart y d U) (on_db (ListMissingAssets c rid hs))"
  by (simp_all add: steps_def no_tenant_quiet [OF assms] ap.refl)

section \<open>The files of another tenant\<close>

definition other_key :: "cas_ext \<Rightarrow> string \<Rightarrow> string \<Rightarrow> bool" where
  "other_key y T U \<longleftrightarrow> digest32 (blake3 y) \<and> scopeStorageKey (blake3 y) T \<noteq> scopeStorageKey (blake3 y) U"

lemma run_op_apart:
  assumes "other_key y (sc_tenant (op_scope p)) U" and "sc_tenant s = U"
  shows "fs_files (run_op y d p w) (in_scope y d s es) = fs_files w (in_scope y d s es)"
proof -
  have "in_scope y d s es \<notin> op_target y d p"
    using scope_dir_disjoint [of "blake3 y" d "op_scope p" _ s es] assms
    by (cases p) (auto simp: op_target_def file_defs other_key_def)
  then show ?thesis using run_op_unchanged [of y d p w] by (simp add: unchanged_def)
qed

lemma apart_files:
  assumes "other_key y (sc_tenant sc) U"
  shows "steps (w_apart y d U) (drv_Put (rack_driver y d) c sc h b)" "steps (w_apart y d U) (drv_WritePack (rack_driver y d) c sc h r)"
    "steps (w_apart y d U) (drv_WriteAsset (rack_driver y d) c sc h r)"
  using assms run_op_apart [of y "OpPut c sc h b" U] run_op_apart [of y "OpWritePack c sc h r" U] run_op_apart [of y "OpWriteAsset c sc h r" U]
  by (simp_all add: steps_def w_apart_def rack_driver_def)

lemma apart_looks:
  "steps (w_apart y d U) (drv_Get (rack_driver y d) c sc h)" "steps (w_apart y d U) (drv_AssetExists (rack_driver y d) c sc h)"
proof -
  show "steps (w_apart y d U) (drv_Get (rack_driver y d) c sc h)" by (rule quiet_apart [OF quiet_driver(2)])
  show "steps (w_apart y d U) (drv_AssetExists (rack_driver y d) c sc h)"
    unfolding rack_driver_def cas_driver.simps by (intro quiet_apart quiet_fs) (simp add: AssetExists_files)
qed


section \<open>Operations on behalf of a tenant\<close>

context state_order
begin

lemma steps_wrapped: "(\<And>z. q = Inr z \<Longrightarrow> steps R (f z)) \<Longrightarrow> steps R (ebind (ewrap s (elift q)) f)"
  by (cases q) (simp_all add: steps_def eff_run refl)

end

text \<open>\<open>U\<close> is another tenant than \<open>T\<close>, with another directory.\<close>

definition apart_from :: "cas_ext \<Rightarrow> string \<Rightarrow> string \<Rightarrow> bool" where
  "apart_from y T U \<longleftrightarrow> T \<noteq> U \<and> other_key y T U"

lemma apart_push:
  assumes a: "apart_from y (pq_TenantID q) U" and e: "pe_driver e = rack_driver y d" "pe_store e = rack_store nrm"
  shows "steps (w_apart y d U) (HandlePush x e c0 q)"
  unfolding HandlePush_split
proof (rule ap.steps_ebind, rule ap.steps_pure, rule ap.steps_wrapped, rule ap.steps_wrapped, rule ap.steps_ebind)
  fix c sc
  assume "bs_SetTenantContext (pe_store e) c0 (pq_TenantID q) = Inr c" and "NewScope (pq_TenantID q) (pq_RepoID q) = Inr sc"
  then have T: "tenantIDFromContext c = Some (pq_TenantID q)" and k: "other_key y (sc_tenant sc) U" and ne: "pq_TenantID q \<noteq> U"
    using a e by (auto simp: apart_from_def tenant_of_context scope_set)
  have w: "steps (w_apart y d U) (writePack x e c sc q)"
    unfolding writePack_def check_snapshot_def verifySnapshotAssets_def e by (intro ap.steps_intro apart_files [OF k] apart_looks)
  show "steps (w_apart y d U) (ewrap ''sync: push: write pack'' (writePack x e c sc q))" by (rule ap.steps_ewrap [OF w])
  show "steps (w_apart y d U) (after_pack x e c q base)" for base
    unfolding after_pack_def validateV2BaseFormat_def check_parents_def check_parent_def register_commit_def register_range_def
      advance_branch_def swap_branch_def Sync_Push.diagnoseNonFastForward_def e rack_store_simps option.case
    by (intro ap.steps_intro apart_writes [OF T ne] quiet_apart quiet_lookups quiet_graph)
qed


section \<open>Merging on behalf of a tenant\<close>

lemma quiet_fe_preview: "steps w_quiet (fe_preview l (rack_finalizer y d) c t r a b)"
  unfolding fe_preview_def rack_finalizer_simps option.map PreviewMerge_def NewPreviewEngine_def resolve_ends_def resolveCommitIdentity_def
    load_three_def DecodeSnapshot_def case_prod_unfold rack_merge_store_simps option.case fst_conv snd_conv prod.case
  by (intro qt.steps_pure qt.steps_ebind qt.steps_ecatch qt.steps_ewrap qt.steps_if qt.steps_sum qt.steps_option quiet_lookups quiet_graph quiet_driver)

lemma quiet_validate: "tenantIDFromContext c = Some T \<Longrightarrow> steps w_quiet (on_db (ValidateMergeLease c rid b s tk))"
  by (intro quiet_db store_reads)

lemma quiet_clock: "steps w_quiet (on_db go_now)"
  by (intro quiet_db go_now_reads)

lemma apart_three_way:
  assumes T: "tenantIDFromContext c = Some T" and a: "apart_from y T U"
  shows "steps (w_apart y d U) (merge_three_way x l j (rack_finalizer y d) (rack_driver y d) rack_merge_store c T rid q p)"
proof -
  have ne: "T \<noteq> U" using a by (simp add: apart_from_def)
  have pub: "steps (w_apart y d U) (publish_merge x l (rack_finalizer y d) (rack_driver y d) rack_merge_store c sc rid q p m)"
    if k: "other_key y (sc_tenant sc) U" for sc m
    unfolding publish_merge_def rack_merge_store_simps rack_finalizer_simps case_prod_unfold
    by (intro ap.steps_intro apart_files [OF k] apart_writes [OF T ne] quiet_apart [OF quiet_clock])
  have load: "steps (w_apart y d U) (load_three l (drv_Get (rack_driver y d)) c sc b s t)" for sc b s t
    unfolding load_three_def DecodeSnapshot_def option.case case_prod_unfold by (intro ap.steps_intro apart_looks)
  show ?thesis
    unfolding merge_three_way_def rack_merge_store_simps case_prod_unfold
    by (rule ap.steps_ebind, rule ap.steps_pure, rule ap.steps_ebind, rule ap.steps_ewrap, rule quiet_apart, rule quiet_validate, rule T,
        rule ap.steps_ebind, rule ap.steps_pure, rule ap.steps_ebind, rule ap.steps_pure, rule ap.steps_wrapped)
      (use a in \<open>auto simp: apart_from_def scope_set intro!: ap.steps_ebind load ap.steps_pure pub\<close>)
qed

lemma apart_merge:
  assumes a: "apart_from y t U"
  shows "steps (w_apart y d U) (AcquireLease l (Some (rack_finalizer y d)) (Some c0) t rid lq)"
    "steps (w_apart y d U) (ReleaseLease (Some (rack_finalizer y d)) (Some c0) t rid b s tok)"
    "steps (w_apart y d U) (Apply x l j (Some (rack_finalizer y d)) (Some c0) t rid aq)"
proof -
  have ne: "t \<noteq> U" using a by (simp add: apart_from_def)
  note set = tenant_of_context
  show "steps (w_apart y d U) (AcquireLease l (Some (rack_finalizer y d)) (Some c0) t rid lq)"
    unfolding AcquireLease_def option.case prod.case rack_finalizer_simps rack_merge_store_simps
    by (rule ap.steps_if, rule ap.steps_pure, rule ap.steps_ebind, rule quiet_apart, rule quiet_fe_preview,
        rule ap.steps_ebind, rule ap.steps_pure, rule ap.steps_wrapped, rule ap.steps_ewrap, rule apart_writes, erule set, rule ne)
  show "steps (w_apart y d U) (ReleaseLease (Some (rack_finalizer y d)) (Some c0) t rid b s tok)"
    unfolding ReleaseLease_def option.case prod.case rack_finalizer_simps rack_merge_store_simps
    by (rule ap.steps_if, rule ap.steps_pure, rule ap.steps_wrapped, rule ap.steps_ewrap, rule apart_writes, erule set, rule ne)
  show "steps (w_apart y d U) (Apply x l j (Some (rack_finalizer y d)) (Some c0) t rid aq)"
    unfolding Apply_def option.case prod.case rack_finalizer_simps rack_merge_store_simps fast_forward_def
    by (rule ap.steps_if, rule ap.steps_pure, rule ap.steps_ebind, rule quiet_apart, rule quiet_fe_preview, rule ap.steps_wrapped,
        rule ap.steps_if, intro ap.steps_ebind ap.steps_pure ap.steps_ewrap, rule apart_writes, erule set, rule ne,
        rule apart_three_way, erule set, rule a)
qed

section \<open>Assets\<close>

text \<open>The handlers hand the asset service the context of the request, which has no tenant for the stores.\<close>

lemma rack_assets_simps:
  "svc_driver (rack_assets y d) = Some (rack_driver y d)" "svc_store (rack_assets y d) = Some rack_asset_store"
  by (simp_all add: rack_assets_def NewService_def)

lemma rack_asset_store_simps:
  "az_AdmitAssetUpload rack_asset_store = (\<lambda>c r h n. on_db (AdmitAssetUpload c r h n))"
  "az_RegisterAsset rack_asset_store = (\<lambda>c r h n m. on_db (RegisterAsset c r h n m))"
  "az_ListMissingAssets rack_asset_store = (\<lambda>c r hs. on_db (ListMissingAssets c r hs))"
  "az_GetAssetMetadata rack_asset_store = (\<lambda>c r h. on_db (GetAssetMetadata c r h))"
  by (simp_all add: rack_asset_store_def)

lemma apart_assets:
  assumes c: "tenantIDFromContext c = None" and k: "other_key y (sc_tenant sc) U"
  shows "steps (w_apart y d U) (Negotiate ord (rack_assets y d) c sc q)" "steps (w_apart y d U) (Upload (rack_assets y d) c sc h n mt r)"
  unfolding Negotiate_def Upload_def rack_assets_simps rack_asset_store_simps admit_missing_def option.case prod.case Let_def
  by (intro ap.steps_intro no_tenant_apart [OF c] apart_files [OF k])+

section \<open>The writing handlers\<close>

lemma rack_push:
  obtains e where "g_push (rack_gateway ge l j v y d nrm vf) = Some e" "pe_driver e = rack_driver y d" "pe_store e = rack_store nrm"
  by (simp add: rack_gateway_def New_def rack_options_def SetMinPackFormatVersion_def NewPushEngine_def Let_def)

lemma apart_pushes:
  assumes a: "apart_from y (tenant_of x) U"
  shows "hsteps (w_apart y d U) (handlePush v (rack_gateway ge l j v' y d nrm vf) x r)"
proof -
  obtain e where e: "g_push (rack_gateway ge l j v' y d nrm vf) = Some e" "pe_driver e = rack_driver y d" "pe_store e = rack_store nrm"
    by (rule rack_push)
  have one: "hsteps (w_apart y d U) (push_pack v e x m part)" for m part
  proof -
    have "steps (w_apart y d U) (HandlePush (ge_contract v) e (rx_Base x) (push_request_of x m part))"
      by (rule apart_push [OF _ e(2,3)]) (use a in \<open>simp add: push_request_of_def\<close>)
    then show ?thesis unfolding push_pack_def rejectPush_def Let_def by (intro ap.hsteps_intro)
  qed
  have "hsteps (w_apart y d U) (push_parts v e x fin m saw parts)" for fin m saw parts
    by (induction parts arbitrary: m saw) (auto intro!: ap.hsteps_intro one split: option.splits sum.splits)
  then show ?thesis unfolding handlePush_def e option.case by (intro ap.hsteps_intro)
qed

lemma hsteps_context:
  "(\<And>c. bl_SetTenantContext st (rx_Base x) (tenant_of x) = Inr c \<Longrightarrow> hsteps (w_apart y d U) (k c)) \<Longrightarrow> hsteps (w_apart y d U) (branch_context st x k)"
  "(\<And>c. wk_SetTenantContext ws (rx_Base x) (tenant_of x) = Inr c \<Longrightarrow> hsteps (w_apart y d U) (k c)) \<Longrightarrow> hsteps (w_apart y d U) (workspace_context ws x k)"
  unfolding branch_context_def workspace_context_def by (auto simp: ap.hsteps_error split: sum.splits)

lemma apart_branches:
  assumes a: "apart_from y (tenant_of x) U" and g: "g = rack_gateway ge l j v' y d nrm vf"
  shows "hsteps (w_apart y d U) (handleCreateBranch v g x r)" "hsteps (w_apart y d U) (handleDeleteBranch v g x r)"
    "hsteps (w_apart y d U) (handleCreateWorkspace v g x r)"
proof -
  have ne: "tenant_of x \<noteq> U" using a by (simp add: apart_from_def)
  have T: "tenantIDFromContext c = Some (tenant_of x)" if "SetTenantContext (rx_Base x) (tenant_of x) = Inr c" for c
    using that by (rule tenant_of_context)
  note writes = apart_writes [OF T ne]
  have create: "hsteps (w_apart y d U) (create_branch_at v rack_lifecycle x c n h)" if "SetTenantContext (rx_Base x) (tenant_of x) = Inr c" for c n h
    unfolding create_branch_at_def rack_lifecycle_def lifecycle_store.simps by (intro ap.hsteps_intro writes [OF that])
  show "hsteps (w_apart y d U) (handleCreateBranch v g x r)"
    unfolding g handleCreateBranch_def with_branches_def rack_parts option.case Let_def
    by (intro ap.hsteps_json ap.hsteps_if ap.hsteps_error hsteps_context ap.hsteps_hcall ap.hsteps_sum quiet_apart create)
      (simp_all add: rack_lifecycle_def quiet_lookups)
  show "hsteps (w_apart y d U) (handleDeleteBranch v g x r)"
    unfolding g handleDeleteBranch_def with_branches_def rack_parts option.case Let_def
    by (intro ap.hsteps_if ap.hsteps_error hsteps_context ap.hsteps_hcall ap.hsteps_sum ap.hsteps_emit ap.hsteps_respond)
      (simp add: rack_lifecycle_def writes)
  show "hsteps (w_apart y d U) (handleCreateWorkspace v g x r)"
    unfolding g handleCreateWorkspace_def with_workspaces_def rack_parts option.case Let_def
    by (intro hsteps_context ap.hsteps_json ap.hsteps_if ap.hsteps_error ap.hsteps_hcall ap.hsteps_sum)
      (auto simp: rack_workspaces_def writes quiet_listings hsteps_def respond_def ap.refl intro: quiet_apart)
qed

lemma apart_merges:
  assumes a: "apart_from y (tenant_of x) U" and g: "g = rack_gateway ge l j v' y d nrm vf"
  shows "hsteps (w_apart y d U) (handleMergeLease v g x r)" "hsteps (w_apart y d U) (handleMergeApply v g x r)"
    "hsteps (w_apart y d U) (handleMergeLeaseRelease v g x r)"
  unfolding g handleMergeLease_def handleMergeApply_def handleMergeLeaseRelease_def rack_parts option.case finalizer_of_def finalizer.simps
    Let_def with_subject_def writeMergeError_def
  by (intro ap.hsteps_intro apart_merge [OF a])+

lemma apart_uploads:
  assumes a: "apart_from y (tenant_of x) U" and x: "ctx_tenant (rx_Base x) = None" "\<forall>sc. rx_Scope x = Some sc \<longrightarrow> sc_tenant sc = tenant_of x"
    and g: "g = rack_gateway ge l j v' y d nrm vf"
  shows "hsteps (w_apart y d U) (handleAssetNegotiate v g x r)" "hsteps (w_apart y d U) (handleAssetUpload g x r)"
proof -
  have c: "tenantIDFromContext (rx_Base x) = None" using x by (simp add: tenantIDFromContext_def)
  have sc: "(\<And>sc. rx_Scope x = Some sc \<Longrightarrow> other_key y (sc_tenant sc) U \<Longrightarrow> hsteps (w_apart y d U) (k sc)) \<Longrightarrow> hsteps (w_apart y d U) (with_scope x k)" for k
    using x a by (auto simp: with_scope_def ap.hsteps_error apart_from_def split: option.splits)
  show "hsteps (w_apart y d U) (handleAssetNegotiate v g x r)"
    unfolding g handleAssetNegotiate_def with_assets_def rack_parts option.case quota_exceeded_def asset_failure_def
    by (intro ap.hsteps_json sc ap.hsteps_hcall ap.hsteps_sum ap.hsteps_if ap.hsteps_error ap.hsteps_respond apart_assets [OF c])
  show "hsteps (w_apart y d U) (handleAssetUpload g x r)"
    unfolding g handleAssetUpload_def with_assets_def rack_parts option.case quota_exceeded_def asset_failure_def Let_def
    by (intro sc ap.hsteps_hcall ap.hsteps_sum ap.hsteps_if ap.hsteps_error ap.hsteps_respond apart_assets [OF c])
qed

text \<open>C1: A request stays within its tenant. Whatever it asks for, however it fails, serving it on the server's gateway
  leaves every row of another tenant \<open>U\<close> and every file below a scope of \<open>U\<close> as it was, when the server's role is
  subject to row-level security, the digests of the two tenants' names differ, and the request does not create a
  tenant. The tenant of a request is the one its header names and, without the header, the one of its verified
  claims.\<close>

theorem requests_stay_in_their_tenant:
  assumes rls: "env_rls (env (w_db (gs_world s)))" and z: "quiet_writer (ge_writer v)"
    and other: "\<And>c cred cl. ExtractCredential (rq_Headers r) = Inr cred \<Longrightarrow> vf c (cred_Token cred) = Inr cl \<Longrightarrow> apart_from y (requested_tenant r cl) U"
    and no_tenant: "\<And>rt. find_route r = Some rt \<Longrightarrow> rt_Endpoint rt \<noteq> CreateTenantR"
  shows "rows_of U (tabs (w_db (gs_world (snd (serve v (rack_gateway ge l j v y d nrm (Some vf)) r s))))) = rows_of U (tabs (w_db (gs_world s))) \<and>
    (\<forall>repo es. fs_files (w_fs (gs_world (snd (serve v (rack_gateway ge l j v y d nrm (Some vf)) r s)))) (in_scope y d \<lparr>sc_tenant = U, sc_repo = repo\<rparr> es) =
      fs_files (w_fs (gs_world s)) (in_scope y d \<lparr>sc_tenant = U, sc_repo = repo\<rparr> es))"
proof -
  let ?g = "rack_gateway ge l j v y d nrm (Some vf)"
  have quiet: "hsteps w_quiet m \<Longrightarrow> hsteps (w_apart y d U) m" for m
    by (simp add: hsteps_def w_quiet_def w_reads_def w_apart_def)
  have "hsteps (w_apart y d U) (serve v ?g r)"
  proof (rule ap.hsteps_serve_as)
    fix rt vs and x :: rctx
    assume found: "find_route r = Some rt" and x: "ctx_tenant (rx_Base x) = None" "rx_Scope x = None"
    show "hsteps (w_apart y d U) (guarded ?g (rt_Access rt) (run_endpoint v ?g (rt_Endpoint rt)) x (r\<lparr>rq_Vars := vs\<rparr>))"
    proof (rule ap.hsteps_authenticated [OF _ _ x])
      fix x' :: rctx
      assume "authenticated (g_verifier ?g) r x'"
      then have a: "apart_from y (tenant_of x') U" and b: "ctx_tenant (rx_Base x') = None"
        and c: "\<forall>sc. rx_Scope x' = Some sc \<longrightarrow> sc_tenant sc = tenant_of x'"
        using other by (auto simp: authenticated_def)
      note writes = apart_pushes [OF a] apart_branches [OF a HOL.refl] apart_merges [OF a HOL.refl] apart_uploads [OF a b c HOL.refl]
      show "hsteps (w_apart y d U) (run_endpoint v ?g (rt_Endpoint rt) x' (r\<lparr>rq_Vars := vs\<rparr>))"
      proof (cases "viewing (rt_Endpoint rt)")
        case True
        then show ?thesis by (rule quiet [OF viewing_reads [OF HOL.refl z]])
      next
        case False
        then show ?thesis using no_tenant [OF found]
          by (cases "rt_Endpoint rt"; simp only: viewing_simps run_endpoint_def endpoint.case writes not_True_eq_False)
      qed
    next
      assume "rt_Access rt = Public"
      then show "hsteps (w_apart y d U) (run_endpoint v ?g (rt_Endpoint rt) x (r\<lparr>rq_Vars := vs\<rparr>))"
        using route_table [OF find_route_registered [OF found]] unfolding modest_def
        by (intro quiet viewing_reads [OF HOL.refl z]) simp
    qed
  qed
  then show ?thesis using rls by (simp add: hsteps_def w_apart_def)
qed

end
