(* ===== verification/Sha256.thy ===== *)
theory Sha256
  imports Hex
begin

text \<open>
  Go's \<open>crypto/sha256\<close> (FIPS 180-4): padding, message schedule and compression on 32-bit words. The migrations are
  recorded under the checksum \<open>hex.EncodeToString(sha256.Sum256(sql))\<close>.
\<close>

text \<open>
  The constants are the first 32 bits of the fractional parts of cube roots (and, for the initial state, square roots) of
  the first primes: the low word of the integer root of the prime shifted by 32 bits for every power.
\<close>

fun integer_root :: "nat \<Rightarrow> nat \<Rightarrow> int \<Rightarrow> int \<Rightarrow> int" where
  "integer_root k 0 x r = r"
| "integer_root k (Suc b) x r = integer_root k b x (if (r + 2 ^ b) ^ k \<le> x then r + 2 ^ b else r)"

definition sha_constant :: "nat \<Rightarrow> int \<Rightarrow> uint32" where
  "sha_constant k p = word_of_int (integer_root k 40 (p * 2 ^ (32 * k)) 0)"

definition sha_primes :: "int list" where
  "sha_primes = filter (\<lambda>n. list_all (\<lambda>d. n mod d \<noteq> 0) [2..n - 1]) [2..311]"

definition sha256_K :: "uint32 list" where
  "sha256_K = map (sha_constant 3) sha_primes"

type_synonym sha_state = "uint32 \<times> uint32 \<times> uint32 \<times> uint32 \<times> uint32 \<times> uint32 \<times> uint32 \<times> uint32"

definition sha256_init :: sha_state where
  "sha256_init = (sha_constant 2 2, sha_constant 2 3, sha_constant 2 5, sha_constant 2 7, sha_constant 2 11, sha_constant 2 13,
     sha_constant 2 17, sha_constant 2 19)"

unbundle bit_operations_syntax

definition sha_small0 :: "uint32 \<Rightarrow> uint32" where
  "sha_small0 x = word_rotr 7 x XOR word_rotr 18 x XOR drop_bit 3 x"

definition sha_small1 :: "uint32 \<Rightarrow> uint32" where
  "sha_small1 x = word_rotr 17 x XOR word_rotr 19 x XOR drop_bit 10 x"

definition sha_big0 :: "uint32 \<Rightarrow> uint32" where
  "sha_big0 x = word_rotr 2 x XOR word_rotr 13 x XOR word_rotr 22 x"

definition sha_big1 :: "uint32 \<Rightarrow> uint32" where
  "sha_big1 x = word_rotr 6 x XOR word_rotr 11 x XOR word_rotr 25 x"

text \<open>The sixteen words of a block, most significant byte first, and their extension to sixty-four.\<close>

fun block_words :: "bytes \<Rightarrow> uint32 list" where
  "block_words (a # b # c # d # bs) =
     (((ucast a * 256 + ucast b) * 256 + ucast c) * 256 + ucast d) # block_words bs"
| "block_words _ = []"

fun schedule :: "nat \<Rightarrow> uint32 list \<Rightarrow> uint32 list" where
  "schedule 0 ws = ws"
| "schedule (Suc n) ws = (let t = length ws in
     schedule n (ws @ [sha_small1 (ws ! (t - 2)) + ws ! (t - 7) + sha_small0 (ws ! (t - 15)) + ws ! (t - 16)]))"

fun sha_round :: "uint32 \<times> uint32 \<Rightarrow> sha_state \<Rightarrow> sha_state" where
  "sha_round (k, w) (a, b, c, d, e, f, g, h) = (let
     t1 = h + sha_big1 e + ((e AND f) XOR (NOT e AND g)) + k + w;
     t2 = sha_big0 a + ((a AND b) XOR (a AND c) XOR (b AND c)) in
     (t1 + t2, a, b, c, d + t1, e, f, g))"

fun sha_add :: "sha_state \<Rightarrow> sha_state \<Rightarrow> sha_state" where
  "sha_add (a, b, c, d, e, f, g, h) (a', b', c', d', e', f', g', h') = (a + a', b + b', c + c', d + d', e + e', f + f', g + g', h + h')"

definition sha_block :: "bytes \<Rightarrow> sha_state \<Rightarrow> sha_state" where
  "sha_block bs s = sha_add s (fold sha_round (zip sha256_K (schedule 48 (block_words bs))) s)"

function sha_blocks :: "bytes \<Rightarrow> sha_state \<Rightarrow> sha_state" where
  "sha_blocks bs s = (if length bs < 64 then s else sha_blocks (drop 64 bs) (sha_block (take 64 bs) s))"
  by pat_completeness auto

termination by (relation "measure (\<lambda>(bs, s). length bs)") auto

declare sha_blocks.simps [simp del]

definition word_bytes :: "uint32 \<Rightarrow> bytes" where
  "word_bytes x = map (\<lambda>n. ucast (drop_bit n x)) [24, 16, 8, 0]"

text \<open>A one bit, zeros up to eight bytes short of a block, and the length in bits.\<close>

definition sha_pad :: "bytes \<Rightarrow> bytes" where
  "sha_pad m = (let bits = (word_of_nat (8 * length m) :: uint64) in
     m @ [0x80] @ replicate ((119 - length m mod 64) mod 64) 0 @
     word_bytes (ucast (drop_bit 32 bits)) @ word_bytes (ucast bits))"

fun sha_sum :: "sha_state \<Rightarrow> bytes" where
  "sha_sum (a, b, c, d, e, f, g, h) = concat (map word_bytes [a, b, c, d, e, f, g, h])"

definition sha256 :: "bytes \<Rightarrow> bytes" where
  "sha256 m = sha_sum (sha_blocks (sha_pad m) sha256_init)"

lemma length_sha_sum: "length (sha_sum s) = 32"
  by (induction s rule: sha_sum.induct) (simp add: word_bytes_def)

lemma length_sha256: "length (sha256 m) = 32"
  by (simp add: sha256_def length_sha_sum)

end
