(* ===== verification/Migrations.thy ===== *)
theory Migrations
  imports Go_Text Sha256
begin

text \<open>
  The migration files (\<open>postgres/migrate.go\<close>): their names, the lint that finds destructive statements, the directive that
  names a retirement, and the loader. The directory is a parameter: what \<open>fs.ReadDir\<close> lists and \<open>fs.ReadFile\<close> returns.
\<close>

section \<open>The patterns\<close>

text \<open>
  The regular expressions are sequences of letters (in either case), \<open>\\s+\<close>, \<open>\\S+\<close> and \<open>\\b\<close>. Case folding outside ASCII
  does not matter: the letters of the patterns are neither K nor S. Bytes of a character outside ASCII are neither space
  nor word characters, like the character.
\<close>

datatype re_item = Letter char | Spaces | NonSpaces | Bound

definition re_space :: "char \<Rightarrow> bool" where
  "re_space c \<longleftrightarrow> c \<in> {CHR 0x09, CHR 0x0A, CHR 0x0C, CHR 0x0D, CHR 0x20}"

definition word_char :: "char \<Rightarrow> bool" where
  "word_char c \<longleftrightarrow> CHR ''0'' \<le> c \<and> c \<le> CHR ''9'' \<or> CHR ''A'' \<le> c \<and> c \<le> CHR ''Z'' \<or> CHR ''a'' \<le> c \<and> c \<le> CHR ''z'' \<or> c = CHR ''_''"

text \<open>Between the character before, if any, and the text: exactly one side is a word character.\<close>

definition word_bound :: "char option \<Rightarrow> string \<Rightarrow> bool" where
  "word_bound prev s \<longleftrightarrow> (case prev of None \<Rightarrow> False | Some c \<Rightarrow> word_char c) \<noteq> (case s of [] \<Rightarrow> False | c # _ \<Rightarrow> word_char c)"

fun re_match :: "re_item list \<Rightarrow> char option \<Rightarrow> string \<Rightarrow> bool" where
  "re_match [] prev s = True"
| "re_match (Bound # ps) prev s = (word_bound prev s \<and> re_match ps prev s)"
| "re_match (Letter a # ps) prev (c # s) = (lower_char c = lower_char a \<and> re_match ps (Some c) s)"
| "re_match (Spaces # ps) prev (c # s) = (re_space c \<and> (re_match ps (Some c) s \<or> re_match (Spaces # ps) (Some c) s))"
| "re_match (NonSpaces # ps) prev (c # s) = (\<not> re_space c \<and> (re_match ps (Some c) s \<or> re_match (NonSpaces # ps) (Some c) s))"
| "re_match _ prev [] = False"

fun re_search :: "re_item list \<Rightarrow> char option \<Rightarrow> string \<Rightarrow> bool" where
  "re_search ps prev [] = re_match ps prev []"
| "re_search ps prev (c # s) = (re_match ps prev (c # s) \<or> re_search ps (Some c) s)"

definition re_word :: "string \<Rightarrow> re_item list" where
  "re_word w = map Letter w"

definition destructiveStatementPattern :: "re_item list list" where
  "destructiveStatementPattern = [
     [Bound] @ re_word ''DROP'' @ [Spaces] @ re_word ''TABLE'' @ [Bound],
     [Bound] @ re_word ''DROP'' @ [Spaces] @ re_word ''COLUMN'' @ [Bound],
     [Bound] @ re_word ''ALTER'' @ [Spaces] @ re_word ''COLUMN'' @ [Spaces, NonSpaces, Spaces] @ re_word ''TYPE'' @ [Bound],
     [Bound] @ re_word ''RENAME'' @ [Spaces] @ re_word ''COLUMN'' @ [Bound],
     [Bound] @ re_word ''RENAME'' @ [Spaces] @ re_word ''TO'' @ [Bound],
     [Bound] @ re_word ''TRUNCATE'' @ [Bound]]"

definition is_destructive :: "string \<Rightarrow> bool" where
  "is_destructive sql \<longleftrightarrow> list_ex (\<lambda>ps. re_search ps None sql) destructiveStatementPattern"

definition is_digit :: "char \<Rightarrow> bool" where
  "is_digit c \<longleftrightarrow> CHR ''0'' \<le> c \<and> c \<le> CHR ''9''"

text \<open>\<open>^(\\d+)_(.+)\\.sql$\<close>: the digits and the name.\<close>

definition migrationFileNamePattern :: "string \<Rightarrow> (string \<times> string) option" where
  "migrationFileNamePattern s =
     (let ds = takeWhile is_digit s; rest = dropWhile is_digit s; body = drop 1 rest; n = length body - 4 in
      if ds \<noteq> [] \<and> take 1 rest = ''_'' \<and> 0 < n \<and> drop n body = ''.sql'' \<and> CHR 0x0A \<notin> set (take n body)
      then Some (ds, take n body) else None)"

section \<open>A migration file\<close>

record migration =
  mg_Version :: uint64
  mg_Name :: string
  mg_FileName :: string
  mg_SQL :: string
  mg_Checksum :: string
  mg_Destructive :: bool
  mg_RetirementConfirmation :: string

definition destructiveDirectivePrefix :: string where
  "destructiveDirectivePrefix = ''-- destructive: requires-retirement=''"

fun split_lines :: "string \<Rightarrow> string list" where
  "split_lines [] = [[]]"
| "split_lines (c # s) = (if c = CHR 0x0A then [] # split_lines s
     else (case split_lines s of [] \<Rightarrow> [[c]] | l # ls \<Rightarrow> (c # l) # ls))"

definition directive_name :: "string \<Rightarrow> string option" where
  "directive_name line = (let trimmed = TrimSpace line in
     if HasPrefix trimmed destructiveDirectivePrefix then
       (let name = TrimSpace (TrimPrefix trimmed destructiveDirectivePrefix) in if name \<noteq> '''' then Some name else None)
     else None)"

definition destructiveConfirmationName :: "string \<Rightarrow> string option" where
  "destructiveConfirmationName sql = (case List.map_filter directive_name (split_lines sql) of [] \<Rightarrow> None | n # _ \<Rightarrow> Some n)"

definition checksumSQL :: "string \<Rightarrow> string" where
  "checksumSQL sql = hex_encode (sha256 (str_bytes sql))"

text \<open>\<open>strconv.ParseUint(s, 10, 64)\<close> of a nonempty string of digits: an error when the value does not fit.\<close>

definition ParseUint :: "string \<Rightarrow> goerr + uint64" where
  "ParseUint s = (let n = foldl (\<lambda>a c. 10 * a + (of_char c - 48)) 0 s :: nat in
     if n < 2 ^ 64 then Inr (word_of_nat n) else Inl (Ext ''value out of range''))"

section \<open>The loader\<close>

record mig_dir =
  mf_ReadDir :: "goerr + (string \<times> bool) list"
  mf_ReadFile :: "string \<Rightarrow> goerr + string"

definition load_migration :: "mig_dir \<Rightarrow> string \<times> bool \<Rightarrow> migration list \<Rightarrow> goerr + migration list" where
  "load_migration d en acc = (case en of (name, isDir) \<Rightarrow>
     if isDir then Inr acc
     else case migrationFileNamePattern name of
       None \<Rightarrow> Inl (Errorf ''postgres: migration file does not match required NNNN_name.sql naming'')
     | Some (digits, label) \<Rightarrow>
         rbind (rwrap (Wrapf ''postgres: migration file has an invalid version prefix'') (ParseUint digits)) (\<lambda>version.
         if unat version > 2 ^ 63 - 1 then Inl (Errorf ''postgres: migration file has a version prefix that exceeds the maximum supported value'')
         else if version \<in> mg_Version ` set acc then Inl (Errorf ''postgres: migration version used by both'')
         else rbind (rwrap (Wrapf ''postgres: read migration'') (mf_ReadFile d name)) (\<lambda>sql.
           let m = \<lparr>mg_Version = version, mg_Name = label, mg_FileName = name, mg_SQL = sql, mg_Checksum = checksumSQL sql,
                mg_Destructive = False, mg_RetirementConfirmation = ''''\<rparr> in
           if label \<noteq> ''baseline'' \<and> is_destructive sql then
             (case destructiveConfirmationName sql of
                None \<Rightarrow> Inl (Wrapf ''postgres: migration'' (Pg ErrDestructiveMigrationNotMarked))
              | Some confirmation \<Rightarrow> Inr (acc @ [m\<lparr>mg_Destructive := True, mg_RetirementConfirmation := confirmation\<rparr>]))
           else Inr (acc @ [m]))))"

definition loadMigrationsFromFS :: "mig_dir \<Rightarrow> goerr + migration list" where
  "loadMigrationsFromFS d =
     rbind (rwrap (Wrapf ''postgres: read migrations directory'') (mf_ReadDir d)) (\<lambda>entries.
     rbind (rfold entries [] (load_migration d)) (\<lambda>migrations.
     Inr (sort_key mg_Version migrations)))"

end
