(* ===== verification/Migrate.thy ===== *)
theory Migrate
  imports Migrations
begin

text \<open>
  The migration runner (\<open>postgres/migrate.go\<close>) over a database with the two tracking tables. What the SQL of a migration
  does to everything else in the database is a parameter \<open>exec\<close>; it is one statement of a transaction, so it applies
  whole or fails. Any statement may fail; a failing COMMIT may or may not have applied.
\<close>

section \<open>The database\<close>

record applied_row =
  ap_version :: int64
  ap_name :: string
  ap_checksum :: string

text \<open>The tracking tables do not exist before the first run.\<close>

record 's mig_tables =
  mt_schema :: 's
  mt_migrations :: "applied_row list option"
  mt_confirmed :: "(string \<times> string) list option"

record 's mig_db =
  md_tabs :: "'s mig_tables"
  md_calls :: nat
  md_fault :: "nat \<Rightarrow> bool"
  md_applied :: "nat \<Rightarrow> bool"

type_synonym 's sql_exec = "string \<Rightarrow> 's \<Rightarrow> goerr + 's"

definition mig_tick :: "'s mig_db \<Rightarrow> 's mig_db" where
  "mig_tick w = w\<lparr>md_calls := Suc (md_calls w)\<rparr>"

definition mig_sql :: "string \<Rightarrow> ('s mig_tables \<Rightarrow> goerr + 'a \<times> 's mig_tables) \<Rightarrow> ('s mig_db, 'a) eff" where
  "mig_sql s f w =
     (if md_fault w (md_calls w) then (Inl (Fault s), mig_tick w)
      else case f (md_tabs w) of Inl e \<Rightarrow> (Inl e, mig_tick w) | Inr (x, t) \<Rightarrow> (Inr x, (mig_tick w)\<lparr>md_tabs := t\<rparr>))"

definition undefined_table :: goerr where
  "undefined_table = Ext ''relation does not exist''"

definition bootstrapTrackingTablesSQL :: "('s mig_db, unit) eff" where
  "bootstrapTrackingTablesSQL = mig_sql ''bootstrap'' (\<lambda>t. Inr ((),
     t\<lparr>mt_migrations := Some (case mt_migrations t of None \<Rightarrow> [] | Some rs \<Rightarrow> rs),
       mt_confirmed := Some (case mt_confirmed t of None \<Rightarrow> [] | Some cs \<Rightarrow> cs)\<rparr>))"

section \<open>Connecting\<close>

record conn_config =
  cc_User :: string
  cc_Password :: string

record pgx_lib =
  px_ParseConfig :: "string \<Rightarrow> goerr + conn_config"
  px_ConnectConfig :: "conn_config \<Rightarrow> goerr + unit"

record migrateOptions =
  mo_tokenProvider :: "(ctx \<Rightarrow> goerr + string) option"
  mo_user :: string

definition WithMigrateTokenProvider :: "(ctx \<Rightarrow> goerr + string) option \<Rightarrow> migrateOptions \<Rightarrow> migrateOptions" where
  "WithMigrateTokenProvider tp = (\<lambda>o'. o'\<lparr>mo_tokenProvider := tp\<rparr>)"

definition WithMigrateUser :: "string \<Rightarrow> migrateOptions \<Rightarrow> migrateOptions" where
  "WithMigrateUser user = (\<lambda>o'. o'\<lparr>mo_user := user\<rparr>)"

definition migrate_options :: "(migrateOptions \<Rightarrow> migrateOptions) list \<Rightarrow> migrateOptions" where
  "migrate_options opts = fold (\<lambda>f. f) opts \<lparr>mo_tokenProvider = None, mo_user = ''''\<rparr>"

definition Connect :: "pgx_lib \<Rightarrow> ctx option \<Rightarrow> string \<Rightarrow> (migrateOptions \<Rightarrow> migrateOptions) list \<Rightarrow> ('w, unit) eff" where
  "Connect px c0 dsn opts = (case c0 of None \<Rightarrow> efail (Pg ErrNilContext) | Some c \<Rightarrow>
     (let options = migrate_options opts in
     ebind (ewrap ''postgres: parse dsn'' (elift (px_ParseConfig px dsn))) (\<lambda>config.
     let config' = (if mo_user options \<noteq> '''' then config\<lparr>cc_User := mo_user options\<rparr> else config) in
     ebind (case mo_tokenProvider options of None \<Rightarrow> eret config'
       | Some getToken \<Rightarrow> ebind (ewrap ''postgres: acquire token'' (elift (getToken c))) (\<lambda>token. eret (config'\<lparr>cc_Password := token\<rparr>))) (\<lambda>config''.
     ewrap ''postgres: connect'' (elift (px_ConnectConfig px config''))))))"

definition prefixedError :: "string \<Rightarrow> ('w, 'a) eff \<Rightarrow> ('w, 'a) eff" where
  "prefixedError prefix m = ewrap prefix m"

section \<open>Applying migrations\<close>

definition loadAppliedMigrations :: "('s mig_db, uint64 \<rightharpoonup> string) eff" where
  "loadAppliedMigrations = ewrap ''postgres: migrate: list applied migrations'' (mig_sql ''list'' (\<lambda>t.
     case mt_migrations t of None \<Rightarrow> Inl undefined_table
     | Some rs \<Rightarrow> Inr (map_of (rev (map (\<lambda>r. (ap_version r, ap_checksum r)) rs)), t)))"

definition isRetirementConfirmed :: "string \<Rightarrow> ('s mig_db, bool) eff" where
  "isRetirementConfirmed name = ewrap ''postgres: migrate: check retirement confirmation'' (mig_sql ''exists'' (\<lambda>t.
     case mt_confirmed t of None \<Rightarrow> Inl undefined_table | Some cs \<Rightarrow> Inr (name \<in> fst ` set cs, t)))"

definition row_of :: "migration \<Rightarrow> applied_row" where
  "row_of m = \<lparr>ap_version = mg_Version m, ap_name = mg_Name m, ap_checksum = mg_Checksum m\<rparr>"

definition record_migration :: "migration \<Rightarrow> ('s mig_db, unit) eff" where
  "record_migration m = mig_sql ''insert'' (\<lambda>t. case mt_migrations t of None \<Rightarrow> Inl undefined_table
     | Some rs \<Rightarrow> if mg_Version m \<in> ap_version ` set rs then Inl UniqueViolation
                 else Inr ((), t\<lparr>mt_migrations := Some (rs @ [row_of m])\<rparr>))"

text \<open>A transaction: what it did is undone unless it commits.\<close>

definition mig_commit :: "'s mig_db \<Rightarrow> ('s mig_db, unit) eff" where
  "mig_commit w0 w =
     (if md_fault w (md_calls w)
      then (Inl (Fault ''commit''), if md_applied w (md_calls w) then mig_tick w else (mig_tick w)\<lparr>md_tabs := md_tabs w0\<rparr>)
      else (Inr (), mig_tick w))"

definition mig_tx :: "('s mig_db, unit) eff \<Rightarrow> ('s mig_db, unit) eff" where
  "mig_tx fn w0 = (case ewrap ''begin transaction'' (mig_sql ''begin'' (\<lambda>t. Inr ((), t))) w0 of
       (Inl e, w) \<Rightarrow> (Inl e, w)
     | (Inr _, w) \<Rightarrow> (case fn w of
         (Inl e, w1) \<Rightarrow> (Inl e, w1\<lparr>md_tabs := md_tabs w0\<rparr>)
       | (Inr _, w1) \<Rightarrow> ewrap ''commit transaction'' (mig_commit w0) w1))"

definition applyMigration :: "'s sql_exec \<Rightarrow> migration \<Rightarrow> ('s mig_db, unit) eff" where
  "applyMigration exec m = ewrap ''postgres: migrate'' (mig_tx
     (ebind (ewrap ''apply'' (mig_sql ''apply'' (\<lambda>t. rbind (exec (mg_SQL m) (mt_schema t)) (\<lambda>s. Inr ((), t\<lparr>mt_schema := s\<rparr>))))) (\<lambda>_.
      ewrap ''record applied migration'' (record_migration m))))"

definition migrate_one :: "'s sql_exec \<Rightarrow> (uint64 \<rightharpoonup> string) \<Rightarrow> migration \<Rightarrow> string list \<Rightarrow> ('s mig_db, string list) eff" where
  "migrate_one exec applied m acc = (case applied (mg_Version m) of
       Some checksum \<Rightarrow>
         if checksum \<noteq> mg_Checksum m then efail (Wrapf ''postgres: migrate'' (Pg ErrMigrationChecksumMismatch)) else eret acc
     | None \<Rightarrow>
         ebind (if mg_Destructive m then
             ebind (isRetirementConfirmed (mg_RetirementConfirmation m)) (\<lambda>confirmed.
               eassert confirmed (Wrapf ''postgres: migrate'' (Pg ErrRetirementNotConfirmed)))
           else eret ()) (\<lambda>_.
         ebind (applyMigration exec m) (\<lambda>_. eret (acc @ [mg_FileName m]))))"

definition load_tracking :: "('s mig_db, uint64 \<rightharpoonup> string) eff" where
  "load_tracking =
     ebind (ewrap ''postgres: migrate: bootstrap tracking tables'' bootstrapTrackingTablesSQL) (\<lambda>_. loadAppliedMigrations)"

definition migrateWithMigrations :: "'s sql_exec \<Rightarrow> pgx_lib \<Rightarrow> ctx option \<Rightarrow> string \<Rightarrow> migration list \<Rightarrow>
    (migrateOptions \<Rightarrow> migrateOptions) list \<Rightarrow> ('s mig_db, string list) eff" where
  "migrateWithMigrations exec px c dsn migrations opts =
     ebind (prefixedError ''postgres: migrate: '' (Connect px c dsn opts)) (\<lambda>_.
     ebind load_tracking (\<lambda>applied.
     efold migrations [] (migrate_one exec applied)))"

definition MigrateAll :: "'s sql_exec \<Rightarrow> pgx_lib \<Rightarrow> mig_dir \<Rightarrow> ctx option \<Rightarrow> string \<Rightarrow> (migrateOptions \<Rightarrow> migrateOptions) list \<Rightarrow> ('s mig_db, string list) eff" where
  "MigrateAll exec px d c dsn opts =
     ebind (eassert (c \<noteq> None) (Pg ErrNilContext)) (\<lambda>_.
     ebind (elift (loadMigrationsFromFS d)) (\<lambda>migrations. migrateWithMigrations exec px c dsn migrations opts))"

definition upsert_confirmation :: "string \<Rightarrow> string \<Rightarrow> ('s mig_db, unit) eff" where
  "upsert_confirmation name note = mig_sql ''confirm'' (\<lambda>t. case mt_confirmed t of None \<Rightarrow> Inl undefined_table
     | Some cs \<Rightarrow> Inr ((), t\<lparr>mt_confirmed := Some (filter (\<lambda>c. fst c \<noteq> name) cs @ [(name, note)])\<rparr>))"

definition ConfirmRetirement :: "pgx_lib \<Rightarrow> ctx option \<Rightarrow> string \<Rightarrow> string \<Rightarrow> string \<Rightarrow> (migrateOptions \<Rightarrow> migrateOptions) list \<Rightarrow> ('s mig_db, unit) eff" where
  "ConfirmRetirement px c dsn name note opts =
     ebind (eassert (c \<noteq> None) (Pg ErrNilContext)) (\<lambda>_.
     ebind (eassert (name \<noteq> '''') (Errorf ''postgres: confirm retirement: name is required'')) (\<lambda>_.
     ebind (prefixedError ''postgres: confirm retirement: '' (Connect px c dsn opts)) (\<lambda>_.
     ebind (ewrap ''postgres: confirm retirement: bootstrap tracking tables'' bootstrapTrackingTablesSQL) (\<lambda>_.
     ewrap ''postgres: confirm retirement'' (upsert_confirmation name note)))))"

section \<open>Replicas\<close>

text \<open>
  Servers that migrate at start-up share the database. Each reads the recorded migrations once and then takes its list
  one migration at a time; the steps of different replicas interleave. A step applies at most one transaction.
\<close>

datatype replica = Waiting | Running "uint64 \<rightharpoonup> string" "migration list" "string list" | Finished "string list" | Broken goerr

inductive replica_step :: "'s sql_exec \<Rightarrow> migration list \<Rightarrow> 's mig_db \<times> (nat \<Rightarrow> replica) \<Rightarrow> 's mig_db \<times> (nat \<Rightarrow> replica) \<Rightarrow> bool"
  for exec :: "'s sql_exec" and ms :: "migration list" where
  starting: "rs i = Waiting \<Longrightarrow> load_tracking w = (Inr applied, w') \<Longrightarrow> replica_step exec ms (w, rs) (w', rs(i := Running applied ms []))"
| not_starting: "rs i = Waiting \<Longrightarrow> load_tracking w = (Inl e, w') \<Longrightarrow> replica_step exec ms (w, rs) (w', rs(i := Broken e))"
| migrating: "rs i = Running applied (m # rest) acc \<Longrightarrow> migrate_one exec applied m acc w = (Inr acc', w') \<Longrightarrow>
    replica_step exec ms (w, rs) (w', rs(i := Running applied rest acc'))"
| stopping: "rs i = Running applied (m # rest) acc \<Longrightarrow> migrate_one exec applied m acc w = (Inl e, w') \<Longrightarrow>
    replica_step exec ms (w, rs) (w', rs(i := Broken e))"
| finishing: "rs i = Running applied [] acc \<Longrightarrow> replica_step exec ms (w, rs) (w, rs(i := Finished acc))"

inductive replicas :: "'s sql_exec \<Rightarrow> migration list \<Rightarrow> 's mig_db \<Rightarrow> 's mig_db \<times> (nat \<Rightarrow> replica) \<Rightarrow> bool"
  for exec :: "'s sql_exec" and ms :: "migration list" and w0 :: "'s mig_db" where
  all_waiting: "replicas exec ms w0 (w0, \<lambda>_. Waiting)"
| one_more: "replicas exec ms w0 c \<Longrightarrow> replica_step exec ms c c' \<Longrightarrow> replicas exec ms w0 c'"

end
