(* ===== verification/Server_Main.thy ===== *)
theory Server_Main
  imports Gateway Migrate
begin

text \<open>
  The server process (\<open>cmd/spool-rack/main.go\<close>): what it reads from the environment, the migrations and the store it
  opens, the development tenant it seeds, and the options it starts the gateway with. What it calls on the way (the
  drivers, Azure, the listener) is a record of operations; \<open>log.Fatalf\<close> is an error, other log lines are left out.
\<close>

section \<open>Options of the store\<close>

text \<open>A token provider is its \<open>GetToken\<close>; the lifetime of connections is in nanoseconds.\<close>

record openOptions =
  oo_tokenProvider :: "(ctx \<Rightarrow> goerr + string) option"
  oo_user :: string
  oo_maxConnLifetime :: int64

definition WithTokenProvider :: "(ctx \<Rightarrow> goerr + string) option \<Rightarrow> openOptions \<Rightarrow> openOptions" where
  "WithTokenProvider tp = (\<lambda>o'. o'\<lparr>oo_tokenProvider := tp\<rparr>)"

definition WithUser :: "string \<Rightarrow> openOptions \<Rightarrow> openOptions" where
  "WithUser user = (\<lambda>o'. o'\<lparr>oo_user := user\<rparr>)"

definition WithMaxConnLifetime :: "int64 \<Rightarrow> openOptions \<Rightarrow> openOptions" where
  "WithMaxConnLifetime n = (\<lambda>o'. o'\<lparr>oo_maxConnLifetime := n\<rparr>)"

section \<open>Opening the store\<close>

text \<open>\<open>pgxpool\<close>: what parsing a DSN yields, and whether a pool can be made and answers.\<close>

record pool_config =
  pool_User :: string
  pool_Password :: string
  pool_MaxConnLifetime :: int64
  pool_BeforeConnect :: "(ctx \<Rightarrow> conn_config \<Rightarrow> goerr + conn_config) option"

record pool_lib =
  pool_ParseConfig :: "string \<Rightarrow> goerr + pool_config"
  pool_NewWithConfig :: "pool_config \<Rightarrow> goerr + unit"
  pool_Ping :: "pool_config \<Rightarrow> goerr + unit"

definition before_connect :: "string \<Rightarrow> (ctx \<Rightarrow> goerr + string) \<Rightarrow> ctx \<Rightarrow> conn_config \<Rightarrow> goerr + conn_config" where
  "before_connect user getToken c cc =
     rbind (rwrap (Wrapf ''postgres: acquire connection token'') (getToken c)) (\<lambda>t.
     Inr ((if user \<noteq> '''' then cc\<lparr>cc_User := user\<rparr> else cc)\<lparr>cc_Password := t\<rparr>))"

definition newPoolConfig :: "pool_lib \<Rightarrow> ctx \<Rightarrow> string \<Rightarrow> (openOptions \<Rightarrow> openOptions) list \<Rightarrow> goerr + pool_config" where
  "newPoolConfig pl c dsn opts = (let options = fold (\<lambda>f. f) opts \<lparr>oo_tokenProvider = None, oo_user = '''', oo_maxConnLifetime = 0\<rparr> in
     rbind (rwrap (Wrapf ''postgres: parse dsn'') (pool_ParseConfig pl dsn)) (\<lambda>cfg.
     let named = (if oo_user options \<noteq> '''' then cfg\<lparr>pool_User := oo_user options\<rparr> else cfg);
         lasting = (if 0 < sint (oo_maxConnLifetime options) then named\<lparr>pool_MaxConnLifetime := oo_maxConnLifetime options\<rparr>
           else if oo_tokenProvider options \<noteq> None then named\<lparr>pool_MaxConnLifetime := 45 * 60 * 1000000000\<rparr> else named) in
     case oo_tokenProvider options of None \<Rightarrow> Inr lasting
     | Some getToken \<Rightarrow>
         rbind (rwrap (Wrapf ''postgres: initial token'') (getToken c)) (\<lambda>token.
         Inr (lasting\<lparr>pool_Password := token, pool_BeforeConnect := Some (before_connect (oo_user options) getToken)\<rparr>))))"

definition Open_store :: "pool_lib \<Rightarrow> ctx option \<Rightarrow> string \<Rightarrow> (openOptions \<Rightarrow> openOptions) list \<Rightarrow> goerr + unit" where
  "Open_store pl c0 dsn opts = (case c0 of None \<Rightarrow> Inl (Pg ErrNilContext) | Some c \<Rightarrow>
     rbind (newPoolConfig pl c dsn opts) (\<lambda>cfg.
     rbind (rwrap (Wrapf ''postgres: connect'') (pool_NewWithConfig pl cfg)) (\<lambda>_.
     rwrap (Wrapf ''postgres: connect'') (pool_Ping pl cfg))))"

section \<open>What main calls\<close>

type_synonym environ = "string \<Rightarrow> string"

type_synonym token_source = "ctx \<Rightarrow> goerr + string"

record ('v, 'w) boot_calls =
  bc_NewLocalDriver :: "string \<Rightarrow> ('v, 'w cas_driver) eff"
  bc_ParseConfig :: "string \<Rightarrow> goerr + conn_config"
  bc_NewAzureTokenProvider :: "string \<Rightarrow> string \<Rightarrow> ('v, token_source) eff"
  bc_ParseDuration :: "string \<Rightarrow> goerr + int64"
  bc_Migrate :: "string \<Rightarrow> (migrateOptions \<Rightarrow> migrateOptions) list \<Rightarrow> ('v, string list) eff"
  bc_Seed :: "string \<Rightarrow> string \<Rightarrow> string \<Rightarrow> (migrateOptions \<Rightarrow> migrateOptions) list \<Rightarrow> ('v, unit) eff"
  bc_Open :: "string \<Rightarrow> (openOptions \<Rightarrow> openOptions) list \<Rightarrow> ('v, 'w branch_backend) eff"

text \<open>It migrated and ended, or it listens on a port with a gateway of these options.\<close>

datatype 'w boot = Exited | Serving string "'w gateway_options"

section \<open>The environment\<close>

definition defaultPort :: string where "defaultPort = ''8080''"

definition first_env :: "environ \<Rightarrow> string \<Rightarrow> string \<Rightarrow> string" where
  "first_env getenv a b = (if getenv a = '''' then getenv b else getenv a)"

definition isAzureAuth :: "string \<Rightarrow> bool" where
  "isAzureAuth authType \<longleftrightarrow> ToLower (TrimSpace authType) \<in>
     {''azure'', ''azure-identity'', ''azure-ad'', ''azure_ad'', ''entra'', ''workload-identity''}"

definition hasPasswordInDSN :: "('v, 'w) boot_calls \<Rightarrow> string \<Rightarrow> bool" where
  "hasPasswordInDSN bc dsn = (case bc_ParseConfig bc dsn of Inl _ \<Rightarrow> False | Inr cfg \<Rightarrow> cc_Password cfg \<noteq> '''')"

definition resolveMigrationUser :: "string \<Rightarrow> string \<Rightarrow> string \<Rightarrow> string \<Rightarrow> string" where
  "resolveMigrationUser migrationsUser appUser migrationsDSN postgresDSN =
     (if migrationsUser \<noteq> '''' then migrationsUser else if migrationsDSN = postgresDSN then appUser else '''')"

definition auth_type :: "environ \<Rightarrow> string" where
  "auth_type getenv = (let a = getenv ''POSTGRES_AUTH_TYPE'' in
     if a = '''' \<and> getenv ''POSTGRES_AZURE_AUTH'' \<in> {''true'', ''1''} then ''azure'' else a)"

definition migrations_auth_type :: "environ \<Rightarrow> ('v, 'w) boot_calls \<Rightarrow> string \<Rightarrow> string \<Rightarrow> string" where
  "migrations_auth_type getenv bc migrationsDSN postgresDSN = (let a = getenv ''POSTGRES_MIGRATIONS_AUTH_TYPE'' in
     if a \<noteq> '''' then a
     else if migrationsDSN \<noteq> postgresDSN \<and> hasPasswordInDSN bc migrationsDSN then ''password'' else auth_type getenv)"

definition DefaultAzurePostgresScope :: string where
  "DefaultAzurePostgresScope = ''https://ossrdbms-aad.database.windows.net/.default''"

definition azure_provider :: "environ \<Rightarrow> ('v, 'w) boot_calls \<Rightarrow> ('v, token_source) eff" where
  "azure_provider getenv bc = (let sc = getenv ''POSTGRES_AZURE_SCOPE'' in
     bc_NewAzureTokenProvider bc (first_env getenv ''POSTGRES_AZURE_CLIENT_ID'' ''AZURE_CLIENT_ID'')
       (if sc = '''' then DefaultAzurePostgresScope else sc))"

definition migrations_dsn :: "environ \<Rightarrow> string" where
  "migrations_dsn getenv = first_env getenv ''POSTGRES_MIGRATIONS_DSN'' ''POSTGRES_DSN''"

definition migration_user :: "environ \<Rightarrow> string" where
  "migration_user getenv = resolveMigrationUser (getenv ''POSTGRES_MIGRATIONS_USER'') (first_env getenv ''POSTGRES_USER'' ''POSTGRES_AZURE_USER'')
     (migrations_dsn getenv) (getenv ''POSTGRES_DSN'')"

definition runMigrations :: "environ \<Rightarrow> bool" where
  "runMigrations getenv \<longleftrightarrow> getenv ''POSTGRES_RUN_MIGRATIONS'' \<notin> {''false'', ''0'', ''no''} \<and>
     getenv ''POSTGRES_MIGRATIONS_ENABLED'' \<notin> {''false'', ''0'', ''no''}"

section \<open>The development tenant\<close>

definition devTenantVerifier :: "string \<Rightarrow> verifier" where
  "devTenantVerifier tenantID c rawToken =
     (if rawToken = '''' then Inl (Misc ErrInvalidToken)
      else Inr \<lparr>cm_TenantID = tenantID, cm_Role = RoleAdmin, cm_Subject = rawToken\<rparr>)"

text \<open>
  The two inserts run outside a transaction, as the migration role; whether row-level security applies to it is \<open>env_rls\<close>
  of the database they run on. \<open>ON CONFLICT (id) DO NOTHING\<close> passes over a row with the identifier; another row with the
  name is an error.
\<close>

definition seed_tenant :: "string \<Rightarrow> (db, unit) eff" where
  "seed_tenant i = sql ''seed tenant'' (\<lambda>w. let t = tabs w in
     if vis w i \<and> list_ex (\<lambda>q. t_id q = i) (tenants t) then Inr ((), t)
     else checked (vis w i) True (\<not> list_ex (\<lambda>q. t_name q = ''default'') (tenants t)) True
       ((), t\<lparr>tenants := tenants t @ [\<lparr>t_id = i, t_name = ''default'', t_created = env_dbclock (env w) (calls w), t_quota = 10737418240, t_used = 0\<rparr>]\<rparr>))"

definition seed_repository :: "string \<Rightarrow> string \<Rightarrow> (db, unit) eff" where
  "seed_repository i tenantID = sql ''seed repository'' (\<lambda>w. let t = tabs w in
     if vis w tenantID \<and> list_ex (\<lambda>q. r_id q = i) (repositories t) then Inr ((), t)
     else checked (vis w tenantID) True (\<not> list_ex (\<lambda>q. r_tenant q = tenantID \<and> r_name q = ''default'') (repositories t)) (has_tenant t tenantID)
       ((), t\<lparr>repositories := repositories t @ [\<lparr>r_id = i, r_tenant = tenantID, r_name = ''default'', r_created = env_dbclock (env w) (calls w), r_default = None\<rparr>]\<rparr>))"

definition seedDevTenant :: "pgx_lib \<Rightarrow> ctx option \<Rightarrow> string \<Rightarrow> string \<Rightarrow> string \<Rightarrow> (migrateOptions \<Rightarrow> migrateOptions) list \<Rightarrow> (db, unit) eff" where
  "seedDevTenant px c dsn tenantID repoID opts =
     ebind (Connect px c dsn opts) (\<lambda>_.
     ebind (ewrap ''seed tenant'' (seed_tenant tenantID)) (\<lambda>_.
     ewrap ''seed repository'' (seed_repository repoID tenantID)))"

text \<open>A warning is all a failing seed leaves behind.\<close>

definition seed_quietly :: "('v, 'w) boot_calls \<Rightarrow> string \<Rightarrow> string \<Rightarrow> string \<Rightarrow> (migrateOptions \<Rightarrow> migrateOptions) list \<Rightarrow> ('v, unit) eff" where
  "seed_quietly bc dsn tenantID repoID opts = ebind (etry (bc_Seed bc dsn tenantID repoID opts)) (\<lambda>_. eret ())"

section \<open>The stages of main\<close>

definition start_driver :: "environ \<Rightarrow> ('v, 'w) boot_calls \<Rightarrow> ('v, 'w cas_driver option) eff" where
  "start_driver getenv bc = (let casRoot = getenv ''CAS_ROOT'' in
     if casRoot = '''' then eret None
     else ebind (ewrap ''Failed to initialize CAS driver'' (bc_NewLocalDriver bc casRoot)) (\<lambda>d. eret (Some d)))"

definition start_azure :: "environ \<Rightarrow> ('v, 'w) boot_calls \<Rightarrow> ('v, token_source option) eff" where
  "start_azure getenv bc =
     (if isAzureAuth (auth_type getenv) \<or> isAzureAuth (migrations_auth_type getenv bc (migrations_dsn getenv) (getenv ''POSTGRES_DSN'')) then
        ebind (ewrap ''Failed to initialize Azure token provider'' (azure_provider getenv bc)) (\<lambda>tp. eret (Some tp))
      else eret None)"

definition migrate_opts :: "environ \<Rightarrow> ('v, 'w) boot_calls \<Rightarrow> token_source option \<Rightarrow> (migrateOptions \<Rightarrow> migrateOptions) list" where
  "migrate_opts getenv bc tp =
     (if isAzureAuth (migrations_auth_type getenv bc (migrations_dsn getenv) (getenv ''POSTGRES_DSN'')) then [WithMigrateTokenProvider tp] else []) @
     (if migration_user getenv \<noteq> '''' then [WithMigrateUser (migration_user getenv)] else [])"

definition open_opts :: "environ \<Rightarrow> ('v, 'w) boot_calls \<Rightarrow> token_source option \<Rightarrow> goerr + (openOptions \<Rightarrow> openOptions) list" where
  "open_opts getenv bc tp = (let dbUser = first_env getenv ''POSTGRES_USER'' ''POSTGRES_AZURE_USER'';
       lifetime = getenv ''POSTGRES_MAX_CONN_LIFETIME'';
       base = (if isAzureAuth (auth_type getenv) then [WithTokenProvider tp] else []) @ (if dbUser \<noteq> '''' then [WithUser dbUser] else []) in
     if lifetime = '''' then Inr base
     else rbind (rwrap (Wrapf ''Invalid POSTGRES_MAX_CONN_LIFETIME'') (bc_ParseDuration bc lifetime)) (\<lambda>n. Inr (base @ [WithMaxConnLifetime n])))"

text \<open>\<open>None\<close> when the process only migrates.\<close>

definition start_store :: "environ \<Rightarrow> ('v, 'w) boot_calls \<Rightarrow> ('v, 'w branch_backend option option) eff" where
  "start_store getenv bc =
     (if getenv ''POSTGRES_DSN'' = '''' \<and> getenv ''POSTGRES_MIGRATIONS_DSN'' = '''' then eret (Some None)
      else let postgresDSN = getenv ''POSTGRES_DSN''; migrationsDSN = migrations_dsn getenv in
        ebind (start_azure getenv bc) (\<lambda>tp.
        ebind (if runMigrations getenv \<and> migrationsDSN \<noteq> ''''
               then ewrap ''Failed to apply Postgres migrations'' (bc_Migrate bc migrationsDSN (migrate_opts getenv bc tp)) else eret []) (\<lambda>_.
        if getenv ''POSTGRES_MIGRATE_ONLY'' \<in> {''true'', ''1''} then
          ebind (if getenv ''DEV_TENANT_ID'' \<noteq> '''' \<and> getenv ''DEV_REPO_ID'' \<noteq> '''' \<and> migrationsDSN \<noteq> ''''
                 then seed_quietly bc migrationsDSN (getenv ''DEV_TENANT_ID'') (getenv ''DEV_REPO_ID'') (migrate_opts getenv bc tp) else eret ())
            (\<lambda>_. eret None)
        else if postgresDSN = '''' then eret (Some None)
        else ebind (elift (open_opts getenv bc tp)) (\<lambda>opts.
          ebind (ewrap ''Failed to open Postgres store'' (bc_Open bc postgresDSN opts)) (\<lambda>st. eret (Some (Some st)))))))"

text \<open>Here a token provider that cannot be had is only a warning.\<close>

definition seed_opts :: "environ \<Rightarrow> ('v, 'w) boot_calls \<Rightarrow> ('v, (migrateOptions \<Rightarrow> migrateOptions) list) eff" where
  "seed_opts getenv bc = (let user = (if migration_user getenv \<noteq> '''' then [WithMigrateUser (migration_user getenv)] else []) in
     if isAzureAuth (migrations_auth_type getenv bc (migrations_dsn getenv) (getenv ''POSTGRES_DSN'')) then
       ebind (etry (azure_provider getenv bc)) (\<lambda>r. eret ((case r of Inl _ \<Rightarrow> [] | Inr tp \<Rightarrow> [WithMigrateTokenProvider (Some tp)]) @ user))
     else eret user)"

definition start_dev :: "environ \<Rightarrow> ('v, 'w) boot_calls \<Rightarrow> ('v, verifier option) eff" where
  "start_dev getenv bc = (let devTenantID = getenv ''DEV_TENANT_ID''; devRepoID = getenv ''DEV_REPO_ID''; migrationsDSN = migrations_dsn getenv in
     if devTenantID = '''' then eret None
     else ebind (if devRepoID \<noteq> '''' \<and> migrationsDSN \<noteq> ''''
            then ebind (seed_opts getenv bc) (\<lambda>opts. seed_quietly bc migrationsDSN devTenantID devRepoID opts) else eret ())
       (\<lambda>_. eret (Some (devTenantVerifier devTenantID))))"

definition main :: "environ \<Rightarrow> ('v, 'w) boot_calls \<Rightarrow> ('v, 'w boot) eff" where
  "main getenv bc = (let port = (if getenv ''PORT'' = '''' then defaultPort else getenv ''PORT'') in
     ebind (start_driver getenv bc) (\<lambda>driver.
     ebind (start_store getenv bc) (\<lambda>store. case store of
       None \<Rightarrow> eret Exited
     | Some st \<Rightarrow> ebind (start_dev getenv bc) (\<lambda>vf.
         eret (Serving port \<lparr>go_verifier = vf, go_driver = driver, go_store = st, go_preview = None, go_merge = None, go_assets = None,
           go_branches = None, go_workspaces = (case st of None \<Rightarrow> None | Some b \<Rightarrow> bb_workspaces b),
           go_packWindow = None, go_indexWindow = None, go_manifestWindow = None\<rparr>)))))"

section \<open>The process on the model's own components\<close>

text \<open>The server's files and tables, and the database as the migrations see it.\<close>

record 's boot_world =
  bw_rack :: world
  bw_mig :: "'s mig_db"

definition on_rack :: "(world, 'a) eff \<Rightarrow> ('s boot_world, 'a) eff" where
  "on_rack m w = (case m (bw_rack w) of (r, x) \<Rightarrow> (r, w\<lparr>bw_rack := x\<rparr>))"

definition on_mig :: "('s mig_db, 'a) eff \<Rightarrow> ('s boot_world, 'a) eff" where
  "on_mig m w = (case m (bw_mig w) of (r, x) \<Rightarrow> (r, w\<lparr>bw_mig := x\<rparr>))"

definition rack_backend :: "(commit \<Rightarrow> goerr + commit) \<Rightarrow> world branch_backend" where
  "rack_backend nrm = \<lparr>bb_store = rack_store nrm, bb_metadata = Some (metadata_store.truncate rack_merge_store), bb_merge = Some rack_merge_store,
     bb_branches = Some rack_lifecycle, bb_workspaces = Some rack_workspaces, bb_assets = Some rack_asset_store\<rparr>"

definition rack_calls :: "'s sql_exec \<Rightarrow> mig_dir \<Rightarrow> pgx_lib \<Rightarrow> pool_lib \<Rightarrow> (string \<Rightarrow> string \<Rightarrow> goerr + token_source) \<Rightarrow> (string \<Rightarrow> goerr + int64) \<Rightarrow>
    (string \<Rightarrow> path) \<Rightarrow> cas_ext \<Rightarrow> (commit \<Rightarrow> goerr + commit) \<Rightarrow> ctx \<Rightarrow> ('s boot_world, world) boot_calls" where
  "rack_calls exec d px pl azure dur path y nrm c = \<lparr>
     bc_NewLocalDriver = (\<lambda>root. on_rack (on_fs (ebind (NewLocalDriver (path root)) (\<lambda>p. eret (rack_driver y p))))),
     bc_ParseConfig = px_ParseConfig px,
     bc_NewAzureTokenProvider = (\<lambda>i sc. elift (azure i sc)),
     bc_ParseDuration = dur,
     bc_Migrate = (\<lambda>dsn opts. on_mig (MigrateAll exec px d (Some c) dsn opts)),
     bc_Seed = (\<lambda>dsn t r opts. on_rack (on_db (seedDevTenant px (Some c) dsn t r opts))),
     bc_Open = (\<lambda>dsn opts. elift (rbind (Open_store pl (Some c) dsn opts) (\<lambda>_. Inr (rack_backend nrm))))\<rparr>"

lemma rack_backend_options: "go_store (rack_options y d nrm vf) = Some (rack_backend nrm)"
  by (simp add: rack_options_def rack_backend_def)

section \<open>Who may call the server\<close>

lemma start_dev_verifier:
  "start_dev getenv bc w = (Inr vf, w') \<Longrightarrow> vf = (if getenv ''DEV_TENANT_ID'' = '''' then None else Some (devTenantVerifier (getenv ''DEV_TENANT_ID'')))"
  by (auto simp: start_dev_def Let_def eret_def ebind_Inr_iff split: if_splits)

lemma main_verifier:
  assumes "main getenv bc w = (Inr (Serving port opts), w')"
  shows "go_verifier opts = (if getenv ''DEV_TENANT_ID'' = '''' then None else Some (devTenantVerifier (getenv ''DEV_TENANT_ID'')))"
proof -
  obtain driver store w1 w2 where "(case store of None \<Rightarrow> eret Exited | Some st \<Rightarrow> ebind (start_dev getenv bc) (\<lambda>vf.
         eret (Serving (if getenv ''PORT'' = '''' then defaultPort else getenv ''PORT'')
           \<lparr>go_verifier = vf, go_driver = driver, go_store = st, go_preview = None, go_merge = None, go_assets = None,
           go_branches = None, go_workspaces = (case st of None \<Rightarrow> None | Some b \<Rightarrow> bb_workspaces b),
           go_packWindow = None, go_indexWindow = None, go_manifestWindow = None\<rparr>))) w2 = (Inr (Serving port opts), w')"
    using assms unfolding main_def Let_def ebind_Inr_iff by blast
  then show ?thesis by (cases store) (auto simp: ebind_Inr_iff eret_def dest!: start_dev_verifier)
qed

text \<open>C38: The server that \<open>main\<close> starts takes every caller with a bearer token for an administrator. Whatever the environment,
  if it serves, a request with any well-formed credential passes the authentication and every role check of its
  gateway, for the tenant its header names if there is one; only the subject depends on the token.\<close>

theorem any_token_is_admin:
  assumes "main getenv bc w = (Inr (Serving port opts), w')" and "ExtractCredential (rq_Headers r) = Inr cred"
    and "role \<in> {RoleViewer, RoleContributor, RoleAdmin}"
  shows "\<exists>cl. Authenticate (g_verifier (New now getenv l j v opts)) (RequireRole role h) x r =
      h (x\<lparr>rx_Credential := Some cred, rx_Claims := Some cl, rx_TenantID := Some (cm_TenantID cl)\<rparr>) r \<and>
    cm_Role cl = RoleAdmin \<and> cm_Subject cl = cred_Token cred \<and>
    cm_TenantID cl = (if header_Get (rq_Headers r) HeaderTenantID \<noteq> '''' then header_Get (rq_Headers r) HeaderTenantID else getenv ''DEV_TENANT_ID'')"
proof -
  let ?dev = "\<lparr>cm_TenantID = getenv ''DEV_TENANT_ID'', cm_Role = RoleAdmin, cm_Subject = cred_Token cred\<rparr>"
  have "cred_Token cred \<noteq> ''''" by (rule credential_nonempty [OF assms(2)])
  then have "g_verifier (New now getenv l j v opts) (rx_Base x) (cred_Token cred) = Inr ?dev"
    using main_verifier [OF assms(1)] by (simp add: New_def Let_def devTenantVerifier_def PermissiveVerifier_def)
  moreover have "Satisfies RoleAdmin role" using assms(3) by (auto simp: Satisfies_table)
  ultimately show ?thesis
    using assms(2)
    by (intro exI [of _ "if header_Get (rq_Headers r) HeaderTenantID \<noteq> '''' then ?dev\<lparr>cm_TenantID := header_Get (rq_Headers r) HeaderTenantID\<rparr> else ?dev"])
      (auto simp: Authenticate_def Let_def RequireRole_def RoleFromContext_def)
qed

end
