(* ===== verification/Server_Samples.thy ===== *)
theory Server_Samples
  imports Gateway_Tenants Review_Samples Server_Main
begin

text \<open>The claims about the server at concrete inputs.\<close>

section \<open>The audit trail\<close>

lemma run_step: "audit_run l as l' \<Longrightarrow> audit_step l' a l'' \<Longrightarrow> audit_run l (as @ [a]) l''"
  by (rule audit_run.extend_run)

definition sample_trace :: "audit_act list" where
  "sample_trace = [Emitted (some_event ''push'') True, Received, Emitted (some_event ''pull'') True, Recorded (some_event ''push''), Closed, Received,
     Failed (some_event ''pull''), Ended]"

definition sample_logger :: audit_logger where
  "sample_logger = \<lparr>lg_sink = True, lg_queue = [], lg_flight = None, lg_events = [some_event ''push''], lg_closed = True, lg_done = True\<rparr>"

lemma sample_audit_run: "audit_run (NewLogger True) sample_trace sample_logger"
proof -
  let ?p = "some_event ''push''" and ?q = "some_event ''pull''"
  let ?l = "\<lambda>q f es c. \<lparr>lg_sink = True, lg_queue = q, lg_flight = f, lg_events = es, lg_closed = c, lg_done = False\<rparr>"
  have emit: "audit_step (?l q f es False) (Emitted e True) (?l (q @ [e]) f es False)" if "ev_Timestamp e = 5" "length q < 256" for q f es e
    using audit_step.emitting [of "?l q f es False" 0 e] that by (simp add: stamped_def accepts_def Emit_def defaultBufferSize_def)
  have t: "ev_Timestamp (some_event a) = 5" for a by (simp add: some_event_def)
  have "audit_run (NewLogger True) [] (?l [] None [] False)"
    using audit_run.start [of "NewLogger True"] by (simp add: NewLogger_def)
  from run_step [OF this emit [of ?p]] have "audit_run (NewLogger True) [Emitted ?p True] (?l [?p] None [] False)" by (simp add: t)
  from run_step [OF this audit_step.receiving] have "audit_run (NewLogger True) [Emitted ?p True, Received] (?l [] (Some ?p) [] False)" by simp
  from run_step [OF this emit [of ?q]]
  have "audit_run (NewLogger True) [Emitted ?p True, Received, Emitted ?q True] (?l [?q] (Some ?p) [] False)" by (simp add: t)
  from run_step [OF this audit_step.recording]
  have "audit_run (NewLogger True) [Emitted ?p True, Received, Emitted ?q True, Recorded ?p] (?l [?q] None [?p] False)" by (simp add: sink_Record_def)
  from run_step [OF this audit_step.closing]
  have "audit_run (NewLogger True) [Emitted ?p True, Received, Emitted ?q True, Recorded ?p, Closed] (?l [?q] None [?p] True)"
    by (simp add: CloseLogger_def)
  from run_step [OF this audit_step.receiving]
  have "audit_run (NewLogger True) [Emitted ?p True, Received, Emitted ?q True, Recorded ?p, Closed, Received] (?l [] (Some ?q) [?p] True)" by simp
  from run_step [OF this audit_step.failing]
  have "audit_run (NewLogger True) [Emitted ?p True, Received, Emitted ?q True, Recorded ?p, Closed, Received, Failed ?q] (?l [] None [?p] True)" by simp
  from run_step [OF this audit_step.ending] show ?thesis by (simp add: sample_trace_def sample_logger_def)
qed

theorem audit_trail_is_what_was_accepted_witness:
  "accepted sample_trace = [some_event ''push'', some_event ''pull''] \<and> handled sample_trace = accepted sample_trace \<and>
    sink_Events sample_logger = [some_event ''push'']"
  using audit_trail_is_what_was_accepted [OF sample_audit_run] by (simp add: sample_trace_def sample_logger_def trace_defs)

section \<open>A server\<close>

text \<open>The gateway over the tables of the sample repository; bodies do not decode, and the response writer is silent.\<close>

definition mute :: "(world, unit) eff" where "mute = eret ()"

definition sample_json :: gateway_json where
  "sample_json = \<lparr>gj_merge = (\<lambda>_. Inl (Ext '''')), gj_apply = (\<lambda>_. Inl (Ext '''')), gj_release = (\<lambda>_. Inl (Ext '''')), gj_branch = (\<lambda>_. Inl (Ext '''')),
     gj_name = (\<lambda>_. Inl (Ext '''')), gj_negotiate = (\<lambda>_. Inl (Ext '''')), gj_push = (\<lambda>_ _. Inl (Ext ''''))\<rparr>"

definition server_env :: "world gateway_env" where
  "server_env = \<lparr>ge_json = sample_json, ge_contract = push_lib (push_frame 2 head_id),
     ge_manifest = \<lparr>cbor_enc_manifest = (\<lambda>_. Inr []), cbor_dec_manifest = (\<lambda>_. Inl (Ext ''''))\<rparr>,
     ge_writer = \<lparr>zw_new = mute, zw_write = (\<lambda>_. mute), zw_close = mute\<rparr>, ge_frames = (\<lambda>fs. fs), ge_hashes = (\<lambda>hs. hs), ge_fuel = 1,
     ge_serve = (\<lambda>_ _ b. (200, [], b)), ge_PackFormatVersion = 1, ge_PackIndexFormatVersion = 1, ge_PackManifestFormatVersion = 1\<rparr>"

definition sample_role :: "string \<Rightarrow> verifier" where
  "sample_role role = NewStaticVerifier [''tok'' \<mapsto> \<lparr>cm_TenantID = ''a'', cm_Role = role, cm_Subject = ''s''\<rparr>]"

definition sample_server :: "string \<Rightarrow> world gateway" where
  "sample_server role = rack_gateway (\<lambda>_. '''') any_lib no_json server_env wit_lib push_root Inr (Some (sample_role role))"

definition sample_state :: "world gstate" where
  "sample_state = \<lparr>gs_world = push_world, gs_audit = NewLogger True, gs_now = 0, gs_random = None\<rparr>"

definition sample_request :: "string \<Rightarrow> string list \<Rightarrow> (string \<times> string) list \<Rightarrow> request" where
  "sample_request m p hs = \<lparr>rq_Method = m, rq_Path = p, rq_Vars = [], rq_Query = [], rq_Headers = (''Authorization'', ''Bearer tok'') # hs,
     rq_Body = \<lparr>rd_data = [], rd_err = None\<rparr>, rq_ContentLength = 0, rq_Multipart = None, rq_Err = None\<rparr>"

definition push_to :: "(string \<times> string) list \<Rightarrow> request" where
  "push_to hs = sample_request ''POST'' [''api'', ''v1'', ''repos'', ''r'', ''push''] hs"

definition upload_to :: request where
  "upload_to = sample_request ''PUT'' [''api'', ''v1'', ''repos'', ''r'', ''assets'', ''blobs'', ''h''] []"

lemma sample_quiet: "quiet_writer (ge_writer server_env)"
  by (simp add: quiet_writer_def server_env_def mute_def steps_def eret_def qt.refl)

lemma spaces_miss:
  assumes "take 1 s = [c]" "c \<in> set ''Btkrn''"
  shows "list_all (\<lambda>p. take (length p) s \<noteq> p) go_spaces" "list_all (\<lambda>p. take (length p) s \<noteq> p) (map rev go_spaces)"
proof -
  obtain ss where "s = c # ss" using assms(1) by (cases s) auto
  then show "list_all (\<lambda>p. take (length p) s \<noteq> p) go_spaces" "list_all (\<lambda>p. take (length p) s \<noteq> p) (map rev go_spaces)"
    using assms(2) by (auto simp: go_spaces_def char_of_def bit_0)
qed

lemma trim_miss: "list_all (\<lambda>p. take (length p) s \<noteq> p) sp \<Longrightarrow> trim_left sp s = s"
  by (rule trim_left_None) (auto simp: find_None_iff list_all_iff)

lemma sample_words:
  "TrimSpace ''Bearer tok'' = ''Bearer tok''" "TrimSpace ''tok'' = ''tok''" "ToLower ''Bearer'' = ''bearer''"
  by (simp_all add: TrimSpace_def trim_miss spaces_miss ToLower_def lower_char_def less_eq_char_def char_of_def bit_0)

lemma sample_credential: "ExtractCredential (rq_Headers (sample_request m p hs)) = Inr \<lparr>cred_Kind = CredentialKindBearer, cred_Token = ''tok''\<rparr>"
proof -
  have "header_Values ((''Authorization'', ''Bearer tok'') # hs) ''Authorization'' = ''Bearer tok'' # header_Values hs ''Authorization''"
    by (simp add: header_Values_def)
  then show ?thesis by (simp add: ExtractCredential_def sample_request_def cut_space_def sample_words)
qed

lemma sample_verified: "sample_role role c ''tok'' = Inr cl \<longleftrightarrow> cl = \<lparr>cm_TenantID = ''a'', cm_Role = role, cm_Subject = ''s''\<rparr>"
  by (auto simp: sample_role_def NewStaticVerifier_def)

lemma sample_routes:
  "find_route (push_to hs) = Some (route_of POST (api @ [Lit ''repos'', Var ''repo''] @ [Lit ''push'']) (RepoRole RoleContributor) PushR)"
  "find_route upload_to = Some (route_of PUT (api @ [Lit ''repos'', Var ''repo''] @ [Lit ''assets'', Lit ''blobs'', Var ''hash'']) (RepoRole RoleContributor) UploadR)"
  by (simp_all add: find_route_def registerRoutes_def repo_routes_def route_of_def api_def push_to_def upload_to_def sample_request_def
    method_ok_def)

section \<open>The claims\<close>

theorem viewers_change_nothing_witness:
  "tabs (w_db (gs_world (snd (serve server_env (sample_server RoleViewer) (push_to []) sample_state)))) = push_tabs \<and>
   fs_files (w_fs (gs_world (snd (serve server_env (sample_server RoleViewer) (push_to []) sample_state)))) = fs_files push_fs"
proof -
  have "only_reads (sample_role RoleViewer) (push_to [])"
    unfolding only_reads_def push_to_def
    by (simp add: sample_credential sample_verified Satisfies_table) (simp add: RoleViewer_def RoleContributor_def RoleAdmin_def)
  from viewers_change_nothing [OF this sample_quiet] show ?thesis
    by (simp add: sample_server_def sample_state_def push_world_def push_db_def)
qed

theorem tenant_header_decides_witness:
  "serve server_env ((sample_server RoleAdmin)\<lparr>g_verifier := relabelled ''u'' (sample_role RoleAdmin)\<rparr>) (push_to [(HeaderTenantID, ''b'')]) =
   serve server_env (sample_server RoleAdmin) (push_to [(HeaderTenantID, ''b'')])"
proof -
  have "header_Get (rq_Headers (push_to [(HeaderTenantID, ''b'')])) HeaderTenantID \<noteq> ''''" by code_simp
  from tenant_header_decides [where T = "''u''" and g = "sample_server RoleAdmin", OF this] show ?thesis
    by (simp add: sample_server_def rack_parts)
qed


theorem asset_writes_never_succeed_witness:
  "\<exists>resp. fst (serve server_env (sample_server RoleAdmin) upload_to sample_state) = Some resp \<and> 400 \<le> rs_Status resp"
proof -
  have "rt_Endpoint (route_of PUT (api @ [Lit ''repos'', Var ''repo''] @ [Lit ''assets'', Lit ''blobs'', Var ''hash'']) (RepoRole RoleContributor) UploadR)
      \<in> {NegotiateR, UploadR}" by (simp add: route_of_def)
  from asset_writes_never_succeed [OF sample_routes(2) this] show ?thesis unfolding sample_server_def by blast
qed

theorem requests_stay_in_their_tenant_witness:
  "rows_of ''b'' (tabs (w_db (gs_world (snd (serve server_env (sample_server RoleAdmin) (push_to []) sample_state))))) = rows_of ''b'' push_tabs"
proof -
  have a: "apart_from wit_lib ''a'' ''b''" using wit_digest32 wit_keys by (simp add: apart_from_def other_key_def)
  have h: "header_Get (rq_Headers (push_to [])) HeaderTenantID = ''''" by code_simp
  have "rows_of ''b'' (tabs (w_db (gs_world (snd (serve server_env (sample_server RoleAdmin) (push_to []) sample_state))))) =
      rows_of ''b'' (tabs (w_db (gs_world sample_state)))"
    unfolding sample_server_def
  proof (rule requests_stay_in_their_tenant [THEN conjunct1])
    show "env_rls (env (w_db (gs_world sample_state)))" by (simp add: sample_state_def push_world_def push_db_def)
    show "apart_from wit_lib (requested_tenant (push_to []) cl) ''b''"
      if "ExtractCredential (rq_Headers (push_to [])) = Inr cred" "sample_role RoleAdmin c (cred_Token cred) = Inr cl" for c cred cl
      using that sample_credential [of "''POST''" "[''api'', ''v1'', ''repos'', ''r'', ''push'']" "[]"]
      by (auto simp: requested_tenant_def h [unfolded push_to_def] push_to_def sample_verified a)
    show "rt_Endpoint rt \<noteq> CreateTenantR" if "find_route (push_to []) = Some rt" for rt
      using that by (auto simp: sample_routes route_of_def)
  qed (rule sample_quiet)
  then show ?thesis by (simp add: sample_state_def push_world_def push_db_def)
qed

section \<open>The process\<close>

definition no_calls :: "(unit, world) boot_calls" where
  "no_calls = \<lparr>bc_NewLocalDriver = (\<lambda>_. efail (Ext ''none'')), bc_ParseConfig = (\<lambda>_. Inl (Ext ''none'')), bc_NewAzureTokenProvider = (\<lambda>_ _. efail (Ext ''none'')),
     bc_ParseDuration = (\<lambda>_. Inl (Ext ''none'')), bc_Migrate = (\<lambda>_ _. efail (Ext ''none'')), bc_Seed = (\<lambda>_ _ _ _. efail (Ext ''none'')),
     bc_Open = (\<lambda>_ _. efail (Ext ''none''))\<rparr>"

definition bare_options :: "world gateway_options" where
  "bare_options = \<lparr>go_verifier = None, go_driver = None, go_store = None, go_preview = None, go_merge = None, go_assets = None,
     go_branches = None, go_workspaces = None, go_packWindow = None, go_indexWindow = None, go_manifestWindow = None\<rparr>"

lemma bare_main: "main (\<lambda>_. '''') no_calls () = (Inr (Serving ''8080'' bare_options), ())"
  by (simp add: main_def start_driver_def start_store_def start_dev_def bare_options_def defaultPort_def eret_def ebind_def)

theorem any_token_is_admin_witness:
  "\<exists>cl :: Claims. Authenticate (g_verifier (New (on_db go_now) (\<lambda>_. '''') any_lib no_json server_env bare_options))
      (RequireRole RoleAdmin (\<lambda>x r. respond 200 [] NoBody)) (fresh_context (push_to [])) (push_to []) = (respond 200 [] NoBody :: world hres) \<and>
     cm_Role cl = RoleAdmin \<and> cm_Subject cl = ''tok''"
proof -
  have c: "ExtractCredential (rq_Headers (push_to [])) = Inr \<lparr>cred_Kind = CredentialKindBearer, cred_Token = ''tok''\<rparr>"
    unfolding push_to_def by (rule sample_credential)
  have a: "RoleAdmin \<in> {RoleViewer, RoleContributor, RoleAdmin}" by simp
  obtain cl :: Claims where "Authenticate (g_verifier (New (on_db go_now) (\<lambda>_. '''') any_lib no_json server_env bare_options))
      (RequireRole RoleAdmin (\<lambda>x r. respond 200 [] NoBody)) (fresh_context (push_to [])) (push_to []) = (respond 200 [] NoBody :: world hres)"
      "cm_Role cl = RoleAdmin" "cm_Subject cl = ''tok''"
    using any_token_is_admin [OF bare_main c a, where h = "\<lambda>x r. respond 200 [] NoBody :: world hres" and x = "fresh_context (push_to [])"
      and v = server_env and l = any_lib and j = no_json and now = "on_db go_now"] by auto
  then show ?thesis by blast
qed

end
