(* ===== verification/Migrate_Facts.thy ===== *)
theory Migrate_Facts
  imports Migrate Effects
begin

text \<open>
  What is loaded, what one run of the migrations does, and what any number of replicas migrating at the same time does.
\<close>

section \<open>Loading\<close>

definition migration_ok :: "mig_dir \<Rightarrow> migration \<Rightarrow> bool" where
  "migration_ok d m \<longleftrightarrow> unat (mg_Version m) < 2 ^ 63 \<and>
     (\<exists>digits. migrationFileNamePattern (mg_FileName m) = Some (digits, mg_Name m) \<and> ParseUint digits = Inr (mg_Version m)) \<and>
     mf_ReadFile d (mg_FileName m) = Inr (mg_SQL m) \<and> mg_Checksum m = checksumSQL (mg_SQL m) \<and>
     (mg_Destructive m \<longleftrightarrow> mg_Name m \<noteq> ''baseline'' \<and> is_destructive (mg_SQL m)) \<and>
     (mg_Destructive m \<longrightarrow> destructiveConfirmationName (mg_SQL m) = Some (mg_RetirementConfirmation m))"

lemma load_migration_Inr:
  assumes "load_migration d (name, isDir) acc = Inr acc'"
  shows "if isDir then acc' = acc else \<exists>m. acc' = acc @ [m] \<and> mg_FileName m = name \<and> migration_ok d m \<and> mg_Version m \<notin> mg_Version ` set acc"
  using assms unfolding load_migration_def migration_ok_def
  by (auto simp: Let_def rbind_Inr_iff rwrap_Inr_iff split: if_splits option.splits)

lemma load_migrations_Inr:
  assumes "rfold entries acc (load_migration d) = Inr ms" and "distinct (map mg_Version acc)" and "\<forall>m \<in> set acc. migration_ok d m"
  shows "distinct (map mg_Version ms) \<and> (\<forall>m \<in> set ms. migration_ok d m) \<and>
    mg_FileName ` set ms = mg_FileName ` set acc \<union> {name. (name, False) \<in> set entries}"
  using assms
proof (induction entries arbitrary: acc)
  case (Cons en entries)
  obtain name isDir where en: "en = (name, isDir)" by (cases en)
  from Cons.prems(1) obtain acc' where one: "load_migration d (name, isDir) acc = Inr acc'" and rest: "rfold entries acc' (load_migration d) = Inr ms"
    by (auto simp: rbind_Inr_iff en)
  note step = load_migration_Inr [OF one]
  show ?case
  proof (cases isDir)
    case True
    with step have "acc' = acc" by simp
    with Cons.IH [OF rest] Cons.prems True show ?thesis by (auto simp: en)
  next
    case False
    with step obtain m where m: "acc' = acc @ [m]" "mg_FileName m = name" "migration_ok d m" "mg_Version m \<notin> mg_Version ` set acc" by auto
    have "distinct (map mg_Version acc')" "\<forall>m \<in> set acc'. migration_ok d m" using Cons.prems(2,3) m by auto
    from Cons.IH [OF rest this] m False show ?thesis by (auto simp: en)
  qed
qed simp


section \<open>One migration\<close>

definition recorded_rows :: "'s mig_db \<Rightarrow> applied_row list" where
  "recorded_rows w = (case mt_migrations (md_tabs w) of None \<Rightarrow> [] | Some rs \<Rightarrow> rs)"

definition versions_of :: "'s mig_db \<Rightarrow> uint64 set" where
  "versions_of w = ap_version ` set (recorded_rows w)"

definition schema_of :: "'s mig_db \<Rightarrow> 's" where
  "schema_of w = mt_schema (md_tabs w)"

text \<open>The migration is applied and recorded, and nothing else changes.\<close>

definition applies :: "'s sql_exec \<Rightarrow> migration \<Rightarrow> 's mig_db \<Rightarrow> 's mig_db \<Rightarrow> bool" where
  "applies exec m w w' \<longleftrightarrow> mg_Version m \<notin> versions_of w \<and>
     (mg_Destructive m \<longrightarrow> (\<exists>cs. mt_confirmed (md_tabs w) = Some cs \<and> mg_RetirementConfirmation m \<in> fst ` set cs)) \<and>
     exec (mg_SQL m) (schema_of w) = Inr (schema_of w') \<and> recorded_rows w' = recorded_rows w @ [row_of m] \<and>
     mt_confirmed (md_tabs w') = mt_confirmed (md_tabs w)"

lemma mig_sql_Inr:
  "mig_sql s f w = (Inr x, w') \<longleftrightarrow> (\<exists>t. \<not> md_fault w (md_calls w) \<and> f (md_tabs w) = Inr (x, t) \<and> w' = (mig_tick w)\<lparr>md_tabs := t\<rparr>)"
  by (auto simp: mig_sql_def split: sum.splits prod.splits)

lemma mig_sql_Inl: "mig_sql s f w = (Inl e, w') \<Longrightarrow> md_tabs w' = md_tabs w"
  by (auto simp: mig_sql_def mig_tick_def split: sum.splits prod.splits if_splits)

lemma mig_tick_tabs [simp]: "md_tabs (mig_tick w) = md_tabs w"
  by (simp add: mig_tick_def)

lemma mig_commit_tabs: "mig_commit w0 w = (r, w') \<Longrightarrow> md_tabs w' = md_tabs w \<or> (\<exists>e. r = Inl e) \<and> md_tabs w' = md_tabs w0"
  by (auto simp: mig_commit_def split: if_splits)

lemma mig_tx_cases:
  assumes "mig_tx fn w = (r, w')"
  obtains (undone) e where "r = Inl e" "md_tabs w' = md_tabs w"
  | (whole) w0 u w1 where "md_tabs w0 = md_tabs w" "fn w0 = (Inr u, w1)" "md_tabs w' = md_tabs w1"
proof (cases "mig_sql ''begin'' (\<lambda>t. Inr ((), t)) w")
  case (Pair b w0)
  have w0: "md_tabs w0 = md_tabs w" using Pair by (cases b) (auto simp: mig_sql_Inr dest: mig_sql_Inl)
  show ?thesis
  proof (cases b)
    case (Inl e)
    with assms Pair w0 that(1) show ?thesis by (auto simp: mig_tx_def ewrap_def ecatch_def efail_def)
  next
    case (Inr u)
    obtain f w1 where f: "fn w0 = (f, w1)" by (cases "fn w0")
    show ?thesis
    proof (cases f)
      case (Inl e)
      with assms Pair \<open>b = Inr u\<close> f that(1) show ?thesis by (auto simp: mig_tx_def ewrap_def ecatch_def)
    next
      case (Inr v)
      obtain k w2 where k: "mig_commit w w1 = (k, w2)" by (cases "mig_commit w w1")
      have "w' = w2" "\<exists>e. r = Inl e" if "k = Inl e" for e
        using assms Pair \<open>b = Inr u\<close> f Inr k that by (auto simp: mig_tx_def ewrap_def ecatch_def efail_def)
      moreover have "w' = w2" if "k = Inr e" for e
        using assms Pair \<open>b = Inr u\<close> f Inr k that by (auto simp: mig_tx_def ewrap_def ecatch_def efail_def)
      ultimately have "md_tabs w' = md_tabs w1 \<or> (\<exists>e. r = Inl e) \<and> md_tabs w' = md_tabs w"
        using mig_commit_tabs [OF k] by (cases k) auto
      with that w0 f Inr show ?thesis by blast
    qed
  qed
qed

lemma applyMigration_cases:
  assumes "applyMigration exec m w = (r, w')"
  obtains (undone) e where "r = Inl e" "md_tabs w' = md_tabs w"
  | (whole) s rs where "exec (mg_SQL m) (schema_of w) = Inr s" "mt_migrations (md_tabs w) = Some rs" "mg_Version m \<notin> ap_version ` set rs"
      "md_tabs w' = (md_tabs w)\<lparr>mt_schema := s, mt_migrations := Some (rs @ [row_of m])\<rparr>"
proof -
  obtain r' where tx: "mig_tx (ebind (ewrap ''apply'' (mig_sql ''apply'' (\<lambda>t. rbind (exec (mg_SQL m) (mt_schema t)) (\<lambda>s. Inr ((), t\<lparr>mt_schema := s\<rparr>))))) (\<lambda>_.
      ewrap ''record applied migration'' (record_migration m))) w = (r', w')" and r: "r' = Inl e \<Longrightarrow> \<exists>e. r = Inl e" for e
    using assms by (auto simp: applyMigration_def ewrap_def ecatch_def efail_def split: prod.splits sum.splits)
  from tx show ?thesis
  proof (cases rule: mig_tx_cases)
    case (undone e)
    with r that(1) show ?thesis by blast
  next
    case (whole w0 u w1)
    then have "\<exists>s rs. exec (mg_SQL m) (schema_of w) = Inr s \<and> mt_migrations (md_tabs w) = Some rs \<and> mg_Version m \<notin> ap_version ` set rs \<and>
        md_tabs w' = (md_tabs w)\<lparr>mt_schema := s, mt_migrations := Some (rs @ [row_of m])\<rparr>"
      by (auto simp: ebind_Inr_iff ewrap_Inr_iff mig_sql_Inr record_migration_def rbind_Inr_iff schema_of_def split: option.splits if_split_asm)
    then show ?thesis using that(2) by blast
  qed
qed

lemma isRetirementConfirmed_tabs: "isRetirementConfirmed n w = (r, w') \<Longrightarrow> md_tabs w' = md_tabs w \<and>
    (r = Inr True \<longrightarrow> (\<exists>cs. mt_confirmed (md_tabs w) = Some cs \<and> n \<in> fst ` set cs))"
  by (auto simp: isRetirementConfirmed_def ewrap_def ecatch_def efail_def mig_sql_def split: prod.splits sum.splits if_splits option.splits)

lemma migrate_one_cases:
  assumes "migrate_one exec applied m acc w = (r, w')"
  obtains (known) c where "applied (mg_Version m) = Some c" "md_tabs w' = md_tabs w" "\<And>acc'. r = Inr acc' \<Longrightarrow> acc' = acc \<and> c = mg_Checksum m"
  | (failed) e where "r = Inl e" "applied (mg_Version m) = None" "md_tabs w' = md_tabs w"
  | (new) "applied (mg_Version m) = None" "applies exec m w w'" "\<And>acc'. r = Inr acc' \<Longrightarrow> acc' = acc @ [mg_FileName m]"
proof (cases "applied (mg_Version m)")
  case (Some c)
  with assms that(1) show ?thesis by (auto simp: migrate_one_def eret_def efail_def split: if_splits)
next
  case None
  define gate where "gate = (if mg_Destructive m then ebind (isRetirementConfirmed (mg_RetirementConfirmation m)) (\<lambda>confirmed.
       eassert confirmed (Wrapf ''postgres: migrate'' (Pg ErrRetirementNotConfirmed))) else (eret () :: ('a mig_db, unit) eff))"
  obtain g w1 where g: "gate w = (g, w1)" by (cases "gate w")
  have w1: "md_tabs w1 = md_tabs w \<and> (g = Inr () \<longrightarrow> mg_Destructive m \<longrightarrow> (\<exists>cs. mt_confirmed (md_tabs w) = Some cs \<and> mg_RetirementConfirmation m \<in> fst ` set cs))"
    using g by (auto simp: gate_def ebind_def eret_def eassert_def efail_def split: if_splits prod.splits sum.splits dest!: isRetirementConfirmed_tabs)
  show ?thesis
  proof (cases g)
    case (Inl e)
    with assms None g w1 that(2) show ?thesis by (auto simp: migrate_one_def gate_def [symmetric] ebind_def)
  next
    case (Inr u)
    obtain a w2 where a: "applyMigration exec m w1 = (a, w2)" by (cases "applyMigration exec m w1")
    have r: "w' = w2" "r = (case a of Inl e \<Rightarrow> Inl e | Inr _ \<Rightarrow> Inr (acc @ [mg_FileName m]))"
      using assms None g Inr a by (auto simp: migrate_one_def gate_def [symmetric] ebind_def eret_def split: sum.splits)
    from a show ?thesis
    proof (cases rule: applyMigration_cases)
      case (undone e)
      with r w1 None that(2) show ?thesis by simp
    next
      case (whole s rs)
      then have "applies exec m w w'" using w1 Inr r by (auto simp: applies_def versions_of_def recorded_rows_def schema_of_def)
      then show ?thesis using that(3) None r by (auto split: sum.splits)
    qed
  qed
qed

text \<open>The checksum recorded for a version, as the runner reads it.\<close>

definition recorded_checksum :: "'s mig_db \<Rightarrow> uint64 \<rightharpoonup> string" where
  "recorded_checksum w = map_of (rev (map (\<lambda>r. (ap_version r, ap_checksum r)) (recorded_rows w)))"

definition confirmed_names :: "'s mig_db \<Rightarrow> string set" where
  "confirmed_names w = (case mt_confirmed (md_tabs w) of None \<Rightarrow> {} | Some cs \<Rightarrow> fst ` set cs)"

lemma recorded_checksum_None: "recorded_checksum w v = None \<longleftrightarrow> v \<notin> versions_of w"
  by (simp add: recorded_checksum_def versions_of_def map_of_eq_None_iff image_image)

lemma recorded_checksum_grow:
  assumes "recorded_rows w' = recorded_rows w @ map row_of ms" and "distinct (map mg_Version ms)"
  shows "m \<in> set ms \<Longrightarrow> recorded_checksum w' (mg_Version m) = Some (mg_Checksum m)"
    "v \<notin> mg_Version ` set ms \<Longrightarrow> recorded_checksum w' v = recorded_checksum w v"
proof -
  have d: "distinct (map fst (rev (map (\<lambda>r. (ap_version r, ap_checksum r)) (map row_of ms))))"
    using assms(2) by (simp add: rev_map [symmetric] comp_def row_of_def)
  have "map_of (rev (map (\<lambda>r. (ap_version r, ap_checksum r)) (map row_of ms))) (mg_Version m) = Some (mg_Checksum m)" if "m \<in> set ms"
    by (rule map_of_is_SomeI [OF d]) (use that in \<open>auto simp: row_of_def image_iff\<close>)
  then show "m \<in> set ms \<Longrightarrow> recorded_checksum w' (mg_Version m) = Some (mg_Checksum m)"
    by (simp add: recorded_checksum_def assms(1) map_add_Some_iff)
  have "map_of (rev (map (\<lambda>r. (ap_version r, ap_checksum r)) (map row_of ms))) v = None" if "v \<notin> mg_Version ` set ms"
    using that by (auto simp: map_of_eq_None_iff row_of_def image_image)
  then show "v \<notin> mg_Version ` set ms \<Longrightarrow> recorded_checksum w' v = recorded_checksum w v"
    by (auto simp: recorded_checksum_def assms(1) map_add_def split: option.splits)
qed

lemma load_tracking_cases:
  assumes "load_tracking w = (r, w')"
  shows "recorded_rows w' = recorded_rows w" "schema_of w' = schema_of w" "confirmed_names w' = confirmed_names w" "md_fault w' = md_fault w"
    "r = Inr applied \<Longrightarrow> applied = recorded_checksum w" "(\<And>n. \<not> md_fault w n) \<Longrightarrow> r = Inr (recorded_checksum w)"
  using assms
  by (auto simp: load_tracking_def ebind_def ewrap_def ecatch_def efail_def bootstrapTrackingTablesSQL_def loadAppliedMigrations_def mig_sql_def
    mig_tick_def recorded_rows_def schema_of_def recorded_checksum_def confirmed_names_def split: prod.splits sum.splits if_splits option.splits)

lemma appliesD:
  assumes "applies exec m w w'"
  shows "mg_Version m \<notin> versions_of w" "mg_Destructive m \<Longrightarrow> mg_RetirementConfirmation m \<in> confirmed_names w"
    "exec (mg_SQL m) (schema_of w) = Inr (schema_of w')" "recorded_rows w' = recorded_rows w @ [row_of m]" "confirmed_names w' = confirmed_names w"
    "versions_of w' = insert (mg_Version m) (versions_of w)"
  using assms unfolding applies_def confirmed_names_def versions_of_def by (auto simp: row_of_def image_iff) force

lemma same_tabs:
  assumes "md_tabs w' = md_tabs w"
  shows "recorded_rows w' = recorded_rows w" "schema_of w' = schema_of w" "confirmed_names w' = confirmed_names w" "versions_of w' = versions_of w"
  using assms by (simp_all add: recorded_rows_def schema_of_def confirmed_names_def versions_of_def)

section \<open>Several replicas\<close>

definition pending :: "applied_row list \<Rightarrow> migration list \<Rightarrow> migration list" where
  "pending rows ms = filter (\<lambda>m. mg_Version m \<notin> ap_version ` set rows) ms"

definition replay :: "'s sql_exec \<Rightarrow> migration list \<Rightarrow> 's \<Rightarrow> goerr + 's" where
  "replay exec ms s = rfold ms s (\<lambda>m. exec (mg_SQL m))"

lemma replay_snoc: "replay exec (ms @ [m]) s = rbind (replay exec ms s) (exec (mg_SQL m))"
proof -
  have "rfold (ms @ [m]) s (\<lambda>m. exec (mg_SQL m)) = rbind (rfold ms s (\<lambda>m. exec (mg_SQL m))) (exec (mg_SQL m))"
  proof (induction ms arbitrary: s)
    case Nil
    show ?case by (cases "exec (mg_SQL m) s") auto
  next
    case (Cons x ms)
    then show ?case by (cases "exec (mg_SQL x) s") auto
  qed
  then show ?thesis by (simp add: replay_def)
qed

text \<open>The database has the first \<open>k\<close> of the migrations that were pending.\<close>

definition advanced :: "'s sql_exec \<Rightarrow> migration list \<Rightarrow> 's mig_db \<Rightarrow> 's mig_db \<Rightarrow> nat \<Rightarrow> bool" where
  "advanced exec ms w0 w k \<longleftrightarrow> (let new = take k (pending (recorded_rows w0) ms) in
     recorded_rows w = recorded_rows w0 @ map row_of new \<and> replay exec new (schema_of w0) = Inr (schema_of w) \<and>
     confirmed_names w = confirmed_names w0 \<and> (\<forall>m \<in> set new. mg_Destructive m \<longrightarrow> mg_RetirementConfirmation m \<in> confirmed_names w0))"

lemma advanced_same: "advanced exec ms w0 w k \<Longrightarrow> recorded_rows w' = recorded_rows w \<Longrightarrow> schema_of w' = schema_of w \<Longrightarrow>
    confirmed_names w' = confirmed_names w \<Longrightarrow> advanced exec ms w0 w' k"
  by (simp add: advanced_def Let_def)

lemma advanced_versions:
  "advanced exec ms w0 w k \<Longrightarrow> versions_of w = versions_of w0 \<union> mg_Version ` set (take k (pending (recorded_rows w0) ms))"
  by (simp add: advanced_def Let_def versions_of_def row_of_def image_Un image_image)

lemma advanced_next:
  assumes adv: "advanced exec ms w0 w k" and d: "distinct (map mg_Version ms)" and ms: "ms = past @ m # rest"
    and past: "\<And>p. p \<in> set past \<Longrightarrow> mg_Version p \<in> versions_of w" and app: "applies exec m w w'"
  shows "advanced exec ms w0 w' (Suc k)"
proof -
  let ?new = "\<lambda>xs. pending (recorded_rows w0) xs" and ?P = "pending (recorded_rows w0) ms"
  note v = advanced_versions [OF adv] and a = appliesD [OF app]
  have m: "mg_Version m \<notin> versions_of w0" "mg_Version m \<notin> mg_Version ` set (take k ?P)" using a(1) v by auto
  have P: "?P = ?new past @ m # ?new rest" using m(1) by (simp add: ms pending_def versions_of_def)
  have dP: "distinct (map mg_Version ?P)" using d by (simp add: pending_def distinct_map_filter)
  have "k = length (?new past)"
  proof (rule linorder_cases [of k "length (?new past)"])
    assume "length (?new past) < k"
    then have "m \<in> set (take k ?P)" by (simp add: P take_Cons')
    with m(2) show ?thesis by blast
  next
    assume less: "k < length (?new past)"
    then have "?new past ! k \<in> set (?new past)" by simp
    then have "mg_Version (?new past ! k) \<in> versions_of w" "mg_Version (?new past ! k) \<notin> versions_of w0"
      using past by (auto simp: pending_def versions_of_def)
    then have "mg_Version (?P ! k) \<in> mg_Version ` set (take k ?P)" using v less by (simp add: P nth_append)
    then obtain x where x: "x \<in> set (take k ?P)" "mg_Version x = mg_Version (?P ! k)" by auto
    from x(1) obtain j where "j < k" "j < length ?P" "?P ! j = x" by (auto simp: in_set_conv_nth)
    moreover have "k < length ?P" using less by (simp add: P)
    ultimately show ?thesis using dP x(2) by (auto simp: distinct_conv_nth)
  qed simp
  then have "take (Suc k) ?P = take k ?P @ [m]" by (simp add: P)
  with adv a show ?thesis by (auto simp: advanced_def Let_def replay_snoc)
qed

definition replica_ok :: "migration list \<Rightarrow> 's mig_db \<Rightarrow> replica \<Rightarrow> bool" where
  "replica_ok ms w r \<longleftrightarrow> (case r of
       Running applied rest acc \<Rightarrow> (\<forall>v. applied v \<noteq> None \<longrightarrow> v \<in> versions_of w) \<and> (\<exists>past. ms = past @ rest \<and> mg_Version ` set past \<subseteq> versions_of w)
     | Finished acc \<Rightarrow> mg_Version ` set ms \<subseteq> versions_of w
     | _ \<Rightarrow> True)"

lemma replica_ok_mono: "replica_ok ms w r \<Longrightarrow> versions_of w \<subseteq> versions_of w' \<Longrightarrow> replica_ok ms w' r"
  by (cases r) (auto simp: replica_ok_def)

definition fleet_ok :: "'s sql_exec \<Rightarrow> migration list \<Rightarrow> 's mig_db \<Rightarrow> 's mig_db \<times> (nat \<Rightarrow> replica) \<Rightarrow> bool" where
  "fleet_ok exec ms w0 c \<longleftrightarrow> (case c of (w, rs) \<Rightarrow> (\<exists>k. advanced exec ms w0 w k) \<and> (\<forall>i. replica_ok ms w (rs i)))"

lemma fleet_replica_step:
  assumes step: "replica_step exec ms c c'" and ok: "fleet_ok exec ms w0 c" and d: "distinct (map mg_Version ms)"
  shows "fleet_ok exec ms w0 c'"
proof -
  have keep: "fleet_ok exec ms w0 (w', rs(i := r))"
    if "fleet_ok exec ms w0 (w, rs)" "recorded_rows w' = recorded_rows w" "schema_of w' = schema_of w" "confirmed_names w' = confirmed_names w"
      "replica_ok ms w' r" for w w' :: "'a mig_db" and rs i r
    using that advanced_same [of exec ms w0 w _ w'] by (auto simp: fleet_ok_def versions_of_def intro: replica_ok_mono [of ms w])
  have move: "fleet_ok exec ms w0 (w', rs(i := r))"
    if fleet: "fleet_ok exec ms w0 (w, rs)" and ri: "rs i = Running applied (m # rest) acc" and run: "migrate_one exec applied m acc w = (q, w')"
      and r: "r = (case q of Inl e \<Rightarrow> Broken e | Inr acc' \<Rightarrow> Running applied rest acc')" for w w' :: "'a mig_db" and rs i applied m rest acc q r
  proof -
    obtain k where adv: "advanced exec ms w0 w k" using fleet by (auto simp: fleet_ok_def)
    have "replica_ok ms w (rs i)" using fleet by (simp add: fleet_ok_def)
    then obtain past where ms: "ms = past @ m # rest" and past: "mg_Version ` set past \<subseteq> versions_of w"
      and applied: "\<And>v. applied v \<noteq> None \<Longrightarrow> v \<in> versions_of w" by (auto simp: ri replica_ok_def)
    have next_ok: "replica_ok ms w' r" if "versions_of w \<subseteq> versions_of w'" "mg_Version m \<in> versions_of w' \<or> (\<exists>e. q = Inl e)"
      using that past applied ms by (auto simp: r replica_ok_def intro!: exI [of _ "past @ [m]"] split: sum.splits)
    from run show ?thesis
    proof (cases rule: migrate_one_cases)
      case (known c)
      note t = same_tabs [OF known(2)]
      show ?thesis by (rule keep [OF fleet t(1-3) next_ok]) (use t applied known(1) in auto)
    next
      case (failed e)
      note t = same_tabs [OF failed(3)]
      show ?thesis by (rule keep [OF fleet t(1-3) next_ok]) (use t failed(1) in auto)
    next
      case new
      note a = appliesD [OF new(2)]
      have "advanced exec ms w0 w' (Suc k)" by (rule advanced_next [OF adv d ms _ new(2)]) (use past in auto)
      moreover have "replica_ok ms w' (rs j)" for j
        using fleet a(6) by (intro replica_ok_mono [of ms w "rs j" w']) (auto simp: fleet_ok_def)
      moreover have "replica_ok ms w' r" by (rule next_ok) (use a(6) in auto)
      ultimately show ?thesis by (auto simp: fleet_ok_def)
    qed
  qed
  show ?thesis using step
  proof (cases rule: replica_step.cases)
    case (starting rs i w applied w')
    note t = load_tracking_cases [OF starting(4)]
    have "replica_ok ms w' (Running applied ms [])"
      using t by (auto simp: replica_ok_def versions_of_def recorded_checksum_None [unfolded versions_of_def])
    then show ?thesis using keep [OF _ t(1,2,3)] ok starting by simp
  next
    case (not_starting rs i w e w')
    note t = load_tracking_cases [OF not_starting(4)]
    show ?thesis using keep [OF _ t(1,2,3)] ok not_starting by (simp add: replica_ok_def)
  next
    case (migrating rs i applied m rest acc w acc' w')
    then show ?thesis using move [where rs = rs and i = i and r = "Running applied rest acc'", OF _ migrating(3,4)] ok by simp
  next
    case (stopping rs i applied m rest acc w e w')
    then show ?thesis using move [where rs = rs and i = i and r = "Broken e", OF _ stopping(3,4)] ok by simp
  next
    case (finishing rs i applied acc w)
    then have "replica_ok ms w (rs i)" using ok unfolding fleet_ok_def by blast
    then have "replica_ok ms w (Finished acc)" by (auto simp: finishing replica_ok_def)
    then show ?thesis using keep [of w rs w] ok finishing by simp
  qed
qed

lemma replicas_fleet: "replicas exec ms w0 c \<Longrightarrow> distinct (map mg_Version ms) \<Longrightarrow> fleet_ok exec ms w0 c"
proof (induction rule: replicas.induct)
  case all_waiting
  have "advanced exec ms w0 w0 0" by (simp add: advanced_def replay_def)
  then show ?case by (auto simp: fleet_ok_def replica_ok_def)
next
  case (one_more c c')
  then show ?case using fleet_replica_step by blast
qed

lemma loaded_distinct: "loadMigrationsFromFS d = Inr ms \<Longrightarrow> distinct (map mg_Version ms)"
  using load_migrations_Inr by (fastforce simp: loadMigrationsFromFS_def rbind_Inr_iff rwrap_Inr_iff distinct_map)

text \<open>C16: However many replicas migrate at once, each migration is applied once and in order. In every interleaving, and
  whatever statements fail, the migrations recorded beyond those at the start are the first ones of the list that was
  pending then, in ascending order of version and each once; the schema is the one at the start with exactly their SQL
  run, in that order; every destructive one among them had its retirement confirmed. Once any replica has finished, all
  of them are applied.\<close>

theorem replicas_migrate_once:
  assumes "loadMigrationsFromFS d = Inr ms" and "replicas exec ms w0 (w, rs)"
  shows "\<exists>k. recorded_rows w = recorded_rows w0 @ map row_of (take k (pending (recorded_rows w0) ms)) \<and>
    replay exec (take k (pending (recorded_rows w0) ms)) (schema_of w0) = Inr (schema_of w) \<and>
    (\<forall>m \<in> set (take k (pending (recorded_rows w0) ms)). mg_Destructive m \<longrightarrow> mg_RetirementConfirmation m \<in> confirmed_names w0) \<and>
    (\<forall>i acc. rs i = Finished acc \<longrightarrow> take k (pending (recorded_rows w0) ms) = pending (recorded_rows w0) ms)"
proof -
  let ?P = "pending (recorded_rows w0) ms"
  have d: "distinct (map mg_Version ms)" by (rule loaded_distinct [OF assms(1)])
  obtain k where adv: "advanced exec ms w0 w k" and ok: "\<And>i. replica_ok ms w (rs i)"
    using replicas_fleet [OF assms(2) d] by (auto simp: fleet_ok_def)
  have "take k ?P = ?P" if "rs i = Finished acc" for i acc
  proof (rule ccontr)
    assume "take k ?P \<noteq> ?P"
    then have k: "k < length ?P" by (metis linorder_not_less take_all)
    then have in_ms: "?P ! k \<in> set ?P" by simp
    then have "mg_Version (?P ! k) \<in> versions_of w" "mg_Version (?P ! k) \<notin> versions_of w0"
      using ok [of i] that by (auto simp: replica_ok_def pending_def versions_of_def)
    then obtain x where x: "x \<in> set (take k ?P)" "mg_Version x = mg_Version (?P ! k)" using advanced_versions [OF adv] by auto
    from x(1) obtain j where "j < k" "?P ! j = x" using k by (auto simp: in_set_conv_nth)
    moreover have "distinct (map mg_Version ?P)" using d by (simp add: pending_def distinct_map_filter)
    ultimately show False using k x(2) by (auto simp: distinct_conv_nth)
  qed
  with adv show ?thesis by (auto simp: advanced_def Let_def)
qed

section \<open>One run\<close>

lemma migrate_loop:
  assumes "efold rest acc (migrate_one exec applied) w = (Inr names, w')" and "distinct (map mg_Version rest)"
  shows "names = acc @ map mg_FileName (filter (\<lambda>m. applied (mg_Version m) = None) rest) \<and>
    recorded_rows w' = recorded_rows w @ map row_of (filter (\<lambda>m. applied (mg_Version m) = None) rest) \<and>
    replay exec (filter (\<lambda>m. applied (mg_Version m) = None) rest) (schema_of w) = Inr (schema_of w') \<and>
    (\<forall>m \<in> set rest. applied (mg_Version m) \<in> {None, Some (mg_Checksum m)})"
  using assms
proof (induction rest arbitrary: acc w)
  case Nil
  then show ?case by (simp add: replay_def eret_def)
next
  case (Cons m rest)
  then obtain acc1 w1 where one: "migrate_one exec applied m acc w = (Inr acc1, w1)" and rest: "efold rest acc1 (migrate_one exec applied) w1 = (Inr names, w')"
    by (auto simp: ebind_Inr_iff)
  have IH: "names = acc1 @ map mg_FileName (filter (\<lambda>m. applied (mg_Version m) = None) rest) \<and>
    recorded_rows w' = recorded_rows w1 @ map row_of (filter (\<lambda>m. applied (mg_Version m) = None) rest) \<and>
    replay exec (filter (\<lambda>m. applied (mg_Version m) = None) rest) (schema_of w1) = Inr (schema_of w') \<and>
    (\<forall>m \<in> set rest. applied (mg_Version m) \<in> {None, Some (mg_Checksum m)})"
    by (rule Cons.IH [OF rest]) (use Cons.prems(2) in simp)
  from one show ?case
  proof (cases rule: migrate_one_cases)
    case (known c)
    from known(3) [OF refl] have "acc1 = acc" "applied (mg_Version m) = Some (mg_Checksum m)" using known(1) by auto
    with IH show ?thesis by (simp add: same_tabs [OF known(2)])
  next
    case (failed e)
    then show ?thesis by simp
  next
    case new
    have later: "replay exec (m # ms) (schema_of w) = replay exec ms (schema_of w1)" for ms
      by (simp add: replay_def appliesD(3) [OF new(2)])
    have "filter (\<lambda>m. applied (mg_Version m) = None) (m # rest) = m # filter (\<lambda>m. applied (mg_Version m) = None) rest"
      by (simp add: new(1))
    then show ?thesis using IH by (simp only: later new(3) [OF refl] appliesD(4) [OF new(2)]) (simp add: new(1))
  qed
qed

lemma migrate_again:
  assumes "\<And>m. m \<in> set rest \<Longrightarrow> applied (mg_Version m) = Some (mg_Checksum m)"
  shows "efold rest acc (migrate_one exec applied) w = (Inr acc, w)"
  using assms by (induction rest) (auto simp: migrate_one_def eret_def ebind_def)

definition stateless :: "('w, 'a) eff \<Rightarrow> bool" where
  "stateless m \<longleftrightarrow> (\<exists>q. \<forall>w. m w = (q, w))"

lemma stateless_intro:
  "stateless (eret x)" "stateless (efail e)" "stateless (elift q)"
  "stateless m \<Longrightarrow> (\<And>x. stateless (f x)) \<Longrightarrow> stateless (ebind m f)"
  "stateless m \<Longrightarrow> stateless (ewrap s m)"
proof -
  show "stateless (eret x)" "stateless (efail e)" "stateless (elift q)" by (simp_all add: stateless_def eret_def efail_def elift_def)
  show "stateless (ebind m f)" if m: "stateless m" and f: "\<And>x. stateless (f x)"
  proof -
    obtain q where q: "\<And>w. m w = (q, w)" using m by (auto simp: stateless_def)
    show ?thesis
    proof (cases q)
      case (Inl e)
      then show ?thesis by (auto simp: stateless_def ebind_def q)
    next
      case (Inr x)
      then show ?thesis using f [of x] by (auto simp: stateless_def ebind_def q)
    qed
  qed
  show "stateless (ewrap s m)" if m: "stateless m"
  proof -
    obtain q where q: "\<And>w. m w = (q, w)" using m by (auto simp: stateless_def)
    show ?thesis by (cases q) (auto simp: stateless_def ewrap_def ecatch_def efail_def q)
  qed
qed

lemma Connect_stateless: "stateless (Connect px c dsn opts)"
  unfolding Connect_def Let_def by (cases c; cases "mo_tokenProvider (migrate_options opts)") (auto intro!: stateless_intro)

lemma stateless_anywhere: "stateless m \<Longrightarrow> m w = (r, w') \<Longrightarrow> m v = (r, v)"
  by (auto simp: stateless_def)

lemmas Connect_anywhere = stateless_anywhere [OF Connect_stateless]

lemma MigrateAll_split:
  assumes "MigrateAll exec px d c dsn opts w = (Inr names, w')"
  obtains ms w1 where "loadMigrationsFromFS d = Inr ms" "Connect px c dsn opts w = (Inr (), w)" "load_tracking w = (Inr (recorded_checksum w), w1)"
    "efold ms [] (migrate_one exec (recorded_checksum w)) w1 = (Inr names, w')" "c \<noteq> None"
proof -
  obtain ms wc w1 applied where ms: "loadMigrationsFromFS d = Inr ms" and con: "Connect px c dsn opts w = (Inr (), wc)"
    and load: "load_tracking wc = (Inr applied, w1)" and run: "efold ms [] (migrate_one exec applied) w1 = (Inr names, w')" and c: "c \<noteq> None"
    using assms unfolding MigrateAll_def migrateWithMigrations_def prefixedError_def
    by (auto simp: run_inv simp del: elift_iff efold.simps split: if_splits)
  have "wc = w" using con Connect_anywhere [OF con, of w] by simp
  with that ms con load run c load_tracking_cases(5) [OF load refl] show ?thesis by simp
qed

lemma MigrateAll_Inr:
  assumes "MigrateAll exec px d c dsn opts w = (Inr names, w')"
  obtains ms where "loadMigrationsFromFS d = Inr ms" "Connect px c dsn opts w = (Inr (), w)" "c \<noteq> None"
    "names = map mg_FileName (pending (recorded_rows w) ms)" "recorded_rows w' = recorded_rows w @ map row_of (pending (recorded_rows w) ms)"
    "replay exec (pending (recorded_rows w) ms) (schema_of w) = Inr (schema_of w')"
    "\<forall>m \<in> set ms. recorded_checksum w' (mg_Version m) = Some (mg_Checksum m)"
proof -
  obtain ms w1 where ms: "loadMigrationsFromFS d = Inr ms" and con: "Connect px c dsn opts w = (Inr (), w)"
    and load: "load_tracking w = (Inr (recorded_checksum w), w1)"
    and run: "efold ms [] (migrate_one exec (recorded_checksum w)) w1 = (Inr names, w')" and c: "c \<noteq> None"
    by (rule MigrateAll_split [OF assms])
  have dm: "distinct (map mg_Version ms)" by (rule loaded_distinct [OF ms])
  note t = load_tracking_cases [OF load] and loop = migrate_loop [OF run dm]
  have P: "filter (\<lambda>m. recorded_checksum w (mg_Version m) = None) ms = pending (recorded_rows w) ms"
    by (simp add: pending_def recorded_checksum_None versions_of_def)
  have dP: "distinct (map mg_Version (pending (recorded_rows w) ms))" using dm by (simp add: pending_def distinct_map_filter)
  have rows: "recorded_rows w' = recorded_rows w @ map row_of (pending (recorded_rows w) ms)" using loop t(1) P by simp
  have sums: "recorded_checksum w' (mg_Version m) = Some (mg_Checksum m)" if "m \<in> set ms" for m
  proof (cases "m \<in> set (pending (recorded_rows w) ms)")
    case True
    then show ?thesis by (rule recorded_checksum_grow(1) [OF rows dP])
  next
    case False
    then have "mg_Version m \<in> versions_of w" using that by (simp add: pending_def versions_of_def)
    then have "mg_Version m \<notin> mg_Version ` set (pending (recorded_rows w) ms)" by (auto simp: pending_def versions_of_def)
    then have "recorded_checksum w' (mg_Version m) = recorded_checksum w (mg_Version m)" by (rule recorded_checksum_grow(2) [OF rows dP])
    moreover have "recorded_checksum w (mg_Version m) \<noteq> None" using \<open>mg_Version m \<in> versions_of w\<close> by (simp add: recorded_checksum_None)
    ultimately show ?thesis using loop that by auto
  qed
  show thesis by (rule that [OF ms con c _ rows]) (use loop t(2) P sums in auto)
qed

text \<open>C17: A successful migration is complete and final. It applied exactly the migrations no recorded version had, ran
  their SQL in ascending order of version and recorded each with its checksum, and named their files as its result; the
  versions recorded before carry the checksums of the present files. Migrating again over the same files, when no
  statement fails, succeeds with nothing to apply and leaves the schema and the records as they are.\<close>

theorem migration_is_complete_and_final:
  assumes "MigrateAll exec px d c dsn opts w = (Inr names, w')"
  shows "(\<exists>ms. loadMigrationsFromFS d = Inr ms \<and> names = map mg_FileName (pending (recorded_rows w) ms) \<and>
      recorded_rows w' = recorded_rows w @ map row_of (pending (recorded_rows w) ms) \<and>
      replay exec (pending (recorded_rows w) ms) (schema_of w) = Inr (schema_of w') \<and>
      (\<forall>m \<in> set ms. recorded_checksum w' (mg_Version m) = Some (mg_Checksum m))) \<and>
    ((\<forall>n. \<not> md_fault w' n) \<longrightarrow> (\<exists>w2. MigrateAll exec px d c dsn opts w' = (Inr [], w2) \<and>
      recorded_rows w2 = recorded_rows w' \<and> schema_of w2 = schema_of w'))"
proof -
  obtain ms where ms: "loadMigrationsFromFS d = Inr ms" and con: "Connect px c dsn opts w = (Inr (), w)" and c: "c \<noteq> None"
    and names: "names = map mg_FileName (pending (recorded_rows w) ms)" and rows: "recorded_rows w' = recorded_rows w @ map row_of (pending (recorded_rows w) ms)"
    and schema: "replay exec (pending (recorded_rows w) ms) (schema_of w) = Inr (schema_of w')"
    and sums: "\<forall>m \<in> set ms. recorded_checksum w' (mg_Version m) = Some (mg_Checksum m)"
    by (rule MigrateAll_Inr [OF assms])
  have "\<exists>w2. MigrateAll exec px d c dsn opts w' = (Inr [], w2) \<and> recorded_rows w2 = recorded_rows w' \<and> schema_of w2 = schema_of w'"
    if quiet: "\<forall>n. \<not> md_fault w' n"
  proof -
    obtain r w2 where load2: "load_tracking w' = (r, w2)" by (cases "load_tracking w'")
    note t2 = load_tracking_cases [OF load2]
    have con2: "Connect px c dsn opts w' = (Inr (), w')" by (rule Connect_anywhere [OF con])
    have "load_tracking w' = (Inr (recorded_checksum w'), w2)" using load2 t2(6) quiet by simp
    then have "migrateWithMigrations exec px c dsn ms opts w' = (Inr [], w2)"
      unfolding migrateWithMigrations_def prefixedError_def ebind_def ewrap_def ecatch_def
      by (simp add: con2 migrate_again sums)
    then have "MigrateAll exec px d c dsn opts w' = (Inr [], w2)"
      unfolding MigrateAll_def by (simp add: eassert_def c eret_def ebind_def elift_def ms)
    then show ?thesis using t2 by auto
  qed
  with ms names rows schema sums show ?thesis by blast
qed

end
