(* ===== verification/Migrate_Samples.thy ===== *)
theory Migrate_Samples
  imports Migrate_Facts
begin

text \<open>The claims about migrations at a directory of two files and an empty database, whose schema is the list of the texts run.\<close>

definition two_files :: mig_dir where
  "two_files = \<lparr>mf_ReadDir = Inr [(''old'', True), (''2_a.sql'', False), (''1_baseline.sql'', False)],
     mf_ReadFile = (\<lambda>f. if f = ''1_baseline.sql'' then Inr ''DROP TABLE t'' else Inr ''x'')\<rparr>"

definition first_file :: migration where
  "first_file = \<lparr>mg_Version = 1, mg_Name = ''baseline'', mg_FileName = ''1_baseline.sql'', mg_SQL = ''DROP TABLE t'', mg_Checksum = checksumSQL ''DROP TABLE t'',
     mg_Destructive = False, mg_RetirementConfirmation = ''''\<rparr>"

definition second_file :: migration where
  "second_file = \<lparr>mg_Version = 2, mg_Name = ''a'', mg_FileName = ''2_a.sql'', mg_SQL = ''x'', mg_Checksum = checksumSQL ''x'',
     mg_Destructive = False, mg_RetirementConfirmation = ''''\<rparr>"

lemma names_parse:
  "migrationFileNamePattern ''2_a.sql'' = Some (''2'', ''a'')" "migrationFileNamePattern ''1_baseline.sql'' = Some (''1'', ''baseline'')"
  "\<not> is_destructive ''x''" "is_destructive ''drop  Table t''" "\<not> is_destructive ''DROP TABLES''"
  by code_simp+

lemma digits_parse: "ParseUint ''2'' = Inr 2" "ParseUint ''1'' = Inr 1"
  by (simp_all add: ParseUint_def of_char_Char)

lemma two_load: "loadMigrationsFromFS two_files = Inr [first_file, second_file]"
  by (simp add: loadMigrationsFromFS_def two_files_def load_migration_def names_parse digits_parse rwrap_def first_file_def second_file_def word_le_def)

definition gather_sql :: "string list sql_exec" where
  "gather_sql sql s = Inr (s @ [sql])"

definition fresh_db :: "string list mig_db" where
  "fresh_db = \<lparr>md_tabs = \<lparr>mt_schema = [], mt_migrations = None, mt_confirmed = None\<rparr>, md_calls = 0, md_fault = (\<lambda>n. n = 7), md_applied = (\<lambda>_. False)\<rparr>"

lemmas mig_run = load_tracking_def bootstrapTrackingTablesSQL_def loadAppliedMigrations_def migrate_one_def applyMigration_def mig_tx_def mig_commit_def
  record_migration_def mig_sql_def mig_tick_def ebind_def eret_def efail_def ewrap_def ecatch_def row_of_def gather_sql_def

definition tracked_db :: "string list mig_db" where
  "tracked_db = \<lparr>md_tabs = \<lparr>mt_schema = [], mt_migrations = Some [], mt_confirmed = Some []\<rparr>, md_calls = 2, md_fault = (\<lambda>n. n = 7), md_applied = (\<lambda>_. False)\<rparr>"

definition first_db :: "string list mig_db" where
  "first_db = \<lparr>md_tabs = \<lparr>mt_schema = [''DROP TABLE t''], mt_migrations = Some [row_of first_file], mt_confirmed = Some []\<rparr>, md_calls = 6,
     md_fault = (\<lambda>n. n = 7), md_applied = (\<lambda>_. False)\<rparr>"

lemma run_first: "load_tracking fresh_db = (Inr Map.empty, tracked_db)"
  "migrate_one gather_sql Map.empty first_file [] tracked_db = (Inr [''1_baseline.sql''], first_db)"
  by (simp_all add: mig_run fresh_db_def tracked_db_def first_db_def first_file_def)

text \<open>The statement that fails is the second migration's.\<close>

lemma run_second: "\<exists>e w. migrate_one gather_sql Map.empty second_file [''1_baseline.sql''] first_db = (Inl e, w) \<and> md_tabs w = md_tabs first_db"
  by (simp add: mig_run first_db_def second_file_def)


theorem replicas_migrate_once_witness:
  "\<exists>w rs k. replicas gather_sql [first_file, second_file] fresh_db (w, rs) \<and> (\<exists>e. rs 0 = Broken e) \<and>
     recorded_rows w = map row_of (take k [first_file, second_file]) \<and> replay gather_sql (take k [first_file, second_file]) [] = Inr (schema_of w)"
proof -
  let ?ms = "[first_file, second_file]" and ?idle = "\<lambda>_ :: nat. Waiting"
  obtain e w where fails: "migrate_one gather_sql Map.empty second_file [''1_baseline.sql''] first_db = (Inl e, w)" using run_second by blast
  have "replicas gather_sql ?ms fresh_db (tracked_db, ?idle(0 := Running Map.empty ?ms []))"
    by (rule replicas.one_more [OF replicas.all_waiting replica_step.starting [OF _ run_first(1)]]) simp
  then have "replicas gather_sql ?ms fresh_db (first_db, (?idle(0 := Running Map.empty ?ms []))(0 := Running Map.empty [second_file] [''1_baseline.sql'']))"
    by (rule replicas.one_more [OF _ replica_step.migrating [OF _ run_first(2)]]) simp
  then have run: "replicas gather_sql ?ms fresh_db
      (w, ((?idle(0 := Running Map.empty ?ms []))(0 := Running Map.empty [second_file] [''1_baseline.sql'']))(0 := Broken e))"
    by (rule replicas.one_more [OF _ replica_step.stopping [OF _ fails]]) simp
  have "recorded_rows fresh_db = []" "schema_of fresh_db = []" "pending [] ?ms = ?ms"
    by (simp_all add: recorded_rows_def schema_of_def fresh_db_def pending_def)
  with replicas_migrate_once [OF two_load run] run show ?thesis by (metis (no_types, lifting) append_Nil fun_upd_same)
qed

definition calm_db :: "string list mig_db" where
  "calm_db = fresh_db\<lparr>md_fault := (\<lambda>_. False)\<rparr>"

lemma calm_run: "\<exists>w. MigrateAll gather_sql \<lparr>px_ParseConfig = (\<lambda>_. Inr \<lparr>cc_User = [], cc_Password = []\<rparr>), px_ConnectConfig = (\<lambda>_. Inr ())\<rparr> two_files
    (Some \<lparr>ctx_err = None, ctx_tenant = None\<rparr>) ''dsn'' [] calm_db = (Inr [''1_baseline.sql'', ''2_a.sql''], w) \<and> (\<forall>n. \<not> md_fault w n)"
  by (simp add: MigrateAll_def migrateWithMigrations_def prefixedError_def Connect_def migrate_options_def two_load eassert_def elift_def mig_run
    calm_db_def fresh_db_def first_file_def second_file_def)

theorem migration_is_complete_and_final_witness:
  "\<exists>px c w w2. MigrateAll gather_sql px two_files c ''dsn'' [] calm_db = (Inr [''1_baseline.sql'', ''2_a.sql''], w) \<and>
     MigrateAll gather_sql px two_files c ''dsn'' [] w = (Inr [], w2) \<and> schema_of w2 = schema_of w"
  using calm_run migration_is_complete_and_final [THEN conjunct2] by blast

end
