(* ===== verification/Spec2Isabelle.thy ===== *)
theory Spec2Isabelle
  imports Cas_Store Pg_Samples Sync_Samples Sync_Pull_Samples Review_Samples Retention_Samples Native_Samples Native_Push_Samples Server_Samples Migrate_Samples
begin

text \<open>
  \<^bold>\<open>Spool Rack\<close> is the server of a version-control system for semantic graphs: clients push packs of commits and pull
  them, branches are merged by the server, and the content lives in a content-addressed store next to a PostgreSQL
  database with one tenant's rows hidden from another's. This development models the Go code below
  \<open>src/internal/server\<close> and \<open>src/cmd/spool-rack\<close> and proves what makes its parts correct.

  \<^bold>\<open>The parts and how they meet.\<close> A request comes in at the gateway, which authenticates it, finds the tenant, the
  repository and the role, and calls one engine: push, pull, review (preview and finalize), the native push, assets, or
  the store of branches and workspaces. The engines know the store and the content driver only as Go interfaces. Here an
  interface is a record of operations over a world \<open>'w\<close>, an optional capability (a type assertion, a field that may be
  nil) an option; \<open>Rack_World\<close> puts the local driver and the PostgreSQL store into these records over one world of files
  and tables, and \<open>Gateway\<close> builds the gateway of \<open>main\<close> over them. What an engine relies on is a locale, interpreted on
  those records; every claim about an engine is stated for the server's own driver and store.

  \<^bold>\<open>Theories and sources.\<close>

  \<^item> \<open>Rack_Prelude\<close>, \<open>Effects\<close>: errors with \<open>errors.Is\<close> and \<open>errors.As\<close>, the effect type \<open>state \<Rightarrow> (error + result) \<times> state\<close>
    in which all Go functions with side effects are written, its weakest preconditions, and preorders a handler keeps.
    \<open>Hex\<close>, \<open>Go_Text\<close>, \<open>Sha256\<close>: the standard library the code uses on text and digests. \<open>Graph_Types\<close>: the graph of the
    contract library.
  \<^item> \<open>Cas_Path\<close>, \<open>Cas_Local\<close> (\<open>storage/cas/cas.go\<close>, \<open>local.go\<close>): scopes and paths, and the local driver over a file
    system whose every call may fail. \<open>Cas_Store\<close> and \<open>Cas_Content\<close>: integrity of what is stored, read after write,
    separation of scopes, and the driver as an interface.
  \<^item> \<open>Pg_Db\<close>, \<open>Pg_Stmt\<close>, \<open>Pg_Store\<close>, \<open>Pg_Commits\<close>, \<open>Pg_Merge\<close>, \<open>Pg_Native\<close> (\<open>storage/postgres/store.go\<close> and the schema in
    \<open>migrations\<close>): tables, sessions, statements with their constraints and row-level security, transactions, and every
    operation of the store. \<open>Pg_Session\<close> is the locale of what statements and transactions keep; \<open>Pg_Laws\<close> and
    \<open>Pg_Isolation\<close> interpret it for references, history and tenants. \<open>Pg_Props\<close>, \<open>Pg_Refs\<close>, \<open>Pg_Push\<close>, \<open>Pg_Graph\<close>,
    \<open>Pg_Facts\<close>, \<open>Pg_Live\<close>: isolation and atomicity; branches, leases and merges; native publication and its retries;
    ancestry, merge bases and pack ranges against reachability; quotas and deletion; leases can be had again.
  \<^item> \<open>Sync_Frame\<close>, \<open>Sync_Push\<close>, \<open>Sync_Pull\<close> (\<open>sync/framing.go\<close>, \<open>push.go\<close>, \<open>pull.go\<close>) with \<open>Sync_Frame_Facts\<close>, \<open>Sync_Push_Facts\<close>,
    \<open>Sync_Push_Done\<close>, \<open>Sync_Pull_Facts\<close>, \<open>Sync_Pull_Claims\<close>, \<open>Sync_Envelope_Facts\<close>: frames are accepted exactly when they
    are described by a declarative predicate, and encode canonically; a push writes content before metadata and moves a
    branch forward; a pull plan is closed, ordered and finite, and its envelope unambiguous.
  \<^item> \<open>Review_Snapshot\<close>, \<open>Review_Merge\<close>, \<open>Review_Preview\<close>, \<open>Review_Finalize\<close> (\<open>review/snapshot.go\<close>, \<open>engine.go\<close>, \<open>finalize.go\<close>) with
    \<open>Review_Merge_Facts\<close>, \<open>Review_Finalize_Facts\<close>, \<open>Review_Claims\<close>, \<open>Review_Apply\<close>: the merge refines the pointwise
    three-way merge, conflicts are exact, resolutions are honoured, and an applied merge is whole in files and tables.
  \<^item> \<open>Retention\<close> (\<open>retention/retention.go\<close>) and \<open>Retention_Facts\<close>: a collection removes exactly the unreachable packs.
  \<^item> \<open>Native_Frame\<close> (\<open>nativepull/framing.go\<close>), \<open>Native_Push\<close> (\<open>nativeindex/nativeindex.go\<close>, \<open>nativepush/nativepush.go\<close>) with
    their facts: the envelope is exact; what a native push publishes was verified, and it needs its target registered.
  \<^item> \<open>Auth\<close>, \<open>Audit_Log\<close>, \<open>Asset_Service\<close> (\<open>auth\<close>, \<open>audit\<close>, \<open>asset\<close>): roles and credentials; the audit logger as a
    step relation of emitters, its goroutine and \<open>Close\<close>; asset negotiation, upload and opening.
  \<^item> \<open>Gateway_Http\<close>, \<open>Gateway_Handlers\<close>, \<open>Gateway_Admin\<close>, \<open>Gateway\<close> (\<open>gateway\<close>): contexts, error envelopes, middleware,
    every handler, the routes and \<open>New\<close>. \<open>Gateway_Facts\<close>, \<open>Gateway_Claims\<close>, \<open>Gateway_Tenants\<close>: who can change what, across
    all routes; every request is answered.
  \<^item> \<open>Migrations\<close>, \<open>Migrate\<close>, \<open>Migrate_Facts\<close> (\<open>storage/postgres/migrate.go\<close>): the loader with its lint, the runner, and
    replicas that run it at once. \<open>Server_Main\<close> (\<open>cmd/spool-rack/main.go\<close>, \<open>options.go\<close>, \<open>Open\<close> of the store): the process.
  \<^item> The theories named \<open>_Samples\<close> apply the claims at concrete states.

  \<^bold>\<open>State and failure.\<close> Tables are lists of rows, files a map from paths to bytes. Each system call and statement counts
  up a call number; a schedule, which the theorems quantify over, says which calls fail, and for COMMIT whether it took
  effect all the same. Clocks and random bytes are further schedules. Transactions run one after the other: the code locks
  the branch row it moves (\<open>FOR UPDATE\<close>), and the claims about interleavings are those of sequences of store operations,
  of the audit logger and of migrating replicas. A Go panic is the value None of an operation, and no response of a
  handler. Errors keep their wrapping, which \<open>errors.Is\<close> inspects; their texts keep the literal parts only.

  \<^bold>\<open>Bounds and fuel.\<close> Integers have the width of the code where it matters (quotas and sizes are 64-bit words, with the
  wrap-around in the quota test). Ancestry walks have the code's limits of 100 and 200000 commits. The rounds of planning a
  pull take fuel: one round more than there are registered pack ranges is enough, which is proved and used to show that
  every request is answered; fuel that runs out is None, never a result. The recursive query on pack ranges is followed
  for as many levels as there are rows, enough on acyclic ranges; on a cycle, where PostgreSQL would not finish, it is a
  statement that fails.

  \<^bold>\<open>Parameters.\<close> Not under \<open>src\<close>, and so arguments of the definitions that use them: the contract library (content
  identifiers, commit identities, its validators and pack format), canonical CBOR and JSON, BLAKE3, zstd, multipart
  framing and \<open>http.ServeContent\<close>, the file system and PostgreSQL as far as not described above, pgx and the Azure SDK. The
  order in which Go enumerates a map is a parameter too. \<open>sort.Slice\<close> is modelled as a stable sort. Lower-casing changes ASCII letters only.

  \<^bold>\<open>Not modelled.\<close> \<open>storage/postgres/auth.go\<close>, which picks credentials of the Azure SDK; log lines, timeouts and the
  listener; physical concurrency of transactions below the level of the locks just named; tests, charts and
  infrastructure.
\<close>

end
